(* ===== verification/Prelude.thy ===== *)
theory Prelude
  imports Main "HOL-Library.Word"
begin

text \<open>
  What every component shares: the result type with Rust's two failure modes (an error
  value and a panic), 64-bit arithmetic on natural numbers with the wrap-around, the
  saturation and the checks of the Rust operators written out, sub-slices and splices of
  byte vectors, and the number formatting of \<open>format!\<close>.

  A \<open>u64\<close> (and a \<open>usize\<close>, on the 64-bit targets) is a \<open>nat\<close>: lengths of lists and offsets
  into them are then the same numbers, and each operator that can leave the 64-bit range
  is one of the functions below. Plain \<open>+\<close> is used where the code's own guard bounds the
  sum by a \<open>u64\<close> it already holds; \<open>-\<close> on \<open>nat\<close> is exactly \<open>saturating_sub\<close>.
\<close>

unbundle bit_operations_syntax

named_theorems u64_simps \<open>arithmetic of the 64-bit operators inside their range\<close>
named_theorems slice_simps \<open>lengths and elements of slices and splices\<close>

type_synonym byte = "8 word"
type_synonym bytes = "8 word list"

subsection \<open>Results: a value, an error, or a panic\<close>

datatype ('e, 'a) res = Ok 'a | Err 'e | Panic

text \<open>The \<open>?\<close> operator.\<close>

fun res_bind :: "('e, 'a) res \<Rightarrow> ('a \<Rightarrow> ('e, 'b) res) \<Rightarrow> ('e, 'b) res" where
  "res_bind (Ok a) f = f a"
| "res_bind (Err e) f = Err e"
| "res_bind Panic f = Panic"

fun map_err :: "('e \<Rightarrow> 'f) \<Rightarrow> ('e, 'a) res \<Rightarrow> ('f, 'a) res" where
  "map_err g (Ok a) = Ok a"
| "map_err g (Err e) = Err (g e)"
| "map_err g Panic = Panic"

text \<open>\<open>Result::expect\<close>: an error becomes a panic.\<close>

fun res_expect :: "('e, 'a) res \<Rightarrow> ('f, 'a) res" where
  "res_expect (Ok a) = Ok a"
| "res_expect (Err e) = Panic"
| "res_expect Panic = Panic"

text \<open>\<open>Result::ok\<close>: an error becomes \<open>None\<close>; a panic has no value either.\<close>

fun res_ok :: "('e, 'a) res \<Rightarrow> 'a option" where
  "res_ok (Ok a) = Some a"
| "res_ok (Err e) = None"
| "res_ok Panic = None"

lemma res_bind_Ok_iff [simp]:
  "res_bind r f = Ok b \<longleftrightarrow> (\<exists>a. r = Ok a \<and> f a = Ok b)"
  by (cases r) auto

lemma res_bind_Ok2 [simp]: "res_bind r Ok = r"
  by (cases r) auto

lemma res_bind_assoc: "res_bind (res_bind r f) g = res_bind r (\<lambda>a. res_bind (f a) g)"
  by (cases r) auto

lemma map_err_Ok_iff [simp]: "map_err g r = Ok a \<longleftrightarrow> r = Ok a"
  by (cases r) auto

lemma map_err_Panic_iff [simp]: "map_err g r = Panic \<longleftrightarrow> r = Panic"
  by (cases r) auto

subsection \<open>64-bit arithmetic\<close>

definition u64_max :: nat where
  "u64_max = 2 ^ 64 - 1"

definition wadd64 :: "nat \<Rightarrow> nat \<Rightarrow> nat" where
  "wadd64 a b = (a + b) mod 2 ^ 64"

definition wsub64 :: "nat \<Rightarrow> nat \<Rightarrow> nat" where
  "wsub64 a b = (if b \<le> a then a - b else a + 2 ^ 64 - b)"

definition sat_add64 :: "nat \<Rightarrow> nat \<Rightarrow> nat" where
  "sat_add64 a b = min (a + b) u64_max"

definition sat_mul64 :: "nat \<Rightarrow> nat \<Rightarrow> nat" where
  "sat_mul64 a b = min (a * b) u64_max"

definition checked_add64 :: "nat \<Rightarrow> nat \<Rightarrow> nat option" where
  "checked_add64 a b = (if a + b \<le> u64_max then Some (a + b) else None)"

definition div_ceil :: "nat \<Rightarrow> nat \<Rightarrow> nat" where
  "div_ceil a b = (if a mod b > 0 then a div b + 1 else a div b)"

lemma le_u64_max_iff: "a \<le> u64_max \<longleftrightarrow> a < 2 ^ 64"
  by (simp add: u64_max_def) (auto simp: less_Suc_eq_le)

lemma u64_max_Suc: "Suc u64_max = 2 ^ 64"
  by (simp add: u64_max_def)

lemma wadd64_small [u64_simps]: "a + b < 2 ^ 64 \<Longrightarrow> wadd64 a b = a + b"
  by (simp add: wadd64_def)

lemma wadd64_wraps: "2 ^ 64 \<le> a + b \<Longrightarrow> a < 2 ^ 64 \<Longrightarrow> b < 2 ^ 64 \<Longrightarrow> wadd64 a b = a + b - 2 ^ 64"
  by (simp add: wadd64_def mod_if)

lemma wadd64_bound: "wadd64 a b < 2 ^ 64"
  by (simp add: wadd64_def)

lemma wsub64_small [u64_simps]: "b \<le> a \<Longrightarrow> wsub64 a b = a - b"
  by (simp add: wsub64_def)

lemma wsub64_bound: "a < 2 ^ 64 \<Longrightarrow> wsub64 a b < 2 ^ 64"
  by (simp add: wsub64_def) arith

lemma sat_add64_small [u64_simps]: "a + b < 2 ^ 64 \<Longrightarrow> sat_add64 a b = a + b"
  by (simp add: sat_add64_def u64_max_def)

lemma sat_add64_le_iff: "n < u64_max \<Longrightarrow> sat_add64 a b \<le> n \<longleftrightarrow> a + b \<le> n"
  by (auto simp: sat_add64_def min_def)

lemma sat_mul64_small [u64_simps]: "a * b < 2 ^ 64 \<Longrightarrow> sat_mul64 a b = a * b"
  by (simp add: sat_mul64_def u64_max_def)

lemma sat_bounds: "sat_add64 a b \<le> u64_max" "sat_mul64 a b \<le> u64_max"
  by (simp_all add: sat_add64_def sat_mul64_def)

lemma checked_add64_Some_iff [simp]:
  "checked_add64 a b = Some c \<longleftrightarrow> c = a + b \<and> a + b < 2 ^ 64"
  by (auto simp: checked_add64_def le_u64_max_iff)

lemma checked_add64_None_iff [simp]: "checked_add64 a b = None \<longleftrightarrow> 2 ^ 64 \<le> a + b"
  using le_u64_max_iff [of "a + b"] by (auto simp: checked_add64_def)

lemma div_ceil_bounds:
  assumes "0 < b"
  shows "a \<le> div_ceil a b * b" and "div_ceil a b * b < a + b"
proof -
  have eq: "a = a div b * b + a mod b" by simp
  show "a \<le> div_ceil a b * b"
  proof (cases "a mod b = 0")
    case True
    then show ?thesis using eq by (simp add: div_ceil_def)
  next
    case False
    then have "div_ceil a b * b = a div b * b + b" by (simp add: div_ceil_def)
    then show ?thesis using eq mod_less_divisor [OF assms, of a] by linarith
  qed
  show "div_ceil a b * b < a + b"
  proof (cases "a mod b = 0")
    case True
    then show ?thesis using eq assms by (simp add: div_ceil_def)
  next
    case False
    then have "div_ceil a b * b = a div b * b + b" by (simp add: div_ceil_def)
    then show ?thesis using eq False by linarith
  qed
qed

subsection \<open>Slices and splices\<close>

text \<open>\<open>xs[a..b]\<close> inside the bounds, and with Rust's bounds check.\<close>

definition slice :: "nat \<Rightarrow> nat \<Rightarrow> 'a list \<Rightarrow> 'a list" where
  "slice a b xs = take (b - a) (drop a xs)"

definition slice_res :: "nat \<Rightarrow> nat \<Rightarrow> 'a list \<Rightarrow> ('e, 'a list) res" where
  "slice_res a b xs = (if a \<le> b \<and> b \<le> length xs then Ok (slice a b xs) else Panic)"

text \<open>\<open>Vec::splice(off..off + n, ins)\<close> inside the bounds.\<close>

definition splice_list :: "nat \<Rightarrow> nat \<Rightarrow> 'a list \<Rightarrow> 'a list \<Rightarrow> 'a list" where
  "splice_list off n ins xs = take off xs @ ins @ drop (off + n) xs"

text \<open>\<open>xs[a..a + n].copy_from_slice(ys)\<close>: panics out of range or on a length mismatch.\<close>

definition copy_into :: "nat \<Rightarrow> nat \<Rightarrow> 'a list \<Rightarrow> 'a list \<Rightarrow> ('e, 'a list) res" where
  "copy_into a n ys xs =
     (if a + n \<le> length xs \<and> length ys = n then Ok (splice_list a n ys xs) else Panic)"

lemma length_slice [simp, slice_simps]: "length (slice a b xs) = min (b - a) (length xs - a)"
  by (simp add: slice_def)

lemma slice_empty [simp]: "b \<le> a \<Longrightarrow> slice a b xs = []"
  by (simp add: slice_def)

lemma slice_Nil [simp]: "slice a b [] = []"
  by (simp add: slice_def)

lemma slice_0 [simp]: "slice 0 n xs = take n xs"
  by (simp add: slice_def)

lemma slice_all: "length xs \<le> n \<Longrightarrow> slice 0 n xs = xs"
  by (simp add: slice_def)

lemma slice_nth [simp, slice_simps]: "a + i < b \<Longrightarrow> b \<le> length xs \<Longrightarrow> slice a b xs ! i = xs ! (a + i)"
  by (simp add: slice_def)

lemma slice_append: "a \<le> b \<Longrightarrow> b \<le> c \<Longrightarrow> slice a b xs @ slice b c xs = slice a c xs"
proof -
  assume "a \<le> b" "b \<le> c"
  then have eq: "c - a = (b - a) + (c - b)" "drop b xs = drop (b - a) (drop a xs)" by simp_all
  show ?thesis unfolding slice_def eq take_add ..
qed

lemma slice_slice: "c + b' \<le> b \<Longrightarrow> slice a' b' (slice c b xs) = slice (c + a') (c + b') xs"
proof -
  assume "c + b' \<le> b"
  then have "min (b' - a') (b - c - a') = b' - a'" by simp
  then show ?thesis by (simp add: slice_def drop_take add.commute)
qed

lemma slice_single: "a < length xs \<Longrightarrow> slice a (Suc a) xs = [xs ! a]"
  by (simp add: slice_def take_Suc hd_drop_conv_nth)

lemma slice_drop: "slice a b (drop c xs) = slice (c + a) (c + b) xs"
  by (simp add: slice_def add.commute)

lemma take_slice_drop: "a \<le> b \<Longrightarrow> take a xs @ slice a b xs @ drop b xs = xs"
proof -
  assume ab: "a \<le> b"
  have "slice a b xs @ drop b xs = drop a xs"
    using ab append_take_drop_id [of "b - a" "drop a xs"] by (simp add: slice_def)
  then show ?thesis by simp
qed

lemma slice_append_lists:
  "slice a b (xs @ ys) = slice a b xs @ slice (a - length xs) (b - length xs) ys"
proof -
  have "b - a - (length xs - a) = (b - length xs) - (a - length xs)" by linarith
  then show ?thesis by (simp add: slice_def)
qed

lemma slice_min_length: "length xs \<le> n \<Longrightarrow> slice a (min b n) xs = slice a b xs"
  by (cases "b \<le> n") (simp_all add: slice_def)

lemma slice_res_Ok_iff [simp]:
  "slice_res a b xs = Ok ys \<longleftrightarrow> a \<le> b \<and> b \<le> length xs \<and> ys = slice a b xs"
  by (auto simp: slice_res_def)

lemma length_splice_list [simp, slice_simps]:
  "off + n \<le> length xs \<Longrightarrow> length (splice_list off n ins xs) = length xs - n + length ins"
  by (simp add: splice_list_def)

lemma splice_list_nth:
  assumes "off + n \<le> length xs" "i < length xs - n + length ins"
  shows "splice_list off n ins xs ! i =
    (if i < off then xs ! i
     else if i < off + length ins then ins ! (i - off)
     else xs ! (i - length ins + n))"
proof -
  have len: "length (take off xs) = off" using assms(1) by simp
  consider "i < off" | "off \<le> i" "i < off + length ins" | "off + length ins \<le> i" by linarith
  then show ?thesis
  proof cases
    case 1
    then show ?thesis using len by (simp add: splice_list_def nth_append)
  next
    case 2
    then have "i - off < length ins" by linarith
    with 2 len show ?thesis by (simp add: splice_list_def nth_append)
  next
    case 3
    then have "off + n + (i - off - length ins) = i - length ins + n" by linarith
    moreover from 3 have "\<not> i < off" "\<not> i - off < length ins" by linarith+
    ultimately show ?thesis
      using 3 len assms by (simp add: splice_list_def nth_append)
  qed
qed

lemma splice_list_same_nth:
  assumes "length ins = n" "off + n \<le> length xs" "i < length xs"
  shows "splice_list off n ins xs ! i = (if off \<le> i \<and> i < off + n then ins ! (i - off) else xs ! i)"
  using assms splice_list_nth [of off n xs i ins] by auto

lemma splice_list_inverse:
  assumes "off + n \<le> length xs"
  shows "splice_list off (length ins) (slice off (off + n) xs) (splice_list off n ins xs) = xs"
  using assms take_slice_drop [of off "off + n" xs] by (simp add: splice_list_def min_def)

lemma slice_splice_list:
  assumes "off + n \<le> length xs"
  shows "slice off (off + length ins) (splice_list off n ins xs) = ins"
  using assms by (simp add: splice_list_def slice_def min_def)

lemma splice_list_same: "off + n \<le> length xs \<Longrightarrow> splice_list off n (slice off (off + n) xs) xs = xs"
  using take_slice_drop [of off "off + n" xs] by (simp add: splice_list_def)

lemma copy_into_Ok_iff [simp]:
  "copy_into a n ys xs = Ok zs \<longleftrightarrow> a + n \<le> length xs \<and> length ys = n \<and> zs = splice_list a n ys xs"
  by (auto simp: copy_into_def)

subsection \<open>Number formatting\<close>

definition digit_char :: "nat \<Rightarrow> char" where
  "digit_char d = (if d < 10 then char_of (48 + d) else char_of (55 + d))"

text \<open>The digits of \<open>n\<close> in base \<open>b\<close>, most significant first, upper case (\<open>{}\<close>, \<open>{:X}\<close>, \<open>{:o}\<close>).\<close>

function radix_str :: "nat \<Rightarrow> nat \<Rightarrow> string" where
  "radix_str b n =
     (if n < b \<or> b < 2 then [digit_char n] else radix_str b (n div b) @ [digit_char (n mod b)])"
  by pat_completeness auto
termination
  by (relation "measure (\<lambda>(b, n). n)") auto

declare radix_str.simps [simp del]

definition dec_str :: "nat \<Rightarrow> string" where
  "dec_str n = radix_str 10 n"

definition hex_str :: "nat \<Rightarrow> string" where
  "hex_str n = ''0x'' @ radix_str 16 n"

text \<open>\<open>{:02X}\<close> of a byte.\<close>

definition hex2 :: "byte \<Rightarrow> string" where
  "hex2 b = [digit_char (unat b div 16), digit_char (unat b mod 16)]"

text \<open>\<open>iter.collect::<Vec<_>>().join(sep)\<close>.\<close>

fun join :: "string \<Rightarrow> string list \<Rightarrow> string" where
  "join sep [] = []"
| "join sep [x] = x"
| "join sep (x # y # ys) = x @ sep @ join sep (y # ys)"

end
