(* ===== verification/Geometry.thy ===== *)
theory Geometry
  imports Prelude
begin

text \<open>
  \<open>hxy-core\<close>: \<open>geometry.rs\<close>, \<open>error.rs\<close>, \<open>selection.rs\<close>. Offsets, lengths and row indices
  are the \<open>u64\<close> their newtypes wrap; a \<open>ByteRange\<close> is the record of its two ends, and its
  invariant \<open>start \<le> end\<close> is what the constructors establish.
\<close>

type_synonym byte_offset = nat
type_synonym byte_len = nat
type_synonym row_index = nat

text \<open>The display text of a \<open>std::io::Error\<close>.\<close>

type_synonym io_error = string

record byte_range =
  br_start :: byte_offset
  br_end :: byte_offset

datatype hex_error =
    OutOfBounds byte_range byte_offset
  | InvalidRange byte_offset byte_offset
  | ZeroColumns
  | Io byte_range io_error
  | NotPrimed byte_range nat

subsection \<open>Offsets and ranges\<close>

definition checked_add_len :: "byte_offset \<Rightarrow> byte_len \<Rightarrow> byte_offset option" where
  "checked_add_len off len = checked_add64 off len"

definition saturating_add_len :: "byte_offset \<Rightarrow> byte_len \<Rightarrow> byte_offset" where
  "saturating_add_len off len = sat_add64 off len"

definition is_zero :: "byte_len \<Rightarrow> bool" where
  "is_zero len \<longleftrightarrow> len = 0"

definition range_new :: "byte_offset \<Rightarrow> byte_offset \<Rightarrow> (hex_error, byte_range) res" where
  "range_new s e =
     (if s > e then Err (InvalidRange s e) else Ok \<lparr>br_start = s, br_end = e\<rparr>)"

definition from_offset_and_len :: "byte_offset \<Rightarrow> byte_len \<Rightarrow> (hex_error, byte_range) res" where
  "from_offset_and_len s len =
     (case checked_add_len s len of
        None \<Rightarrow> Err (InvalidRange s u64_max)
      | Some e \<Rightarrow> Ok \<lparr>br_start = s, br_end = e\<rparr>)"

definition range_len :: "byte_range \<Rightarrow> byte_len" where
  "range_len r = wsub64 (br_end r) (br_start r)"

definition range_is_empty :: "byte_range \<Rightarrow> bool" where
  "range_is_empty r \<longleftrightarrow> br_start r = br_end r"

definition range_contains :: "byte_range \<Rightarrow> byte_offset \<Rightarrow> bool" where
  "range_contains r off \<longleftrightarrow> br_start r \<le> off \<and> off < br_end r"

text \<open>The invariant of the type: ordered ends, both \<open>u64\<close>.\<close>

definition range_wf :: "byte_range \<Rightarrow> bool" where
  "range_wf r \<longleftrightarrow> br_start r \<le> br_end r \<and> br_end r < 2 ^ 64"

lemma range_new_Ok_iff [simp]:
  "range_new s e = Ok r \<longleftrightarrow> s \<le> e \<and> r = \<lparr>br_start = s, br_end = e\<rparr>"
  by (auto simp: range_new_def)

lemma range_new_le [simp]: "s \<le> e \<Longrightarrow> range_new s e = Ok \<lparr>br_start = s, br_end = e\<rparr>"
  by (simp add: range_new_def)

lemma range_new_not_Panic [simp]: "range_new s e \<noteq> Panic"
  by (simp add: range_new_def)

lemma range_new_wf: "range_new s e = Ok r \<Longrightarrow> e < 2 ^ 64 \<Longrightarrow> range_wf r"
  by (auto simp: range_wf_def)

lemma from_offset_and_len_wf: "from_offset_and_len s len = Ok r \<Longrightarrow> range_wf r"
  by (auto simp: from_offset_and_len_def checked_add_len_def range_wf_def split: option.splits)

lemma from_offset_and_len_len:
  "from_offset_and_len s len = Ok r \<Longrightarrow> br_start r = s \<and> range_len r = len"
  by (auto simp: from_offset_and_len_def checked_add_len_def range_len_def u64_simps
      split: option.splits)

subsection \<open>Display\<close>

definition show_offset :: "byte_offset \<Rightarrow> string" where
  "show_offset off = hex_str off"

definition show_len :: "byte_len \<Rightarrow> string" where
  "show_len len = dec_str len @ '' bytes''"

definition show_range :: "byte_range \<Rightarrow> string" where
  "show_range r = show_offset (br_start r) @ ''..'' @ show_offset (br_end r)"

fun show_error :: "hex_error \<Rightarrow> string" where
  "show_error (OutOfBounds r len) =
     ''range '' @ show_range r @ '' exceeds source length '' @ show_offset len"
| "show_error (InvalidRange s e) =
     ''invalid range: start '' @ show_offset s @ '' > end '' @ show_offset e"
| "show_error ZeroColumns = ''column count must be non-zero''"
| "show_error (Io r src) = ''I/O error while reading '' @ show_range r"
| "show_error (NotPrimed r c) =
     ''source not primed for '' @ show_range r @ '' (chunk '' @ dec_str c @ '' missing)''"

subsection \<open>Columns and rows\<close>

text \<open>\<open>ColumnCount\<close> wraps a \<open>NonZeroU16\<close>: a number in \<open>1..65535\<close>.\<close>

type_synonym column_count = nat

definition default_columns :: column_count where
  "default_columns = 16"

definition column_count_new :: "nat \<Rightarrow> (hex_error, column_count) res" where
  "column_count_new cols = (if cols = 0 then Err ZeroColumns else Ok cols)"

definition columns_wf :: "column_count \<Rightarrow> bool" where
  "columns_wf c \<longleftrightarrow> 0 < c \<and> c < 2 ^ 16"

lemma column_count_new_wf: "column_count_new c = Ok c' \<Longrightarrow> c < 2 ^ 16 \<Longrightarrow> columns_wf c'"
  by (auto simp: column_count_new_def columns_wf_def split: if_splits)

definition row_start_offset :: "row_index \<Rightarrow> column_count \<Rightarrow> byte_offset" where
  "row_start_offset row cols = sat_mul64 row cols"

lemma row_start_offset_div: "row_start_offset (off div c) c \<le> off"
proof -
  have "row_start_offset (off div c) c \<le> off div c * c"
    unfolding row_start_offset_def sat_mul64_def by (rule min.cobounded1)
  also have "\<dots> \<le> off" by simp
  finally show ?thesis .
qed

datatype row_slot = RealRow nat nat | GapRow

definition slot_is_gap :: "row_slot \<Rightarrow> bool" where
  "slot_is_gap s = (case s of GapRow \<Rightarrow> True | RealRow _ _ \<Rightarrow> False)"

fun slot_byte_range :: "row_slot \<Rightarrow> (nat \<times> nat) option" where
  "slot_byte_range (RealRow off len) = Some (off, wadd64 off len)"
| "slot_byte_range GapRow = None"

fun slot_covers :: "nat \<Rightarrow> row_slot \<Rightarrow> bool" where
  "slot_covers b (RealRow off len) = (off \<le> b \<and> b < wadd64 off len)"
| "slot_covers b GapRow = False"

fun row_for_byte :: "row_slot list \<Rightarrow> nat \<Rightarrow> nat option" where
  "row_for_byte [] b = None"
| "row_for_byte (s # ss) b =
     (if slot_covers b s then Some 0 else map_option Suc (row_for_byte ss b))"

lemma row_for_byte_Some:
  "row_for_byte ss b = Some i \<longleftrightarrow>
     i < length ss \<and> slot_covers b (ss ! i) \<and> (\<forall>j < i. \<not> slot_covers b (ss ! j))"
proof (induction ss arbitrary: i)
  case Nil
  then show ?case by simp
next
  case (Cons s ss)
  show ?case
  proof (cases i)
    case 0
    then show ?thesis by (cases "slot_covers b s") simp_all
  next
    case (Suc k)
    have "row_for_byte (s # ss) b = Some (Suc k) \<longleftrightarrow> \<not> slot_covers b s \<and> row_for_byte ss b = Some k"
      by simp
    then show ?thesis
      using Suc Cons.IH [of k] by (simp add: All_less_Suc2) blast
  qed
qed

lemma row_for_byte_None: "row_for_byte ss b = None \<longleftrightarrow> (\<forall>s \<in> set ss. \<not> slot_covers b s)"
  by (induction ss) auto

subsection \<open>Selections\<close>

record selection =
  sel_anchor :: byte_offset
  sel_cursor :: byte_offset

definition caret :: "byte_offset \<Rightarrow> selection" where
  "caret at = \<lparr>sel_anchor = at, sel_cursor = at\<rparr>"

definition sel_range :: "selection \<Rightarrow> ('e, byte_range) res" where
  "sel_range s =
     (let (st, en) = (if sel_anchor s \<le> sel_cursor s then (sel_anchor s, sel_cursor s)
                      else (sel_cursor s, sel_anchor s))
      in res_expect (range_new st (sat_add64 en 1)))"

definition is_caret :: "selection \<Rightarrow> bool" where
  "is_caret s \<longleftrightarrow> sel_anchor s = sel_cursor s"

definition sel_wf :: "selection \<Rightarrow> bool" where
  "sel_wf s \<longleftrightarrow> sel_anchor s < 2 ^ 64 \<and> sel_cursor s < 2 ^ 64"

lemma caret_simps [simp]:
  "sel_anchor (caret a) = a" "sel_cursor (caret a) = a" "is_caret (caret a)"
  by (simp_all add: caret_def is_caret_def)

lemma sel_range_eq:
  assumes "sel_wf s"
  shows "sel_range s = Ok \<lparr>br_start = min (sel_anchor s) (sel_cursor s),
      br_end = sat_add64 (max (sel_anchor s) (sel_cursor s)) 1\<rparr>"
proof -
  have "x \<le> sat_add64 x 1" if "x < 2 ^ 64" for x
    using that by (auto simp: sat_add64_def u64_max_def min_def)
  then have "min (sel_anchor s) (sel_cursor s) \<le> sat_add64 (max (sel_anchor s) (sel_cursor s)) 1"
    using assms by (fastforce simp: sel_wf_def max_def min_def intro: order_trans)
  then show ?thesis
    using assms by (auto simp: sel_range_def Let_def max_def min_def split: if_splits)
qed

end
