(* ===== verification/Source.thy ===== *)
theory Source
  imports Geometry
begin

text \<open>
  \<open>hxy-core/src/source.rs\<close>: the trait \<open>HexSource\<close> (its length and its read, as the record of
  a trait object), the contract its documentation states (exactly \<open>range.len()\<close> bytes, or
  \<open>OutOfBounds\<close> past the end) as the locale \<open>byte_store\<close>, and the two plain implementations.
\<close>

record hex_source =
  hs_len :: byte_len
  hs_read :: "byte_range \<Rightarrow> (hex_error, bytes) res"

definition hs_is_empty :: "hex_source \<Rightarrow> bool" where
  "hs_is_empty s = is_zero (hs_len s)"

subsection \<open>The contract of a source\<close>

locale byte_store =
  fixes len :: nat
    and rd :: "byte_range \<Rightarrow> (hex_error, bytes) res"
    and content :: bytes
  assumes len_content: "len = length content"
    and read_in: "br_start r \<le> br_end r \<Longrightarrow> br_end r \<le> len \<Longrightarrow>
      rd r = Ok (slice (br_start r) (br_end r) content)"
    and read_out: "len < br_end r \<Longrightarrow> rd r = Err (OutOfBounds r len)"
begin

text \<open>What every client of a source uses.\<close>

lemma read_length:
  "br_start r \<le> br_end r \<Longrightarrow> rd r = Ok bs \<Longrightarrow> length bs = br_end r - br_start r"
  using read_in [of r] read_out [of r] len_content by (cases "br_end r \<le> len") auto

lemma read_never_panics: "br_start r \<le> br_end r \<Longrightarrow> rd r \<noteq> Panic"
  using read_in [of r] read_out [of r] by (cases "br_end r \<le> len") auto

lemma read_Ok_iff:
  "br_start r \<le> br_end r \<Longrightarrow>
     rd r = Ok bs \<longleftrightarrow> br_end r \<le> len \<and> bs = slice (br_start r) (br_end r) content"
  using read_in [of r] read_out [of r] by (cases "br_end r \<le> len") auto

lemma read_byte: "i < len \<Longrightarrow> rd \<lparr>br_start = i, br_end = Suc i\<rparr> = Ok [content ! i]"
  using read_in [of "\<lparr>br_start = i, br_end = Suc i\<rparr>"] len_content by (simp add: slice_single)

lemma read_all: "rd \<lparr>br_start = 0, br_end = len\<rparr> = Ok content"
  using read_in [of "\<lparr>br_start = 0, br_end = len\<rparr>"] len_content by simp

lemma read_adjacent:
  assumes "a \<le> b" "b \<le> c"
    and "rd \<lparr>br_start = a, br_end = b\<rparr> = Ok xs" "rd \<lparr>br_start = b, br_end = c\<rparr> = Ok ys"
  shows "rd \<lparr>br_start = a, br_end = c\<rparr> = Ok (xs @ ys)"
  using assms by (auto simp: read_Ok_iff slice_append)

end

text \<open>A trait object that meets the contract with the given bytes.\<close>

abbreviation stores :: "hex_source \<Rightarrow> bytes \<Rightarrow> bool" where
  "stores s c \<equiv> byte_store (hs_len s) (hs_read s) c"

subsection \<open>In-memory source\<close>

definition memory_read :: "bytes \<Rightarrow> byte_range \<Rightarrow> (hex_error, bytes) res" where
  "memory_read bs r =
     (let source_len = length bs in
      if br_end r > source_len then Err (OutOfBounds r source_len)
      else slice_res (br_start r) (br_end r) bs)"

definition memory_source :: "bytes \<Rightarrow> hex_source" where
  "memory_source bs = \<lparr>hs_len = length bs, hs_read = memory_read bs\<rparr>"

interpretation memory: byte_store "hs_len (memory_source bs)" "hs_read (memory_source bs)" bs
  for bs :: bytes
  by unfold_locales (simp_all add: memory_source_def memory_read_def slice_res_def)

lemma memory_stores [simp]: "stores (memory_source bs) bs"
  by (rule memory.byte_store_axioms)

subsection \<open>Adapter over a positioned reader\<close>

text \<open>
  \<open>ReadAtSource\<close> wraps a \<open>fskit::ReadAt\<close>: the reader is a parameter, a function of the half-open
  range that returns bytes or an I/O error. The length is supplied by the caller.
\<close>

definition read_at_read ::
  "(nat \<Rightarrow> nat \<Rightarrow> (io_error, bytes) res) \<Rightarrow> byte_len \<Rightarrow> byte_range \<Rightarrow> (hex_error, bytes) res" where
  "read_at_read read_at len r =
     (if br_end r > len then Err (OutOfBounds r len)
      else map_err (Io r) (read_at (br_start r) (br_end r)))"

definition read_at_source :: "(nat \<Rightarrow> nat \<Rightarrow> (io_error, bytes) res) \<Rightarrow> byte_len \<Rightarrow> hex_source" where
  "read_at_source read_at len = \<lparr>hs_len = len, hs_read = read_at_read read_at len\<rparr>"

text \<open>A reader that delivers the file's bytes for every range inside it makes the adapter a source.\<close>

lemma read_at_stores:
  assumes "len = length content"
    and "\<And>a b. a \<le> b \<Longrightarrow> b \<le> len \<Longrightarrow> read_at a b = Ok (slice a b content)"
  shows "stores (read_at_source read_at len) content"
  by unfold_locales (use assms in \<open>simp_all add: read_at_source_def read_at_read_def\<close>)

end
