(* ===== verification/Patched.thy ===== *)
theory Patched
  imports Source
begin

text \<open>
  \<open>hxy-core/src/patched.rs\<close>: a source that overlays a patch on a base source. The patch type is
  the \<open>suture\<close> crate's, which is not part of the repository: the record \<open>suture\<close> holds the
  operations the code calls on it, every definition that uses a patch takes such a record, and
  the documented behaviour of those operations is the predicate \<open>suture_laws\<close>.

  \<open>render\<close> is the meaning of a list of splices on the base bytes; \<open>patched_stores\<close> shows that
  the windowed walk of \<open>PatchedSource::read\<close> delivers exactly the bytes of that meaning, so that
  a patched source meets the contract of a source again.
\<close>

subsection \<open>Patches\<close>

text \<open>One splice, in coordinates of the base: the three fields the code reads.\<close>

record splice_op =
  op_offset :: nat
  op_old_len :: nat
  op_new_bytes :: bytes

definition splice_op :: "nat \<Rightarrow> nat \<Rightarrow> bytes \<Rightarrow> splice_op" where
  "splice_op off k bs = \<lparr>op_offset = off, op_old_len = k, op_new_bytes = bs\<rparr>"

lemma splice_op_sel [simp]:
  "op_offset (splice_op a k bs) = a" "op_old_len (splice_op a k bs) = k"
  "op_new_bytes (splice_op a k bs) = bs"
  by (simp_all add: splice_op_def)

record ('p, 'm) suture =
  s_new :: 'p
  s_with_metadata :: "'m \<Rightarrow> 'p"
  s_metadata :: "'p \<Rightarrow> 'm option"
  s_is_empty :: "'p \<Rightarrow> bool"
  s_ops :: "'p \<Rightarrow> splice_op list"
  s_output_len :: "'p \<Rightarrow> nat \<Rightarrow> nat"
  s_write :: "'p \<Rightarrow> nat \<Rightarrow> bytes \<Rightarrow> string + 'p"
  s_splice :: "'p \<Rightarrow> nat \<Rightarrow> nat \<Rightarrow> bytes \<Rightarrow> string + 'p"
  s_insert :: "'p \<Rightarrow> nat \<Rightarrow> bytes \<Rightarrow> string + 'p"
  s_delete :: "'p \<Rightarrow> nat \<Rightarrow> nat \<Rightarrow> string + 'p"

text \<open>Splices in order from the source position \<open>sc\<close>, all inside a base of \<open>n\<close> bytes.\<close>

fun ops_in :: "splice_op list \<Rightarrow> nat \<Rightarrow> nat \<Rightarrow> bool" where
  "ops_in [] sc n \<longleftrightarrow> sc \<le> n"
| "ops_in (op # ops) sc n \<longleftrightarrow>
     sc \<le> op_offset op \<and> ops_in ops (op_offset op + op_old_len op) n"

text \<open>The bytes a list of splices makes of the base, from the source position \<open>sc\<close> on.\<close>

fun render :: "splice_op list \<Rightarrow> nat \<Rightarrow> bytes \<Rightarrow> bytes" where
  "render [] sc c = drop sc c"
| "render (op # ops) sc c =
     slice sc (op_offset op) c @ op_new_bytes op @ render ops (op_offset op + op_old_len op) c"

fun ops_end :: "splice_op list \<Rightarrow> nat \<Rightarrow> nat" where
  "ops_end [] sc = sc"
| "ops_end (op # ops) sc = ops_end ops (op_offset op + op_old_len op)"

definition lp_op :: "splice_op \<Rightarrow> bool" where
  "lp_op op \<longleftrightarrow> length (op_new_bytes op) = op_old_len op"

definition ops_out_len :: "splice_op list \<Rightarrow> nat \<Rightarrow> nat" where
  "ops_out_len ops n =
     n + sum_list (map (length \<circ> op_new_bytes) ops) - sum_list (map op_old_len ops)"

text \<open>\<open>os\<close> means what \<open>os'\<close> means: it fits where \<open>os'\<close> fits and makes the same bytes there.\<close>

definition same_splices :: "splice_op list \<Rightarrow> splice_op list \<Rightarrow> bool" where
  "same_splices os os' \<longleftrightarrow>
     (os = [] \<longleftrightarrow> os' = []) \<and> (list_all lp_op os' \<longrightarrow> list_all lp_op os) \<and>
     (\<forall>n. ops_in os' 0 n \<longrightarrow> ops_in os 0 n) \<and>
     (\<forall>c. ops_in os' 0 (length c) \<longrightarrow> render os 0 c = render os' 0 c)"

text \<open>
  The behaviour of the crate the code relies on: an empty patch has no operation; the output
  length counts the bytes the operations add and remove; a splice, an insertion or a deletion
  that starts where the recorded operations end or later is appended (and may be merged with
  its neighbour); a write over length-preserving operations, when it is accepted, overwrites the
  patched bytes and keeps the operations length-preserving.
\<close>

definition law_empty :: "('p, 'm) suture \<Rightarrow> bool" where
  "law_empty P \<longleftrightarrow>
     s_ops P (s_new P) = [] \<and>
     (\<forall>m. s_ops P (s_with_metadata P m) = [] \<and> s_metadata P (s_with_metadata P m) = Some m) \<and>
     (\<forall>p. s_is_empty P p \<longleftrightarrow> s_ops P p = [])"

definition law_output_len :: "('p, 'm) suture \<Rightarrow> bool" where
  "law_output_len P \<longleftrightarrow>
     (\<forall>p n. ops_in (s_ops P p) 0 n \<longrightarrow> s_output_len P p n = ops_out_len (s_ops P p) n)"

definition appends :: "('p, 'm) suture \<Rightarrow> 'p \<Rightarrow> splice_op \<Rightarrow> string + 'p \<Rightarrow> bool" where
  "appends P p op r \<longleftrightarrow> (\<exists>p'. r = Inr p' \<and> same_splices (s_ops P p') (s_ops P p @ [op]))"

definition law_append :: "('p, 'm) suture \<Rightarrow> bool" where
  "law_append P \<longleftrightarrow>
     (\<forall>p off k bs. ops_end (s_ops P p) 0 \<le> off \<longrightarrow> 0 < k \<or> bs \<noteq> [] \<longrightarrow>
        appends P p (splice_op off k bs) (s_splice P p off k bs)) \<and>
     (\<forall>p off bs. ops_end (s_ops P p) 0 \<le> off \<longrightarrow> bs \<noteq> [] \<longrightarrow>
        appends P p (splice_op off 0 bs) (s_insert P p off bs)) \<and>
     (\<forall>p off k. ops_end (s_ops P p) 0 \<le> off \<longrightarrow> 0 < k \<longrightarrow>
        appends P p (splice_op off k []) (s_delete P p off k))"

definition overwrites :: "('p, 'm) suture \<Rightarrow> 'p \<Rightarrow> nat \<Rightarrow> bytes \<Rightarrow> 'p \<Rightarrow> bool" where
  "overwrites P p off bs p' \<longleftrightarrow>
     list_all lp_op (s_ops P p') \<and>
     (\<forall>c. ops_in (s_ops P p) 0 (length c) \<longrightarrow> off + length bs \<le> length c \<longrightarrow>
        ops_in (s_ops P p') 0 (length c) \<and>
        render (s_ops P p') 0 c = splice_list off (length bs) bs (render (s_ops P p) 0 c))"

definition law_write :: "('p, 'm) suture \<Rightarrow> bool" where
  "law_write P \<longleftrightarrow>
     (\<forall>p off bs p'. list_all lp_op (s_ops P p) \<longrightarrow> s_write P p off bs = Inr p' \<longrightarrow>
        overwrites P p off bs p')"

definition suture_laws :: "('p, 'm) suture \<Rightarrow> bool" where
  "suture_laws P \<longleftrightarrow> law_empty P \<and> law_output_len P \<and> law_append P \<and> law_write P"

subsection \<open>What a list of splices means\<close>

lemma ops_in_le: "ops_in ops sc n \<Longrightarrow> sc \<le> n"
  by (induction ops arbitrary: sc) (auto intro: order_trans [OF _ order_trans [OF le_add1]])

lemma ops_in_end: "ops_in ops sc n \<Longrightarrow> ops_end ops sc \<le> n"
  by (induction ops sc rule: ops_end.induct) auto

lemma ops_in_mono: "ops_in ops sc n \<Longrightarrow> n \<le> m \<Longrightarrow> ops_in ops sc m"
  by (induction ops arbitrary: sc) auto

lemma ops_in_snoc [simp]:
  "ops_in (ops @ [op]) sc n \<longleftrightarrow>
     ops_in ops sc (op_offset op) \<and> op_offset op + op_old_len op \<le> n"
  by (induction ops arbitrary: sc) auto

lemma ops_end_snoc [simp]: "ops_end (ops @ [op]) sc = op_offset op + op_old_len op"
  by (induction ops arbitrary: sc) auto

lemma old_lens_le: "ops_in ops sc n \<Longrightarrow> sum_list (map op_old_len ops) \<le> n - sc"
proof (induction ops arbitrary: sc)
  case Nil
  then show ?case by simp
next
  case (Cons op ops)
  then have "sum_list (map op_old_len ops) \<le> n - (op_offset op + op_old_len op)"
    and "op_offset op + op_old_len op \<le> n" and "sc \<le> op_offset op"
    by (auto intro: ops_in_le)
  then show ?case by simp
qed

lemma length_render:
  "ops_in ops sc (length c) \<Longrightarrow> length (render ops sc c) = ops_out_len ops (length c) - sc"
proof (induction ops arbitrary: sc)
  case Nil
  then show ?case by (simp add: ops_out_len_def)
next
  case (Cons op ops)
  let ?e = "op_offset op + op_old_len op"
  from Cons.prems have le: "?e \<le> length c" "sc \<le> op_offset op"
    and "sum_list (map op_old_len ops) \<le> length c - ?e"
    by (auto intro: ops_in_le old_lens_le)
  with Cons show ?case by (simp add: ops_out_len_def)
qed

lemma render_snoc:
  "ops_in ops sc (op_offset op) \<Longrightarrow> op_offset op \<le> length c \<Longrightarrow>
   render (ops @ [op]) sc c =
     take (length (render ops sc c) - (length c - op_offset op)) (render ops sc c) @
     op_new_bytes op @ drop (op_offset op + op_old_len op) c"
proof (induction ops arbitrary: sc)
  case Nil
  then have "length c - sc - (length c - op_offset op) = op_offset op - sc" by simp
  with Nil show ?case by (simp add: slice_def)
next
  case (Cons o' ops)
  let ?e = "op_offset o' + op_old_len o'"
  from Cons.prems have in': "ops_in ops ?e (op_offset op)" and le: "?e \<le> op_offset op"
    by (auto intro: ops_in_le)
  have len: "length c - op_offset op \<le> length (render ops ?e c)"
  proof -
    from in' Cons.prems(2) have i2: "ops_in ops ?e (length c)" by (auto intro: ops_in_mono)
    have "sum_list (map op_old_len ops) \<le> op_offset op - ?e" by (rule old_lens_le [OF in'])
    then show ?thesis
      using le Cons.prems(2) by (simp add: length_render [OF i2] ops_out_len_def)
  qed
  then show ?case using Cons.IH [OF in' Cons.prems(2)] by simp
qed

lemma render_Nil [simp]: "render [] 0 c = c"
  by simp

lemma render_lp_length:
  "list_all lp_op ops \<Longrightarrow> ops_in ops 0 (length c) \<Longrightarrow> length (render ops 0 c) = length c"
proof -
  assume lp: "list_all lp_op ops" and fit: "ops_in ops 0 (length c)"
  from lp have "map (length \<circ> op_new_bytes) ops = map op_old_len ops"
    by (induction ops) (auto simp: lp_op_def)
  with length_render [OF fit] show ?thesis by (simp add: ops_out_len_def)
qed

lemma ops_in_tight: "ops_in ops sc n \<Longrightarrow> ops_end ops sc \<le> m \<Longrightarrow> ops_in ops sc m"
  by (induction ops arbitrary: sc) auto

lemma render_snoc_lp:
  assumes "list_all lp_op ops" "ops_in ops 0 (op_offset op)" "op_offset op \<le> length c"
  shows "render (ops @ [op]) 0 c =
    take (op_offset op) (render ops 0 c) @ op_new_bytes op @ drop (op_offset op + op_old_len op) c"
proof -
  have "ops_in ops 0 (length c)" using assms(2,3) by (rule ops_in_mono)
  then have "length (render ops 0 c) = length c" using assms(1) by (rule render_lp_length [rotated])
  then have "length (render ops 0 c) - (length c - op_offset op) = op_offset op"
    using assms(3) by simp
  then show ?thesis by (simp only: render_snoc [OF assms(2,3)])
qed

subsection \<open>The laws, one by one\<close>

lemma suture_new_ops: "suture_laws P \<Longrightarrow> s_ops P (s_new P) = []"
  by (simp add: suture_laws_def law_empty_def)

lemma suture_with_metadata:
  "suture_laws P \<Longrightarrow> s_ops P (s_with_metadata P m) = []"
  "suture_laws P \<Longrightarrow> s_metadata P (s_with_metadata P m) = Some m"
  by (simp_all add: suture_laws_def law_empty_def)

lemma suture_is_empty: "suture_laws P \<Longrightarrow> s_is_empty P p \<longleftrightarrow> s_ops P p = []"
  by (simp add: suture_laws_def law_empty_def)

lemma suture_output_len:
  "suture_laws P \<Longrightarrow> ops_in (s_ops P p) 0 n \<Longrightarrow> s_output_len P p n = ops_out_len (s_ops P p) n"
  by (simp add: suture_laws_def law_output_len_def)

lemma suture_splice:
  "suture_laws P \<Longrightarrow> ops_end (s_ops P p) 0 \<le> off \<Longrightarrow> 0 < k \<or> bs \<noteq> [] \<Longrightarrow>
     appends P p (splice_op off k bs) (s_splice P p off k bs)"
  unfolding suture_laws_def law_append_def by blast

lemma suture_insert:
  "suture_laws P \<Longrightarrow> ops_end (s_ops P p) 0 \<le> off \<Longrightarrow> bs \<noteq> [] \<Longrightarrow>
     appends P p (splice_op off 0 bs) (s_insert P p off bs)"
  by (simp add: suture_laws_def law_append_def)

lemma suture_delete:
  "suture_laws P \<Longrightarrow> ops_end (s_ops P p) 0 \<le> off \<Longrightarrow> 0 < k \<Longrightarrow>
     appends P p (splice_op off k []) (s_delete P p off k)"
  by (simp add: suture_laws_def law_append_def)

lemma suture_write:
  "suture_laws P \<Longrightarrow> list_all lp_op (s_ops P p) \<Longrightarrow> s_write P p off bs = Inr p' \<Longrightarrow>
     overwrites P p off bs p'"
  by (simp add: suture_laws_def law_write_def)

lemmas suture_law_simps =
  suture_new_ops suture_with_metadata suture_is_empty suture_output_len

subsection \<open>Reading through the patch\<close>

definition patched_len :: "('p, 'm) suture \<Rightarrow> hex_source \<Rightarrow> 'p \<Rightarrow> nat" where
  "patched_len P base p = s_output_len P p (hs_len base)"

definition patched_is_dirty :: "('p, 'm) suture \<Rightarrow> 'p \<Rightarrow> bool" where
  "patched_is_dirty P p \<longleftrightarrow> \<not> s_is_empty P p"

definition copy_segment_from_base ::
  "hex_source \<Rightarrow> nat \<Rightarrow> nat \<Rightarrow> nat \<Rightarrow> nat \<Rightarrow> nat \<Rightarrow> bytes \<Rightarrow> (hex_error, bytes) res" where
  "copy_segment_from_base base source_offset len output_offset want_start want_end out =
     (let seg_end = output_offset + len in
      if seg_end \<le> want_start \<or> output_offset \<ge> want_end then Ok out
      else
        let local_start = want_start - output_offset;
            local_end = min (want_end - output_offset) len;
            src_start = source_offset + local_start;
            src_end = source_offset + local_end
        in res_bind (res_expect (range_new src_start src_end)) (\<lambda>r.
           res_bind (hs_read base r) (\<lambda>bs. Ok (out @ bs))))"

definition copy_segment_from_slice ::
  "bytes \<Rightarrow> nat \<Rightarrow> nat \<Rightarrow> nat \<Rightarrow> bytes \<Rightarrow> (hex_error, bytes) res" where
  "copy_segment_from_slice bs output_offset want_start want_end out =
     (let len = length bs; seg_end = output_offset + len in
      if seg_end \<le> want_start \<or> output_offset \<ge> want_end then Ok out
      else
        let local_start = want_start - output_offset;
            local_end = min (want_end - output_offset) len
        in res_bind (slice_res local_start local_end bs) (\<lambda>s. Ok (out @ s)))"

text \<open>
  The loop over the operations; the state is the output and source cursors and the bytes
  collected so far.
\<close>

fun patched_walk ::
  "hex_source \<Rightarrow> nat \<Rightarrow> nat \<Rightarrow> splice_op list \<Rightarrow> nat \<Rightarrow> nat \<Rightarrow> bytes \<Rightarrow>
     (hex_error, nat \<times> nat \<times> bytes) res" where
  "patched_walk base ws we [] output_cursor source_cursor out =
     Ok (output_cursor, source_cursor, out)"
| "patched_walk base ws we (op # ops) output_cursor source_cursor out =
     (let pre_len = op_offset op - source_cursor in
      res_bind
        (if pre_len > 0
         then copy_segment_from_base base source_cursor pre_len output_cursor ws we out
         else Ok out) (\<lambda>out.
      let output_cursor = output_cursor + pre_len;
          new_len = length (op_new_bytes op)
      in res_bind
        (if new_len > 0
         then copy_segment_from_slice (op_new_bytes op) output_cursor ws we out
         else Ok out) (\<lambda>out.
      patched_walk base ws we ops (output_cursor + new_len) (op_offset op + op_old_len op) out)))"

definition patched_read ::
  "('p, 'm) suture \<Rightarrow> hex_source \<Rightarrow> 'p \<Rightarrow> byte_range \<Rightarrow> (hex_error, bytes) res" where
  "patched_read P base p r =
     (if s_is_empty P p then hs_read base r
      else
        let want_start = br_start r; want_end = br_end r;
            total_len = s_output_len P p (hs_len base)
        in if want_end > total_len then Err (OutOfBounds r total_len)
           else
             let source_len = hs_len base in
             res_bind (patched_walk base want_start want_end (s_ops P p) 0 0 [])
               (\<lambda>(output_cursor, source_cursor, out).
               if source_cursor < source_len
               then copy_segment_from_base base source_cursor (source_len - source_cursor)
                      output_cursor want_start want_end out
               else Ok out))"

definition patched_source :: "('p, 'm) suture \<Rightarrow> hex_source \<Rightarrow> 'p \<Rightarrow> hex_source" where
  "patched_source P base p = \<lparr>hs_len = patched_len P base p, hs_read = patched_read P base p\<rparr>"

text \<open>The rendered bytes up to the end of the last operation; what follows is base.\<close>

fun ops_body :: "splice_op list \<Rightarrow> nat \<Rightarrow> bytes \<Rightarrow> bytes" where
  "ops_body [] sc c = []"
| "ops_body (op # ops) sc c =
     slice sc (op_offset op) c @ op_new_bytes op @ ops_body ops (op_offset op + op_old_len op) c"

lemma render_body: "render ops sc c = ops_body ops sc c @ drop (ops_end ops sc) c"
  by (induction ops arbitrary: sc) auto

subsection \<open>The window of a segment\<close>

text \<open>The part of a segment at output position \<open>oc\<close> that falls into the wanted window.\<close>

definition clip :: "nat \<Rightarrow> nat \<Rightarrow> nat \<Rightarrow> bytes \<Rightarrow> bytes" where
  "clip ws we oc seg = slice (ws - oc) (we - oc) seg"

lemma clip_append: "clip ws we oc (xs @ ys) = clip ws we oc xs @ clip ws we (oc + length xs) ys"
  by (simp add: clip_def slice_append_lists)

lemma clip_outside:
  "oc + length seg \<le> ws \<or> we \<le> oc \<Longrightarrow> clip ws we oc seg = []"
  by (auto simp: clip_def slice_def)

lemma clip_0: "clip ws we 0 v = slice ws we v"
  by (simp add: clip_def)

lemma clip_min: "slice (ws - oc) (min (we - oc) (length seg)) seg = clip ws we oc seg"
  by (simp add: clip_def slice_min_length)

lemma copy_from_slice_clip:
  assumes "ws \<le> we"
  shows "copy_segment_from_slice bs oc ws we out = Ok (out @ clip ws we oc bs)"
proof (cases "oc + length bs \<le> ws \<or> oc \<ge> we")
  case True
  then show ?thesis by (auto simp: copy_segment_from_slice_def clip_outside Let_def)
next
  case False
  with assms have "ws - oc \<le> min (we - oc) (length bs)" by linarith
  with False show ?thesis
    by (simp add: copy_segment_from_slice_def Let_def slice_res_def clip_min [symmetric])
qed

lemma copy_from_base_clip:
  assumes st: "stores base c" and le: "ws \<le> we" "so + len \<le> length c"
  shows "copy_segment_from_base base so len oc ws we out =
    Ok (out @ clip ws we oc (slice so (so + len) c))"
proof (cases "oc + len \<le> ws \<or> oc \<ge> we")
  case True
  then show ?thesis using le by (auto simp: copy_segment_from_base_def clip_outside Let_def)
next
  case False
  let ?a = "ws - oc" and ?b = "min (we - oc) len"
  from False le have ab: "?a \<le> ?b" and bl: "?b \<le> len" by linarith+
  have len: "length (slice so (so + len) c) = len" using le by simp
  have "hs_read base \<lparr>br_start = so + ?a, br_end = so + ?b\<rparr> = Ok (slice (so + ?a) (so + ?b) c)"
    using byte_store.read_in [OF st, of "\<lparr>br_start = so + ?a, br_end = so + ?b\<rparr>"]
      byte_store.len_content [OF st] ab bl le by simp
  moreover have "slice (so + ?a) (so + ?b) c = slice ?a ?b (slice so (so + len) c)"
    using bl by (simp add: slice_slice)
  moreover have "\<dots> = clip ws we oc (slice so (so + len) c)"
    using clip_min [of ws oc we "slice so (so + len) c"] by (simp only: len)
  ultimately show ?thesis
    using False ab by (simp add: copy_segment_from_base_def Let_def)
qed

text \<open>The walk collects exactly the window of what the operations render.\<close>

lemma patched_walk_body:
  assumes st: "stores base c" and le: "ws \<le> we"
  shows "ops_in ops sc (length c) \<Longrightarrow>
    patched_walk base ws we ops oc sc out =
      Ok (oc + length (ops_body ops sc c), ops_end ops sc, out @ clip ws we oc (ops_body ops sc c))"
proof (induction ops arbitrary: oc sc out)
  case Nil
  then show ?case by (simp add: clip_def)
next
  case (Cons op ops)
  let ?e = "op_offset op + op_old_len op" and ?pre = "slice sc (op_offset op) c"
  let ?new = "op_new_bytes op"
  from Cons.prems have fit: "ops_in ops ?e (length c)" and sc: "sc \<le> op_offset op"
    and off: "op_offset op \<le> length c" by (auto dest: ops_in_le)
  have lpre: "length ?pre = op_offset op - sc" using off by simp
  have pre: "(if op_offset op - sc > 0
      then copy_segment_from_base base sc (op_offset op - sc) oc ws we out else Ok out)
      = Ok (out @ clip ws we oc ?pre)"
    using copy_from_base_clip [OF st le, of sc "op_offset op - sc" oc out] sc off
    by (auto simp: clip_def)
  have new: "(if length ?new > 0
      then copy_segment_from_slice ?new oc1 ws we out1 else Ok out1) =
      (Ok (out1 @ clip ws we oc1 ?new) :: (hex_error, bytes) res)" for oc1 out1
    using copy_from_slice_clip [OF le, of ?new oc1 out1] by (cases ?new) (auto simp: clip_def)
  have "patched_walk base ws we (op # ops) oc sc out =
      patched_walk base ws we ops (oc + (op_offset op - sc) + length ?new) ?e
        ((out @ clip ws we oc ?pre) @ clip ws we (oc + (op_offset op - sc)) ?new)"
    by (simp only: patched_walk.simps Let_def pre new res_bind.simps)
  then show ?case
    by (simp only: Cons.IH [OF fit]) (simp add: clip_append lpre [simplified])
qed

text \<open>A patched source meets the contract of a source, with the rendered bytes as its content.\<close>

lemma patched_stores:
  assumes laws: "suture_laws P" and st: "stores base c" and fit: "ops_in (s_ops P p) 0 (length c)"
  shows "stores (patched_source P base p) (render (s_ops P p) 0 c)"
proof -
  let ?v = "render (s_ops P p) 0 c"
  let ?body = "ops_body (s_ops P p) 0 c" and ?e = "ops_end (s_ops P p) 0"
  have blen: "hs_len base = length c" using byte_store.len_content [OF st] .
  have out: "s_output_len P p (length c) = length ?v"
    using laws fit by (simp add: suture_output_len length_render)
  have e: "?e \<le> length c" using fit by (rule ops_in_end)
  show ?thesis
  proof (unfold_locales, goal_cases)
    case 1
    then show ?case by (simp add: patched_source_def patched_len_def blen out)
  next
    case (2 r)
    then have inr: "br_start r \<le> br_end r" "br_end r \<le> length ?v"
      by (simp_all add: patched_source_def patched_len_def blen out)
    show ?case
    proof (cases "s_ops P p = []")
      case True
      then show ?thesis
        using inr byte_store.read_in [OF st, of r] blen laws
        by (simp add: patched_source_def patched_read_def suture_is_empty)
    next
      case False
      let ?clip = "clip (br_start r) (br_end r)"
      have trail: "copy_segment_from_base base ?e (length c - ?e) oc (br_start r) (br_end r) o1 =
          Ok (o1 @ ?clip oc (drop ?e c))" for oc o1
        using copy_from_base_clip [OF st inr(1), of ?e "length c - ?e" oc o1] e
        by (simp add: slice_def)
      have ne: "\<not> s_is_empty P p" using False laws by (simp add: suture_is_empty)
      have "hs_read (patched_source P base p) r =
          (if ?e < length c then Ok (?clip 0 ?body @ ?clip (length ?body) (drop ?e c))
           else Ok (?clip 0 ?body))"
        using ne inr
        by (simp add: patched_source_def patched_read_def Let_def blen out
            patched_walk_body [OF st inr(1) fit] trail)
      also have "\<dots> = Ok (?clip 0 ?body @ ?clip (length ?body) (drop ?e c))"
        using e by (simp add: clip_def)
      also have "?clip 0 ?body @ ?clip (length ?body) (drop ?e c) = ?clip 0 ?v"
        by (simp add: render_body clip_append)
      finally show ?thesis by (simp only: clip_0)
    qed
  next
    case (3 r)
    then show ?case
      using laws byte_store.read_out [OF st, of r] fit
      by (auto simp: patched_source_def patched_len_def patched_read_def blen out
          suture_is_empty Let_def)
  qed
qed

end
