(* ===== verification/EditState.thy ===== *)
theory EditState
  imports Patched
begin

text \<open>
  \<open>hxy-editor/src/editor.rs\<close>: the editing state of a document. The patch overlay is derived
  from the undo stack; a write that keeps every length is pushed straight into the patch, every
  other change replays the stack over the base and diffs the result. Undo entries coalesce.

  The clock is an argument: \<open>now\<close> is the reading of the monotonic clock in nanoseconds, and
  \<open>duration_since\<close>, which saturates at zero, is the subtraction of \<open>nat\<close>.
\<close>

subsection \<open>Types\<close>

datatype edit_mode = Readonly | Mutable

datatype typing_mode = TypeReplace | TypeInsert

datatype write_error =
    WriteReadonly
  | WriteOutOfBounds nat nat nat
  | WriteRejected string

record edit_entry =
  ee_offset :: nat
  ee_old :: bytes
  ee_new :: bytes

definition entry_end :: "edit_entry \<Rightarrow> nat" where
  "entry_end e = ee_offset e + length (ee_new e)"

definition undo_history_cap :: nat where
  "undo_history_cap = 1000"

definition edit_coalesce_idle :: nat where
  "edit_coalesce_idle = 800000000"

record 'p edit_state =
  es_base :: hex_source
  es_patch :: 'p
  es_mode :: edit_mode
  es_typing :: typing_mode
  es_high_nibble :: bool
  es_undo :: "edit_entry list"
  es_redo :: "edit_entry list"
  es_break :: bool
  es_last_edit :: "nat option"
  es_cache :: "bytes option"
  es_non_lp :: nat
  es_revision :: nat

text \<open>The patched view: the source that wraps the base and the patch.\<close>

definition es_source :: "('p, 'm) suture \<Rightarrow> 'p edit_state \<Rightarrow> hex_source" where
  "es_source P st = patched_source P (es_base st) (es_patch st)"

definition edit_new :: "('p, 'm) suture \<Rightarrow> hex_source \<Rightarrow> 'p edit_state" where
  "edit_new P base =
     \<lparr>es_base = base, es_patch = s_new P, es_mode = Mutable, es_typing = TypeReplace,
      es_high_nibble = True, es_undo = [], es_redo = [], es_break = False, es_last_edit = None,
      es_cache = None, es_non_lp = 0, es_revision = 0\<rparr>"

definition swap_base :: "('p, 'm) suture \<Rightarrow> hex_source \<Rightarrow> 'p edit_state \<Rightarrow> 'p edit_state" where
  "swap_base P base st = st\<lparr>es_base := base, es_patch := s_new P, es_undo := [], es_redo := [],
     es_break := True, es_last_edit := None, es_high_nibble := True, es_cache := None,
     es_non_lp := 0\<rparr>"

definition es_is_dirty :: "('p, 'm) suture \<Rightarrow> 'p edit_state \<Rightarrow> bool" where
  "es_is_dirty P st \<longleftrightarrow> \<not> s_is_empty P (es_patch st)"

definition es_modified_ranges :: "('p, 'm) suture \<Rightarrow> 'p edit_state \<Rightarrow> (nat \<times> nat) list" where
  "es_modified_ranges P st =
     map (\<lambda>op. (op_offset op, op_offset op + length (op_new_bytes op))) (s_ops P (es_patch st))"

subsection \<open>Reading the patched view\<close>

definition read_byte_at ::
  "('p, 'm) suture \<Rightarrow> 'p edit_state \<Rightarrow> nat \<Rightarrow> (write_error, byte) res" where
  "read_byte_at P st offset =
     res_bind (map_err (\<lambda>e. WriteRejected (''invalid range: '' @ show_error e))
         (range_new offset (wadd64 offset 1))) (\<lambda>range.
     res_bind (map_err (\<lambda>e. WriteRejected (''read: '' @ show_error e))
         (hs_read (es_source P st) range)) (\<lambda>b.
     case b of [] \<Rightarrow> Panic | x # _ \<Rightarrow> Ok x))"

text \<open>The loops that collect \<open>n\<close> bytes from \<open>offset\<close> on.\<close>

fun read_bytes_at ::
  "('p, 'm) suture \<Rightarrow> 'p edit_state \<Rightarrow> nat \<Rightarrow> nat \<Rightarrow> (write_error, bytes) res" where
  "read_bytes_at P st offset 0 = Ok []"
| "read_bytes_at P st offset (Suc n) =
     res_bind (read_byte_at P st offset) (\<lambda>b.
     res_bind (read_bytes_at P st (wadd64 offset 1) n) (\<lambda>bs. Ok (b # bs)))"

subsection \<open>Coalescing\<close>

definition ranges_touch :: "nat \<Rightarrow> nat \<Rightarrow> nat \<Rightarrow> nat \<Rightarrow> bool" where
  "ranges_touch a_start a_end b_start b_end \<longleftrightarrow> a_start \<le> b_end \<and> b_start \<le> a_end"

definition merge_entry :: "edit_entry \<Rightarrow> edit_entry \<Rightarrow> ('e, edit_entry) res" where
  "merge_entry dst nxt =
     (let start = min (ee_offset dst) (ee_offset nxt);
          en = max (entry_end dst) (entry_end nxt);
          len = en - start;
          new_bytes = replicate len 0;
          old_bytes = replicate len 0;
          dst_off = ee_offset dst - start
      in res_bind (copy_into dst_off (length (ee_new dst)) (ee_new dst) new_bytes) (\<lambda>new_bytes.
         res_bind (copy_into dst_off (length (ee_old dst)) (ee_old dst) old_bytes) (\<lambda>old_bytes.
         let next_off = ee_offset nxt - start in
         res_bind (copy_into next_off (length (ee_new nxt)) (ee_new nxt) new_bytes) (\<lambda>new_bytes.
         res_bind
           (if ee_offset nxt < ee_offset dst
            then let prefix_len = ee_offset dst - ee_offset nxt in
              res_bind (slice_res 0 prefix_len (ee_old nxt)) (\<lambda>pre.
              copy_into 0 prefix_len pre old_bytes)
            else Ok old_bytes) (\<lambda>old_bytes.
         res_bind
           (if entry_end nxt > entry_end dst
            then let overlap = entry_end dst - ee_offset nxt in
              res_bind (slice_res overlap (length (ee_old nxt)) (ee_old nxt)) (\<lambda>tail.
              let tail_off = entry_end dst - start in
              copy_into tail_off (length tail) tail old_bytes)
            else Ok old_bytes) (\<lambda>old_bytes.
         Ok \<lparr>ee_offset = start, ee_old = old_bytes, ee_new = new_bytes\<rparr>))))))"

definition lp_entry :: "edit_entry \<Rightarrow> bool" where
  "lp_entry e \<longleftrightarrow> length (ee_old e) = length (ee_new e)"

text \<open>The three cases in which a new entry joins the last one; \<open>None\<close>: it does not.\<close>

definition coalesce :: "edit_entry \<Rightarrow> edit_entry \<Rightarrow> ('e, edit_entry) res option" where
  "coalesce lst entry =
     (let last_new_end = ee_offset lst + length (ee_new lst) in
      if lp_entry lst \<and> lp_entry entry \<and>
         ranges_touch (ee_offset lst) (entry_end lst) (ee_offset entry) (entry_end entry)
      then Some (merge_entry lst entry)
      else if lp_entry entry \<and> ee_offset entry \<ge> ee_offset lst \<and>
         ee_offset entry + length (ee_new entry) \<le> last_new_end
      then Some (let rel = ee_offset entry - ee_offset lst in
        res_bind (copy_into rel (length (ee_new entry)) (ee_new entry) (ee_new lst)) (\<lambda>new_bytes.
        Ok (lst\<lparr>ee_new := new_bytes\<rparr>)))
      else if ee_old lst = [] \<and> ee_old entry = [] \<and> ee_offset entry = last_new_end
      then Some (Ok (lst\<lparr>ee_new := ee_new lst @ ee_new entry\<rparr>))
      else None)"

definition push_entry :: "nat \<Rightarrow> edit_entry \<Rightarrow> 'p edit_state \<Rightarrow> 'p edit_state" where
  "push_entry now entry st =
     (let non_lp = (if lp_entry entry then es_non_lp st else es_non_lp st + 1);
          undo = es_undo st @ [entry];
          (undo, non_lp) =
            (if length undo > undo_history_cap
             then (tl undo, if lp_entry (hd undo) then non_lp else non_lp - 1)
             else (undo, non_lp))
      in st\<lparr>es_undo := undo, es_non_lp := non_lp, es_break := False, es_last_edit := Some now\<rparr>)"

definition record_entry :: "nat \<Rightarrow> edit_entry \<Rightarrow> 'p edit_state \<Rightarrow> ('e, 'p edit_state) res" where
  "record_entry now entry st0 =
     (let st = st0\<lparr>es_revision := es_revision st0 + 1, es_redo := []\<rparr>;
          idle_break = (case es_last_edit st of None \<Rightarrow> False
             | Some t \<Rightarrow> now - t \<ge> edit_coalesce_idle)
      in case (if \<not> es_break st \<and> \<not> idle_break \<and> es_undo st \<noteq> []
               then coalesce (last (es_undo st)) entry else None) of
           Some r \<Rightarrow> res_bind r (\<lambda>merged.
             Ok (st\<lparr>es_undo := butlast (es_undo st) @ [merged], es_break := False,
                    es_last_edit := Some now\<rparr>))
         | None \<Rightarrow> Ok (push_entry now entry st))"

subsection \<open>Rebuilding the patch\<close>

definition cached_base_bytes :: "'p edit_state \<Rightarrow> ('e, bytes \<times> 'p edit_state) res" where
  "cached_base_bytes st =
     (case es_cache st of
        Some b \<Rightarrow> Ok (b, st)
      | None \<Rightarrow>
          (let base_len = hs_len (es_base st) in
           res_bind
             (if base_len = 0 then Ok []
              else res_bind (res_expect (range_new 0 base_len)) (\<lambda>range.
                case hs_read (es_base st) range of
                  Ok b \<Rightarrow> Ok b | Err e \<Rightarrow> Ok [] | Panic \<Rightarrow> Panic)) (\<lambda>buf.
           Ok (buf, st\<lparr>es_cache := Some buf\<rparr>))))"

definition replay_entry :: "bytes \<Rightarrow> edit_entry \<Rightarrow> bytes" where
  "replay_entry buffer entry =
     (let off = ee_offset entry; old_end = sat_add64 off (length (ee_old entry)) in
      if off > length buffer \<or> old_end > length buffer then buffer
      else splice_list off (old_end - off) (ee_new entry) buffer)"

definition replay :: "edit_entry list \<Rightarrow> bytes \<Rightarrow> bytes" where
  "replay entries base = foldl replay_entry base entries"

function run_end :: "bytes \<Rightarrow> bytes \<Rightarrow> nat \<Rightarrow> nat \<Rightarrow> nat" where
  "run_end base buffer lim j =
     (if j < lim \<and> base ! j \<noteq> buffer ! j then run_end base buffer lim (j + 1) else j)"
  by pat_completeness auto
termination
  by (relation "measure (\<lambda>(base, buffer, lim, j). lim - j)") auto

declare run_end.simps [simp del]

text \<open>A rejected splice is logged and skipped.\<close>

fun or_keep :: "'p \<Rightarrow> string + 'p \<Rightarrow> 'p" where
  "or_keep p (Inr p') = p'"
| "or_keep p (Inl e) = p"

lemma run_end_ge: "j \<le> run_end base buffer lim j"
proof (induction base buffer lim j rule: run_end.induct)
  case (1 base buffer lim j)
  then show ?case by (subst run_end.simps) auto
qed

function diff_loop :: "('p, 'm) suture \<Rightarrow> bytes \<Rightarrow> bytes \<Rightarrow> nat \<Rightarrow> nat \<Rightarrow> 'p \<Rightarrow> 'p" where
  "diff_loop P base buffer lim i p =
     (if i < lim then
        if base ! i \<noteq> buffer ! i then
          let j = run_end base buffer lim (i + 1)
          in diff_loop P base buffer lim j
               (or_keep p (s_splice P p i (j - i) (slice i j buffer)))
        else diff_loop P base buffer lim (i + 1) p
      else p)"
  by pat_completeness auto
termination
proof (relation "measure (\<lambda>(P, base, buffer, lim, i, p). lim - i)", goal_cases)
  case 1
  show ?case by simp
next
  case (2 P base buffer lim i p j)
  then have "i < j" using run_end_ge [of "i + 1" base buffer lim] by simp
  with 2 show ?case by simp
next
  case (3 P base buffer lim i p)
  then show ?case by simp
qed

declare diff_loop.simps [simp del]

definition rebuild_patch_from_stack ::
  "('p, 'm) suture \<Rightarrow> 'p edit_state \<Rightarrow> ('e, 'p edit_state) res" where
  "rebuild_patch_from_stack P st0 =
     res_bind (cached_base_bytes st0) (\<lambda>(base, st).
     let buffer = replay (es_undo st) base;
         p = (case s_metadata P (es_patch st) of Some m \<Rightarrow> s_with_metadata P m | None \<Rightarrow> s_new P);
         base_len = length base;
         compare_end = min base_len (length buffer);
         p = diff_loop P base buffer compare_end 0 p;
         p = (if length buffer < base_len
              then or_keep p (s_delete P p (length buffer) (base_len - length buffer))
              else if length buffer > base_len
              then or_keep p (s_insert P p base_len (drop base_len buffer))
              else p)
     in Ok (st\<lparr>es_patch := p\<rparr>))"

definition apply_lp_write_to_patch ::
  "('p, 'm) suture \<Rightarrow> 'p edit_state \<Rightarrow> ('e, 'p edit_state) res" where
  "apply_lp_write_to_patch P st =
     (if es_undo st = [] then Ok st
      else let lst = last (es_undo st) in
        case s_write P (es_patch st) (ee_offset lst) (ee_new lst) of
          Inr p \<Rightarrow> Ok (st\<lparr>es_patch := p\<rparr>)
        | Inl e \<Rightarrow> rebuild_patch_from_stack P st)"

subsection \<open>Writes, splices and insertions\<close>

definition es_request_write ::
  "('p, 'm) suture \<Rightarrow> nat \<Rightarrow> nat \<Rightarrow> bytes \<Rightarrow> 'p edit_state \<Rightarrow> (write_error, 'p edit_state) res" where
  "es_request_write P now offset bs st =
     (if es_mode st \<noteq> Mutable then Err WriteReadonly
      else let source_len = hs_len (es_source P st); en = wadd64 offset (length bs) in
        if en > source_len then Err (WriteOutOfBounds offset (length bs) source_len)
        else res_bind (read_bytes_at P st offset (length bs)) (\<lambda>old_bytes.
          let was_lp_only = (es_non_lp st = 0) in
          res_bind (record_entry now
              \<lparr>ee_offset = offset, ee_old = old_bytes, ee_new = bs\<rparr> st) (\<lambda>st1.
          if was_lp_only \<and> es_non_lp st1 = 0 then apply_lp_write_to_patch P st1
          else rebuild_patch_from_stack P st1)))"

definition es_splice ::
  "('p, 'm) suture \<Rightarrow> nat \<Rightarrow> nat \<Rightarrow> nat \<Rightarrow> bytes \<Rightarrow> 'p edit_state \<Rightarrow>
     (write_error, 'p edit_state) res" where
  "es_splice P now offset remove ins st =
     (if es_mode st \<noteq> Mutable then Err WriteReadonly
      else let source_len = hs_len (es_source P st) in
        if offset > source_len \<or> sat_add64 offset remove > source_len
        then Err (WriteOutOfBounds offset remove source_len)
        else res_bind (read_bytes_at P st offset remove) (\<lambda>old_bytes.
          res_bind (record_entry now
              \<lparr>ee_offset = offset, ee_old = old_bytes, ee_new = ins\<rparr> st) (\<lambda>st1.
          rebuild_patch_from_stack P st1)))"

definition es_insert_at ::
  "('p, 'm) suture \<Rightarrow> nat \<Rightarrow> nat \<Rightarrow> bytes \<Rightarrow> 'p edit_state \<Rightarrow> (write_error, 'p edit_state) res" where
  "es_insert_at P now offset bs st =
     (if es_mode st \<noteq> Mutable then Err WriteReadonly
      else let source_len = hs_len (es_source P st) in
        if offset > source_len then Err (WriteOutOfBounds offset (length bs) source_len)
        else res_bind (record_entry now
              \<lparr>ee_offset = offset, ee_old = [], ee_new = bs\<rparr> st) (\<lambda>st1.
          rebuild_patch_from_stack P st1))"

type_synonym batch_op = "nat \<times> nat \<times> bytes"

fun validate_batch :: "nat \<Rightarrow> nat option \<Rightarrow> batch_op list \<Rightarrow> (write_error, nat option) res" where
  "validate_batch source_len prev_end [] = Ok prev_end"
| "validate_batch source_len prev_end ((offset, remove, ins) # ops) =
     (if (case prev_end of Some p \<Rightarrow> offset < p | None \<Rightarrow> False)
      then Err (WriteRejected ''splice_many: ops overlap or out of order'')
      else let en = sat_add64 offset remove in
        if en > source_len then Err (WriteOutOfBounds offset remove source_len)
        else validate_batch source_len (Some en) ops)"

fun interleave :: "nat \<Rightarrow> bytes \<Rightarrow> nat \<Rightarrow> batch_op list \<Rightarrow> ('e, bytes) res" where
  "interleave first_offset old_bytes cursor [] = slice_res cursor (length old_bytes) old_bytes"
| "interleave first_offset old_bytes cursor ((offset, remove, ins) # ops) =
     (let local_start = offset - first_offset in
      res_bind (slice_res cursor local_start old_bytes) (\<lambda>kept.
      res_bind (interleave first_offset old_bytes (local_start + remove) ops) (\<lambda>rest.
      Ok (kept @ ins @ rest))))"

definition es_splice_many ::
  "('p, 'm) suture \<Rightarrow> nat \<Rightarrow> batch_op list \<Rightarrow> 'p edit_state \<Rightarrow> (write_error, 'p edit_state) res" where
  "es_splice_many P now ops st =
     (if es_mode st \<noteq> Mutable then Err WriteReadonly
      else if ops = [] then Ok st
      else let source_len = hs_len (es_source P st) in
        res_bind (validate_batch source_len None ops) (\<lambda>prev_end.
        let first_offset = fst (hd ops) in
        case prev_end of None \<Rightarrow> Panic
        | Some last_end \<Rightarrow>
          let span = last_end - first_offset in
          res_bind (read_bytes_at P st first_offset span) (\<lambda>old_bytes.
          res_bind (interleave first_offset old_bytes 0 ops) (\<lambda>new_bytes.
          res_bind (record_entry now
              \<lparr>ee_offset = first_offset, ee_old = old_bytes, ee_new = new_bytes\<rparr> st) (\<lambda>st1.
          rebuild_patch_from_stack P st1)))))"

subsection \<open>Revert, undo, redo\<close>

definition es_revert :: "('p, 'm) suture \<Rightarrow> 'p edit_state \<Rightarrow> ('e, 'p edit_state) res" where
  "es_revert P st =
     rebuild_patch_from_stack P (st\<lparr>es_revision := es_revision st + 1, es_undo := [], es_redo := [],
       es_break := True, es_last_edit := None, es_non_lp := 0\<rparr>)"

definition es_undo_step ::
  "('p, 'm) suture \<Rightarrow> 'p edit_state \<Rightarrow> ('e, edit_entry option \<times> 'p edit_state) res" where
  "es_undo_step P st =
     (if es_mode st \<noteq> Mutable then Ok (None, st)
      else if es_undo st = [] then Ok (None, st)
      else let entry = last (es_undo st);
               st1 = st\<lparr>es_undo := butlast (es_undo st), es_revision := es_revision st + 1,
                 es_non_lp := (if lp_entry entry then es_non_lp st else es_non_lp st - 1)\<rparr>
        in res_bind (rebuild_patch_from_stack P st1) (\<lambda>st2.
          Ok (Some entry, st2\<lparr>es_redo := es_redo st2 @ [entry], es_break := True,
            es_high_nibble := True\<rparr>)))"

definition es_redo_step ::
  "('p, 'm) suture \<Rightarrow> 'p edit_state \<Rightarrow> ('e, edit_entry option \<times> 'p edit_state) res" where
  "es_redo_step P st =
     (if es_mode st \<noteq> Mutable then Ok (None, st)
      else if es_redo st = [] then Ok (None, st)
      else let entry = last (es_redo st);
               st1 = st\<lparr>es_redo := butlast (es_redo st), es_revision := es_revision st + 1,
                 es_non_lp := (if lp_entry entry then es_non_lp st else es_non_lp st + 1),
                 es_undo := es_undo st @ [entry]\<rparr>
        in res_bind (rebuild_patch_from_stack P st1) (\<lambda>st2.
          Ok (Some entry, st2\<lparr>es_break := True, es_high_nibble := True\<rparr>)))"

end
