(* ===== verification/EditReplay.thy ===== *)
theory EditReplay
  imports EditState
begin

text \<open>
  The two central facts about the editing state: rebuilding yields a patch that renders the
  replay of the undo stack (the positional diff loses nothing), and recording an entry leaves a
  stack whose replay is the old one with the entry applied, whichever way it coalesces.
\<close>

subsection \<open>Entries applied to a buffer\<close>

definition apply_entry :: "edit_entry \<Rightarrow> bytes \<Rightarrow> bytes" where
  "apply_entry e buf = splice_list (ee_offset e) (length (ee_old e)) (ee_new e) buf"

text \<open>The entry describes the buffer it is applied to.\<close>

definition entry_fits :: "edit_entry \<Rightarrow> bytes \<Rightarrow> bool" where
  "entry_fits e buf \<longleftrightarrow>
     ee_offset e + length (ee_old e) \<le> length buf \<and>
     slice (ee_offset e) (ee_offset e + length (ee_old e)) buf = ee_old e"

definition apply_all :: "edit_entry list \<Rightarrow> bytes \<Rightarrow> bytes" where
  "apply_all es buf = foldl (\<lambda>b e. apply_entry e b) buf es"

text \<open>A \<open>Vec<u8>\<close> holds at most \<open>isize::MAX\<close> bytes.\<close>

definition vec_ok :: "'a list \<Rightarrow> bool" where
  "vec_ok xs \<longleftrightarrow> length xs < 2 ^ 63"

fun chain_ok :: "edit_entry list \<Rightarrow> bytes \<Rightarrow> bool" where
  "chain_ok [] buf \<longleftrightarrow> vec_ok buf"
| "chain_ok (e # es) buf \<longleftrightarrow> vec_ok buf \<and> entry_fits e buf \<and> chain_ok es (apply_entry e buf)"

lemma apply_all_simps [simp]:
  "apply_all [] buf = buf"
  "apply_all (e # es) buf = apply_all es (apply_entry e buf)"
  "apply_all (es @ es') buf = apply_all es' (apply_all es buf)"
  by (simp_all add: apply_all_def)

lemma chain_ok_append [simp]:
  "chain_ok (es @ es') buf \<longleftrightarrow> chain_ok es buf \<and> chain_ok es' (apply_all es buf)"
proof (induction es arbitrary: buf)
  case Nil
  then show ?case by (cases es') auto
next
  case (Cons e es)
  then show ?case by auto
qed

lemma chain_ok_vec: "chain_ok es buf \<Longrightarrow> vec_ok buf"
  by (cases es) auto

lemma chain_ok_result: "chain_ok es buf \<Longrightarrow> vec_ok (apply_all es buf)"
  by (induction es arbitrary: buf) auto

lemma length_apply_entry:
  "entry_fits e buf \<Longrightarrow>
     length (apply_entry e buf) = length buf - length (ee_old e) + length (ee_new e)"
  by (simp add: apply_entry_def entry_fits_def)

lemma apply_entry_reverse:
  "entry_fits e buf \<Longrightarrow>
     splice_list (ee_offset e) (length (ee_new e)) (ee_old e) (apply_entry e buf) = buf"
  using splice_list_inverse [of "ee_offset e" "length (ee_old e)" buf "ee_new e"]
  by (simp add: entry_fits_def apply_entry_def)

lemma vec_ok_lt: "vec_ok xs \<Longrightarrow> length xs < 2 ^ 64"
  by (simp add: vec_ok_def)

lemma replay_entry_fits:
  assumes "entry_fits e buf" "vec_ok buf"
  shows "replay_entry buf e = apply_entry e buf"
proof -
  have le: "ee_offset e + length (ee_old e) \<le> length buf"
    using assms(1) by (simp add: entry_fits_def)
  with vec_ok_lt [OF assms(2)] have "ee_offset e + length (ee_old e) < 2 ^ 64" by linarith
  with le show ?thesis by (simp add: replay_entry_def apply_entry_def Let_def u64_simps)
qed

lemma replay_chain: "chain_ok es buf \<Longrightarrow> replay es buf = apply_all es buf"
  unfolding replay_def by (induction es arbitrary: buf) (auto simp: replay_entry_fits)

lemma apply_all_lp_length:
  "chain_ok es buf \<Longrightarrow> list_all lp_entry es \<Longrightarrow> length (apply_all es buf) = length buf"
proof (induction es arbitrary: buf)
  case Nil
  then show ?case by simp
next
  case (Cons e es)
  then have "length (ee_old e) \<le> length buf" by (simp add: entry_fits_def)
  with Cons show ?case by (simp add: length_apply_entry lp_entry_def)
qed

subsection \<open>The diff against the base\<close>

lemma run_end_le: "j \<le> lim \<Longrightarrow> run_end base buffer lim j \<le> lim"
proof (induction base buffer lim j rule: run_end.induct)
  case (1 base buffer lim j)
  then show ?case by (subst run_end.simps) auto
qed

text \<open>What the loop has recorded up to position \<open>i\<close>.\<close>

definition diff_inv ::
  "('p, 'm) suture \<Rightarrow> bytes \<Rightarrow> bytes \<Rightarrow> nat \<Rightarrow> 'p \<Rightarrow> bool" where
  "diff_inv P base buffer i p \<longleftrightarrow>
     list_all lp_op (s_ops P p) \<and> ops_in (s_ops P p) 0 i \<and>
     render (s_ops P p) 0 base = take i buffer @ drop i base \<and>
     (s_ops P p = [] \<longleftrightarrow> take i buffer = take i base)"

lemma appends_lp:
  assumes "appends P p op r" and inv: "list_all lp_op (s_ops P p)" "ops_in (s_ops P p) 0 i"
    and op: "i \<le> op_offset op" "op_offset op + op_old_len op \<le> length base"
  obtains p' where "r = Inr p'" "s_ops P p' \<noteq> []"
    "ops_in (s_ops P p') 0 (op_offset op + op_old_len op)"
    "render (s_ops P p') 0 base = take (op_offset op) (render (s_ops P p) 0 base) @
       op_new_bytes op @ drop (op_offset op + op_old_len op) base"
    "lp_op op \<Longrightarrow> list_all lp_op (s_ops P p')"
proof -
  from assms(1) obtain p' where p': "r = Inr p'"
    and same: "same_splices (s_ops P p') (s_ops P p @ [op])"
    by (auto simp: appends_def)
  have in0: "ops_in (s_ops P p) 0 (op_offset op)" using inv(2) op(1) by (rule ops_in_mono)
  then have fit: "ops_in (s_ops P p @ [op]) 0 n" if "op_offset op + op_old_len op \<le> n" for n
    using that by simp
  have "render (s_ops P p') 0 base = render (s_ops P p @ [op]) 0 base"
    using same fit [OF op(2)] by (simp add: same_splices_def)
  also have "\<dots> = take (op_offset op) (render (s_ops P p) 0 base) @
       op_new_bytes op @ drop (op_offset op + op_old_len op) base"
    using inv(1) in0 op by (intro render_snoc_lp) auto
  finally have "render (s_ops P p') 0 base = \<dots>" .
  moreover have "s_ops P p' \<noteq> []" using same by (simp add: same_splices_def)
  moreover have "ops_in (s_ops P p') 0 (op_offset op + op_old_len op)"
    using same in0 by (simp add: same_splices_def)
  moreover have "lp_op op \<Longrightarrow> list_all lp_op (s_ops P p')"
    using same inv(1) by (simp add: same_splices_def)
  ultimately show thesis using p' that by blast
qed

lemma diff_step_equal:
  assumes "diff_inv P base buffer i p" "i < length base" "i < length buffer"
    and "base ! i = buffer ! i"
  shows "diff_inv P base buffer (Suc i) p"
proof -
  have "drop i base = buffer ! i # drop (Suc i) base"
    using Cons_nth_drop_Suc [OF assms(2)] assms(4) by simp
  then have "take i buffer @ drop i base = take (Suc i) buffer @ drop (Suc i) base"
    using assms(3) by (simp add: take_Suc_conv_app_nth)
  moreover have "take (Suc i) buffer = take (Suc i) base \<longleftrightarrow> take i buffer = take i base"
    using assms(2-4) by (simp add: take_Suc_conv_app_nth)
  moreover have "ops_in (s_ops P p) 0 (Suc i)"
    using assms(1) by (auto simp: diff_inv_def intro: ops_in_mono)
  ultimately show ?thesis
    using assms(1) by (simp add: diff_inv_def)
qed

lemma diff_step_differ:
  assumes laws: "suture_laws P" and inv: "diff_inv P base buffer i p"
    and ij: "i < j" "j \<le> length base" "j \<le> length buffer" and ne: "base ! i \<noteq> buffer ! i"
  shows "diff_inv P base buffer j (or_keep p (s_splice P p i (j - i) (slice i j buffer)))"
proof -
  let ?op = "splice_op i (j - i) (slice i j buffer)"
  have "ops_end (s_ops P p) 0 \<le> i" using inv by (auto simp: diff_inv_def intro: ops_in_end)
  then have "appends P p ?op (s_splice P p i (j - i) (slice i j buffer))"
    using ij(1) by (intro suture_splice [OF laws]) simp_all
  moreover have "list_all lp_op (s_ops P p)" "ops_in (s_ops P p) 0 i"
    using inv by (auto simp: diff_inv_def)
  ultimately obtain p' where p': "s_splice P p i (j - i) (slice i j buffer) = Inr p'"
    "s_ops P p' \<noteq> []" "ops_in (s_ops P p') 0 j"
    "render (s_ops P p') 0 base = take i (render (s_ops P p) 0 base) @ slice i j buffer @ drop j base"
    "lp_op ?op \<Longrightarrow> list_all lp_op (s_ops P p')"
    using appends_lp [of P p ?op _ i base] ij by auto
  have "lp_op ?op" using ij by (simp add: lp_op_def)
  moreover have "take i (render (s_ops P p) 0 base) = take i buffer"
    using inv ij by (simp add: diff_inv_def)
  moreover have "take i buffer @ slice i j buffer = take j buffer"
    using slice_append [of 0 i j buffer] ij by simp
  moreover have "take j buffer \<noteq> take j base"
    using ne ij by (metis nth_take)
  ultimately show ?thesis using p' by (simp add: diff_inv_def)
qed

lemma diff_loop_inv:
  assumes "suture_laws P"
  shows "diff_inv P base buffer i p \<Longrightarrow> i \<le> lim \<Longrightarrow> lim \<le> length base \<Longrightarrow> lim \<le> length buffer \<Longrightarrow>
    diff_inv P base buffer lim (diff_loop P base buffer lim i p)"
proof (induction "lim - i" arbitrary: i p rule: less_induct)
  case less
  show ?case
  proof (cases "i < lim")
    case False
    with less.prems show ?thesis by (subst diff_loop.simps) simp
  next
    case True
    show ?thesis
    proof (cases "base ! i = buffer ! i")
      case eq: True
      have "diff_inv P base buffer (Suc i) p"
        using less.prems True eq by (intro diff_step_equal) auto
      then show ?thesis
        using less.hyps [of "Suc i" p] less.prems True eq by (subst diff_loop.simps) simp
    next
      case ne: False
      let ?j = "run_end base buffer lim (i + 1)"
      have j: "i < ?j" "?j \<le> lim"
        using run_end_ge [of "i + 1" base buffer lim] run_end_le [of "i + 1" lim base buffer] True
        by auto
      have "diff_inv P base buffer ?j
          (or_keep p (s_splice P p i (?j - i) (slice i ?j buffer)))"
        using less.prems j ne by (intro diff_step_differ [OF assms]) auto
      then show ?thesis
        using less.hyps [of ?j] less.prems True ne j by (subst diff_loop.simps) (simp add: Let_def)
    qed
  qed
qed

text \<open>The diff with its tail renders the buffer, and is empty exactly for the base itself.\<close>

definition diff_patch :: "('p, 'm) suture \<Rightarrow> bytes \<Rightarrow> bytes \<Rightarrow> 'p \<Rightarrow> 'p" where
  "diff_patch P base buffer p0 =
     (let p = diff_loop P base buffer (min (length base) (length buffer)) 0 p0
      in if length buffer < length base
         then or_keep p (s_delete P p (length buffer) (length base - length buffer))
         else if length buffer > length base
         then or_keep p (s_insert P p (length base) (drop (length base) buffer))
         else p)"

lemma diff_patch_renders:
  assumes laws: "suture_laws P" and p0: "s_ops P p0 = []"
  shows "ops_in (s_ops P (diff_patch P base buffer p0)) 0 (length base)" (is "?fit")
    and "render (s_ops P (diff_patch P base buffer p0)) 0 base = buffer" (is "?render")
    and "s_ops P (diff_patch P base buffer p0) = [] \<longleftrightarrow> buffer = base" (is "?empty")
    and "length buffer = length base \<Longrightarrow> list_all lp_op (s_ops P (diff_patch P base buffer p0))"
proof -
  let ?lim = "min (length base) (length buffer)"
  let ?p = "diff_loop P base buffer ?lim 0 p0"
  have "diff_inv P base buffer 0 p0" using p0 by (simp add: diff_inv_def)
  then have inv: "diff_inv P base buffer ?lim ?p" by (intro diff_loop_inv [OF laws]) auto
  then have lp: "list_all lp_op (s_ops P ?p)" and fit: "ops_in (s_ops P ?p) 0 ?lim"
    by (simp_all add: diff_inv_def)
  from fit have end_le: "ops_end (s_ops P ?p) 0 \<le> ?lim" by (rule ops_in_end)
  have "?fit \<and> ?render \<and> ?empty \<and>
      (length buffer = length base \<longrightarrow> list_all lp_op (s_ops P (diff_patch P base buffer p0)))"
  proof (cases "length buffer" "length base" rule: linorder_cases)
    case less
    let ?op = "splice_op (length buffer) (length base - length buffer) []"
    have "appends P ?p ?op (s_delete P ?p (length buffer) (length base - length buffer))"
      using end_le less by (intro suture_delete [OF laws]) auto
    then obtain p' where p': "s_delete P ?p (length buffer) (length base - length buffer) = Inr p'"
      "s_ops P p' \<noteq> []" "ops_in (s_ops P p') 0 (length base)"
      "render (s_ops P p') 0 base = take (length buffer) (render (s_ops P ?p) 0 base)"
      using appends_lp [of P ?p ?op _ ?lim base, OF _ lp fit] less by auto
    moreover have "take (length buffer) (render (s_ops P ?p) 0 base) = buffer"
      using inv less by (simp add: diff_inv_def)
    ultimately show ?thesis using less by (auto simp: diff_patch_def Let_def)
  next
    case equal
    then show ?thesis
      using inv by (auto simp: diff_patch_def diff_inv_def Let_def)
  next
    case greater
    let ?op = "splice_op (length base) 0 (drop (length base) buffer)"
    have "appends P ?p ?op (s_insert P ?p (length base) (drop (length base) buffer))"
      using end_le greater by (intro suture_insert [OF laws]) auto
    then obtain p' where p': "s_insert P ?p (length base) (drop (length base) buffer) = Inr p'"
      "s_ops P p' \<noteq> []" "ops_in (s_ops P p') 0 (length base)"
      "render (s_ops P p') 0 base =
         take (length base) (render (s_ops P ?p) 0 base) @ drop (length base) buffer"
      using appends_lp [of P ?p ?op _ ?lim base, OF _ lp fit] greater by auto
    moreover have "take (length base) (render (s_ops P ?p) 0 base) @ drop (length base) buffer = buffer"
      using inv greater by (simp add: diff_inv_def)
    ultimately show ?thesis using greater by (auto simp: diff_patch_def Let_def)
  qed
  then show ?fit ?render ?empty
    "length buffer = length base \<Longrightarrow> list_all lp_op (s_ops P (diff_patch P base buffer p0))"
    by blast+
qed

end
