(* ===== verification/EditMerge.thy ===== *)
theory EditMerge
  imports EditReplay
begin

text \<open>
  Coalescing is invisible in the document: the merged entry applied to the buffer before the
  last entry gives what the last entry and then the new one give, and it still records the bytes
  it replaces. This includes that none of the slice copies of \<open>merge_entry\<close> panics.
\<close>

text \<open>An entry that removes or adds something.\<close>

definition nonvoid :: "edit_entry \<Rightarrow> bool" where
  "nonvoid e \<longleftrightarrow> ee_old e \<noteq> [] \<or> ee_new e \<noteq> []"

definition merges_to :: "edit_entry \<Rightarrow> edit_entry \<Rightarrow> edit_entry \<Rightarrow> bytes \<Rightarrow> bool" where
  "merges_to l e m b \<longleftrightarrow>
     entry_fits m b \<and> apply_entry m b = apply_entry e (apply_entry l b) \<and>
     (lp_entry m \<longleftrightarrow> lp_entry l) \<and> nonvoid m \<and>
     ee_offset m \<le> ee_offset l \<and> entry_end l \<le> entry_end m"

lemma entry_fits_nth:
  "entry_fits e b \<Longrightarrow> j < length (ee_old e) \<Longrightarrow> ee_old e ! j = b ! (ee_offset e + j)"
  unfolding entry_fits_def by (metis add_less_cancel_left slice_nth)

lemma apply_lp_nth:
  assumes "entry_fits e b" "lp_entry e" "i < length b"
  shows "apply_entry e b ! i =
    (if ee_offset e \<le> i \<and> i < ee_offset e + length (ee_new e) then ee_new e ! (i - ee_offset e)
     else b ! i)"
  using assms splice_list_same_nth [of "ee_new e" "length (ee_new e)" "ee_offset e" b i]
  by (simp add: apply_entry_def entry_fits_def lp_entry_def)

lemma apply_lp_length: "entry_fits e b \<Longrightarrow> lp_entry e \<Longrightarrow> length (apply_entry e b) = length b"
  by (auto simp: length_apply_entry lp_entry_def entry_fits_def)

lemma merge_entry_ok:
  assumes fl: "entry_fits l b" and nv: "nonvoid l" and lpl: "lp_entry l" and lpe: "lp_entry e"
    and fe: "entry_fits e (apply_entry l b)"
    and touch: "ranges_touch (ee_offset l) (entry_end l) (ee_offset e) (entry_end e)"
  shows "\<exists>m. merge_entry l e = (Ok m :: ('e, edit_entry) res) \<and> merges_to l e m b"
proof -
  define o1 n1 o2 n2 where "o1 = ee_offset l" and "n1 = length (ee_new l)"
    and "o2 = ee_offset e" and "n2 = length (ee_new e)"
  define s t where "s = min o1 o2" and "t = max (o1 + n1) (o2 + n2)"
  note on = o1_def n1_def o2_def n2_def
  have old1: "length (ee_old l) = n1" and old2: "length (ee_old e) = n2"
    using lpl lpe by (simp_all add: lp_entry_def on)
  have ends: "entry_end l = o1 + n1" "entry_end e = o2 + n2"
    by (simp_all add: entry_end_def on)
  have tch: "o1 \<le> o2 + n2" "o2 \<le> o1 + n1"
    using touch by (simp_all add: ranges_touch_def ends flip: on)
  have L: "o1 + n1 \<le> length b" "o2 + n2 \<le> length b"
    using fl fe apply_lp_length [OF fl lpl] old1 old2 by (simp_all add: entry_fits_def on)
  have st: "s \<le> o1" "s \<le> o2" "o1 + n1 \<le> t" "o2 + n2 \<le> t" "t \<le> length b" "s \<le> t"
    using L by (auto simp: s_def t_def)
  let ?f = "apply_entry l b" and ?g = "apply_entry e (apply_entry l b)"
  have f_nth: "?f ! i = (if o1 \<le> i \<and> i < o1 + n1 then ee_new l ! (i - o1) else b ! i)"
    if "i < length b" for i using apply_lp_nth [OF fl lpl that] by (simp add: on)
  have g_nth: "?g ! i = (if o2 \<le> i \<and> i < o2 + n2 then ee_new e ! (i - o2) else ?f ! i)"
    if "i < length b" for i
    using apply_lp_nth [OF fe lpe] that apply_lp_length [OF fl lpl] by (simp add: on)
  have leno: "ee_old l ! j = b ! (o1 + j)" if "j < n1" for j
    using entry_fits_nth [OF fl] that old1 by (simp add: on)
  have eold: "ee_old e ! j = ?f ! (o2 + j)" if "j < n2" for j
    using entry_fits_nth [OF fe] that old2 by (simp add: on)
  define z :: bytes where "z = replicate (t - s) 0"
  define nw1 where "nw1 = splice_list (o1 - s) n1 (ee_new l) z"
  define nw where "nw = splice_list (o2 - s) n2 (ee_new e) nw1"
  define od1 where "od1 = splice_list (o1 - s) n1 (ee_old l) z"
  define od2 where "od2 = (if o2 < o1 then splice_list 0 (o1 - o2) (slice 0 (o1 - o2) (ee_old e)) od1
      else od1)"
  define ov where "ov = o1 + n1 - o2"
  define od where "od = (if o1 + n1 < o2 + n2
      then splice_list (o1 + n1 - s) (n2 - ov) (slice ov n2 (ee_old e)) od2 else od2)"
  have lz: "length z = t - s" by (simp add: z_def)
  have l1: "length nw1 = t - s" "length od1 = t - s"
    using st old1 by (simp_all add: nw1_def od1_def lz n1_def)
  have l2: "length nw = t - s" "length od2 = t - s"
    using st l1 tch old2 by (auto simp: nw_def od2_def n2_def)
  have l3: "length od = t - s"
    using st l2 tch old2 by (auto simp: od_def ov_def)
  have ok: "merge_entry l e = (Ok \<lparr>ee_offset = s, ee_old = od, ee_new = nw\<rparr> :: ('e, edit_entry) res)"
  proof -
    have a: "copy_into (o1 - s) n1 (ee_new l) z = (Ok nw1 :: ('e, bytes) res)"
      "copy_into (o1 - s) n1 (ee_old l) z = (Ok od1 :: ('e, bytes) res)"
      "copy_into (o2 - s) n2 (ee_new e) nw1 = (Ok nw :: ('e, bytes) res)"
      using st lz l1 old1 by (simp_all add: nw1_def od1_def nw_def n1_def n2_def)
    have b': "res_bind (slice_res 0 (o1 - o2) (ee_old e)) (\<lambda>pre. copy_into 0 (o1 - o2) pre od1)
        = (Ok od2 :: ('e, bytes) res)" if "o2 < o1"
      using that tch l1 old2 st by (auto simp: od2_def)
    have c': "res_bind (slice_res ov n2 (ee_old e))
          (\<lambda>tail. copy_into (o1 + n1 - s) (length tail) tail od2) = (Ok od :: ('e, bytes) res)"
      if "o1 + n1 < o2 + n2"
      using that tch l2 old2 st by (auto simp: od_def ov_def)
    have nl: "length (ee_old e) = n2" "length (ee_old l) = n1" by (simp_all add: old1 old2)
    show ?thesis
      using b' c'
      unfolding merge_entry_def Let_def ends nl
      unfolding on [symmetric] s_def [symmetric] t_def [symmetric] z_def [symmetric] ov_def [symmetric]
      by (auto simp: a od2_def od_def)
  qed
  have old_eq: "od = slice s t b"
  proof (rule nth_equalityI)
    show "length od = length (slice s t b)" using l3 st by simp
  next
    fix k assume "k < length od"
    then have k: "k < t - s" by (simp add: l3)
    have od1_k: "od1 ! k = (if o1 - s \<le> k \<and> k < o1 - s + n1 then ee_old l ! (k - (o1 - s)) else 0)"
      using k st old1 by (simp add: od1_def splice_list_same_nth lz) (simp add: z_def)
    consider "k < o1 - s" | "o1 - s \<le> k" "k < o1 - s + n1" | "o1 - s + n1 \<le> k" by linarith
    then have "od ! k = b ! (s + k)"
    proof cases
      case 1
      then have s: "s = o2" "o2 < o1" by (auto simp: s_def)
      have "od ! k = od2 ! k"
        using 1 st k l2 tch old2 by (auto simp: od_def ov_def splice_list_same_nth)
      also have "\<dots> = slice 0 (o1 - o2) (ee_old e) ! k"
        using 1 s l1 st tch old2 k by (simp add: od2_def splice_list_same_nth)
      also have "\<dots> = ?f ! (o2 + k)"
        using 1 s tch old2 eold [of k] by simp
      also have "\<dots> = b ! (s + k)" using f_nth [of "o2 + k"] 1 s k st by auto
      finally show ?thesis .
    next
      case 2
      have "od ! k = od2 ! k"
        using 2 st k l2 tch old2 by (auto simp: od_def ov_def splice_list_same_nth)
      also have "\<dots> = od1 ! k"
        using 2 st k l1 tch old2 by (auto simp: od2_def splice_list_same_nth s_def)
      also have "\<dots> = b ! (s + k)" using od1_k 2 leno [of "k - (o1 - s)"] st by (auto simp: add.commute)
      finally show ?thesis .
    next
      case 3
      then have ht: "o1 + n1 < o2 + n2" using k st by (auto simp: t_def)
      then have t: "t = o2 + n2" by (simp add: t_def)
      have "od ! k = slice ov n2 (ee_old e) ! (k - (o1 + n1 - s))"
      proof -
        have len: "length (slice ov n2 (ee_old e)) = n2 - ov" using old2 by simp
        have "o1 + n1 - s + (n2 - ov) = t - s" using ht t tch st by (simp add: ov_def)
        moreover have "o1 + n1 - s \<le> k" using 3 st by linarith
        ultimately show ?thesis
          using 3 ht k l2 splice_list_same_nth [OF len, of "o1 + n1 - s" od2 k]
          by (simp add: od_def)
      qed
      also have "\<dots> = ee_old e ! (ov + (k - (o1 + n1 - s)))"
        using 3 ht t k st tch old2 by (subst slice_nth) (auto simp: ov_def)
      also have "\<dots> = ?f ! (o2 + (ov + (k - (o1 + n1 - s))))"
        using 3 ht t k st tch by (intro eold) (auto simp: ov_def)
      also have "o2 + (ov + (k - (o1 + n1 - s))) = s + k"
        using 3 st tch by (simp add: ov_def)
      also have "?f ! (s + k) = b ! (s + k)"
        using f_nth [of "s + k"] 3 k st by auto
      finally show ?thesis .
    qed
    then show "od ! k = slice s t b ! k" using k st by simp
  qed
  have new_eq: "nw ! (i - s) = ?g ! i" if "s \<le> i" "i < t" for i
  proof -
    have sub: "(o2 - s \<le> i - s \<and> i - s < o2 - s + n2) = (o2 \<le> i \<and> i < o2 + n2)"
      "(o1 - s \<le> i - s \<and> i - s < o1 - s + n1) = (o1 \<le> i \<and> i < o1 + n1)"
      "i - s - (o2 - s) = i - o2" "i - s - (o1 - s) = i - o1"
      using that st by linarith+
    have ib: "i < length b" using that st by linarith
    have "nw ! (i - s) = (if o2 - s \<le> i - s \<and> i - s < o2 - s + n2 then ee_new e ! (i - s - (o2 - s))
        else if o1 - s \<le> i - s \<and> i - s < o1 - s + n1 then ee_new l ! (i - s - (o1 - s)) else 0)"
      using that st l1 lz
      by (simp add: nw_def nw1_def splice_list_same_nth n1_def [symmetric] n2_def [symmetric])
         (simp add: z_def)
    then have nw_i: "nw ! (i - s) = (if o2 \<le> i \<and> i < o2 + n2 then ee_new e ! (i - o2)
        else if o1 \<le> i \<and> i < o1 + n1 then ee_new l ! (i - o1) else 0)"
      by (simp only: sub)
    have "(o2 \<le> i \<and> i < o2 + n2) \<or> (o1 \<le> i \<and> i < o1 + n1)"
      using that tch by (auto simp: s_def t_def min_def max_def split: if_splits)
    then show ?thesis unfolding nw_i g_nth [OF ib] f_nth [OF ib] by auto
  qed
  let ?m = "\<lparr>ee_offset = s, ee_old = od, ee_new = nw\<rparr>"
  have fm: "entry_fits ?m b" using st l3 old_eq by (simp add: entry_fits_def)
  have lpm: "lp_entry ?m" using l2 l3 by (simp add: lp_entry_def)
  have "apply_entry ?m b = ?g"
  proof (rule nth_equalityI)
    have lf: "length ?f = length b" by (rule apply_lp_length [OF fl lpl])
    show "length (apply_entry ?m b) = length ?g"
      using apply_lp_length [OF fm lpm] apply_lp_length [OF fe lpe] lf by simp
    fix i assume "i < length (apply_entry ?m b)"
    then have i: "i < length b" using apply_lp_length [OF fm lpm] by simp
    show "apply_entry ?m b ! i = ?g ! i"
    proof (cases "s \<le> i \<and> i < t")
      case True
      then show ?thesis
        using apply_lp_nth [OF fm lpm i] new_eq [of i] l2 st by auto
    next
      case False
      then show ?thesis
        using apply_lp_nth [OF fm lpm i] g_nth [OF i] f_nth [OF i] l2 st by auto
    qed
  qed
  moreover have "nonvoid ?m"
  proof -
    have "0 < n1" using nv old1 by (auto simp: nonvoid_def n1_def)
    then have "0 < t - s" using st by linarith
    then show ?thesis using l2 by (auto simp: nonvoid_def)
  qed
  moreover have "s \<le> ee_offset l" "entry_end l \<le> entry_end ?m"
    using st l2 by (simp_all add: ends(1)) (simp_all add: entry_end_def o1_def)
  ultimately show ?thesis using ok fm lpm lpl by (auto simp: merges_to_def)
qed

text \<open>All three cases of coalescing.\<close>

lemma coalesce_ok:
  assumes fl: "entry_fits l b" and nv: "nonvoid l" and fe: "entry_fits e (apply_entry l b)"
    and some: "coalesce l e = Some r"
  shows "\<exists>m. r = Ok m \<and> merges_to l e m b"
proof -
  let ?last_end = "ee_offset l + length (ee_new l)"
  let ?c1 = "lp_entry l \<and> lp_entry e \<and>
    ranges_touch (ee_offset l) (entry_end l) (ee_offset e) (entry_end e)"
  let ?c2 = "lp_entry e \<and> ee_offset e \<ge> ee_offset l \<and>
    ee_offset e + length (ee_new e) \<le> ?last_end"
  let ?c3 = "ee_old l = [] \<and> ee_old e = [] \<and> ee_offset e = ?last_end"
  consider (one) ?c1 | (two) "\<not> ?c1" ?c2 | (three) "\<not> ?c1" "\<not> ?c2" ?c3
    using some by (auto simp: coalesce_def Let_def split: if_splits)
  then show ?thesis
  proof cases
    case one
    then have "r = merge_entry l e" using some by (simp add: coalesce_def)
    then show ?thesis using merge_entry_ok [OF fl nv _ _ fe] one by blast
  next
    case two
    let ?rel = "ee_offset e - ee_offset l" and ?n = "length (ee_new e)"
    let ?new = "splice_list ?rel ?n (ee_new e) (ee_new l)"
    have len: "?rel + ?n \<le> length (ee_new l)" using two by linarith
    have r: "r = Ok (l\<lparr>ee_new := ?new\<rparr>)"
    proof -
      have "(copy_into ?rel ?n (ee_new e) (ee_new l) :: ('e, bytes) res) = Ok ?new"
        using len by simp
      then show ?thesis
        using some two by (auto simp: coalesce_def Let_def)
    qed
    have "apply_entry (l\<lparr>ee_new := ?new\<rparr>) b = apply_entry e (apply_entry l b)"
    proof -
      have "min (length b) (ee_offset l) = ee_offset l" using fl by (simp add: entry_fits_def)
      then show ?thesis
        using two len by (simp add: apply_entry_def lp_entry_def splice_list_def)
    qed
    moreover have "length ?new = length (ee_new l)" using len by simp
    moreover from this have "?new = [] \<longleftrightarrow> ee_new l = []" by (metis length_0_conv)
    ultimately have "(lp_entry (l\<lparr>ee_new := ?new\<rparr>) \<longleftrightarrow> lp_entry l) \<and> nonvoid (l\<lparr>ee_new := ?new\<rparr>)"
      using nv by (simp add: lp_entry_def nonvoid_def)
    moreover have "entry_end (l\<lparr>ee_new := ?new\<rparr>) = entry_end l" using len by (simp add: entry_end_def)
    moreover have "apply_entry (l\<lparr>ee_new := ?new\<rparr>) b = apply_entry e (apply_entry l b)" by fact
    ultimately show ?thesis using r fl by (auto simp: merges_to_def entry_fits_def)
  next
    case three
    have r: "r = Ok (l\<lparr>ee_new := ee_new l @ ee_new e\<rparr>)"
      using some three by (auto simp: coalesce_def Let_def split: if_splits)
    have "apply_entry (l\<lparr>ee_new := ee_new l @ ee_new e\<rparr>) b = apply_entry e (apply_entry l b)"
    proof -
      have "min (length b) (ee_offset l) = ee_offset l" using fl by (simp add: entry_fits_def)
      then show ?thesis using three by (simp add: apply_entry_def splice_list_def)
    qed
    moreover have "ee_new l \<noteq> []" using nv three by (simp add: nonvoid_def)
    then have "(lp_entry (l\<lparr>ee_new := ee_new l @ ee_new e\<rparr>) \<longleftrightarrow> lp_entry l) \<and>
        nonvoid (l\<lparr>ee_new := ee_new l @ ee_new e\<rparr>)"
      using three by (simp add: lp_entry_def nonvoid_def)
    ultimately show ?thesis using r fl by (auto simp: merges_to_def entry_fits_def entry_end_def)
  qed
qed

text \<open>
  The fast path writes the whole merged entry over the current view, which already holds the
  last entry: that gives what the merged entry gives on the buffer before it.
\<close>

lemma overwrite_merged:
  assumes m: "merges_to l e m b" and lpl: "lp_entry l" and fl: "entry_fits l b"
  shows "splice_list (ee_offset m) (length (ee_new m)) (ee_new m) (apply_entry l b) = apply_entry m b"
proof (rule nth_equalityI)
  have fm: "entry_fits m b" and lpm: "lp_entry m" using m lpl by (simp_all add: merges_to_def)
  have inm: "ee_offset m + length (ee_new m) \<le> length b"
    using fm lpm by (simp add: entry_fits_def lp_entry_def)
  have ll: "length (apply_entry l b) = length b" by (rule apply_lp_length [OF fl lpl])
  show "length (splice_list (ee_offset m) (length (ee_new m)) (ee_new m) (apply_entry l b)) =
      length (apply_entry m b)"
    using inm apply_lp_length [OF fm lpm] ll by simp
  fix i assume "i < length (splice_list (ee_offset m) (length (ee_new m)) (ee_new m) (apply_entry l b))"
  then have i: "i < length b" using inm ll by simp
  show "splice_list (ee_offset m) (length (ee_new m)) (ee_new m) (apply_entry l b) ! i =
      apply_entry m b ! i"
    using m apply_lp_nth [OF fm lpm i] apply_lp_nth [OF fl lpl i] inm ll i
    by (auto simp: splice_list_same_nth merges_to_def entry_end_def)
qed

end
