(* ===== verification/EditInv.thy ===== *)
theory EditInv
  imports EditMerge
begin

text \<open>
  The invariant of the editing state and its preservation by the shared steps: rebuilding the
  patch, recording an entry, and the fast path of a length-preserving write. The view of the
  document is the replay of the undo stack over the base; the redo stack continues it.
\<close>

subsection \<open>The invariant\<close>

definition doc :: "'p edit_state \<Rightarrow> bytes \<Rightarrow> bytes" where
  "doc st c = apply_all (es_undo st) c"

definition base_ok :: "bytes \<Rightarrow> 'p edit_state \<Rightarrow> bool" where
  "base_ok c st \<longleftrightarrow> stores (es_base st) c \<and> (es_cache st = None \<or> es_cache st = Some c)"

definition non_lp_count :: "edit_entry list \<Rightarrow> nat" where
  "non_lp_count es = length (filter (\<lambda>e. \<not> lp_entry e) es)"

definition stacks_ok :: "bytes \<Rightarrow> 'p edit_state \<Rightarrow> bool" where
  "stacks_ok c st \<longleftrightarrow>
     chain_ok (es_undo st @ rev (es_redo st)) c \<and>
     list_all nonvoid (es_undo st @ rev (es_redo st)) \<and>
     es_non_lp st = non_lp_count (es_undo st) \<and>
     length (es_undo st) + length (es_redo st) \<le> undo_history_cap"

definition patch_ok :: "('p, 'm) suture \<Rightarrow> bytes \<Rightarrow> 'p edit_state \<Rightarrow> bool" where
  "patch_ok P c st \<longleftrightarrow>
     ops_in (s_ops P (es_patch st)) 0 (length c) \<and>
     render (s_ops P (es_patch st)) 0 c = doc st c \<and>
     (es_non_lp st = 0 \<longrightarrow> list_all lp_op (s_ops P (es_patch st)))"

definition edit_inv :: "('p, 'm) suture \<Rightarrow> bytes \<Rightarrow> 'p edit_state \<Rightarrow> bool" where
  "edit_inv P c st \<longleftrightarrow> base_ok c st \<and> stacks_ok c st \<and> patch_ok P c st"

lemma non_lp_count_simps [simp]:
  "non_lp_count [] = 0"
  "non_lp_count (e # es) = (if lp_entry e then 0 else 1) + non_lp_count es"
  "non_lp_count (es @ es') = non_lp_count es + non_lp_count es'"
  by (simp_all add: non_lp_count_def)

lemma non_lp_count_0: "non_lp_count es = 0 \<longleftrightarrow> list_all lp_entry es"
  by (induction es) auto

lemma edit_invD:
  assumes "edit_inv P c st"
  shows "base_ok c st" "stacks_ok c st" "patch_ok P c st"
  using assms by (simp_all add: edit_inv_def)

lemma stacks_chain: "stacks_ok c st \<Longrightarrow> chain_ok (es_undo st) c"
  by (simp add: stacks_ok_def)

lemma doc_vec_ok: "stacks_ok c st \<Longrightarrow> vec_ok (doc st c)"
  unfolding doc_def by (rule chain_ok_result [OF stacks_chain])

lemma es_source_stores:
  assumes "suture_laws P" "edit_inv P c st"
  shows "stores (es_source P st) (doc st c)"
  using assms patched_stores [of P "es_base st" c "es_patch st"]
  by (simp add: es_source_def edit_inv_def base_ok_def patch_ok_def)

lemma es_source_len:
  "suture_laws P \<Longrightarrow> edit_inv P c st \<Longrightarrow> hs_len (es_source P st) = length (doc st c)"
  using byte_store.len_content [OF es_source_stores] by auto

lemma edit_new_inv:
  assumes "suture_laws P" "stores b c" "vec_ok c"
  shows "edit_inv P c (edit_new P b)" "doc (edit_new P b) c = c"
  using assms
  by (simp_all add: edit_inv_def base_ok_def stacks_ok_def patch_ok_def edit_new_def doc_def
      suture_new_ops)

lemma swap_base_inv:
  assumes "suture_laws P" "stores b c" "vec_ok c"
  shows "edit_inv P c (swap_base P b st)" "doc (swap_base P b st) c = c"
  using assms
  by (simp_all add: edit_inv_def base_ok_def stacks_ok_def patch_ok_def swap_base_def doc_def
      suture_new_ops)

subsection \<open>Reading\<close>

lemma read_byte_in:
  assumes st: "stores (es_source P st) v" and vec: "vec_ok v" and i: "i < length v"
  shows "read_byte_at P st i = Ok (v ! i)"
proof -
  have "i + 1 < 2 ^ 64" using i vec by (simp add: vec_ok_def)
  then have "wadd64 i 1 = Suc i" by (simp add: u64_simps)
  then show ?thesis
    using byte_store.read_byte [OF st, of i] byte_store.len_content [OF st] i
    by (simp add: read_byte_at_def)
qed

lemma read_byte_out:
  assumes st: "stores (es_source P st) v" and i: "length v \<le> i" "i < 2 ^ 64"
  shows "\<exists>msg. read_byte_at P st i = Err (WriteRejected msg)"
proof (cases "i = u64_max")
  case True
  then have "wadd64 i 1 = 0" by (simp add: wadd64_def u64_max_def)
  then show ?thesis using True by (simp add: read_byte_at_def range_new_def u64_max_def)
next
  case False
  then have "wadd64 i 1 = Suc i" using i(2) by (simp add: u64_simps u64_max_def)
  then show ?thesis
    using byte_store.read_out [OF st, of "\<lparr>br_start = i, br_end = Suc i\<rparr>"]
      byte_store.len_content [OF st] i
    by (simp add: read_byte_at_def)
qed

lemma read_bytes_in:
  assumes st: "stores (es_source P st) v" and vec: "vec_ok v"
  shows "i + n \<le> length v \<Longrightarrow> read_bytes_at P st i n = Ok (slice i (i + n) v)"
proof (induction n arbitrary: i)
  case 0
  then show ?case by simp
next
  case (Suc n)
  then have i: "i < length v" and "i + 1 < 2 ^ 64" using vec by (simp_all add: vec_ok_def)
  then have w: "wadd64 i 1 = Suc i" by (simp add: u64_simps)
  have "slice i (i + Suc n) v = [v ! i] @ slice (Suc i) (i + Suc n) v"
    using slice_append [of i "Suc i" "i + Suc n" v] slice_single [OF i] by simp
  then show ?case
    using Suc.IH [of "Suc i"] Suc.prems by (simp add: read_byte_in [OF st vec i] w [unfolded One_nat_def])
qed

subsection \<open>Rebuilding\<close>

lemma cached_base_ok:
  assumes "base_ok c st"
  shows "cached_base_bytes st = Ok (c, st\<lparr>es_cache := Some c\<rparr>)"
proof (cases "es_cache st")
  case (Some b)
  then have "b = c" "st\<lparr>es_cache := Some c\<rparr> = st" using assms by (simp_all add: base_ok_def)
  then show ?thesis using Some by (simp add: cached_base_bytes_def)
next
  case None
  have st: "stores (es_base st) c" using assms by (simp add: base_ok_def)
  have len: "hs_len (es_base st) = length c" using byte_store.len_content [OF st] .
  show ?thesis
    using None byte_store.read_all [OF st] by (auto simp: cached_base_bytes_def len Let_def)
qed

lemma rebuild_ok:
  assumes laws: "suture_laws P" and base: "base_ok c st"
  obtains p where
    "rebuild_patch_from_stack P st = (Ok (st\<lparr>es_cache := Some c, es_patch := p\<rparr>) :: ('e, 'p edit_state) res)"
    "ops_in (s_ops P p) 0 (length c)"
    "render (s_ops P p) 0 c = replay (es_undo st) c"
    "s_ops P p = [] \<longleftrightarrow> replay (es_undo st) c = c"
    "length (replay (es_undo st) c) = length c \<Longrightarrow> list_all lp_op (s_ops P p)"
proof -
  define p0 where
    "p0 = (case s_metadata P (es_patch st) of Some m \<Rightarrow> s_with_metadata P m | None \<Rightarrow> s_new P)"
  have p0: "s_ops P p0 = []"
    using laws by (simp add: p0_def suture_law_simps split: option.split)
  have eq: "rebuild_patch_from_stack P st = (Ok (st\<lparr>es_cache := Some c,
      es_patch := diff_patch P c (replay (es_undo st) c) p0\<rparr>) :: ('e, 'p edit_state) res)"
    by (simp add: rebuild_patch_from_stack_def cached_base_ok [OF base] Let_def diff_patch_def p0_def)
  show thesis by (rule that [OF eq diff_patch_renders [OF laws p0]])
qed

text \<open>Whatever patch a state had, rebuilding it brings it in line with the undo stack.\<close>

lemma rebuild_patch_ok:
  assumes laws: "suture_laws P" and base: "base_ok c st" and chain: "chain_ok (es_undo st) c"
    and n: "es_non_lp st = non_lp_count (es_undo st)"
  obtains p where
    "rebuild_patch_from_stack P st = (Ok (st\<lparr>es_cache := Some c, es_patch := p\<rparr>) :: ('e, 'p edit_state) res)"
    "base_ok c (st\<lparr>es_cache := Some c, es_patch := p\<rparr>)"
    "patch_ok P c (st\<lparr>es_cache := Some c, es_patch := p\<rparr>)"
    "s_is_empty P p \<longleftrightarrow> doc st c = c"
proof -
  obtain p where p: "rebuild_patch_from_stack P st =
      (Ok (st\<lparr>es_cache := Some c, es_patch := p\<rparr>) :: ('e, 'p edit_state) res)"
    "ops_in (s_ops P p) 0 (length c)" "render (s_ops P p) 0 c = replay (es_undo st) c"
    "s_ops P p = [] \<longleftrightarrow> replay (es_undo st) c = c"
    "length (replay (es_undo st) c) = length c \<Longrightarrow> list_all lp_op (s_ops P p)"
    by (rule rebuild_ok [OF laws base]) blast
  have rep: "replay (es_undo st) c = doc st c"
    unfolding doc_def by (rule replay_chain [OF chain])
  have "list_all lp_op (s_ops P p)" if "es_non_lp st = 0"
  proof (rule p(5))
    have "list_all lp_entry (es_undo st)" using n that by (simp add: non_lp_count_0)
    then show "length (replay (es_undo st) c) = length c"
      using apply_all_lp_length [OF chain] rep by (simp add: doc_def)
  qed
  then have "patch_ok P c (st\<lparr>es_cache := Some c, es_patch := p\<rparr>)"
    using p(2,3) rep by (simp add: patch_ok_def doc_def)
  moreover have "base_ok c (st\<lparr>es_cache := Some c, es_patch := p\<rparr>)"
    using base by (simp add: base_ok_def)
  moreover have "s_is_empty P p \<longleftrightarrow> doc st c = c"
    using p(4) rep laws by (simp add: suture_is_empty)
  ultimately show thesis using p(1) that by blast
qed

lemma rebuild_inv:
  assumes laws: "suture_laws P" and base: "base_ok c st" and stk: "stacks_ok c st"
  obtains p where
    "rebuild_patch_from_stack P st = (Ok (st\<lparr>es_cache := Some c, es_patch := p\<rparr>) :: ('e, 'p edit_state) res)"
    "edit_inv P c (st\<lparr>es_cache := Some c, es_patch := p\<rparr>)"
    "s_is_empty P p \<longleftrightarrow> doc st c = c"
proof -
  have "es_non_lp st = non_lp_count (es_undo st)" using stk by (simp add: stacks_ok_def)
  from rebuild_patch_ok [OF laws base stacks_chain [OF stk] this, where 'e = 'e]
  obtain p where p:
    "rebuild_patch_from_stack P st = (Ok (st\<lparr>es_cache := Some c, es_patch := p\<rparr>) :: ('e, 'p edit_state) res)"
    "base_ok c (st\<lparr>es_cache := Some c, es_patch := p\<rparr>)"
    "patch_ok P c (st\<lparr>es_cache := Some c, es_patch := p\<rparr>)"
    "s_is_empty P p \<longleftrightarrow> doc st c = c" .
  moreover have "stacks_ok c (st\<lparr>es_cache := Some c, es_patch := p\<rparr>)"
    using stk by (simp add: stacks_ok_def)
  ultimately show thesis using that by (simp add: edit_inv_def)
qed

subsection \<open>Recording an entry\<close>

abbreviation recorded :: "nat \<Rightarrow> edit_entry list \<Rightarrow> nat \<Rightarrow> 'p edit_state \<Rightarrow> 'p edit_state" where
  "recorded now undo n st \<equiv> st\<lparr>es_revision := es_revision st + 1, es_redo := [],
     es_undo := undo, es_non_lp := n, es_break := False, es_last_edit := Some now\<rparr>"

lemma record_entry_cases:
  assumes stk: "stacks_ok c st" and fits: "entry_fits e (doc st c)"
    and room: "length (es_undo st) < undo_history_cap"
  obtains (merged) l es m where "es_undo st = es @ [l]" "merges_to l e m (apply_all es c)"
      "entry_fits l (apply_all es c)"
      "record_entry now e st =
         (Ok (recorded now (es @ [m]) (es_non_lp st) st) :: ('e, 'p edit_state) res)"
  | (pushed) "record_entry now e st = (Ok (recorded now (es_undo st @ [e])
      (if lp_entry e then es_non_lp st else es_non_lp st + 1) st) :: ('e, 'p edit_state) res)"
proof (cases "\<exists>r. es_undo st \<noteq> [] \<and> coalesce (last (es_undo st)) e = Some r \<and>
    record_entry now e st = res_bind r (\<lambda>m.
      Ok (recorded now (butlast (es_undo st) @ [m]) (es_non_lp st) st) :: ('e, 'p edit_state) res)")
  case True
  then obtain r :: "('e, edit_entry) res" where r: "es_undo st \<noteq> []" "coalesce (last (es_undo st)) e = Some r"
    "record_entry now e st = res_bind r (\<lambda>m.
      Ok (recorded now (butlast (es_undo st) @ [m]) (es_non_lp st) st))" by blast
  define es l where "es = butlast (es_undo st)" and "l = last (es_undo st)"
  have u: "es_undo st = es @ [l]" using r(1) by (simp add: es_def l_def)
  have fl: "entry_fits l (apply_all es c)" and nv: "nonvoid l"
    using stk by (simp_all add: stacks_ok_def u)
  have "entry_fits e (apply_entry l (apply_all es c))" using fits by (simp add: doc_def u)
  from coalesce_ok [OF fl nv this r(2) [folded l_def]]
  obtain m where m: "r = Ok m" "merges_to l e m (apply_all es c)" by blast
  show thesis
    by (rule merged [OF u m(2) fl]) (use r(3) m(1) in \<open>simp add: es_def\<close>)
next
  case False
  let ?go = "\<not> es_break st \<and> (case es_last_edit st of None \<Rightarrow> True
      | Some t \<Rightarrow> now - t < edit_coalesce_idle) \<and> es_undo st \<noteq> []"
  have "record_entry now e st = (Ok (push_entry now e
      (st\<lparr>es_revision := es_revision st + 1, es_redo := []\<rparr>)) :: ('e, 'p edit_state) res)"
  proof (cases ?go)
    case True
    have "coalesce (last (es_undo st)) e = (None :: ('e, edit_entry) res option)"
    proof (rule ccontr)
      assume "coalesce (last (es_undo st)) e \<noteq> (None :: ('e, edit_entry) res option)"
      then obtain r :: "('e, edit_entry) res" where "coalesce (last (es_undo st)) e = Some r" by blast
      with True False show False
        by (auto simp: record_entry_def Let_def split: option.splits)
    qed
    then show ?thesis by (simp add: record_entry_def Let_def)
  next
    case nogo: False
    then have "\<not> (\<not> es_break st \<and> \<not> (case es_last_edit st of None \<Rightarrow> False
      | Some t \<Rightarrow> now - t \<ge> edit_coalesce_idle) \<and> es_undo st \<noteq> [])"
      by (auto split: option.splits)
    then show ?thesis by (auto simp: record_entry_def Let_def)
  qed
  then show thesis using pushed room by (simp add: push_entry_def Let_def)
qed

end
