(* ===== verification/EditOps.thy ===== *)
theory EditOps
  imports EditInv
begin

text \<open>
  Every operation of the editing state, under the invariant: what it makes of the document, what
  it leaves of the rest of the state, and each of its error branches.
\<close>

subsection \<open>Recording keeps the stacks sound\<close>

text \<open>The two ways an entry enters the history: on its own, or merged into the last one.\<close>

definition history_step :: "bytes \<Rightarrow> edit_entry \<Rightarrow> edit_entry list \<Rightarrow> edit_entry list \<Rightarrow> bool" where
  "history_step c e u u' \<longleftrightarrow>
     u' = u @ [e] \<or>
     (\<exists>es l m. u = es @ [l] \<and> u' = es @ [m] \<and> merges_to l e m (apply_all es c))"

lemma history_step_facts:
  assumes "history_step c e u u'"
  shows "u' \<noteq> []" "length u' \<le> Suc (length u)" "apply_all u' c = apply_entry e (apply_all u c)"
  using assms by (auto simp: history_step_def merges_to_def)

lemma record_entry_ok:
  assumes stk: "stacks_ok c st" and fits: "entry_fits e (doc st c)" and nv: "nonvoid e"
    and vec: "vec_ok (apply_entry e (doc st c))"
    and room: "length (es_undo st) < undo_history_cap"
  obtains u n where
    "record_entry now e st = (Ok (recorded now u n st) :: ('e, 'p edit_state) res)"
    "stacks_ok c (recorded now u n st)" "history_step c e (es_undo st) u"
    "es_non_lp st = 0 \<and> n = 0 \<longrightarrow> entry_end (last u) \<le> length (doc st c) \<and>
       splice_list (ee_offset (last u)) (length (ee_new (last u))) (ee_new (last u)) (doc st c) =
         apply_all u c"
proof (cases rule: record_entry_cases
    [OF stk fits room, where now = now and 'e = 'e, case_names merged pushed])
  case (merged l es m)
  let ?b = "apply_all es c"
  have d: "doc st c = apply_entry l ?b" by (simp add: doc_def merged)
  have new: "apply_all (es @ [m]) c = apply_entry e (doc st c)"
    using merged(2) d by (simp add: merges_to_def)
  have "chain_ok (es @ [m]) c"
    using stk merged(2) vec new chain_ok_vec by (auto simp: stacks_ok_def merged(1) merges_to_def)
  moreover have "length (es @ [m]) \<le> undo_history_cap" using room merged(1) by simp
  ultimately have ok: "stacks_ok c (recorded now (es @ [m]) (es_non_lp st) st)"
    using stk merged(1,2) by (simp add: stacks_ok_def merges_to_def)
  have fast: "entry_end m \<le> length (doc st c) \<and>
      splice_list (ee_offset m) (length (ee_new m)) (ee_new m) (doc st c) = apply_entry m ?b"
    if "es_non_lp st = 0"
  proof -
    have lp: "lp_entry l" "lp_entry m"
      using stk that merged(1,2) by (auto simp: stacks_ok_def merges_to_def split: if_splits)
    have "entry_fits m ?b" using merged(2) by (simp add: merges_to_def)
    then have "entry_end m \<le> length ?b"
      using lp by (simp add: entry_fits_def lp_entry_def entry_end_def)
    then show ?thesis
      using overwrite_merged [OF merged(2) lp(1) merged(3)] apply_lp_length [OF merged(3) lp(1)]
      by (simp add: d)
  qed
  show thesis
    by (rule that [OF merged(4) ok])
      (use new fast merged(1,2) in \<open>auto simp: history_step_def\<close>)
next
  case pushed
  let ?n = "if lp_entry e then es_non_lp st else es_non_lp st + 1"
  have ok: "stacks_ok c (recorded now (es_undo st @ [e]) ?n st)"
    using stk fits nv vec room doc_vec_ok [OF stk]
    by (simp add: stacks_ok_def doc_def)
  have fast: "entry_end e \<le> length (doc st c) \<and>
      splice_list (ee_offset e) (length (ee_new e)) (ee_new e) (doc st c) = apply_entry e (doc st c)"
    if "?n = 0"
  proof -
    have "lp_entry e" using that by (simp split: if_splits)
    then show ?thesis using fits by (simp add: apply_entry_def entry_fits_def lp_entry_def entry_end_def)
  qed
  show thesis
    by (rule that [OF pushed ok]) (use fast in \<open>simp_all add: doc_def history_step_def\<close>)
qed

subsection \<open>The result of an edit\<close>

definition edited ::
  "('p, 'm) suture \<Rightarrow> bytes \<Rightarrow> nat \<Rightarrow> edit_entry \<Rightarrow> 'p edit_state \<Rightarrow> 'p edit_state \<Rightarrow> bool" where
  "edited P c now e st st' \<longleftrightarrow>
     edit_inv P c st' \<and> doc st' c = apply_entry e (doc st c) \<and>
     history_step c e (es_undo st) (es_undo st') \<and> es_redo st' = [] \<and>
     es_revision st' = Suc (es_revision st) \<and> \<not> es_break st' \<and> es_last_edit st' = Some now \<and>
     es_base st' = es_base st \<and> es_mode st' = es_mode st \<and> es_typing st' = es_typing st \<and>
     es_high_nibble st' = es_high_nibble st"

lemma edited_rebuild:
  assumes laws: "suture_laws P" and base: "base_ok c st"
    and rec: "stacks_ok c (recorded now u n st)" "history_step c e (es_undo st) u"
  obtains st' where
    "rebuild_patch_from_stack P (recorded now u n st) = (Ok st' :: ('e, 'p edit_state) res)"
    "edited P c now e st st'"
proof -
  have "base_ok c (recorded now u n st)" using base by (simp add: base_ok_def)
  from rebuild_inv [OF laws this rec(1), where 'e = 'e] obtain p where p:
    "rebuild_patch_from_stack P (recorded now u n st) =
       (Ok ((recorded now u n st)\<lparr>es_cache := Some c, es_patch := p\<rparr>) :: ('e, 'p edit_state) res)"
    "edit_inv P c ((recorded now u n st)\<lparr>es_cache := Some c, es_patch := p\<rparr>)" .
  have "edited P c now e st ((recorded now u n st)\<lparr>es_cache := Some c, es_patch := p\<rparr>)"
    using p(2) rec(2) history_step_facts(3) [OF rec(2)] by (simp add: edited_def doc_def)
  with p(1) show thesis by (rule that)
qed

lemma edited_fast:
  assumes laws: "suture_laws P" and inv: "edit_inv P c st"
    and rec: "stacks_ok c (recorded now u 0 st)" "history_step c e (es_undo st) u"
    and lp0: "es_non_lp st = 0"
    and fast: "entry_end (last u) \<le> length (doc st c)"
      "splice_list (ee_offset (last u)) (length (ee_new (last u))) (ee_new (last u)) (doc st c) =
         apply_all u c"
  obtains st' where
    "apply_lp_write_to_patch P (recorded now u 0 st) = (Ok st' :: ('e, 'p edit_state) res)"
    "edited P c now e st st'"
proof (cases "s_write P (es_patch st) (ee_offset (last u)) (ee_new (last u))")
  case (Inl msg)
  then have "apply_lp_write_to_patch P (recorded now u 0 st) =
      (rebuild_patch_from_stack P (recorded now u 0 st) :: ('e, 'p edit_state) res)"
    using history_step_facts(1) [OF rec(2)] by (simp add: apply_lp_write_to_patch_def)
  then show thesis
    using edited_rebuild [OF laws edit_invD(1) [OF inv] rec] that by metis
next
  case (Inr p)
  let ?st = "(recorded now u 0 st)\<lparr>es_patch := p\<rparr>"
  have run: "apply_lp_write_to_patch P (recorded now u 0 st) = (Ok ?st :: ('e, 'p edit_state) res)"
    using history_step_facts(1) [OF rec(2)] Inr by (simp add: apply_lp_write_to_patch_def)
  have pok: "list_all lp_op (s_ops P (es_patch st))" "ops_in (s_ops P (es_patch st)) 0 (length c)"
    "render (s_ops P (es_patch st)) 0 c = doc st c"
    using inv lp0 by (simp_all add: edit_inv_def patch_ok_def)
  have "overwrites P (es_patch st) (ee_offset (last u)) (ee_new (last u)) p"
    by (rule suture_write [OF laws pok(1) Inr])
  moreover have "length (doc st c) = length c" using render_lp_length [OF pok(1,2)] pok(3) by simp
  ultimately have "patch_ok P c ?st"
    using pok fast by (simp add: overwrites_def patch_ok_def entry_end_def doc_def)
  then have "edit_inv P c ?st"
    using inv rec(1) by (simp add: edit_inv_def base_ok_def stacks_ok_def)
  then have "edited P c now e st ?st"
    using rec history_step_facts(3) [OF rec(2)] by (simp add: edited_def doc_def)
  with run show thesis by (rule that)
qed

subsection \<open>Writes, splices, insertions\<close>

lemma entry_fits_slice:
  "off + n \<le> length v \<Longrightarrow> entry_fits \<lparr>ee_offset = off, ee_old = slice off (off + n) v, ee_new = bs\<rparr> v"
  by (simp add: entry_fits_def)

lemma apply_slice_entry:
  "off + n \<le> length v \<Longrightarrow>
     apply_entry \<lparr>ee_offset = off, ee_old = slice off (off + n) v, ee_new = bs\<rparr> v =
       splice_list off n bs v"
  by (simp add: apply_entry_def)

definition edit_ready :: "('p, 'm) suture \<Rightarrow> bytes \<Rightarrow> 'p edit_state \<Rightarrow> bool" where
  "edit_ready P c st \<longleftrightarrow>
     edit_inv P c st \<and> es_mode st = Mutable \<and> length (es_undo st) < undo_history_cap"

lemma doc_len_64:
  "edit_inv P c st \<Longrightarrow> n \<le> length (doc st c) \<Longrightarrow> n < 2 ^ 64"
  using vec_ok_lt [OF doc_vec_ok] edit_invD(2) by fastforce

lemma doc_len_sat:
  assumes "edit_inv P c st"
  shows "sat_add64 a b \<le> length (doc st c) \<longleftrightarrow> a + b \<le> length (doc st c)"
proof (rule sat_add64_le_iff)
  have "length (doc st c) < 2 ^ 63"
    using doc_vec_ok [OF edit_invD(2) [OF assms]] by (simp add: vec_ok_def)
  then show "length (doc st c) < u64_max" by (simp add: u64_max_def)
qed

lemma edit_readyD:
  assumes "edit_ready P c st"
  shows "edit_inv P c st" "es_mode st = Mutable" "length (es_undo st) < undo_history_cap"
  using assms by (simp_all add: edit_ready_def)

text \<open>Every edit reads the bytes it replaces, records an entry and brings the patch up to date.\<close>

lemma read_old:
  assumes "suture_laws P" "edit_inv P c st" "off + n \<le> length (doc st c)"
  shows "read_bytes_at P st off n = Ok (slice off (off + n) (doc st c))"
  using assms(3) doc_vec_ok [OF edit_invD(2) [OF assms(2)]]
  by (intro read_bytes_in [OF es_source_stores [OF assms(1,2)]])

lemma record_rebuild:
  assumes laws: "suture_laws P" and rdy: "edit_ready P c st" and fits: "entry_fits e (doc st c)"
    and nv: "nonvoid e" and vec: "vec_ok (apply_entry e (doc st c))"
  obtains st' where
    "res_bind (record_entry now e st) (rebuild_patch_from_stack P) =
       (Ok st' :: ('e, 'p edit_state) res)"
    "edited P c now e st st'"
proof -
  note inv = edit_readyD(1) [OF rdy]
  obtain u n where u: "record_entry now e st = (Ok (recorded now u n st) :: ('e, 'p edit_state) res)"
    "stacks_ok c (recorded now u n st)" "history_step c e (es_undo st) u"
    by (rule record_entry_ok [OF edit_invD(2) [OF inv] fits nv vec edit_readyD(3) [OF rdy]], rule that)
  obtain st' where
    "rebuild_patch_from_stack P (recorded now u n st) = (Ok st' :: ('e, 'p edit_state) res)"
    "edited P c now e st st'"
    by (rule edited_rebuild [OF laws edit_invD(1) [OF inv] u(2,3)])
  then show thesis using u(1) that by simp
qed

lemma request_write_ok:
  assumes laws: "suture_laws P" and rdy: "edit_ready P c st" and bs: "bs \<noteq> []"
    and inb: "off + length bs \<le> length (doc st c)"
  defines "e \<equiv> \<lparr>ee_offset = off, ee_old = slice off (off + length bs) (doc st c), ee_new = bs\<rparr>"
  obtains st' where "es_request_write P now off bs st = Ok st'" "edited P c now e st st'"
proof -
  note inv = edit_readyD(1) [OF rdy]
  have w: "wadd64 off (length bs) = off + length bs"
    using doc_len_64 [OF inv inb] by (simp add: u64_simps)
  have fits: "entry_fits e (doc st c)" unfolding e_def by (rule entry_fits_slice [OF inb])
  have nv: "nonvoid e" using bs by (simp add: e_def nonvoid_def)
  have vec: "vec_ok (apply_entry e (doc st c))"
    using inb doc_vec_ok [OF edit_invD(2) [OF inv]] by (simp add: e_def apply_entry_def vec_ok_def)
  obtain u n where u: "record_entry now e st = (Ok (recorded now u n st) :: (write_error, 'a edit_state) res)"
    "stacks_ok c (recorded now u n st)" "history_step c e (es_undo st) u"
    "es_non_lp st = 0 \<and> n = 0 \<longrightarrow> entry_end (last u) \<le> length (doc st c) \<and>
       splice_list (ee_offset (last u)) (length (ee_new (last u))) (ee_new (last u)) (doc st c) =
         apply_all u c"
    by (rule record_entry_ok [OF edit_invD(2) [OF inv] fits nv vec edit_readyD(3) [OF rdy]], rule that)
  have run: "es_request_write P now off bs st =
      (if es_non_lp st = 0 \<and> n = 0 then apply_lp_write_to_patch P (recorded now u n st)
       else rebuild_patch_from_stack P (recorded now u n st))"
    using edit_readyD(2) [OF rdy] inb
    by (simp add: es_request_write_def Let_def es_source_len [OF laws inv] w read_old [OF laws inv inb]
        u(1) [unfolded e_def])
  show thesis
  proof (cases "es_non_lp st = 0 \<and> n = 0")
    case True
    then obtain st' where
      "apply_lp_write_to_patch P (recorded now u 0 st) = (Ok st' :: (write_error, 'a edit_state) res)"
      "edited P c now e st st'"
      using edited_fast [OF laws inv _ u(3), where 'e = write_error] u(2,4) by metis
    then show thesis using run True that by simp
  next
    case False
    obtain st' where
      "rebuild_patch_from_stack P (recorded now u n st) = (Ok st' :: (write_error, 'a edit_state) res)"
      "edited P c now e st st'"
      by (rule edited_rebuild [OF laws edit_invD(1) [OF inv] u(2,3)])
    then show thesis using run False that by simp
  qed
qed

lemma splice_ok:
  assumes laws: "suture_laws P" and rdy: "edit_ready P c st" and nv: "0 < n \<or> ins \<noteq> []"
    and inb: "off + n \<le> length (doc st c)"
    and vec: "vec_ok (splice_list off n ins (doc st c))"
  defines "e \<equiv> \<lparr>ee_offset = off, ee_old = slice off (off + n) (doc st c), ee_new = ins\<rparr>"
  obtains st' where "es_splice P now off n ins st = Ok st'" "edited P c now e st st'"
proof -
  note inv = edit_readyD(1) [OF rdy]
  have old: "length (ee_old e) = n" and new: "ee_new e = ins" using inb by (simp_all add: e_def)
  have nv': "nonvoid e"
    using nv unfolding nonvoid_def new old [symmetric] by simp
  have fits: "entry_fits e (doc st c)" unfolding e_def by (rule entry_fits_slice [OF inb])
  have vec': "vec_ok (apply_entry e (doc st c))"
    using vec by (simp add: e_def apply_slice_entry [OF inb])
  obtain st' where st': "res_bind (record_entry now e st) (rebuild_patch_from_stack P) =
      (Ok st' :: (write_error, 'a edit_state) res)" "edited P c now e st st'"
    by (rule record_rebuild [OF laws rdy fits nv' vec'])
  have "es_splice P now off n ins st =
      res_bind (record_entry now e st) (rebuild_patch_from_stack P)"
    using edit_readyD(2) [OF rdy] inb
    by (simp add: es_splice_def Let_def es_source_len [OF laws inv] read_old [OF laws inv inb]
        e_def linorder_not_le [symmetric] doc_len_sat [OF inv] del: not_le)
  with st' show thesis using that by simp
qed

lemma insert_at_ok:
  assumes laws: "suture_laws P" and rdy: "edit_ready P c st" and nv: "bs \<noteq> []"
    and inb: "off \<le> length (doc st c)"
    and vec: "vec_ok (splice_list off 0 bs (doc st c))"
  defines "e \<equiv> \<lparr>ee_offset = off, ee_old = [], ee_new = bs\<rparr>"
  obtains st' where "es_insert_at P now off bs st = Ok st'" "edited P c now e st st'"
proof -
  note inv = edit_readyD(1) [OF rdy]
  have fits: "entry_fits e (doc st c)" using inb by (simp add: e_def entry_fits_def)
  have nv': "nonvoid e" using nv by (simp add: e_def nonvoid_def)
  have vec': "vec_ok (apply_entry e (doc st c))" using vec by (simp add: e_def apply_entry_def)
  obtain st' where st': "res_bind (record_entry now e st) (rebuild_patch_from_stack P) =
      (Ok st' :: (write_error, 'a edit_state) res)" "edited P c now e st st'"
    by (rule record_rebuild [OF laws rdy fits nv' vec'])
  have "es_insert_at P now off bs st =
      res_bind (record_entry now e st) (rebuild_patch_from_stack P)"
    using edit_readyD(2) [OF rdy] inb
    by (simp add: es_insert_at_def Let_def es_source_len [OF laws inv] e_def)
  with st' show thesis using that by simp
qed

subsection \<open>A batch of splices\<close>

text \<open>
  The reference: the splices of a batch applied one by one, the last one first, so that each
  offset still means what it meant before the batch.
\<close>

fun batch_apply :: "batch_op list \<Rightarrow> bytes \<Rightarrow> bytes" where
  "batch_apply [] v = v"
| "batch_apply ((offset, remove, ins) # ops) v = splice_list offset remove ins (batch_apply ops v)"

fun batch_ok :: "nat \<Rightarrow> batch_op list \<Rightarrow> nat \<Rightarrow> bool" where
  "batch_ok cur [] n \<longleftrightarrow> cur \<le> n"
| "batch_ok cur ((offset, remove, ins) # ops) n \<longleftrightarrow>
     cur \<le> offset \<and> offset + remove \<le> n \<and> batch_ok (offset + remove) ops n"

fun batch_end :: "nat \<Rightarrow> batch_op list \<Rightarrow> nat" where
  "batch_end cur [] = cur"
| "batch_end cur ((offset, remove, ins) # ops) = batch_end (offset + remove) ops"

lemma batch_end_bounds: "batch_ok cur ops n \<Longrightarrow> cur \<le> batch_end cur ops \<and> batch_end cur ops \<le> n"
  by (induction cur ops n rule: batch_ok.induct) auto

lemma validate_batch_ok:
  assumes "n < u64_max"
  shows "batch_ok cur ops n \<Longrightarrow> validate_batch n (Some cur) ops = Ok (Some (batch_end cur ops))"
proof (induction ops arbitrary: cur)
  case Nil
  then show ?case by simp
next
  case (Cons op ops)
  obtain o' r i where op: "op = (o', r, i)" by (cases op)
  have "sat_add64 o' r \<le> n" "sat_add64 o' r = o' + r"
    using Cons.prems assms by (auto simp: op sat_add64_def)
  then show ?case using Cons by (simp add: op Let_def not_less)
qed

lemma validate_batch_bad:
  assumes "n < u64_max"
  shows "cur \<le> n \<Longrightarrow> \<not> batch_ok cur ops n \<Longrightarrow> \<exists>e. validate_batch n (Some cur) ops = Err e"
proof (induction ops arbitrary: cur)
  case Nil
  then show ?case by simp
next
  case (Cons op ops)
  obtain o' r i where op: "op = (o', r, i)" by (cases op)
  show ?case
  proof (cases "cur \<le> o' \<and> o' + r \<le> n")
    case True
    then have "sat_add64 o' r \<le> n" "sat_add64 o' r = o' + r"
      using assms by (auto simp: sat_add64_def)
    then show ?thesis using Cons True by (simp add: op Let_def not_less)
  next
    case False
    then have "sat_add64 o' r > n" if "cur \<le> o'"
      using that assms by (auto simp: sat_add64_def)
    then show ?thesis by (auto simp add: op Let_def not_less)
  qed
qed

lemma interleave_ok:
  assumes "batch_ok (fo + cur) ops (length v)" "le = batch_end (fo + cur) ops"
  shows "\<exists>nb. interleave fo (slice fo le v) cur ops = (Ok nb :: ('e, bytes) res) \<and>
    take (fo + cur) v @ nb @ drop le v = batch_apply ops v"
  using assms
proof (induction ops arbitrary: cur)
  case Nil
  then have "length (slice fo le v) = cur" by auto
  then have "interleave fo (slice fo le v) cur [] = (Ok [] :: ('e, bytes) res)" by simp
  with Nil show ?case by auto
next
  case (Cons op ops)
  obtain o' r i where op: "op = (o', r, i)" by (cases op)
  let ?cur = "o' - fo + r"
  have prem: "fo + cur \<le> o'" "o' + r \<le> length v" "batch_ok (o' + r) ops (length v)"
    "le = batch_end (o' + r) ops"
    using Cons.prems by (simp_all add: op)
  then have cur: "fo + ?cur = o' + r" and le: "o' + r \<le> le" "le \<le> length v"
    using batch_end_bounds [OF prem(3)] by auto
  from Cons.IH [of ?cur] prem cur obtain rest where rest:
    "interleave fo (slice fo le v) ?cur ops = (Ok rest :: ('e, bytes) res)"
    "take (o' + r) v @ rest @ drop le v = batch_apply ops v" by auto
  have kept: "slice_res cur (o' - fo) (slice fo le v) = (Ok (slice (fo + cur) o' v) :: ('e, bytes) res)"
    using prem(1,2) le slice_slice [of fo "o' - fo" le cur v] by simp linarith
  have "interleave fo (slice fo le v) cur (op # ops) =
      (Ok (slice (fo + cur) o' v @ i @ rest) :: ('e, bytes) res)"
    by (simp only: op interleave.simps Let_def kept rest res_bind.simps)
  moreover have "take (fo + cur) v @ (slice (fo + cur) o' v @ i @ rest) @ drop le v =
      splice_list o' r i (batch_apply ops v)"
  proof -
    have "take (fo + cur) v @ slice (fo + cur) o' v = take o' v"
      using prem slice_append [of 0 "fo + cur" o' v] by simp
    then show ?thesis
      using prem by (simp add: splice_list_def rest(2) [symmetric] min_def)
  qed
  ultimately show ?case by (simp add: op)
qed

lemma interleave_Nil:
  "interleave fo old cur ops = Ok [] \<Longrightarrow> (off, n, ins) \<in> set ops \<Longrightarrow> ins = []"
  by (induction ops arbitrary: cur) (auto simp: Let_def)

lemma batch_end_same:
  "batch_ok cur ops m \<Longrightarrow> batch_end cur ops = cur \<Longrightarrow> (off, n, ins) \<in> set ops \<Longrightarrow> n = 0"
proof (induction cur ops m rule: batch_ok.induct)
  case (2 cur o' r i ops m)
  then have "cur \<le> o'" "o' + r \<le> batch_end (o' + r) ops"
    using batch_end_bounds [of "o' + r" ops m] by auto
  with 2 have "r = 0" "cur = o'" by auto
  with 2 show ?case by auto
qed simp

lemma splice_many_ok:
  assumes laws: "suture_laws P" and rdy: "edit_ready P c st" and ne: "ops \<noteq> []"
    and ok: "batch_ok 0 ops (length (doc st c))"
    and nv: "\<exists>(off, n, ins) \<in> set ops. 0 < n \<or> ins \<noteq> []"
    and vec: "vec_ok (batch_apply ops (doc st c))"
  obtains e st' where "es_splice_many P now ops st = Ok st'" "edited P c now e st st'"
    "apply_entry e (doc st c) = batch_apply ops (doc st c)"
proof -
  note inv = edit_readyD(1) [OF rdy]
  let ?v = "doc st c"
  obtain fo r i ops' where ops: "ops = (fo, r, i) # ops'" using ne by (cases ops) auto
  define le where "le = batch_end fo ops"
  have ok': "batch_ok fo ops (length ?v)" using ok by (simp add: ops)
  have le: "fo \<le> le" "le \<le> length ?v" using batch_end_bounds [OF ok'] by (simp_all add: le_def)
  have n: "length ?v < u64_max"
    using doc_vec_ok [OF edit_invD(2) [OF inv]] by (simp add: vec_ok_def u64_max_def)
  have val: "validate_batch (length ?v) None ops = Ok (Some le)"
    using validate_batch_ok [OF n ok'] by (simp add: ops le_def)
  obtain nb where nb: "interleave fo (slice fo le ?v) 0 ops = (Ok nb :: (write_error, bytes) res)"
    "take fo ?v @ nb @ drop le ?v = batch_apply ops ?v"
    using interleave_ok [of fo 0 ops ?v le, where 'e = write_error] ok' by (auto simp: le_def)
  let ?e = "\<lparr>ee_offset = fo, ee_old = slice fo le ?v, ee_new = nb\<rparr>"
  have fits: "entry_fits ?e ?v" using le by (simp add: entry_fits_def)
  have app: "apply_entry ?e ?v = batch_apply ops ?v"
    using le nb(2) by (simp add: apply_entry_def splice_list_def)
  have "nonvoid ?e"
  proof (rule ccontr)
    assume "\<not> nonvoid ?e"
    then have void: "nb = []" "slice fo le ?v = []" by (simp_all add: nonvoid_def)
    then have "length (slice fo le ?v) = 0" by simp
    then have "fo = le" using le by simp
    then have "batch_end fo ops = fo" by (simp add: le_def)
    with void(1) nb(1) have "n = 0 \<and> ins = []" if "(off, n, ins) \<in> set ops" for off n ins
      using that batch_end_same [OF ok'] interleave_Nil by metis
    then show False using nv by fastforce
  qed
  obtain st' where st': "res_bind (record_entry now ?e st) (rebuild_patch_from_stack P) =
      (Ok st' :: (write_error, 'a edit_state) res)" "edited P c now ?e st st'"
    by (rule record_rebuild [OF laws rdy fits \<open>nonvoid ?e\<close>]) (use vec app in simp_all)
  have hd: "fst (hd ops) = fo" by (simp add: ops)
  have "es_splice_many P now ops st = res_bind (record_entry now ?e st) (rebuild_patch_from_stack P)"
    using edit_readyD(2) [OF rdy] ne read_old [OF laws inv, of fo "le - fo"] le nb(1)
    by (simp add: es_splice_many_def Let_def es_source_len [OF laws inv] val hd)
  with st' show thesis using that app by simp
qed

subsection \<open>Rejected edits\<close>

text \<open>Nothing is recorded when an operation fails: every error is returned before the first change.\<close>

lemma readonly_rejects:
  assumes "es_mode st = Readonly"
  shows "es_request_write P now off bs st = Err WriteReadonly"
    "es_splice P now off n bs st = Err WriteReadonly"
    "es_insert_at P now off bs st = Err WriteReadonly"
    "es_splice_many P now ops st = Err WriteReadonly"
  using assms
  by (simp_all add: es_request_write_def es_splice_def es_insert_at_def es_splice_many_def)

lemma request_write_out:
  assumes laws: "suture_laws P" and inv: "edit_inv P c st" and m: "es_mode st = Mutable"
    and bs: "bs \<noteq> []" "vec_ok bs" and off: "off < 2 ^ 64" "length (doc st c) < off + length bs"
  shows "\<exists>e. es_request_write P now off bs st = Err e"
proof (cases "wadd64 off (length bs) > length (doc st c)")
  case True
  then show ?thesis
    using m by (simp add: es_request_write_def Let_def es_source_len [OF laws inv])
next
  case False
  then have "off + length bs \<ge> 2 ^ 64"
    using off(2) by (cases "off + length bs < 2 ^ 64") (simp_all add: u64_simps)
  then have "length (doc st c) \<le> off"
    using bs(2) doc_vec_ok [OF edit_invD(2) [OF inv]] by (simp add: vec_ok_def)
  from read_byte_out [OF es_source_stores [OF laws inv] this off(1)]
  obtain msg where msg: "read_byte_at P st off = Err (WriteRejected msg)" by blast
  have "read_bytes_at P st off (length bs) = Err (WriteRejected msg)"
    using bs(1) msg by (cases bs) simp_all
  then show ?thesis
    using m False by (simp add: es_request_write_def Let_def es_source_len [OF laws inv])
qed

lemma splice_out:
  assumes laws: "suture_laws P" and inv: "edit_inv P c st" and m: "es_mode st = Mutable"
    and off: "length (doc st c) < off + n"
  shows "es_splice P now off n bs st = Err (WriteOutOfBounds off n (length (doc st c)))"
  using m off doc_len_sat [OF inv, of off n]
  by (simp add: es_splice_def Let_def es_source_len [OF laws inv])

lemma insert_at_out:
  assumes laws: "suture_laws P" and inv: "edit_inv P c st" and m: "es_mode st = Mutable"
    and off: "length (doc st c) < off"
  shows "es_insert_at P now off bs st = Err (WriteOutOfBounds off (length bs) (length (doc st c)))"
  using m off by (simp add: es_insert_at_def Let_def es_source_len [OF laws inv])

lemma splice_many_out:
  assumes laws: "suture_laws P" and inv: "edit_inv P c st" and m: "es_mode st = Mutable"
    and bad: "\<not> batch_ok 0 ops (length (doc st c))"
  shows "\<exists>e. es_splice_many P now ops st = Err e"
proof -
  let ?n = "length (doc st c)"
  have n: "?n < u64_max"
    using doc_vec_ok [OF edit_invD(2) [OF inv]] by (simp add: vec_ok_def u64_max_def)
  obtain op ops' where ops: "ops = op # ops'" using bad by (cases ops) auto
  obtain o' r i where op: "op = (o', r, i)" by (cases op)
  have "\<exists>e. validate_batch ?n None ops = Err e"
    using validate_batch_bad [OF n, of 0 ops] bad by (simp add: ops op)
  then show ?thesis
    using m ops by (auto simp add: es_splice_many_def Let_def es_source_len [OF laws inv])
qed

subsection \<open>Undo, redo, revert\<close>

definition undone :: "bytes \<Rightarrow> 'p \<Rightarrow> 'p edit_state \<Rightarrow> 'p edit_state" where
  "undone c p st = st\<lparr>es_undo := butlast (es_undo st),
     es_redo := es_redo st @ [last (es_undo st)], es_revision := es_revision st + 1,
     es_non_lp := non_lp_count (butlast (es_undo st)), es_cache := Some c, es_patch := p,
     es_break := True, es_high_nibble := True\<rparr>"

definition redone :: "bytes \<Rightarrow> 'p \<Rightarrow> 'p edit_state \<Rightarrow> 'p edit_state" where
  "redone c p st = st\<lparr>es_redo := butlast (es_redo st),
     es_undo := es_undo st @ [last (es_redo st)], es_revision := es_revision st + 1,
     es_non_lp := non_lp_count (es_undo st @ [last (es_redo st)]), es_cache := Some c,
     es_patch := p, es_break := True, es_high_nibble := True\<rparr>"

definition reverted :: "bytes \<Rightarrow> 'p \<Rightarrow> 'p edit_state \<Rightarrow> 'p edit_state" where
  "reverted c p st = st\<lparr>es_revision := es_revision st + 1, es_undo := [], es_redo := [],
     es_break := True, es_last_edit := None, es_non_lp := 0, es_cache := Some c,
     es_patch := p\<rparr>"

lemma undo_ok:
  assumes laws: "suture_laws P" and inv: "edit_inv P c st" and m: "es_mode st = Mutable"
    and ne: "es_undo st \<noteq> []"
  obtains p where
    "es_undo_step P st = (Ok (Some (last (es_undo st)), undone c p st) ::
       ('e, edit_entry option \<times> 'p edit_state) res)"
    "edit_inv P c (undone c p st)" "s_is_empty P p \<longleftrightarrow> apply_all (butlast (es_undo st)) c = c"
proof -
  define es l where "es = butlast (es_undo st)" and "l = last (es_undo st)"
  have u: "es_undo st = es @ [l]" using ne by (simp add: es_def l_def)
  have n: "(if lp_entry l then es_non_lp st else es_non_lp st - 1) = non_lp_count es"
    using inv by (auto simp: edit_inv_def stacks_ok_def u)
  let ?s1 = "st\<lparr>es_undo := es, es_revision := es_revision st + 1, es_non_lp := non_lp_count es\<rparr>"
  have stk: "stacks_ok c (?s1\<lparr>es_redo := es_redo st @ [l]\<rparr>)"
    using inv by (simp add: edit_inv_def stacks_ok_def u)
  have chain: "chain_ok (es_undo ?s1) c" using stk by (simp add: stacks_ok_def)
  have "base_ok c ?s1" using inv by (simp add: edit_inv_def base_ok_def)
  from rebuild_patch_ok [OF laws this chain, where 'e = 'e] obtain p where p:
    "rebuild_patch_from_stack P ?s1 =
       (Ok (?s1\<lparr>es_cache := Some c, es_patch := p\<rparr>) :: ('e, 'p edit_state) res)"
    "base_ok c (?s1\<lparr>es_cache := Some c, es_patch := p\<rparr>)"
    "patch_ok P c (?s1\<lparr>es_cache := Some c, es_patch := p\<rparr>)"
    "s_is_empty P p \<longleftrightarrow> doc ?s1 c = c" by auto
  show thesis
  proof (rule that)
    show "es_undo_step P st = (Ok (Some (last (es_undo st)), undone c p st) ::
       ('e, edit_entry option \<times> 'p edit_state) res)"
      using m ne p(1) n by (simp add: es_undo_step_def undone_def es_def l_def Let_def)
    show "edit_inv P c (undone c p st)"
      using p(2,3) stk
      by (simp add: edit_inv_def base_ok_def stacks_ok_def patch_ok_def doc_def undone_def flip: es_def l_def)
    show "s_is_empty P p \<longleftrightarrow> apply_all (butlast (es_undo st)) c = c"
      using p(4) by (simp add: doc_def es_def)
  qed
qed

lemma redo_ok:
  assumes laws: "suture_laws P" and inv: "edit_inv P c st" and m: "es_mode st = Mutable"
    and ne: "es_redo st \<noteq> []"
  obtains p where
    "es_redo_step P st = (Ok (Some (last (es_redo st)), redone c p st) ::
       ('e, edit_entry option \<times> 'p edit_state) res)"
    "edit_inv P c (redone c p st)"
    "s_is_empty P p \<longleftrightarrow> apply_all (es_undo st @ [last (es_redo st)]) c = c"
proof -
  define rs l where "rs = butlast (es_redo st)" and "l = last (es_redo st)"
  have r: "es_redo st = rs @ [l]" using ne by (simp add: rs_def l_def)
  have n: "(if lp_entry l then es_non_lp st else es_non_lp st + 1) = non_lp_count (es_undo st @ [l])"
    using inv by (simp add: edit_inv_def stacks_ok_def)
  let ?s1 = "st\<lparr>es_redo := rs, es_revision := es_revision st + 1,
    es_non_lp := non_lp_count (es_undo st @ [l]), es_undo := es_undo st @ [l]\<rparr>"
  have stk1: "stacks_ok c ?s1" using inv by (simp add: edit_inv_def stacks_ok_def r)
  have "base_ok c ?s1" using inv by (simp add: edit_inv_def base_ok_def)
  from rebuild_inv [OF laws this stk1, where 'e = 'e] obtain p where p:
    "rebuild_patch_from_stack P ?s1 =
       (Ok (?s1\<lparr>es_cache := Some c, es_patch := p\<rparr>) :: ('e, 'p edit_state) res)"
    "edit_inv P c (?s1\<lparr>es_cache := Some c, es_patch := p\<rparr>)"
    "s_is_empty P p \<longleftrightarrow> doc ?s1 c = c" .
  show thesis
  proof (rule that)
    show "es_redo_step P st = (Ok (Some (last (es_redo st)), redone c p st) ::
       ('e, edit_entry option \<times> 'p edit_state) res)"
      using m ne p(1) n by (simp add: es_redo_step_def redone_def rs_def l_def Let_def del: non_lp_count_simps)
    show "edit_inv P c (redone c p st)"
      using p(2)
      by (simp add: edit_inv_def base_ok_def stacks_ok_def patch_ok_def doc_def redone_def flip: rs_def l_def)
    show "s_is_empty P p \<longleftrightarrow> apply_all (es_undo st @ [last (es_redo st)]) c = c"
      using p(3) by (simp add: doc_def l_def)
  qed
qed

lemma revert_ok:
  assumes laws: "suture_laws P" and inv: "edit_inv P c st"
  obtains p where
    "es_revert P st = (Ok (reverted c p st) :: ('e, 'p edit_state) res)"
    "edit_inv P c (reverted c p st)" "s_ops P p = []"
proof -
  let ?s1 = "st\<lparr>es_revision := es_revision st + 1, es_undo := [], es_redo := [],
       es_break := True, es_last_edit := None, es_non_lp := 0\<rparr>"
  have "vec_ok c" using edit_invD(2) [OF inv] chain_ok_vec by (auto simp: stacks_ok_def)
  then have stk: "stacks_ok c ?s1" by (simp add: stacks_ok_def)
  have "base_ok c ?s1" using inv by (simp add: edit_inv_def base_ok_def)
  from rebuild_inv [OF laws this stk, where 'e = 'e] obtain p where p:
    "rebuild_patch_from_stack P ?s1 =
       (Ok (?s1\<lparr>es_cache := Some c, es_patch := p\<rparr>) :: ('e, 'p edit_state) res)"
    "edit_inv P c (?s1\<lparr>es_cache := Some c, es_patch := p\<rparr>)"
    "s_is_empty P p \<longleftrightarrow> doc ?s1 c = c" .
  show thesis
    by (rule that [of p]) (use p laws in \<open>simp_all add: es_revert_def reverted_def doc_def suture_is_empty\<close>)
qed

end
