(* ===== verification/EditSteps.thy ===== *)
theory EditSteps
  imports EditOps
begin

text \<open>
  The editing state as a machine: its commands, the relation of reachable states, and the
  abstract document it refines, a history of whole buffers (past, present, future) in which
  undo and redo move along and an edit either adds a version or joins the last one.
\<close>

subsection \<open>Commands\<close>

datatype edit_cmd =
    CWrite nat bytes
  | CInsert nat bytes
  | CSplice nat nat bytes
  | CBatch "batch_op list"
  | CUndo
  | CRedo
  | CRevert

fun run_cmd ::
  "('p, 'm) suture \<Rightarrow> nat \<Rightarrow> edit_cmd \<Rightarrow> 'p edit_state \<Rightarrow> (write_error, 'p edit_state) res" where
  "run_cmd P now (CWrite off bs) st = es_request_write P now off bs st"
| "run_cmd P now (CInsert off bs) st = es_insert_at P now off bs st"
| "run_cmd P now (CSplice off n bs) st = es_splice P now off n bs st"
| "run_cmd P now (CBatch ops) st = es_splice_many P now ops st"
| "run_cmd P now CUndo st = res_bind (es_undo_step P st) (\<lambda>(_, st). Ok st)"
| "run_cmd P now CRedo st = res_bind (es_redo_step P st) (\<lambda>(_, st). Ok st)"
| "run_cmd P now CRevert st = es_revert P st"

text \<open>What an edit does to the bytes, when it is inside them.\<close>

fun edit_effect :: "edit_cmd \<Rightarrow> bytes \<Rightarrow> bytes option" where
  "edit_effect (CWrite off bs) v =
     (if off + length bs \<le> length v then Some (splice_list off (length bs) bs v) else None)"
| "edit_effect (CInsert off bs) v =
     (if off \<le> length v then Some (splice_list off 0 bs v) else None)"
| "edit_effect (CSplice off n bs) v =
     (if off + n \<le> length v then Some (splice_list off n bs v) else None)"
| "edit_effect (CBatch ops) v =
     (if batch_ok 0 ops (length v) then Some (batch_apply ops v) else None)"
| "edit_effect _ v = None"

fun is_edit :: "edit_cmd \<Rightarrow> bool" where
  "is_edit CUndo = False"
| "is_edit CRedo = False"
| "is_edit CRevert = False"
| "is_edit _ = True"

text \<open>The edit changes something, and its arguments are machine values.\<close>

fun substantial :: "edit_cmd \<Rightarrow> bool" where
  "substantial (CWrite off bs) \<longleftrightarrow> bs \<noteq> [] \<and> vec_ok bs \<and> off < 2 ^ 64"
| "substantial (CInsert off bs) \<longleftrightarrow> bs \<noteq> []"
| "substantial (CSplice off n bs) \<longleftrightarrow> 0 < n \<or> bs \<noteq> []"
| "substantial (CBatch ops) \<longleftrightarrow> (\<exists>(off, n, ins) \<in> set ops. 0 < n \<or> ins \<noteq> [])"
| "substantial _ \<longleftrightarrow> True"

text \<open>A command the history has room for and whose result is still a vector.\<close>

definition admissible :: "edit_cmd \<Rightarrow> bytes \<Rightarrow> 'p edit_state \<Rightarrow> bool" where
  "admissible cmd c st \<longleftrightarrow>
     substantial cmd \<and>
     (is_edit cmd \<longrightarrow> length (es_undo st) < undo_history_cap) \<and>
     (case edit_effect cmd (doc st c) of Some w \<Rightarrow> vec_ok w | None \<Rightarrow> True)"

subsection \<open>The abstract document\<close>

datatype history = History (hist_past: "bytes list") (hist_now: bytes) (hist_future: "bytes list")

fun befores :: "edit_entry list \<Rightarrow> bytes \<Rightarrow> bytes list" where
  "befores [] b = []"
| "befores (e # es) b = b # befores es (apply_entry e b)"

fun afters :: "edit_entry list \<Rightarrow> bytes \<Rightarrow> bytes list" where
  "afters [] b = []"
| "afters (e # es) b = apply_entry e b # afters es (apply_entry e b)"

definition abs_history :: "bytes \<Rightarrow> 'p edit_state \<Rightarrow> history" where
  "abs_history c st =
     History (befores (es_undo st) c) (doc st c) (afters (rev (es_redo st)) (doc st c))"

lemma befores_snoc [simp]: "befores (es @ [e]) b = befores es b @ [apply_all es b]"
  by (induction es arbitrary: b) auto

inductive hist_step :: "bytes \<Rightarrow> edit_cmd \<Rightarrow> history \<Rightarrow> history \<Rightarrow> bool" for c :: bytes where
  Version: "edit_effect cmd v = Some w \<Longrightarrow>
    hist_step c cmd (History past v future) (History (past @ [v]) w [])"
| Join: "edit_effect cmd v = Some w \<Longrightarrow>
    hist_step c cmd (History (past @ [u]) v future) (History (past @ [u]) w [])"
| Undo: "hist_step c CUndo (History (past @ [u]) v future) (History past u (v # future))"
| Undo_none: "hist_step c CUndo (History [] v future) (History [] v future)"
| Redo: "hist_step c CRedo (History past v (w # future)) (History (past @ [v]) w future)"
| Redo_none: "hist_step c CRedo (History past v []) (History past v [])"
| Revert: "hist_step c CRevert (History past v future) (History [] c [])"

inductive_simps hist_step_undo: "hist_step c CUndo (History past v future) h"
inductive_simps hist_step_redo: "hist_step c CRedo (History past v future) h"
inductive_simps hist_step_revert: "hist_step c CRevert h h'"

subsection \<open>Refinement\<close>

lemma edited_hist_step:
  assumes ed: "edited P c now e st st'" and eff: "edit_effect cmd (doc st c) = Some (apply_entry e (doc st c))"
  shows "hist_step c cmd (abs_history c st) (abs_history c st')"
proof -
  have d: "doc st' c = apply_entry e (doc st c)" and r: "es_redo st' = []"
    and h: "history_step c e (es_undo st) (es_undo st')"
    using ed by (simp_all add: edited_def)
  from h consider (pushed) "es_undo st' = es_undo st @ [e]"
    | (merged) es l m where "es_undo st = es @ [l]" "es_undo st' = es @ [m]"
    by (auto simp: history_step_def)
  then show ?thesis
  proof cases
    case pushed
    have ab: "abs_history c st' = History (befores (es_undo st) c @ [doc st c]) (apply_entry e (doc st c)) []"
      by (simp add: abs_history_def pushed r d) (simp add: doc_def)
    show ?thesis unfolding ab by (simp add: abs_history_def hist_step.Version [OF eff])
  next
    case merged
    have ab: "abs_history c st' = History (befores es c @ [apply_all es c]) (apply_entry e (doc st c)) []"
      by (simp add: abs_history_def merged r d)
    show ?thesis unfolding ab by (simp add: abs_history_def merged(1) hist_step.Join [OF eff])
  qed
qed

lemma undo_hist_step:
  assumes inv: "edit_inv P c st" and ne: "es_undo st \<noteq> []"
  shows "hist_step c CUndo (abs_history c st) (abs_history c (undone c p st))"
proof -
  define es l where "es = butlast (es_undo st)" and "l = last (es_undo st)"
  have u: "es_undo st = es @ [l]" using ne by (simp add: es_def l_def)
  show ?thesis
    using hist_step.Undo [of c "befores es c" "apply_all es c" "doc st c" "afters (rev (es_redo st)) (doc st c)"]
    by (simp add: abs_history_def undone_def u doc_def)
qed

lemma redo_hist_step:
  assumes inv: "edit_inv P c st" and ne: "es_redo st \<noteq> []"
  shows "hist_step c CRedo (abs_history c st) (abs_history c (redone c p st))"
proof -
  define rs l where "rs = butlast (es_redo st)" and "l = last (es_redo st)"
  have r: "es_redo st = rs @ [l]" using ne by (simp add: rs_def l_def)
  show ?thesis
    using hist_step.Redo [of c "befores (es_undo st) c" "doc st c" "apply_entry l (doc st c)"]
    by (simp add: abs_history_def redone_def r doc_def)
qed

text \<open>Every admissible command is one step of the abstract document, or is out of bounds and fails.\<close>

lemma run_cmd_refines:
  assumes laws: "suture_laws P" and inv: "edit_inv P c st" and m: "es_mode st = Mutable"
    and adm: "admissible cmd c st"
  shows "(\<exists>st'. run_cmd P now cmd st = Ok st' \<and> edit_inv P c st' \<and> es_mode st' = Mutable \<and>
      hist_step c cmd (abs_history c st) (abs_history c st')) \<or>
    (\<exists>err. run_cmd P now cmd st = Err err \<and> is_edit cmd \<and> edit_effect cmd (doc st c) = None)"
proof -
  have rdy: "edit_ready P c st" if "is_edit cmd"
    using that inv m adm by (simp add: edit_ready_def admissible_def)
  have fin: "?thesis" if "run_cmd P now cmd st = Ok st'" "edited P c now e st st'"
    "edit_effect cmd (doc st c) = Some (apply_entry e (doc st c))" for st' e
    using that edited_hist_step [OF that(2,3)] m by (auto simp: edited_def)
  show ?thesis
  proof (cases cmd)
    case (CWrite off bs)
    show ?thesis
    proof (cases "off + length bs \<le> length (doc st c)")
      case True
      obtain st' where "es_request_write P now off bs st = Ok st'" "edited P c now
          \<lparr>ee_offset = off, ee_old = slice off (off + length bs) (doc st c), ee_new = bs\<rparr> st st'"
        using request_write_ok [OF laws rdy, of bs off now] True adm CWrite
        by (auto simp: admissible_def)
      then show ?thesis using fin True by (simp add: CWrite apply_slice_entry)
    next
      case False
      then show ?thesis
        using request_write_out [OF laws inv m, of bs off now] adm
        by (auto simp: CWrite admissible_def)
    qed
  next
    case (CInsert off bs)
    show ?thesis
    proof (cases "off \<le> length (doc st c)")
      case True
      obtain st' where "es_insert_at P now off bs st = Ok st'" "edited P c now
          \<lparr>ee_offset = off, ee_old = [], ee_new = bs\<rparr> st st'"
        using insert_at_ok [OF laws rdy, of bs off now] True adm CInsert
        by (auto simp: admissible_def)
      then show ?thesis using fin True by (simp add: CInsert apply_entry_def)
    next
      case False
      then show ?thesis using insert_at_out [OF laws inv m, of off now bs] by (simp add: CInsert)
    qed
  next
    case (CSplice off n bs)
    show ?thesis
    proof (cases "off + n \<le> length (doc st c)")
      case True
      obtain st' where "es_splice P now off n bs st = Ok st'" "edited P c now
          \<lparr>ee_offset = off, ee_old = slice off (off + n) (doc st c), ee_new = bs\<rparr> st st'"
        using splice_ok [OF laws rdy, of n bs off now] True adm CSplice
        by (auto simp: admissible_def)
      then show ?thesis using fin True by (simp add: CSplice apply_slice_entry)
    next
      case False
      then show ?thesis using splice_out [OF laws inv m, of off n now bs] by (simp add: CSplice)
    qed
  next
    case (CBatch ops)
    show ?thesis
    proof (cases "batch_ok 0 ops (length (doc st c))")
      case True
      have ne: "ops \<noteq> []" and nv: "\<exists>(off, n, ins) \<in> set ops. 0 < n \<or> ins \<noteq> []"
        and vec: "vec_ok (batch_apply ops (doc st c))" and ed: "is_edit cmd"
        using adm True CBatch by (auto simp: admissible_def)
      obtain e st' where "es_splice_many P now ops st = Ok st'" "edited P c now e st st'"
        "apply_entry e (doc st c) = batch_apply ops (doc st c)"
        by (rule splice_many_ok [OF laws rdy [OF ed] ne True nv vec])
      then show ?thesis using fin True by (simp add: CBatch)
    next
      case False
      then show ?thesis using splice_many_out [OF laws inv m, of ops now] by (simp add: CBatch)
    qed
  next
    case CUndo
    show ?thesis
    proof (cases "es_undo st = []")
      case True
      then show ?thesis
        using inv m hist_step.Undo_none [of c]
        by (simp add: CUndo es_undo_step_def abs_history_def)
    next
      case False
      obtain p where "es_undo_step P st =
          (Ok (Some (last (es_undo st)), undone c p st) :: (write_error, _) res)"
        "edit_inv P c (undone c p st)"
        by (rule undo_ok [OF laws inv m False])
      then show ?thesis
        using undo_hist_step [OF inv False, of p] m by (simp add: CUndo) (simp add: undone_def)
    qed
  next
    case CRedo
    show ?thesis
    proof (cases "es_redo st = []")
      case True
      then show ?thesis
        using inv m hist_step.Redo_none [of c]
        by (simp add: CRedo es_redo_step_def abs_history_def)
    next
      case False
      obtain p where "es_redo_step P st =
          (Ok (Some (last (es_redo st)), redone c p st) :: (write_error, _) res)"
        "edit_inv P c (redone c p st)"
        by (rule redo_ok [OF laws inv m False])
      then show ?thesis
        using redo_hist_step [OF inv False, of p] m by (simp add: CRedo) (simp add: redone_def)
    qed
  next
    case CRevert
    obtain p where "es_revert P st = (Ok (reverted c p st) :: (write_error, _) res)"
      "edit_inv P c (reverted c p st)"
      by (rule revert_ok [OF laws inv])
    then show ?thesis
      using m hist_step.Revert [of c] by (simp add: CRevert abs_history_def reverted_def doc_def)
  qed
qed

subsection \<open>Reachable states\<close>

inductive edit_reachable :: "('p, 'm) suture \<Rightarrow> bytes \<Rightarrow> 'p edit_state \<Rightarrow> bool"
  for P :: "('p, 'm) suture" and c :: bytes where
  Start: "stores b c \<Longrightarrow> vec_ok c \<Longrightarrow> edit_reachable P c (edit_new P b)"
| Step: "edit_reachable P c st \<Longrightarrow> admissible cmd c st \<Longrightarrow> run_cmd P now cmd st = Ok st' \<Longrightarrow>
    edit_reachable P c st'"

lemma reachable_inv:
  assumes laws: "suture_laws P"
  shows "edit_reachable P c st \<Longrightarrow> edit_inv P c st \<and> es_mode st = Mutable"
proof (induction rule: edit_reachable.induct)
  case (Start b)
  then show ?case using edit_new_inv [OF laws] by (simp add: edit_new_def)
next
  case (Step st cmd now st')
  then show ?case using run_cmd_refines [OF laws, of c st cmd now] by auto
qed

end
