(* ===== verification/Patch_Instance.thy ===== *)
theory Patch_Instance
  imports EditSteps
begin

text \<open>
  A concrete patch type that meets the laws the development assumes of the crate's: a list of
  splices with optional metadata, where a splice, an insertion and a deletion are appended
  behind the recorded ones and anything else is rejected. It shows that the laws can hold, and
  lets the theorems run on concrete documents.
\<close>

type_synonym list_patch = "splice_op list \<times> nat option"

definition list_append :: "list_patch \<Rightarrow> splice_op \<Rightarrow> string + list_patch" where
  "list_append p op =
     (if ops_end (fst p) 0 \<le> op_offset op then Inr (fst p @ [op], snd p) else Inl ''overlap'')"

definition list_suture :: "(list_patch, nat) suture" where
  "list_suture =
     \<lparr>s_new = ([], None),
      s_with_metadata = (\<lambda>m. ([], Some m)),
      s_metadata = snd,
      s_is_empty = (\<lambda>p. fst p = []),
      s_ops = fst,
      s_output_len = (\<lambda>p n. ops_out_len (fst p) n),
      s_write = (\<lambda>p off bs. list_append p (splice_op off (length bs) bs)),
      s_splice = (\<lambda>p off k bs. list_append p (splice_op off k bs)),
      s_insert = (\<lambda>p off bs. list_append p (splice_op off 0 bs)),
      s_delete = (\<lambda>p off k. list_append p (splice_op off k []))\<rparr>"

lemma list_suture_sel [simp]:
  "s_new list_suture = ([], None)" "s_with_metadata list_suture m = ([], Some m)"
  "s_metadata list_suture p = snd p" "s_is_empty list_suture p \<longleftrightarrow> fst p = []"
  "s_ops list_suture p = fst p" "s_output_len list_suture p n = ops_out_len (fst p) n"
  "s_write list_suture p off bs = list_append p (splice_op off (length bs) bs)"
  "s_splice list_suture p off k bs = list_append p (splice_op off k bs)"
  "s_insert list_suture p off bs = list_append p (splice_op off 0 bs)"
  "s_delete list_suture p off k = list_append p (splice_op off k [])"
  by (simp_all add: list_suture_def)

lemma same_splices_refl: "same_splices os os"
  by (simp add: same_splices_def)

lemma list_append_appends:
  "ops_end (fst p) 0 \<le> op_offset op \<Longrightarrow> appends list_suture p op (list_append p op)"
  by (simp add: appends_def list_append_def same_splices_refl)

lemma drop_lp_render:
  assumes lp: "list_all lp_op ops" and fit: "ops_in ops 0 (length c)" and e: "ops_end ops 0 \<le> i"
  shows "drop i (render ops 0 c) = drop i c"
proof -
  have "length (render ops 0 c) = length c" by (rule render_lp_length [OF lp fit])
  then have "length (ops_body ops 0 c) = ops_end ops 0"
    using ops_in_end [OF fit] by (simp add: render_body)
  then show ?thesis using e by (simp add: render_body)
qed

lemma list_write_overwrites:
  assumes lp: "list_all lp_op (fst p)"
    and w: "list_append p (splice_op off (length bs) bs) = Inr p'"
  shows "overwrites list_suture p off bs p'"
proof -
  let ?op = "splice_op off (length bs) bs"
  have e: "ops_end (fst p) 0 \<le> off" and p': "fst p' = fst p @ [?op]"
    using w by (auto simp: list_append_def split: if_splits)
  have "render (fst p @ [?op]) 0 c = splice_list off (length bs) bs (render (fst p) 0 c) \<and>
      ops_in (fst p @ [?op]) 0 (length c)"
    if fit: "ops_in (fst p) 0 (length c)" and off: "off + length bs \<le> length c" for c
  proof -
    have tight: "ops_in (fst p) 0 off" by (rule ops_in_tight [OF fit e])
    then have "render (fst p @ [?op]) 0 c =
        take off (render (fst p) 0 c) @ bs @ drop (off + length bs) c"
      using lp off render_snoc_lp [of "fst p" ?op c] by simp
    moreover have "drop (off + length bs) (render (fst p) 0 c) = drop (off + length bs) c"
      using e by (intro drop_lp_render [OF lp fit]) simp
    ultimately show ?thesis using tight off by (simp add: splice_list_def)
  qed
  then show ?thesis using lp by (auto simp: overwrites_def p' lp_op_def)
qed

lemma list_suture_laws: "suture_laws list_suture"
  unfolding suture_laws_def
proof (intro conjI)
  show "law_empty list_suture" by (simp add: law_empty_def)
  show "law_output_len list_suture" by (simp add: law_output_len_def)
  show "law_append list_suture" by (simp add: law_append_def list_append_appends)
  show "law_write list_suture" by (simp add: law_write_def list_write_overwrites)
qed

text \<open>The sample document of the witnesses: six bytes in memory, freshly opened.\<close>

definition sample_bytes :: bytes where
  "sample_bytes = [0x00, 0x11, 0x22, 0x33, 0x44, 0x55]"

definition sample_state :: "list_patch edit_state" where
  "sample_state = edit_new list_suture (memory_source sample_bytes)"

lemma sample_inv: "edit_inv list_suture sample_bytes sample_state"
  "doc sample_state sample_bytes = sample_bytes" "es_mode sample_state = Mutable"
  "es_undo sample_state = []" "length sample_bytes = 6" "vec_ok sample_bytes"
  using edit_new_inv [OF list_suture_laws memory_stores, of sample_bytes]
  by (simp_all add: sample_state_def edit_new_def vec_ok_def sample_bytes_def)

end
