(* ===== verification/Editor.thy ===== *)
theory Editor
  imports Complex_Main EditSteps
begin

text \<open>
  \<open>hxy-editor/src/lib.rs\<close>: the editor model that a document tab keeps between frames, around the
  editing state: selection, active pane, nibble cursor, scroll requests, typing.

  The field \<open>source\<close> of the code is always the patched source of the editing state, so it is a
  function here, \<open>he_source\<close>. A scroll offset is a rational number: the code only compares it
  with zero and passes it on. Operations that may fail return their result and the editor, since
  they change the editor before they fail; \<open>now\<close> is the clock reading of the write they make.
\<close>

subsection \<open>Types\<close>

datatype pane = HexPane | AsciiPane

datatype nibble_cursor = NibbleHigh | NibbleLow

datatype input_mode = InputDefault | InputVim

datatype vim_mode = VimNormal | VimVisual | VimVisualLine | VimInsert | VimReplace

datatype find_dir = Forward | Backward

datatype pending =
    PendingG
  | PendingYank
  | PendingDelete
  | PendingInner
  | PendingAround
  | PendingFind find_dir bool

datatype register_origin = OriginHex | OriginAscii

record vim_state =
  vm_mode :: vim_mode
  vm_count :: "nat option"
  vm_pending :: "pending option"
  vm_register :: bytes
  vm_origin :: register_origin

definition vim_default :: vim_state where
  "vim_default = \<lparr>vm_mode = VimNormal, vm_count = None, vm_pending = None, vm_register = [],
     vm_origin = OriginHex\<rparr>"

definition count_or_one :: "vim_state \<Rightarrow> nat" where
  "count_or_one v = (case vm_count v of None \<Rightarrow> 1 | Some n \<Rightarrow> n)"

definition clear_pending :: "vim_state \<Rightarrow> vim_state" where
  "clear_pending v = v\<lparr>vm_count := None, vm_pending := None\<rparr>"

record 'p hex_editor =
  he_selection :: "selection option"
  he_pane :: pane
  he_last_cursor :: "nat option"
  he_scroll :: rat
  he_pending_scroll :: "rat option"
  he_pending_byte :: "nat option"
  he_last_columns :: "nat option"
  he_visible :: "byte_range option"
  he_edit :: "'p edit_state"
  he_input_mode :: input_mode
  he_vim :: vim_state

definition he_source :: "('p, 'm) suture \<Rightarrow> 'p hex_editor \<Rightarrow> hex_source" where
  "he_source P ed = es_source P (he_edit ed)"

definition he_new :: "('p, 'm) suture \<Rightarrow> hex_source \<Rightarrow> 'p hex_editor" where
  "he_new P source =
     \<lparr>he_selection = None, he_pane = HexPane, he_last_cursor = None, he_scroll = 0,
      he_pending_scroll = None, he_pending_byte = None, he_last_columns = None,
      he_visible = None, he_edit = edit_new P source, he_input_mode = InputDefault,
      he_vim = vim_default\<rparr>"

subsection \<open>Modes, selection, panes\<close>

definition map_edit :: "('p edit_state \<Rightarrow> 'p edit_state) \<Rightarrow> 'p hex_editor \<Rightarrow> 'p hex_editor" where
  "map_edit f ed = ed\<lparr>he_edit := f (he_edit ed)\<rparr>"

definition map_vim :: "(vim_state \<Rightarrow> vim_state) \<Rightarrow> 'p hex_editor \<Rightarrow> 'p hex_editor" where
  "map_vim f ed = ed\<lparr>he_vim := f (he_vim ed)\<rparr>"

definition set_typing_mode :: "typing_mode \<Rightarrow> 'p hex_editor \<Rightarrow> 'p hex_editor" where
  "set_typing_mode m = map_edit (\<lambda>e. e\<lparr>es_typing := m, es_high_nibble := True, es_break := True\<rparr>)"

definition set_input_mode :: "input_mode \<Rightarrow> 'p hex_editor \<Rightarrow> 'p hex_editor" where
  "set_input_mode m ed =
     (if he_input_mode ed = m then ed
      else
        let ed = ed\<lparr>he_input_mode := m\<rparr>;
            ed = (if m = InputVim
                  then map_vim (\<lambda>v. clear_pending (v\<lparr>vm_mode := VimNormal\<rparr>)) ed else ed)
        in set_typing_mode TypeReplace ed)"

definition set_selection :: "selection option \<Rightarrow> 'p hex_editor \<Rightarrow> 'p hex_editor" where
  "set_selection s ed =
     map_edit (\<lambda>e. e\<lparr>es_high_nibble := True, es_break := True\<rparr>)
       (ed\<lparr>he_selection := s, he_last_cursor := map_option sel_cursor s\<rparr>)"

definition he_nibble :: "'p hex_editor \<Rightarrow> nibble_cursor option" where
  "he_nibble ed =
     (if es_mode (he_edit ed) = Mutable
      then Some (if es_high_nibble (he_edit ed) then NibbleHigh else NibbleLow) else None)"

definition set_active_pane :: "pane \<Rightarrow> 'p hex_editor \<Rightarrow> 'p hex_editor" where
  "set_active_pane p ed =
     (if he_pane ed \<noteq> p
      then map_edit (\<lambda>e. e\<lparr>es_high_nibble := True, es_break := True\<rparr>) (ed\<lparr>he_pane := p\<rparr>)
      else ed)"

definition set_scroll_to :: "rat \<Rightarrow> 'p hex_editor \<Rightarrow> 'p hex_editor" where
  "set_scroll_to off ed = ed\<lparr>he_pending_scroll := Some off\<rparr>"

definition set_scroll_to_byte :: "nat \<Rightarrow> 'p hex_editor \<Rightarrow> 'p hex_editor" where
  "set_scroll_to_byte b ed = ed\<lparr>he_pending_byte := Some b\<rparr>"

definition set_edit_mode :: "edit_mode \<Rightarrow> 'p hex_editor \<Rightarrow> 'p hex_editor" where
  "set_edit_mode m = map_edit (\<lambda>e. e\<lparr>es_mode := m, es_high_nibble := True, es_break := True\<rparr>)"

definition reset_edit_nibble :: "'p hex_editor \<Rightarrow> 'p hex_editor" where
  "reset_edit_nibble = map_edit (\<lambda>e. e\<lparr>es_high_nibble := True\<rparr>)"

definition push_history_boundary :: "'p hex_editor \<Rightarrow> 'p hex_editor" where
  "push_history_boundary = map_edit (\<lambda>e. e\<lparr>es_break := True\<rparr>)"

definition set_undo_stack :: "edit_entry list \<Rightarrow> 'p hex_editor \<Rightarrow> 'p hex_editor" where
  "set_undo_stack es = map_edit (\<lambda>e. e\<lparr>es_undo := es, es_break := True\<rparr>)"

definition set_redo_stack :: "edit_entry list \<Rightarrow> 'p hex_editor \<Rightarrow> 'p hex_editor" where
  "set_redo_stack es = map_edit (\<lambda>e. e\<lparr>es_redo := es\<rparr>)"

definition can_undo :: "'p hex_editor \<Rightarrow> bool" where
  "can_undo ed \<longleftrightarrow> es_undo (he_edit ed) \<noteq> []"

definition can_redo :: "'p hex_editor \<Rightarrow> bool" where
  "can_redo ed \<longleftrightarrow> es_redo (he_edit ed) \<noteq> []"

definition is_readonly :: "'p hex_editor \<Rightarrow> bool" where
  "is_readonly ed \<longleftrightarrow> es_mode (he_edit ed) = Readonly"

definition he_is_dirty :: "('p, 'm) suture \<Rightarrow> 'p hex_editor \<Rightarrow> bool" where
  "he_is_dirty P ed = es_is_dirty P (he_edit ed)"

subsection \<open>Scrolling\<close>

definition scroll_target :: "nat \<Rightarrow> nat \<Rightarrow> byte_range \<Rightarrow> nat \<Rightarrow> nat option" where
  "scroll_target scrolloff cursor visible cols =
     (if cols = 0 then None
      else
        let cursor_row = cursor div cols;
            visible_start_row = br_start visible div cols;
            visible_end_row = div_ceil (br_end visible) cols;
            visible_rows = visible_end_row - visible_start_row
        in if visible_rows = 0 then None
           else
             let scrolloff = min scrolloff (visible_rows div 2);
                 safe_start = visible_start_row + scrolloff;
                 safe_end = visible_end_row - scrolloff
             in if cursor_row \<ge> safe_start \<and> cursor_row < safe_end then None
                else
                  let target_top_row =
                    (if cursor_row < safe_start then cursor_row - scrolloff
                     else sat_add64 (sat_add64 cursor_row 1) scrolloff - visible_rows)
                  in Some (sat_mul64 target_top_row cols))"

definition ensure_cursor_visible :: "nat \<Rightarrow> 'p hex_editor \<Rightarrow> 'p hex_editor" where
  "ensure_cursor_visible scrolloff ed =
     (case (he_selection ed, he_visible ed, he_last_columns ed) of
        (Some s, Some visible, Some columns) \<Rightarrow>
          (case scroll_target scrolloff (sel_cursor s) visible columns of
             None \<Rightarrow> ed
           | Some b \<Rightarrow> set_scroll_to_byte b ed)
      | _ \<Rightarrow> ed)"

definition pin_scroll_for_next_frame :: "'p hex_editor \<Rightarrow> 'p hex_editor" where
  "pin_scroll_for_next_frame ed =
     (if he_pending_scroll ed = None \<and> he_scroll ed > 0
      then ed\<lparr>he_pending_scroll := Some (he_scroll ed)\<rparr> else ed)"

subsection \<open>Replacing the base\<close>

definition swap_source :: "('p, 'm) suture \<Rightarrow> hex_source \<Rightarrow> 'p hex_editor \<Rightarrow> 'p hex_editor" where
  "swap_source P base = map_edit (swap_base P base)"

definition swap_source_keep_patch ::
  "('p, 'm) suture \<Rightarrow> hex_source \<Rightarrow> 'p hex_editor \<Rightarrow> 'p hex_editor" where
  "swap_source_keep_patch P base =
     map_edit (\<lambda>e. let saved = es_patch e in (swap_base P base e)\<lparr>es_patch := saved\<rparr>)"

subsection \<open>Writes\<close>

definition with_edit ::
  "(write_error, 'p edit_state) res \<Rightarrow> 'p hex_editor \<Rightarrow>
     ('p hex_editor \<Rightarrow> (write_error, 'a) res \<times> 'p hex_editor) \<Rightarrow> (write_error, 'a) res \<times> 'p hex_editor" where
  "with_edit r ed k =
     (case r of Ok e \<Rightarrow> k (ed\<lparr>he_edit := e\<rparr>) | Err err \<Rightarrow> (Err err, ed) | Panic \<Rightarrow> (Panic, ed))"

definition he_splice ::
  "('p, 'm) suture \<Rightarrow> nat \<Rightarrow> nat \<Rightarrow> nat \<Rightarrow> bytes \<Rightarrow> 'p hex_editor \<Rightarrow> (write_error, unit) res \<times> 'p hex_editor" where
  "he_splice P now off n ins ed =
     with_edit (es_splice P now off n ins (he_edit ed)) ed (\<lambda>ed. (Ok (), ed))"

definition he_splice_many ::
  "('p, 'm) suture \<Rightarrow> nat \<Rightarrow> batch_op list \<Rightarrow> 'p hex_editor \<Rightarrow> (write_error, unit) res \<times> 'p hex_editor" where
  "he_splice_many P now ops ed0 =
     (let ed = pin_scroll_for_next_frame ed0
      in with_edit (es_splice_many P now ops (he_edit ed)) ed (\<lambda>ed. (Ok (), ed)))"

definition he_request_write ::
  "('p, 'm) suture \<Rightarrow> nat \<Rightarrow> nat \<Rightarrow> bytes \<Rightarrow> 'p hex_editor \<Rightarrow> (write_error, unit) res \<times> 'p hex_editor" where
  "he_request_write P now off bs ed0 =
     (let ed = pin_scroll_for_next_frame ed0
      in with_edit (es_request_write P now off bs (he_edit ed)) ed (\<lambda>ed. (Ok (), ed)))"

subsection \<open>Typing\<close>

definition combine_nibble :: "bool \<Rightarrow> byte \<Rightarrow> byte \<Rightarrow> byte" where
  "combine_nibble high nib current =
     (if high then push_bit 4 nib OR (current AND 0x0F) else (current AND 0xF0) OR nib)"

definition type_hex_digit ::
  "('p, 'm) suture \<Rightarrow> nat \<Rightarrow> byte \<Rightarrow> 'p hex_editor \<Rightarrow> (write_error, bool) res \<times> 'p hex_editor" where
  "type_hex_digit P now digit ed =
     (if es_mode (he_edit ed) \<noteq> Mutable then (Err WriteReadonly, ed)
      else let nib = digit AND 0xF in
        case he_selection ed of None \<Rightarrow> (Ok False, ed)
        | Some s \<Rightarrow>
          let offset = sel_cursor s; source_len = hs_len (he_source P ed);
              creating_new_byte = es_high_nibble (he_edit ed) \<and>
                (es_typing (he_edit ed) = TypeInsert \<or> offset \<ge> source_len)
          in if creating_new_byte then
               let ed = pin_scroll_for_next_frame ed
               in with_edit (es_insert_at P now offset [push_bit 4 nib] (he_edit ed)) ed
                    (\<lambda>ed. (Ok False, map_edit (\<lambda>e. e\<lparr>es_high_nibble := False\<rparr>) ed))
             else if offset \<ge> source_len then (Ok False, ed)
             else case read_byte_at P (he_edit ed) offset of
                Err e \<Rightarrow> (Err e, ed) | Panic \<Rightarrow> (Panic, ed)
              | Ok current \<Rightarrow>
                let new_byte = combine_nibble (es_high_nibble (he_edit ed)) nib current;
                    ed = pin_scroll_for_next_frame ed
                in with_edit (es_request_write P now offset [new_byte] (he_edit ed)) ed
                     (\<lambda>ed. let advanced = \<not> es_high_nibble (he_edit ed) in
                        (Ok advanced,
                         map_edit (\<lambda>e. e\<lparr>es_high_nibble := \<not> es_high_nibble e\<rparr>) ed)))"

definition type_ascii_byte ::
  "('p, 'm) suture \<Rightarrow> nat \<Rightarrow> byte \<Rightarrow> 'p hex_editor \<Rightarrow> (write_error, bool) res \<times> 'p hex_editor" where
  "type_ascii_byte P now b ed0 =
     (if es_mode (he_edit ed0) \<noteq> Mutable then (Err WriteReadonly, ed0)
      else case he_selection ed0 of None \<Rightarrow> (Ok False, ed0)
        | Some s \<Rightarrow>
          let offset = sel_cursor s; source_len = hs_len (he_source P ed0);
              ed = pin_scroll_for_next_frame ed0;
              ins = offset \<ge> source_len \<or> es_typing (he_edit ed) = TypeInsert
          in with_edit
               (if ins then es_insert_at P now offset [b] (he_edit ed)
                else es_request_write P now offset [b] (he_edit ed)) ed
               (\<lambda>ed. (Ok True, ed)))"

definition backspace_byte ::
  "('p, 'm) suture \<Rightarrow> nat \<Rightarrow> 'p hex_editor \<Rightarrow> (write_error, bool) res \<times> 'p hex_editor" where
  "backspace_byte P now ed0 =
     (if es_mode (he_edit ed0) \<noteq> Mutable then (Err WriteReadonly, ed0)
      else case he_selection ed0 of None \<Rightarrow> (Ok False, ed0)
        | Some s \<Rightarrow>
          let offset = sel_cursor s
          in if offset = 0 then (Ok False, ed0)
             else
               let ed = pin_scroll_for_next_frame ed0
               in with_edit (es_splice P now (offset - 1) 1 [] (he_edit ed)) ed
                    (\<lambda>ed. (Ok True, map_edit (\<lambda>e. e\<lparr>es_high_nibble := True\<rparr>)
                       (ed\<lparr>he_selection := map_option (\<lambda>_. caret (offset - 1)) (he_selection ed)\<rparr>))))"

subsection \<open>Undo, redo, revert\<close>

definition he_undo ::
  "('p, 'm) suture \<Rightarrow> 'p hex_editor \<Rightarrow> (write_error, edit_entry option) res \<times> 'p hex_editor" where
  "he_undo P ed =
     (case es_undo_step P (he_edit ed) of
        Ok (entry, e) \<Rightarrow> (Ok entry, ed\<lparr>he_edit := e\<rparr>) | Err err \<Rightarrow> (Err err, ed) | Panic \<Rightarrow> (Panic, ed))"

definition he_redo ::
  "('p, 'm) suture \<Rightarrow> 'p hex_editor \<Rightarrow> (write_error, edit_entry option) res \<times> 'p hex_editor" where
  "he_redo P ed =
     (case es_redo_step P (he_edit ed) of
        Ok (entry, e) \<Rightarrow> (Ok entry, ed\<lparr>he_edit := e\<rparr>) | Err err \<Rightarrow> (Err err, ed) | Panic \<Rightarrow> (Panic, ed))"

definition he_revert ::
  "('p, 'm) suture \<Rightarrow> 'p hex_editor \<Rightarrow> (write_error, unit) res \<times> 'p hex_editor" where
  "he_revert P ed = with_edit (es_revert P (he_edit ed)) ed (\<lambda>ed. (Ok (), ed))"

subsection \<open>Frames\<close>

record view_parts =
  vp_source :: hex_source
  vp_selection :: "selection option"
  vp_active_pane :: pane
  vp_nibble :: "nibble_cursor option"
  vp_pending_scroll :: "rat option"
  vp_pending_byte :: "nat option"

text \<open>The selection is lent to the renderer; here it is part of the record.\<close>

definition he_view_parts :: "('p, 'm) suture \<Rightarrow> 'p hex_editor \<Rightarrow> view_parts \<times> 'p hex_editor" where
  "he_view_parts P ed0 =
     (let scroll = he_pending_scroll ed0; byte = he_pending_byte ed0;
          ed = ed0\<lparr>he_pending_scroll := None, he_pending_byte := None\<rparr>
      in (\<lparr>vp_source = he_source P ed, vp_selection = he_selection ed, vp_active_pane = he_pane ed,
           vp_nibble = he_nibble ed, vp_pending_scroll = scroll, vp_pending_byte = byte\<rparr>, ed))"

definition on_frame ::
  "rat \<Rightarrow> nat \<Rightarrow> byte_range option \<Rightarrow> pane option \<Rightarrow> 'p hex_editor \<Rightarrow> 'p hex_editor" where
  "on_frame scroll columns visible interacted ed0 =
     (let ed = ed0\<lparr>he_scroll := scroll, he_last_columns := Some columns, he_visible := visible\<rparr>
      in case interacted of Some p \<Rightarrow> set_active_pane p ed | None \<Rightarrow> ed)"

definition is_offset_visible :: "nat \<Rightarrow> 'p hex_editor \<Rightarrow> bool" where
  "is_offset_visible off ed =
     (case he_visible ed of None \<Rightarrow> False | Some r \<Rightarrow> off \<ge> br_start r \<and> off < br_end r)"

end
