(* ===== verification/EditProps.thy ===== *)
theory EditProps
  imports Patch_Instance Editor
begin

text \<open>
  The properties of the patched view and of the editing state, each with a run on the sample
  document where it has hypotheses.
\<close>

subsection \<open>Auxiliary facts\<close>

lemma sample_ready: "edit_ready list_suture sample_bytes sample_state"
  using sample_inv by (simp add: edit_ready_def undo_history_cap_def)

lemma sample_admissible: "admissible (CWrite 1 [0xAA]) sample_bytes sample_state"
  using sample_inv
  by (simp add: admissible_def undo_history_cap_def vec_ok_def sample_bytes_def splice_list_def)

text \<open>The sample document with one byte overwritten.\<close>

lemma sample_written:
  obtains st where "run_cmd list_suture 0 (CWrite 1 [0xAA]) sample_state = Ok st"
    "edit_inv list_suture sample_bytes st" "es_mode st = Mutable" "es_undo st \<noteq> []"
    "doc st sample_bytes = [0x00, 0xAA, 0x22, 0x33, 0x44, 0x55]"
    "edit_reachable list_suture sample_bytes st"
proof -
  have in6: "1 + length [0xAA :: byte] \<le> length (doc sample_state sample_bytes)"
    using sample_inv(2,5) by simp
  obtain st where st: "es_request_write list_suture 0 1 [0xAA] sample_state = Ok st"
    "edited list_suture sample_bytes 0 \<lparr>ee_offset = 1, ee_old = slice 1 (1 + length [0xAA :: byte])
       (doc sample_state sample_bytes), ee_new = [0xAA]\<rparr> sample_state st"
    by (rule request_write_ok [OF list_suture_laws sample_ready _ in6]) simp_all
  have d: "doc st sample_bytes = [0x00, 0xAA, 0x22, 0x33, 0x44, 0x55]"
    using st(2) unfolding edited_def sample_inv(2)
    by (simp add: sample_bytes_def apply_entry_def splice_list_def)
  have run: "run_cmd list_suture 0 (CWrite 1 [0xAA]) sample_state = Ok st" using st(1) by simp
  have start: "edit_reachable list_suture sample_bytes sample_state"
    unfolding sample_state_def by (rule edit_reachable.Start) (simp_all add: sample_inv)
  show thesis
  proof (rule that [OF run])
    show "edit_reachable list_suture sample_bytes st"
      by (rule edit_reachable.Step [OF start sample_admissible run])
    show "es_undo st \<noteq> []" using st(2) history_step_facts(1) by (auto simp: edited_def)
  qed (use st(2) sample_inv d in \<open>simp_all add: edited_def\<close>)
qed

subsection \<open>The patched view\<close>

text \<open>C1: A source behind a patch is again a source: whatever window is read through the splices,
  the bytes are those of the base with the splices applied, and a read past the end is rejected.\<close>

theorem patched_view_is_source:
  assumes "suture_laws P" "stores base c" "ops_in (s_ops P p) 0 (length c)"
    and "br_start r \<le> br_end r"
  shows "patched_read P base p r =
    (if br_end r \<le> length (render (s_ops P p) 0 c)
     then Ok (slice (br_start r) (br_end r) (render (s_ops P p) 0 c))
     else Err (OutOfBounds r (length (render (s_ops P p) 0 c))))"
  using byte_store.read_in [OF patched_stores [OF assms(1-3)], of r]
    byte_store.read_out [OF patched_stores [OF assms(1-3)], of r]
    byte_store.len_content [OF patched_stores [OF assms(1-3)]] assms(4)
  by (simp add: patched_source_def)

theorem patched_view_is_source_witness:
  "patched_read list_suture (memory_source sample_bytes) ([splice_op 2 1 [0xAA, 0xBB]], None)
     \<lparr>br_start = 1, br_end = 5\<rparr> = Ok [0x11, 0xAA, 0xBB, 0x33]"
  using patched_view_is_source [OF list_suture_laws memory_stores, of "([splice_op 2 1 [0xAA, 0xBB]], None)"
      sample_bytes "\<lparr>br_start = 1, br_end = 5\<rparr>"]
  by (simp add: sample_bytes_def slice_def)

subsection \<open>The document and its history\<close>





text \<open>C4: A write inside the document replaces exactly the bytes it covers, through the fast path
  and through the rebuild alike; it empties the redo stack and counts as one revision.\<close>

theorem request_write_replaces:
  assumes "suture_laws P" "edit_ready P c st" "bs \<noteq> []" "off + length bs \<le> length (doc st c)"
  shows "\<exists>st'. es_request_write P now off bs st = Ok st' \<and> edit_inv P c st' \<and>
    doc st' c = splice_list off (length bs) bs (doc st c) \<and>
    es_redo st' = [] \<and> es_revision st' = Suc (es_revision st)"
proof -
  obtain st' where "es_request_write P now off bs st = Ok st'" "edited P c now
      \<lparr>ee_offset = off, ee_old = slice off (off + length bs) (doc st c), ee_new = bs\<rparr> st st'"
    by (rule request_write_ok [OF assms])
  then show ?thesis using assms(4) by (auto simp: edited_def apply_slice_entry)
qed

theorem request_write_replaces_witness:
  "\<exists>st'. es_request_write list_suture 7 2 [0xAA, 0xBB] sample_state = Ok st' \<and>
     doc st' sample_bytes = [0x00, 0x11, 0xAA, 0xBB, 0x44, 0x55]"
proof -
  have "2 + length [0xAA :: byte, 0xBB] \<le> length (doc sample_state sample_bytes)"
    using sample_inv by simp
  from request_write_replaces [OF list_suture_laws sample_ready _ this, of 7] show ?thesis
    unfolding sample_inv(2) by (auto simp: sample_bytes_def splice_list_def)
qed

text \<open>C5: A splice replaces the bytes \<open>[off, off + n)\<close> by the inserted ones, whatever their
  number, and shifts the rest.\<close>

theorem splice_replaces:
  assumes "suture_laws P" "edit_ready P c st" "0 < n \<or> ins \<noteq> []"
    and "off + n \<le> length (doc st c)" "vec_ok (splice_list off n ins (doc st c))"
  shows "\<exists>st'. es_splice P now off n ins st = Ok st' \<and> edit_inv P c st' \<and>
    doc st' c = splice_list off n ins (doc st c) \<and>
    es_redo st' = [] \<and> es_revision st' = Suc (es_revision st)"
proof -
  obtain st' where "es_splice P now off n ins st = Ok st'" "edited P c now
      \<lparr>ee_offset = off, ee_old = slice off (off + n) (doc st c), ee_new = ins\<rparr> st st'"
    by (rule splice_ok [OF assms])
  then show ?thesis using assms(4) by (auto simp: edited_def apply_slice_entry)
qed

theorem splice_replaces_witness:
  "\<exists>st'. es_splice list_suture 7 1 3 [0xAA] sample_state = Ok st' \<and>
     doc st' sample_bytes = [0x00, 0xAA, 0x44, 0x55]"
proof -
  have "1 + 3 \<le> length (doc sample_state sample_bytes)" using sample_inv by simp
  moreover have "vec_ok (splice_list 1 3 [0xAA] (doc sample_state sample_bytes))"
    unfolding sample_inv(2) by (simp add: sample_bytes_def splice_list_def vec_ok_def)
  ultimately show ?thesis
    using splice_replaces [OF list_suture_laws sample_ready, of 3 "[0xAA]" 1 7]
    unfolding sample_inv(2) by (auto simp: sample_bytes_def splice_list_def)
qed



text \<open>C7: A write that does not fit is rejected, also when its end wraps around the 64-bit range;
  the other edits reject with the offending range.\<close>

theorem out_of_range_rejected:
  assumes "suture_laws P" "edit_inv P c st" "es_mode st = Mutable"
  shows "(bs \<noteq> [] \<and> vec_ok bs \<and> off < 2 ^ 64 \<and> length (doc st c) < off + length bs \<longrightarrow>
      (\<exists>e. es_request_write P now off bs st = Err e)) \<and>
    (length (doc st c) < off + n \<longrightarrow>
      es_splice P now off n bs st = Err (WriteOutOfBounds off n (length (doc st c)))) \<and>
    (length (doc st c) < off \<longrightarrow>
      es_insert_at P now off bs st = Err (WriteOutOfBounds off (length bs) (length (doc st c)))) \<and>
    (\<not> batch_ok 0 ops (length (doc st c)) \<longrightarrow> (\<exists>e. es_splice_many P now ops st = Err e))"
  using request_write_out [OF assms] splice_out [OF assms] insert_at_out [OF assms]
    splice_many_out [OF assms] by blast

theorem out_of_range_rejected_witness:
  "\<exists>e. es_request_write list_suture 0 u64_max [0xAA, 0xBB] sample_state = Err e"
  using out_of_range_rejected [OF list_suture_laws sample_inv(1,3), of "[0xAA, 0xBB]" u64_max 0] sample_inv
  by (simp add: vec_ok_def u64_max_def)

text \<open>C8: Undo puts the replaced bytes back in place of the new ones, and redo after undo restores
  the document and both stacks.\<close>

theorem undo_redo_restores:
  assumes "suture_laws P" "edit_inv P c st" "es_mode st = Mutable" "es_undo st \<noteq> []"
  shows "\<exists>st1 st2. es_undo_step P st = (Ok (Some (last (es_undo st)), st1) :: ('e, _) res) \<and>
    edit_inv P c st1 \<and>
    doc st1 c = splice_list (ee_offset (last (es_undo st))) (length (ee_new (last (es_undo st))))
      (ee_old (last (es_undo st))) (doc st c) \<and>
    es_redo_step P st1 = (Ok (Some (last (es_undo st)), st2) :: ('e, _) res) \<and>
    doc st2 c = doc st c \<and> es_undo st2 = es_undo st \<and> es_redo st2 = es_redo st"
proof -
  define es l where "es = butlast (es_undo st)" and "l = last (es_undo st)"
  have u: "es_undo st = es @ [l]" using assms(4) by (simp add: es_def l_def)
  have "entry_fits l (apply_all es c)" using assms(2) by (simp add: edit_inv_def stacks_ok_def u)
  then have restored: "apply_all es c =
      splice_list (ee_offset l) (length (ee_new l)) (ee_old l) (doc st c)"
    using apply_entry_reverse [of l "apply_all es c"] by (simp add: doc_def u)
  obtain p where p: "es_undo_step P st = (Ok (Some (last (es_undo st)), undone c p st) :: ('e, _) res)"
    "edit_inv P c (undone c p st)"
    by (rule undo_ok [OF assms])
  have sel: "es_mode (undone c p st) = Mutable" "es_redo (undone c p st) = es_redo st @ [l]"
    "es_undo (undone c p st) = es"
    using assms(3) by (simp_all add: undone_def es_def l_def)
  have ne: "es_redo (undone c p st) \<noteq> []" by (simp add: sel)
  obtain q where q: "es_redo_step P (undone c p st) =
      (Ok (Some (last (es_redo (undone c p st))), redone c q (undone c p st)) :: ('e, _) res)"
    by (rule redo_ok [OF assms(1) p(2) sel(1) ne])
  show ?thesis
    by (rule exI [of _ "undone c p st"], rule exI [of _ "redone c q (undone c p st)"])
      (use p q restored in \<open>simp add: doc_def redone_def sel u\<close>)
qed

theorem undo_redo_restores_witness:
  "\<exists>st st1. doc st sample_bytes = [0x00, 0xAA, 0x22, 0x33, 0x44, 0x55] \<and>
     es_undo_step list_suture st = (Ok (Some (last (es_undo st)), st1) :: (write_error, _) res)"
proof -
  obtain st where "edit_inv list_suture sample_bytes st" "es_mode st = Mutable" "es_undo st \<noteq> []"
    "doc st sample_bytes = [0x00, 0xAA, 0x22, 0x33, 0x44, 0x55]"
    by (rule sample_written)
  then show ?thesis
    using undo_redo_restores [OF list_suture_laws, of sample_bytes st, where 'e = write_error] by blast
qed


subsection \<open>Undoing everything\<close>

primrec run_cmds ::
  "('p, 'm) suture \<Rightarrow> nat \<Rightarrow> edit_cmd list \<Rightarrow> 'p edit_state \<Rightarrow> (write_error, 'p edit_state) res" where
  "run_cmds P now [] st = Ok st"
| "run_cmds P now (cmd # cmds) st = res_bind (run_cmd P now cmd st) (run_cmds P now cmds)"

lemma undo_run:
  assumes laws: "suture_laws P"
  shows "edit_inv P c st \<Longrightarrow> es_mode st = Mutable \<Longrightarrow> length (es_undo st) = n \<Longrightarrow>
    \<exists>st'. run_cmds P now (replicate n CUndo) st = Ok st' \<and> edit_inv P c st' \<and> es_mode st' = Mutable \<and>
      es_undo st' = [] \<and> es_redo st' = es_redo st @ rev (es_undo st) \<and>
      (0 < n \<longrightarrow> s_is_empty P (es_patch st'))"
proof (induction n arbitrary: st)
  case 0
  then show ?case by simp
next
  case (Suc n)
  define es l where "es = butlast (es_undo st)" and "l = last (es_undo st)"
  have ne: "es_undo st \<noteq> []" using Suc.prems(3) by auto
  then have u: "es_undo st = es @ [l]" by (simp add: es_def l_def)
  then have n: "length es = n" using Suc.prems(3) by simp
  obtain p where p: "es_undo_step P st =
      (Ok (Some (last (es_undo st)), undone c p st) :: (write_error, _) res)"
    "edit_inv P c (undone c p st)" "s_is_empty P p \<longleftrightarrow> apply_all (butlast (es_undo st)) c = c"
    by (rule undo_ok [OF laws Suc.prems(1,2) ne])
  have sel: "es_undo (undone c p st) = es" "es_redo (undone c p st) = es_redo st @ [l]"
    "es_mode (undone c p st) = Mutable" "es_patch (undone c p st) = p"
    using Suc.prems(2) by (simp_all add: undone_def u)
  obtain st' where st': "run_cmds P now (replicate n CUndo) (undone c p st) = Ok st'"
    "edit_inv P c st'" "es_mode st' = Mutable" "es_undo st' = []"
    "es_redo st' = es_redo (undone c p st) @ rev (es_undo (undone c p st))"
    "0 < n \<longrightarrow> s_is_empty P (es_patch st')"
    using Suc.IH [OF p(2) sel(3)] sel(1) n by auto
  have "s_is_empty P (es_patch st')"
  proof (cases "n = 0")
    case True
    then have "es = []" using n by simp
    then show ?thesis using st'(1) p(3) sel(4) True by (simp add: u)
  qed (use st'(6) in simp)
  then show ?case using st' p(1) by (simp add: sel u)
qed

lemma redo_run:
  assumes laws: "suture_laws P"
  shows "edit_inv P c st \<Longrightarrow> es_mode st = Mutable \<Longrightarrow> es_redo st = r @ rev us \<Longrightarrow>
    \<exists>st'. run_cmds P now (replicate (length us) CRedo) st = Ok st' \<and> edit_inv P c st' \<and>
      es_undo st' = es_undo st @ us \<and> es_redo st' = r"
proof (induction us arbitrary: st)
  case Nil
  then show ?case by simp
next
  case (Cons u us)
  have ne: "es_redo st \<noteq> []" using Cons.prems(3) by simp
  obtain p where p: "es_redo_step P st =
      (Ok (Some (last (es_redo st)), redone c p st) :: (write_error, _) res)"
    "edit_inv P c (redone c p st)"
    by (rule redo_ok [OF laws Cons.prems(1,2) ne])
  have sel: "es_undo (redone c p st) = es_undo st @ [u]" "es_redo (redone c p st) = r @ rev us"
    "es_mode (redone c p st) = Mutable"
    using Cons.prems(2,3) by (simp_all add: redone_def butlast_append)
  show ?case using Cons.IH [OF p(2) sel(3,2)] p(1) by (auto simp: sel)
qed

text \<open>C9: Undoing every recorded edit shows the base again and leaves the editor clean; redoing as
  many brings back the same bytes and the same undo stack.\<close>

theorem undo_all_redo_all:
  assumes "suture_laws P" "edit_inv P c st" "es_mode st = Mutable"
  shows "\<exists>st1 st2. run_cmds P now (replicate (length (es_undo st)) CUndo) st = Ok st1 \<and>
    doc st1 c = c \<and> (es_undo st \<noteq> [] \<longrightarrow> \<not> es_is_dirty P st1) \<and>
    run_cmds P now (replicate (length (es_undo st)) CRedo) st1 = Ok st2 \<and>
    doc st2 c = doc st c \<and> es_undo st2 = es_undo st \<and> es_redo st2 = es_redo st"
proof -
  obtain st1 where st1: "run_cmds P now (replicate (length (es_undo st)) CUndo) st = Ok st1"
    "edit_inv P c st1" "es_mode st1 = Mutable" "es_undo st1 = []"
    "es_redo st1 = es_redo st @ rev (es_undo st)"
    "0 < length (es_undo st) \<longrightarrow> s_is_empty P (es_patch st1)"
    using undo_run [OF assms refl] by blast
  obtain st2 where "run_cmds P now (replicate (length (es_undo st)) CRedo) st1 = Ok st2"
    "es_undo st2 = es_undo st1 @ es_undo st" "es_redo st2 = es_redo st"
    using redo_run [OF assms(1) st1(2,3,5)] by blast
  then show ?thesis using st1 by (auto simp: doc_def es_is_dirty_def)
qed

theorem undo_all_redo_all_witness:
  "\<exists>st st1. es_undo st \<noteq> [] \<and>
     run_cmds list_suture 0 (replicate (length (es_undo st)) CUndo) st = Ok st1 \<and>
     doc st1 sample_bytes = sample_bytes"
proof -
  obtain st where "edit_inv list_suture sample_bytes st" "es_mode st = Mutable" "es_undo st \<noteq> []"
    by (rule sample_written)
  then show ?thesis using undo_all_redo_all [OF list_suture_laws, of sample_bytes st 0] by blast
qed

end
