(* ===== verification/EditLimits.thy ===== *)
theory EditLimits
  imports EditProps
begin

text \<open>
  Where the editing state leaves the abstract document: a full history forgets its oldest entry
  but keeps rebuilding the view from what is left, and a patch kept across a reload does not
  survive the next rebuild.
\<close>

subsection \<open>A full history\<close>

lemma insert_shows_stack:
  assumes laws: "suture_laws P" and base: "base_ok c st" and m: "es_mode st = Mutable"
    and off: "off \<le> hs_len (es_source P st)" and brk: "es_break st"
  obtains st' where "es_insert_at P now off bs st = Ok st'"
    "es_undo st' = es_undo (push_entry now \<lparr>ee_offset = off, ee_old = [], ee_new = bs\<rparr> st)"
    "stores (es_source P st') (replay (es_undo st') c)"
proof -
  let ?e = "\<lparr>ee_offset = off, ee_old = [], ee_new = bs\<rparr>"
  let ?s1 = "push_entry now ?e (st\<lparr>es_revision := es_revision st + 1, es_redo := []\<rparr>)"
  have rec: "record_entry now ?e st = (Ok ?s1 :: (write_error, _) res)"
    using brk by (simp add: record_entry_def Let_def)
  have b1: "base_ok c ?s1" using base by (simp add: base_ok_def push_entry_def Let_def)
  obtain p where p: "rebuild_patch_from_stack P ?s1 =
      (Ok (?s1\<lparr>es_cache := Some c, es_patch := p\<rparr>) :: (write_error, _) res)"
    "ops_in (s_ops P p) 0 (length c)" "render (s_ops P p) 0 c = replay (es_undo ?s1) c"
    by (rule rebuild_ok [OF laws b1]) blast
  have "stores (es_base ?s1) c" using b1 by (simp add: base_ok_def)
  then have "stores (es_source P (?s1\<lparr>es_cache := Some c, es_patch := p\<rparr>)) (replay (es_undo ?s1) c)"
    using patched_stores [OF laws _ p(2)] p(3) by (simp add: es_source_def)
  moreover have "es_insert_at P now off bs st = Ok (?s1\<lparr>es_cache := Some c, es_patch := p\<rparr>)"
    using m off rec p(1) by (simp add: es_insert_at_def Let_def)
  moreover have "es_undo ?s1 = es_undo (push_entry now ?e st)" by (simp add: push_entry_def Let_def)
  ultimately show thesis using that by simp
qed

text \<open>When the undo stack is at its cap, an insertion drops the oldest entry from the stack
  that the view is rebuilt from: the document afterwards is the replay of the rest, so the dropped
  edit is lost from the bytes and not only from the history.\<close>

theorem full_history_drops_oldest:
  assumes "suture_laws P" "edit_inv P c st" "es_mode st = Mutable"
    and "length (es_undo st) = undo_history_cap" "es_break st" "off \<le> length (doc st c)"
  shows "\<exists>st'. es_insert_at P now off bs st = Ok st' \<and>
    es_undo st' = tl (es_undo st) @ [\<lparr>ee_offset = off, ee_old = [], ee_new = bs\<rparr>] \<and>
    stores (es_source P st') (replay (tl (es_undo st) @ [\<lparr>ee_offset = off, ee_old = [], ee_new = bs\<rparr>]) c)"
proof -
  have ne: "es_undo st \<noteq> []" using assms(4) by (auto simp: undo_history_cap_def)
  have "off \<le> hs_len (es_source P st)" using assms(6) by (simp add: es_source_len [OF assms(1,2)])
  then obtain st' where "es_insert_at P now off bs st = Ok st'"
    "es_undo st' = es_undo (push_entry now \<lparr>ee_offset = off, ee_old = [], ee_new = bs\<rparr> st)"
    "stores (es_source P st') (replay (es_undo st') c)"
    by (rule insert_shows_stack [OF assms(1) edit_invD(1) [OF assms(2)] assms(3) _ assms(5)])
  then show ?thesis using assms(4) ne by (simp add: push_entry_def Let_def)
qed

definition full_state :: "list_patch edit_state" where
  "full_state = sample_state\<lparr>
     es_undo := \<lparr>ee_offset = 0, ee_old = [0x00], ee_new = [0xFF]\<rparr> #
       replicate 999 \<lparr>ee_offset = 1, ee_old = [0x11], ee_new = [0x11]\<rparr>,
     es_patch := ([splice_op 0 1 [0xFF]], None), es_break := True\<rparr>"

lemma keep_second:
  assumes "2 \<le> length buf" "buf ! 1 = 0x11" "length buf < 2 ^ 63"
  shows "apply_entry \<lparr>ee_offset = 1, ee_old = [0x11], ee_new = [0x11]\<rparr> buf = buf"
    and "replay_entry buf \<lparr>ee_offset = 1, ee_old = [0x11], ee_new = [0x11]\<rparr> = buf"
    and "entry_fits \<lparr>ee_offset = 1, ee_old = [0x11], ee_new = [0x11]\<rparr> buf"
proof -
  obtain a b rest where buf: "buf = a # b # rest" using assms(1)
    by (cases buf; cases "tl buf") auto
  have b: "b = 0x11" using assms(2) by (simp add: buf)
  show "apply_entry \<lparr>ee_offset = 1, ee_old = [0x11], ee_new = [0x11]\<rparr> buf = buf"
    by (simp add: apply_entry_def splice_list_def buf b)
  show "replay_entry buf \<lparr>ee_offset = 1, ee_old = [0x11], ee_new = [0x11]\<rparr> = buf"
    by (simp add: replay_entry_def splice_list_def buf b sat_add64_def u64_max_def)
  show "entry_fits \<lparr>ee_offset = 1, ee_old = [0x11], ee_new = [0x11]\<rparr> buf"
    by (simp add: entry_fits_def slice_def buf b)
qed

lemma keep_second_many:
  assumes "2 \<le> length buf" "buf ! 1 = 0x11" "length buf < 2 ^ 63"
  defines "e \<equiv> \<lparr>ee_offset = 1, ee_old = [0x11], ee_new = [0x11]\<rparr>"
  shows "apply_all (replicate n e) buf = buf" "chain_ok (replicate n e) buf"
    "foldl replay_entry buf (replicate n e) = buf"
  using keep_second [OF assms(1-3)] assms(3)
  by (induction n) (simp_all add: e_def vec_ok_def)

lemma non_lp_count_replicate: "lp_entry e \<Longrightarrow> non_lp_count (replicate n e) = 0"
  by (induction n) simp_all

lemma full_state_inv:
  "edit_inv list_suture sample_bytes full_state"
  "doc full_state sample_bytes = [0xFF, 0x11, 0x22, 0x33, 0x44, 0x55]"
proof -
  let ?e = "\<lparr>ee_offset = 1, ee_old = [0x11 :: byte], ee_new = [0x11]\<rparr>"
  let ?v = "[0xFF, 0x11, 0x22, 0x33, 0x44, 0x55] :: bytes"
  have first: "apply_entry \<lparr>ee_offset = 0, ee_old = [0x00], ee_new = [0xFF]\<rparr> sample_bytes = ?v"
    by (simp add: apply_entry_def splice_list_def sample_bytes_def)
  have many: "apply_all (replicate n ?e) ?v = ?v" "chain_ok (replicate n ?e) ?v" for n
    using keep_second_many [of ?v n] by simp_all
  note many = many [unfolded One_nat_def]
  show d: "doc full_state sample_bytes = ?v"
    by (simp add: doc_def full_state_def first many)
  have fit0: "entry_fits \<lparr>ee_offset = 0, ee_old = [0x00], ee_new = [0xFF]\<rparr> sample_bytes"
    by (simp add: entry_fits_def sample_bytes_def slice_def)
  have "stacks_ok sample_bytes full_state"
    using sample_inv(6)
    by (simp add: stacks_ok_def full_state_def sample_state_def edit_new_def first many fit0
        undo_history_cap_def lp_entry_def nonvoid_def non_lp_count_replicate list_all_iff)
  moreover have "base_ok sample_bytes full_state"
    using edit_invD(1) [OF sample_inv(1)] by (simp add: base_ok_def full_state_def)
  moreover have "patch_ok list_suture sample_bytes full_state"
    unfolding patch_ok_def d
    by (simp add: full_state_def) (simp add: sample_bytes_def slice_def lp_op_def)
  ultimately show "edit_inv list_suture sample_bytes full_state" by (simp add: edit_inv_def)
qed

theorem full_history_drops_oldest_witness:
  "doc full_state sample_bytes = [0xFF, 0x11, 0x22, 0x33, 0x44, 0x55] \<and>
   (\<exists>st'. es_insert_at list_suture 0 6 [0x66] full_state = Ok st' \<and>
     stores (es_source list_suture st') [0x00, 0x11, 0x22, 0x33, 0x44, 0x55, 0x66])"
proof -
  let ?e = "\<lparr>ee_offset = 1, ee_old = [0x11 :: byte], ee_new = [0x11]\<rparr>"
  have st: "es_mode full_state = Mutable" "length (es_undo full_state) = undo_history_cap"
    "es_break full_state" "6 \<le> length (doc full_state sample_bytes)"
    by (simp_all add: full_state_inv(2))
      (simp_all add: full_state_def sample_state_def edit_new_def undo_history_cap_def)
  have "foldl replay_entry sample_bytes (replicate 999 ?e) = sample_bytes"
    by (rule keep_second_many) (simp_all add: sample_bytes_def)
  then have "replay (tl (es_undo full_state) @ [\<lparr>ee_offset = 6, ee_old = [], ee_new = [0x66]\<rparr>])
      sample_bytes = sample_bytes @ [0x66]"
    by (simp add: replay_def full_state_def)
      (simp add: replay_entry_def splice_list_def sat_add64_def u64_max_def sample_bytes_def)
  moreover have "sample_bytes @ [0x66] = [0x00, 0x11, 0x22, 0x33, 0x44, 0x55, 0x66]"
    by (simp add: sample_bytes_def)
  ultimately show ?thesis
    using full_history_drops_oldest [OF list_suture_laws full_state_inv(1) st, of 0 "[0x66]"]
      full_state_inv(2) by metis
qed

subsection \<open>A patch kept across a reload\<close>

text \<open>Reloading the base and keeping the patch first shows the kept splices over the new bytes;
  but the undo stack is empty, so the rebuild of the next insertion discards them: afterwards the
  document is the new base with that insertion alone.\<close>

theorem kept_patch_lost_on_insert:
  assumes "suture_laws P" "stores b c" "es_mode (he_edit ed) = Mutable"
    and "ops_in (s_ops P (es_patch (he_edit ed))) 0 (length c)"
    and "off \<le> length (render (s_ops P (es_patch (he_edit ed))) 0 c)"
  shows "stores (he_source P (swap_source_keep_patch P b ed))
      (render (s_ops P (es_patch (he_edit ed))) 0 c) \<and>
    (\<exists>st. es_insert_at P now off bs (he_edit (swap_source_keep_patch P b ed)) = Ok st \<and>
      stores (es_source P st) (replay [\<lparr>ee_offset = off, ee_old = [], ee_new = bs\<rparr>] c))"
proof -
  let ?st = "he_edit (swap_source_keep_patch P b ed)"
  have st: "es_base ?st = b" "es_patch ?st = es_patch (he_edit ed)" "es_undo ?st = []"
    "es_mode ?st = Mutable" "es_break ?st" "es_cache ?st = None"
    using assms(3)
    by (simp_all add: swap_source_keep_patch_def map_edit_def swap_base_def Let_def)
  have shown: "stores (es_source P ?st) (render (s_ops P (es_patch (he_edit ed))) 0 c)"
    using patched_stores [OF assms(1,2,4)] by (simp add: es_source_def st)
  have base: "base_ok c ?st" using assms(2) by (simp add: base_ok_def st)
  have "off \<le> hs_len (es_source P ?st)" using assms(5) byte_store.len_content [OF shown] by simp
  then obtain st' where "es_insert_at P now off bs ?st = Ok st'"
    "es_undo st' = es_undo (push_entry now \<lparr>ee_offset = off, ee_old = [], ee_new = bs\<rparr> ?st)"
    "stores (es_source P st') (replay (es_undo st') c)"
    by (rule insert_shows_stack [OF assms(1) base st(4) _ st(5)])
  then show ?thesis using shown
    by (simp add: he_source_def push_entry_def Let_def st undo_history_cap_def)
qed

theorem kept_patch_lost_on_insert_witness:
  "\<exists>ed. stores (he_source list_suture ed) [0xAA, 0x01, 0x02] \<and>
     (\<exists>st. es_insert_at list_suture 0 3 [0x03] (he_edit ed) = Ok st \<and>
       stores (es_source list_suture st) [0x00, 0x01, 0x02, 0x03])"
proof -
  define ed where "ed = (he_new list_suture (memory_source sample_bytes))
    \<lparr>he_edit := sample_state\<lparr>es_patch := ([splice_op 0 1 [0xAA]], None)\<rparr>\<rparr>"
  have ed: "es_mode (he_edit ed) = Mutable" "es_patch (he_edit ed) = ([splice_op 0 1 [0xAA]], None)"
    using sample_inv(3) by (simp_all add: ed_def)
  have v: "render [splice_op 0 1 [0xAA]] 0 [0x00, 0x01, 0x02] = [0xAA, 0x01, 0x02]"
    "replay [\<lparr>ee_offset = 3, ee_old = [], ee_new = [0x03]\<rparr>] [0x00, 0x01, 0x02] =
       [0x00, 0x01, 0x02, 0x03]"
    by (simp_all add: slice_def replay_def replay_entry_def splice_list_def sat_add64_def u64_max_def)
  show ?thesis
    using kept_patch_lost_on_insert [OF list_suture_laws memory_stores ed(1),
        of "[0x00, 0x01, 0x02]" 3 0 "[0x03]"] ed(2) v
    by (intro exI [of _ "swap_source_keep_patch list_suture (memory_source [0x00, 0x01, 0x02]) ed"]) simp
qed

end
