(* ===== verification/Cache.thy ===== *)
theory Cache
  imports Source "HOL-Library.AList"
begin

text \<open>
  \<open>hxy-core/src/cache.rs\<close>: the byte-range cache shared by the views, the streaming source and the
  cached source. The least-recently-used map is the \<open>lru\<close> crate's, which is not part of the
  repository: the record \<open>lru\<close> holds the operations the code calls on it and \<open>lru_laws\<close> states
  their documented behaviour over the listing of the entries, the most recently used first.

  Every critical section of the mutex is one function of the locked state. A fetch takes the
  lock twice, around the slow read of the source; what other threads do before each acquisition
  is the argument \<open>env\<close>, a function of the state (the identity when the cache is not shared).
  The byte counts by attribution are an association list with distinct keys.
\<close>

subsection \<open>Keys, slots, limits\<close>

record chunk_key =
  ck_source :: nat
  ck_chunk :: nat

definition chunk_key :: "nat \<Rightarrow> nat \<Rightarrow> chunk_key" where
  "chunk_key source chunk = \<lparr>ck_source = source, ck_chunk = chunk\<rparr>"

datatype attribution = HexViewAttr nat | TemplateAttr nat | PluginAttr nat

record chunk_slot =
  cs_bytes :: bytes
  cs_attr :: attribution

definition chunk_size_bytes :: nat where
  "chunk_size_bytes = 64 * 1024"

definition chunk_start_offset :: "nat \<Rightarrow> nat" where
  "chunk_start_offset chunk = chunk * chunk_size_bytes"

definition cache_limit_from_mib :: "nat \<Rightarrow> nat" where
  "cache_limit_from_mib mib = max mib 20 * 1024 * 1024"

definition cache_limit_as_mib :: "nat \<Rightarrow> nat" where
  "cache_limit_as_mib limit = limit div (1024 * 1024) mod 2 ^ 32"

definition cache_limit_default :: nat where
  "cache_limit_default = cache_limit_from_mib 500"

definition lru_capacity_for :: "nat \<Rightarrow> nat" where
  "lru_capacity_for limit = max (sat_add64 (limit div chunk_size_bytes) 16) 1"

subsection \<open>The least-recently-used map\<close>

record 'l lru =
  l_new :: "nat \<Rightarrow> 'l"
  l_iter :: "'l \<Rightarrow> (chunk_key \<times> chunk_slot) list"
  l_cap :: "'l \<Rightarrow> nat"
  l_len :: "'l \<Rightarrow> nat"
  l_get :: "'l \<Rightarrow> chunk_key \<Rightarrow> chunk_slot option \<times> 'l"
  l_put :: "'l \<Rightarrow> chunk_key \<Rightarrow> chunk_slot \<Rightarrow> 'l"
  l_pop :: "'l \<Rightarrow> chunk_key \<Rightarrow> chunk_slot option \<times> 'l"
  l_pop_lru :: "'l \<Rightarrow> (chunk_key \<times> chunk_slot) option \<times> 'l"
  l_resize :: "'l \<Rightarrow> nat \<Rightarrow> 'l"

definition without :: "chunk_key \<Rightarrow> (chunk_key \<times> chunk_slot) list \<Rightarrow> (chunk_key \<times> chunk_slot) list" where
  "without k es = filter (\<lambda>e. fst e \<noteq> k) es"

definition law_lru_new :: "'l lru \<Rightarrow> bool" where
  "law_lru_new L \<longleftrightarrow>
     (\<forall>n. l_iter L (l_new L n) = [] \<and> l_cap L (l_new L n) = n) \<and>
     (\<forall>l. l_len L l = length (l_iter L l))"

definition law_lru_get :: "'l lru \<Rightarrow> bool" where
  "law_lru_get L \<longleftrightarrow>
     (\<forall>l k. case map_of (l_iter L l) k of
        None \<Rightarrow> l_get L l k = (None, l)
      | Some v \<Rightarrow> fst (l_get L l k) = Some v \<and> l_cap L (snd (l_get L l k)) = l_cap L l \<and>
          l_iter L (snd (l_get L l k)) = (k, v) # without k (l_iter L l))"

text \<open>An insertion into a full map drops the oldest entries.\<close>

definition law_lru_put :: "'l lru \<Rightarrow> bool" where
  "law_lru_put L \<longleftrightarrow>
     (\<forall>l k v. l_cap L (l_put L l k v) = l_cap L l \<and>
        l_iter L (l_put L l k v) = take (l_cap L l) ((k, v) # without k (l_iter L l)))"

definition law_lru_pop :: "'l lru \<Rightarrow> bool" where
  "law_lru_pop L \<longleftrightarrow>
     (\<forall>l k. fst (l_pop L l k) = map_of (l_iter L l) k \<and>
        l_cap L (snd (l_pop L l k)) = l_cap L l \<and>
        l_iter L (snd (l_pop L l k)) = without k (l_iter L l))"

definition law_lru_pop_lru :: "'l lru \<Rightarrow> bool" where
  "law_lru_pop_lru L \<longleftrightarrow>
     (\<forall>l. if l_iter L l = [] then l_pop_lru L l = (None, l)
          else fst (l_pop_lru L l) = Some (last (l_iter L l)) \<and>
            l_cap L (snd (l_pop_lru L l)) = l_cap L l \<and>
            l_iter L (snd (l_pop_lru L l)) = butlast (l_iter L l))"

definition law_lru_resize :: "'l lru \<Rightarrow> bool" where
  "law_lru_resize L \<longleftrightarrow>
     (\<forall>l n. l_cap L (l_resize L l n) = n \<and> l_iter L (l_resize L l n) = take n (l_iter L l))"

definition lru_laws :: "'l lru \<Rightarrow> bool" where
  "lru_laws L \<longleftrightarrow> law_lru_new L \<and> law_lru_get L \<and> law_lru_put L \<and> law_lru_pop L \<and>
     law_lru_pop_lru L \<and> law_lru_resize L"

subsection \<open>The cache\<close>

record 'l cache_inner =
  ci_limit :: nat
  ci_used :: nat
  ci_chunks :: 'l
  ci_attr :: "((attribution \<times> nat) \<times> nat) list"
  ci_hits :: nat
  ci_misses :: nat

record 'l byte_cache =
  bc_next_id :: nat
  bc_inner :: "'l cache_inner"

definition byte_cache_new :: "'l lru \<Rightarrow> nat \<Rightarrow> 'l byte_cache" where
  "byte_cache_new L limit =
     \<lparr>bc_next_id = 1,
      bc_inner = \<lparr>ci_limit = limit, ci_used = 0, ci_chunks = l_new L (lru_capacity_for limit),
        ci_attr = [], ci_hits = 0, ci_misses = 0\<rparr>\<rparr>"

definition alloc_source_id :: "'l byte_cache \<Rightarrow> ('e, nat \<times> 'l byte_cache) res" where
  "alloc_source_id c =
     (let raw = bc_next_id c; c = c\<lparr>bc_next_id := wadd64 (bc_next_id c) 1\<rparr>
      in if raw = 0 then Panic else Ok (raw, c))"

definition decrement_attribution ::
  "((attribution \<times> nat) \<times> nat) list \<Rightarrow> attribution \<Rightarrow> nat \<Rightarrow> nat \<Rightarrow>
     ((attribution \<times> nat) \<times> nat) list" where
  "decrement_attribution m a s amount =
     (let key = (a, s) in
      case map_of m key of
        None \<Rightarrow> m
      | Some v \<Rightarrow> (let v = v - amount in if v = 0 then AList.delete key m else AList.update key v m))"

text \<open>\<open>*map.entry((attribution, source)).or_insert(0) += n\<close>.\<close>

definition increment_attribution ::
  "((attribution \<times> nat) \<times> nat) list \<Rightarrow> attribution \<Rightarrow> nat \<Rightarrow> nat \<Rightarrow>
     ((attribution \<times> nat) \<times> nat) list" where
  "increment_attribution m a s n =
     (let v = (case map_of m (a, s) of None \<Rightarrow> 0 | Some v \<Rightarrow> v) in AList.update (a, s) (v + n) m)"

text \<open>The bookkeeping after an entry left the map.\<close>

definition debit :: "chunk_key \<Rightarrow> chunk_slot \<Rightarrow> 'l cache_inner \<Rightarrow> 'l cache_inner" where
  "debit key slot g =
     (let n = length (cs_bytes slot) in
      g\<lparr>ci_used := ci_used g - n,
        ci_attr := decrement_attribution (ci_attr g) (cs_attr slot) (ck_source key) n\<rparr>)"

text \<open>
  The loop that evicts the oldest chunks until \<open>n\<close> more bytes fit. The fuel is the number of
  chunks: each round but the last removes one.
\<close>

fun evict_loop :: "'l lru \<Rightarrow> nat \<Rightarrow> nat \<Rightarrow> nat \<Rightarrow> 'l cache_inner \<Rightarrow> 'l cache_inner" where
  "evict_loop L 0 budget n g = g"
| "evict_loop L (Suc fuel) budget n g =
     (if ci_used g + n > budget then
        (case l_pop_lru L (ci_chunks g) of
           (None, l) \<Rightarrow> g\<lparr>ci_chunks := l\<rparr>
         | (Some (key, slot), l) \<Rightarrow> evict_loop L fuel budget n (debit key slot (g\<lparr>ci_chunks := l\<rparr>)))
      else g)"

definition evict :: "'l lru \<Rightarrow> nat \<Rightarrow> nat \<Rightarrow> 'l cache_inner \<Rightarrow> 'l cache_inner" where
  "evict L budget n g = evict_loop L (length (l_iter L (ci_chunks g))) budget n g"

definition cache_set_limit :: "'l lru \<Rightarrow> nat \<Rightarrow> 'l cache_inner \<Rightarrow> 'l cache_inner" where
  "cache_set_limit L limit g0 =
     (let g = evict L limit 0 (g0\<lparr>ci_limit := limit\<rparr>)
      in g\<lparr>ci_chunks := l_resize L (ci_chunks g) (lru_capacity_for limit)\<rparr>)"

definition pop_key :: "'l lru \<Rightarrow> chunk_key \<Rightarrow> 'l cache_inner \<Rightarrow> 'l cache_inner" where
  "pop_key L key g =
     (case l_pop L (ci_chunks g) key of
        (None, l) \<Rightarrow> g\<lparr>ci_chunks := l\<rparr>
      | (Some slot, l) \<Rightarrow> debit key slot (g\<lparr>ci_chunks := l\<rparr>))"

definition cache_drop_source :: "'l lru \<Rightarrow> nat \<Rightarrow> 'l cache_inner \<Rightarrow> 'l cache_inner" where
  "cache_drop_source L source_id g =
     (let keys = filter (\<lambda>k. ck_source k = source_id) (map fst (l_iter L (ci_chunks g)))
      in foldl (\<lambda>g key. pop_key L key g) g keys)"

record cache_stats =
  st_used_bytes :: nat
  st_limit_bytes :: nat
  st_chunk_count :: nat
  st_by_attribution :: "((attribution \<times> nat) \<times> nat) list"
  st_hits :: nat
  st_misses :: nat

text \<open>The attributions sorted by descending bytes; ties in the order of the table.\<close>

definition byte_cache_stats :: "'l lru \<Rightarrow> 'l cache_inner \<Rightarrow> cache_stats" where
  "byte_cache_stats L g =
     \<lparr>st_used_bytes = ci_used g, st_limit_bytes = ci_limit g,
      st_chunk_count = l_len L (ci_chunks g),
      st_by_attribution = rev (sort_key snd (rev (ci_attr g))),
      st_hits = ci_hits g, st_misses = ci_misses g\<rparr>"

subsection \<open>Reading through the cache\<close>

definition chunk_end_offset :: "nat \<Rightarrow> nat \<Rightarrow> nat" where
  "chunk_end_offset chunk source_len =
     min (chunk_start_offset chunk + chunk_size_bytes) source_len"

text \<open>The first critical section of a fetch: look the chunk up.\<close>

definition fetch_lookup ::
  "'l lru \<Rightarrow> chunk_key \<Rightarrow> 'l cache_inner \<Rightarrow> bytes option \<times> 'l cache_inner" where
  "fetch_lookup L key g =
     (case l_get L (ci_chunks g) key of
        (Some slot, l) \<Rightarrow> (Some (cs_bytes slot), g\<lparr>ci_chunks := l, ci_hits := ci_hits g + 1\<rparr>)
      | (None, l) \<Rightarrow> (None, g\<lparr>ci_chunks := l\<rparr>))"

text \<open>Evict, insert and account for a chunk that is not in the map.\<close>

definition insert_chunk ::
  "'l lru \<Rightarrow> chunk_key \<Rightarrow> bytes \<Rightarrow> attribution \<Rightarrow> 'l cache_inner \<Rightarrow> 'l cache_inner" where
  "insert_chunk L key bs a g0 =
     (let n = length bs; g = evict L (ci_limit g0) n g0 in
      g\<lparr>ci_chunks := l_put L (ci_chunks g) key \<lparr>cs_bytes = bs, cs_attr = a\<rparr>,
        ci_used := ci_used g + n,
        ci_attr := increment_attribution (ci_attr g) a (ck_source key) n\<rparr>)"

text \<open>The second one: another thread may have inserted the chunk during the read.\<close>

definition fetch_commit ::
  "'l lru \<Rightarrow> chunk_key \<Rightarrow> bytes \<Rightarrow> attribution \<Rightarrow> 'l cache_inner \<Rightarrow> bytes \<times> 'l cache_inner" where
  "fetch_commit L key bs a g0 =
     (let g = g0\<lparr>ci_misses := ci_misses g0 + 1\<rparr> in
      case l_get L (ci_chunks g) key of
        (Some slot, l) \<Rightarrow> (cs_bytes slot, g\<lparr>ci_chunks := l\<rparr>)
      | (None, l) \<Rightarrow> (bs, insert_chunk L key bs a (g\<lparr>ci_chunks := l\<rparr>)))"

definition fetch_chunk ::
  "'l lru \<Rightarrow> (nat \<Rightarrow> 'l cache_inner \<Rightarrow> 'l cache_inner) \<Rightarrow> nat \<Rightarrow> nat \<Rightarrow> attribution \<Rightarrow> hex_source \<Rightarrow> nat \<Rightarrow>
     'l cache_inner \<Rightarrow> (hex_error, bytes) res \<times> 'l cache_inner" where
  "fetch_chunk L env source_id chunk a inner source_len g0 =
     (let key = chunk_key source_id chunk in
      case fetch_lookup L key (env 0 g0) of
        (Some bs, g) \<Rightarrow> (Ok bs, g)
      | (None, g) \<Rightarrow>
          (case res_bind (range_new (chunk_start_offset chunk) (chunk_end_offset chunk source_len))
                  (hs_read inner) of
             Ok bs \<Rightarrow> (let (bs, g) = fetch_commit L key bs a (env 1 g) in (Ok bs, g))
           | Err e \<Rightarrow> (Err e, g)
           | Panic \<Rightarrow> (Panic, g)))"

text \<open>
  The loop from the first to the last chunk of the range; \<open>env\<close> gives what the other threads do
  before each of the two acquisitions for each chunk.
\<close>

primrec read_loop ::
  "'l lru \<Rightarrow> (nat \<Rightarrow> nat \<Rightarrow> 'l cache_inner \<Rightarrow> 'l cache_inner) \<Rightarrow> byte_range \<Rightarrow> nat \<Rightarrow> attribution \<Rightarrow>
     hex_source \<Rightarrow> nat \<Rightarrow> nat list \<Rightarrow> bytes \<Rightarrow> 'l cache_inner \<Rightarrow> (hex_error, bytes) res \<times> 'l cache_inner" where
  "read_loop L env r source_id a inner source_len [] out g = (Ok out, g)"
| "read_loop L env r source_id a inner source_len (chunk # chunks) out g =
     (case fetch_chunk L (env chunk) source_id chunk a inner source_len g of
        (Ok chunk_bytes, g) \<Rightarrow>
          (let chunk_start = chunk_start_offset chunk;
               chunk_end = chunk_start + length chunk_bytes;
               take_start = max (br_start r) chunk_start - chunk_start;
               take_end = min (br_end r) chunk_end - chunk_start
           in case slice_res take_start take_end chunk_bytes of
                Ok part \<Rightarrow> read_loop L env r source_id a inner source_len chunks (out @ part) g
              | Err e \<Rightarrow> (Err e, g)
              | Panic \<Rightarrow> (Panic, g))
      | (Err e, g) \<Rightarrow> (Err e, g)
      | (Panic, g) \<Rightarrow> (Panic, g))"

text \<open>The chunks of a range that is not empty.\<close>

definition chunks_of :: "byte_range \<Rightarrow> nat list" where
  "chunks_of r = [br_start r div chunk_size_bytes ..< Suc ((br_end r - 1) div chunk_size_bytes)]"

definition read_with ::
  "'l lru \<Rightarrow> (nat \<Rightarrow> nat \<Rightarrow> 'l cache_inner \<Rightarrow> 'l cache_inner) \<Rightarrow> byte_range \<Rightarrow> nat \<Rightarrow> attribution \<Rightarrow>
     hex_source \<Rightarrow> 'l cache_inner \<Rightarrow> (hex_error, bytes) res \<times> 'l cache_inner" where
  "read_with L env r source_id a inner g =
     (let source_len = hs_len inner in
      if br_end r > source_len then (Err (OutOfBounds r source_len), g)
      else if range_is_empty r then (Ok [], g)
      else read_loop L env r source_id a inner source_len (chunks_of r) [] g)"

subsection \<open>Refreshing, peeking, invalidating\<close>

definition store_chunk ::
  "'l lru \<Rightarrow> chunk_key \<Rightarrow> bytes \<Rightarrow> attribution \<Rightarrow> 'l cache_inner \<Rightarrow> 'l cache_inner" where
  "store_chunk L key bs a g = insert_chunk L key bs a (pop_key L key g)"

primrec refetch_loop ::
  "'l lru \<Rightarrow> (nat \<Rightarrow> 'l cache_inner \<Rightarrow> 'l cache_inner) \<Rightarrow> nat \<Rightarrow> attribution \<Rightarrow> hex_source \<Rightarrow> nat \<Rightarrow>
     nat list \<Rightarrow> 'l cache_inner \<Rightarrow> (hex_error, unit) res \<times> 'l cache_inner" where
  "refetch_loop L env source_id a inner source_len [] g = (Ok (), g)"
| "refetch_loop L env source_id a inner source_len (ci # cis) g =
     (case res_bind (range_new (chunk_start_offset ci) (chunk_end_offset ci source_len))
             (hs_read inner) of
        Ok bs \<Rightarrow> refetch_loop L env source_id a inner source_len cis
                  (store_chunk L (chunk_key source_id ci) bs a (env ci g))
      | Err e \<Rightarrow> (Err e, g)
      | Panic \<Rightarrow> (Panic, g))"

definition refetch_with ::
  "'l lru \<Rightarrow> (nat \<Rightarrow> 'l cache_inner \<Rightarrow> 'l cache_inner) \<Rightarrow> byte_range \<Rightarrow> nat \<Rightarrow> attribution \<Rightarrow>
     hex_source \<Rightarrow> 'l cache_inner \<Rightarrow> (hex_error, unit) res \<times> 'l cache_inner" where
  "refetch_with L env r source_id a inner g =
     (let source_len = hs_len inner in
      if br_end r > source_len then (Err (OutOfBounds r source_len), g)
      else if range_is_empty r then (Ok (), g)
      else refetch_loop L env source_id a inner source_len (chunks_of r) g)"

definition push_missing :: "byte_range list \<Rightarrow> nat \<Rightarrow> nat \<Rightarrow> (hex_error, byte_range list) res" where
  "push_missing missing cs ce =
     (if missing \<noteq> [] \<and> br_end (last missing) = cs
      then res_bind (range_new (br_start (last missing)) ce) (\<lambda>r. Ok (butlast missing @ [r]))
      else res_bind (range_new cs ce) (\<lambda>r. Ok (missing @ [r])))"

primrec peek_loop ::
  "'l lru \<Rightarrow> byte_range \<Rightarrow> nat \<Rightarrow> nat \<Rightarrow> nat list \<Rightarrow> bytes \<Rightarrow> byte_range list \<Rightarrow> 'l cache_inner \<Rightarrow>
     (hex_error, bytes \<times> byte_range list) res \<times> 'l cache_inner" where
  "peek_loop L r source_id source_len [] out missing g = (Ok (out, missing), g)"
| "peek_loop L r source_id source_len (ci # cis) out missing g =
     (let chunk_start = chunk_start_offset ci; chunk_end = chunk_end_offset ci source_len in
      case fetch_lookup L (chunk_key source_id ci) g of
        (Some bs, g) \<Rightarrow>
          (let take_start = max (br_start r) chunk_start; take_end = min (br_end r) chunk_end;
               src_off = take_start - chunk_start; dst_off = take_start - br_start r;
               n = take_end - take_start
           in case res_bind (slice_res src_off (src_off + n) bs)
                     (\<lambda>part. copy_into dst_off n part out) of
                Ok out \<Rightarrow> peek_loop L r source_id source_len cis out missing g
              | Err e \<Rightarrow> (Err e, g)
              | Panic \<Rightarrow> (Panic, g))
      | (None, g) \<Rightarrow>
          (case push_missing missing chunk_start chunk_end of
             Ok missing \<Rightarrow> peek_loop L r source_id source_len cis out missing g
           | Err e \<Rightarrow> (Err e, g)
           | Panic \<Rightarrow> (Panic, g)))"

definition cache_peek ::
  "'l lru \<Rightarrow> byte_range \<Rightarrow> nat \<Rightarrow> nat \<Rightarrow> 'l cache_inner \<Rightarrow>
     (hex_error, bytes \<times> byte_range list) res \<times> 'l cache_inner" where
  "cache_peek L r source_id source_len g =
     (if br_end r > source_len then (Err (OutOfBounds r source_len), g)
      else if range_is_empty r then (Ok ([], []), g)
      else peek_loop L r source_id source_len (chunks_of r)
             (replicate (br_end r - br_start r) 0) [] g)"

definition invalidate_range :: "'l lru \<Rightarrow> nat \<Rightarrow> byte_range \<Rightarrow> 'l cache_inner \<Rightarrow> 'l cache_inner" where
  "invalidate_range L source_id r g =
     (if range_is_empty r then g
      else foldl (\<lambda>g ci. pop_key L (chunk_key source_id ci) g) g (chunks_of r))"

subsection \<open>The streaming and the cached source\<close>

text \<open>The sources share the cache with other handles, so its state is passed beside theirs.\<close>

record streaming_source =
  ss_source_id :: nat
  ss_attribution :: attribution
  ss_inner :: hex_source
  ss_len :: nat
  ss_demand :: "byte_range list"

definition streaming_new ::
  "'l lru \<Rightarrow> hex_source \<Rightarrow> nat \<Rightarrow> attribution \<Rightarrow> ('e, streaming_source \<times> 'l byte_cache) res" where
  "streaming_new L inner limit a =
     res_bind (alloc_source_id (byte_cache_new L limit)) (\<lambda>(source_id, cache).
     Ok (\<lparr>ss_source_id = source_id, ss_attribution = a, ss_inner = inner, ss_len = hs_len inner,
          ss_demand = []\<rparr>, cache))"

definition take_demand :: "streaming_source \<Rightarrow> byte_range list \<times> streaming_source" where
  "take_demand s = (ss_demand s, s\<lparr>ss_demand := []\<rparr>)"

definition streaming_prefetch ::
  "'l lru \<Rightarrow> (nat \<Rightarrow> nat \<Rightarrow> 'l cache_inner \<Rightarrow> 'l cache_inner) \<Rightarrow> byte_range \<Rightarrow> streaming_source \<Rightarrow>
     'l cache_inner \<Rightarrow> (hex_error, unit) res \<times> 'l cache_inner" where
  "streaming_prefetch L env r s g =
     (let (x, g) = read_with L env r (ss_source_id s) (ss_attribution s) (ss_inner s) g
      in (res_bind x (\<lambda>_. Ok ()), g))"

definition streaming_invalidate ::
  "'l lru \<Rightarrow> byte_range \<Rightarrow> streaming_source \<Rightarrow> 'l cache_inner \<Rightarrow> 'l cache_inner" where
  "streaming_invalidate L r s g = invalidate_range L (ss_source_id s) r g"

definition streaming_refetch ::
  "'l lru \<Rightarrow> (nat \<Rightarrow> 'l cache_inner \<Rightarrow> 'l cache_inner) \<Rightarrow> byte_range \<Rightarrow> streaming_source \<Rightarrow>
     'l cache_inner \<Rightarrow> (hex_error, unit) res \<times> 'l cache_inner" where
  "streaming_refetch L env r s g =
     refetch_with L env r (ss_source_id s) (ss_attribution s) (ss_inner s) g"

definition streaming_read ::
  "'l lru \<Rightarrow> byte_range \<Rightarrow> streaming_source \<Rightarrow> 'l cache_inner \<Rightarrow>
     (hex_error, bytes) res \<times> streaming_source \<times> 'l cache_inner" where
  "streaming_read L r s g =
     (case cache_peek L r (ss_source_id s) (ss_len s) g of
        (Ok (bs, missing), g) \<Rightarrow>
          (Ok bs, if missing \<noteq> [] then s\<lparr>ss_demand := ss_demand s @ missing\<rparr> else s, g)
      | (Err e, g) \<Rightarrow> (Err e, s, g)
      | (Panic, g) \<Rightarrow> (Panic, s, g))"

record cached_source =
  cd_source_id :: nat
  cd_attribution :: attribution
  cd_inner :: hex_source
  cd_len :: nat

definition cached_new :: "nat \<Rightarrow> attribution \<Rightarrow> hex_source \<Rightarrow> cached_source" where
  "cached_new source_id a inner =
     \<lparr>cd_source_id = source_id, cd_attribution = a, cd_inner = inner, cd_len = hs_len inner\<rparr>"

definition cached_read ::
  "'l lru \<Rightarrow> (nat \<Rightarrow> nat \<Rightarrow> 'l cache_inner \<Rightarrow> 'l cache_inner) \<Rightarrow> byte_range \<Rightarrow> cached_source \<Rightarrow>
     'l cache_inner \<Rightarrow> (hex_error, bytes) res \<times> 'l cache_inner" where
  "cached_read L env r s g =
     read_with L env r (cd_source_id s) (cd_attribution s) (cd_inner s) g"

end
