(* ===== verification/CacheInv.thy ===== *)
theory CacheInv
  imports Cache "HOL-Library.Multiset"
begin

text \<open>
  The books of the cache: the used bytes and the bytes by attribution are those of the chunks it
  holds. Every critical section keeps them, as long as the entry bound of the underlying map is
  never what limits it; \<open>room_for_chunk\<close> shows that it is not while at most 16 sources share the
  cache, because a source has at most one chunk that is not full.
\<close>

subsection \<open>The laws of the map\<close>

abbreviation entries :: "'l lru \<Rightarrow> 'l cache_inner \<Rightarrow> (chunk_key \<times> chunk_slot) list" where
  "entries L g \<equiv> l_iter L (ci_chunks g)"

lemma lru_new: "lru_laws L \<Longrightarrow> l_iter L (l_new L n) = []" "lru_laws L \<Longrightarrow> l_cap L (l_new L n) = n"
  by (simp_all add: lru_laws_def law_lru_new_def)

lemma lru_get_law:
  assumes "lru_laws L"
  shows "case map_of (l_iter L l) k of
      None \<Rightarrow> l_get L l k = (None, l)
    | Some v \<Rightarrow> fst (l_get L l k) = Some v \<and> l_cap L (snd (l_get L l k)) = l_cap L l \<and>
        l_iter L (snd (l_get L l k)) = (k, v) # without k (l_iter L l)"
proof -
  have "law_lru_get L" using assms by (simp add: lru_laws_def)
  from this [unfolded law_lru_get_def, rule_format, of l k] show ?thesis .
qed

lemma lru_get_None: "lru_laws L \<Longrightarrow> map_of (l_iter L l) k = None \<Longrightarrow> l_get L l k = (None, l)"
  using lru_get_law [of L l k] by simp

lemma lru_get_Some:
  assumes "lru_laws L" "map_of (l_iter L l) k = Some v"
  obtains l' where "l_get L l k = (Some v, l')" "l_cap L l' = l_cap L l"
    "l_iter L l' = (k, v) # without k (l_iter L l)"
proof -
  have "fst (l_get L l k) = Some v \<and> l_cap L (snd (l_get L l k)) = l_cap L l \<and>
      l_iter L (snd (l_get L l k)) = (k, v) # without k (l_iter L l)"
    using lru_get_law [OF assms(1), of l k] assms(2) by simp
  then show thesis using that [of "snd (l_get L l k)"] by (metis prod.collapse)
qed

lemma lru_put:
  "lru_laws L \<Longrightarrow> l_cap L (l_put L l k v) = l_cap L l"
  "lru_laws L \<Longrightarrow> l_iter L (l_put L l k v) = take (l_cap L l) ((k, v) # without k (l_iter L l))"
  by (simp_all add: lru_laws_def law_lru_put_def)

lemma lru_pop:
  assumes "lru_laws L"
  obtains l' where "l_pop L l k = (map_of (l_iter L l) k, l')" "l_cap L l' = l_cap L l"
    "l_iter L l' = without k (l_iter L l)"
  using assms that [of "snd (l_pop L l k)"]
  unfolding lru_laws_def law_lru_pop_def by (metis prod.collapse)

lemma lru_pop_lru_Nil: "lru_laws L \<Longrightarrow> l_iter L l = [] \<Longrightarrow> l_pop_lru L l = (None, l)"
  unfolding lru_laws_def law_lru_pop_lru_def by metis

lemma lru_pop_lru:
  assumes "lru_laws L" "l_iter L l \<noteq> []"
  obtains l' where "l_pop_lru L l = (Some (last (l_iter L l)), l')" "l_cap L l' = l_cap L l"
    "l_iter L l' = butlast (l_iter L l)"
  using assms that [of "snd (l_pop_lru L l)"]
  unfolding lru_laws_def law_lru_pop_lru_def by (metis prod.collapse)

lemma lru_resize:
  "lru_laws L \<Longrightarrow> l_cap L (l_resize L l n) = n"
  "lru_laws L \<Longrightarrow> l_iter L (l_resize L l n) = take n (l_iter L l)"
  by (simp_all add: lru_laws_def law_lru_resize_def)

lemma without_notin: "map_of es k = None \<Longrightarrow> without k es = es"
  by (induction es) (auto simp: without_def split: if_splits)

lemma without_mset:
  "distinct (map fst es) \<Longrightarrow> map_of es k = Some v \<Longrightarrow> mset es = mset ((k, v) # without k es)"
proof (induction es)
  case Nil
  then show ?case by simp
next
  case (Cons e es)
  show ?case
  proof (cases "fst e = k")
    case True
    then have "map_of es k = None" using Cons.prems(1) by (simp add: map_of_eq_None_iff)
    then have "without k (e # es) = es" using True without_notin [of es k] by (simp add: without_def)
    then show ?thesis using Cons.prems(2) True by (cases e) simp
  next
    case False
    then show ?thesis using Cons by (cases e) (simp add: without_def)
  qed
qed

lemma without_sub: "set (without k es) \<subseteq> set es" "k \<notin> fst ` set (without k es)"
  by (auto simp: without_def)

lemma distinct_without: "distinct (map fst es) \<Longrightarrow> distinct (map fst (without k es))"
  by (simp add: without_def distinct_map_filter)

lemma length_without: "length (without k es) \<le> length es"
  by (simp add: without_def)

subsection \<open>Totals\<close>

definition total :: "(chunk_key \<times> chunk_slot) list \<Rightarrow> nat" where
  "total es = sum_list (map (\<lambda>e. length (cs_bytes (snd e))) es)"

definition bucket :: "attribution \<times> nat \<Rightarrow> chunk_key \<times> chunk_slot \<Rightarrow> bool" where
  "bucket b e \<longleftrightarrow> cs_attr (snd e) = fst b \<and> ck_source (fst e) = snd b"

definition some_pos :: "nat \<Rightarrow> nat option" where
  "some_pos n = (if n = 0 then None else Some n)"

definition books :: "(chunk_key \<times> chunk_slot) list \<Rightarrow> 'l cache_inner \<Rightarrow> bool" where
  "books es g \<longleftrightarrow>
     ci_used g = total es \<and> map_of (ci_attr g) = (\<lambda>b. some_pos (total (filter (bucket b) es)))"

lemma total_simps [simp]:
  "total [] = 0" "total (e # es) = length (cs_bytes (snd e)) + total es"
  "total (es @ es') = total es + total es'"
  by (simp_all add: total_def)

lemma total_mset_sum: "total es = sum_mset (image_mset (\<lambda>e. length (cs_bytes (snd e))) (mset es))"
  by (induction es) simp_all

lemma total_mset: "mset es = mset es' \<Longrightarrow> total es = total es'"
  by (simp only: total_mset_sum)

lemma books_mset: "mset es = mset es' \<Longrightarrow> books es g \<longleftrightarrow> books es' g"
proof -
  assume m: "mset es = mset es'"
  then have "total (filter (bucket b) es) = total (filter (bucket b) es')" for b
    by (metis total_mset mset_filter)
  then show ?thesis by (simp add: books_def total_mset [OF m])
qed

lemma decrement_map:
  assumes "map_of m (a, s) = some_pos t"
  shows "map_of (decrement_attribution m a s n) = (map_of m)((a, s) := some_pos (t - n))"
proof (cases "t = 0")
  case True
  then have none: "map_of m (a, s) = None" using assms by (simp add: some_pos_def)
  then have "decrement_attribution m a s n = m" by (simp add: decrement_attribution_def)
  moreover have "(map_of m)((a, s) := None) = map_of m" using none by (simp add: fun_upd_idem_iff)
  ultimately show ?thesis using True by (simp add: some_pos_def)
next
  case False
  then have "map_of m (a, s) = Some t" using assms by (simp add: some_pos_def)
  then have "decrement_attribution m a s n =
      (if t - n = 0 then AList.delete (a, s) m else AList.update (a, s) (t - n) m)"
    by (simp add: decrement_attribution_def Let_def)
  then show ?thesis by (simp add: some_pos_def update_conv' delete_conv')
qed

lemma increment_map:
  "map_of m (a, s) = some_pos t \<Longrightarrow> 0 < n \<Longrightarrow>
     map_of (increment_attribution m a s n) = (map_of m)((a, s) := some_pos (t + n))"
  by (auto simp: increment_attribution_def some_pos_def Let_def update_conv'
      split: if_splits option.splits)

lemma debit_books:
  assumes "books ((k, slot) # es) g"
  shows "books es (debit k slot g)"
proof -
  let ?b = "(cs_attr slot, ck_source k)" and ?n = "length (cs_bytes slot)"
  have "map_of (ci_attr g) ?b = some_pos (?n + total (filter (bucket ?b) es))"
    using assms by (simp add: books_def bucket_def)
  then have "map_of (decrement_attribution (ci_attr g) (cs_attr slot) (ck_source k) ?n) =
      (map_of (ci_attr g))(?b := some_pos (total (filter (bucket ?b) es)))"
    by (simp add: decrement_map)
  also have "\<dots> = (\<lambda>b. some_pos (total (filter (bucket b) es)))"
    using assms by (auto simp: books_def fun_eq_iff bucket_def)
  finally show ?thesis using assms by (simp add: books_def debit_def Let_def)
qed

lemma debit_sel [simp]:
  "ci_chunks (debit k slot g) = ci_chunks g" "ci_limit (debit k slot g) = ci_limit g"
  "ci_hits (debit k slot g) = ci_hits g" "ci_misses (debit k slot g) = ci_misses g"
  by (simp_all add: debit_def Let_def)

lemma books_irrelevant [simp]:
  "books es (g\<lparr>ci_chunks := l\<rparr>) = books es g" "books es (g\<lparr>ci_limit := n\<rparr>) = books es g"
  "books es (g\<lparr>ci_hits := n\<rparr>) = books es g" "books es (g\<lparr>ci_misses := n\<rparr>) = books es g"
  by (simp_all add: books_def)

subsection \<open>Accounting\<close>

definition exact :: "'l lru \<Rightarrow> 'l cache_inner \<Rightarrow> bool" where
  "exact L g \<longleftrightarrow> distinct (map fst (entries L g)) \<and> books (entries L g) g"

definition accounted :: "'l lru \<Rightarrow> 'l cache_inner \<Rightarrow> bool" where
  "accounted L g \<longleftrightarrow>
     distinct (map fst (entries L g)) \<and> books (entries L g) g \<and>
     l_cap L (ci_chunks g) = lru_capacity_for (ci_limit g)"

lemma cache_new_accounted: "lru_laws L \<Longrightarrow> accounted L (bc_inner (byte_cache_new L limit))"
  by (auto simp: accounted_def books_def byte_cache_new_def lru_new some_pos_def)

text \<open>What an operation that only removes entries leaves.\<close>

definition shrinks :: "'l lru \<Rightarrow> 'l cache_inner \<Rightarrow> 'l cache_inner \<Rightarrow> bool" where
  "shrinks L g g' \<longleftrightarrow> set (entries L g') \<subseteq> set (entries L g) \<and>
     length (entries L g') \<le> length (entries L g) \<and> ci_limit g' = ci_limit g \<and>
     l_cap L (ci_chunks g') = l_cap L (ci_chunks g)"

lemma pop_key_accounted:
  assumes laws: "lru_laws L" and acc: "accounted L g"
  shows "accounted L (pop_key L k g)" "entries L (pop_key L k g) = without k (entries L g)"
    "shrinks L g (pop_key L k g)"
proof -
  obtain l' where l': "l_pop L (ci_chunks g) k = (map_of (entries L g) k, l')"
    "l_cap L l' = l_cap L (ci_chunks g)" "l_iter L l' = without k (entries L g)"
    by (rule lru_pop [OF laws])
  have d: "distinct (map fst (entries L g))" and b: "books (entries L g) g"
    using acc by (simp_all add: accounted_def)
  show e: "entries L (pop_key L k g) = without k (entries L g)"
    using l' by (simp add: pop_key_def split: option.split)
  show "shrinks L g (pop_key L k g)"
    using e without_sub(1) [of k "entries L g"] length_without [of k "entries L g"] l'
    by (simp add: shrinks_def pop_key_def split: option.split)
  show "accounted L (pop_key L k g)"
  proof (cases "map_of (entries L g) k")
    case None
    then show ?thesis
      using acc l' by (simp add: pop_key_def accounted_def without_notin)
  next
    case (Some slot)
    have "books ((k, slot) # without k (entries L g)) g"
      using b books_mset [OF without_mset [OF d Some]] by blast
    then have "books (without k (entries L g)) (debit k slot (g\<lparr>ci_chunks := l'\<rparr>))"
      by (intro debit_books) simp
    then show ?thesis
      using acc l' Some d by (simp add: pop_key_def accounted_def distinct_without)
  qed
qed

lemma evict_loop_exact:
  assumes laws: "lru_laws L"
  shows "exact L g \<Longrightarrow> length (entries L g) \<le> fuel \<Longrightarrow>
    exact L (evict_loop L fuel budget n g) \<and> shrinks L g (evict_loop L fuel budget n g) \<and>
    (ci_used (evict_loop L fuel budget n g) + n \<le> budget \<or> entries L (evict_loop L fuel budget n g) = [])"
proof (induction fuel arbitrary: g)
  case 0
  then show ?case by (simp add: shrinks_def)
next
  case (Suc fuel)
  show ?case
  proof (cases "ci_used g + n > budget \<and> entries L g \<noteq> []")
    case False
    have "evict_loop L (Suc fuel) budget n g = g"
      using False lru_pop_lru_Nil [OF laws, of "ci_chunks g"] by auto
    then show ?thesis using Suc.prems False by (auto simp: shrinks_def)
  next
    case True
    obtain k slot where e: "last (entries L g) = (k, slot)" by (cases "last (entries L g)")
    obtain l' where l': "l_pop_lru L (ci_chunks g) = (Some (k, slot), l')"
      "l_cap L l' = l_cap L (ci_chunks g)" "l_iter L l' = butlast (entries L g)"
      using lru_pop_lru [OF laws, of "ci_chunks g"] True e by metis
    let ?g = "debit k slot (g\<lparr>ci_chunks := l'\<rparr>)"
    have split: "entries L g = butlast (entries L g) @ [(k, slot)]"
      using True e append_butlast_last_id [of "entries L g"] by simp
    then have "mset (entries L g) = mset ((k, slot) # butlast (entries L g))"
      by (metis mset.simps(2) mset_append add_mset_add_single mset.simps(1))
    then have "books (entries L g) g \<longleftrightarrow> books ((k, slot) # butlast (entries L g)) g"
      by (rule books_mset)
    then have "books (butlast (entries L g)) ?g"
      using Suc.prems(1) by (intro debit_books) (simp add: exact_def)
    moreover have "distinct (map fst (butlast (entries L g)))"
      using Suc.prems(1) by (simp add: exact_def map_butlast distinct_butlast)
    ultimately have acc: "exact L ?g" using l' by (simp add: exact_def)
    have sub: "set (butlast (entries L g)) \<subseteq> set (entries L g)" by (auto dest: in_set_butlastD)
    have "evict_loop L (Suc fuel) budget n g = evict_loop L fuel budget n ?g"
      using True l' by simp
    moreover have "length (entries L ?g) \<le> fuel" using Suc.prems(2) True l' by simp
    ultimately show ?thesis
      using Suc.IH [OF acc] sub l' by (auto simp: shrinks_def)
  qed
qed

lemma evict_exact:
  assumes "lru_laws L" "exact L g"
  shows "exact L (evict L budget n g)" "shrinks L g (evict L budget n g)"
    "ci_used (evict L budget n g) + n \<le> budget \<or> entries L (evict L budget n g) = []"
  using evict_loop_exact [OF assms order_refl] by (simp_all add: evict_def)

lemma accounted_exact:
  "accounted L g \<longleftrightarrow> exact L g \<and> l_cap L (ci_chunks g) = lru_capacity_for (ci_limit g)"
  by (auto simp: accounted_def exact_def)

lemma evict_accounted:
  assumes "lru_laws L" "accounted L g"
  shows "accounted L (evict L budget n g)" "shrinks L g (evict L budget n g)"
    "ci_used (evict L budget n g) + n \<le> budget \<or> entries L (evict L budget n g) = []"
  using evict_exact [OF assms(1), of g budget n] assms(2)
  by (auto simp: accounted_exact shrinks_def)

text \<open>The fuel is enough: the result satisfies the equation of the loop.\<close>

lemma evict_stops:
  assumes "lru_laws L" "exact L g"
  shows "ci_used (evict L budget n g) + n \<le> budget \<or> fst (l_pop_lru L (ci_chunks (evict L budget n g))) = None"
  using evict_exact(3) [OF assms, of budget n] lru_pop_lru_Nil [OF assms(1)] by auto

text \<open>Inserting keeps the books exactly when the map has a free entry after the eviction.\<close>

lemma insert_chunk_accounted:
  assumes laws: "lru_laws L" and acc: "accounted L g"
    and new: "k \<notin> fst ` set (entries L g)" and bs: "bs \<noteq> []"
    and room: "length (entries L (evict L (ci_limit g) (length bs) g)) < lru_capacity_for (ci_limit g)"
  shows "accounted L (insert_chunk L k bs a g)"
    "entries L (insert_chunk L k bs a g) =
       (k, \<lparr>cs_bytes = bs, cs_attr = a\<rparr>) # entries L (evict L (ci_limit g) (length bs) g)"
    "ci_limit (insert_chunk L k bs a g) = ci_limit g"
proof -
  define g1 where "g1 = evict L (ci_limit g) (length bs) g"
  note ev = evict_accounted [OF laws acc, of "ci_limit g" "length bs", folded g1_def]
  have lim: "ci_limit g1 = ci_limit g" and cap: "l_cap L (ci_chunks g1) = lru_capacity_for (ci_limit g)"
    and d: "distinct (map fst (entries L g1))" and b: "books (entries L g1) g1"
    and sub: "set (entries L g1) \<subseteq> set (entries L g)"
    using ev by (auto simp: shrinks_def accounted_def)
  have k: "k \<notin> fst ` set (entries L g1)" using new sub by auto
  then have "without k (entries L g1) = entries L g1"
    by (intro without_notin) (simp add: map_of_eq_None_iff)
  then have it: "l_iter L (l_put L (ci_chunks g1) k \<lparr>cs_bytes = bs, cs_attr = a\<rparr>) =
      (k, \<lparr>cs_bytes = bs, cs_attr = a\<rparr>) # entries L g1"
    using room by (simp add: lru_put [OF laws] cap g1_def [symmetric])
  show e: "entries L (insert_chunk L k bs a g) =
      (k, \<lparr>cs_bytes = bs, cs_attr = a\<rparr>) # entries L (evict L (ci_limit g) (length bs) g)"
    by (simp add: insert_chunk_def Let_def g1_def [symmetric] it)
  show "ci_limit (insert_chunk L k bs a g) = ci_limit g"
    by (simp add: insert_chunk_def Let_def g1_def [symmetric] lim)
  have "map_of (increment_attribution (ci_attr g1) a (ck_source k) (length bs)) =
      (map_of (ci_attr g1))((a, ck_source k) :=
         some_pos (total (filter (bucket (a, ck_source k)) (entries L g1)) + length bs))"
    using b bs by (intro increment_map) (simp_all add: books_def)
  then have "books ((k, \<lparr>cs_bytes = bs, cs_attr = a\<rparr>) # entries L g1) (insert_chunk L k bs a g)"
    using b by (auto simp: books_def insert_chunk_def Let_def g1_def [symmetric] bucket_def fun_eq_iff
        add.commute)
  then have "books (entries L (insert_chunk L k bs a g)) (insert_chunk L k bs a g)"
    by (simp only: e g1_def)
  moreover have "distinct (map fst (entries L (insert_chunk L k bs a g)))"
    using d k by (simp add: e g1_def)
  moreover have "l_cap L (ci_chunks (insert_chunk L k bs a g)) =
      lru_capacity_for (ci_limit (insert_chunk L k bs a g))"
    by (simp add: insert_chunk_def Let_def g1_def [symmetric] lru_put [OF laws] cap lim)
  ultimately show "accounted L (insert_chunk L k bs a g)" by (simp only: accounted_def simp_thms)
qed

end
