(* ===== verification/CacheRead.thy ===== *)
theory CacheRead
  imports CacheInv
begin

text \<open>
  Reads through the cache deliver the bytes of the source, whatever is cached, evicted or
  inserted by other threads in between: the only thing a thread needs of the others is that
  every cached chunk is a chunk of its source (\<open>coherent\<close>), and every critical section keeps that.
\<close>

subsection \<open>Chunks of a content\<close>

definition chunk_bytes :: "bytes \<Rightarrow> nat \<Rightarrow> bytes" where
  "chunk_bytes c i = slice (chunk_start_offset i) (chunk_start_offset i + chunk_size_bytes) c"

definition chunk_in :: "bytes \<Rightarrow> nat \<Rightarrow> bool" where
  "chunk_in c i \<longleftrightarrow> chunk_start_offset i < length c"

definition coherent :: "'l lru \<Rightarrow> (nat \<Rightarrow> bytes) \<Rightarrow> 'l cache_inner \<Rightarrow> bool" where
  "coherent L content g \<longleftrightarrow>
     (\<forall>(k, slot) \<in> set (entries L g). chunk_in (content (ck_source k)) (ck_chunk k) \<and>
        cs_bytes slot = chunk_bytes (content (ck_source k)) (ck_chunk k))"

lemma coherentD:
  assumes "coherent L content g" "map_of (entries L g) (chunk_key s i) = Some slot"
  shows "cs_bytes slot = chunk_bytes (content s) i" "chunk_in (content s) i"
  using assms map_of_SomeD [OF assms(2)] by (auto simp: coherent_def chunk_key_def)

lemma coherent_sub:
  "coherent L content g \<Longrightarrow> set (entries L g') \<subseteq> set (entries L g) \<Longrightarrow> coherent L content g'"
  by (auto simp: coherent_def)

lemma chunk_key_sel [simp]:
  "ck_source (chunk_key s i) = s" "ck_chunk (chunk_key s i) = i"
  "chunk_key s i = chunk_key s' i' \<longleftrightarrow> s = s' \<and> i = i'"
  by (simp_all add: chunk_key_def)

lemma chunk_size_pos: "0 < chunk_size_bytes"
  by (simp add: chunk_size_bytes_def)

lemma chunk_split:
  "chunk_start_offset (x div chunk_size_bytes) \<le> x"
  "x < chunk_start_offset (Suc (x div chunk_size_bytes))"
  using dividend_less_div_times [OF chunk_size_pos, of x]
  by (simp_all add: chunk_start_offset_def)

lemma chunk_end_length:
  "chunk_in c i \<Longrightarrow> chunk_start_offset i + length (chunk_bytes c i) = chunk_end_offset i (length c)"
  by (auto simp: chunk_bytes_def chunk_end_offset_def chunk_in_def)

lemma chunk_bytes_nonempty: "chunk_in c i \<Longrightarrow> chunk_bytes c i \<noteq> []"
  using chunk_end_length [of c i] chunk_size_pos
  by (auto simp: chunk_end_offset_def chunk_in_def)

lemma chunk_read:
  assumes st: "stores inner c" and i: "chunk_in c i"
  shows "res_bind (range_new (chunk_start_offset i) (chunk_end_offset i (length c))) (hs_read inner) =
    Ok (chunk_bytes c i)"
proof -
  let ?e = "chunk_end_offset i (length c)"
  have le: "chunk_start_offset i \<le> ?e" "?e \<le> length c"
    using i by (simp_all add: chunk_end_offset_def chunk_in_def)
  have "hs_read inner \<lparr>br_start = chunk_start_offset i, br_end = ?e\<rparr> = Ok (slice (chunk_start_offset i) ?e c)"
    using byte_store.read_in [OF st] byte_store.len_content [OF st] le by simp
  moreover have "slice (chunk_start_offset i) ?e c = chunk_bytes c i"
    unfolding chunk_bytes_def chunk_end_offset_def by (rule slice_min_length) simp
  ultimately show ?thesis using le by (simp add: range_new_def)
qed

subsection \<open>Critical sections keep coherence\<close>

text \<open>Looking a chunk up reorders the entries and nothing else.\<close>

lemma without_map_of: "map_of (without k es) k' = (if k' = k then None else map_of es k')"
  by (induction es) (auto simp: without_def)

lemma lookup_facts:
  assumes laws: "lru_laws L"
  shows "fst (fetch_lookup L k g) = map_option cs_bytes (map_of (entries L g) k) \<and>
    map_of (entries L (snd (fetch_lookup L k g))) = map_of (entries L g) \<and>
    set (entries L (snd (fetch_lookup L k g))) \<subseteq> set (entries L g)"
proof (cases "map_of (entries L g) k")
  case None
  then show ?thesis by (simp add: fetch_lookup_def lru_get_None [OF laws])
next
  case (Some v)
  obtain l' where l': "l_get L (ci_chunks g) k = (Some v, l')"
    "l_iter L l' = (k, v) # without k (entries L g)"
    by (rule lru_get_Some [OF laws Some])
  have "map_of ((k, v) # without k (entries L g)) = map_of (entries L g)"
    using Some by (auto simp: fun_eq_iff without_map_of)
  moreover have "(k, v) \<in> set (entries L g)" using Some by (rule map_of_SomeD)
  ultimately show ?thesis
    using Some l' without_sub(1) [of k "entries L g"] by (auto simp: fetch_lookup_def)
qed

lemmas lookup_cases =
  lookup_facts [THEN conjunct1] lookup_facts [THEN conjunct2, THEN conjunct1]
  lookup_facts [THEN conjunct2, THEN conjunct2]

lemma lookup_coherent:
  "lru_laws L \<Longrightarrow> coherent L content g \<Longrightarrow> coherent L content (snd (fetch_lookup L k g))"
  by (rule coherent_sub [OF _ lookup_cases(3)])

lemma pop_key_sub:
  assumes laws: "lru_laws L"
  shows "entries L (pop_key L k g) = without k (entries L g)"
proof -
  obtain l' where "l_pop L (ci_chunks g) k = (map_of (entries L g) k, l')"
    "l_iter L l' = without k (entries L g)"
    by (rule lru_pop [OF laws])
  then show ?thesis by (simp add: pop_key_def split: option.split)
qed

lemma evict_loop_sub:
  assumes laws: "lru_laws L"
  shows "set (entries L (evict_loop L fuel budget n g)) \<subseteq> set (entries L g)"
proof (induction fuel arbitrary: g)
  case 0
  then show ?case by simp
next
  case (Suc fuel)
  show ?case
  proof (cases "entries L g = []")
    case True
    then show ?thesis using lru_pop_lru_Nil [OF laws True] by simp
  next
    case False
    obtain k slot where e: "last (entries L g) = (k, slot)" by (cases "last (entries L g)")
    obtain l' where l': "l_pop_lru L (ci_chunks g) = (Some (k, slot), l')"
      "l_iter L l' = butlast (entries L g)"
      using lru_pop_lru [OF laws False] e by metis
    have "set (butlast (entries L g)) \<subseteq> set (entries L g)" by (auto dest: in_set_butlastD)
    then show ?thesis
      using Suc.IH [of "debit k slot (g\<lparr>ci_chunks := l'\<rparr>)"] l' by auto
  qed
qed

lemma insert_chunk_coherent:
  assumes laws: "lru_laws L" and coh: "coherent L content g" and i: "chunk_in (content s) i"
  shows "coherent L content (insert_chunk L (chunk_key s i) (chunk_bytes (content s) i) a g)"
proof -
  let ?k = "chunk_key s i" and ?bs = "chunk_bytes (content s) i"
  let ?g = "evict L (ci_limit g) (length ?bs) g"
  have "coherent L content ?g"
    unfolding evict_def by (rule coherent_sub [OF coh evict_loop_sub [OF laws]])
  moreover have "set (entries L (insert_chunk L ?k ?bs a g)) \<subseteq>
      {(?k, \<lparr>cs_bytes = ?bs, cs_attr = a\<rparr>)} \<union> set (entries L ?g)"
    using without_sub(1) [of ?k "entries L ?g"]
    by (auto simp: insert_chunk_def Let_def lru_put [OF laws] dest!: in_set_takeD)
  ultimately show ?thesis using i by (auto simp: coherent_def)
qed

lemma commit_coherent:
  assumes laws: "lru_laws L" and coh: "coherent L content g" and i: "chunk_in (content s) i"
  shows "fst (fetch_commit L (chunk_key s i) (chunk_bytes (content s) i) a g) = chunk_bytes (content s) i"
    "coherent L content (snd (fetch_commit L (chunk_key s i) (chunk_bytes (content s) i) a g))"
proof -
  let ?k = "chunk_key s i" and ?bs = "chunk_bytes (content s) i"
  let ?g = "g\<lparr>ci_misses := ci_misses g + 1\<rparr>"
  have coh': "coherent L content ?g" using coh by (simp add: coherent_def)
  have "fst (fetch_commit L ?k ?bs a g) = ?bs \<and> coherent L content (snd (fetch_commit L ?k ?bs a g))"
  proof (cases "map_of (entries L g) ?k")
    case None
    then have "fetch_commit L ?k ?bs a g = (?bs, insert_chunk L ?k ?bs a ?g)"
      using lru_get_None [OF laws None] by (simp add: fetch_commit_def Let_def)
    then show ?thesis using insert_chunk_coherent [OF laws coh' i] by simp
  next
    case (Some v)
    obtain l' where l': "l_get L (ci_chunks g) ?k = (Some v, l')"
      "l_iter L l' = (?k, v) # without ?k (entries L g)"
      by (rule lru_get_Some [OF laws Some])
    have "coherent L content (?g\<lparr>ci_chunks := l'\<rparr>)"
      using l' map_of_SomeD [OF Some] without_sub(1) [of ?k "entries L g"]
      by (intro coherent_sub [OF coh]) auto
    then show ?thesis
      using l' coherentD(1) [OF coh Some] by (simp add: fetch_commit_def Let_def)
  qed
  then show "fst (fetch_commit L ?k ?bs a g) = ?bs" "coherent L content (snd (fetch_commit L ?k ?bs a g))"
    by blast+
qed

subsection \<open>Reading under interference\<close>

text \<open>What the other threads may do: anything that keeps the cache coherent.\<close>

definition benign :: "'l lru \<Rightarrow> (nat \<Rightarrow> bytes) \<Rightarrow> ('l cache_inner \<Rightarrow> 'l cache_inner) \<Rightarrow> bool" where
  "benign L content f \<longleftrightarrow> (\<forall>g. coherent L content g \<longrightarrow> coherent L content (f g))"

lemma benignD: "benign L content f \<Longrightarrow> coherent L content g \<Longrightarrow> coherent L content (f g)"
  by (simp add: benign_def)

lemma fetch_chunk_ok:
  assumes laws: "lru_laws L" and st: "stores inner (content s)"
    and env: "\<And>j. benign L content (env j)"
    and coh: "coherent L content g" and i: "chunk_in (content s) i"
  shows "\<exists>g'. fetch_chunk L env s i a inner (length (content s)) g =
      (Ok (chunk_bytes (content s) i), g') \<and> coherent L content g'"
proof -
  let ?k = "chunk_key s i" and ?bs = "chunk_bytes (content s) i"
  define g1 where "g1 = env 0 g"
  have coh1: "coherent L content g1" unfolding g1_def by (rule benignD [OF env coh])
  obtain found g2 where look: "fetch_lookup L ?k g1 = (found, g2)" by (cases "fetch_lookup L ?k g1")
  have found: "found = map_option cs_bytes (map_of (entries L g1) ?k)"
    using lookup_cases(1) [OF laws, of ?k g1] look by simp
  have coh2: "coherent L content g2" using lookup_coherent [OF laws coh1, of ?k] look by simp
  show ?thesis
  proof (cases found)
    case (Some bs)
    then obtain v where "map_of (entries L g1) ?k = Some v" "bs = cs_bytes v" using found by auto
    then have "bs = ?bs" using coherentD(1) [OF coh1] by blast
    then show ?thesis
      using coh2 Some look by (simp add: fetch_chunk_def Let_def flip: g1_def)
  next
    case None
    have "fetch_chunk L env s i a inner (length (content s)) g =
        (let (bs, g) = fetch_commit L ?k ?bs a (env 1 g2) in (Ok bs, g))"
      using look None
      by (simp add: fetch_chunk_def Let_def chunk_read [OF st i] del: One_nat_def flip: g1_def)
    then show ?thesis
      using commit_coherent [OF laws benignD [OF env coh2, of 1] i, of a]
      by (auto simp: split_beta simp del: One_nat_def)
  qed
qed

lemma chunk_arith:
  assumes "i \<le> (e - 1) div chunk_size_bytes" "0 < e"
  shows "chunk_start_offset i < e"
proof -
  have "i * chunk_size_bytes \<le> (e - 1) div chunk_size_bytes * chunk_size_bytes"
    using assms(1) by (rule mult_le_mono1)
  also have "\<dots> \<le> e - 1" by (rule div_times_less_eq_dividend)
  finally show ?thesis using assms(2) by (simp add: chunk_start_offset_def)
qed

lemma chunk_start_Suc: "chunk_start_offset (Suc i) = chunk_start_offset i + chunk_size_bytes"
  by (simp add: chunk_start_offset_def)

lemma read_loop_ok:
  assumes laws: "lru_laws L" and st: "stores inner (content s)"
    and env: "\<And>i j. benign L content (env i j)"
    and r: "br_start r < br_end r" "br_end r \<le> length (content s)"
    and m: "m = Suc ((br_end r - 1) div chunk_size_bytes)"
  shows "i \<le> m \<Longrightarrow> coherent L content g \<Longrightarrow> br_start r < chunk_start_offset (Suc i) \<Longrightarrow>
    out = slice (br_start r) (min (br_end r) (chunk_start_offset i)) (content s) \<Longrightarrow>
    \<exists>g'. read_loop L env r s a inner (length (content s)) [i ..< m] out g =
      (Ok (slice (br_start r) (br_end r) (content s)), g') \<and> coherent L content g'"
proof (induction "m - i" arbitrary: i out g)
  case 0
  have "br_end r \<le> chunk_start_offset m"
    using chunk_split(2) [of "br_end r - 1"] r(1) by (simp add: m)
  with 0 show ?case by (simp add: min_def)
next
  case (Suc n)
  let ?c = "content s" and ?o = "chunk_start_offset i"
  have im: "i < m" using Suc.hyps(2) by linarith
  then have oe: "?o < br_end r" using r(1) by (intro chunk_arith) (simp_all add: m)
  then have i: "chunk_in ?c i" using r(2) by (simp add: chunk_in_def)
  obtain g1 where g1: "fetch_chunk L (env i) s i a inner (length ?c) g = (Ok (chunk_bytes ?c i), g1)"
    "coherent L content g1"
    using fetch_chunk_ok [where env = "env i" and a = a, OF laws st env Suc.prems(2) i] by blast
  define ts te where "ts = max (br_start r) ?o - ?o"
    and "te = min (br_end r) (?o + length (chunk_bytes ?c i)) - ?o"
  have len: "length (chunk_bytes ?c i) = min chunk_size_bytes (length ?c - ?o)"
    by (simp add: chunk_bytes_def)
  have te: "?o + te = min (br_end r) (chunk_start_offset (Suc i))" "te \<le> chunk_size_bytes"
    using r(2) oe by (auto simp: te_def len chunk_start_Suc)
  have ts: "?o + ts = max (br_start r) ?o" by (simp add: ts_def)
  have tse: "ts \<le> te" using te(1) ts oe r(1) Suc.prems(3) by (auto simp: chunk_start_Suc)
  have "te \<le> length (chunk_bytes ?c i)" using r(2) te oe by (auto simp: len)
  then have part: "(slice_res ts te (chunk_bytes ?c i) :: (hex_error, bytes) res) =
      Ok (slice (?o + ts) (?o + te) ?c)"
    using tse te(2) by (simp add: chunk_bytes_def slice_slice)
  have out: "out @ slice (?o + ts) (?o + te) ?c =
      slice (br_start r) (min (br_end r) (chunk_start_offset (Suc i))) ?c"
  proof (cases "?o \<le> br_start r")
    case True
    then show ?thesis using Suc.prems(4) by (simp add: te ts max_def)
  next
    case False
    then have "max (br_start r) ?o = ?o" "min (br_end r) ?o = ?o" using oe by simp_all
    then show ?thesis
      using Suc.prems(4) False oe
      by (simp add: te ts slice_append chunk_start_Suc)
  qed
  have "read_loop L env r s a inner (length ?c) [i ..< m] out g =
      read_loop L env r s a inner (length ?c) [Suc i ..< m] (out @ slice (?o + ts) (?o + te) ?c) g1"
    using im by (simp add: upt_conv_Cons g1(1) Let_def part flip: ts_def te_def)
  then show ?case
    using Suc.hyps(1) [of "Suc i" g1, OF _ _ g1(2) _ out] Suc.hyps(2) im Suc.prems(3)
    by (simp add: chunk_start_Suc)
qed

lemma read_with_ok:
  assumes laws: "lru_laws L" and st: "stores inner (content s)"
    and env: "\<And>i j. benign L content (env i j)" and coh: "coherent L content g"
    and wf: "range_wf r" and inb: "br_end r \<le> length (content s)"
  shows "\<exists>g'. read_with L env r s a inner g =
    (Ok (slice (br_start r) (br_end r) (content s)), g') \<and> coherent L content g'"
proof (cases "br_start r < br_end r")
  case False
  then show ?thesis
    using coh wf inb byte_store.len_content [OF st]
    by (simp add: read_with_def range_is_empty_def range_wf_def)
next
  case True
  let ?i = "br_start r div chunk_size_bytes"
  have b: "chunk_start_offset ?i \<le> br_start r" "br_start r < chunk_start_offset (Suc ?i)"
    by (rule chunk_split)+
  have "?i \<le> Suc ((br_end r - 1) div chunk_size_bytes)"
    using True by (intro le_SucI div_le_mono) simp
  then have "\<exists>g'. read_loop L env r s a inner (length (content s)) (chunks_of r) [] g =
      (Ok (slice (br_start r) (br_end r) (content s)), g') \<and> coherent L content g'"
    unfolding chunks_of_def
    using b by (intro read_loop_ok [OF laws st env True inb refl _ coh b(2)]) auto
  then show ?thesis
    using True inb byte_store.len_content [OF st]
    by (simp add: read_with_def range_is_empty_def)
qed

end
