(* ===== verification/CacheGuard.thy ===== *)
theory CacheGuard
  imports CacheRead
begin

text \<open>
  The cache as a machine whose steps are the critical sections of any number of threads, in any
  order, and the interface between a predicate on its state and that machine: what the sections
  have to keep so that every operation, and every interleaving of operations, keeps it.
\<close>

subsection \<open>Steps\<close>

inductive cache_step ::
  "'l lru \<Rightarrow> (nat \<Rightarrow> bytes) \<Rightarrow> nat set \<Rightarrow> 'l cache_inner \<Rightarrow> 'l cache_inner \<Rightarrow> bool"
  for L :: "'l lru" and content :: "nat \<Rightarrow> bytes" and S :: "nat set" where
  Lookup: "cache_step L content S g (snd (fetch_lookup L k g))"
| Commit: "s \<in> S \<Longrightarrow> chunk_in (content s) i \<Longrightarrow>
    cache_step L content S g (snd (fetch_commit L (chunk_key s i) (chunk_bytes (content s) i) a g))"
| Store: "s \<in> S \<Longrightarrow> chunk_in (content s) i \<Longrightarrow>
    cache_step L content S g (store_chunk L (chunk_key s i) (chunk_bytes (content s) i) a g)"
| Peek: "cache_step L content S g (snd (cache_peek L r s len g))"
| Drop: "cache_step L content S g (cache_drop_source L s g)"
| Invalidate: "cache_step L content S g (invalidate_range L s r g)"
| Limit: "n < 2 ^ 64 \<Longrightarrow> cache_step L content S g (cache_set_limit L n g)"

inductive cache_reachable ::
  "'l lru \<Rightarrow> (nat \<Rightarrow> bytes) \<Rightarrow> nat set \<Rightarrow> 'l cache_inner \<Rightarrow> bool"
  for L :: "'l lru" and content :: "nat \<Rightarrow> bytes" and S :: "nat set" where
  Start: "n < 2 ^ 64 \<Longrightarrow> cache_reachable L content S (bc_inner (byte_cache_new L n))"
| Step: "cache_reachable L content S g \<Longrightarrow> cache_step L content S g g' \<Longrightarrow>
    cache_reachable L content S g'"

subsection \<open>Predicates the lock protects\<close>

text \<open>Kept by the two sections that only look a chunk up or remove one.\<close>

locale lock_guard =
  fixes L :: "'l lru" and I :: "'l cache_inner \<Rightarrow> bool"
  assumes lookup: "I g \<Longrightarrow> I (snd (fetch_lookup L k g))"
    and pop: "I g \<Longrightarrow> I (pop_key L k g)"
begin

lemma foldl_pop: "I g \<Longrightarrow> I (foldl (\<lambda>g k. pop_key L (f k) g) g ks)"
  by (induction ks arbitrary: g) (auto intro: pop)

lemma drop_source: "I g \<Longrightarrow> I (cache_drop_source L s g)"
  using foldl_pop [of g "\<lambda>k. k"] by (simp add: cache_drop_source_def)

lemma invalidate: "I g \<Longrightarrow> I (invalidate_range L s r g)"
  using foldl_pop [of g "chunk_key s"] by (simp add: invalidate_range_def)

lemma peek_loop: "I g \<Longrightarrow> I (snd (peek_loop L r s len cis out missing g))"
proof (induction cis arbitrary: out missing g)
  case Nil
  then show ?case by simp
next
  case (Cons ci cis)
  obtain found g1 where look: "fetch_lookup L (chunk_key s ci) g = (found, g1)"
    by (cases "fetch_lookup L (chunk_key s ci) g")
  have inv: "I g1" using lookup [OF Cons.prems, of "chunk_key s ci"] look by simp
  show ?case
    unfolding peek_loop.simps Let_def look prod.case
    by (cases found) (simp_all add: inv Cons.IH [OF inv] split: res.split)
qed

lemma peek: "I g \<Longrightarrow> I (snd (cache_peek L r s len g))"
  using peek_loop [of g] by (simp add: cache_peek_def)

end

text \<open>Kept by the sections that insert and by the change of the limit as well.\<close>

locale step_guard = lock_guard L I for L :: "'l lru" and I :: "'l cache_inner \<Rightarrow> bool" +
  fixes content :: "nat \<Rightarrow> bytes" and S :: "nat set"
  assumes commit: "s \<in> S \<Longrightarrow> chunk_in (content s) i \<Longrightarrow> I g \<Longrightarrow>
      I (snd (fetch_commit L (chunk_key s i) (chunk_bytes (content s) i) a g))"
    and store: "s \<in> S \<Longrightarrow> chunk_in (content s) i \<Longrightarrow> I g \<Longrightarrow>
      I (store_chunk L (chunk_key s i) (chunk_bytes (content s) i) a g)"
    and limit: "n < 2 ^ 64 \<Longrightarrow> I g \<Longrightarrow> I (cache_set_limit L n g)"
begin

lemma step: "cache_step L content S g g' \<Longrightarrow> I g \<Longrightarrow> I g'"
  by (induction rule: cache_step.induct)
    (auto intro: lookup peek drop_source invalidate commit store limit)

lemma steps: "(cache_step L content S)\<^sup>*\<^sup>* g g' \<Longrightarrow> I g \<Longrightarrow> I g'"
  by (induction rule: rtranclp_induct) (auto intro: step)

lemma reachable:
  "cache_reachable L content S g \<Longrightarrow>
     (\<And>n. n < 2 ^ 64 \<Longrightarrow> I (bc_inner (byte_cache_new L n))) \<Longrightarrow> I g"
  by (induction rule: cache_reachable.induct) (auto intro: step)

end

subsection \<open>Coherence\<close>

lemma pop_key_coherent:
  "lru_laws L \<Longrightarrow> coherent L content g \<Longrightarrow> coherent L content (pop_key L k g)"
  by (rule coherent_sub) (auto simp: pop_key_sub without_def)

lemma store_coherent:
  assumes laws: "lru_laws L" and coh: "coherent L content g" and i: "chunk_in (content s) i"
  shows "coherent L content (store_chunk L (chunk_key s i) (chunk_bytes (content s) i) a g)"
  unfolding store_chunk_def by (rule insert_chunk_coherent [OF laws pop_key_coherent [OF laws coh] i])

lemma set_limit_coherent:
  assumes laws: "lru_laws L" and coh: "coherent L content g"
  shows "coherent L content (cache_set_limit L n g)"
proof (rule coherent_sub [OF coh])
  let ?g = "evict L n 0 (g\<lparr>ci_limit := n\<rparr>)"
  have "set (entries L ?g) \<subseteq> set (entries L g)"
    using evict_loop_sub [OF laws, of _ n 0 "g\<lparr>ci_limit := n\<rparr>"] by (simp add: evict_def)
  moreover have "set (entries L (cache_set_limit L n g)) \<subseteq> set (entries L ?g)"
    using set_take_subset by (simp add: cache_set_limit_def Let_def lru_resize(2) [OF laws]) fast
  ultimately show "set (entries L (cache_set_limit L n g)) \<subseteq> set (entries L g)" by blast
qed

interpretation coherence: step_guard L "\<lambda>g. lru_laws L \<longrightarrow> coherent L content g" content S
  by unfold_locales
    (auto intro: lookup_coherent pop_key_coherent commit_coherent store_coherent set_limit_coherent)

end
