(* ===== verification/CacheSteps.thy ===== *)
theory CacheSteps
  imports CacheGuard
begin

text \<open>
  The books of the cache stay exact under every interleaving of critical sections, while at
  most 16 sources share it.
\<close>

definition cache_inv :: "'l lru \<Rightarrow> nat set \<Rightarrow> (nat \<Rightarrow> bytes) \<Rightarrow> 'l cache_inner \<Rightarrow> bool" where
  "cache_inv L S content g \<longleftrightarrow>
     accounted L g \<and> coherent L content g \<and> (\<forall>e \<in> set (entries L g). ck_source (fst e) \<in> S) \<and>
     ci_limit g < 2 ^ 64"

lemma cache_invD:
  assumes "cache_inv L S content g"
  shows "accounted L g" "coherent L content g" "\<And>e. e \<in> set (entries L g) \<Longrightarrow> ck_source (fst e) \<in> S"
    "ci_limit g < 2 ^ 64"
  using assms by (auto simp: cache_inv_def)

subsection \<open>Room in the map\<close>

text \<open>A chunk that is not full is the last one of its source.\<close>

lemma partial_chunk_last:
  assumes "chunk_in c i" "length (chunk_bytes c i) < chunk_size_bytes"
  shows "i = length c div chunk_size_bytes"
proof -
  let ?o = "chunk_start_offset i"
  have "?o + length (chunk_bytes c i) = min (?o + chunk_size_bytes) (length c)"
    using chunk_end_length [OF assms(1)] by (simp add: chunk_end_offset_def)
  then have "length c < ?o + chunk_size_bytes" using assms(2) by (simp add: min_def split: if_splits)
  moreover have "?o \<le> length c" using assms(1) by (simp add: chunk_in_def)
  ultimately show ?thesis
    by (intro div_nat_eqI [symmetric]) (simp_all add: chunk_start_offset_def mult.commute)
qed

definition partial_entry :: "chunk_key \<times> chunk_slot \<Rightarrow> bool" where
  "partial_entry e \<longleftrightarrow> length (cs_bytes (snd e)) < chunk_size_bytes"

definition coherent_entries :: "(nat \<Rightarrow> bytes) \<Rightarrow> (chunk_key \<times> chunk_slot) list \<Rightarrow> bool" where
  "coherent_entries content es \<longleftrightarrow>
     (\<forall>(k, slot) \<in> set es. chunk_in (content (ck_source k)) (ck_chunk k) \<and>
        cs_bytes slot = chunk_bytes (content (ck_source k)) (ck_chunk k))"

lemma full_entry_length:
  "coherent_entries content es \<Longrightarrow> e \<in> set es \<Longrightarrow> \<not> partial_entry e \<Longrightarrow>
     length (cs_bytes (snd e)) = chunk_size_bytes"
  by (auto simp: coherent_entries_def partial_entry_def chunk_bytes_def)

lemma full_entries_total:
  "coherent_entries content es \<Longrightarrow>
     length (filter (\<lambda>e. \<not> partial_entry e) es) * chunk_size_bytes \<le> total es"
proof (induction es)
  case Nil
  then show ?case by simp
next
  case (Cons e es)
  then have "coherent_entries content es" by (simp add: coherent_entries_def)
  then show ?case using Cons full_entry_length [OF Cons.prems, of e] by auto
qed

lemma partial_entries_bound:
  assumes coh: "coherent_entries content es" and d: "distinct (map fst es)"
    and S: "\<forall>e \<in> set es. ck_source (fst e) \<in> S" and fin: "finite S"
  shows "length (filter partial_entry es) \<le> card S"
proof -
  let ?ps = "filter partial_entry es"
  have last: "ck_chunk (fst e) = length (content (ck_source (fst e))) div chunk_size_bytes"
    if "e \<in> set ?ps" for e
    using that coh by (intro partial_chunk_last) (auto simp: coherent_entries_def partial_entry_def)
  have dk: "distinct (map fst ?ps)" using d by (rule distinct_map_filter)
  have "inj_on (\<lambda>e. ck_source (fst e)) (set ?ps)"
  proof (rule inj_onI)
    fix e e' assume e: "e \<in> set ?ps" "e' \<in> set ?ps" "ck_source (fst e) = ck_source (fst e')"
    then have "fst e = fst e'" using last [of e] last [of e'] by (simp add: chunk_key.equality)
    then show "e = e'" using dk e by (auto simp: distinct_map dest: inj_onD)
  qed
  then have "length ?ps = card ((\<lambda>e. ck_source (fst e)) ` set ?ps)"
    using dk distinct_card [of ?ps] by (simp add: card_image distinct_map)
  also have "\<dots> \<le> card S" using S by (intro card_mono [OF fin]) auto
  finally show ?thesis .
qed

lemma capacity_value: "n < 2 ^ 64 \<Longrightarrow> lru_capacity_for n = n div chunk_size_bytes + 16"
proof -
  assume "n < 2 ^ 64"
  then have "n div chunk_size_bytes \<le> 2 ^ 64 div chunk_size_bytes" by (intro div_le_mono) simp
  then have "n div chunk_size_bytes + 16 < 2 ^ 64" by (simp add: chunk_size_bytes_def)
  then show ?thesis by (simp add: lru_capacity_for_def u64_simps)
qed

lemma entries_fit:
  assumes coh: "coherent_entries content es" and d: "distinct (map fst es)"
    and S: "\<forall>e \<in> set es. ck_source (fst e) \<in> S" "finite S" "card S \<le> 16"
    and lim: "total es \<le> n" "n < 2 ^ 64"
  shows "length es \<le> lru_capacity_for n"
proof -
  have "length (filter (\<lambda>e. \<not> partial_entry e) es) * chunk_size_bytes \<le> n"
    using full_entries_total [OF coh] lim(1) by linarith
  then have "length (filter (\<lambda>e. \<not> partial_entry e) es) \<le> n div chunk_size_bytes"
    using chunk_size_pos by (simp add: less_eq_div_iff_mult_less_eq)
  moreover have "length (filter partial_entry es) \<le> 16"
    using partial_entries_bound [OF coh d S(1,2)] S(3) by linarith
  moreover have "length es = length (filter partial_entry es) + length (filter (\<lambda>e. \<not> partial_entry e) es)"
    by (rule sum_length_filter_compl [symmetric])
  ultimately show ?thesis using capacity_value [OF lim(2)] by linarith
qed

lemma coherent_entries_iff: "coherent L content g \<longleftrightarrow> coherent_entries content (entries L g)"
  by (simp add: coherent_def coherent_entries_def)

text \<open>With at most 16 sources the map still has a free entry after the eviction by bytes.\<close>

lemma room_for_chunk:
  assumes laws: "lru_laws L" and inv: "cache_inv L S content g" and S: "finite S" "card S \<le> 16"
    and s: "s \<in> S" and i: "chunk_in (content s) i"
    and new: "chunk_key s i \<notin> fst ` set (entries L g)"
  defines "bs \<equiv> chunk_bytes (content s) i"
  shows "length (entries L (evict L (ci_limit g) (length bs) g)) < lru_capacity_for (ci_limit g)"
proof -
  define es where "es = entries L (evict L (ci_limit g) (length bs) g)"
  note ev = evict_accounted [OF laws cache_invD(1) [OF inv], of "ci_limit g" "length bs"]
  have sub: "set es \<subseteq> set (entries L g)" using ev(2) by (simp add: shrinks_def es_def)
  show ?thesis
  proof (cases "es = []")
    case True
    then show ?thesis by (simp add: es_def [symmetric] lru_capacity_for_def)
  next
    case False
    let ?e = "(chunk_key s i, \<lparr>cs_bytes = bs, cs_attr = HexViewAttr 0\<rparr>)"
    have "total es + length bs \<le> ci_limit g"
      using ev(1,3) False by (simp add: accounted_def books_def flip: es_def)
    moreover have "coherent_entries content (?e # es)"
      using sub cache_invD(2) [OF inv] i
      by (auto simp: coherent_entries_def coherent_def bs_def)
    moreover have "distinct (map fst (?e # es))"
      using ev(1) new sub by (auto simp: accounted_def es_def)
    moreover have "\<forall>e \<in> set (?e # es). ck_source (fst e) \<in> S"
      using sub cache_invD(3) [OF inv] s by auto
    ultimately have "length (?e # es) \<le> lru_capacity_for (ci_limit g)"
      using S cache_invD(4) [OF inv] by (intro entries_fit [where content = content and S = S]) auto
    then show ?thesis by (simp add: es_def)
  qed
qed

subsection \<open>Steps\<close>

lemma lookup_accounted:
  assumes laws: "lru_laws L" and acc: "accounted L g"
  shows "accounted L (snd (fetch_lookup L k g))" "ci_limit (snd (fetch_lookup L k g)) = ci_limit g"
    "ci_used (snd (fetch_lookup L k g)) = ci_used g"
proof -
  have "accounted L (snd (fetch_lookup L k g)) \<and> ci_limit (snd (fetch_lookup L k g)) = ci_limit g \<and>
    ci_used (snd (fetch_lookup L k g)) = ci_used g"
  proof (cases "map_of (entries L g) k")
    case None
    then show ?thesis using acc by (simp add: fetch_lookup_def lru_get_None [OF laws] accounted_def)
  next
    case (Some v)
    obtain l' where l': "l_get L (ci_chunks g) k = (Some v, l')"
      "l_cap L l' = l_cap L (ci_chunks g)" "l_iter L l' = (k, v) # without k (entries L g)"
      by (rule lru_get_Some [OF laws Some])
    have d: "distinct (map fst (entries L g))" and b: "books (entries L g) g"
      using acc by (simp_all add: accounted_def)
    have "books ((k, v) # without k (entries L g)) g"
      using b books_mset [OF without_mset [OF d Some]] by blast
    moreover have "distinct (map fst ((k, v) # without k (entries L g)))"
      using distinct_without [OF d, of k] without_sub(2) [of k "entries L g"] by auto
    ultimately show ?thesis using acc l' by (simp add: fetch_lookup_def accounted_def)
  qed
  then show "accounted L (snd (fetch_lookup L k g))"
    "ci_limit (snd (fetch_lookup L k g)) = ci_limit g"
    "ci_used (snd (fetch_lookup L k g)) = ci_used g" by blast+
qed

lemma lookup_inv:
  "lru_laws L \<Longrightarrow> cache_inv L S content g \<Longrightarrow> cache_inv L S content (snd (fetch_lookup L k g))"
  using lookup_accounted [of L g k] lookup_coherent [of L content g k] lookup_cases(3) [of L k g]
  by (auto simp: cache_inv_def)

lemma insert_inv:
  assumes laws: "lru_laws L" and inv: "cache_inv L S content g" and S: "finite S" "card S \<le> 16"
    and s: "s \<in> S" and i: "chunk_in (content s) i"
    and new: "chunk_key s i \<notin> fst ` set (entries L g)"
  shows "cache_inv L S content (insert_chunk L (chunk_key s i) (chunk_bytes (content s) i) a g)"
proof -
  note acc = cache_invD(1) [OF inv]
  note ins = insert_chunk_accounted [OF laws acc new chunk_bytes_nonempty [OF i]
      room_for_chunk [OF laws inv S s i new], of a]
  have "set (entries L (evict L (ci_limit g) (length (chunk_bytes (content s) i)) g)) \<subseteq> set (entries L g)"
    using evict_accounted(2) [OF laws acc] by (simp add: shrinks_def)
  then show ?thesis
    using ins insert_chunk_coherent [OF laws cache_invD(2) [OF inv] i, of a] cache_invD(3,4) [OF inv] s
    by (auto simp: cache_inv_def)
qed

lemma pop_key_inv:
  assumes laws: "lru_laws L" and inv: "cache_inv L S content g"
  shows "cache_inv L S content (pop_key L k g)"
proof -
  note pop = pop_key_accounted [OF laws cache_invD(1) [OF inv], of k]
  have "set (entries L (pop_key L k g)) \<subseteq> set (entries L g)" using pop(3) by (simp add: shrinks_def)
  then show ?thesis
    using pop coherent_sub [OF cache_invD(2) [OF inv]] cache_invD(3,4) [OF inv]
    by (auto simp: cache_inv_def shrinks_def)
qed

lemma commit_inv:
  assumes laws: "lru_laws L" and inv: "cache_inv L S content g" and S: "finite S" "card S \<le> 16"
    and s: "s \<in> S" and i: "chunk_in (content s) i"
  shows "cache_inv L S content (snd (fetch_commit L (chunk_key s i) (chunk_bytes (content s) i) a g))"
proof -
  let ?k = "chunk_key s i" and ?g = "g\<lparr>ci_misses := ci_misses g + 1\<rparr>"
  have inv': "cache_inv L S content ?g"
    using inv by (simp add: cache_inv_def accounted_def coherent_def)
  show ?thesis
  proof (cases "map_of (entries L g) ?k")
    case None
    then have "?k \<notin> fst ` set (entries L ?g)" by (simp add: map_of_eq_None_iff)
    then show ?thesis
      using insert_inv [OF laws inv' S s i] lru_get_None [OF laws None]
      by (simp add: fetch_commit_def Let_def)
  next
    case (Some v)
    obtain l' where l': "l_get L (ci_chunks g) ?k = (Some v, l')"
      by (rule lru_get_Some [OF laws Some])
    have "cache_inv L S content (snd (fetch_lookup L ?k ?g))" by (rule lookup_inv [OF laws inv'])
    then have "cache_inv L S content (?g\<lparr>ci_chunks := l'\<rparr>)"
      using l' by (simp add: fetch_lookup_def cache_inv_def accounted_def coherent_def books_def)
    then show ?thesis using l' by (simp add: fetch_commit_def Let_def)
  qed
qed

lemma store_inv:
  assumes laws: "lru_laws L" and inv: "cache_inv L S content g" and S: "finite S" "card S \<le> 16"
    and s: "s \<in> S" and i: "chunk_in (content s) i"
  shows "cache_inv L S content (store_chunk L (chunk_key s i) (chunk_bytes (content s) i) a g)"
  unfolding store_chunk_def
  using pop_key_sub [OF laws, of "chunk_key s i" g] without_sub(2) [of "chunk_key s i" "entries L g"]
  by (intro insert_inv [OF laws pop_key_inv [OF laws inv] S s i]) auto

lemma set_limit_inv:
  assumes laws: "lru_laws L" and inv: "cache_inv L S content g" and S: "finite S" "card S \<le> 16"
    and n: "n < 2 ^ 64"
  shows "cache_inv L S content (cache_set_limit L n g)" "ci_used (cache_set_limit L n g) \<le> n"
proof -
  define g0 where "g0 = g\<lparr>ci_limit := n\<rparr>"
  define g1 where "g1 = evict L n 0 g0"
  have ex: "exact L g0" using cache_invD(1) [OF inv] by (simp add: accounted_exact exact_def g0_def)
  note ev = evict_exact [OF laws ex, of n 0, folded g1_def]
  have sub: "set (entries L g1) \<subseteq> set (entries L g)" and lim: "ci_limit g1 = n"
    using ev(2) by (simp_all add: shrinks_def g0_def)
  have coh: "coherent L content g1" by (rule coherent_sub [OF cache_invD(2) [OF inv] sub])
  have src: "\<forall>e \<in> set (entries L g1). ck_source (fst e) \<in> S" using sub cache_invD(3) [OF inv] by auto
  have used: "ci_used g1 \<le> n" using ev(1,3) by (auto simp: exact_def books_def)
  have "length (entries L g1) \<le> lru_capacity_for n"
    using ev(1) used
    by (intro entries_fit [OF coh [unfolded coherent_entries_iff] _ src S _ n])
      (simp_all add: exact_def books_def)
  then have it: "l_iter L (l_resize L (ci_chunks g1) (lru_capacity_for n)) = entries L g1"
    by (simp add: lru_resize [OF laws])
  have run: "cache_set_limit L n g = g1\<lparr>ci_chunks := l_resize L (ci_chunks g1) (lru_capacity_for n)\<rparr>"
    by (simp add: cache_set_limit_def Let_def flip: g0_def g1_def)
  show "cache_inv L S content (cache_set_limit L n g)"
    using ev(1) coh src n lim it
    by (simp add: run cache_inv_def accounted_exact exact_def coherent_def lru_resize(1) [OF laws])
  show "ci_used (cache_set_limit L n g) \<le> n" using used by (simp add: run)
qed

subsection \<open>Every interleaving keeps the books\<close>

interpretation accounts: step_guard L
  "\<lambda>g. lru_laws L \<and> finite S \<and> card S \<le> 16 \<longrightarrow> cache_inv L S content g" content S
  by unfold_locales (auto intro: lookup_inv pop_key_inv commit_inv store_inv set_limit_inv)

lemma cache_reachable_inv:
  assumes laws: "lru_laws L" and S: "finite S" "card S \<le> 16"
    and g: "cache_reachable L content S g"
  shows "cache_inv L S content g"
proof -
  have "cache_inv L S content (bc_inner (byte_cache_new L n))" if "n < 2 ^ 64" for n
    using that cache_new_accounted [OF laws, of n]
    by (simp add: cache_inv_def coherent_def byte_cache_new_def lru_new [OF laws])
  then show ?thesis using accounts.reachable [OF g] laws S by blast
qed

end
