(* ===== verification/CachePeek.thy ===== *)
theory CachePeek
  imports CacheSteps
begin

text \<open>
  Peeking: the bytes and the missing ranges it reports. Refreshing in place. And what happens
  when the entry bound of the underlying map, not the byte budget, is what is full.
\<close>

subsection \<open>Peeking\<close>

definition cached :: "'l lru \<Rightarrow> 'l cache_inner \<Rightarrow> nat \<Rightarrow> nat \<Rightarrow> bool" where
  "cached L g s i \<longleftrightarrow> map_of (entries L g) (chunk_key s i) \<noteq> None"

definition ordered :: "byte_range \<Rightarrow> bool" where
  "ordered r \<longleftrightarrow> br_start r \<le> br_end r"

definition covered :: "byte_range list \<Rightarrow> nat \<Rightarrow> bool" where
  "covered rs x \<longleftrightarrow> (\<exists>r \<in> set rs. br_start r \<le> x \<and> x < br_end r)"

lemma covered_simps [simp]:
  "\<not> covered [] x"
  "covered (rs @ [r]) x \<longleftrightarrow> covered rs x \<or> br_start r \<le> x \<and> x < br_end r"
  by (auto simp: covered_def)

lemma chunk_div_iff:
  "x div chunk_size_bytes = i \<longleftrightarrow> chunk_start_offset i \<le> x \<and> x < chunk_start_offset (Suc i)"
proof
  assume "x div chunk_size_bytes = i"
  then show "chunk_start_offset i \<le> x \<and> x < chunk_start_offset (Suc i)"
    using chunk_split [of x] by simp
next
  assume "chunk_start_offset i \<le> x \<and> x < chunk_start_offset (Suc i)"
  then show "x div chunk_size_bytes = i"
    by (intro div_nat_eqI) (simp_all add: chunk_start_offset_def mult.commute)
qed

lemma push_missing_ok:
  assumes wf: "list_all ordered ms" and le: "cs \<le> ce"
  shows "\<exists>ms'. push_missing ms cs ce = Ok ms' \<and> list_all ordered ms' \<and>
    (\<forall>x. covered ms' x \<longleftrightarrow> covered ms x \<or> cs \<le> x \<and> x < ce)"
proof (cases "ms \<noteq> [] \<and> br_end (last ms) = cs")
  case True
  define ini l where "ini = butlast ms" and "l = last ms"
  have ms: "ms = ini @ [l]" using True by (simp add: ini_def l_def)
  have l: "br_start l \<le> br_end l" "br_end l = cs" "br_start l \<le> ce"
    using wf True le by (simp_all add: ms ordered_def)
  have "push_missing ms cs ce = Ok (ini @ [\<lparr>br_start = br_start l, br_end = ce\<rparr>])"
    using l by (simp add: push_missing_def ms range_new_def)
  moreover have "covered (ini @ [\<lparr>br_start = br_start l, br_end = ce\<rparr>]) x \<longleftrightarrow>
      covered ms x \<or> cs \<le> x \<and> x < ce" for x
    using l le by (auto simp: ms)
  moreover have "list_all ordered (ini @ [\<lparr>br_start = br_start l, br_end = ce\<rparr>])"
    using wf l by (simp add: ms ordered_def)
  ultimately show ?thesis by blast
next
  case False
  then have "push_missing ms cs ce = Ok (ms @ [\<lparr>br_start = cs, br_end = ce\<rparr>])"
    using le by (auto simp: push_missing_def range_new_def)
  then show ?thesis using wf le by (simp add: ordered_def)
qed

text \<open>What has been collected before chunk \<open>i\<close>.\<close>

definition peek_out :: "byte_range \<Rightarrow> bytes \<Rightarrow> (nat \<Rightarrow> bool) \<Rightarrow> nat \<Rightarrow> bytes \<Rightarrow> bool" where
  "peek_out r c hit i out \<longleftrightarrow>
     length out = br_end r - br_start r \<and>
     (\<forall>j < length out. out ! j =
        (if br_start r + j < chunk_start_offset i \<and> hit ((br_start r + j) div chunk_size_bytes)
         then c ! (br_start r + j) else 0))"

definition peek_missing :: "bytes \<Rightarrow> (nat \<Rightarrow> bool) \<Rightarrow> nat \<Rightarrow> nat \<Rightarrow> byte_range list \<Rightarrow> bool" where
  "peek_missing c hit first i ms \<longleftrightarrow>
     list_all ordered ms \<and>
     (\<forall>x. covered ms x \<longleftrightarrow> chunk_start_offset first \<le> x \<and> x < chunk_start_offset i \<and> x < length c \<and>
        \<not> hit (x div chunk_size_bytes))"

lemma peek_out_hit:
  assumes po: "peek_out r c hit i out" and hit: "hit i"
    and r: "br_start r < chunk_start_offset (Suc i)" "chunk_start_offset i < br_end r"
      "br_start r < br_end r" "br_end r \<le> length c"
  defines "ts \<equiv> max (br_start r) (chunk_start_offset i)"
    and "te \<equiv> min (br_end r) (chunk_end_offset i (length c))"
  shows "\<exists>out'. res_bind (slice_res (ts - chunk_start_offset i)
      (ts - chunk_start_offset i + (te - ts)) (chunk_bytes c i))
      (\<lambda>part. copy_into (ts - br_start r) (te - ts) part out) = (Ok out' :: (hex_error, bytes) res) \<and>
    peek_out r c hit (Suc i) out'"
proof -
  let ?o = "chunk_start_offset i" and ?s = "br_start r"
  have len: "length out = br_end r - ?s" using po by (simp add: peek_out_def)
  have tt: "ts \<le> te" "?o \<le> ts" "?s \<le> ts" "te \<le> br_end r" "te \<le> ?o + chunk_size_bytes" "te \<le> length c"
    "te = min (br_end r) (chunk_start_offset (Suc i))"
    using r by (auto simp: ts_def te_def chunk_end_offset_def chunk_start_Suc)
  define part where "part = slice ts te c"
  have lpart: "length part = te - ts" using tt by (simp add: part_def)
  have "slice (ts - ?o) (ts - ?o + (te - ts)) (chunk_bytes c i) = part"
    using tt unfolding chunk_bytes_def part_def by (subst slice_slice) auto
  moreover have "ts - ?o + (te - ts) \<le> length (chunk_bytes c i)"
  proof -
    have "ts - ?o + (te - ts) = te - ?o" "te - ?o \<le> chunk_size_bytes" "te - ?o \<le> length c - ?o"
      using tt(1,2,5,6) by linarith+
    then show ?thesis by (simp add: chunk_bytes_def)
  qed
  moreover have "ts - ?s + (te - ts) \<le> length out" using tt(1-4) len by linarith
  ultimately have run: "res_bind (slice_res (ts - ?o) (ts - ?o + (te - ts)) (chunk_bytes c i))
      (\<lambda>part. copy_into (ts - ?s) (te - ts) part out) =
      (Ok (splice_list (ts - ?s) (te - ts) part out) :: (hex_error, bytes) res)"
    using lpart by simp
  have "splice_list (ts - ?s) (te - ts) part out ! j =
      (if ?s + j < chunk_start_offset (Suc i) \<and> hit ((?s + j) div chunk_size_bytes)
       then c ! (?s + j) else 0)" if j: "j < length out" for j
  proof -
    have nth: "splice_list (ts - ?s) (te - ts) part out ! j =
        (if ts - ?s \<le> j \<and> j < ts - ?s + (te - ts) then part ! (j - (ts - ?s)) else out ! j)"
      using tt len j by (intro splice_list_same_nth [OF lpart]) auto
    show ?thesis
    proof (cases "ts - ?s \<le> j \<and> j < ts - ?s + (te - ts)")
      case True
      then have x: "ts \<le> ?s + j" "?s + j < te" using tt by linarith+
      then have "(?s + j) div chunk_size_bytes = i" using tt by (subst chunk_div_iff) simp
      moreover have "part ! (j - (ts - ?s)) = c ! (?s + j)"
        using x tt by (simp add: part_def add.commute)
      ultimately show ?thesis using True nth x tt hit by simp
    next
      case False
      then have "?s + j < ts \<or> te \<le> ?s + j" using tt by linarith
      then have "?s + j < ?o \<longleftrightarrow> ?s + j < chunk_start_offset (Suc i)"
        using tt j len r by (auto simp: ts_def chunk_start_Suc)
      then show ?thesis using nth False po j by (simp add: peek_out_def)
    qed
  qed
  moreover have "length (splice_list (ts - ?s) (te - ts) part out) = length out"
  proof -
    have "ts - ?s + (te - ts) \<le> length out" using tt(1-4) len by linarith
    then show ?thesis using lpart by simp
  qed
  ultimately have "peek_out r c hit (Suc i) (splice_list (ts - ?s) (te - ts) part out)"
    using len by (simp add: peek_out_def)
  with run show ?thesis by blast
qed

lemma peek_out_miss:
  assumes po: "peek_out r c hit i out" and miss: "\<not> hit i"
  shows "peek_out r c hit (Suc i) out"
  unfolding peek_out_def
proof (intro conjI allI impI)
  show "length out = br_end r - br_start r" using po by (simp add: peek_out_def)
  fix j assume "j < length out"
  then have "out ! j = (if br_start r + j < chunk_start_offset i \<and> hit ((br_start r + j) div chunk_size_bytes)
      then c ! (br_start r + j) else 0)"
    using po by (simp add: peek_out_def)
  moreover have "\<not> hit ((br_start r + j) div chunk_size_bytes)"
    if "\<not> br_start r + j < chunk_start_offset i" "br_start r + j < chunk_start_offset (Suc i)"
    using that miss chunk_div_iff [of "br_start r + j" i] by simp
  ultimately show "out ! j = (if br_start r + j < chunk_start_offset (Suc i) \<and>
      hit ((br_start r + j) div chunk_size_bytes) then c ! (br_start r + j) else 0)"
    by (auto simp: chunk_start_Suc)
qed

lemma peek_missing_hit:
  assumes pm: "peek_missing c hit first i ms" and hit: "hit i"
  shows "peek_missing c hit first (Suc i) ms"
proof -
  have "x < chunk_start_offset (Suc i) \<and> \<not> hit (x div chunk_size_bytes) \<longleftrightarrow>
      x < chunk_start_offset i \<and> \<not> hit (x div chunk_size_bytes)" for x
  proof (cases "x < chunk_start_offset i")
    case True
    then show ?thesis by (simp add: chunk_start_Suc)
  next
    case False
    then have "hit (x div chunk_size_bytes)" if "x < chunk_start_offset (Suc i)"
      using that hit chunk_div_iff [of x i] by simp
    then show ?thesis using False by blast
  qed
  then show ?thesis using pm unfolding peek_missing_def by blast
qed

lemma peek_missing_miss:
  assumes pm: "peek_missing c hit first i ms" and miss: "\<not> hit i" and i: "first \<le> i" "chunk_in c i"
  shows "\<exists>ms'. push_missing ms (chunk_start_offset i) (chunk_end_offset i (length c)) = Ok ms' \<and>
    peek_missing c hit first (Suc i) ms'"
proof -
  let ?o = "chunk_start_offset i"
  have "?o \<le> chunk_end_offset i (length c)" using i(2) by (simp add: chunk_end_offset_def chunk_in_def)
  then obtain ms' where ms': "push_missing ms ?o (chunk_end_offset i (length c)) = Ok ms'"
    "list_all ordered ms'"
    "\<And>x. covered ms' x \<longleftrightarrow> covered ms x \<or> ?o \<le> x \<and> x < chunk_end_offset i (length c)"
    using push_missing_ok [of ms ?o "chunk_end_offset i (length c)"] pm by (auto simp: peek_missing_def)
  have "chunk_start_offset first \<le> ?o" using i(1) by (simp add: chunk_start_offset_def)
  moreover have "\<not> hit (x div chunk_size_bytes)" if "?o \<le> x" "x < chunk_start_offset (Suc i)" for x
    using that miss chunk_div_iff [of x i] by simp
  ultimately have "covered ms' x \<longleftrightarrow> chunk_start_offset first \<le> x \<and> x < chunk_start_offset (Suc i) \<and>
      x < length c \<and> \<not> hit (x div chunk_size_bytes)" for x
    using pm by (cases "x < ?o") (auto simp: ms'(3) peek_missing_def chunk_end_offset_def chunk_start_Suc)
  then show ?thesis using ms'(1,2) by (auto simp: peek_missing_def)
qed

lemma peek_loop_ok:
  assumes laws: "lru_laws L"
    and r: "br_start r < br_end r" "br_end r \<le> length (content s)"
    and m: "m = Suc ((br_end r - 1) div chunk_size_bytes)" and hit: "hit = cached L g0 s"
  shows "first \<le> i \<Longrightarrow> i \<le> m \<Longrightarrow> coherent L content g \<Longrightarrow> cached L g s = hit \<Longrightarrow>
    br_start r < chunk_start_offset (Suc i) \<Longrightarrow>
    peek_out r (content s) hit i out \<Longrightarrow> peek_missing (content s) hit first i ms \<Longrightarrow>
    \<exists>out' ms' g'. peek_loop L r s (length (content s)) [i ..< m] out ms g = (Ok (out', ms'), g') \<and>
      coherent L content g' \<and> peek_out r (content s) hit m out' \<and>
      peek_missing (content s) hit first m ms'"
proof (induction "m - i" arbitrary: i out ms g)
  case 0
  then show ?case by simp
next
  case (Suc n)
  let ?c = "content s" and ?o = "chunk_start_offset i"
  have im: "i < m" using Suc.hyps(2) by linarith
  then have oe: "?o < br_end r" using r(1) by (intro chunk_arith) (simp_all add: m)
  then have i: "chunk_in ?c i" using r(2) by (simp add: chunk_in_def)
  obtain found g1 where look: "fetch_lookup L (chunk_key s i) g = (found, g1)"
    by (cases "fetch_lookup L (chunk_key s i) g")
  have found: "found = map_option cs_bytes (map_of (entries L g) (chunk_key s i))"
    and same: "map_of (entries L g1) = map_of (entries L g)"
    using lookup_facts [OF laws, of "chunk_key s i" g] look by simp_all
  have coh1: "coherent L content g1"
    using lookup_coherent [OF laws Suc.prems(3), of "chunk_key s i"] look by simp
  have c1: "cached L g1 s = hit" using Suc.prems(4) same by (simp add: cached_def fun_eq_iff)
  have b: "br_start r < chunk_start_offset (Suc (Suc i))"
    using Suc.prems(5) by (simp add: chunk_start_Suc)
  note next_step = Suc.hyps(1) [of "Suc i" g1, OF _ _ _ coh1 c1 b]
  show ?case
  proof (cases found)
    case (Some bs)
    then obtain v where v: "map_of (entries L g) (chunk_key s i) = Some v" "bs = cs_bytes v"
      using found by auto
    then have bs: "bs = chunk_bytes ?c i" and h: "hit i"
      using coherentD(1) [OF Suc.prems(3)] Suc.prems(4) by (auto simp: cached_def)
    obtain out' where run: "res_bind (slice_res (max (br_start r) ?o - ?o)
        (max (br_start r) ?o - ?o + (min (br_end r) (chunk_end_offset i (length ?c)) - max (br_start r) ?o)) bs)
        (\<lambda>part. copy_into (max (br_start r) ?o - br_start r)
          (min (br_end r) (chunk_end_offset i (length ?c)) - max (br_start r) ?o) part out) =
        (Ok out' :: (hex_error, bytes) res)" and po: "peek_out r ?c hit (Suc i) out'"
      using peek_out_hit [where hit = hit, OF Suc.prems(6) h Suc.prems(5) oe r] unfolding bs by blast
    have "peek_loop L r s (length ?c) [i ..< m] out ms g =
        peek_loop L r s (length ?c) [Suc i ..< m] out' ms g1"
      unfolding upt_conv_Cons [OF im] peek_loop.simps Let_def look Some prod.case option.case run
        res.case ..
    then show ?thesis
      using next_step [of out' ms] po peek_missing_hit [OF Suc.prems(7) h] Suc.prems(1) Suc.hyps(2) im
      by simp
  next
    case None
    then have h: "\<not> hit i" using found Suc.prems(4) by (auto simp: cached_def)
    obtain ms' where run: "push_missing ms ?o (chunk_end_offset i (length ?c)) = Ok ms'"
      and pm: "peek_missing ?c hit first (Suc i) ms'"
      using peek_missing_miss [where hit = hit, OF Suc.prems(7) h Suc.prems(1) i] by blast
    have "peek_loop L r s (length ?c) [i ..< m] out ms g =
        peek_loop L r s (length ?c) [Suc i ..< m] out ms' g1"
      unfolding upt_conv_Cons [OF im] peek_loop.simps Let_def look None prod.case option.case run
        res.case ..
    then show ?thesis
      using next_step [of out ms'] pm peek_out_miss [where hit = hit, OF Suc.prems(6) h] Suc.prems(1)
        Suc.hyps(2) im
      by simp
  qed
qed

lemma peek_ok:
  assumes laws: "lru_laws L" and coh: "coherent L content g"
    and r: "br_start r < br_end r" "br_end r \<le> length (content s)"
  shows "\<exists>out ms g'. cache_peek L r s (length (content s)) g = (Ok (out, ms), g') \<and>
    coherent L content g' \<and> length out = br_end r - br_start r \<and>
    (\<forall>j < length out. out ! j = (if cached L g s ((br_start r + j) div chunk_size_bytes)
       then content s ! (br_start r + j) else 0)) \<and>
    (\<forall>x. br_start r \<le> x \<and> x < br_end r \<longrightarrow>
       (covered ms x \<longleftrightarrow> \<not> cached L g s (x div chunk_size_bytes)))"
proof -
  let ?f = "br_start r div chunk_size_bytes" and ?m = "Suc ((br_end r - 1) div chunk_size_bytes)"
  let ?hit = "cached L g s"
  have b: "chunk_start_offset ?f \<le> br_start r" "br_start r < chunk_start_offset (Suc ?f)"
    by (rule chunk_split)+
  have e: "br_end r \<le> chunk_start_offset ?m" using chunk_split(2) [of "br_end r - 1"] r(1) by linarith
  have fm: "?f \<le> ?m" using r(1) by (intro le_SucI div_le_mono) simp
  have "peek_out r (content s) ?hit ?f (replicate (br_end r - br_start r) 0)"
    using b(1) by (simp add: peek_out_def)
  moreover have "peek_missing (content s) ?hit ?f ?f []" by (simp add: peek_missing_def)
  ultimately obtain out ms g' where run:
    "peek_loop L r s (length (content s)) [?f ..< ?m] (replicate (br_end r - br_start r) 0) [] g =
       (Ok (out, ms), g')" "coherent L content g'"
    "peek_out r (content s) ?hit ?m out" "peek_missing (content s) ?hit ?f ?m ms"
    using peek_loop_ok [where content = content, OF laws r refl refl order_refl fm coh refl b(2)] by blast
  have "cache_peek L r s (length (content s)) g = (Ok (out, ms), g')"
    using r run(1) by (simp add: cache_peek_def range_is_empty_def chunks_of_def)
  moreover have "length out = br_end r - br_start r" using run(3) by (simp add: peek_out_def)
  moreover have "out ! j = (if ?hit ((br_start r + j) div chunk_size_bytes)
       then content s ! (br_start r + j) else 0)" if "j < length out" for j
  proof -
    have "br_start r + j < chunk_start_offset ?m"
      using that e \<open>length out = br_end r - br_start r\<close> by linarith
    then show ?thesis using run(3) that by (simp add: peek_out_def)
  qed
  moreover have "covered ms x \<longleftrightarrow> \<not> ?hit (x div chunk_size_bytes)"
    if "br_start r \<le> x" "x < br_end r" for x
    using run(4) that b(1) e r(2) by (simp add: peek_missing_def)
  ultimately show ?thesis using run(2) by blast
qed

subsection \<open>Refreshing in place\<close>

text \<open>
  After a refresh every cached chunk of the range holds the new bytes, and no other chunk changed
  (some may have been evicted).
\<close>

definition refreshed ::
  "'l lru \<Rightarrow> nat \<Rightarrow> bytes \<Rightarrow> nat set \<Rightarrow> 'l cache_inner \<Rightarrow> 'l cache_inner \<Rightarrow> bool" where
  "refreshed L s c is g g' \<longleftrightarrow>
     (\<forall>(k, slot) \<in> set (entries L g').
        if ck_source k = s \<and> ck_chunk k \<in> is then cs_bytes slot = chunk_bytes c (ck_chunk k)
        else (k, slot) \<in> set (entries L g))"

lemma store_chunk_entries:
  assumes laws: "lru_laws L"
  shows "set (entries L (store_chunk L k bs a g)) \<subseteq>
    {(k, \<lparr>cs_bytes = bs, cs_attr = a\<rparr>)} \<union> {e \<in> set (entries L g). fst e \<noteq> k}"
proof -
  let ?g = "pop_key L k g"
  have "set (entries L (evict L (ci_limit ?g) (length bs) ?g)) \<subseteq> set (without k (entries L g))"
    using evict_loop_sub [OF laws] by (simp only: evict_def pop_key_sub [OF laws, symmetric])
  moreover have "set (entries L (insert_chunk L k bs a ?g)) \<subseteq>
      {(k, \<lparr>cs_bytes = bs, cs_attr = a\<rparr>)} \<union> set (entries L (evict L (ci_limit ?g) (length bs) ?g))"
    by (auto simp: insert_chunk_def Let_def lru_put [OF laws] without_def dest!: in_set_takeD)
  ultimately show ?thesis unfolding store_chunk_def by (auto simp: without_def)
qed

lemma refetch_loop_ok:
  assumes laws: "lru_laws L" and st: "stores inner c"
  shows "\<forall>i \<in> set is. chunk_in c i \<Longrightarrow>
    \<exists>g'. refetch_loop L (\<lambda>_ g. g) s a inner (length c) is g = (Ok (), g') \<and>
      refreshed L s c (set is) g g'"
proof (induction "is" arbitrary: g)
  case Nil
  then show ?case by (auto simp: refreshed_def)
next
  case (Cons i "is")
  let ?k = "chunk_key s i" and ?g = "store_chunk L (chunk_key s i) (chunk_bytes c i) a g"
  have run: "refetch_loop L (\<lambda>_ g. g) s a inner (length c) (i # is) g =
      refetch_loop L (\<lambda>_ g. g) s a inner (length c) is ?g"
    using Cons.prems by (simp add: chunk_read [OF st])
  obtain g' where g': "refetch_loop L (\<lambda>_ g. g) s a inner (length c) is ?g = (Ok (), g')"
    "refreshed L s c (set is) ?g g'"
    using Cons.IH [of ?g] Cons.prems by auto
  have "refreshed L s c (set (i # is)) g g'"
    unfolding refreshed_def
  proof (intro ballI, clarify)
    fix k slot assume e: "(k, slot) \<in> set (entries L g')"
    show "if ck_source k = s \<and> ck_chunk k \<in> set (i # is) then cs_bytes slot = chunk_bytes c (ck_chunk k)
        else (k, slot) \<in> set (entries L g)"
    proof (cases "ck_source k = s \<and> ck_chunk k \<in> set is")
      case True
      then show ?thesis using g'(2) e by (auto simp: refreshed_def)
    next
      case False
      then have "(k, slot) \<in> set (entries L ?g)" using g'(2) e by (auto simp: refreshed_def)
      then have "(k, slot) = (?k, \<lparr>cs_bytes = chunk_bytes c i, cs_attr = a\<rparr>) \<or>
          (k, slot) \<in> set (entries L g) \<and> k \<noteq> ?k"
        using store_chunk_entries [OF laws, of ?k "chunk_bytes c i" a g] by auto
      moreover have "k = ?k" if "ck_source k = s" "ck_chunk k = i"
        using that by (simp add: chunk_key.equality)
      ultimately show ?thesis using False by auto
    qed
  qed
  then show ?case using run g'(1) by auto
qed

lemma refetch_ok:
  assumes laws: "lru_laws L" and st: "stores inner c"
    and r: "br_start r < br_end r" "br_end r \<le> length c"
  shows "\<exists>g'. refetch_with L (\<lambda>_ g. g) r s a inner g = (Ok (), g') \<and>
    refreshed L s c (set (chunks_of r)) g g'"
proof -
  have "chunk_in c i" if "i \<in> set (chunks_of r)" for i
  proof -
    have "chunk_start_offset i < br_end r"
      using that r(1) by (intro chunk_arith) (auto simp: chunks_of_def)
    then show ?thesis using r(2) by (simp add: chunk_in_def)
  qed
  then show ?thesis
    using refetch_loop_ok [OF laws st, of "chunks_of r" s a g] r byte_store.len_content [OF st]
    by (simp add: refetch_with_def range_is_empty_def)
qed

subsection \<open>When the entry bound is what is full\<close>

text \<open>
  The map drops its oldest entry on its own, and the books keep counting its bytes.
\<close>

lemma silent_eviction:
  assumes laws: "lru_laws L" and full: "length (entries L g) = l_cap L (ci_chunks g)" "entries L g \<noteq> []"
    and exact: "ci_used g = total (entries L g)"
    and new: "k \<notin> fst ` set (entries L g)" and fits: "ci_used g + length bs \<le> ci_limit g"
  shows "ci_used (insert_chunk L k bs a g) =
    total (entries L (insert_chunk L k bs a g)) + length (cs_bytes (snd (last (entries L g))))"
proof -
  obtain n where n: "length (entries L g) = Suc n" using full(2) by (cases "entries L g") auto
  have ev: "evict L (ci_limit g) (length bs) g = g" using fits by (simp add: evict_def n)
  have wo: "without k (entries L g) = entries L g"
    using new by (intro without_notin) (simp add: map_of_eq_None_iff)
  have "take (Suc n) ((k, \<lparr>cs_bytes = bs, cs_attr = a\<rparr>) # entries L g) =
      (k, \<lparr>cs_bytes = bs, cs_attr = a\<rparr>) # butlast (entries L g)"
    using n by (simp add: butlast_conv_take)
  moreover have "l_cap L (ci_chunks g) = Suc n" using full(1) n by simp
  ultimately have e: "entries L (insert_chunk L k bs a g) =
      (k, \<lparr>cs_bytes = bs, cs_attr = a\<rparr>) # butlast (entries L g)"
    by (simp only: insert_chunk_def Let_def ev lru_put [OF laws] wo cache_inner.simps)
       (simp add: lru_put [OF laws] wo)
  have "total (entries L g) = total (butlast (entries L g) @ [last (entries L g)])"
    using full(2) by simp
  then have "total (entries L g) =
      total (butlast (entries L g)) + length (cs_bytes (snd (last (entries L g))))"
    by (simp only: total_simps)
  then show ?thesis
    unfolding e using exact by (simp add: insert_chunk_def Let_def ev)
qed

subsection \<open>A concrete map\<close>

text \<open>Lists with the most recently used entry first, and their capacity: the laws can hold.\<close>

type_synonym list_lru = "(chunk_key \<times> chunk_slot) list \<times> nat"

definition lru_list :: "list_lru lru" where
  "lru_list =
     \<lparr>l_new = (\<lambda>n. ([], n)),
      l_iter = fst,
      l_cap = snd,
      l_len = (\<lambda>l. length (fst l)),
      l_get = (\<lambda>l k. case map_of (fst l) k of None \<Rightarrow> (None, l)
         | Some v \<Rightarrow> (Some v, ((k, v) # without k (fst l), snd l))),
      l_put = (\<lambda>l k v. (take (snd l) ((k, v) # without k (fst l)), snd l)),
      l_pop = (\<lambda>l k. (map_of (fst l) k, (without k (fst l), snd l))),
      l_pop_lru = (\<lambda>l. if fst l = [] then (None, l)
         else (Some (last (fst l)), (butlast (fst l), snd l))),
      l_resize = (\<lambda>l n. (take n (fst l), n))\<rparr>"

lemma lru_list_laws: "lru_laws lru_list"
  by (simp add: lru_laws_def law_lru_new_def law_lru_get_def law_lru_put_def law_lru_pop_def
      law_lru_pop_lru_def law_lru_resize_def lru_list_def split: option.split)

end
