(* ===== verification/CacheProps.thy ===== *)
theory CacheProps
  imports CachePeek
begin

text \<open>
  The properties of the byte cache. The byte budget is one more predicate the lock protects: a
  chunk that does not fit is held alone.
\<close>

subsection \<open>The budget\<close>














subsection \<open>A sample cache\<close>

text \<open>One source of six bytes, read once into an empty cache.\<close>

definition sample_file :: "nat \<Rightarrow> bytes" where
  "sample_file s = [0x00, 0x11, 0x22, 0x33, 0x44, 0x55]"

definition sample_cache :: "list_lru cache_inner" where
  "sample_cache = snd (fetch_commit lru_list (chunk_key 1 0) (chunk_bytes (sample_file 1) 0)
     (HexViewAttr 1) (bc_inner (byte_cache_new lru_list 1000)))"

lemma sample_chunk: "chunk_in (sample_file s) 0" "chunk_bytes (sample_file s) 0 = sample_file s"
  by (simp_all add: chunk_in_def chunk_start_offset_def chunk_bytes_def slice_def sample_file_def
      chunk_size_bytes_def)

lemma sample_cache_reachable: "cache_reachable lru_list sample_file {1} sample_cache"
  unfolding sample_cache_def
  by (rule cache_reachable.Step [OF cache_reachable.Start cache_step.Commit]) (simp_all add: sample_chunk)

lemma sample_cache_entries:
  "entries lru_list sample_cache =
     [(chunk_key 1 0, \<lparr>cs_bytes = sample_file 1, cs_attr = HexViewAttr 1\<rparr>)]"
  by (simp add: sample_cache_def fetch_commit_def sample_chunk byte_cache_new_def Let_def
      lru_list_def insert_chunk_def evict_def lru_capacity_for_def sat_add64_def u64_max_def
      chunk_size_bytes_def without_def)

lemma sample_cache_coherent: "coherent lru_list sample_file sample_cache"
  using cache_invD(2) [OF cache_reachable_inv [OF lru_list_laws _ _ sample_cache_reachable]] by simp

subsection \<open>Properties\<close>

text \<open>C10: A read through the cache delivers the bytes of its source, or the bounds error, whatever
  the other threads do to the cache between its critical sections: look up, insert, refresh, drop,
  invalidate or change the limit.\<close>

theorem cached_read_delivers:
  assumes "lru_laws L" "stores (cd_inner s) (content (cd_source_id s))"
    and "\<forall>i j g. (cache_step L content S)\<^sup>*\<^sup>* g (env i j g)"
    and "coherent L content g" "range_wf r"
  shows "\<exists>g'. cached_read L env r s g =
    (if br_end r \<le> length (content (cd_source_id s))
     then Ok (slice (br_start r) (br_end r) (content (cd_source_id s)))
     else Err (OutOfBounds r (length (content (cd_source_id s)))), g') \<and> coherent L content g'"
proof (cases "br_end r \<le> length (content (cd_source_id s))")
  case True
  have "benign L content (env i j)" for i j
    using coherence.steps [of L content S] assms(1,3) unfolding benign_def by blast
  from read_with_ok [OF assms(1,2) this assms(4,5) True] show ?thesis
    using True by (simp add: cached_read_def)
next
  case False
  then show ?thesis
    using assms(4) byte_store.len_content [OF assms(2)] by (simp add: cached_read_def read_with_def)
qed

theorem cached_read_delivers_witness:
  "\<exists>g'. cached_read lru_list (\<lambda>i j g. cache_drop_source lru_list 1 g) \<lparr>br_start = 1, br_end = 3\<rparr>
     (cached_new 1 (HexViewAttr 1) (memory_source (sample_file 1))) sample_cache =
     (Ok [0x11, 0x22], g')"
proof -
  have "\<forall>i j g. (cache_step lru_list sample_file {1})\<^sup>*\<^sup>* g (cache_drop_source lru_list 1 g)"
    by (auto intro: cache_step.Drop)
  then show ?thesis
    using cached_read_delivers [OF lru_list_laws _ _ sample_cache_coherent,
        of "cached_new 1 (HexViewAttr 1) (memory_source (sample_file 1))" "{1}"
          "\<lambda>i j g. cache_drop_source lru_list 1 g" "\<lparr>br_start = 1, br_end = 3\<rparr>"] memory_stores
    by (auto simp: cached_new_def range_wf_def sample_file_def slice_def)
qed

text \<open>C11: Under every interleaving of critical sections of up to 16 sources the counters are exact:
  the used bytes are those of the chunks held, and the table by attribution has for each view and
  source the bytes of its chunks, and no entry for the others.\<close>

theorem cache_counters_exact:
  assumes "lru_laws L" "finite S" "card S \<le> 16" "cache_reachable L content S g"
  shows "ci_used g = total (entries L g) \<and>
    map_of (ci_attr g) = (\<lambda>b. some_pos (total (filter (bucket b) (entries L g)))) \<and>
    st_used_bytes (byte_cache_stats L g) = ci_used g \<and> st_chunk_count (byte_cache_stats L g) = length (entries L g)"
  using cache_invD(1) [OF cache_reachable_inv [OF assms]] assms(1)
  by (simp add: accounted_def books_def byte_cache_stats_def lru_laws_def law_lru_new_def)

theorem cache_counters_exact_witness:
  "ci_used sample_cache = 6 \<and> map_of (ci_attr sample_cache) (HexViewAttr 1, 1) = Some 6"
  using cache_counters_exact [OF lru_list_laws _ _ sample_cache_reachable]
  by (simp add: sample_cache_entries sample_file_def bucket_def some_pos_def)



text \<open>C13: A read of a streaming source never waits: it answers at once with the cached bytes and
  zeros for the rest, and what it adds to the demand queue covers exactly the positions of the
  range that were zero-filled.\<close>

theorem streaming_read_reports:
  assumes "lru_laws L" "coherent L content g" "ss_len s = length (content (ss_source_id s))"
    and "br_start r < br_end r" "br_end r \<le> ss_len s"
  shows "\<exists>out s' g'. streaming_read L r s g = (Ok out, s', g') \<and> coherent L content g' \<and>
    length out = br_end r - br_start r \<and>
    (\<forall>x. br_start r \<le> x \<and> x < br_end r \<longrightarrow>
      out ! (x - br_start r) = (if cached L g (ss_source_id s) (x div chunk_size_bytes)
        then content (ss_source_id s) ! x else 0) \<and>
      (covered (ss_demand s') x \<longleftrightarrow>
        covered (ss_demand s) x \<or> \<not> cached L g (ss_source_id s) (x div chunk_size_bytes)))"
proof -
  let ?id = "ss_source_id s"
  obtain out ms g' where p: "cache_peek L r ?id (ss_len s) g = (Ok (out, ms), g')"
    "coherent L content g'" "length out = br_end r - br_start r"
    "\<forall>j < length out. out ! j = (if cached L g ?id ((br_start r + j) div chunk_size_bytes)
       then content ?id ! (br_start r + j) else 0)"
    "\<forall>x. br_start r \<le> x \<and> x < br_end r \<longrightarrow>
       (covered ms x \<longleftrightarrow> \<not> cached L g ?id (x div chunk_size_bytes))"
    using peek_ok [OF assms(1,2,4), of ?id] assms(3,5) by auto
  define s' where "s' = (if ms \<noteq> [] then s\<lparr>ss_demand := ss_demand s @ ms\<rparr> else s)"
  have run: "streaming_read L r s g = (Ok out, s', g')"
    using p(1) by (simp add: streaming_read_def s'_def)
  have dem: "covered (ss_demand s') x \<longleftrightarrow> covered (ss_demand s) x \<or> covered ms x" for x
    by (auto simp: s'_def covered_def)
  have "out ! (x - br_start r) = (if cached L g ?id (x div chunk_size_bytes) then content ?id ! x else 0)"
    if "br_start r \<le> x" "x < br_end r" for x
    using p(4) [rule_format, of "x - br_start r"] p(3) that by simp
  then show ?thesis using run p(2,3,5) dem by blast
qed

theorem streaming_read_reports_witness:
  "\<exists>out s' g'. streaming_read lru_list \<lparr>br_start = 0, br_end = 3\<rparr>
       \<lparr>ss_source_id = 2, ss_attribution = HexViewAttr 1, ss_inner = memory_source (sample_file 2),
        ss_len = 6, ss_demand = []\<rparr> sample_cache = (Ok out, s', g') \<and>
     length out = 3 \<and> out ! 0 = 0 \<and> covered (ss_demand s') 0"
proof -
  let ?s = "\<lparr>ss_source_id = 2, ss_attribution = HexViewAttr 1, ss_inner = memory_source (sample_file 2),
    ss_len = 6, ss_demand = []\<rparr>"
  have miss: "\<not> cached lru_list sample_cache 2 0"
    by (simp add: cached_def sample_cache_entries chunk_key_def)
  have len: "ss_len ?s = length (sample_file (ss_source_id ?s))" by (simp add: sample_file_def)
  have r: "br_start \<lparr>br_start = 0, br_end = 3\<rparr> < br_end \<lparr>br_start = 0, br_end = 3\<rparr>"
    "br_end \<lparr>br_start = 0, br_end = 3\<rparr> \<le> ss_len ?s" by simp_all
  show ?thesis
    by (insert streaming_read_reports [OF lru_list_laws sample_cache_coherent len r] miss,
        elim exE conjE, intro exI conjI, assumption) (auto dest: spec [of _ 0])
qed

text \<open>Refetching a range reads its chunks again and replaces what the cache held of them: every
  chunk of the range that is cached afterwards holds the new bytes, and every other chunk that is
  cached is one that was there before.\<close>

theorem refetch_replaces:
  assumes "lru_laws L" "stores inner c" "br_start r < br_end r" "br_end r \<le> length c"
  shows "\<exists>g'. refetch_with L (\<lambda>_ g. g) r s a inner g = (Ok (), g') \<and>
    (\<forall>(k, slot) \<in> set (entries L g').
      if ck_source k = s \<and> ck_chunk k \<in> set (chunks_of r)
      then cs_bytes slot = chunk_bytes c (ck_chunk k) else (k, slot) \<in> set (entries L g))"
  using refetch_ok [OF assms, of s a g] unfolding refreshed_def .

theorem refetch_replaces_witness:
  "\<exists>g'. refetch_with lru_list (\<lambda>_ g. g) \<lparr>br_start = 0, br_end = 2\<rparr> 1 (HexViewAttr 1)
       (memory_source [0xAA, 0xBB]) sample_cache = (Ok (), g') \<and>
     (\<forall>(k, slot) \<in> set (entries lru_list g'). k = chunk_key 1 0 \<longrightarrow>
        cs_bytes slot = chunk_bytes [0xAA, 0xBB] 0)"
proof -
  obtain g' where "refetch_with lru_list (\<lambda>_ g. g) \<lparr>br_start = 0, br_end = 2\<rparr> 1 (HexViewAttr 1)
      (memory_source [0xAA, 0xBB]) sample_cache = (Ok (), g')"
    and all: "\<forall>(k, slot) \<in> set (entries lru_list g').
      if ck_source k = 1 \<and> ck_chunk k \<in> set (chunks_of \<lparr>br_start = 0, br_end = 2\<rparr>)
      then cs_bytes slot = chunk_bytes [0xAA, 0xBB] (ck_chunk k)
      else (k, slot) \<in> set (entries lru_list sample_cache)"
    using refetch_replaces [OF lru_list_laws memory_stores, of "\<lparr>br_start = 0, br_end = 2\<rparr>" "[0xAA, 0xBB]"
        1 "HexViewAttr 1" sample_cache] by auto
  moreover have "0 \<in> set (chunks_of \<lparr>br_start = 0, br_end = 2\<rparr>)" by (auto simp: chunks_of_def)
  ultimately show ?thesis by fastforce
qed

text \<open>When the map is at its entry bound, not at the byte budget, an insertion makes it drop
  its oldest chunk unseen: the used bytes stay too large by that chunk from then on.\<close>

theorem entry_bound_overcounts:
  assumes "lru_laws L" "accounted L g" "length (entries L g) = l_cap L (ci_chunks g)"
    and "entries L g \<noteq> []" "k \<notin> fst ` set (entries L g)" "ci_used g + length bs \<le> ci_limit g"
  shows "ci_used (insert_chunk L k bs a g) =
    total (entries L (insert_chunk L k bs a g)) + length (cs_bytes (snd (last (entries L g))))"
  using silent_eviction [OF assms(1,3,4) _ assms(5,6)] assms(2) by (simp add: accounted_def books_def)

definition crowded_cache :: "list_lru cache_inner" where
  "crowded_cache = \<lparr>ci_limit = 1000, ci_used = 16,
     ci_chunks = (map (\<lambda>s. (chunk_key s 0, \<lparr>cs_bytes = [0x7F], cs_attr = HexViewAttr 1\<rparr>)) [1 ..< 17], 16),
     ci_attr = map (\<lambda>s. ((HexViewAttr 1, s), 1)) [1 ..< 17], ci_hits = 0, ci_misses = 16\<rparr>"

lemma one_byte_chunks:
  "distinct ss \<Longrightarrow> map_of (map (\<lambda>s. ((att, s), 1)) ss) b =
     some_pos (total (filter (bucket b) (map (\<lambda>s. (chunk_key s 0, \<lparr>cs_bytes = [x], cs_attr = att\<rparr>)) ss))) \<and>
   total (map (\<lambda>s. (chunk_key s 0, \<lparr>cs_bytes = [x], cs_attr = att\<rparr>)) ss) = length ss"
proof (induction ss)
  case Nil
  then show ?case by (simp add: some_pos_def)
next
  case (Cons s ss)
  then have none: "filter (bucket (att, s)) (map (\<lambda>s. (chunk_key s 0, \<lparr>cs_bytes = [x], cs_attr = att\<rparr>)) ss) = []"
    by (auto simp: filter_empty_conv bucket_def)
  have hd: "bucket b' (chunk_key s 0, \<lparr>cs_bytes = [x], cs_attr = att\<rparr>) \<longleftrightarrow> b' = (att, s)" for b'
    by (cases b') (auto simp: bucket_def)
  show ?case using Cons none by (cases "b = (att, s)") (auto simp: hd some_pos_def)
qed

lemma crowded_accounted: "accounted lru_list crowded_cache"
proof -
  have e: "entries lru_list crowded_cache =
      map (\<lambda>s. (chunk_key s 0, \<lparr>cs_bytes = [0x7F], cs_attr = HexViewAttr 1\<rparr>)) [1 ..< 17]"
    by (simp only: crowded_cache_def lru_list_def lru.simps cache_inner.simps fst_conv)
  have "distinct (map fst (entries lru_list crowded_cache))"
    unfolding e by (simp only: map_map o_def fst_conv distinct_map distinct_upt) (simp add: inj_on_def)
  moreover have "books (entries lru_list crowded_cache) crowded_cache"
    using one_byte_chunks [where ss = "[1 ..< 17]" and att = "HexViewAttr 1" and x = "0x7F"] unfolding e books_def
    by (simp del: upt_rec_numeral add: crowded_cache_def fun_eq_iff)
  ultimately show ?thesis
    by (simp add: accounted_def) (simp add: crowded_cache_def lru_list_def lru_capacity_for_def
        sat_add64_def u64_max_def chunk_size_bytes_def)
qed

theorem entry_bound_overcounts_witness:
  "ci_used (insert_chunk lru_list (chunk_key 17 0) [0x7F] (HexViewAttr 1) crowded_cache) =
   total (entries lru_list (insert_chunk lru_list (chunk_key 17 0) [0x7F] (HexViewAttr 1) crowded_cache)) + 1"
proof -
  have e: "entries lru_list crowded_cache =
      map (\<lambda>s. (chunk_key s 0, \<lparr>cs_bytes = [0x7F], cs_attr = HexViewAttr 1\<rparr>)) [1 ..< 17]"
    by (simp only: crowded_cache_def lru_list_def lru.simps cache_inner.simps fst_conv)
  have "length (entries lru_list crowded_cache) = l_cap lru_list (ci_chunks crowded_cache)"
    "entries lru_list crowded_cache \<noteq> []"
    unfolding e by (simp_all add: crowded_cache_def lru_list_def)
  moreover have "chunk_key 17 0 \<notin> fst ` set (entries lru_list crowded_cache)" unfolding e by auto
  moreover have "length (cs_bytes (snd (last (entries lru_list crowded_cache)))) = 1"
    unfolding e by (simp add: last_map)
  ultimately show ?thesis
    using entry_bound_overcounts [OF lru_list_laws crowded_accounted, of "chunk_key 17 0" "[0x7F]" "HexViewAttr 1"]
    by (simp add: crowded_cache_def)
qed

end
