(* ===== verification/Input.thy ===== *)
theory Input
  imports Editor
begin

text \<open>
  \<open>hxy-editor/src/input.rs\<close>: the default keyboard dispatch. A batch of presses is a list; each
  press comes with the clock reading at which it is processed. A rejected edit is logged and
  skipped, a panic ends the batch.
\<close>

datatype horiz_step = StepLeft | StepRight

datatype vert_step = StepUp | StepDown

datatype extend = ExtendNo | ExtendYes

definition extend_from_shift :: "bool \<Rightarrow> extend" where
  "extend_from_shift shift = (if shift then ExtendYes else ExtendNo)"

datatype edit_press =
    PressHex byte
  | PressAscii byte
  | NavHoriz horiz_step extend
  | NavVert vert_step extend
  | ClearSelection
  | PressBackspace

fun is_navigation :: "edit_press \<Rightarrow> bool" where
  "is_navigation (NavHoriz _ _) = True"
| "is_navigation (NavVert _ _) = True"
| "is_navigation _ = False"

definition scrolloff_rows :: nat where
  "scrolloff_rows = 3"

definition cursor_of :: "'p hex_editor \<Rightarrow> nat option" where
  "cursor_of ed = map_option sel_cursor (he_selection ed)"

definition advance_cursor_byte :: "('p, 'm) suture \<Rightarrow> 'p hex_editor \<Rightarrow> 'p hex_editor" where
  "advance_cursor_byte P ed =
     (case he_selection ed of None \<Rightarrow> ed
      | Some s \<Rightarrow> ed\<lparr>he_selection := Some (caret (min (sat_add64 (sel_cursor s) 1) (hs_len (he_source P ed))))\<rparr>)"

text \<open>The cursor moves; the anchor follows unless the selection is extended.\<close>

definition move_cursor :: "extend \<Rightarrow> nat \<Rightarrow> selection \<Rightarrow> selection" where
  "move_cursor ext c s =
     (case ext of ExtendYes \<Rightarrow> s\<lparr>sel_cursor := c\<rparr> | ExtendNo \<Rightarrow> \<lparr>sel_anchor = c, sel_cursor = c\<rparr>)"

definition nav_nibble ::
  "('p, 'm) suture \<Rightarrow> horiz_step \<Rightarrow> extend \<Rightarrow> 'p hex_editor \<Rightarrow> 'p hex_editor" where
  "nav_nibble P step ext ed =
     (case he_selection ed of None \<Rightarrow> ed
      | Some s \<Rightarrow>
        let source_len = hs_len (he_source P ed); cur = sel_cursor s;
            nxt = min (sat_add64 cur 1) source_len;
            high = es_high_nibble (he_edit ed);
            (c, h) =
              (case he_pane ed of
                 HexPane \<Rightarrow>
                   (case step of
                      StepRight \<Rightarrow> if high then (cur, False) else (nxt, True)
                    | StepLeft \<Rightarrow> if \<not> high then (cur, True)
                                  else if cur > 0 then (cur - 1, False) else (cur, high))
               | AsciiPane \<Rightarrow>
                   (case step of
                      StepRight \<Rightarrow> (nxt, True)
                    | StepLeft \<Rightarrow> (if cur > 0 then cur - 1 else cur, True)))
        in map_edit (\<lambda>e. e\<lparr>es_high_nibble := h\<rparr>) (ed\<lparr>he_selection := Some (move_cursor ext c s)\<rparr>))"

definition nav_row ::
  "vert_step \<Rightarrow> nat \<Rightarrow> nat \<Rightarrow> extend \<Rightarrow> 'p hex_editor \<Rightarrow> 'p hex_editor" where
  "nav_row step columns source_len ext ed =
     (if columns = 0 then ed
      else case he_selection ed of None \<Rightarrow> ed
      | Some s \<Rightarrow>
        let cur = sel_cursor s;
            c = (case step of StepDown \<Rightarrow> min (sat_add64 cur columns) (source_len - 1)
                 | StepUp \<Rightarrow> cur - columns)
        in map_edit (\<lambda>e. e\<lparr>es_high_nibble := True\<rparr>) (ed\<lparr>he_selection := Some (move_cursor ext c s)\<rparr>))"

definition after_typing ::
  "('p, 'm) suture \<Rightarrow> (write_error, bool) res \<times> 'p hex_editor \<Rightarrow> (write_error, 'p hex_editor) res" where
  "after_typing P x =
     (case x of
        (Ok True, ed) \<Rightarrow> Ok (advance_cursor_byte P ed)
      | (Ok False, ed) \<Rightarrow> Ok ed
      | (Err e, ed) \<Rightarrow> Ok ed
      | (Panic, ed) \<Rightarrow> Panic)"

definition ignore_err :: "('e, 'a) res \<times> 'p hex_editor \<Rightarrow> ('e, 'p hex_editor) res" where
  "ignore_err x = (case x of (Panic, ed) \<Rightarrow> Panic | (_, ed) \<Rightarrow> Ok ed)"

fun apply_press ::
  "('p, 'm) suture \<Rightarrow> nat \<Rightarrow> nat \<Rightarrow> nat \<Rightarrow> edit_press \<Rightarrow> 'p hex_editor \<Rightarrow>
     (write_error, 'p hex_editor) res" where
  "apply_press P columns source_len now (PressHex nib) ed = after_typing P (type_hex_digit P now nib ed)"
| "apply_press P columns source_len now (PressAscii b) ed = after_typing P (type_ascii_byte P now b ed)"
| "apply_press P columns source_len now (NavHoriz step ext) ed =
     Ok (push_history_boundary (nav_nibble P step ext ed))"
| "apply_press P columns source_len now (NavVert step ext) ed =
     Ok (push_history_boundary (nav_row step columns source_len ext ed))"
| "apply_press P columns source_len now ClearSelection ed =
     Ok (reset_edit_nibble (ed\<lparr>he_selection := map_option (\<lambda>s. caret (sel_cursor s)) (he_selection ed)\<rparr>))"
| "apply_press P columns source_len now PressBackspace ed = ignore_err (backspace_byte P now ed)"

fun apply_presses ::
  "('p, 'm) suture \<Rightarrow> nat \<Rightarrow> nat \<Rightarrow> (nat \<times> edit_press) list \<Rightarrow> 'p hex_editor \<Rightarrow>
     (write_error, 'p hex_editor) res" where
  "apply_presses P columns source_len [] ed = Ok ed"
| "apply_presses P columns source_len ((now, press) # presses) ed =
     res_bind (apply_press P columns source_len now press ed)
       (apply_presses P columns source_len presses)"

text \<open>What a dispatcher does after its presses: follow the cursor, and remember it.\<close>

definition finish_dispatch :: "nat option \<Rightarrow> 'p hex_editor \<Rightarrow> 'p hex_editor" where
  "finish_dispatch before ed0 =
     (let after = cursor_of ed0;
          ed = (if after \<noteq> None \<and> after \<noteq> before then ensure_cursor_visible scrolloff_rows ed0 else ed0)
      in ed\<lparr>he_last_cursor := after\<rparr>)"

definition columns_or_default :: "'p hex_editor \<Rightarrow> nat" where
  "columns_or_default ed = (case he_last_columns ed of Some c \<Rightarrow> c | None \<Rightarrow> 16)"

definition input_apply ::
  "('p, 'm) suture \<Rightarrow> (nat \<times> edit_press) list \<Rightarrow> 'p hex_editor \<Rightarrow> (write_error, 'p hex_editor) res" where
  "input_apply P presses ed0 =
     (let current = cursor_of ed0;
          ed = (if current \<noteq> he_last_cursor ed0
                then (push_history_boundary (reset_edit_nibble ed0))\<lparr>he_last_cursor := current\<rparr>
                else ed0)
      in if presses = [] then Ok ed
         else
           let columns = columns_or_default ed; source_len = hs_len (he_source P ed);
               ed = (if he_selection ed = None \<and> (\<exists>(_, press) \<in> set presses. is_navigation press)
                     then reset_edit_nibble (ed\<lparr>he_selection := Some (caret 0)\<rparr>) else ed)
           in res_bind (apply_presses P columns source_len presses ed) (\<lambda>ed.
              Ok (finish_dispatch current ed)))"

end
