(* ===== verification/Utf8.thy ===== *)
theory Utf8
  imports Prelude
begin

text \<open>
  Text as a list of code points, and the decoding and encoding of UTF-8 that the standard library
  does for \<open>String::from_utf8_lossy\<close> and \<open>str::as_bytes\<close>.
\<close>

type_synonym code_point = nat
type_synonym chars = "code_point list"

definition cp :: "char \<Rightarrow> code_point" where
  "cp c = of_char c"

text \<open>
  \<open>String::from_utf8_lossy\<close>: every maximal prefix of a sequence that cannot be completed becomes
  one replacement character.
\<close>

definition cont :: "byte \<Rightarrow> bool" where
  "cont b \<longleftrightarrow> 0x80 \<le> b \<and> b \<le> 0xBF"

definition second_ok :: "byte \<Rightarrow> byte \<Rightarrow> bool" where
  "second_ok b c \<longleftrightarrow>
     (if b = 0xE0 then 0xA0 \<le> c \<and> c \<le> 0xBF
      else if b = 0xED then 0x80 \<le> c \<and> c \<le> 0x9F
      else if b = 0xF0 then 0x90 \<le> c \<and> c \<le> 0xBF
      else if b = 0xF4 then 0x80 \<le> c \<and> c \<le> 0x8F
      else cont c)"

definition utf8_width :: "byte \<Rightarrow> nat" where
  "utf8_width b =
     (if b < 0x80 then 1 else if 0xC2 \<le> b \<and> b \<le> 0xDF then 2
      else if 0xE0 \<le> b \<and> b \<le> 0xEF then 3 else if 0xF0 \<le> b \<and> b \<le> 0xF4 then 4 else 0)"

definition replacement :: code_point where
  "replacement = 0xFFFD"

text \<open>The code point of the sequence at the front and the number of bytes it takes.\<close>

definition utf8_head :: "byte \<Rightarrow> bytes \<Rightarrow> code_point \<times> nat" where
  "utf8_head b bs =
     (let w = utf8_width b; low = (\<lambda>c. unat (c AND 0x3F)) in
      if w = 0 then (replacement, 1)
      else if w = 1 then (unat b, 1)
      else case bs of
        [] \<Rightarrow> (replacement, 1)
      | c # bs1 \<Rightarrow>
          if \<not> second_ok b c then (replacement, 1)
          else if w = 2 then (unat (b AND 0x1F) * 64 + low c, 2)
          else case bs1 of
            [] \<Rightarrow> (replacement, 2)
          | d # bs2 \<Rightarrow>
              if \<not> cont d then (replacement, 2)
              else if w = 3 then (unat (b AND 0x0F) * 4096 + low c * 64 + low d, 3)
              else case bs2 of
                [] \<Rightarrow> (replacement, 3)
              | e # _ \<Rightarrow>
                  if \<not> cont e then (replacement, 3)
                  else (unat (b AND 0x07) * 262144 + low c * 4096 + low d * 64 + low e, 4))"

function utf8_lossy :: "bytes \<Rightarrow> chars" where
  "utf8_lossy [] = []"
| "utf8_lossy (b # bs) =
     (let (c, n) = utf8_head b bs in c # utf8_lossy (drop (n - 1) bs))"
  by pat_completeness auto
termination
  by (relation "measure length") auto

text \<open>The encoding of one code point.\<close>

definition utf8_encode_char :: "code_point \<Rightarrow> bytes" where
  "utf8_encode_char c =
     (if c < 0x80 then [of_nat c]
      else if c < 0x800 then [of_nat (0xC0 + c div 64), of_nat (0x80 + c mod 64)]
      else if c < 0x10000 then
        [of_nat (0xE0 + c div 4096), of_nat (0x80 + c div 64 mod 64), of_nat (0x80 + c mod 64)]
      else
        [of_nat (0xF0 + c div 262144), of_nat (0x80 + c div 4096 mod 64),
         of_nat (0x80 + c div 64 mod 64), of_nat (0x80 + c mod 64)])"

definition utf8_encode :: "chars \<Rightarrow> bytes" where
  "utf8_encode cs = concat (map utf8_encode_char cs)"

end
