(* ===== verification/Vim.thy ===== *)
theory Vim
  imports Input Utf8
begin

text \<open>
  \<open>hxy-editor/src/vim.rs\<close>: modal input. The searches read the document byte by byte through
  \<open>byte_at\<close>; they take that function and the active pane, the only two things of the editor they
  use. A character of the input is its code point; the clipboard text is a list of code points.
\<close>

datatype effect = CopyText chars

datatype motion =
    MLeft | MRight | MUp | MDown
  | MWordForward | MWordBack | MWordEndForward | MWordEndForwardBig | MWordBackBig
  | MLineStart | MLineEnd | MEndOfFile

datatype vim_press =
    VEscape
  | VTogglePane
  | VEnterInsert
  | VEnterReplace
  | VEnterVisual
  | VEnterVisualLine
  | VDigit nat
  | VPendingG
  | VYank
  | VPaste
  | VDelete
  | VDeleteByte
  | VMotion motion
  | VStartFindChar find_dir bool
  | VFindCharResolved code_point find_dir bool
  | VStartTextObject bool
  | VTextObjectChar code_point bool

subsection \<open>Reading and classifying\<close>

definition byte_at :: "('p, 'm) suture \<Rightarrow> 'p hex_editor \<Rightarrow> nat \<Rightarrow> byte option" where
  "byte_at P ed offset =
     (case res_ok (res_bind (range_new offset (wadd64 offset 1)) (hs_read (he_source P ed))) of
        Some (b # _) \<Rightarrow> Some b
      | _ \<Rightarrow> None)"

datatype char_class = CWord | CPunct | CWhitespace

definition is_ascii_whitespace :: "byte \<Rightarrow> bool" where
  "is_ascii_whitespace b \<longleftrightarrow> b \<in> {0x20, 0x09, 0x0A, 0x0C, 0x0D}"

definition is_ascii_alphanumeric :: "byte \<Rightarrow> bool" where
  "is_ascii_alphanumeric b \<longleftrightarrow>
     0x30 \<le> b \<and> b \<le> 0x39 \<or> 0x41 \<le> b \<and> b \<le> 0x5A \<or> 0x61 \<le> b \<and> b \<le> 0x7A"

definition classify :: "byte \<Rightarrow> bool \<Rightarrow> char_class" where
  "classify b big =
     (if is_ascii_whitespace b then CWhitespace
      else if big \<or> is_ascii_alphanumeric b \<or> b = 0x5F then CWord else CPunct)"

definition class_at :: "(nat \<Rightarrow> byte option) \<Rightarrow> bool \<Rightarrow> nat \<Rightarrow> char_class option" where
  "class_at rd big i = map_option (\<lambda>b. classify b big) (rd i)"

definition blank_at :: "(nat \<Rightarrow> byte option) \<Rightarrow> nat \<Rightarrow> bool" where
  "blank_at rd i \<longleftrightarrow> (case rd i of Some b \<Rightarrow> is_ascii_whitespace b | None \<Rightarrow> False)"

subsection \<open>Scanning\<close>

text \<open>\<open>while i < hi && p(i) { i += 1 }\<close> and \<open>while i > 0 && p(i) { i -= 1 }\<close>.\<close>

function scan_up :: "(nat \<Rightarrow> bool) \<Rightarrow> nat \<Rightarrow> nat \<Rightarrow> nat" where
  "scan_up p hi i = (if i < hi \<and> p i then scan_up p hi (i + 1) else i)"
  by pat_completeness auto
termination
  by (relation "measure (\<lambda>(p, hi, i). hi - i)") auto

function scan_down :: "(nat \<Rightarrow> bool) \<Rightarrow> nat \<Rightarrow> nat" where
  "scan_down p i = (if 0 < i \<and> p i then scan_down p (i - 1) else i)"
  by pat_completeness auto
termination
  by (relation "measure (\<lambda>(p, i). i)") auto

declare scan_up.simps [simp del] scan_down.simps [simp del]

definition word_forward :: "pane \<Rightarrow> (nat \<Rightarrow> byte option) \<Rightarrow> nat \<Rightarrow> nat \<Rightarrow> bool \<Rightarrow> nat" where
  "word_forward pn rd from source_len big =
     (if pn = HexPane then min (wadd64 from 1) (source_len - 1)
      else
        let starting_class = class_at rd big from;
            i = scan_up (\<lambda>i. class_at rd big i = starting_class) source_len (wadd64 from 1);
            i = scan_up (blank_at rd) source_len i
        in min i (source_len - 1))"

definition word_back :: "pane \<Rightarrow> (nat \<Rightarrow> byte option) \<Rightarrow> nat \<Rightarrow> bool \<Rightarrow> nat" where
  "word_back pn rd from big =
     (if pn = HexPane then from - 1
      else if from = 0 then 0
      else
        let i = scan_down (blank_at rd) (from - 1);
            target_class = class_at rd big i
        in scan_down (\<lambda>i. class_at rd big (i - 1) = target_class) i)"

definition word_end_forward :: "pane \<Rightarrow> (nat \<Rightarrow> byte option) \<Rightarrow> nat \<Rightarrow> nat \<Rightarrow> bool \<Rightarrow> nat" where
  "word_end_forward pn rd from source_len big =
     (if pn = HexPane then min (wadd64 from 1) (source_len - 1)
      else if source_len = 0 then 0
      else
        let i = scan_up (blank_at rd) source_len (wadd64 from 1)
        in if i \<ge> source_len then source_len - 1
           else
             let target_class = class_at rd big i
             in scan_up (\<lambda>i. class_at rd big (i + 1) = target_class) (source_len - 1) i)"

definition newline :: byte where
  "newline = 0x0A"

definition find_line_start :: "(nat \<Rightarrow> byte option) \<Rightarrow> nat \<Rightarrow> nat" where
  "find_line_start rd cur = scan_down (\<lambda>i. rd (i - 1) \<noteq> Some newline) cur"

definition find_line_end :: "(nat \<Rightarrow> byte option) \<Rightarrow> nat \<Rightarrow> nat \<Rightarrow> nat" where
  "find_line_end rd cur source_len =
     (if source_len = 0 then 0
      else
        let i = scan_up (\<lambda>i. rd (i + 1) \<noteq> Some newline) (source_len - 1) cur
        in if i < source_len - 1 then i else source_len - 1)"

definition line_bounds ::
  "pane \<Rightarrow> (nat \<Rightarrow> byte option) \<Rightarrow> nat \<Rightarrow> nat \<Rightarrow> nat \<Rightarrow> nat \<times> nat" where
  "line_bounds pn rd cur columns source_len =
     (if source_len = 0 then (0, 0)
      else case pn of
        HexPane \<Rightarrow>
          (let start = cur div columns * columns
           in (start, min (start + columns - 1) (source_len - 1)))
      | AsciiPane \<Rightarrow> (find_line_start rd cur, find_line_end rd cur source_len))"

fun extend_lines ::
  "pane \<Rightarrow> (nat \<Rightarrow> byte option) \<Rightarrow> nat \<Rightarrow> nat \<Rightarrow> nat \<Rightarrow> nat \<Rightarrow> nat" where
  "extend_lines pn rd columns source_len 0 en = en"
| "extend_lines pn rd columns source_len (Suc n) en =
     (if en + 1 \<ge> source_len then en
      else extend_lines pn rd columns source_len n
             (snd (line_bounds pn rd (en + 1) columns source_len)))"

definition multi_line_bounds ::
  "pane \<Rightarrow> (nat \<Rightarrow> byte option) \<Rightarrow> nat \<Rightarrow> nat \<Rightarrow> nat \<Rightarrow> nat \<Rightarrow> nat \<times> nat" where
  "multi_line_bounds pn rd cur count columns source_len =
     (let (start, en) = line_bounds pn rd cur columns source_len
      in (start, extend_lines pn rd columns source_len (count - 1) en))"

subsection \<open>Moving the cursor\<close>

definition visual :: "vim_mode \<Rightarrow> bool" where
  "visual m \<longleftrightarrow> m = VimVisual \<or> m = VimVisualLine"

definition set_cursor :: "nat \<Rightarrow> 'p hex_editor \<Rightarrow> 'p hex_editor" where
  "set_cursor offset ed =
     (let ext = (if visual (vm_mode (he_vim ed)) then ExtendYes else ExtendNo);
          s = (case he_selection ed of Some s \<Rightarrow> move_cursor ext offset s | None \<Rightarrow> caret offset)
      in reset_edit_nibble (ed\<lparr>he_selection := Some s\<rparr>))"

definition cursor_or_0 :: "'p hex_editor \<Rightarrow> nat" where
  "cursor_or_0 ed = (case cursor_of ed of Some c \<Rightarrow> c | None \<Rightarrow> 0)"

definition word_motion ::
  "motion \<Rightarrow> pane \<Rightarrow> (nat \<Rightarrow> byte option) \<Rightarrow> nat \<Rightarrow> nat \<Rightarrow> nat" where
  "word_motion m pn rd source_len cur =
     (case m of
        MWordForward \<Rightarrow> word_forward pn rd cur source_len False
      | MWordBack \<Rightarrow> word_back pn rd cur False
      | MWordEndForward \<Rightarrow> word_end_forward pn rd cur source_len False
      | MWordEndForwardBig \<Rightarrow> word_end_forward pn rd cur source_len True
      | MWordBackBig \<Rightarrow> word_back pn rd cur True
      | _ \<Rightarrow> cur)"

definition apply_motion ::
  "('p, 'm) suture \<Rightarrow> motion \<Rightarrow> nat \<Rightarrow> nat \<Rightarrow> nat \<Rightarrow> 'p hex_editor \<Rightarrow> 'p hex_editor" where
  "apply_motion P m count columns source_len ed =
     (let ext = (if visual (vm_mode (he_vim ed)) then ExtendYes else ExtendNo);
          rd = byte_at P ed; cur = cursor_or_0 ed
      in case m of
        MLeft \<Rightarrow> (nav_nibble P StepLeft ext ^^ count) ed
      | MRight \<Rightarrow> (nav_nibble P StepRight ext ^^ count) ed
      | MUp \<Rightarrow> (nav_row StepUp columns source_len ext ^^ count) ed
      | MDown \<Rightarrow> (nav_row StepDown columns source_len ext ^^ count) ed
      | MEndOfFile \<Rightarrow> set_cursor (source_len - 1) ed
      | MLineStart \<Rightarrow>
          set_cursor (min (case he_pane ed of HexPane \<Rightarrow> cur div columns * columns
                           | AsciiPane \<Rightarrow> find_line_start rd cur) (source_len - 1)) ed
      | MLineEnd \<Rightarrow>
          set_cursor (case he_pane ed of
              HexPane \<Rightarrow> min (cur div columns * columns + (columns - 1)) (source_len - 1)
            | AsciiPane \<Rightarrow> find_line_end rd cur source_len) ed
      | _ \<Rightarrow> set_cursor ((word_motion m (he_pane ed) rd source_len ^^ count) cur) ed)"

definition ensure_anchor :: "'p hex_editor \<Rightarrow> 'p hex_editor" where
  "ensure_anchor ed =
     ed\<lparr>he_selection := Some (caret (case he_selection ed of None \<Rightarrow> 0 | Some s \<Rightarrow> sel_cursor s))\<rparr>"

definition snap_visual_line :: "('p, 'm) suture \<Rightarrow> nat \<Rightarrow> nat \<Rightarrow> 'p hex_editor \<Rightarrow> 'p hex_editor" where
  "snap_visual_line P columns source_len ed =
     (let (start, en) = line_bounds (he_pane ed) (byte_at P ed) (cursor_or_0 ed) columns source_len
      in ed\<lparr>he_selection :=
             map_option (\<lambda>_. \<lparr>sel_anchor = start, sel_cursor = en\<rparr>) (he_selection ed)\<rparr>)"

subsection \<open>The register and the clipboard\<close>

definition read_range_bytes :: "('p, 'm) suture \<Rightarrow> 'p hex_editor \<Rightarrow> nat \<Rightarrow> nat \<Rightarrow> bytes" where
  "read_range_bytes P ed start end_exclusive =
     (if end_exclusive \<le> start then []
      else case range_new start end_exclusive of
        Ok r \<Rightarrow> (case res_ok (hs_read (he_source P ed) r) of Some b \<Rightarrow> b | None \<Rightarrow> [])
      | _ \<Rightarrow> [])"

definition format_for_clipboard :: "bytes \<Rightarrow> register_origin \<Rightarrow> chars" where
  "format_for_clipboard bs origin =
     (case origin of
        OriginHex \<Rightarrow> map cp (join '' '' (map hex2 bs))
      | OriginAscii \<Rightarrow> utf8_lossy bs)"

definition current_register_origin :: "'p hex_editor \<Rightarrow> register_origin" where
  "current_register_origin ed = (case he_pane ed of HexPane \<Rightarrow> OriginHex | AsciiPane \<Rightarrow> OriginAscii)"

type_synonym 'p vim_run = "'p hex_editor \<times> effect list"

definition stash_register :: "bytes \<Rightarrow> 'p vim_run \<Rightarrow> 'p vim_run" where
  "stash_register bs run =
     (let (ed, effects) = run; origin = current_register_origin ed
      in (map_vim (\<lambda>v. v\<lparr>vm_register := bs, vm_origin := origin\<rparr>) ed,
          effects @ [CopyText (format_for_clipboard bs origin)]))"

definition yank_selection ::
  "('p, 'm) suture \<Rightarrow> 'p vim_run \<Rightarrow> (write_error, 'p vim_run) res" where
  "yank_selection P run =
     (let ed = fst run in
      case he_selection ed of None \<Rightarrow> Ok run
      | Some s \<Rightarrow>
        res_bind (sel_range s) (\<lambda>r.
        let bs = read_range_bytes P ed (br_start r) (br_end r) in
        if bs = [] then Ok run
        else let (ed, effects) = stash_register bs run
          in Ok (ed\<lparr>he_selection := map_option (\<lambda>s. caret (sel_cursor s)) (he_selection ed)\<rparr>, effects)))"

definition yank_rows ::
  "('p, 'm) suture \<Rightarrow> nat \<Rightarrow> nat \<Rightarrow> nat \<Rightarrow> 'p vim_run \<Rightarrow> 'p vim_run" where
  "yank_rows P count columns source_len run =
     (let ed = fst run;
          (start, en) = multi_line_bounds (he_pane ed) (byte_at P ed) (cursor_or_0 ed) count columns source_len;
          bs = read_range_bytes P ed start (en + 1)
      in if bs = [] then run else stash_register bs run)"

text \<open>What the deleting operators do after their splice: put a caret at the start, inside the file.\<close>

definition caret_after_delete :: "('p, 'm) suture \<Rightarrow> nat \<Rightarrow> 'p hex_editor \<Rightarrow> 'p hex_editor" where
  "caret_after_delete P start ed =
     (let new_len = hs_len (he_source P ed);
          new_cursor = (if new_len = 0 then 0 else min start (new_len - 1))
      in ed\<lparr>he_selection := Some (caret new_cursor)\<rparr>)"

definition cut_bytes ::
  "('p, 'm) suture \<Rightarrow> nat \<Rightarrow> nat \<Rightarrow> nat \<Rightarrow> bytes \<Rightarrow> 'p vim_run \<Rightarrow> (write_error, 'p vim_run) res" where
  "cut_bytes P now start len bs run =
     (if bs = [] then Ok run
      else let (ed, effects) = stash_register bs run
        in res_bind (ignore_err (he_splice P now start len [] ed)) (\<lambda>ed.
           Ok (caret_after_delete P start ed, effects)))"

definition delete_selection ::
  "('p, 'm) suture \<Rightarrow> nat \<Rightarrow> 'p vim_run \<Rightarrow> (write_error, 'p vim_run) res" where
  "delete_selection P now run =
     (case he_selection (fst run) of None \<Rightarrow> Ok run
      | Some s \<Rightarrow>
        res_bind (sel_range s) (\<lambda>r.
        cut_bytes P now (br_start r) (br_end r - br_start r)
          (read_range_bytes P (fst run) (br_start r) (br_end r)) run))"

definition delete_rows ::
  "('p, 'm) suture \<Rightarrow> nat \<Rightarrow> nat \<Rightarrow> nat \<Rightarrow> nat \<Rightarrow> 'p vim_run \<Rightarrow> (write_error, 'p vim_run) res" where
  "delete_rows P now count columns source_len run =
     (let ed = fst run;
          (start, en) = multi_line_bounds (he_pane ed) (byte_at P ed) (cursor_or_0 ed) count columns source_len
      in cut_bytes P now start (en + 1 - start) (read_range_bytes P ed start (en + 1)) run)"

definition delete_byte_under_cursor ::
  "('p, 'm) suture \<Rightarrow> nat \<Rightarrow> nat \<Rightarrow> 'p vim_run \<Rightarrow> (write_error, 'p vim_run) res" where
  "delete_byte_under_cursor P now count run =
     (let ed = fst run; cur = cursor_or_0 ed; source_len = hs_len (he_source P ed)
      in if source_len = 0 \<or> cur \<ge> source_len then Ok run
         else let len = min count (source_len - cur)
           in cut_bytes P now cur len (read_range_bytes P ed cur (cur + len)) run)"

text \<open>
  The payload is allocated with \<open>Vec::with_capacity(register.len() * count)\<close>: the product wraps,
  and a capacity above \<open>isize::MAX\<close> panics.
\<close>

definition paste_register ::
  "('p, 'm) suture \<Rightarrow> nat \<Rightarrow> nat \<Rightarrow> 'p hex_editor \<Rightarrow> (write_error, 'p hex_editor) res" where
  "paste_register P now count ed =
     (let reg = vm_register (he_vim ed) in
      if reg = [] then Ok ed
      else if (length reg * count) mod 2 ^ 64 \<ge> 2 ^ 63 then Panic
      else
        let cur = cursor_or_0 ed; source_len = hs_len (he_source P ed);
            insert_at = (if source_len = 0 then 0 else min (wadd64 cur 1) source_len);
            payload = concat (replicate count reg)
        in res_bind (ignore_err (he_splice P now insert_at 0 payload ed)) (\<lambda>ed.
           let new_len = hs_len (he_source P ed)
           in if new_len = 0 then Ok (ed\<lparr>he_selection := Some (caret 0)\<rparr>)
              else Ok (ed\<lparr>he_selection :=
                Some (caret (min (insert_at + (length payload - 1)) (new_len - 1)))\<rparr>)))"

end
