(* ===== verification/VimApply.thy ===== *)
theory VimApply
  imports Vim
begin

text \<open>
  \<open>hxy-editor/src/vim.rs\<close>, continued: find-char, text objects, and the interpreter of a batch of
  Normal / Visual presses. \<open>columns\<close> and \<open>source_len\<close> are read once per batch, as in the code.
\<close>

subsection \<open>Find-char\<close>

definition ascii_byte :: "code_point \<Rightarrow> byte option" where
  "ascii_byte c = (if c < 128 then Some (of_nat c) else None)"

function find_fwd ::
  "(nat \<Rightarrow> byte option) \<Rightarrow> byte \<Rightarrow> nat \<Rightarrow> nat \<Rightarrow> nat \<Rightarrow> nat \<Rightarrow> nat option" where
  "find_fwd rd target count line_end found i =
     (if i \<le> line_end then
        if rd i = Some target then
          if found + 1 = count then Some i
          else find_fwd rd target count line_end (found + 1) (i + 1)
        else find_fwd rd target count line_end found (i + 1)
      else None)"
  by pat_completeness auto
termination
  by (relation "measure (\<lambda>(rd, t, c, e, f, i). Suc e - i)") auto

text \<open>
  The backward loop compares \<open>i\<close> with \<open>line_start\<close> after each byte and then subtracts 1 with the
  wrap-around of a release build; the positions are \<open>u64\<close>s (the guard is never taken otherwise).
\<close>

function find_back ::
  "(nat \<Rightarrow> byte option) \<Rightarrow> byte \<Rightarrow> nat \<Rightarrow> nat \<Rightarrow> nat \<Rightarrow> nat \<Rightarrow> nat option" where
  "find_back rd target count line_start found i =
     (if 2 ^ 64 \<le> line_start \<or> 2 ^ 64 \<le> i then None
      else
        let hit = (rd i = Some target); found = (if hit then found + 1 else found)
        in if hit \<and> found = count then Some i
           else if i = line_start then None
           else find_back rd target count line_start found (wsub64 i 1))"
  by pat_completeness auto
termination
  by (relation "measure (\<lambda>(rd, t, c, s, f, i). wsub64 i s)") (auto simp: wsub64_def)

declare find_fwd.simps [simp del] find_back.simps [simp del]

definition find_char_landing ::
  "pane \<Rightarrow> (nat \<Rightarrow> byte option) \<Rightarrow> byte \<Rightarrow> find_dir \<Rightarrow> bool \<Rightarrow> nat \<Rightarrow> nat \<Rightarrow> nat \<Rightarrow> nat \<Rightarrow> nat option" where
  "find_char_landing pn rd target dir before count columns source_len cur =
     (if source_len = 0 then None
      else
        let (line_start, line_end) = line_bounds pn rd cur columns source_len
        in case dir of
          Forward \<Rightarrow>
            map_option (\<lambda>i. if before then i - 1 else i)
              (find_fwd rd target count line_end 0 (sat_add64 cur 1))
        | Backward \<Rightarrow>
            if cur = 0 then None
            else map_option (\<lambda>i. if before then min (wadd64 i 1) line_end else i)
                   (find_back rd target count line_start 0 (cur - 1)))"

definition apply_find_char ::
  "('p, 'm) suture \<Rightarrow> byte \<Rightarrow> find_dir \<Rightarrow> bool \<Rightarrow> nat \<Rightarrow> nat \<Rightarrow> nat \<Rightarrow> 'p hex_editor \<Rightarrow> 'p hex_editor" where
  "apply_find_char P target dir before count columns source_len ed =
     (case find_char_landing (he_pane ed) (byte_at P ed) target dir before count columns source_len
             (cursor_or_0 ed) of
        Some i \<Rightarrow> set_cursor i ed
      | None \<Rightarrow> ed)"

subsection \<open>Text objects\<close>

text \<open>The bracket depths are integers: a file has fewer than \<open>2 ^ 31\<close> nested brackets.\<close>

function bracket_open ::
  "(nat \<Rightarrow> byte option) \<Rightarrow> byte \<Rightarrow> byte \<Rightarrow> nat \<Rightarrow> int \<Rightarrow> nat \<Rightarrow> nat option" where
  "bracket_open rd opn cls cur depth i =
     (case rd i of None \<Rightarrow> None
      | Some b \<Rightarrow>
          if b = opn \<and> \<not> (b = cls \<and> i \<noteq> cur) \<and> depth = 0 then Some i
          else if i = 0 then None
          else bracket_open rd opn cls cur
                 (if b = cls \<and> i \<noteq> cur then depth + 1 else if b = opn then depth - 1 else depth)
                 (i - 1))"
  by pat_completeness auto
termination
  by (relation "measure (\<lambda>(rd, opn, cls, cur, d, i). i)") auto

function bracket_close ::
  "(nat \<Rightarrow> byte option) \<Rightarrow> byte \<Rightarrow> byte \<Rightarrow> nat \<Rightarrow> int \<Rightarrow> nat \<Rightarrow> nat option" where
  "bracket_close rd opn cls source_len depth i =
     (if i \<ge> source_len then None
      else case rd i of None \<Rightarrow> None
      | Some b \<Rightarrow>
          let depth = (if b = opn then depth + 1 else if b = cls then depth - 1 else depth)
          in if b \<noteq> opn \<and> b = cls \<and> depth = 0 then Some i
             else bracket_close rd opn cls source_len depth (i + 1))"
  by pat_completeness auto
termination
  by (relation "measure (\<lambda>(rd, opn, cls, n, d, i). n - i)") auto

declare bracket_open.simps [simp del] bracket_close.simps [simp del]

text \<open>The range between or around a pair of delimiters.\<close>

definition delimited :: "bool \<Rightarrow> nat \<Rightarrow> nat \<Rightarrow> (nat \<times> nat) option" where
  "delimited around open_pos close_pos =
     (if around then Some (open_pos, close_pos)
      else if close_pos > open_pos + 1 then Some (open_pos + 1, close_pos - 1)
      else None)"

definition bracket_range ::
  "(nat \<Rightarrow> byte option) \<Rightarrow> nat \<Rightarrow> nat \<Rightarrow> byte \<Rightarrow> byte \<Rightarrow> bool \<Rightarrow> (nat \<times> nat) option" where
  "bracket_range rd cur source_len opn cls around =
     Option.bind (bracket_open rd opn cls cur 0 cur) (\<lambda>open_pos.
     Option.bind (bracket_close rd opn cls source_len 0 open_pos) (\<lambda>close_pos.
     delimited around open_pos close_pos))"

text \<open>The loop back to the start of the line, which is at most the cursor.\<close>

function quote_open :: "(nat \<Rightarrow> byte option) \<Rightarrow> byte \<Rightarrow> nat \<Rightarrow> nat \<Rightarrow> nat option" where
  "quote_open rd q line_start i =
     (if rd i = Some q then Some i
      else if i \<le> line_start then None
      else quote_open rd q line_start (i - 1))"
  by pat_completeness auto
termination
  by (relation "measure (\<lambda>(rd, q, s, i). i)") auto

function quote_close :: "(nat \<Rightarrow> byte option) \<Rightarrow> byte \<Rightarrow> nat \<Rightarrow> nat \<Rightarrow> nat option" where
  "quote_close rd q line_end i =
     (if i \<le> line_end then if rd i = Some q then Some i else quote_close rd q line_end (i + 1)
      else None)"
  by pat_completeness auto
termination
  by (relation "measure (\<lambda>(rd, q, e, i). Suc e - i)") auto

declare quote_open.simps [simp del] quote_close.simps [simp del]

definition quote_range ::
  "(nat \<Rightarrow> byte option) \<Rightarrow> nat \<Rightarrow> nat \<Rightarrow> byte \<Rightarrow> bool \<Rightarrow> (nat \<times> nat) option" where
  "quote_range rd cur source_len q around =
     (let line_start = find_line_start rd cur; line_end = find_line_end rd cur source_len in
      Option.bind (quote_open rd q line_start cur) (\<lambda>open_pos.
      Option.bind (quote_close rd q line_end (open_pos + 1)) (\<lambda>close_pos.
      delimited around open_pos close_pos)))"

definition word_object_range ::
  "pane \<Rightarrow> (nat \<Rightarrow> byte option) \<Rightarrow> nat \<Rightarrow> nat \<Rightarrow> bool \<Rightarrow> bool \<Rightarrow> (nat \<times> nat) option" where
  "word_object_range pn rd cur source_len big around =
     (if pn = HexPane then Some (cur, cur)
      else case class_at rd big cur of None \<Rightarrow> None
      | Some cls \<Rightarrow>
          let start = scan_down (\<lambda>i. class_at rd big (i - 1) = Some cls) cur;
              en = scan_up (\<lambda>i. class_at rd big (i + 1) = Some cls) (source_len - 1) cur;
              en = (if around
                    then scan_up (\<lambda>i. class_at rd big (i + 1) = Some CWhitespace) (source_len - 1) en
                    else en)
          in Some (start, en))"

definition text_object_range ::
  "pane \<Rightarrow> (nat \<Rightarrow> byte option) \<Rightarrow> nat \<Rightarrow> nat \<Rightarrow> code_point \<Rightarrow> bool \<Rightarrow> (nat \<times> nat) option" where
  "text_object_range pn rd cur source_len c around =
     (if c \<in> {cp (CHR ''(''), cp (CHR '')''), cp (CHR ''b'')}
      then bracket_range rd cur source_len 0x28 0x29 around
      else if c \<in> {cp (CHR ''[''), cp (CHR '']'')}
      then bracket_range rd cur source_len 0x5B 0x5D around
      else if c \<in> {cp (CHR ''{''), cp (CHR ''}''), cp (CHR ''B'')}
      then bracket_range rd cur source_len 0x7B 0x7D around
      else if c \<in> {cp (CHR ''<''), cp (CHR ''>'')}
      then bracket_range rd cur source_len 0x3C 0x3E around
      else if c = 0x22 then quote_range rd cur source_len 0x22 around
      else if c = 0x27 then quote_range rd cur source_len 0x27 around
      else if c = 0x60 then quote_range rd cur source_len 0x60 around
      else if c = cp (CHR ''w'') then word_object_range pn rd cur source_len False around
      else if c = cp (CHR ''W'') then word_object_range pn rd cur source_len True around
      else None)"

definition apply_text_object ::
  "('p, 'm) suture \<Rightarrow> code_point \<Rightarrow> bool \<Rightarrow> nat \<Rightarrow> 'p hex_editor \<Rightarrow> 'p hex_editor" where
  "apply_text_object P c around source_len ed =
     (if source_len = 0 then ed
      else case text_object_range (he_pane ed) (byte_at P ed) (cursor_or_0 ed) source_len c around of
        None \<Rightarrow> ed
      | Some (start, en) \<Rightarrow> ed\<lparr>he_selection := Some \<lparr>sel_anchor = start, sel_cursor = en\<rparr>\<rparr>)"

subsection \<open>The presses\<close>

definition clear_vim :: "'p hex_editor \<Rightarrow> 'p hex_editor" where
  "clear_vim = map_vim clear_pending"

definition set_vim_mode :: "vim_mode \<Rightarrow> 'p hex_editor \<Rightarrow> 'p hex_editor" where
  "set_vim_mode m = map_vim (\<lambda>v. v\<lparr>vm_mode := m\<rparr>)"

definition set_pending :: "pending \<Rightarrow> 'p hex_editor \<Rightarrow> 'p hex_editor" where
  "set_pending p = map_vim (\<lambda>v. v\<lparr>vm_pending := Some p\<rparr>)"

definition leave_visual :: "'p vim_run \<Rightarrow> 'p vim_run" where
  "leave_visual run = (clear_vim (set_vim_mode VimNormal (fst run)), snd run)"

text \<open>The presses that only touch the editor.\<close>

fun apply_plain_press ::
  "('p, 'm) suture \<Rightarrow> nat \<Rightarrow> nat \<Rightarrow> vim_press \<Rightarrow> 'p hex_editor \<Rightarrow> 'p hex_editor" where
  "apply_plain_press P columns source_len VEscape ed =
     (let ed = clear_vim ed;
          ed = (if visual (vm_mode (he_vim ed)) then set_vim_mode VimNormal ed else ed)
      in reset_edit_nibble
           (ed\<lparr>he_selection := map_option (\<lambda>s. caret (sel_cursor s)) (he_selection ed)\<rparr>))"
| "apply_plain_press P columns source_len VTogglePane ed =
     clear_vim (set_active_pane (case he_pane ed of HexPane \<Rightarrow> AsciiPane | AsciiPane \<Rightarrow> HexPane) ed)"
| "apply_plain_press P columns source_len VEnterInsert ed =
     set_typing_mode TypeInsert (clear_vim (set_vim_mode VimInsert ed))"
| "apply_plain_press P columns source_len VEnterReplace ed =
     set_typing_mode TypeReplace (clear_vim (set_vim_mode VimReplace ed))"
| "apply_plain_press P columns source_len (VDigit d) ed =
     (if d = 0 \<and> vm_count (he_vim ed) = None
      then apply_motion P MLineStart 1 columns source_len ed
      else
        let prev = (case vm_count (he_vim ed) of None \<Rightarrow> 0 | Some n \<Rightarrow> n)
        in map_vim (\<lambda>v. v\<lparr>vm_count := Some (sat_add64 (sat_mul64 prev 10) d)\<rparr>) ed)"
| "apply_plain_press P columns source_len VPendingG ed =
     (if vm_pending (he_vim ed) = Some PendingG
      then
        let count = vm_count (he_vim ed); ed = clear_vim ed;
            target = (case count of Some n \<Rightarrow> sat_mul64 n columns | None \<Rightarrow> 0)
        in set_cursor (min target (source_len - 1)) ed
      else set_pending PendingG ed)"
| "apply_plain_press P columns source_len (VMotion m) ed =
     apply_motion P m (count_or_one (he_vim ed)) columns source_len (clear_vim ed)"
| "apply_plain_press P columns source_len VEnterVisual ed =
     (let ed = clear_vim ed
      in ensure_anchor (set_vim_mode
           (if vm_mode (he_vim ed) = VimVisual then VimNormal else VimVisual) ed))"
| "apply_plain_press P columns source_len VEnterVisualLine ed =
     (let ed = clear_vim ed;
          ed = set_vim_mode
                 (if vm_mode (he_vim ed) = VimVisualLine then VimNormal else VimVisualLine) ed
      in if vm_mode (he_vim ed) = VimVisualLine then snap_visual_line P columns source_len ed
         else ensure_anchor ed)"
| "apply_plain_press P columns source_len (VStartFindChar dir before) ed =
     set_pending (PendingFind dir before) ed"
| "apply_plain_press P columns source_len (VFindCharResolved c dir before) ed =
     (let count = count_or_one (he_vim ed); ed = clear_vim ed
      in case ascii_byte c of
           Some target \<Rightarrow> apply_find_char P target dir before count columns source_len ed
         | None \<Rightarrow> ed)"
| "apply_plain_press P columns source_len (VStartTextObject around) ed =
     set_pending (if around then PendingAround else PendingInner) ed"
| "apply_plain_press P columns source_len (VTextObjectChar c around) ed =
     apply_text_object P c around source_len (clear_vim ed)"
| "apply_plain_press P columns source_len _ ed = ed"

text \<open>The operators may write to the document and to the clipboard.\<close>

fun apply_vim_press ::
  "('p, 'm) suture \<Rightarrow> nat \<Rightarrow> nat \<Rightarrow> nat \<Rightarrow> vim_press \<Rightarrow> 'p vim_run \<Rightarrow> (write_error, 'p vim_run) res" where
  "apply_vim_press P columns source_len now VYank (ed, effects) =
     (if visual (vm_mode (he_vim ed))
      then res_bind (yank_selection P (ed, effects)) (\<lambda>run. Ok (leave_visual run))
      else if vm_pending (he_vim ed) = Some PendingYank
      then Ok (yank_rows P (count_or_one (he_vim ed)) columns source_len (clear_vim ed, effects))
      else Ok (set_pending PendingYank ed, effects))"
| "apply_vim_press P columns source_len now VDelete (ed, effects) =
     (if visual (vm_mode (he_vim ed))
      then res_bind (delete_selection P now (ed, effects)) (\<lambda>run. Ok (leave_visual run))
      else if vm_pending (he_vim ed) = Some PendingDelete
      then delete_rows P now (count_or_one (he_vim ed)) columns source_len (clear_vim ed, effects)
      else Ok (set_pending PendingDelete ed, effects))"
| "apply_vim_press P columns source_len now VDeleteByte (ed, effects) =
     delete_byte_under_cursor P now (count_or_one (he_vim ed)) (clear_vim ed, effects)"
| "apply_vim_press P columns source_len now VPaste (ed, effects) =
     res_bind (paste_register P now (count_or_one (he_vim ed)) (clear_vim ed)) (\<lambda>ed.
     Ok (ed, effects))"
| "apply_vim_press P columns source_len now press (ed, effects) =
     Ok (apply_plain_press P columns source_len press ed, effects)"

fun apply_vim_presses ::
  "('p, 'm) suture \<Rightarrow> nat \<Rightarrow> nat \<Rightarrow> (nat \<times> vim_press) list \<Rightarrow> 'p vim_run \<Rightarrow>
     (write_error, 'p vim_run) res" where
  "apply_vim_presses P columns source_len [] run = Ok run"
| "apply_vim_presses P columns source_len ((now, press) # presses) run =
     res_bind (apply_vim_press P columns source_len now press run)
       (apply_vim_presses P columns source_len presses)"

definition vim_apply ::
  "('p, 'm) suture \<Rightarrow> (nat \<times> vim_press) list \<Rightarrow> 'p hex_editor \<Rightarrow> (write_error, 'p vim_run) res" where
  "vim_apply P presses ed0 =
     (let before = cursor_of ed0; columns = columns_or_default ed0;
          source_len = hs_len (he_source P ed0)
      in if presses = [] then Ok (ed0, [])
         else
           let ed = (if he_selection ed0 = None then ed0\<lparr>he_selection := Some (caret 0)\<rparr> else ed0)
           in res_bind (apply_vim_presses P columns source_len presses (ed, [])) (\<lambda>(ed, effects).
              Ok (finish_dispatch before ed, effects)))"

end
