(* ===== verification/Dispatch.thy ===== *)
theory Dispatch
  imports VimApply
begin

text \<open>
  \<open>hxy-editor/src/events.rs\<close> and \<open>dispatch.rs\<close>: the events of the UI adapters, the filter that
  decides for each event of a frame whether the editor consumes it and which presses it means,
  and the application of the finished batch.
\<close>

subsection \<open>Events\<close>

record modifiers =
  md_shift :: bool
  md_command :: bool
  md_alt :: bool

definition no_modifiers :: modifiers where
  "no_modifiers = \<lparr>md_shift = False, md_command = False, md_alt = False\<rparr>"

text \<open>\<open>Letter\<close> carries a lowercase ASCII letter, \<open>Digit\<close> a \<open>u8\<close>.\<close>

datatype key =
    ArrowLeft | ArrowRight | ArrowUp | ArrowDown | KeyEscape | KeyTab | KeyBackspace
  | Digit nat
  | Letter char

definition hex_nibble :: "key \<Rightarrow> byte option" where
  "hex_nibble k =
     (case k of
        Digit d \<Rightarrow> if d \<le> 9 then Some (of_nat d) else None
      | Letter c \<Rightarrow> if cp (CHR ''a'') \<le> cp c \<and> cp c \<le> cp (CHR ''f'')
                    then Some (of_nat (cp c - cp (CHR ''a'') + 10)) else None
      | _ \<Rightarrow> None)"

datatype input_event = KeyEvent key modifiers | TextEvent "code_point list"

datatype disposition = Consumed | Passed

subsection \<open>The filter\<close>

datatype press = EditPress edit_press | VimPress vim_press

record input_filter =
  if_input_mode :: input_mode
  if_vim_mode :: vim_mode
  if_pending :: "pending option"
  if_pane :: pane
  if_mutable :: bool
  if_inserting :: bool
  if_presses :: "press list"
  if_exit_insert :: bool
  if_escaped :: bool

definition filter_new ::
  "input_mode \<Rightarrow> vim_mode \<Rightarrow> pending option \<Rightarrow> pane \<Rightarrow> bool \<Rightarrow> bool \<Rightarrow> input_filter" where
  "filter_new im vm p pn mut ins =
     \<lparr>if_input_mode = im, if_vim_mode = vm, if_pending = p, if_pane = pn, if_mutable = mut,
      if_inserting = ins, if_presses = [], if_exit_insert = False, if_escaped = False\<rparr>"

definition editor_filter :: "'p hex_editor \<Rightarrow> input_filter" where
  "editor_filter ed =
     filter_new (he_input_mode ed) (vm_mode (he_vim ed)) (vm_pending (he_vim ed)) (he_pane ed)
       (es_mode (he_edit ed) = Mutable) (es_typing (he_edit ed) = TypeInsert)"

definition push_edit :: "edit_press \<Rightarrow> input_filter \<Rightarrow> disposition \<times> input_filter" where
  "push_edit p f = (Consumed, f\<lparr>if_presses := if_presses f @ [EditPress p]\<rparr>)"

definition push_vim :: "vim_press \<Rightarrow> input_filter \<Rightarrow> disposition \<times> input_filter" where
  "push_vim p f = (Consumed, f\<lparr>if_presses := if_presses f @ [VimPress p]\<rparr>)"

text \<open>A press that also arms the pending state.\<close>

definition push_arm :: "vim_press \<Rightarrow> pending \<Rightarrow> input_filter \<Rightarrow> disposition \<times> input_filter" where
  "push_arm p pend f = push_vim p (f\<lparr>if_pending := Some pend\<rparr>)"

definition printable :: "code_point \<Rightarrow> bool" where
  "printable c \<longleftrightarrow> 0x21 \<le> c \<and> c \<le> 0x7E \<or> c = 0x20"

definition feed_default :: "input_event \<Rightarrow> input_filter \<Rightarrow> disposition \<times> input_filter" where
  "feed_default event f =
     (case event of
        KeyEvent key md \<Rightarrow>
          (if md_command md \<or> md_alt md then (Passed, f)
           else if if_mutable f \<and> if_pane f = HexPane \<and> hex_nibble key \<noteq> None
           then push_edit (PressHex (the (hex_nibble key))) f
           else
             let ext = extend_from_shift (md_shift md)
             in case key of
               ArrowLeft \<Rightarrow> push_edit (NavHoriz StepLeft ext) f
             | ArrowRight \<Rightarrow> push_edit (NavHoriz StepRight ext) f
             | ArrowUp \<Rightarrow> push_edit (NavVert StepUp ext) f
             | ArrowDown \<Rightarrow> push_edit (NavVert StepDown ext) f
             | KeyEscape \<Rightarrow> push_edit ClearSelection f
             | KeyBackspace \<Rightarrow>
                 (if if_mutable f \<and> if_inserting f then push_edit PressBackspace f else (Passed, f))
             | _ \<Rightarrow> (Passed, f))
      | TextEvent s \<Rightarrow>
          (if if_mutable f \<and> if_pane f = AsciiPane
           then
             let typed = filter printable s
             in (if typed = [] then Passed else Consumed,
                 f\<lparr>if_presses := if_presses f @ map (\<lambda>c. EditPress (PressAscii (of_nat c))) typed\<rparr>)
           else (Passed, f)))"

definition want_char :: "input_filter \<Rightarrow> bool" where
  "want_char f \<longleftrightarrow>
     (case if_pending f of
        Some (PendingFind _ _) \<Rightarrow> True | Some PendingInner \<Rightarrow> True | Some PendingAround \<Rightarrow> True
      | _ \<Rightarrow> False)"

definition feed_letter :: "char \<Rightarrow> bool \<Rightarrow> input_filter \<Rightarrow> disposition \<times> input_filter" where
  "feed_letter c shift f =
     (let dir = (if shift then Backward else Forward); vis = visual (if_vim_mode f) in
      if c = CHR ''h'' then push_vim (VMotion MLeft) f
      else if c = CHR ''j'' then push_vim (VMotion MDown) f
      else if c = CHR ''k'' then push_vim (VMotion MUp) f
      else if c = CHR ''l'' then push_vim (VMotion MRight) f
      else if c = CHR ''w'' then
        push_vim (VMotion (if shift then MWordEndForwardBig else MWordForward)) f
      else if c = CHR ''b'' then push_vim (VMotion (if shift then MWordBackBig else MWordBack)) f
      else if c = CHR ''e'' then
        push_vim (VMotion (if shift then MWordEndForwardBig else MWordEndForward)) f
      else if c = CHR ''f'' then push_arm (VStartFindChar dir False) (PendingFind dir False) f
      else if c = CHR ''t'' then push_arm (VStartFindChar dir True) (PendingFind dir True) f
      else if c = CHR ''i'' then
        (if vis then push_arm (VStartTextObject False) PendingInner f else push_vim VEnterInsert f)
      else if c = CHR ''r'' \<and> shift then push_vim VEnterReplace f
      else if c = CHR ''a'' \<and> vis then push_arm (VStartTextObject True) PendingAround f
      else if c = CHR ''v'' then push_vim (if shift then VEnterVisualLine else VEnterVisual) f
      else if c = CHR ''y'' then push_vim VYank f
      else if c = CHR ''p'' then push_vim VPaste f
      else if c = CHR ''d'' then push_vim VDelete f
      else if c = CHR ''x'' then push_vim VDeleteByte f
      else if c = CHR ''g'' then push_vim (if shift then VMotion MEndOfFile else VPendingG) f
      else (Passed, f))"

definition feed_vim_normal :: "input_event \<Rightarrow> input_filter \<Rightarrow> disposition \<times> input_filter" where
  "feed_vim_normal event f =
     (case event of
        KeyEvent key md \<Rightarrow>
          (if want_char f then
             (if key = KeyEscape
              then push_vim VEscape (f\<lparr>if_pending := None\<rparr>)
              else (Consumed, f))
           else if md_command md \<or> md_alt md then (Passed, f)
           else case key of
               KeyEscape \<Rightarrow> push_vim VEscape f
             | KeyTab \<Rightarrow> push_vim VTogglePane f
             | Letter c \<Rightarrow> feed_letter c (md_shift md) f
             | Digit d \<Rightarrow>
                 (if d = 4 \<and> md_shift md then push_vim (VMotion MLineEnd) f
                  else if \<not> md_shift md \<and> d \<le> 9 then push_vim (VDigit d) f
                  else (Passed, f))
             | _ \<Rightarrow> (Passed, f))
      | TextEvent s \<Rightarrow>
          (if want_char f \<and> s \<noteq> []
           then
             let c = hd s;
                 press = (case if_pending f of
                    Some (PendingFind dir before) \<Rightarrow> [VimPress (VFindCharResolved c dir before)]
                  | Some PendingInner \<Rightarrow> [VimPress (VTextObjectChar c False)]
                  | Some PendingAround \<Rightarrow> [VimPress (VTextObjectChar c True)]
                  | _ \<Rightarrow> [])
             in (Consumed, f\<lparr>if_presses := if_presses f @ press, if_pending := None\<rparr>)
           else (Consumed, f)))"

definition insert_like :: "vim_mode \<Rightarrow> bool" where
  "insert_like m \<longleftrightarrow> m = VimInsert \<or> m = VimReplace"

definition feed_vim :: "input_event \<Rightarrow> input_filter \<Rightarrow> disposition \<times> input_filter" where
  "feed_vim event f =
     (if insert_like (if_vim_mode f) then
        if if_escaped f then (Passed, f)
        else if event = KeyEvent KeyEscape no_modifiers
        then (Consumed, f\<lparr>if_exit_insert := True, if_escaped := True\<rparr>)
        else feed_default event f
      else feed_vim_normal event f)"

definition feed :: "input_event \<Rightarrow> input_filter \<Rightarrow> disposition \<times> input_filter" where
  "feed event f =
     (case if_input_mode f of InputDefault \<Rightarrow> feed_default event f | InputVim \<Rightarrow> feed_vim event f)"

fun feed_all :: "input_event list \<Rightarrow> input_filter \<Rightarrow> disposition list \<times> input_filter" where
  "feed_all [] f = ([], f)"
| "feed_all (e # es) f =
     (let (d, f) = feed e f; (ds, f) = feed_all es f in (d # ds, f))"

subsection \<open>Batches\<close>

datatype apply_path = PathDefault | PathVimNormal | PathVimExitInsert

record input_batch =
  ib_presses :: "press list"
  ib_path :: apply_path

definition finish :: "input_filter \<Rightarrow> input_batch" where
  "finish f =
     \<lparr>ib_presses = if_presses f,
      ib_path = (case if_input_mode f of
          InputDefault \<Rightarrow> PathDefault
        | InputVim \<Rightarrow>
            if insert_like (if_vim_mode f)
            then (if if_exit_insert f then PathVimExitInsert else PathDefault)
            else PathVimNormal)\<rparr>"

fun edit_presses :: "press list \<Rightarrow> edit_press list" where
  "edit_presses [] = []"
| "edit_presses (EditPress e # ps) = e # edit_presses ps"
| "edit_presses (VimPress v # ps) = edit_presses ps"

fun vim_presses :: "press list \<Rightarrow> vim_press list" where
  "vim_presses [] = []"
| "vim_presses (EditPress e # ps) = vim_presses ps"
| "vim_presses (VimPress v # ps) = v # vim_presses ps"

text \<open>\<open>clock n\<close> is the clock reading while the \<open>n\<close>-th press is processed.\<close>

definition apply_batch ::
  "('p, 'm) suture \<Rightarrow> (nat \<Rightarrow> nat) \<Rightarrow> input_batch \<Rightarrow> 'p hex_editor \<Rightarrow> (write_error, 'p vim_run) res" where
  "apply_batch P clock batch ed =
     (case ib_path batch of
        PathDefault \<Rightarrow>
          (let ps = edit_presses (ib_presses batch)
           in res_bind (input_apply P (zip (map clock [0 ..< length ps]) ps) ed) (\<lambda>ed. Ok (ed, [])))
      | PathVimNormal \<Rightarrow>
          (let ps = vim_presses (ib_presses batch)
           in vim_apply P (zip (map clock [0 ..< length ps]) ps) ed)
      | PathVimExitInsert \<Rightarrow>
          Ok (reset_edit_nibble (set_typing_mode TypeReplace (set_vim_mode VimNormal ed)), []))"

text \<open>One frame: the filter is built from the editor, fed, finished and applied.\<close>

definition input_frame ::
  "('p, 'm) suture \<Rightarrow> (nat \<Rightarrow> nat) \<Rightarrow> input_event list \<Rightarrow> 'p hex_editor \<Rightarrow> (write_error, 'p vim_run) res" where
  "input_frame P clock events ed =
     apply_batch P clock (finish (snd (feed_all events (editor_filter ed)))) ed"

end
