(* ===== verification/EditGuard.thy ===== *)
theory EditGuard
  imports Dispatch
begin

text \<open>
  The interface between a predicate on the editing state and everything that user input can do to
  it: a frame of input only reaches the document through writes, splices and insertions, and
  otherwise changes the nibble, the typing mode and the history boundary. What keeps the predicate
  under these keeps it under every frame.
\<close>

lemma pin_scroll_edit [simp]: "he_edit (pin_scroll_for_next_frame ed) = he_edit ed"
  by (simp add: pin_scroll_for_next_frame_def)

locale edit_guard =
  fixes P :: "('p, 'm) suture" and J :: "'p edit_state \<Rightarrow> bool"
  assumes nibble: "J e \<Longrightarrow> J (e\<lparr>es_high_nibble := h\<rparr>)"
    and boundary: "J e \<Longrightarrow> J (e\<lparr>es_break := b\<rparr>)"
    and typing: "J e \<Longrightarrow> J (e\<lparr>es_typing := t\<rparr>)"
    and request: "J e \<Longrightarrow> es_request_write P now off bs e = Ok e' \<Longrightarrow> J e'"
    and splice: "J e \<Longrightarrow> es_splice P now off n bs e = Ok e' \<Longrightarrow> J e'"
    and insert: "J e \<Longrightarrow> es_insert_at P now off bs e = Ok e' \<Longrightarrow> J e'"
begin

lemma flags:
  assumes "J (he_edit ed)"
  shows "J (he_edit (reset_edit_nibble ed))" "J (he_edit (push_history_boundary ed))"
    "J (he_edit (set_typing_mode m ed))" "J (he_edit (set_active_pane p ed))"
    "J (he_edit (map_edit (\<lambda>e. e\<lparr>es_high_nibble := f e\<rparr>) ed))"
    "J (he_edit (map_vim g ed))"
  using assms by (simp_all add: reset_edit_nibble_def push_history_boundary_def
      set_typing_mode_def set_active_pane_def map_edit_def map_vim_def nibble boundary typing)

lemma frame_end: "J (he_edit ed) \<Longrightarrow> J (he_edit (finish_dispatch before ed))"
  by (auto simp: finish_dispatch_def Let_def ensure_cursor_visible_def set_scroll_to_byte_def
      split: option.splits)

subsection \<open>Typing\<close>

lemma with_edit:
  "J (he_edit ed) \<Longrightarrow> (\<And>e. r = Ok e \<Longrightarrow> J e) \<Longrightarrow>
     (\<And>ed'. J (he_edit ed') \<Longrightarrow> J (he_edit (snd (k ed')))) \<Longrightarrow> J (he_edit (snd (with_edit r ed k)))"
  by (cases r) (simp_all add: with_edit_def)

lemma type_hex:
  assumes J: "J (he_edit ed)"
  shows "J (he_edit (snd (type_hex_digit P now d ed)))"
  by (auto simp: type_hex_digit_def Let_def J split: option.split res.split
      intro!: with_edit flags intro: insert [OF J] request [OF J])

lemma type_ascii:
  assumes J: "J (he_edit ed)"
  shows "J (he_edit (snd (type_ascii_byte P now b ed)))"
  by (auto simp: type_ascii_byte_def Let_def J split: option.split
      intro!: with_edit intro: insert [OF J] request [OF J])

lemma backspace:
  assumes J: "J (he_edit ed)"
  shows "J (he_edit (snd (backspace_byte P now ed)))"
  by (auto simp: backspace_byte_def Let_def J split: option.split
      intro!: with_edit flags intro: splice [OF J])

lemma splicing:
  assumes J: "J (he_edit ed)"
  shows "J (he_edit (snd (he_splice P now off n bs ed)))"
  unfolding he_splice_def by (rule with_edit) (simp_all add: J splice [OF J])

subsection \<open>Typed input\<close>

lemma advance: "J (he_edit ed) \<Longrightarrow> J (he_edit (advance_cursor_byte P ed))"
  by (simp add: advance_cursor_byte_def split: option.split)

lemma navigate:
  assumes J: "J (he_edit ed)"
  shows "J (he_edit (nav_nibble P h ext ed))" "J (he_edit (nav_row v columns source_len ext ed))"
  using J
  by (simp_all add: nav_nibble_def nav_row_def Let_def map_edit_def nibble split: option.split prod.split)

lemma after_typing_edit:
  "J (he_edit (snd x)) \<Longrightarrow> after_typing P x = Ok ed \<Longrightarrow> J (he_edit ed)"
  by (auto simp: after_typing_def intro: advance split: prod.splits res.splits bool.splits)

lemma ignore_err_edit: "J (he_edit (snd x)) \<Longrightarrow> ignore_err x = Ok ed \<Longrightarrow> J (he_edit ed)"
  by (auto simp: ignore_err_def split: prod.splits res.splits)

lemma press:
  assumes J: "J (he_edit ed)" and ok: "apply_press P columns source_len now p ed = Ok ed'"
  shows "J (he_edit ed')"
proof (cases p)
  case (PressHex d)
  then show ?thesis using ok after_typing_edit [OF type_hex [OF J]] by simp
next
  case (PressAscii b)
  then show ?thesis using ok after_typing_edit [OF type_ascii [OF J]] by simp
next
  case PressBackspace
  then show ?thesis using ok ignore_err_edit [OF backspace [OF J]] by simp
qed (use ok J in \<open>auto intro: flags navigate\<close>)

lemma presses:
  "J (he_edit ed) \<Longrightarrow> apply_presses P columns source_len ps ed = Ok ed' \<Longrightarrow> J (he_edit ed')"
proof (induction ps arbitrary: ed)
  case (Cons p ps)
  obtain now q where p: "p = (now, q)" by (cases p)
  obtain ed1 where "apply_press P columns source_len now q ed = Ok ed1"
    "apply_presses P columns source_len ps ed1 = Ok ed'"
    using Cons.prems(2) by (auto simp: p)
  then show ?case using Cons.IH press [OF Cons.prems(1)] by blast
qed simp

lemma typed:
  assumes J: "J (he_edit ed)" and ok: "input_apply P ps ed = Ok ed'"
  shows "J (he_edit ed')"
proof -
  define ed1 where "ed1 = (if cursor_of ed \<noteq> he_last_cursor ed
    then (push_history_boundary (reset_edit_nibble ed))\<lparr>he_last_cursor := cursor_of ed\<rparr> else ed)"
  define ed2 where "ed2 = (if he_selection ed1 = None \<and> (\<exists>(_, p) \<in> set ps. is_navigation p)
    then reset_edit_nibble (ed1\<lparr>he_selection := Some (caret 0)\<rparr>) else ed1)"
  have J1: "J (he_edit ed1)" using J flags by (simp add: ed1_def)
  then have J2: "J (he_edit ed2)" using flags by (simp add: ed2_def)
  show ?thesis
  proof (cases "ps = []")
    case True
    then show ?thesis using ok J1 by (simp add: input_apply_def Let_def ed1_def)
  next
    case False
    have "res_bind (apply_presses P (columns_or_default ed1) (hs_len (he_source P ed1)) ps ed2)
        (\<lambda>x. Ok (finish_dispatch (cursor_of ed) x)) = Ok ed'"
      using ok unfolding input_apply_def Let_def ed1_def ed2_def by (simp only: False if_False)
    then obtain ed3 where
      "apply_presses P (columns_or_default ed1) (hs_len (he_source P ed1)) ps ed2 = Ok ed3"
      "ed' = finish_dispatch (cursor_of ed) ed3"
      by auto
    then show ?thesis using presses [OF J2] frame_end by blast
  qed
qed

subsection \<open>Modal input\<close>

lemma moved_cursor: "J (he_edit ed) \<Longrightarrow> J (he_edit (set_cursor off ed))"
  by (simp add: set_cursor_def Let_def flags)

lemma motion:
  assumes J: "J (he_edit ed)"
  shows "J (he_edit (apply_motion P m count columns source_len ed))"
proof -
  have "J (he_edit ((nav_nibble P h ext ^^ n) ed))" "J (he_edit ((nav_row v columns source_len ext ^^ n) ed))"
    for h v ext n
    by (induction n) (simp_all add: J navigate)
  then show ?thesis by (cases m) (simp_all add: apply_motion_def Let_def moved_cursor J)
qed

lemma find_char:
  "J (he_edit ed) \<Longrightarrow> J (he_edit (apply_find_char P target dir before count columns source_len ed))"
  by (simp add: apply_find_char_def moved_cursor split: option.split)

lemma text_object: "J (he_edit ed) \<Longrightarrow> J (he_edit (apply_text_object P c around source_len ed))"
  by (simp add: apply_text_object_def split: option.split prod.split)

lemma vim_flags:
  assumes "J (he_edit ed)"
  shows "J (he_edit (clear_vim ed))" "J (he_edit (set_vim_mode m ed))" "J (he_edit (set_pending q ed))"
    "J (he_edit (ensure_anchor ed))" "J (he_edit (snap_visual_line P columns source_len ed))"
  using assms by (simp_all add: clear_vim_def set_vim_mode_def set_pending_def ensure_anchor_def
      snap_visual_line_def flags split: prod.split)

lemma plain_press:
  assumes J: "J (he_edit ed)"
  shows "J (he_edit (apply_plain_press P columns source_len p ed))"
  by (cases p) (simp_all add: Let_def J flags vim_flags moved_cursor motion find_char text_object
      split: option.split)

lemma stash: "J (he_edit (fst run)) \<Longrightarrow> J (he_edit (fst (stash_register bs run)))"
  by (cases run) (simp add: stash_register_def Let_def flags)

lemma yanked:
  assumes J: "J (he_edit (fst run))"
  shows "yank_selection P run = Ok run' \<Longrightarrow> J (he_edit (fst run'))"
    "J (he_edit (fst (yank_rows P count columns source_len run)))"
  using J stash [OF J]
  by (auto simp: yank_selection_def yank_rows_def Let_def split_beta split: option.splits if_splits)

lemma cut:
  assumes J: "J (he_edit (fst run))" and ok: "cut_bytes P now start len bs run = Ok run'"
  shows "J (he_edit (fst run'))"
proof (cases "bs = []")
  case True
  then show ?thesis using J ok by (simp add: cut_bytes_def)
next
  case False
  obtain ed effects where st: "stash_register bs run = (ed, effects)" by (cases "stash_register bs run")
  then have "J (he_edit ed)" using stash [OF J, of bs] by simp
  moreover obtain ed1 where "ignore_err (he_splice P now start len [] ed) = Ok ed1"
    "run' = (caret_after_delete P start ed1, effects)"
    using ok False by (auto simp: cut_bytes_def st)
  ultimately show ?thesis
    using ignore_err_edit [OF splicing] by (simp add: caret_after_delete_def Let_def)
qed

lemma deleted:
  assumes J: "J (he_edit (fst run))"
  shows "delete_selection P now run = Ok run' \<Longrightarrow> J (he_edit (fst run'))"
    "delete_rows P now count columns source_len run = Ok run' \<Longrightarrow> J (he_edit (fst run'))"
    "delete_byte_under_cursor P now count run = Ok run' \<Longrightarrow> J (he_edit (fst run'))"
  using J
  by (auto simp: delete_selection_def delete_rows_def delete_byte_under_cursor_def Let_def split_beta
      intro: cut [OF J] split: option.splits if_splits)

lemma pasted:
  assumes J: "J (he_edit ed)" and ok: "paste_register P now count ed = Ok ed'"
  shows "J (he_edit ed')"
  using J ok
  by (auto simp: paste_register_def Let_def split: if_splits dest: ignore_err_edit [OF splicing])

lemma vim_press:
  assumes J: "J (he_edit (fst run))" and ok: "apply_vim_press P columns source_len now p run = Ok run'"
  shows "J (he_edit (fst run'))"
proof -
  obtain ed effects where run: "run = (ed, effects)" by (cases run)
  have J': "J (he_edit ed)" using J run by simp
  consider (yank) "p = VYank" | (delete) "p = VDelete" | (byte) "p = VDeleteByte" | (paste) "p = VPaste"
    | (plain) "apply_vim_press P columns source_len now p run =
        Ok (apply_plain_press P columns source_len p ed, effects)"
    unfolding run by (cases p) auto
  then show ?thesis
  proof cases
    case yank
    then show ?thesis using ok run J' yanked [of "(ed, effects)"] vim_flags(1) [OF J']
      by (auto simp: leave_visual_def vim_flags yanked(2) split: if_splits)
  next
    case delete
    then show ?thesis
      using ok run J' deleted(1) [of "(ed, effects)"] deleted(2) [of "(clear_vim ed, effects)"]
      by (auto simp: leave_visual_def vim_flags split: if_splits)
  next
    case byte
    then show ?thesis using ok run deleted(3) [of "(clear_vim ed, effects)"] vim_flags(1) [OF J'] by simp
  next
    case paste
    then show ?thesis using ok run pasted vim_flags(1) [OF J'] by auto
  next
    case plain
    then show ?thesis using ok plain_press [OF J'] by simp
  qed
qed

lemma vim_presses:
  "J (he_edit (fst run)) \<Longrightarrow> apply_vim_presses P columns source_len ps run = Ok run' \<Longrightarrow>
     J (he_edit (fst run'))"
proof (induction ps arbitrary: run)
  case (Cons p ps)
  obtain now q where p: "p = (now, q)" by (cases p)
  obtain run1 where "apply_vim_press P columns source_len now q run = Ok run1"
    "apply_vim_presses P columns source_len ps run1 = Ok run'"
    using Cons.prems(2) by (auto simp: p simp del: apply_vim_press.simps)
  then show ?case using Cons.IH vim_press [OF Cons.prems(1)] by blast
qed simp

lemma vim_batch:
  assumes J: "J (he_edit ed)" and ok: "vim_apply P ps ed = Ok run"
  shows "J (he_edit (fst run))"
proof (cases "ps = []")
  case True
  then show ?thesis using J ok by (auto simp: vim_apply_def Let_def)
next
  case False
  let ?ed = "if he_selection ed = None then ed\<lparr>he_selection := Some (caret 0)\<rparr> else ed"
  have J1: "J (he_edit (fst (?ed, [])))" using J by simp
  obtain run1 where
    r: "apply_vim_presses P (columns_or_default ed) (hs_len (he_source P ed)) ps (?ed, []) = Ok run1"
    "run = (finish_dispatch (cursor_of ed) (fst run1), snd run1)"
    using ok unfolding vim_apply_def Let_def by (simp only: False if_False res_bind_Ok_iff) auto
  show ?thesis using vim_presses [OF J1 r(1)] r(2) frame_end by simp
qed

text \<open>One frame of input.\<close>

lemma frame:
  assumes J: "J (he_edit ed)" and ok: "input_frame P clock events ed = Ok run"
  shows "J (he_edit (fst run))"
  using ok J
  by (auto simp: input_frame_def apply_batch_def Let_def intro!: flags vim_flags
      intro: typed vim_batch split: apply_path.splits)

end

end
