(* ===== verification/InputProps.thy ===== *)
theory InputProps
  imports EditGuard Patch_Instance
begin

text \<open>
  What no frame of input can do, whatever keys it holds: change a read-only document, touch the
  base, or grow the undo stack past its cap.
\<close>

subsection \<open>What a write leaves alone\<close>

definition keeps_base :: "'p edit_state \<Rightarrow> 'p edit_state \<Rightarrow> bool" where
  "keeps_base st st' \<longleftrightarrow> es_base st' = es_base st \<and> es_mode st' = es_mode st \<and>
     (length (es_undo st) \<le> undo_history_cap \<longrightarrow> length (es_undo st') \<le> undo_history_cap)"

lemma rebuild_keeps:
  assumes "rebuild_patch_from_stack P st = Ok st'"
  shows "es_base st' = es_base st" "es_undo st' = es_undo st" "es_mode st' = es_mode st"
  using assms
  by (auto simp: rebuild_patch_from_stack_def cached_base_bytes_def Let_def split: option.splits)

lemma lp_write_keeps:
  assumes "apply_lp_write_to_patch P st = Ok st'"
  shows "es_base st' = es_base st" "es_undo st' = es_undo st" "es_mode st' = es_mode st"
  using assms rebuild_keeps [of P st st']
  by (auto simp: apply_lp_write_to_patch_def Let_def split: if_splits sum.splits)

lemma record_keeps: "record_entry now e st = Ok st' \<Longrightarrow> keeps_base st st'"
  by (auto simp: record_entry_def push_entry_def keeps_base_def Let_def
      split: option.splits if_splits)

lemma write_keeps:
  "es_request_write P now off bs st = Ok st' \<Longrightarrow> keeps_base st st'"
  "es_splice P now off n bs st = Ok st' \<Longrightarrow> keeps_base st st'"
  "es_insert_at P now off bs st = Ok st' \<Longrightarrow> keeps_base st st'"
  by (auto simp: es_request_write_def es_splice_def es_insert_at_def Let_def keeps_base_def
      dest!: record_keeps dest: rebuild_keeps lp_write_keeps split: if_splits)

interpretation capped: edit_guard P
  "\<lambda>e. es_base e = b \<and> length (es_undo e) \<le> undo_history_cap"
  by unfold_locales (auto simp: keeps_base_def dest: write_keeps)

interpretation frozen: edit_guard P
  "\<lambda>e. es_mode e = Readonly \<and> es_base e = b \<and> es_patch e = p \<and> es_undo e = u"
  by unfold_locales (auto simp: readonly_rejects)

subsection \<open>Properties\<close>

text \<open>C14: A read-only document cannot be changed by input: whatever events a frame holds, in either
  input mode, the source shown after it is the one shown before, and the editor is still read-only.\<close>

theorem readonly_survives_input:
  assumes "is_readonly ed" "input_frame P clock events ed = Ok (ed', effects)"
  shows "is_readonly ed' \<and> he_source P ed' = he_source P ed \<and>
    es_undo (he_edit ed') = es_undo (he_edit ed)"
  using frozen.frame [OF _ assms(2), of "es_base (he_edit ed)" "es_patch (he_edit ed)" "es_undo (he_edit ed)"]
    assms(1) by (simp add: is_readonly_def he_source_def es_source_def)

definition sample_editor :: "list_patch hex_editor" where
  "sample_editor = (he_new list_suture (memory_source sample_bytes))
     \<lparr>he_selection := Some (caret 2), he_last_cursor := Some 2\<rparr>"

lemma sample_editor_sel [simp]:
  "he_edit sample_editor = sample_state" "he_selection sample_editor = Some (caret 2)"
  "he_last_cursor sample_editor = Some 2" "he_input_mode sample_editor = InputDefault"
  "he_pane sample_editor = HexPane" "he_visible sample_editor = None"
  "cursor_of sample_editor = Some 2"
  by (simp_all add: sample_editor_def he_new_def sample_state_def cursor_of_def caret_def)

theorem readonly_survives_input_witness:
  "\<exists>ed'. input_frame list_suture id [KeyEvent ArrowRight no_modifiers]
       (set_edit_mode Readonly sample_editor) = Ok (ed', []) \<and>
     he_source list_suture ed' = he_source list_suture (set_edit_mode Readonly sample_editor)"
proof -
  let ?ed = "set_edit_mode Readonly sample_editor"
  have ro: "is_readonly ?ed" by (simp add: is_readonly_def set_edit_mode_def map_edit_def)
  obtain ed' where run: "input_frame list_suture id [KeyEvent ArrowRight no_modifiers] ?ed = Ok (ed', [])"
    by (simp add: input_frame_def editor_filter_def filter_new_def set_edit_mode_def map_edit_def
        feed_def feed_default_def no_modifiers_def extend_from_shift_def push_edit_def finish_def
        hex_nibble_def apply_batch_def input_apply_def cursor_of_def Let_def)
  then show ?thesis using readonly_survives_input [OF ro run] by blast
qed

text \<open>C15: No input makes the undo stack longer than its cap or touches the base source.\<close>

theorem input_keeps_base_and_cap:
  assumes "length (es_undo (he_edit ed)) \<le> undo_history_cap"
    and "input_frame P clock events ed = Ok (ed', effects)"
  shows "length (es_undo (he_edit ed')) \<le> undo_history_cap \<and>
    es_base (he_edit ed') = es_base (he_edit ed)"
  using capped.frame [OF _ assms(2), of "es_base (he_edit ed)"] assms(1) by simp

theorem input_keeps_base_and_cap_witness:
  "\<exists>ed'. input_frame list_suture id [KeyEvent ArrowRight no_modifiers] sample_editor = Ok (ed', []) \<and>
     es_base (he_edit ed') = memory_source sample_bytes"
proof -
  obtain ed' where run: "input_frame list_suture id [KeyEvent ArrowRight no_modifiers] sample_editor =
      Ok (ed', [])"
    by (simp add: input_frame_def editor_filter_def filter_new_def
        feed_def feed_default_def no_modifiers_def extend_from_shift_def push_edit_def finish_def
        hex_nibble_def apply_batch_def input_apply_def cursor_of_def Let_def)
  have "es_base sample_state = memory_source sample_bytes"
    by (simp add: sample_state_def edit_new_def)
  then show ?thesis using input_keeps_base_and_cap [OF _ run] run sample_inv(4) by simp
qed

end
