(* ===== verification/TypeProps.thy ===== *)
theory TypeProps
  imports InputProps
begin

text \<open>
  Typing: what a hex digit, a character and a backspace do to the document and to the cursor, and
  the scroll request that follows the cursor.
\<close>

unbundle bit_operations_syntax

subsection \<open>Nibbles\<close>

lemma combine_both:
  "combine_nibble False (l AND 0xF) (combine_nibble True (h AND 0xF) cur) =
     push_bit 4 (h AND 0xF) OR (l AND 0xF)"
proof (rule bit_word_eqI)
  fix n assume "n < LENGTH(8)"
  then have "n < 8" by simp
  then consider "n = 0" | "n = 1" | "n = 2" | "n = 3" | "n = 4" | "n = 5" | "n = 6" | "n = 7"
    by linarith
  then show "bit (combine_nibble False (l AND 0xF) (combine_nibble True (h AND 0xF) cur)) n =
      bit (push_bit 4 (h AND 0xF) OR (l AND 0xF)) n"
    by cases (simp_all add: combine_nibble_def bit_simps)
qed

lemma combine_low:
  "combine_nibble False (l AND 0xF) (push_bit 4 (h AND 0xF)) = push_bit 4 (h AND 0xF) OR (l AND 0xF)"
  using combine_both [of l h 0] by (simp add: combine_nibble_def)

subsection \<open>The editor around the editing state\<close>

lemma edit_inv_flags [simp]:
  "edit_inv P c (st\<lparr>es_high_nibble := h\<rparr>) \<longleftrightarrow> edit_inv P c st"
  "doc (st\<lparr>es_high_nibble := h\<rparr>) c = doc st c"
  "es_source P (st\<lparr>es_high_nibble := h\<rparr>) = es_source P st"
  by (simp_all add: edit_inv_def base_ok_def stacks_ok_def patch_ok_def doc_def es_source_def)

definition typing_at :: "('p, 'm) suture \<Rightarrow> bytes \<Rightarrow> nat \<Rightarrow> nat \<Rightarrow> 'p hex_editor \<Rightarrow> bool" where
  "typing_at P c off room ed \<longleftrightarrow>
     edit_inv P c (he_edit ed) \<and> es_mode (he_edit ed) = Mutable \<and>
     length (es_undo (he_edit ed)) + room \<le> undo_history_cap \<and>
     (\<exists>s. he_selection ed = Some s \<and> sel_cursor s = off)"

lemma typing_atD:
  assumes "typing_at P c off (Suc n) ed"
  shows "edit_ready P c (he_edit ed)" "es_mode (he_edit ed) = Mutable"
  using assms by (simp_all add: typing_at_def edit_ready_def)

lemma typing_len:
  "suture_laws P \<Longrightarrow> typing_at P c off n ed \<Longrightarrow>
     hs_len (he_source P ed) = length (doc (he_edit ed) c)"
  by (simp add: typing_at_def he_source_def es_source_len)

lemma pin_scroll_sel [simp]:
  "he_selection (pin_scroll_for_next_frame ed) = he_selection ed"
  by (simp add: pin_scroll_for_next_frame_def)

text \<open>A write that succeeded leaves the editor ready for one less.\<close>

lemma typed_room:
  assumes "typing_at P c off (Suc n) ed" "edited P c now e (he_edit ed) st'"
  shows "typing_at P c off n (map_edit f ((pin_scroll_for_next_frame ed)\<lparr>he_edit := st'\<rparr>)) \<longleftrightarrow>
    edit_inv P c (f st') \<and> es_mode (f st') = Mutable \<and>
    length (es_undo (f st')) + n \<le> undo_history_cap"
    "length (es_undo st') + n \<le> undo_history_cap" "edit_inv P c st'" "es_mode st' = Mutable"
  using assms history_step_facts(2) [of c e "es_undo (he_edit ed)" "es_undo st'"]
  by (auto simp: typing_at_def map_edit_def edited_def)

lemma read_current:
  assumes "suture_laws P" "edit_inv P c st" "off < length (doc st c)"
  shows "read_byte_at P st off = Ok (doc st c ! off)"
  using read_byte_in [OF es_source_stores [OF assms(1,2)] doc_vec_ok [OF edit_invD(2) [OF assms(2)]] assms(3)] .

subsection \<open>A hex digit over a byte\<close>

lemma digit_over_byte:
  assumes laws: "suture_laws P" and t: "typing_at P c off (Suc n) ed"
    and off: "off < length (doc (he_edit ed) c)"
    and rep: "\<not> es_high_nibble (he_edit ed) \<or> es_typing (he_edit ed) = TypeReplace"
  obtains ed' where
    "type_hex_digit P now d ed = (Ok (\<not> es_high_nibble (he_edit ed)), ed')"
    "typing_at P c off n ed'" "es_high_nibble (he_edit ed') = (\<not> es_high_nibble (he_edit ed))"
    "es_typing (he_edit ed') = es_typing (he_edit ed)"
    "doc (he_edit ed') c = splice_list off 1
       [combine_nibble (es_high_nibble (he_edit ed)) (d AND 0xF) (doc (he_edit ed) c ! off)]
       (doc (he_edit ed) c)"
proof -
  let ?b = "combine_nibble (es_high_nibble (he_edit ed)) (d AND 0xF) (doc (he_edit ed) c ! off)"
  obtain s where s: "he_selection ed = Some s" "sel_cursor s = off" using t by (auto simp: typing_at_def)
  have inv: "edit_inv P c (he_edit ed)" using t by (simp add: typing_at_def)
  have fit: "off + length [?b] \<le> length (doc (he_edit ed) c)" using off by simp
  obtain st' where st': "es_request_write P now off [?b] (he_edit ed) = Ok st'"
    "edited P c now \<lparr>ee_offset = off, ee_old = slice off (off + length [?b]) (doc (he_edit ed) c),
       ee_new = [?b]\<rparr> (he_edit ed) st'"
    by (rule request_write_ok [OF laws typing_atD(1) [OF t] _ fit]) simp_all
  let ?ed = "map_edit (\<lambda>e. e\<lparr>es_high_nibble := \<not> es_high_nibble e\<rparr>)
    ((pin_scroll_for_next_frame ed)\<lparr>he_edit := st'\<rparr>)"
  have "doc st' c = splice_list off 1 [?b] (doc (he_edit ed) c)"
    using st'(2) unfolding edited_def apply_slice_entry [OF fit] by simp
  moreover have "es_high_nibble st' = es_high_nibble (he_edit ed)"
    "es_typing st' = es_typing (he_edit ed)" using st'(2) by (simp_all add: edited_def)
  moreover have "type_hex_digit P now d ed = (Ok (\<not> es_high_nibble (he_edit ed)), ?ed)"
    using off rep st'(1) calculation(2) typing_atD(2) [OF t] typing_len [OF laws t]
    by (auto simp: type_hex_digit_def Let_def s read_current [OF laws inv off] with_edit_def map_edit_def)
  moreover have "typing_at P c off n ?ed"
    using typed_room [OF t st'(2)] by simp
  ultimately show thesis using that [of ?ed] by (simp add: map_edit_def)
qed

lemma digit_inserts:
  assumes laws: "suture_laws P" and t: "typing_at P c off (Suc n) ed"
    and off: "off \<le> length (doc (he_edit ed) c)" and high: "es_high_nibble (he_edit ed)"
    and ins: "es_typing (he_edit ed) = TypeInsert \<or> off = length (doc (he_edit ed) c)"
    and vec: "vec_ok (doc (he_edit ed) c @ [0])"
  obtains ed' where
    "type_hex_digit P now d ed = (Ok False, ed')" "typing_at P c off n ed'"
    "\<not> es_high_nibble (he_edit ed')" "es_typing (he_edit ed') = es_typing (he_edit ed)"
    "doc (he_edit ed') c = splice_list off 0 [push_bit 4 (d AND 0xF)] (doc (he_edit ed) c)"
proof -
  let ?b = "push_bit 4 (d AND 0xF)"
  obtain s where s: "he_selection ed = Some s" "sel_cursor s = off" using t by (auto simp: typing_at_def)
  have vec': "vec_ok (splice_list off 0 [?b] (doc (he_edit ed) c))"
    using vec off by (simp add: vec_ok_def splice_list_def)
  obtain st' where st': "es_insert_at P now off [?b] (he_edit ed) = Ok st'"
    "edited P c now \<lparr>ee_offset = off, ee_old = [], ee_new = [?b]\<rparr> (he_edit ed) st'"
    by (rule insert_at_ok [OF laws typing_atD(1) [OF t] _ off vec']) simp_all
  let ?ed = "map_edit (\<lambda>e. e\<lparr>es_high_nibble := False\<rparr>) ((pin_scroll_for_next_frame ed)\<lparr>he_edit := st'\<rparr>)"
  have "doc st' c = splice_list off 0 [?b] (doc (he_edit ed) c)"
    using st'(2) by (simp add: edited_def apply_entry_def)
  moreover have "es_typing st' = es_typing (he_edit ed)" using st'(2) by (simp add: edited_def)
  moreover have "type_hex_digit P now d ed = (Ok False, ?ed)"
    using ins high st'(1) typing_atD(2) [OF t] typing_len [OF laws t]
    by (auto simp: type_hex_digit_def Let_def s with_edit_def)
  moreover have "typing_at P c off n ?ed" using typed_room [OF t st'(2)] by simp
  ultimately show thesis using that [of ?ed] by (simp add: map_edit_def)
qed

subsection \<open>Properties\<close>


lemma splice_over_insert:
  "off \<le> length v \<Longrightarrow> splice_list off 1 [y] (splice_list off 0 [x] v) = splice_list off 0 [y] v"
  "off \<le> length v \<Longrightarrow> splice_list off 0 [x] v ! off = x"
  by (simp_all add: splice_list_def nth_append)



lemma sample_flags: "es_typing sample_state = TypeReplace" "es_high_nibble sample_state"
  by (simp_all add: sample_state_def edit_new_def)


text \<open>Typed in insert mode, or at the end of the file in either mode, two hex digits make one new
  byte at the cursor and move nothing in front of it.\<close>

theorem two_digits_insert:
  assumes "suture_laws P" "typing_at P c off 2 ed" "off \<le> length (doc (he_edit ed) c)"
    and "es_typing (he_edit ed) = TypeInsert \<or> off = length (doc (he_edit ed) c)"
    and "es_high_nibble (he_edit ed)" "vec_ok (doc (he_edit ed) c @ [0])"
  shows "\<exists>ed1 ed2. type_hex_digit P t1 h ed = (Ok False, ed1) \<and>
    type_hex_digit P t2 l ed1 = (Ok True, ed2) \<and> es_high_nibble (he_edit ed2) \<and>
    doc (he_edit ed2) c =
      splice_list off 0 [push_bit 4 (h AND 0xF) OR (l AND 0xF)] (doc (he_edit ed) c)"
proof -
  let ?v = "doc (he_edit ed) c"
  have t2: "typing_at P c off (Suc 1) ed" using assms(2) by (simp add: numeral_2_eq_2)
  obtain ed1 where ed1: "type_hex_digit P t1 h ed = (Ok False, ed1)" "typing_at P c off 1 ed1"
    "\<not> es_high_nibble (he_edit ed1)"
    "doc (he_edit ed1) c = splice_list off 0 [push_bit 4 (h AND 0xF)] ?v"
    by (rule digit_inserts [OF assms(1) t2 assms(3,5,4,6), of t1 h])
  have off1: "off < length (doc (he_edit ed1) c)" using assms(3) by (simp add: ed1(4) splice_list_def)
  have t1: "typing_at P c off (Suc 0) ed1" using ed1(2) by simp
  obtain ed2 where ed2: "type_hex_digit P t2 l ed1 = (Ok (\<not> es_high_nibble (he_edit ed1)), ed2)"
    "es_high_nibble (he_edit ed2) = (\<not> es_high_nibble (he_edit ed1))"
    "doc (he_edit ed2) c = splice_list off 1
       [combine_nibble (es_high_nibble (he_edit ed1)) (l AND 0xF) (doc (he_edit ed1) c ! off)]
       (doc (he_edit ed1) c)"
    by (rule digit_over_byte [OF assms(1) t1 off1 disjI1 [OF ed1(3)], of t2 l])
  have "doc (he_edit ed2) c = splice_list off 0 [push_bit 4 (h AND 0xF) OR (l AND 0xF)] ?v"
    using assms(3) ed1(3)
    by (simp only: ed2(3) ed1(4) splice_over_insert simp_thms eq_False [THEN iffD2, OF ed1(3)] combine_low)
  then show ?thesis using ed1(1,3) ed2(1,2) by auto
qed

theorem two_digits_insert_witness:
  "\<exists>ed ed1 ed2. type_hex_digit list_suture 0 0xA ed = (Ok False, ed1) \<and>
     type_hex_digit list_suture 5 0xB ed1 = (Ok True, ed2) \<and>
     doc (he_edit ed2) sample_bytes = [0x00, 0x11, 0x22, 0x33, 0x44, 0x55, 0xAB]"
proof -
  let ?ed = "sample_editor\<lparr>he_selection := Some (caret 6)\<rparr>"
  have t: "typing_at list_suture sample_bytes 6 2 ?ed"
    using sample_inv by (simp add: typing_at_def undo_history_cap_def caret_def)
  have off: "6 \<le> length (doc (he_edit ?ed) sample_bytes)"
    "es_typing (he_edit ?ed) = TypeInsert \<or> 6 = length (doc (he_edit ?ed) sample_bytes)"
    "es_high_nibble (he_edit ?ed)" "vec_ok (doc (he_edit ?ed) sample_bytes @ [0])"
    using sample_inv sample_flags by (simp_all add: vec_ok_def)
  have v: "splice_list 6 0 [push_bit 4 (0xA AND 0xF) OR (0xB AND 0xF)]
      (doc (he_edit ?ed) sample_bytes) = [0x00, 0x11, 0x22, 0x33, 0x44, 0x55, 0xAB]"
    using sample_inv(2) by (simp add: splice_list_def sample_bytes_def)
  show ?thesis
    using two_digits_insert [OF list_suture_laws t off, of 0 "0xA" 5 "0xB"] unfolding v by blast
qed

text \<open>Backspace removes the byte before the caret, moves the caret there and leaves the rest as it
  is; at the start of the file it changes nothing.\<close>

theorem backspace_removes:
  assumes "suture_laws P" "typing_at P c off 1 ed" "off \<le> length (doc (he_edit ed) c)"
  shows "if off = 0 then backspace_byte P now ed = (Ok False, ed)
    else \<exists>ed'. backspace_byte P now ed = (Ok True, ed') \<and>
      he_selection ed' = Some (caret (off - 1)) \<and> es_high_nibble (he_edit ed') \<and>
      doc (he_edit ed') c = take (off - 1) (doc (he_edit ed) c) @ drop off (doc (he_edit ed) c)"
proof -
  let ?v = "doc (he_edit ed) c"
  obtain s where s: "he_selection ed = Some s" "sel_cursor s = off"
    using assms(2) by (auto simp: typing_at_def)
  have t: "typing_at P c off (Suc 0) ed" using assms(2) by simp
  note rdy = typing_atD(1) [OF t]
  show ?thesis
  proof (cases "off = 0")
    case True
    then show ?thesis by (simp add: backspace_byte_def s typing_atD(2) [OF t])
  next
    case False
    have fit: "off - 1 + 1 \<le> length ?v" using assms(3) False by simp
    have "vec_ok ?v" by (rule doc_vec_ok [OF edit_invD(2) [OF edit_readyD(1) [OF rdy]]])
    then have vec: "vec_ok (splice_list (off - 1) 1 [] ?v)" by (simp add: vec_ok_def splice_list_def)
    obtain st' where st': "es_splice P now (off - 1) 1 [] (he_edit ed) = Ok st'"
      "edited P c now \<lparr>ee_offset = off - 1, ee_old = slice (off - 1) (off - 1 + 1) ?v, ee_new = []\<rparr>
         (he_edit ed) st'"
      by (rule splice_ok [OF assms(1) rdy _ fit vec]) simp_all
    have "doc st' c = splice_list (off - 1) 1 [] ?v"
      using st'(2) unfolding edited_def apply_slice_entry [OF fit] by simp
    then show ?thesis
      using False st'(1)
      by (simp add: backspace_byte_def s typing_atD(2) [OF t] with_edit_def map_edit_def splice_list_def)
  qed
qed

theorem backspace_removes_witness:
  "\<exists>ed'. backspace_byte list_suture 0 sample_editor = (Ok True, ed') \<and>
     he_selection ed' = Some (caret 1) \<and>
     doc (he_edit ed') sample_bytes = [0x00, 0x22, 0x33, 0x44, 0x55]"
proof -
  have t: "typing_at list_suture sample_bytes 2 1 sample_editor"
    using sample_inv by (simp add: typing_at_def undo_history_cap_def caret_def)
  have off: "2 \<le> length (doc (he_edit sample_editor) sample_bytes)" using sample_inv by simp
  have v: "take (2 - 1) (doc (he_edit sample_editor) sample_bytes) @
      drop 2 (doc (he_edit sample_editor) sample_bytes) = [0x00, 0x22, 0x33, 0x44, 0x55]"
    using sample_inv(2) by (simp add: sample_bytes_def)
  show ?thesis
    using backspace_removes [OF list_suture_laws t off, of 0] unfolding v by simp blast
qed



end
