(* ===== verification/VimProps.thy ===== *)
theory VimProps
  imports InputProps
begin

text \<open>
  The searches of the modal editor over the bytes shown, and its cutting and pasting operators.
\<close>

subsection \<open>Reading single bytes\<close>

definition reads :: "bytes \<Rightarrow> nat \<Rightarrow> byte option" where
  "reads v i = (if i < length v then Some (v ! i) else None)"

lemma byte_at_reads:
  assumes st: "stores (he_source P ed) v" and vec: "vec_ok v"
  shows "byte_at P ed = reads v"
proof
  fix i
  show "byte_at P ed i = reads v i"
  proof (cases "i < u64_max")
    case True
    then have w: "wadd64 i 1 = Suc i" by (simp add: u64_simps u64_max_def)
    show ?thesis
      using byte_store.read_byte [OF st, of i] byte_store.read_out [OF st, of "\<lparr>br_start = i, br_end = Suc i\<rparr>"]
        byte_store.len_content [OF st]
      by (cases "i < length v") (auto simp: byte_at_def w [unfolded One_nat_def] range_new_def reads_def)
  next
    case False
    have "wadd64 i 1 < i"
    proof (cases "i = u64_max")
      case True
      then show ?thesis by (simp add: wadd64_def u64_max_def)
    next
      case more: False
      have "wadd64 i 1 < 2 ^ 64" unfolding wadd64_def by (rule mod_less_divisor) simp
      then show ?thesis using False more by (simp add: u64_max_def)
    qed
    moreover have "\<not> i < length v" using False vec by (simp add: vec_ok_def u64_max_def)
    ultimately show ?thesis by (simp add: byte_at_def range_new_def reads_def)
  qed
qed

subsection \<open>Scanning\<close>

lemma scan_up_bounds:
  "i \<le> scan_up p hi i" "i \<le> hi \<Longrightarrow> scan_up p hi i \<le> hi"
  "i \<le> j \<Longrightarrow> j < scan_up p hi i \<Longrightarrow> p j"
  "scan_up p hi i < hi \<Longrightarrow> \<not> p (scan_up p hi i)"
proof -
  have "i \<le> scan_up p hi i \<and> (i \<le> hi \<longrightarrow> scan_up p hi i \<le> hi) \<and>
      (\<forall>j. i \<le> j \<and> j < scan_up p hi i \<longrightarrow> p j) \<and> (scan_up p hi i < hi \<longrightarrow> \<not> p (scan_up p hi i))"
  proof (induction p hi i rule: scan_up.induct)
    case (1 p hi i)
    show ?case
    proof (cases "i < hi \<and> p i")
      case True
      then have eq: "scan_up p hi i = scan_up p hi (i + 1)" by (subst scan_up.simps) simp
      note IH = 1 [OF True]
      have "p j" if "i \<le> j" "j < scan_up p hi (i + 1)" for j
        using IH True that by (cases "j = i") auto
      then show ?thesis unfolding eq using IH True by simp
    next
      case False
      then have "scan_up p hi i = i" by (subst scan_up.simps) auto
      then show ?thesis using False by auto
    qed
  qed
  then show "i \<le> scan_up p hi i" "i \<le> hi \<Longrightarrow> scan_up p hi i \<le> hi"
    "i \<le> j \<Longrightarrow> j < scan_up p hi i \<Longrightarrow> p j" "scan_up p hi i < hi \<Longrightarrow> \<not> p (scan_up p hi i)" by auto
qed

lemma scan_down_bounds:
  "scan_down p i \<le> i"
  "scan_down p i < j \<Longrightarrow> j \<le> i \<Longrightarrow> p j"
  "0 < scan_down p i \<Longrightarrow> \<not> p (scan_down p i)"
proof -
  have "scan_down p i \<le> i \<and> (\<forall>j. scan_down p i < j \<and> j \<le> i \<longrightarrow> p j) \<and>
      (0 < scan_down p i \<longrightarrow> \<not> p (scan_down p i))"
  proof (induction p i rule: scan_down.induct)
    case (1 p i)
    show ?case
    proof (cases "0 < i \<and> p i")
      case True
      then have eq: "scan_down p i = scan_down p (i - 1)" by (subst scan_down.simps) simp
      note IH = 1 [OF True]
      have "p j" if "scan_down p (i - 1) < j" "j \<le> i" for j
        using IH True that by (cases "j = i") auto
      then show ?thesis unfolding eq using IH True by auto
    next
      case False
      then have "scan_down p i = i" by (subst scan_down.simps) auto
      then show ?thesis using False by auto
    qed
  qed
  then show "scan_down p i \<le> i" "scan_down p i < j \<Longrightarrow> j \<le> i \<Longrightarrow> p j"
    "0 < scan_down p i \<Longrightarrow> \<not> p (scan_down p i)" by auto
qed

subsection \<open>Lines\<close>

definition text_editor :: "bytes \<Rightarrow> list_patch hex_editor" where
  "text_editor bs = (he_new list_suture (memory_source bs))\<lparr>he_pane := AsciiPane\<rparr>"

lemma text_editor_stores:
  "vec_ok bs \<Longrightarrow> stores (he_source list_suture (text_editor bs)) bs"
  using es_source_stores [OF list_suture_laws, of bs "edit_new list_suture (memory_source bs)"]
    edit_new_inv [OF list_suture_laws memory_stores, of bs]
  by (simp add: he_source_def text_editor_def he_new_def)

lemma line_start_facts:
  fixes v :: bytes and cur i :: nat
  defines "start \<equiv> find_line_start (reads v) cur"
  shows "start \<le> cur" "start = 0 \<or> reads v (start - 1) = Some newline"
    "start \<le> i \<Longrightarrow> i < cur \<Longrightarrow> reads v i \<noteq> Some newline"
proof -
  let ?p = "\<lambda>i. reads v (i - 1) \<noteq> Some newline"
  show "start \<le> cur" unfolding start_def find_line_start_def by (rule scan_down_bounds(1))
  show "start = 0 \<or> reads v (start - 1) = Some newline"
    using scan_down_bounds(3) [of ?p cur] by (auto simp: start_def find_line_start_def)
  show "start \<le> i \<Longrightarrow> i < cur \<Longrightarrow> reads v i \<noteq> Some newline"
    using scan_down_bounds(2) [of ?p cur "Suc i"] by (auto simp: start_def find_line_start_def)
qed

lemma line_end_facts:
  fixes v :: bytes and cur i :: nat
  assumes "cur < length v"
  defines "en \<equiv> find_line_end (reads v) cur (length v)"
  shows "cur \<le> en" "en < length v" "Suc en = length v \<or> reads v (Suc en) = Some newline"
    "cur < i \<Longrightarrow> i \<le> en \<Longrightarrow> reads v i \<noteq> Some newline"
proof -
  let ?p = "\<lambda>i. reads v (i + 1) \<noteq> Some newline"
  define s where "s = scan_up ?p (length v - 1) cur"
  have s: "cur \<le> s" "s \<le> length v - 1" "s < length v - 1 \<Longrightarrow> \<not> ?p s"
    "\<And>j. cur \<le> j \<Longrightarrow> j < s \<Longrightarrow> ?p j"
    using scan_up_bounds [where p = ?p and hi = "length v - 1" and i = cur] assms(1)
    by (simp_all add: s_def)
  have en: "en = s"
    using s(2) assms(1) unfolding en_def find_line_end_def s_def [symmetric] Let_def by auto
  show "cur \<le> en" "en < length v" using s(1,2) assms(1) by (auto simp: en)
  show "Suc en = length v \<or> reads v (Suc en) = Some newline"
    using s(2,3) assms(1) by (cases "s < length v - 1") (auto simp: en)
  show "cur < i \<Longrightarrow> i \<le> en \<Longrightarrow> reads v i \<noteq> Some newline"
    using s(4) [of "i - 1"] by (auto simp: en)
qed

lemma line_bounds_ascii:
  "cur < n \<Longrightarrow> line_bounds AsciiPane rd cur columns n = (find_line_start rd cur, find_line_end rd cur n)"
  by (simp add: line_bounds_def)


text \<open>The text \<open>ab\cd\ef\<close>, with newlines for the backslashes.\<close>

definition sample_text :: bytes where
  "sample_text = [0x61, 0x62, 0x0A, 0x63, 0x64, 0x0A, 0x65, 0x66]"

lemma length_sample_text: "length sample_text = 8"
  by (simp add: sample_text_def)

lemma sample_text_stores: "stores (he_source list_suture (text_editor sample_text)) sample_text"
  "vec_ok sample_text"
  using text_editor_stores [of sample_text] by (simp_all add: vec_ok_def sample_text_def)


text \<open>With the cursor on a newline the bounds take in the line it ends and the whole next line,
  so that the linewise operators act on two lines.\<close>

theorem newline_spans_two_lines:
  assumes "stores (he_source P ed) v" "vec_ok v" "Suc cur < length v"
    and "v ! cur = newline" "v ! Suc cur \<noteq> newline"
  shows "\<exists>start en. line_bounds AsciiPane (byte_at P ed) cur columns (length v) = (start, en) \<and>
    start \<le> cur \<and> cur < en \<and> (Suc en = length v \<or> v ! Suc en = newline)"
proof -
  have cur: "cur < length v" using assms(3) by simp
  define en where "en = find_line_end (reads v) cur (length v)"
  note e = line_end_facts [OF cur, folded en_def]
  have "en \<noteq> cur" using e(3) assms(3,5) by (auto simp: reads_def)
  moreover have "Suc en = length v \<or> v ! Suc en = newline"
    using e(3) by (auto simp: reads_def split: if_splits)
  ultimately show ?thesis
    using e(1) line_start_facts(1) [of v cur] cur
      line_bounds_ascii [OF cur, of "byte_at P ed" columns]
    by (simp add: byte_at_reads [OF assms(1,2)] flip: en_def)
qed

theorem newline_spans_two_lines_witness:
  "\<exists>start en. line_bounds AsciiPane (byte_at list_suture (text_editor sample_text)) 2 16 8 = (start, en) \<and>
     start \<le> 2 \<and> 2 < en"
proof -
  have c: "Suc 2 < length sample_text" "sample_text ! 2 = newline" "sample_text ! Suc 2 \<noteq> newline"
    by (simp_all add: sample_text_def newline_def)
  show ?thesis
    using newline_spans_two_lines [OF sample_text_stores c, of 16] unfolding length_sample_text by blast
qed

subsection \<open>Brackets\<close>

definition bracket_step :: "byte \<Rightarrow> byte \<Rightarrow> byte option \<Rightarrow> int" where
  "bracket_step opn cls b = (if b = Some opn then 1 else if b = Some cls then -1 else 0)"

text \<open>The nesting depth after the bytes \<open>[a, b)\<close>.\<close>

definition nesting :: "(nat \<Rightarrow> byte option) \<Rightarrow> byte \<Rightarrow> byte \<Rightarrow> nat \<Rightarrow> nat \<Rightarrow> int" where
  "nesting rd opn cls a b = (\<Sum>k\<leftarrow>[a ..< b]. bracket_step opn cls (rd k))"


lemma nesting_split:
  "a \<le> b \<Longrightarrow> b \<le> c \<Longrightarrow> nesting rd opn cls a c = nesting rd opn cls a b + nesting rd opn cls b c"
  using upt_add_eq_append [of a b "c - b"] by (simp add: nesting_def)











subsection \<open>Find-char\<close>

lemma find_back_skip:
  assumes "i < 2 ^ 64" "s < 2 ^ 64" "s \<noteq> i" "rd i \<noteq> Some t"
  shows "find_back rd t n s f i = find_back rd t n s f (wsub64 i 1)"
  using assms by (subst find_back.simps) (simp add: Let_def)

lemma find_back_hit:
  "i < 2 ^ 64 \<Longrightarrow> s < 2 ^ 64 \<Longrightarrow> rd i = Some t \<Longrightarrow> find_back rd t 1 s 0 i = Some i"
  by (subst find_back.simps) (simp add: Let_def)

lemma find_back_walk:
  assumes "i < 2 ^ 64" "s < 2 ^ 64"
  shows "j \<le> i \<Longrightarrow> s \<notin> {j ..< Suc i} \<Longrightarrow> (\<And>k. j \<le> k \<Longrightarrow> k \<le> i \<Longrightarrow> rd k \<noteq> Some t) \<Longrightarrow>
    find_back rd t n s f i = find_back rd t n s f (wsub64 j 1)"
  using assms(1)
proof (induction "i - j" arbitrary: i)
  case 0
  then show ?case using find_back_skip [of i s rd t n f] assms(2) by (cases "i = j") auto
next
  case (Suc d)
  then have i: "j \<le> i - 1" "0 < i" "s \<noteq> i" "wsub64 i 1 = i - 1" by (auto simp: wsub64_def)
  have "find_back rd t n s f i = find_back rd t n s f (i - 1)"
    using find_back_skip [of i s rd t n f] Suc.prems i assms(2) by simp
  also have "\<dots> = find_back rd t n s f (wsub64 j 1)" using Suc i by (intro Suc.hyps(1)) auto
  finally show ?case .
qed

text \<open>Searching backward from the first byte of a row does not stop at the row: it lands on the
  nearest match before it, in whatever row that is; and when there is none, the position passes 0
  and goes on from the largest 64-bit value.\<close>

theorem find_back_leaves_row:
  assumes "0 < cur" "cur < 2 ^ 64" "n \<noteq> 0" "line_bounds pn rd cur columns n = (cur, en)"
  shows "(j < cur \<and> rd j = Some t \<and> (\<forall>k. j < k \<and> k < cur \<longrightarrow> rd k \<noteq> Some t) \<longrightarrow>
      find_char_landing pn rd t Backward False 1 columns n cur = Some j) \<and>
    ((\<forall>k < cur. rd k \<noteq> Some t) \<longrightarrow>
      find_char_landing pn rd t Backward False 1 columns n cur = find_back rd t 1 cur 0 u64_max)"
proof -
  have run: "find_char_landing pn rd t Backward False 1 columns n cur = find_back rd t 1 cur 0 (cur - 1)"
    using assms by (simp add: find_char_landing_def option.map_ident)
  have "find_back rd t 1 cur 0 (cur - 1) = Some j"
    if j: "j < cur" "rd j = Some t" "\<forall>k. j < k \<and> k < cur \<longrightarrow> rd k \<noteq> Some t"
  proof (cases "j = cur - 1")
    case True
    then show ?thesis using find_back_hit [of j cur rd t] j assms(2) by simp
  next
    case False
    have "find_back rd t 1 cur 0 (cur - 1) = find_back rd t 1 cur 0 (wsub64 (Suc j) 1)"
      using False j assms(2) by (intro find_back_walk) auto
    moreover have "wsub64 (Suc j) 1 = j" using j(1) assms(2) by (simp add: wsub64_def)
    ultimately show ?thesis using find_back_hit [of j cur rd t] j assms(2) by simp
  qed
  moreover have "find_back rd t 1 cur 0 (cur - 1) = find_back rd t 1 cur 0 u64_max"
    if "\<forall>k < cur. rd k \<noteq> Some t"
  proof -
    have "find_back rd t 1 cur 0 (cur - 1) = find_back rd t 1 cur 0 (wsub64 0 1)"
      using that assms(1,2) by (intro find_back_walk) auto
    then show ?thesis by (simp add: wsub64_def u64_max_def)
  qed
  ultimately show ?thesis using run by auto
qed

theorem find_back_leaves_row_witness:
  "find_char_landing AsciiPane (reads sample_text) 0x62 Backward False 1 16 8 3 = Some 1"
proof -
  have "line_bounds AsciiPane (reads sample_text) 3 16 8 = (3, 4)"
    by (simp add: line_bounds_def find_line_start_def find_line_end_def scan_up.simps scan_down.simps
        reads_def sample_text_def newline_def)
  moreover have "\<forall>k. 1 < k \<and> k < 3 \<longrightarrow> reads sample_text k \<noteq> Some 0x62"
    by (auto simp: reads_def sample_text_def nth_Cons split: nat.splits)
  ultimately show ?thesis
    using find_back_leaves_row [of 3 8 AsciiPane "reads sample_text" 16 4 1 "0x62"]
    by (simp add: reads_def sample_text_def)
qed

end
