(* ===== verification/VimCut.thy ===== *)
theory VimCut
  imports VimProps
begin

text \<open>
  Cutting and pasting: what the operators move between the document, the register and the
  clipboard.
\<close>

lemma read_range_slice:
  assumes st: "stores (he_source P ed) v" and ab: "a < b" "b \<le> length v"
  shows "read_range_bytes P ed a b = slice a b v"
  using ab byte_store.read_in [OF st, of "\<lparr>br_start = a, br_end = b\<rparr>"] byte_store.len_content [OF st]
  by (simp add: read_range_bytes_def range_new_def)

lemma he_source_stores:
  "suture_laws P \<Longrightarrow> edit_ready P c (he_edit ed) \<Longrightarrow> stores (he_source P ed) (doc (he_edit ed) c)"
  unfolding he_source_def by (rule es_source_stores [OF _ edit_readyD(1)])

lemma edit_ready_vec: "edit_ready P c st \<Longrightarrow> vec_ok (doc st c)"
  by (rule doc_vec_ok [OF edit_invD(2) [OF edit_readyD(1)]])

lemma caret_after_delete_eq:
  "caret_after_delete P a ed =
     ed\<lparr>he_selection := Some (caret (min a (hs_len (he_source P ed) - 1)))\<rparr>"
  by (simp add: caret_after_delete_def Let_def)

text \<open>The common part of the deleting operators.\<close>

lemma cut_bytes_ok:
  assumes laws: "suture_laws P" and rdy: "edit_ready P c (he_edit ed)"
    and ab: "a < b" "b \<le> length (doc (he_edit ed) c)"
  defines "bs \<equiv> slice a b (doc (he_edit ed) c)"
  obtains ed' where
    "cut_bytes P now a (b - a) bs (ed, effects) =
       Ok (ed', effects @ [CopyText (format_for_clipboard bs (current_register_origin ed))])"
    "doc (he_edit ed') c = take a (doc (he_edit ed) c) @ drop b (doc (he_edit ed) c)"
    "vm_register (he_vim ed') = bs" "vm_origin (he_vim ed') = current_register_origin ed"
    "he_selection ed' = Some (caret (min a (length (doc (he_edit ed') c) - 1)))"
    "edit_inv P c (he_edit ed')"
proof -
  let ?v = "doc (he_edit ed) c"
  have fit: "a + (b - a) \<le> length ?v" using ab by simp
  have vec: "vec_ok (splice_list a (b - a) [] ?v)"
    using edit_ready_vec [OF rdy] by (simp add: vec_ok_def splice_list_def)
  obtain st' where st': "es_splice P now a (b - a) [] (he_edit ed) = Ok st'"
    "edited P c now \<lparr>ee_offset = a, ee_old = slice a (a + (b - a)) ?v, ee_new = []\<rparr> (he_edit ed) st'"
    by (rule splice_ok [OF laws rdy _ fit vec]) (use ab in simp_all)
  have d: "doc st' c = take a ?v @ drop b ?v"
    using st'(2) ab unfolding edited_def apply_slice_entry [OF fit] by (simp add: splice_list_def)
  have inv: "edit_inv P c st'" using st'(2) by (simp add: edited_def)
  have ne: "bs \<noteq> []" using ab by (simp add: bs_def slice_def)
  let ?ed1 = "(map_vim (\<lambda>v. v\<lparr>vm_register := bs, vm_origin := current_register_origin ed\<rparr>) ed)\<lparr>he_edit := st'\<rparr>"
  have len: "hs_len (he_source P ?ed1) = length (doc st' c)"
    using es_source_len [OF laws inv] by (simp add: he_source_def)
  have run: "cut_bytes P now a (b - a) bs (ed, effects) = Ok (caret_after_delete P a ?ed1,
      effects @ [CopyText (format_for_clipboard bs (current_register_origin ed))])"
    using ne st'(1)
    by (simp add: cut_bytes_def stash_register_def Let_def he_splice_def with_edit_def ignore_err_def map_vim_def)
  show thesis
    by (rule that [OF run], unfold caret_after_delete_eq len) (simp_all add: d inv map_vim_def)
qed

text \<open>C20: Deleting the selection cuts it: the bytes from its lower to its upper end, both included,
  leave the document and are in the register and on the clipboard, and the caret is left at their
  place or on the last byte.\<close>

theorem delete_selection_cuts:
  assumes "suture_laws P" "edit_ready P c (he_edit ed)" "he_selection ed = Some s"
    and "max (sel_anchor s) (sel_cursor s) < length (doc (he_edit ed) c)"
  defines "lo \<equiv> min (sel_anchor s) (sel_cursor s)" and "hi \<equiv> Suc (max (sel_anchor s) (sel_cursor s))"
  shows "\<exists>ed'. delete_selection P now (ed, effects) = Ok (ed', effects @ [CopyText
      (format_for_clipboard (slice lo hi (doc (he_edit ed) c)) (current_register_origin ed))]) \<and>
    doc (he_edit ed') c = take lo (doc (he_edit ed) c) @ drop hi (doc (he_edit ed) c) \<and>
    vm_register (he_vim ed') = slice lo hi (doc (he_edit ed) c) \<and>
    he_selection ed' = Some (caret (min lo (length (doc (he_edit ed') c) - 1)))"
proof -
  let ?v = "doc (he_edit ed) c"
  have ab: "lo < hi" "hi \<le> length ?v" using assms(4) by (auto simp: lo_def hi_def)
  have "max (sel_anchor s) (sel_cursor s) < u64_max"
    using assms(4) edit_ready_vec [OF assms(2)] by (simp add: vec_ok_def u64_max_def)
  then have "sel_wf s" "sat_add64 (max (sel_anchor s) (sel_cursor s)) 1 = hi"
    by (simp_all add: sel_wf_def hi_def sat_add64_def u64_max_def)
  from sel_range_eq [OF this(1), unfolded this(2)]
  have r: "sel_range s = (Ok \<lparr>br_start = lo, br_end = hi\<rparr> :: (write_error, _) res)"
    by (simp add: lo_def)
  obtain ed' where "cut_bytes P now lo (hi - lo) (slice lo hi ?v) (ed, effects) =
      Ok (ed', effects @ [CopyText (format_for_clipboard (slice lo hi ?v) (current_register_origin ed))])"
    "doc (he_edit ed') c = take lo ?v @ drop hi ?v" "vm_register (he_vim ed') = slice lo hi ?v"
    "he_selection ed' = Some (caret (min lo (length (doc (he_edit ed') c) - 1)))"
    by (rule cut_bytes_ok [OF assms(1,2) ab]) blast
  then show ?thesis
    by (simp add: delete_selection_def assms(3) r read_range_slice [OF he_source_stores [OF assms(1,2)] ab])
qed

theorem delete_selection_cuts_witness:
  "\<exists>ed'. delete_selection list_suture 0
      (sample_editor\<lparr>he_selection := Some \<lparr>sel_anchor = 3, sel_cursor = 1\<rparr>\<rparr>, []) =
      Ok (ed', [CopyText (format_for_clipboard [0x11, 0x22, 0x33] OriginHex)]) \<and>
    doc (he_edit ed') sample_bytes = [0x00, 0x44, 0x55] \<and>
    vm_register (he_vim ed') = [0x11, 0x22, 0x33]"
proof -
  let ?ed = "sample_editor\<lparr>he_selection := Some \<lparr>sel_anchor = 3, sel_cursor = 1\<rparr>\<rparr>"
  have rdy: "edit_ready list_suture sample_bytes (he_edit ?ed)"
    using sample_inv by (simp add: edit_ready_def undo_history_cap_def)
  have sel: "he_selection ?ed = Some \<lparr>sel_anchor = 3, sel_cursor = 1\<rparr>"
    "max (sel_anchor \<lparr>sel_anchor = 3, sel_cursor = 1\<rparr>) (sel_cursor \<lparr>sel_anchor = 3, sel_cursor = 1\<rparr>)
      < length (doc (he_edit ?ed) sample_bytes)" using sample_inv by simp_all
  have d: "doc (he_edit ?ed) sample_bytes = sample_bytes" using sample_inv by simp
  have o: "current_register_origin ?ed = OriginHex" by (simp add: current_register_origin_def)
  have v: "slice 1 4 sample_bytes = [0x11, 0x22, 0x33]"
    "take 1 sample_bytes @ drop 4 sample_bytes = [0x00, 0x44, 0x55]"
    by (simp_all add: sample_bytes_def slice_def)
  show ?thesis
    using delete_selection_cuts [OF list_suture_laws rdy sel, of 0 "[]"] unfolding d o
    by (simp add: v [unfolded One_nat_def]) blast
qed

text \<open>C21: Pasting inserts the register the counted number of times behind the byte under the cursor
  and leaves the caret on the last byte inserted.\<close>

theorem paste_inserts:
  assumes "suture_laws P" "edit_ready P c (he_edit ed)" "vm_register (he_vim ed) \<noteq> []" "0 < count"
    and "cursor_or_0 ed < length (doc (he_edit ed) c)"
    and "vec_ok (doc (he_edit ed) c @ concat (replicate count (vm_register (he_vim ed))))"
  shows "\<exists>ed'. paste_register P now count ed = Ok ed' \<and>
    doc (he_edit ed') c = splice_list (Suc (cursor_or_0 ed)) 0
      (concat (replicate count (vm_register (he_vim ed)))) (doc (he_edit ed) c) \<and>
    he_selection ed' = Some (caret (cursor_or_0 ed + length (vm_register (he_vim ed)) * count))"
proof -
  let ?v = "doc (he_edit ed) c" and ?reg = "vm_register (he_vim ed)" and ?cur = "cursor_or_0 ed"
  define pay where "pay = concat (replicate count ?reg)"
  have lpay: "length pay = length ?reg * count"
    by (simp add: pay_def length_concat sum_list_replicate mult.commute)
  have pos: "0 < length pay" using assms(3,4) by (simp add: lpay)
  have small: "length ?v + length pay < 2 ^ 63" using assms(6) by (simp add: vec_ok_def pay_def)
  then have cap: "\<not> (length ?reg * count) mod 2 ^ 64 \<ge> 2 ^ 63" by (simp add: flip: lpay)
  have src: "hs_len (he_source P ed) = length ?v"
    using byte_store.len_content [OF he_source_stores [OF assms(1,2)]] .
  have at: "min (wadd64 ?cur 1) (length ?v) = Suc ?cur"
    using assms(5) small by (simp add: wadd64_def)
  have fit: "Suc ?cur + 0 \<le> length ?v" using assms(5) by simp
  have vec: "vec_ok (splice_list (Suc ?cur) 0 pay ?v)"
    using small fit by (simp add: vec_ok_def splice_list_def)
  obtain st' where st': "es_splice P now (Suc ?cur) 0 pay (he_edit ed) = Ok st'"
    "edited P c now \<lparr>ee_offset = Suc ?cur, ee_old = slice (Suc ?cur) (Suc ?cur + 0) ?v, ee_new = pay\<rparr>
       (he_edit ed) st'"
    by (rule splice_ok [OF assms(1,2) _ fit vec]) (use pos in simp_all)
  have d: "doc st' c = splice_list (Suc ?cur) 0 pay ?v"
    using st'(2) unfolding edited_def apply_slice_entry [OF fit] by simp
  have len: "hs_len (he_source P (ed\<lparr>he_edit := st'\<rparr>)) = length ?v + length pay"
    using es_source_len [OF assms(1), of c st'] st'(2) d fit
    by (simp add: he_source_def edited_def splice_list_def)
  have ne: "?v \<noteq> []" using assms(5) by auto
  have "Suc (?cur + (length pay - Suc 0)) = ?cur + length pay"
    "?cur + length pay \<le> length ?v + length pay - Suc 0" using pos assms(5) by auto
  then have land: "min (Suc (?cur + (length pay - Suc 0))) (length ?v + length pay - Suc 0) = ?cur + length pay"
    by simp
  have "paste_register P now count ed =
      Ok (ed\<lparr>he_edit := st', he_selection := Some (caret (?cur + length pay))\<rparr>)"
    using assms(3) pos cap st'(1) at len ne land
    by (simp add: paste_register_def Let_def src he_splice_def with_edit_def ignore_err_def flip: pay_def)
  then show ?thesis using d unfolding lpay [symmetric] pay_def [symmetric] by simp
qed

theorem paste_inserts_witness:
  "\<exists>ed'. paste_register list_suture 0 2 (map_vim (\<lambda>v. v\<lparr>vm_register := [0xAA]\<rparr>) sample_editor) = Ok ed' \<and>
     doc (he_edit ed') sample_bytes = [0x00, 0x11, 0x22, 0xAA, 0xAA, 0x33, 0x44, 0x55] \<and>
     he_selection ed' = Some (caret 4)"
proof -
  let ?ed = "map_vim (\<lambda>v. v\<lparr>vm_register := [0xAA]\<rparr>) sample_editor"
  have ed: "he_edit ?ed = sample_state" "vm_register (he_vim ?ed) = [0xAA]" "cursor_or_0 ?ed = 2"
    by (simp_all add: map_vim_def cursor_or_0_def cursor_of_def caret_def)
  have two: "concat (replicate 2 [0xAA]) = [0xAA, 0xAA :: byte]" by (simp add: numeral_2_eq_2)
  have h: "edit_ready list_suture sample_bytes (he_edit ?ed)" "vm_register (he_vim ?ed) \<noteq> []" "0 < (2 :: nat)"
    "cursor_or_0 ?ed < length (doc (he_edit ?ed) sample_bytes)"
    "vec_ok (doc (he_edit ?ed) sample_bytes @ concat (replicate 2 (vm_register (he_vim ?ed))))"
    using sample_inv by (simp_all only: ed two) (simp_all add: edit_ready_def undo_history_cap_def
        vec_ok_def)
  have v: "splice_list (Suc 2) 0 (concat (replicate 2 [0xAA])) sample_bytes =
      [0x00, 0x11, 0x22, 0xAA, 0xAA, 0x33, 0x44, 0x55]"
    unfolding two by (simp add: splice_list_def sample_bytes_def)
  show ?thesis
    using paste_inserts [OF list_suture_laws h, of 0] unfolding ed sample_inv(2) v by simp
qed

text \<open>A count whose payload is no possible vector makes pasting panic instead of failing.\<close>

theorem paste_count_panics:
  assumes "vm_register (he_vim ed) \<noteq> []"
    and "2 ^ 63 \<le> length (vm_register (he_vim ed)) * count"
    and "length (vm_register (he_vim ed)) * count < 2 ^ 64"
  shows "paste_register P now count ed = Panic"
  using assms by (simp add: paste_register_def Let_def)

theorem paste_count_panics_witness:
  "paste_register list_suture 0 (2 ^ 63) (map_vim (\<lambda>v. v\<lparr>vm_register := [0xAA]\<rparr>) sample_editor) = Panic"
  by (rule paste_count_panics) (simp_all add: map_vim_def)

end
