(* ===== verification/Display.thy ===== *)
theory Display
  imports Utf8
begin

text \<open>
  \<open>hxy-core/src/format.rs\<close>, \<open>copy.rs\<close>, \<open>byte_palette.rs\<close> and \<open>color.rs\<close>: the bases numbers are shown
  in, the clipboard formats, and the table-driven part of the byte colours. The base64 encoder is
  the \<open>base64\<close> crate's and is a parameter. The gradients computed in floating point are left out.
\<close>

subsection \<open>Numeric formats\<close>

datatype numeric_base = BaseHex | BaseDecimal

fun base_toggle :: "numeric_base \<Rightarrow> numeric_base" where
  "base_toggle BaseHex = BaseDecimal"
| "base_toggle BaseDecimal = BaseHex"

datatype numeric_format =
    Always numeric_base
  | Threshold (nf_small: numeric_base) (nf_large: numeric_base) (nf_threshold: nat)

definition numeric_format_default :: numeric_format where
  "numeric_format_default = Always BaseHex"

fun format_pick :: "numeric_format \<Rightarrow> nat \<Rightarrow> numeric_base" where
  "format_pick (Always b) v = b"
| "format_pick (Threshold small large threshold) v = (if v \<ge> threshold then large else small)"

fun format_toggle :: "numeric_format \<Rightarrow> numeric_format" where
  "format_toggle (Always b) = Always (base_toggle b)"
| "format_toggle (Threshold small large threshold) = Threshold large small threshold"

record template_value_formats =
  tf_u8 :: numeric_format
  tf_u16 :: numeric_format
  tf_u32 :: numeric_format
  tf_u64 :: numeric_format
  tf_s8 :: numeric_format
  tf_s16 :: numeric_format
  tf_s32 :: numeric_format
  tf_s64 :: numeric_format

definition default_unsigned_format :: numeric_format where
  "default_unsigned_format = Always BaseHex"

definition default_signed_format :: numeric_format where
  "default_signed_format = Always BaseDecimal"

definition template_value_formats_default :: template_value_formats where
  "template_value_formats_default =
     \<lparr>tf_u8 = default_unsigned_format, tf_u16 = default_unsigned_format,
      tf_u32 = default_unsigned_format, tf_u64 = default_unsigned_format,
      tf_s8 = default_signed_format, tf_s16 = default_signed_format,
      tf_s32 = default_signed_format, tf_s64 = default_signed_format\<rparr>"

datatype int_value_type = U8 | U16 | U32 | U64 | S8 | S16 | S32 | S64

definition int_value_types :: "int_value_type list" where
  "int_value_types = [U8, U16, U32, U64, S8, S16, S32, S64]"

fun int_type_label :: "int_value_type \<Rightarrow> string" where
  "int_type_label U8 = ''u8''"
| "int_type_label U16 = ''u16''"
| "int_type_label U32 = ''u32''"
| "int_type_label U64 = ''u64''"
| "int_type_label S8 = ''s8''"
| "int_type_label S16 = ''s16''"
| "int_type_label S32 = ''s32''"
| "int_type_label S64 = ''s64''"

fun format_slot :: "int_value_type \<Rightarrow> template_value_formats \<Rightarrow> numeric_format" where
  "format_slot U8 f = tf_u8 f"
| "format_slot U16 f = tf_u16 f"
| "format_slot U32 f = tf_u32 f"
| "format_slot U64 f = tf_u64 f"
| "format_slot S8 f = tf_s8 f"
| "format_slot S16 f = tf_s16 f"
| "format_slot S32 f = tf_s32 f"
| "format_slot S64 f = tf_s64 f"

text \<open>The write through the mutable handle that \<open>slot_mut\<close> returns.\<close>

fun format_slot_set :: "int_value_type \<Rightarrow> numeric_format \<Rightarrow> template_value_formats \<Rightarrow> template_value_formats" where
  "format_slot_set U8 x f = f\<lparr>tf_u8 := x\<rparr>"
| "format_slot_set U16 x f = f\<lparr>tf_u16 := x\<rparr>"
| "format_slot_set U32 x f = f\<lparr>tf_u32 := x\<rparr>"
| "format_slot_set U64 x f = f\<lparr>tf_u64 := x\<rparr>"
| "format_slot_set S8 x f = f\<lparr>tf_s8 := x\<rparr>"
| "format_slot_set S16 x f = f\<lparr>tf_s16 := x\<rparr>"
| "format_slot_set S32 x f = f\<lparr>tf_s32 := x\<rparr>"
| "format_slot_set S64 x f = f\<lparr>tf_s64 := x\<rparr>"

definition format_offset :: "nat \<Rightarrow> numeric_base \<Rightarrow> string" where
  "format_offset v base = (case base of BaseHex \<Rightarrow> hex_str v | BaseDecimal \<Rightarrow> dec_str v)"

subsection \<open>Clipboard formats\<close>

datatype copy_kind =
    BytesLossyUtf8 | BytesHexSpaced | BytesHexCompact | BytesDecimalCsv | BytesOctalCsv
  | BytesCArray | BytesRustArray | BytesBase64 | TextBase64
  | ValueHex | ValueDecimal | ValueOctal | StructRust | StructC

definition copy_is_value :: "copy_kind \<Rightarrow> bool" where
  "copy_is_value k \<longleftrightarrow> k \<in> {ValueHex, ValueDecimal, ValueOctal}"

definition copy_is_struct :: "copy_kind \<Rightarrow> bool" where
  "copy_is_struct k \<longleftrightarrow> k \<in> {StructRust, StructC}"

definition ascii_digit :: "code_point \<Rightarrow> bool" where
  "ascii_digit c \<longleftrightarrow> 0x30 \<le> c \<and> c \<le> 0x39"

definition ascii_alnum :: "code_point \<Rightarrow> bool" where
  "ascii_alnum c \<longleftrightarrow> ascii_digit c \<or> 0x41 \<le> c \<and> c \<le> 0x5A \<or> 0x61 \<le> c \<and> c \<le> 0x7A"

definition ident_char :: "code_point \<Rightarrow> code_point" where
  "ident_char c = (if ascii_alnum c \<or> c = 0x5F then c else 0x5F)"

definition sanitize_ident :: "chars \<Rightarrow> chars" where
  "sanitize_ident raw =
     (case raw of
        [] \<Rightarrow> map cp ''data''
      | c # cs \<Rightarrow> (if ascii_digit c then [0x5F, c] else [ident_char c]) @ map ident_char cs)"

text \<open>ASCII text as code points.\<close>

abbreviation ascii :: "string \<Rightarrow> chars" where
  "ascii s \<equiv> map cp s"

definition hex0x :: "byte \<Rightarrow> string" where
  "hex0x b = ''0x'' @ hex2 b"

definition octal_str :: "nat \<Rightarrow> string" where
  "octal_str n = ''0o'' @ radix_str 8 n"

definition format_bytes ::
  "(bytes \<Rightarrow> string) \<Rightarrow> copy_kind \<Rightarrow> bytes \<Rightarrow> chars \<Rightarrow> chars \<Rightarrow> chars option" where
  "format_bytes base64 kind bs ident_hint type_hint =
     (case kind of
        BytesLossyUtf8 \<Rightarrow> Some (utf8_lossy bs)
      | BytesHexSpaced \<Rightarrow> Some (ascii (join '' '' (map hex2 bs)))
      | BytesHexCompact \<Rightarrow> Some (ascii (join '''' (map hex2 bs)))
      | BytesDecimalCsv \<Rightarrow> Some (ascii (join '', '' (map (\<lambda>b. dec_str (unat b)) bs)))
      | BytesOctalCsv \<Rightarrow> Some (ascii (join '', '' (map (\<lambda>b. octal_str (unat b)) bs)))
      | BytesCArray \<Rightarrow>
          Some (ascii ''uint8_t '' @ sanitize_ident ident_hint @
            ascii (''['' @ dec_str (length bs) @ ''] = { '' @ join '', '' (map hex0x bs) @ '' }; /* '') @
            type_hint @ ascii '' */'')
      | BytesRustArray \<Rightarrow>
          Some (ascii ''let '' @ sanitize_ident ident_hint @
            ascii ('': [u8; '' @ dec_str (length bs) @ ''] = ['' @ join '', '' (map hex0x bs) @ '']; // '') @
            type_hint)
      | BytesBase64 \<Rightarrow> Some (ascii (base64 bs))
      | TextBase64 \<Rightarrow> Some (ascii (base64 (utf8_encode (utf8_lossy bs))))
      | _ \<Rightarrow> None)"

definition format_scalar :: "copy_kind \<Rightarrow> nat \<Rightarrow> string option" where
  "format_scalar kind raw =
     (case kind of
        ValueHex \<Rightarrow> Some (hex_str raw)
      | ValueDecimal \<Rightarrow> Some (dec_str raw)
      | ValueOctal \<Rightarrow> Some (octal_str raw)
      | _ \<Rightarrow> None)"

subsection \<open>Byte classes and palettes\<close>

datatype value_highlight = HighlightBackground | HighlightText

datatype byte_class = ClassNull | ClassAllBits | ClassWhitespace | ClassPrintable | ClassControl | ClassExtended

definition byte_class_of :: "byte \<Rightarrow> byte_class" where
  "byte_class_of b =
     (if b = 0x00 then ClassNull
      else if b = 0xFF then ClassAllBits
      else if b = 0x09 \<or> b = 0x0A \<or> b = 0x0D then ClassWhitespace
      else if 0x01 \<le> b \<and> b \<le> 0x1F \<or> b = 0x7F then ClassControl
      else if 0x20 \<le> b \<and> b \<le> 0x7E then ClassPrintable
      else ClassExtended)"

record rgba =
  c_r :: byte
  c_g :: byte
  c_b :: byte
  c_a :: byte

definition rgb :: "byte \<Rightarrow> byte \<Rightarrow> byte \<Rightarrow> rgba" where
  "rgb r g b = \<lparr>c_r = r, c_g = g, c_b = b, c_a = 255\<rparr>"

definition rgba_raw :: "byte \<Rightarrow> byte \<Rightarrow> byte \<Rightarrow> byte \<Rightarrow> rgba" where
  "rgba_raw r g b a = \<lparr>c_r = r, c_g = g, c_b = b, c_a = a\<rparr>"

definition rgba_to_wire :: "rgba \<Rightarrow> byte list" where
  "rgba_to_wire c = [c_r c, c_g c, c_b c, c_a c]"

text \<open>The array deserializer accepts exactly four elements.\<close>

definition rgba_from_wire :: "byte list \<Rightarrow> rgba option" where
  "rgba_from_wire xs = (case xs of [r, g, b, a] \<Rightarrow> Some (rgba_raw r g b a) | _ \<Rightarrow> None)"

record byte_palette =
  bp_null :: rgba
  bp_all_bits :: rgba
  bp_whitespace :: rgba
  bp_printable :: rgba
  bp_control :: rgba
  bp_extended :: rgba

definition bg_dark :: byte_palette where
  "bg_dark =
     \<lparr>bp_null = rgb 60 60 64, bp_all_bits = rgb 140 110 42, bp_whitespace = rgb 46 78 120,
      bp_printable = rgb 46 104 64, bp_control = rgb 122 62 62, bp_extended = rgb 102 60 122\<rparr>"

definition bg_light :: byte_palette where
  "bg_light =
     \<lparr>bp_null = rgb 220 220 220, bp_all_bits = rgb 245 215 110, bp_whitespace = rgb 180 210 240,
      bp_printable = rgb 190 235 200, bp_control = rgb 240 190 190, bp_extended = rgb 225 195 240\<rparr>"

definition text_dark :: byte_palette where
  "text_dark =
     \<lparr>bp_null = rgb 144 144 148, bp_all_bits = rgb 214 174 96, bp_whitespace = rgb 128 176 218,
      bp_printable = rgb 136 200 152, bp_control = rgb 218 138 138, bp_extended = rgb 188 149 210\<rparr>"

definition text_light :: byte_palette where
  "text_light =
     \<lparr>bp_null = rgb 120 120 120, bp_all_bits = rgb 180 120 20, bp_whitespace = rgb 30 90 180,
      bp_printable = rgb 30 130 60, bp_control = rgb 180 50 50, bp_extended = rgb 130 40 170\<rparr>"

definition palette_for :: "bool \<Rightarrow> value_highlight \<Rightarrow> byte_palette" where
  "palette_for dark mode =
     (case mode of
        HighlightBackground \<Rightarrow> (if dark then bg_dark else bg_light)
      | HighlightText \<Rightarrow> (if dark then text_dark else text_light))"

definition palette_color :: "byte_palette \<Rightarrow> byte \<Rightarrow> rgba" where
  "palette_color p b =
     (case byte_class_of b of
        ClassNull \<Rightarrow> bp_null p
      | ClassAllBits \<Rightarrow> bp_all_bits p
      | ClassWhitespace \<Rightarrow> bp_whitespace p
      | ClassPrintable \<Rightarrow> bp_printable p
      | ClassControl \<Rightarrow> bp_control p
      | ClassExtended \<Rightarrow> bp_extended p)"

end
