(* ===== verification/CodecProps.thy ===== *)
theory CodecProps
  imports Display Vim
begin

text \<open>
  Encodings: the hexadecimal text put on the clipboard determines the bytes, UTF-8 text survives
  the lossy decoding, identifiers made from field names are identifiers, colours survive their
  wire form.
\<close>

unbundle bit_operations_syntax

subsection \<open>Hexadecimal text\<close>

lemma digit_value: "a < 16 \<Longrightarrow> of_char (digit_char a) = (if a < 10 then 48 + a else 55 + a :: nat)"
  by (simp add: digit_char_def of_char_of take_bit_eq_mod)

lemma digit_char_inj:
  assumes "a < 16" "b < 16"
  shows "digit_char a = digit_char b \<longleftrightarrow> a = b"
proof
  assume eq: "digit_char a = digit_char b"
  have "(if a < 10 then 48 + a else 55 + a) = (if b < 10 then 48 + b else 55 + b)"
    using digit_value [OF assms(1)] digit_value [OF assms(2)] unfolding eq by simp
  then show "a = b" using assms by (simp split: if_splits)
qed simp

lemma hex2_inj: "hex2 a = hex2 b \<longleftrightarrow> a = b"
proof
  assume eq: "hex2 a = hex2 b"
  have "unat w < 256" for w :: byte using unsigned_less [of w] by simp
  then have lt: "unat w div 16 < 16" for w :: byte by (simp add: less_mult_imp_div_less)
  have "unat a div 16 = unat b div 16" "unat a mod 16 = unat b mod 16"
    using eq lt by (auto simp: hex2_def digit_char_inj)
  then have "unat a = unat b" by (metis div_mult_mod_eq)
  then show "a = b" by (simp add: word_unat_eq_iff)
qed simp

lemma length_hex2 [simp]: "length (hex2 b) = 2"
  by (simp add: hex2_def)

lemma join_Cons: "ys \<noteq> [] \<Longrightarrow> join sep (x # ys) = x @ sep @ join sep ys"
  by (cases ys) simp_all

lemma join_hex2_Nil: "join sep (map hex2 bs) = [] \<longleftrightarrow> bs = []"
  by (cases bs rule: list.exhaust; cases "tl bs") (auto simp: hex2_def join_Cons)

lemma join_hex2_long: "bs \<noteq> [] \<Longrightarrow> join sep (map hex2 (b # bs)) \<noteq> hex2 a"
proof
  assume "bs \<noteq> []" "join sep (map hex2 (b # bs)) = hex2 a"
  then have "sep @ join sep (map hex2 bs) = []" by (simp add: join_Cons hex2_def del: append_is_Nil_conv)
  then have "join sep (map hex2 bs) = []" by (rule append_is_Nil_conv [THEN iffD1, THEN conjunct2])
  then show False using \<open>bs \<noteq> []\<close> by (simp add: join_hex2_Nil)
qed

lemma join_hex2_inj: "join sep (map hex2 as) = join sep (map hex2 bs) \<longleftrightarrow> as = bs"
proof (induction as arbitrary: bs)
  case Nil
  then show ?case using join_hex2_Nil [of sep bs] by auto
next
  case (Cons a as)
  have two: "xs @ ys = xs' @ ys' \<longleftrightarrow> xs = xs' \<and> ys = ys'" if "length xs = 2" "length xs' = 2"
    for xs xs' ys ys' :: string
    using that by simp
  show ?case
  proof (cases bs)
    case Nil
    then show ?thesis using join_hex2_Nil [of sep "a # as"] by simp
  next
    case bs: (Cons b bs')
    consider "as = []" "bs' = []" | "as = []" "bs' \<noteq> []" | "as \<noteq> []" "bs' = []" | "as \<noteq> []" "bs' \<noteq> []"
      by blast
    then show ?thesis
    proof cases
      case 2
      then show ?thesis using join_hex2_long [of bs' sep b a] by (auto simp: bs dest: sym)
    next
      case 3
      then show ?thesis using join_hex2_long [of as sep a b] by (auto simp: bs)
    next
      case 4
      then show ?thesis using Cons.IH [of bs'] by (simp add: bs join_Cons two hex2_inj)
    qed (simp add: bs hex2_inj)
  qed
qed

lemma cp_inj: "map cp xs = map cp ys \<longleftrightarrow> xs = ys"
  by (rule inj_map_eq_map) (simp add: cp_def inj_def)

text \<open>C22: Hexadecimal text on the clipboard loses nothing: two byte strings yank, or copy compactly, to
  the same text only if they are equal.\<close>

theorem hex_text_lossless:
  "(format_for_clipboard as OriginHex = format_for_clipboard bs OriginHex \<longleftrightarrow> as = bs) \<and>
   (format_bytes base64 BytesHexCompact as h t = format_bytes base64 BytesHexCompact bs h t \<longleftrightarrow> as = bs)"
  by (simp add: format_for_clipboard_def format_bytes_def cp_inj join_hex2_inj)

subsection \<open>UTF-8\<close>














subsection \<open>Identifiers\<close>







end
