(* ===== verification/Text.thy ===== *)
theory Text
  imports Utf8
begin

text \<open>
  The parts of the standard library's text handling that parsing user input rests on: trimming,
  splitting, and the integer parsers \<open>from_str_radix\<close> and \<open>str::parse\<close>. A string is the list of its
  code points.
\<close>

text \<open>\<open>char::is_whitespace\<close>: the code points with the Unicode property \<open>White_Space\<close>.\<close>

definition is_whitespace :: "code_point \<Rightarrow> bool" where
  "is_whitespace c \<longleftrightarrow>
     0x09 \<le> c \<and> c \<le> 0x0D \<or> c = 0x20 \<or> c = 0x85 \<or> c = 0xA0 \<or> c = 0x1680 \<or>
     0x2000 \<le> c \<and> c \<le> 0x200A \<or> c = 0x2028 \<or> c = 0x2029 \<or> c = 0x202F \<or> c = 0x205F \<or> c = 0x3000"

definition trim :: "chars \<Rightarrow> chars" where
  "trim cs = rev (dropWhile is_whitespace (rev (dropWhile is_whitespace cs)))"

fun strip_prefix :: "chars \<Rightarrow> chars \<Rightarrow> chars option" where
  "strip_prefix [] cs = Some cs"
| "strip_prefix (p # ps) [] = None"
| "strip_prefix (p # ps) (c # cs) = (if p = c then strip_prefix ps cs else None)"

text \<open>\<open>str::split_once\<close>: the text before and after the first occurrence.\<close>

fun split_once :: "chars \<Rightarrow> chars \<Rightarrow> (chars \<times> chars) option" where
  "split_once sep [] = (case strip_prefix sep [] of Some rest \<Rightarrow> Some ([], rest) | None \<Rightarrow> None)"
| "split_once sep (c # cs) =
     (case strip_prefix sep (c # cs) of
        Some rest \<Rightarrow> Some ([], rest)
      | None \<Rightarrow> map_option (\<lambda>(a, b). (c # a, b)) (split_once sep cs))"

subsection \<open>Integers\<close>

text \<open>Literals, and \<open>{}\<close> of an unsigned and of a signed number.\<close>

abbreviation lit :: "string \<Rightarrow> chars" where
  "lit s \<equiv> map cp s"

definition show_nat :: "nat \<Rightarrow> chars" where
  "show_nat n = lit (dec_str n)"

definition show_int :: "int \<Rightarrow> chars" where
  "show_int i = (if i < 0 then lit ''-'' @ show_nat (nat (- i)) else show_nat (nat i))"

text \<open>\<open>char::to_digit\<close>.\<close>

definition to_digit :: "nat \<Rightarrow> code_point \<Rightarrow> nat option" where
  "to_digit radix c =
     (let d = (if 0x30 \<le> c \<and> c \<le> 0x39 then c - 0x30
               else if 0x61 \<le> c \<and> c \<le> 0x7A then c - 0x61 + 10
               else if 0x41 \<le> c \<and> c \<le> 0x5A then c - 0x41 + 10
               else radix)
      in if d < radix then Some d else None)"

fun digits_value :: "nat \<Rightarrow> nat \<Rightarrow> chars \<Rightarrow> nat option" where
  "digits_value radix acc [] = Some acc"
| "digits_value radix acc (c # cs) =
     (case to_digit radix c of
        None \<Rightarrow> None
      | Some d \<Rightarrow> digits_value radix (acc * radix + d) cs)"

definition nonempty_digits :: "nat \<Rightarrow> chars \<Rightarrow> nat option" where
  "nonempty_digits radix cs = (if cs = [] then None else digits_value radix 0 cs)"

text \<open>
  \<open>from_str_radix\<close> of an unsigned and of a signed type with the given number of bits. A leading \<open>+\<close>
  is accepted by both, a leading \<open>-\<close> only by the signed one; \<open>None\<close> stands for every error.
\<close>

definition uint_from_str :: "nat \<Rightarrow> nat \<Rightarrow> chars \<Rightarrow> nat option" where
  "uint_from_str bits radix cs =
     (case nonempty_digits radix (case cs of c # ds \<Rightarrow> if c = cp (CHR ''+'') then ds else cs | [] \<Rightarrow> cs) of
        Some n \<Rightarrow> if n < 2 ^ bits then Some n else None
      | None \<Rightarrow> None)"

definition int_from_str :: "nat \<Rightarrow> nat \<Rightarrow> chars \<Rightarrow> int option" where
  "int_from_str bits radix cs =
     (case cs of
        [] \<Rightarrow> None
      | c # ds \<Rightarrow>
          if c = cp (CHR ''-'') then
            (case nonempty_digits radix ds of
               Some n \<Rightarrow> if n \<le> 2 ^ (bits - 1) then Some (- int n) else None
             | None \<Rightarrow> None)
          else
            (case nonempty_digits radix (if c = cp (CHR ''+'') then ds else cs) of
               Some n \<Rightarrow> if n < 2 ^ (bits - 1) then Some (int n) else None
             | None \<Rightarrow> None))"

subsection \<open>Facts\<close>

lemma cp_simps [simp]: "cp c = of_char c"
  by (simp add: cp_def)

lemma digits_value_append:
  "digits_value r acc (xs @ ys) = Option.bind (digits_value r acc xs) (\<lambda>a. digits_value r a ys)"
  by (induction xs arbitrary: acc) (auto split: option.splits)

lemma to_digit_digit_char:
  assumes "d < r" "r \<le> 16"
  shows "to_digit r (of_char (digit_char d)) = Some d"
proof -
  have "d < 16" using assms by simp
  then have "of_char (digit_char d) = (if d < 10 then 48 + d else 55 + d)"
    by (simp add: digit_char_def of_char_of)
  then show ?thesis using assms by (auto simp: to_digit_def Let_def)
qed

text \<open>Parsing what \<open>format!\<close> printed.\<close>

lemma digits_value_radix_str:
  assumes "2 \<le> r" "r \<le> 16"
  shows "digits_value r 0 (map cp (radix_str r n)) = Some n"
proof (induction n rule: less_induct)
  case (less n)
  show ?case
  proof (cases "n < r")
    case True
    then show ?thesis using assms by (simp add: radix_str.simps to_digit_digit_char)
  next
    case False
    then have "digits_value r 0 (map cp (radix_str r (n div r))) = Some (n div r)"
      using assms by (intro less) auto
    then show ?thesis
      using False assms by (subst radix_str.simps)
        (simp add: digits_value_append to_digit_digit_char mult.commute)
  qed
qed

lemma radix_str_not_Nil [simp]: "radix_str r n \<noteq> []"
  by (subst radix_str.simps) simp

end
