(* ===== verification/Bytes.thy ===== *)
theory Bytes
  imports Prelude
begin

text \<open>
  Integers and their bytes, as the standard library converts between them: \<open>from_le_bytes\<close>,
  \<open>to_le_bytes\<close> and the casts between the signed and the unsigned type of a width. The big-endian
  forms are these on the reversed list.
\<close>

definition num_le :: "bytes \<Rightarrow> nat" where
  "num_le bs = foldr (\<lambda>b n. unat b + 256 * n) bs 0"

text \<open>The lowest \<open>n\<close> bytes of a number.\<close>

definition le_bytes :: "nat \<Rightarrow> nat \<Rightarrow> bytes" where
  "le_bytes n v = map (\<lambda>i. of_nat (v div 256 ^ i)) [0 ..< n]"

definition to_signed :: "nat \<Rightarrow> nat \<Rightarrow> int" where
  "to_signed bits n = (if n < 2 ^ (bits - 1) then int n else int n - 2 ^ bits)"

definition to_unsigned :: "nat \<Rightarrow> int \<Rightarrow> nat" where
  "to_unsigned bits i = nat (i mod 2 ^ bits)"

subsection \<open>Laws\<close>

lemma num_le_Cons: "num_le (b # bs) = unat b + 256 * num_le bs"
  by (simp add: num_le_def)

lemma num_le_Nil [simp]: "num_le [] = 0"
  by (simp add: num_le_def)

lemma num_le_zeros: "num_le (bs @ replicate n 0) = num_le bs"
proof -
  have "num_le (replicate n 0) = 0" by (induction n) (simp_all add: num_le_Cons)
  then show ?thesis by (induction bs) (simp_all add: num_le_Cons)
qed

lemma num_le_bound: "num_le bs < 2 ^ (8 * length bs)"
proof (induction bs)
  case (Cons b bs)
  have "unat b < 256" using unsigned_less [of b] by simp
  then have "unat b + 256 * num_le bs < 256 * Suc (num_le bs)" by simp
  also have "\<dots> \<le> 256 * 2 ^ (8 * length bs)" using Cons by simp
  finally show ?case by (simp add: num_le_Cons power_add)
qed simp

lemma length_le_bytes [simp]: "length (le_bytes n v) = n"
  by (simp add: le_bytes_def)

lemma le_bytes_0 [simp]: "le_bytes 0 v = []"
  by (simp add: le_bytes_def)

lemma le_bytes_Suc: "le_bytes (Suc n) v = of_nat v # le_bytes n (v div 256)"
  by (simp add: le_bytes_def upt_rec [of 0 "Suc n"] map_Suc_upt [symmetric] div_mult2_eq comp_def
      del: upt_Suc)

lemma num_le_bytes: "num_le (le_bytes n v) = v mod 256 ^ n"
proof (induction n arbitrary: v)
  case (Suc n)
  then show ?case
    by (simp add: le_bytes_Suc num_le_Cons unsigned_of_nat take_bit_eq_mod mod_mult2_eq)
qed simp

lemma to_signed_unsigned:
  assumes "0 < bits" "- (2 ^ (bits - 1)) \<le> i" "i < 2 ^ (bits - 1)"
  shows "to_signed bits (to_unsigned bits i) = i"
proof (cases "0 \<le> i")
  case True
  have "i < 2 ^ bits" using assms(3) by (smt (verit) power_increasing_iff diff_le_self)
  then show ?thesis using True assms by (simp add: to_signed_def to_unsigned_def nat_less_iff)
next
  case False
  have half: "(2::int) ^ bits = 2 * 2 ^ (bits - 1)" using assms(1) by (cases bits) simp_all
  have "i mod 2 ^ bits = i + 2 ^ bits"
    using False assms half mod_pos_pos_trivial [of "i + 2 ^ bits" "2 ^ bits"] by simp
  then show ?thesis using False assms half by (simp add: to_signed_def to_unsigned_def nat_less_iff)
qed

end
