(* ===== verification/Search.thy ===== *)
theory Search
  imports Source Text Bytes
begin

text \<open>
  \<open>hxy-panels/src/search.rs\<close>: what the user typed as a byte pattern, the search window, and the
  chunked scans over a source in both directions. A source whose read fails ends a scan without a
  match, as \<open>.ok()?\<close> does.
\<close>

datatype search_kind = KindText | KindHexBytes | KindNumber

datatype number_width = W8 | W16 | W32 | W64

fun width_bytes :: "number_width \<Rightarrow> nat" where
  "width_bytes W8 = 1"
| "width_bytes W16 = 2"
| "width_bytes W32 = 4"
| "width_bytes W64 = 8"

fun width_label :: "number_width \<Rightarrow> string" where
  "width_label W8 = ''8''"
| "width_label W16 = ''16''"
| "width_label W32 = ''32''"
| "width_label W64 = ''64''"

datatype endian = Little | Big

fun endian_label :: "endian \<Rightarrow> string" where
  "endian_label Little = ''LE''"
| "endian_label Big = ''BE''"

datatype encode_error =
    EncodeEmpty
  | BadHex chars
  | BadNumber chars nat
  | NumberOverflow chars nat string

fun show_encode_error :: "encode_error \<Rightarrow> chars" where
  "show_encode_error EncodeEmpty = map cp ''query is empty''"
| "show_encode_error (BadHex s) = map cp ''hex byte string is malformed: '' @ s"
| "show_encode_error (BadNumber input radix) =
     map cp (''number does not parse as '' @ dec_str radix @ '': '') @ input"
| "show_encode_error (NumberOverflow v n sign) =
     map cp ''number '' @ v @ map cp ('' does not fit in '' @ dec_str n @ ''-byte '' @ sign)"

subsection \<open>Encoding a query\<close>

text \<open>\<open>str::from_utf8\<close> of two bytes.\<close>

definition utf8_pair :: "byte \<Rightarrow> byte \<Rightarrow> chars option" where
  "utf8_pair b c =
     (if b < 0x80 \<and> c < 0x80 then Some [unat b, unat c]
      else if utf8_width b = 2 \<and> cont c then Some [fst (utf8_head b [c])]
      else None)"

text \<open>The loop over pairs of bytes; \<open>s\<close> is the query, for the error.\<close>

fun hex_pairs :: "chars \<Rightarrow> bytes \<Rightarrow> (encode_error, bytes) res" where
  "hex_pairs s [] = Ok []"
| "hex_pairs s [b] = Panic"
| "hex_pairs s (b # c # bs) =
     (case utf8_pair b c of
        None \<Rightarrow> Err (BadHex s)
      | Some pair \<Rightarrow>
          (case uint_from_str 8 16 pair of
             None \<Rightarrow> Err (BadHex pair)
           | Some v \<Rightarrow> res_bind (hex_pairs s bs) (\<lambda>out. Ok (of_nat v # out))))"

definition parse_hex_bytes :: "chars \<Rightarrow> (encode_error, bytes) res" where
  "parse_hex_bytes s =
     (let collapsed = filter (\<lambda>c. \<not> is_whitespace c) s; bs = utf8_encode collapsed in
      if collapsed = [] then Err EncodeEmpty
      else if odd (length bs)
      then Err (BadHex (map cp (''odd nibble count ('' @ dec_str (length bs) @ '')'')))
      else hex_pairs s bs)"

definition strip_radix :: "chars \<Rightarrow> nat \<times> chars" where
  "strip_radix s =
     (let pre = (\<lambda>a b. case strip_prefix (map cp a) s of
                    Some rest \<Rightarrow> Some rest | None \<Rightarrow> strip_prefix (map cp b) s)
      in case pre ''0x'' ''0X'' of Some rest \<Rightarrow> (16, rest)
       | None \<Rightarrow> (case pre ''0b'' ''0B'' of Some rest \<Rightarrow> (2, rest)
       | None \<Rightarrow> (case pre ''0o'' ''0O'' of Some rest \<Rightarrow> (8, rest)
       | None \<Rightarrow> (10, s))))"

text \<open>
  \<open>-mag\<close> of an \<open>i128\<close>: the one magnitude that has no negation stands for itself, with the
  wrap-around of a release build.
\<close>

definition parse_signed :: "chars \<Rightarrow> (encode_error, int) res" where
  "parse_signed s =
     (let (negative, rest) = (case strip_prefix (map cp ''-'') s of
             Some r \<Rightarrow> (True, r) | None \<Rightarrow> (False, s));
          (radix, body) = strip_radix rest
      in case int_from_str 128 radix body of
           None \<Rightarrow> Err (BadNumber s radix)
         | Some mag \<Rightarrow> Ok (if negative \<and> mag \<noteq> - (2 ^ 127) then - mag else mag))"

definition parse_unsigned :: "chars \<Rightarrow> (encode_error, nat) res" where
  "parse_unsigned s =
     (let (radix, body) = strip_radix s in
      case uint_from_str 128 radix body of
        None \<Rightarrow> Err (BadNumber s radix)
      | Some v \<Rightarrow> Ok v)"

definition emit_with_endian :: "nat \<Rightarrow> nat \<Rightarrow> endian \<Rightarrow> bytes" where
  "emit_with_endian v n e = (case e of Little \<Rightarrow> le_bytes n v | Big \<Rightarrow> rev (le_bytes n v))"

definition encode_number :: "chars \<Rightarrow> number_width \<Rightarrow> bool \<Rightarrow> endian \<Rightarrow> (encode_error, bytes) res" where
  "encode_number s width is_signed e =
     (let n = width_bytes width in
      if is_signed then
        res_bind (parse_signed s) (\<lambda>v.
          if v < - (2 ^ (8 * n - 1)) \<or> v > 2 ^ (8 * n - 1) - 1
          then Err (NumberOverflow s n ''signed integer'')
          else Ok (emit_with_endian (nat (v mod 2 ^ (8 * n))) n e))
      else
        res_bind (parse_unsigned s) (\<lambda>v.
          if v > 2 ^ (8 * n) - 1 then Err (NumberOverflow s n ''unsigned integer'')
          else Ok (emit_with_endian v n e)))"

definition encode_query ::
  "search_kind \<Rightarrow> chars \<Rightarrow> number_width \<Rightarrow> bool \<Rightarrow> endian \<Rightarrow> (encode_error, bytes) res" where
  "encode_query kind query width is_signed e =
     (let trimmed = trim query in
      if trimmed = [] then Err EncodeEmpty
      else case kind of
        KindText \<Rightarrow> Ok (utf8_encode trimmed)
      | KindHexBytes \<Rightarrow> parse_hex_bytes trimmed
      | KindNumber \<Rightarrow> encode_number trimmed width is_signed e)"

subsection \<open>Scanning\<close>

definition scan_chunk :: nat where
  "scan_chunk = 64 * 1024"

text \<open>Whether the pattern stands at a position, and the first and last position where it does.\<close>

definition occurs :: "bytes \<Rightarrow> bytes \<Rightarrow> nat \<Rightarrow> bool" where
  "occurs v pat i \<longleftrightarrow> slice i (i + length pat) v = pat"

definition find_in_slice :: "bytes \<Rightarrow> bytes \<Rightarrow> nat option" where
  "find_in_slice haystack needle =
     (if needle = [] \<or> length haystack < length needle then None
      else find (occurs haystack needle) [0 ..< Suc (length haystack) - length needle])"

definition find_last_in_slice :: "bytes \<Rightarrow> bytes \<Rightarrow> nat option" where
  "find_last_in_slice haystack needle =
     (if needle = [] \<or> length haystack < length needle then None
      else find (occurs haystack needle) (rev [0 ..< Suc (length haystack) - length needle]))"

definition read_window :: "hex_source \<Rightarrow> nat \<Rightarrow> nat \<Rightarrow> bytes option" where
  "read_window src a b = res_ok (res_bind (range_new a b) (hs_read src))"

function forward_loop :: "hex_source \<Rightarrow> bytes \<Rightarrow> nat \<Rightarrow> nat \<Rightarrow> nat option" where
  "forward_loop src pat en pos =
     (if pos < en then
        let chunk_end = min (pos + scan_chunk) en;
            read_end = min (min (chunk_end + length pat - 1) en) (hs_len src)
        in if read_end \<le> pos then None
           else case read_window src pos read_end of None \<Rightarrow> None
           | Some buf \<Rightarrow>
              (case find_in_slice buf pat of
                 Some idx \<Rightarrow> Some (pos + idx)
               | None \<Rightarrow> if chunk_end \<ge> en then None else forward_loop src pat en chunk_end)
      else None)"
  by pat_completeness auto
termination
  by (relation "measure (\<lambda>(src, pat, en, pos). en - pos)") (auto simp: scan_chunk_def)

function backward_loop :: "hex_source \<Rightarrow> bytes \<Rightarrow> nat \<Rightarrow> nat \<Rightarrow> nat \<Rightarrow> nat option" where
  "backward_loop src pat start en pos =
     (if pos > start then
        let chunk_start = max (pos - scan_chunk) start;
            read_end = min (min (pos + length pat - 1) en) (hs_len src)
        in if read_end \<le> chunk_start then None
           else case read_window src chunk_start read_end of None \<Rightarrow> None
           | Some buf \<Rightarrow>
              (case find_last_in_slice buf pat of
                 Some idx \<Rightarrow> Some (chunk_start + idx)
               | None \<Rightarrow>
                   if chunk_start = start then None
                   else backward_loop src pat start en chunk_start)
      else None)"
  by pat_completeness auto
termination
  by (relation "measure (\<lambda>(src, pat, start, en, pos). pos)") (auto simp: scan_chunk_def max_def)

declare forward_loop.simps [simp del] backward_loop.simps [simp del]

definition scan_forward :: "hex_source \<Rightarrow> bytes \<Rightarrow> nat \<Rightarrow> nat \<Rightarrow> nat option" where
  "scan_forward src pat start en =
     (if pat = [] \<or> en < length pat \<or> start + length pat > en then None
      else forward_loop src pat en start)"

definition scan_backward :: "hex_source \<Rightarrow> bytes \<Rightarrow> nat \<Rightarrow> nat \<Rightarrow> nat option" where
  "scan_backward src pat start en =
     (if pat = [] \<or> en < length pat \<or> start + length pat > en then None
      else backward_loop src pat start en en)"

definition clip_bounds :: "byte_range \<Rightarrow> nat \<Rightarrow> byte_range" where
  "clip_bounds b n =
     (let lo = min (br_start b) n; hi = min (br_end b) n
      in \<lparr>br_start = min lo hi, br_end = hi\<rparr>)"

record match_hit =
  mh_offset :: nat
  mh_wrapped :: bool

definition find_next :: "hex_source \<Rightarrow> bytes \<Rightarrow> nat \<Rightarrow> bool \<Rightarrow> byte_range \<Rightarrow> match_hit option" where
  "find_next src pat from0 wrap bounds0 =
     (if pat = [] then None
      else let bounds = clip_bounds bounds0 (hs_len src); lo = br_start bounds; hi = br_end bounds in
        if hi - lo < length pat then None
        else let from = max lo (min from0 hi) in
          case scan_forward src pat from hi of
            Some off \<Rightarrow> Some \<lparr>mh_offset = off, mh_wrapped = False\<rparr>
          | None \<Rightarrow>
              if wrap \<and> from > lo
              then map_option (\<lambda>off. \<lparr>mh_offset = off, mh_wrapped = True\<rparr>)
                     (scan_forward src pat lo (min (from + length pat - 1) hi))
              else None)"

definition find_prev :: "hex_source \<Rightarrow> bytes \<Rightarrow> nat \<Rightarrow> bool \<Rightarrow> byte_range \<Rightarrow> match_hit option" where
  "find_prev src pat from0 wrap bounds0 =
     (if pat = [] then None
      else let bounds = clip_bounds bounds0 (hs_len src); lo = br_start bounds; hi = br_end bounds in
        if hi - lo < length pat then None
        else let from = max lo (min from0 hi) in
          case scan_backward src pat lo from of
            Some off \<Rightarrow> Some \<lparr>mh_offset = off, mh_wrapped = False\<rparr>
          | None \<Rightarrow>
              if wrap
              then map_option (\<lambda>off. \<lparr>mh_offset = off, mh_wrapped = True\<rparr>)
                     (scan_backward src pat (max (from - (length pat - 1)) lo) hi)
              else None)"

text \<open>A scan that finds something started before the end, at or before its result.\<close>

lemma forward_loop_ge: "forward_loop src pat en pos = Some i \<Longrightarrow> pos \<le> i \<and> pos < en"
proof (induction "en - pos" arbitrary: pos rule: less_induct)
  case less
  let ?next = "min (pos + scan_chunk) en"
  have pos: "pos < en" using less.prems by (subst (asm) forward_loop.simps) (simp split: if_splits)
  from less.prems have "pos \<le> i \<or> ?next < en \<and> forward_loop src pat en ?next = Some i"
    by (subst (asm) forward_loop.simps) (auto simp: Let_def not_le split: if_splits option.splits)
  then show ?case
  proof (elim disjE conjE)
    assume run: "?next < en" "forward_loop src pat en ?next = Some i"
    have next_gt: "pos < ?next" using pos by (simp add: scan_chunk_def)
    then have "en - ?next < en - pos" using pos by linarith
    then have "?next \<le> i" using less.hyps run(2) by blast
    then show ?thesis using next_gt pos by linarith
  qed (use pos in simp)
qed

lemma scan_forward_ge: "scan_forward src pat start en = Some i \<Longrightarrow> start \<le> i \<and> start < en"
  using forward_loop_ge by (auto simp: scan_forward_def split: if_splits)

function all_loop :: "hex_source \<Rightarrow> bytes \<Rightarrow> nat \<Rightarrow> nat \<Rightarrow> nat list" where
  "all_loop src pat hi from =
     (case scan_forward src pat from hi of
        None \<Rightarrow> []
      | Some off \<Rightarrow> off # all_loop src pat hi (off + 1))"
  by pat_completeness auto
termination
  by (relation "measure (\<lambda>(src, pat, hi, from). hi - from)") (auto dest!: scan_forward_ge)

declare all_loop.simps [simp del]

definition find_all :: "hex_source \<Rightarrow> bytes \<Rightarrow> byte_range \<Rightarrow> nat list" where
  "find_all src pat bounds0 =
     (if pat = [] then []
      else let bounds = clip_bounds bounds0 (hs_len src); lo = br_start bounds; hi = br_end bounds in
        if hi - lo < length pat then [] else all_loop src pat hi lo)"

end
