(* ===== verification/Replace.thy ===== *)
theory Replace
  imports Editor Search
begin

text \<open>
  \<open>hxy-panels/src/search.rs\<close> (the state of the search bar) and \<open>hxy/src/search/replace.rs\<close>
  (replacing one match or all of them): the two meet the document only through its writes, splices
  and batches. Of an open file, the record holds the two fields that replacing uses.
\<close>

datatype search_scope = ScopeFile | ScopeSelection nat nat

definition scope_bounds :: "search_scope \<Rightarrow> nat \<Rightarrow> byte_range" where
  "scope_bounds s n =
     (let (lo, hi) = (case s of
             ScopeFile \<Rightarrow> (0, n)
           | ScopeSelection start end_exclusive \<Rightarrow> (min start n, min end_exclusive n))
      in \<lparr>br_start = min lo hi, br_end = hi\<rparr>)"

record deferred_replace =
  dr_offset :: nat
  dr_find_len :: nat
  dr_replace_len :: nat

record deferred_replace_all =
  da_matches :: "nat list"
  da_find_len :: nat
  da_replace_len :: nat

datatype search_effect =
    WrappedForward
  | WrappedBackward
  | NeedsLengthMismatchAck deferred_replace
  | NeedsReplaceAllConfirm deferred_replace_all
  | Replaced nat

record search_state =
  sr_open :: bool
  sr_kind :: search_kind
  sr_query :: chars
  sr_width :: number_width
  sr_signed :: bool
  sr_endian :: endian
  sr_all_results :: bool
  sr_pattern :: "bytes option"
  sr_error :: "chars option"
  sr_matches :: "nat list"
  sr_active_idx :: "nat option"
  sr_serial :: nat
  sr_replace_open :: bool
  sr_replace_query :: chars
  sr_replace_pattern :: "bytes option"
  sr_replace_error :: "chars option"
  sr_acked :: bool
  sr_scope :: search_scope
  sr_effects :: "search_effect list"

definition search_default :: search_state where
  "search_default =
     \<lparr>sr_open = False, sr_kind = KindHexBytes, sr_query = [], sr_width = W32, sr_signed = False,
      sr_endian = Little, sr_all_results = False, sr_pattern = None, sr_error = None,
      sr_matches = [], sr_active_idx = None, sr_serial = 0, sr_replace_open = False,
      sr_replace_query = [], sr_replace_pattern = None, sr_replace_error = None, sr_acked = False,
      sr_scope = ScopeFile, sr_effects = []\<rparr>"

text \<open>The pattern and the error that an encoded query leaves.\<close>

text \<open>The search over every open file keeps a query of its own and the matches with their file.\<close>

record 'i global_match =
  gm_file_id :: 'i
  gm_offset :: nat

datatype global_search_event = GlobalRefresh | GlobalRun | GlobalClose | GlobalJumpTo nat

record 'i global_search_state =
  gs_open :: bool
  gs_query_state :: search_state
  gs_matches :: "'i global_match list"
  gs_active_idx :: "nat option"

definition global_search_default :: "'i global_search_state" where
  "global_search_default =
     \<lparr>gs_open = False,
      gs_query_state = search_default
        \<lparr>sr_kind := KindHexBytes, sr_width := W32, sr_signed := False, sr_endian := Little,
         sr_all_results := True\<rparr>,
      gs_matches = [], gs_active_idx = None\<rparr>"

definition encoded_pattern :: "(encode_error, bytes) res \<Rightarrow> (bytes option \<times> chars option) option" where
  "encoded_pattern r =
     (case r of
        Ok bs \<Rightarrow> Some (if bs = [] then None else Some bs, None)
      | Err EncodeEmpty \<Rightarrow> Some (None, None)
      | Err e \<Rightarrow> Some (None, Some (show_encode_error e))
      | Panic \<Rightarrow> None)"

definition refresh_pattern :: "search_state \<Rightarrow> ('e, search_state) res" where
  "refresh_pattern s =
     (case encoded_pattern (encode_query (sr_kind s) (sr_query s) (sr_width s) (sr_signed s) (sr_endian s)) of
        None \<Rightarrow> Panic
      | Some (pattern, error) \<Rightarrow>
          Ok (s\<lparr>sr_pattern := pattern, sr_error := error, sr_matches := [], sr_active_idx := None,
                sr_serial := wadd64 (sr_serial s) 1, sr_acked := False\<rparr>))"

definition refresh_replace_pattern :: "search_state \<Rightarrow> ('e, search_state) res" where
  "refresh_replace_pattern s =
     (case encoded_pattern
             (encode_query (sr_kind s) (sr_replace_query s) (sr_width s) (sr_signed s) (sr_endian s)) of
        None \<Rightarrow> Panic
      | Some (pattern, error) \<Rightarrow>
          Ok (s\<lparr>sr_replace_pattern := pattern, sr_replace_error := error, sr_acked := False\<rparr>))"

definition replace_changes_length :: "search_state \<Rightarrow> bool option" where
  "replace_changes_length s =
     (case (sr_pattern s, sr_replace_pattern s) of
        (Some f, Some r) \<Rightarrow> Some (length f \<noteq> length r)
      | _ \<Rightarrow> None)"

subsection \<open>Replacing\<close>

record 'p open_file =
  of_editor :: "'p hex_editor"
  of_search :: search_state

definition push_effect :: "search_effect \<Rightarrow> 'p open_file \<Rightarrow> 'p open_file" where
  "push_effect e file =
     file\<lparr>of_search := (of_search file)\<lparr>sr_effects := sr_effects (of_search file) @ [e]\<rparr>\<rparr>"

text \<open>What follows a replacement: the pattern is derived again, and the prompt stays acknowledged.\<close>

definition after_replace :: "nat \<Rightarrow> 'p open_file \<Rightarrow> ('e, 'p open_file) res" where
  "after_replace n file =
     (let file = push_effect (Replaced n) file
      in res_bind (refresh_pattern (of_search file)) (\<lambda>s. Ok (file\<lparr>of_search := s\<lparr>sr_acked := True\<rparr>\<rparr>)))"

definition perform_replace_current ::
  "('p, 'm) suture \<Rightarrow> nat \<Rightarrow> nat \<Rightarrow> bytes \<Rightarrow> bytes \<Rightarrow> 'p open_file \<Rightarrow> (write_error, 'p open_file) res" where
  "perform_replace_current P now offset fnd repl file =
     (case (if length fnd = length repl
            then he_request_write P now offset repl (of_editor file)
            else he_splice P now offset (length fnd) repl (of_editor file)) of
        (Panic, ed) \<Rightarrow> Panic
      | (Err e, ed) \<Rightarrow> Ok (file\<lparr>of_editor := ed\<rparr>)
      | (Ok _, ed) \<Rightarrow>
          after_replace 1
            (file\<lparr>of_editor := set_selection (Some (caret (wadd64 offset (length repl)))) ed\<rparr>))"

definition queue_replace_current ::
  "('p, 'm) suture \<Rightarrow> nat \<Rightarrow> 'p open_file \<Rightarrow> (write_error, 'p open_file) res" where
  "queue_replace_current P now file =
     (case (sr_pattern (of_search file), sr_replace_pattern (of_search file), he_selection (of_editor file)) of
        (Some fnd, Some repl, Some sel) \<Rightarrow>
          res_bind (sel_range sel) (\<lambda>r.
            let offset = min (sel_anchor sel) (sel_cursor sel) in
            if range_len r \<noteq> length fnd then Ok file
            else if length fnd \<noteq> length repl \<and> \<not> sr_acked (of_search file)
            then Ok (push_effect (NeedsLengthMismatchAck
                   \<lparr>dr_offset = offset, dr_find_len = length fnd, dr_replace_len = length repl\<rparr>) file)
            else perform_replace_current P now offset fnd repl file)
      | _ \<Rightarrow> Ok file)"

definition queue_replace_all :: "('p, 'm) suture \<Rightarrow> byte_range \<Rightarrow> 'p open_file \<Rightarrow> 'p open_file" where
  "queue_replace_all P bounds file =
     (case (sr_pattern (of_search file), sr_replace_pattern (of_search file)) of
        (Some fnd, Some repl) \<Rightarrow>
          (let matches = find_all (he_source P (of_editor file)) fnd bounds
           in if matches = [] then file
              else push_effect (NeedsReplaceAllConfirm
                     \<lparr>da_matches = matches, da_find_len = length fnd, da_replace_len = length repl\<rparr>) file)
      | _ \<Rightarrow> file)"

definition perform_replace_all ::
  "('p, 'm) suture \<Rightarrow> nat \<Rightarrow> nat list \<Rightarrow> nat \<Rightarrow> bytes \<Rightarrow> 'p open_file \<Rightarrow> (write_error, 'p open_file) res" where
  "perform_replace_all P now matches find_len repl file =
     (if matches = [] then Ok file
      else case he_splice_many P now (map (\<lambda>off. (off, find_len, repl)) matches) (of_editor file) of
        (Panic, ed) \<Rightarrow> Panic
      | (Err e, ed) \<Rightarrow> Ok (file\<lparr>of_editor := ed\<rparr>)
      | (Ok _, ed) \<Rightarrow> after_replace (length matches) (file\<lparr>of_editor := ed\<rparr>))"

end
