(* ===== verification/SearchProps.thy ===== *)
theory SearchProps
  imports Search
begin

text \<open>
  The scans find what a search of the whole content would: the nearest match in either direction
  with or without wrapping, and every match, overlapping ones included. Chunk boundaries are
  invisible.
\<close>

subsection \<open>Searching lists\<close>

lemma find_append:
  "find P (xs @ ys) = (case find P xs of None \<Rightarrow> find P ys | Some x \<Rightarrow> Some x)"
  by (induction xs) auto

lemma find_map: "find P (map f xs) = map_option f (find (\<lambda>i. P (f i)) xs)"
  by (induction xs) auto

lemma upt_shift: "[k ..< k + n] = map ((+) k) [0 ..< n]"
proof -
  have "map ((+) k) [0 ..< n] = map (\<lambda>i. i + k) [0 ..< n]" by (simp add: add.commute)
  also have "\<dots> = [k ..< k + n]" unfolding map_add_upt by (simp add: add.commute)
  finally show ?thesis by simp
qed

lemma find_Min:
  fixes a b :: nat
  shows "find P [a ..< b] =
    (if \<exists>i. a \<le> i \<and> i < b \<and> P i then Some (Min {i. a \<le> i \<and> i < b \<and> P i}) else None)"
proof (cases "find P [a ..< b]")
  case None
  then show ?thesis by (auto simp: find_None_iff)
next
  case (Some x)
  then obtain k where k: "k < b - a" "P (a + k)" "x = a + k" "\<forall>j < k. \<not> P (a + j)"
    by (auto simp: find_Some_iff)
  have "Min {i. a \<le> i \<and> i < b \<and> P i} = x"
  proof (rule Min_eqI)
    show "x \<le> i" if "i \<in> {i. a \<le> i \<and> i < b \<and> P i}" for i
      using that k(3,4) by (metis (mono_tags, lifting) le_add_diff_inverse mem_Collect_eq nat_add_left_cancel_less not_le)
  qed (use k in auto)
  moreover have "\<exists>i. a \<le> i \<and> i < b \<and> P i" using k by (intro exI [of _ "a + k"]) auto
  ultimately show ?thesis using Some by auto
qed


subsection \<open>One window\<close>

lemma occurs_slice:
  "a + i + length pat \<le> b \<Longrightarrow> occurs (slice a b v) pat i = occurs v pat (a + i)"
  by (simp add: occurs_def slice_slice add.assoc)

lemma find_in_window:
  assumes "pat \<noteq> []" "a \<le> b" "b \<le> length v"
  shows "map_option ((+) a) (find_in_slice (slice a b v) pat) = find (occurs v pat) [a ..< Suc b - length pat]"
    and "map_option ((+) a) (find_last_in_slice (slice a b v) pat) =
      find (occurs v pat) (rev [a ..< Suc b - length pat])"
proof -
  let ?w = "slice a b v" and ?n = "Suc (b - a) - length pat"
  have len: "length ?w = b - a" using assms by simp
  have occ: "find (occurs ?w pat) xs = find (\<lambda>i. occurs v pat (a + i)) xs"
    if "set xs \<subseteq> {0 ..< ?n}" for xs
    using that assms(2) by (intro find_cong refl occurs_slice) auto
  have n: "[a ..< Suc b - length pat] = map ((+) a) [0 ..< ?n]"
    using assms(2) unfolding upt_shift [symmetric]
    by (cases "length pat \<le> b - a") (auto simp: Suc_diff_le)
  have short: "?n = 0" if "b - a < length pat" using that by simp
  show "map_option ((+) a) (find_in_slice ?w pat) = find (occurs v pat) [a ..< Suc b - length pat]"
    using short unfolding n find_map find_in_slice_def len by (auto simp: assms(1) occ)
  show "map_option ((+) a) (find_last_in_slice ?w pat) = find (occurs v pat) (rev [a ..< Suc b - length pat])"
    using short unfolding n rev_map find_map find_last_in_slice_def len by (auto simp: assms(1) occ)
qed

lemma read_window_in:
  assumes "stores src v" "a \<le> b" "b \<le> length v"
  shows "read_window src a b = Some (slice a b v)"
  using byte_store.read_in [OF assms(1), of "\<lparr>br_start = a, br_end = b\<rparr>"] byte_store.len_content [OF assms(1)]
    assms(2,3) by (simp add: read_window_def)

subsection \<open>The scans\<close>

lemma upt_cut: "a \<le> m \<Longrightarrow> m \<le> b \<Longrightarrow> [a ..< b] = [a ..< m] @ [m ..< b]"
  using upt_add_eq_append [of a m "b - m"] by simp

text \<open>The window of a chunk holds exactly the matches that start in the chunk.\<close>

lemma window_end:
  fixes c en n :: nat
  assumes "0 < n" "c \<le> en"
  shows "Suc (min (c + n - 1) en) - n = min c (Suc en - n)"
  using assms by (auto simp: min_def)

lemma case_map_shift:
  "(case x of None \<Rightarrow> d | Some i \<Rightarrow> Some (k + i)) = (case map_option ((+) k) x of None \<Rightarrow> d | Some i \<Rightarrow> Some i)"
  by (cases x) simp_all

lemma forward_loop_find:
  assumes st: "stores src v" and en: "en \<le> length v" and pat: "pat \<noteq> []"
  shows "pos \<le> en \<Longrightarrow> forward_loop src pat en pos = find (occurs v pat) [pos ..< Suc en - length pat]"
proof (induction "en - pos" arbitrary: pos rule: less_induct)
  case less
  let ?n = "length pat" and ?c = "min (pos + scan_chunk) en"
  let ?re = "min (?c + ?n - 1) en" and ?top = "Suc en - ?n"
  have n: "0 < ?n" using pat by simp
  show ?case
  proof (cases "pos < en")
    case False
    then have "?top \<le> pos" using n by linarith
    then show ?thesis using False by (subst forward_loop.simps) simp
  next
    case True
    have c: "pos < ?c" "?c \<le> en" using True by (simp_all add: scan_chunk_def)
    then have re: "pos < ?re" "?re \<le> en" using n by linarith+
    have read: "min ?re (hs_len src) = ?re"
      using re(2) en byte_store.len_content [OF st] by simp
    have w: "read_window src pos ?re = Some (slice pos ?re v)"
      using re en by (intro read_window_in [OF st]) auto
    have found: "map_option ((+) pos) (find_in_slice (slice pos ?re v) pat) =
        find (occurs v pat) [pos ..< min ?c ?top]"
      by (rule find_in_window(1) [OF pat less_imp_le [OF re(1)] order_trans [OF re(2) en],
            unfolded window_end [OF n c(2)]])
    have step: "forward_loop src pat en pos =
        (case find (occurs v pat) [pos ..< min ?c ?top] of None \<Rightarrow>
           if en \<le> ?c then None else forward_loop src pat en ?c
         | Some i \<Rightarrow> Some i)"
      unfolding found [symmetric] case_map_shift [symmetric] using True re(1) [folded not_le]
      by (subst forward_loop.simps) (simp only: Let_def read w if_True if_False option.case)
    show ?thesis
    proof (cases "?c < ?top")
      case True
      then have more: "?c < en" using n by linarith
      then have "forward_loop src pat en ?c = find (occurs v pat) [?c ..< ?top]"
        using c by (intro less) auto
      then show ?thesis
        using step more True c(1) upt_cut [of pos ?c ?top]
        by (simp add: find_append min_absorb1 less_imp_le split: option.split)
    next
      case False
      have "forward_loop src pat en ?c = None" if "?c < en"
      proof -
        have "forward_loop src pat en ?c = find (occurs v pat) [?c ..< ?top]"
          using c that by (intro less) auto
        then show ?thesis using False by (simp add: not_less)
      qed
      then show ?thesis using step False by (auto simp: min_absorb2 split: option.split)
    qed
  qed
qed


lemma scan_forward_find:
  assumes "stores src v" "en \<le> length v" "pat \<noteq> []" "start \<le> en"
  shows "scan_forward src pat start en = find (occurs v pat) [start ..< Suc en - length pat]"
proof (cases "start + length pat \<le> en")
  case True
  then show ?thesis using forward_loop_find [OF assms] assms(3) by (simp add: scan_forward_def)
next
  case False
  then show ?thesis using assms(3) by (auto simp: scan_forward_def)
qed


text \<open>The matches inside the bounds, as far as these are inside the content.\<close>

definition match_set :: "bytes \<Rightarrow> bytes \<Rightarrow> byte_range \<Rightarrow> nat set" where
  "match_set v pat b =
     {i. br_start b \<le> i \<and> i + length pat \<le> min (br_end b) (length v) \<and> occurs v pat i}"

lemma finite_match_set [simp]: "finite (match_set v pat b)"
  by (rule finite_subset [of _ "{.. length v}"]) (auto simp: match_set_def)

lemma match_set_filter:
  "pat \<noteq> [] \<Longrightarrow> match_set v pat b =
    set (filter (occurs v pat) [br_start b ..< Suc (min (br_end b) (length v)) - length pat])"
  by (auto simp: match_set_def)

lemma clip_match_set:
  assumes "pat \<noteq> []" "clip_bounds b (length v) = \<lparr>br_start = lo, br_end = hi\<rparr>"
  shows "match_set v pat b = {i. lo \<le> i \<and> i < Suc hi - length pat \<and> occurs v pat i}"
    and "lo \<le> hi" "hi \<le> length v" "match_set v pat b \<noteq> {} \<Longrightarrow> length pat \<le> hi - lo"
proof -
  have lh: "lo = min (min (br_start b) (length v)) (min (br_end b) (length v))"
    "hi = min (br_end b) (length v)"
    using assms(2) by (auto simp: clip_bounds_def Let_def)
  show "lo \<le> hi" "hi \<le> length v" unfolding lh by linarith+
  have n: "0 < length pat" using assms(1) by simp
  have "br_start b \<le> i \<and> i + length pat \<le> hi \<longleftrightarrow> lo \<le> i \<and> i < Suc hi - length pat" for i
  proof -
    have "i + length pat \<le> hi \<longleftrightarrow> i < Suc hi - length pat" using n by linarith
    moreover have "i < hi \<and> i < length v" if "i + length pat \<le> hi" using that n lh(2) by linarith
    ultimately show ?thesis unfolding lh(1) lh(2) [symmetric] by (auto simp: min_le_iff_disj)
  qed
  then show eq: "match_set v pat b = {i. lo \<le> i \<and> i < Suc hi - length pat \<and> occurs v pat i}"
    unfolding match_set_def lh(2) [symmetric] by blast
  show "length pat \<le> hi - lo" if "match_set v pat b \<noteq> {}"
    using that unfolding eq by (auto simp: less_diff_conv)
qed

text \<open>C25: The forward search returns the nearest match that starts at or after the given position
  inside the bounds; when there is none and wrapping is asked for, the first match in the bounds.
  The chunks it reads the source in make no difference.\<close>

theorem find_next_nearest:
  assumes "stores src v" "pat \<noteq> []"
  shows "find_next src pat from wrap b =
    (let M = match_set v pat b in
     if \<exists>i\<in>M. from \<le> i then Some \<lparr>mh_offset = Min {i \<in> M. from \<le> i}, mh_wrapped = False\<rparr>
     else if wrap \<and> M \<noteq> {} then Some \<lparr>mh_offset = Min M, mh_wrapped = True\<rparr> else None)"
proof -
  obtain lo hi where clip: "clip_bounds b (length v) = \<lparr>br_start = lo, br_end = hi\<rparr>"
    by (cases "clip_bounds b (length v)") auto
  note M = clip_match_set [OF assms(2) clip]
  have len: "hs_len src = length v" by (rule byte_store.len_content [OF assms(1)])
  define f where "f = max lo (min from hi)"
  have f: "lo \<le> f" "f \<le> hi" using M(2) by (auto simp: f_def)
  have n: "0 < length pat" using assms(2) by simp
  have after: "f \<le> i \<and> i < Suc hi - length pat \<and> occurs v pat i \<longleftrightarrow> i \<in> match_set v pat b \<and> from \<le> i" for i
  proof -
    have "i < Suc hi - length pat \<Longrightarrow> i < hi" using n by linarith
    then show ?thesis unfolding M(1) f_def by (auto simp: min_le_iff_disj)
  qed
  show ?thesis
  proof (cases "length pat \<le> hi - lo")
    case False
    then have "match_set v pat b = {}" using M(4) by blast
    then show ?thesis using False by (simp add: find_next_def len clip not_le)
  next
    case True
    have fwd: "scan_forward src pat f hi =
        (if \<exists>i \<in> match_set v pat b. from \<le> i then Some (Min {i \<in> match_set v pat b. from \<le> i}) else None)"
      unfolding scan_forward_find [OF assms(1) M(3) assms(2) f(2)] find_Min after by auto
    have run: "find_next src pat from wrap b =
        (case scan_forward src pat f hi of
           Some off \<Rightarrow> Some \<lparr>mh_offset = off, mh_wrapped = False\<rparr>
         | None \<Rightarrow> if wrap \<and> lo < f
             then map_option (\<lambda>off. \<lparr>mh_offset = off, mh_wrapped = True\<rparr>)
               (scan_forward src pat lo (min (f + length pat - 1) hi)) else None)"
      using True assms(2) by (simp add: find_next_def len clip f_def [symmetric] not_less [symmetric])
    show ?thesis
    proof (cases "\<exists>i \<in> match_set v pat b. from \<le> i")
      case True
      then show ?thesis unfolding run fwd by simp
    next
      case False
      let ?e = "min (f + length pat - 1) hi"
      have before: "lo \<le> i \<and> i < Suc ?e - length pat \<and> occurs v pat i \<longleftrightarrow> i \<in> match_set v pat b" for i
        using after [of i] False n unfolding M(1) by (auto simp: min_def)
      have e: "lo \<le> ?e" "?e \<le> length v" using f n M(2,3) by linarith+
      have "scan_forward src pat lo ?e =
          (if \<exists>i. i \<in> match_set v pat b then Some (Min {i. i \<in> match_set v pat b}) else None)"
        unfolding scan_forward_find [OF assms(1) e(2) assms(2) e(1)] find_Min before ..
      moreover have "lo < f" if ne: "match_set v pat b \<noteq> {}"
      proof -
        obtain i where i: "i \<in> match_set v pat b" using ne by blast
        then have "lo \<le> i" by (simp add: M(1))
        moreover have "\<not> f \<le> i" using after [of i] i False by (auto simp: M(1))
        ultimately show ?thesis by simp
      qed
      ultimately show ?thesis unfolding run fwd using False by (auto simp: Let_def)
    qed
  qed
qed

text \<open>The content \<open>01 02 01 02 01\<close> and the pattern \<open>01 02\<close>.\<close>

lemma sample_matches: "match_set [1, 2, 1, 2, 1] [1, 2] \<lparr>br_start = 0, br_end = 5\<rparr> = {0, 2}"
  by (auto simp: match_set_filter occurs_def slice_def upt_rec)

theorem find_next_nearest_witness:
  "find_next (memory_source [1, 2, 1, 2, 1]) [1, 2] 1 True \<lparr>br_start = 0, br_end = 5\<rparr> =
     Some \<lparr>mh_offset = 2, mh_wrapped = False\<rparr>"
proof -
  have "{i \<in> {0, 2}. 1 \<le> i} = {2 :: nat}" by auto
  then show ?thesis
    using find_next_nearest [OF memory_stores, of "[1, 2]" "[1, 2, 1, 2, 1]" 1 True "\<lparr>br_start = 0, br_end = 5\<rparr>"]
    by (simp add: sample_matches)
qed



lemma find_all_eq:
  assumes "stores src v" "pat \<noteq> []"
  shows "find_all src pat b = sorted_list_of_set (match_set v pat b)"
proof -
  obtain lo hi where clip: "clip_bounds b (length v) = \<lparr>br_start = lo, br_end = hi\<rparr>"
    by (cases "clip_bounds b (length v)") auto
  note M = clip_match_set [OF assms(2) clip]
  have len: "hs_len src = length v" by (rule byte_store.len_content [OF assms(1)])
  let ?top = "Suc hi - length pat"
  have loop: "p \<le> hi \<Longrightarrow> all_loop src pat hi p = filter (occurs v pat) [p ..< ?top]" for p
  proof (induction "hi - p" arbitrary: p rule: less_induct)
    case less
    note scan = scan_forward_find [OF assms(1) M(3) assms(2) less.prems]
    show ?case
    proof (cases "find (occurs v pat) [p ..< ?top]")
      case None
      then have "filter (occurs v pat) [p ..< ?top] = []" by (auto simp: find_None_iff filter_empty_conv)
      then show ?thesis using None by (subst all_loop.simps) (simp add: scan)
    next
      case (Some i)
      then obtain k where k: "i = p + k" "k < ?top - p" "occurs v pat i" "\<forall>j < k. \<not> occurs v pat (p + j)"
        by (auto simp: find_Some_iff)
      have n: "0 < length pat" using assms(2) by simp
      have "p \<le> i" "i < ?top" using k(1,2) by auto
      moreover from this have "i + 1 \<le> hi" using n by linarith
      ultimately have i: "p \<le> i" "i < ?top" "i + 1 \<le> hi" .
      have skip: "filter (occurs v pat) [p ..< i] = []"
        using k(4) unfolding filter_empty_conv set_upt k(1)
        by (auto dest!: le_Suc_ex)
      have "filter (occurs v pat) [p ..< ?top] = i # filter (occurs v pat) [i + 1 ..< ?top]"
        using i k(3) skip upt_cut [of p i ?top] upt_conv_Cons [of i ?top] by simp
      moreover have "all_loop src pat hi (i + 1) = filter (occurs v pat) [i + 1 ..< ?top]"
        using i less.prems by (intro less.hyps) linarith+
      ultimately show ?thesis by (subst all_loop.simps) (simp add: scan Some)
    qed
  qed
  have "sorted_list_of_set (match_set v pat b) = filter (occurs v pat) [lo ..< ?top]"
  proof -
    have "match_set v pat b = set (filter (occurs v pat) [lo ..< ?top])" unfolding M(1) by auto
    then show ?thesis
      by (simp only: sorted_list_of_set.idem_if_sorted_distinct sorted_wrt_filter sorted_upt
          distinct_filter distinct_upt)
  qed
  moreover have "find_all src pat b = filter (occurs v pat) [lo ..< ?top]"
  proof (cases "length pat \<le> hi - lo")
    case True
    then show ?thesis using loop [OF M(2)] assms(2) by (simp add: find_all_def len clip)
  next
    case False
    then have "?top \<le> lo" by linarith
    then show ?thesis using False by (simp add: find_all_def len clip)
  qed
  ultimately show ?thesis by simp
qed

text \<open>C27: Find All lists exactly the positions in the bounds where the pattern stands, in ascending
  order, overlapping matches included.\<close>

theorem find_all_matches:
  assumes "stores src v" "pat \<noteq> []"
  shows "find_all src pat b = sorted_list_of_set (match_set v pat b)"
  by (rule find_all_eq [OF assms])

theorem find_all_matches_witness:
  "find_all (memory_source [1, 2, 1, 2, 1]) [1, 2] \<lparr>br_start = 0, br_end = 5\<rparr> = [0, 2]"
  using find_all_matches [OF memory_stores, of "[1, 2]" "[1, 2, 1, 2, 1]" "\<lparr>br_start = 0, br_end = 5\<rparr>"]
  by (simp add: sample_matches)

end
