(* ===== verification/ReplaceProps.thy ===== *)
theory ReplaceProps
  imports Replace SearchProps InputProps EditProps
begin

text \<open>
  Replace All: the batch built from the matches of Find All is the usual substitution from left to
  right when no two matches overlap; when two do, the document rejects the whole batch.
\<close>

subsection \<open>Encoding never panics\<close>






subsection \<open>Substitution\<close>











subsection \<open>Replacing in the document\<close>




end
