(* ===== verification/StringScan.thy ===== *)
theory StringScan
  imports Source Utf8 "HOL-Library.List_Lexorder"
begin

text \<open>
  \<open>hxy-panels/src/strings.rs\<close>: the extraction of printable runs from a byte range, read in chunks
  and decoded as ASCII, UTF-8 or UTF-16, and the sort orders of its results. The scanner keeps the
  run it is in, and the bytes of a character that a chunk boundary cut.
\<close>

unbundle bit_operations_syntax

definition default_min_length :: nat where
  "default_min_length = 4"

definition max_results :: nat where
  "max_results = 100000"

definition chunk_bytes_len :: nat where
  "chunk_bytes_len = 1024 * 1024"

datatype encoding = EncAscii | EncUtf8 | EncUtf16Le | EncUtf16Be

fun encoding_label :: "encoding \<Rightarrow> string" where
  "encoding_label EncAscii = ''ASCII''"
| "encoding_label EncUtf8 = ''UTF-8''"
| "encoding_label EncUtf16Le = ''UTF-16 LE''"
| "encoding_label EncUtf16Be = ''UTF-16 BE''"

record strings_config =
  sg_encoding :: encoding
  sg_min_length :: nat
  sg_range :: byte_range

definition strings_config_default :: strings_config where
  "strings_config_default =
     \<lparr>sg_encoding = EncAscii, sg_min_length = default_min_length,
      sg_range = \<lparr>br_start = 0, br_end = 0\<rparr>\<rparr>"

record string_entry =
  se_offset :: nat
  se_end :: nat
  se_text :: chars

definition entry_length :: "string_entry \<Rightarrow> nat" where
  "entry_length e = wsub64 (se_end e) (se_offset e)"

subsection \<open>Sort orders\<close>

datatype sort_column = ColOffset | ColEnd | ColLength | ColText

datatype sort_order = Asc sort_column | Desc sort_column

definition sort_order_default :: sort_order where
  "sort_order_default = Asc ColOffset"

fun order_column :: "sort_order \<Rightarrow> sort_column" where
  "order_column (Asc c) = c"
| "order_column (Desc c) = c"

fun is_descending :: "sort_order \<Rightarrow> bool" where
  "is_descending (Asc c) = False"
| "is_descending (Desc c) = True"

definition order_cycle :: "sort_column \<Rightarrow> sort_order \<Rightarrow> sort_order" where
  "order_cycle target s =
     (if order_column s = target then (if is_descending s then Asc target else Desc target)
      else Asc target)"

text \<open>A stable sort, by the key or by the reversed order on the key.\<close>

definition sort_by_key :: "bool \<Rightarrow> (string_entry \<Rightarrow> 'k :: linorder) \<Rightarrow> string_entry list \<Rightarrow> string_entry list" where
  "sort_by_key desc k es = (if desc then rev (sort_key k (rev es)) else sort_key k es)"

definition sort_entries :: "sort_order \<Rightarrow> string_entry list \<Rightarrow> string_entry list" where
  "sort_entries s es =
     (case order_column s of
        ColOffset \<Rightarrow> sort_by_key (is_descending s) se_offset es
      | ColEnd \<Rightarrow> sort_by_key (is_descending s) se_end es
      | ColLength \<Rightarrow> sort_by_key (is_descending s) entry_length es
      | ColText \<Rightarrow> sort_by_key (is_descending s) se_text es)"

subsection \<open>Decoding\<close>

text \<open>
  \<open>str::from_utf8\<close>: what stands at the front of a byte string, a character and its width, a
  malformed sequence of the given length, or a sequence the string ends in.
\<close>

datatype utf8_item = Decoded code_point nat | Malformed nat | Incomplete

definition utf8_step :: "byte \<Rightarrow> bytes \<Rightarrow> utf8_item" where
  "utf8_step b bs =
     (let w = utf8_width b; low = (\<lambda>c. unat (c AND 0x3F)) in
      if w = 0 then Malformed 1
      else if w = 1 then Decoded (unat b) 1
      else case bs of
        [] \<Rightarrow> Incomplete
      | c # bs1 \<Rightarrow>
          if \<not> second_ok b c then Malformed 1
          else if w = 2 then Decoded (unat (b AND 0x1F) * 64 + low c) 2
          else case bs1 of
            [] \<Rightarrow> Incomplete
          | d # bs2 \<Rightarrow>
              if \<not> cont d then Malformed 2
              else if w = 3 then Decoded (unat (b AND 0x0F) * 4096 + low c * 64 + low d) 3
              else case bs2 of
                [] \<Rightarrow> Incomplete
              | e # _ \<Rightarrow>
                  if \<not> cont e then Malformed 3
                  else Decoded (unat (b AND 0x07) * 262144 + low c * 4096 + low d * 64 + low e) 4)"

text \<open>The characters of the valid prefix, its length, and the error: \<open>Some None\<close> is an unfinished end.\<close>

function from_utf8 :: "bytes \<Rightarrow> chars \<times> nat \<times> nat option option" where
  "from_utf8 [] = ([], 0, None)"
| "from_utf8 (b # bs) =
     (case utf8_step b bs of
        Decoded c n \<Rightarrow> (let (cs, k, e) = from_utf8 (drop (n - 1) bs) in (c # cs, n + k, e))
      | Malformed n \<Rightarrow> ([], 0, Some (Some n))
      | Incomplete \<Rightarrow> ([], 0, Some None))"
  by pat_completeness auto
termination
  by (relation "measure length") auto

definition is_control :: "code_point \<Rightarrow> bool" where
  "is_control c \<longleftrightarrow> c < 0x20 \<or> 0x7F \<le> c \<and> c \<le> 0x9F"

definition printable_codepoint :: "code_point \<Rightarrow> bool" where
  "printable_codepoint c \<longleftrightarrow> \<not> is_control c"

subsection \<open>The scanner\<close>

record scanner =
  sn_encoding :: encoding
  sn_min_length :: nat
  sn_run_chars :: nat
  sn_run_start :: nat
  sn_run_text :: chars
  sn_pending :: bytes
  sn_pending_offset :: nat

definition scanner_new :: "encoding \<Rightarrow> nat \<Rightarrow> scanner" where
  "scanner_new enc n =
     \<lparr>sn_encoding = enc, sn_min_length = max n 1, sn_run_chars = 0, sn_run_start = 0,
      sn_run_text = [], sn_pending = [], sn_pending_offset = 0\<rparr>"

type_synonym scan_run = "scanner \<times> string_entry list"

definition push_char :: "code_point \<Rightarrow> nat \<Rightarrow> scan_run \<Rightarrow> scan_run" where
  "push_char c off run =
     (let (s, out) = run;
          s = (if sn_run_chars s = 0 then s\<lparr>sn_run_start := off, sn_run_text := []\<rparr> else s)
      in (s\<lparr>sn_run_text := sn_run_text s @ [c], sn_run_chars := sn_run_chars s + 1\<rparr>, out))"

definition flush :: "nat \<Rightarrow> scan_run \<Rightarrow> scan_run" where
  "flush end_off run =
     (let (s, out) = run
      in (s\<lparr>sn_run_text := [], sn_run_chars := 0\<rparr>,
          if sn_run_chars s \<ge> sn_min_length s
          then out @ [\<lparr>se_offset = sn_run_start s, se_end = end_off, se_text = sn_run_text s\<rparr>]
          else out))"

fun feed_ascii :: "bytes \<Rightarrow> nat \<Rightarrow> scan_run \<Rightarrow> scan_run" where
  "feed_ascii [] off run = run"
| "feed_ascii (b # bs) off run =
     feed_ascii bs (off + 1)
       (if 0x20 \<le> b \<and> b \<le> 0x7E then push_char (unat b) off run else flush off run)"

fun consume_utf8_str :: "chars \<Rightarrow> nat \<Rightarrow> scan_run \<Rightarrow> scan_run" where
  "consume_utf8_str [] off run = run"
| "consume_utf8_str (c # cs) off run =
     consume_utf8_str cs (off + length (utf8_encode_char c))
       (if printable_codepoint c then push_char c off run else flush off run)"

text \<open>The bytes a chunk is decoded with, and where they start: those left over come first.\<close>

definition with_pending :: "bytes \<Rightarrow> nat \<Rightarrow> scanner \<Rightarrow> bytes \<times> nat \<times> scanner" where
  "with_pending chunk chunk_offset s =
     (if sn_pending s = [] then (chunk, chunk_offset, s)
      else (sn_pending s @ chunk, sn_pending_offset s, s\<lparr>sn_pending := []\<rparr>))"

definition set_rest :: "bytes \<Rightarrow> nat \<Rightarrow> scan_run \<Rightarrow> scan_run" where
  "set_rest bs off run = ((fst run)\<lparr>sn_pending := bs, sn_pending_offset := off\<rparr>, snd run)"

text \<open>The loop over the rest of the buffer, which starts at offset \<open>off\<close>.\<close>

lemma from_utf8_error:
  "from_utf8 bs = (cs, k, Some (Some n)) \<Longrightarrow> 0 < n \<and> k < length bs"
proof (induction bs arbitrary: cs k rule: from_utf8.induct)
  case (2 b bs)
  show ?case
  proof (cases "utf8_step b bs")
    case (Decoded c m)
    then obtain cs' k' where r: "from_utf8 (drop (m - 1) bs) = (cs', k', Some (Some n))" "k = m + k'"
      using 2(2) by (auto split: prod.splits)
    then have "0 < n \<and> k' < length (drop (m - 1) bs)" using 2(1) [OF Decoded] by simp
    then show ?thesis unfolding r(2) by (simp; linarith)
  next
    case (Malformed m)
    then have "0 < m"
      by (auto simp: utf8_step_def Let_def split: if_splits list.splits)
    then show ?thesis using 2(2) Malformed by auto
  qed (use 2(2) in auto)
qed simp

function utf8_loop :: "bytes \<Rightarrow> nat \<Rightarrow> scan_run \<Rightarrow> scan_run" where
  "utf8_loop buf off run =
     (if buf = [] then run
      else case from_utf8 buf of
        (cs, k, None) \<Rightarrow> consume_utf8_str cs off run
      | (cs, k, Some (Some skip)) \<Rightarrow>
          utf8_loop (drop (k + skip) buf) (off + k + skip)
            (flush (off + k) (consume_utf8_str cs off run))
      | (cs, k, Some None) \<Rightarrow> set_rest (drop k buf) (off + k) (consume_utf8_str cs off run))"
  by pat_completeness auto
termination
  by (relation "measure (\<lambda>(buf, off, run). length buf)") (auto dest!: from_utf8_error [OF sym])

declare utf8_loop.simps [simp del]

definition feed_utf8 :: "bytes \<Rightarrow> nat \<Rightarrow> scan_run \<Rightarrow> scan_run" where
  "feed_utf8 chunk chunk_offset run =
     (let (buf, base, s) = with_pending chunk chunk_offset (fst run) in utf8_loop buf base (s, snd run))"

definition utf16_unit :: "bool \<Rightarrow> byte \<Rightarrow> byte \<Rightarrow> nat" where
  "utf16_unit little a b = (if little then unat a + 256 * unat b else 256 * unat a + unat b)"

fun utf16_loop :: "bool \<Rightarrow> bytes \<Rightarrow> nat \<Rightarrow> scan_run \<Rightarrow> scan_run" where
  "utf16_loop little [] off run = run"
| "utf16_loop little [b] off run = set_rest [b] off run"
| "utf16_loop little (a # b # bs) off run =
     (let u = utf16_unit little a b in
      utf16_loop little bs (off + 2)
        (if \<not> (0xD800 \<le> u \<and> u \<le> 0xDFFF) \<and> printable_codepoint u
         then push_char u off run else flush off run))"

definition feed_utf16 :: "bool \<Rightarrow> bytes \<Rightarrow> nat \<Rightarrow> scan_run \<Rightarrow> scan_run" where
  "feed_utf16 little chunk chunk_offset run =
     (let (buf, base, s) = with_pending chunk chunk_offset (fst run)
      in utf16_loop little buf base (s, snd run))"

definition scan_feed :: "bytes \<Rightarrow> nat \<Rightarrow> scan_run \<Rightarrow> scan_run" where
  "scan_feed chunk off run =
     (case sn_encoding (fst run) of
        EncAscii \<Rightarrow> feed_ascii chunk off run
      | EncUtf8 \<Rightarrow> feed_utf8 chunk off run
      | EncUtf16Le \<Rightarrow> feed_utf16 True chunk off run
      | EncUtf16Be \<Rightarrow> feed_utf16 False chunk off run)"

subsection \<open>Extraction\<close>

text \<open>
  The loop over the chunks: the scanner and its entries, and whether the limit stopped it. The
  messages of the errors are the code's.
\<close>

function extract_loop :: "hex_source \<Rightarrow> nat \<Rightarrow> nat \<Rightarrow> scan_run \<Rightarrow> (string, scan_run \<times> bool) res" where
  "extract_loop src range_end off run =
     (if off < range_end then
        let stop = min (off + chunk_bytes_len) range_end;
            at = dec_str off @ ''..'' @ dec_str stop
        in res_bind (map_err (\<lambda>e. ''range '' @ at @ '': '' @ show_error e) (range_new off stop)) (\<lambda>r.
           res_bind (map_err (\<lambda>e. ''read '' @ at @ '': '' @ show_error e) (hs_read src r)) (\<lambda>bs.
           let run = scan_feed bs off run
           in if length (snd run) \<ge> max_results
              then Ok ((fst run, take max_results (snd run)), True)
              else extract_loop src range_end stop run))
      else Ok (run, False))"
  by pat_completeness auto
termination
  by (relation "measure (\<lambda>(src, e, off, run). e - off)") (auto simp: chunk_bytes_len_def)

declare extract_loop.simps [simp del]

record 't strings_result =
  sx_entries :: "string_entry list"
  sx_truncated :: bool
  sx_computed_at :: 't
  sx_source_len :: nat
  sx_config :: strings_config
  sx_sorted_by :: sort_order

text \<open>\<open>now\<close> is the reading of the clock.\<close>

definition strings_extract :: "'t \<Rightarrow> hex_source \<Rightarrow> strings_config \<Rightarrow> (string, 't strings_result) res" where
  "strings_extract now src config =
     (let source_len = hs_len src; a = br_start (sg_range config); b = br_end (sg_range config) in
      if b > source_len
      then Err (''range '' @ dec_str a @ ''..'' @ dec_str b @ '' exceeds source length '' @ dec_str source_len)
      else res_bind (extract_loop src b a (scanner_new (sg_encoding config) (sg_min_length config), []))
        (\<lambda>(run, truncated).
          let (entries, truncated) =
                (if truncated then (snd run, True)
                 else let es = snd (flush b run)
                      in if length es > max_results then (take max_results es, True) else (es, False))
          in Ok \<lparr>sx_entries = entries, sx_truncated = truncated, sx_computed_at = now,
                 sx_source_len = source_len, sx_config = config, sx_sorted_by = sort_order_default\<rparr>))"

end
