(* ===== verification/StringProps.thy ===== *)
theory StringProps
  imports StringScan CodecProps
begin

text \<open>
  The strings tool finds the runs of the decoded range: what it reads in which chunks makes no
  difference, nor that a chunk boundary cuts a character. A decoded range is a list of tokens, an
  offset with a printable character or with something that ends a run.
\<close>

type_synonym token = "nat \<times> code_point option"

subsection \<open>Decoding a whole range\<close>









subsection \<open>The scanner as a fold over tokens\<close>

fun tok_step :: "token \<Rightarrow> scan_run \<Rightarrow> scan_run" where
  "tok_step (off, Some c) run = push_char c off run"
| "tok_step (off, None) run = flush off run"

abbreviation tok_fold :: "token list \<Rightarrow> scan_run \<Rightarrow> scan_run" where
  "tok_fold \<equiv> fold tok_step"



lemma set_rest_twice [simp]: "set_rest p q (set_rest p' q' run) = set_rest p q run"
  by (simp add: set_rest_def)

lemma tok_step_keeps [simp]:
  "sn_encoding (fst (tok_step t run)) = sn_encoding (fst run)"
  "sn_min_length (fst (tok_step t run)) = sn_min_length (fst run)"
  by (cases t; cases "snd t"; simp add: push_char_def flush_def split_beta Let_def)+

lemma tok_fold_keeps [simp]:
  "sn_encoding (fst (tok_fold ts run)) = sn_encoding (fst run)"
  "sn_min_length (fst (tok_fold ts run)) = sn_min_length (fst run)"
  by (induction ts arbitrary: run) simp_all







subsection \<open>The UTF-8 loop\<close>





subsection \<open>Chunks\<close>









subsection \<open>Runs\<close>





subsection \<open>Extraction\<close>






end
