(* ===== verification/TplAst.thy ===== *)
theory TplAst
  imports Text
begin

text \<open>
  \<open>hxy-010-lang/src/ast.rs\<close>: the syntax trees of binary templates, with the span of the source text
  (\<open>token.rs\<close>) that every node carries. \<open>'f\<close> is the type of the double-precision numbers, whose
  arithmetic is a parameter of the interpreter.
\<close>

record span =
  sp_start :: nat
  sp_end :: nat

datatype bin_op =
    OpAdd | OpSub | OpMul | OpDiv | OpRem
  | OpEq | OpNotEq | OpLt | OpGt | OpLtEq | OpGtEq
  | OpLogicalAnd | OpLogicalOr
  | OpBitAnd | OpBitOr | OpBitXor | OpShl | OpShr

datatype unary_op =
    OpNeg | OpPos | OpNot | OpBitNot | OpPreInc | OpPreDec | OpPostInc | OpPostDec

datatype assign_op =
    AssignOp | AddAssign | SubAssign | MulAssign | DivAssign | RemAssign
  | AndAssign | OrAssign | XorAssign | ShlAssign | ShrAssign

text \<open>
  The number of a floating-point literal. The record keeps the number type out of the functors of the syntax
  trees: no map over it is ever needed, and its relators would be most of their size.
\<close>

record 'f float_lit =
  fl_value :: 'f

datatype (plugins only: code size) 'f expr =
    IntLit nat span
  | FloatLit "'f float_lit" span
  | StringLit chars span
  | CharLit code_point span
  | Ident chars span
  | BinaryE bin_op "'f expr" "'f expr" span
  | UnaryE unary_op "'f expr" span
  | CallE "'f expr" "'f expr list" span
  | IndexE "'f expr" "'f expr" span
  | MemberE "'f expr" chars span
  | AssignE assign_op "'f expr" "'f expr" span
  | TernaryE "'f expr" "'f expr" "'f expr" span

fun expr_span :: "'f expr \<Rightarrow> span" where
  "expr_span (IntLit v sp) = sp"
| "expr_span (FloatLit v sp) = sp"
| "expr_span (StringLit v sp) = sp"
| "expr_span (CharLit v sp) = sp"
| "expr_span (Ident n sp) = sp"
| "expr_span (BinaryE b l r sp) = sp"
| "expr_span (UnaryE u e sp) = sp"
| "expr_span (CallE c as sp) = sp"
| "expr_span (IndexE t i sp) = sp"
| "expr_span (MemberE t f sp) = sp"
| "expr_span (AssignE a t v sp) = sp"
| "expr_span (TernaryE c t e sp) = sp"

record type_ref =
  tr_name :: chars
  tr_span :: span

record 'f attr =
  at_key :: chars
  at_value :: "'f expr"
  at_span :: span

type_synonym 'f attrs = "'f attr list"

record 'f enum_variant =
  ev_name :: chars
  ev_value :: "'f expr option"
  ev_span :: span

record 'f enum_decl =
  ed_name :: chars
  ed_backing :: "type_ref option"
  ed_variants :: "'f enum_variant list"
  ed_attrs :: "'f attrs"
  ed_span :: span

record param =
  pa_ty :: type_ref
  pa_is_ref :: bool
  pa_name :: chars
  pa_span :: span

datatype decl_modifier = ModField | ModLocal | ModConst

text \<open>
  The three mutually recursive types. The arguments of \<open>FieldDecl\<close> are the modifier, the type, the
  name, the array size, the arguments of the struct, the bit width, the initial value, the
  attributes and the span.
\<close>

datatype (plugins only: code size) 'f stmt =
    TypedefAlias chars type_ref "'f expr option" span
  | TypedefEnum "'f enum_decl"
  | TypedefStruct "'f struct_decl"
  | FieldDecl decl_modifier type_ref chars "'f expr option" "'f expr list" "'f expr option"
      "'f expr option" "'f attrs" span
  | SwitchStmt "'f expr" "'f switch_arm list" span
  | IfStmt "'f expr" "'f stmt" "'f stmt option" span
  | WhileStmt "'f expr" "'f stmt" span
  | DoWhileStmt "'f stmt" "'f expr" span
  | ForStmt "'f stmt option" "'f expr option" "'f expr option" "'f stmt" span
  | ReturnStmt "'f expr option" span
  | BreakStmt span
  | ContinueStmt span
  | BlockStmt "'f stmt list" span
  | ExprStmt "'f expr" span
and 'f struct_decl =
    StructDecl (sd_name: chars) (sd_params: "param list") (sd_body: "'f stmt list")
      (sd_attrs: "'f attrs") (sd_is_union: bool) (sd_span: span)
and 'f switch_arm =
    SwitchArm (sa_pattern: "'f expr option") (sa_body: "'f stmt list") (sa_span: span)

record 'f function_def =
  fd_return_type :: type_ref
  fd_name :: chars
  fd_params :: "param list"
  fd_body :: "'f stmt list"
  fd_span :: span

datatype 'f top_item = TopStmt "'f stmt" | TopFunction "'f function_def"

type_synonym 'f program = "'f top_item list"

end
