(* ===== verification/TplValue.thy ===== *)
theory TplValue
  imports TplAst Bytes
begin

text \<open>
  \<open>hxy-010-lang/src/value.rs\<close>: the values of the template interpreter and their conversions. A
  \<open>u128\<close> is a natural and an \<open>i128\<close> an integer number in its range; \<open>to_i128\<close> writes out the cast
  between them. Double-precision arithmetic and what the standard library knows of Unicode are
  parameters, the record \<open>host\<close>.
\<close>

datatype tpl_endian = LittleE | BigE

datatype prim_class = ClsInt | ClsFloat | ClsChar

record prim_kind =
  pk_class :: prim_class
  pk_width :: nat
  pk_signed :: bool

abbreviation int_kind :: "nat \<Rightarrow> bool \<Rightarrow> prim_kind" where
  "int_kind w s \<equiv> \<lparr>pk_class = ClsInt, pk_width = w, pk_signed = s\<rparr>"

abbreviation "kind_u8 \<equiv> int_kind 1 False"
abbreviation "kind_i8 \<equiv> int_kind 1 True"
abbreviation "kind_u16 \<equiv> int_kind 2 False"
abbreviation "kind_i16 \<equiv> int_kind 2 True"
abbreviation "kind_u32 \<equiv> int_kind 4 False"
abbreviation "kind_i32 \<equiv> int_kind 4 True"
abbreviation "kind_u64 \<equiv> int_kind 8 False"
abbreviation "kind_i64 \<equiv> int_kind 8 True"
abbreviation "kind_f32 \<equiv> \<lparr>pk_class = ClsFloat, pk_width = 4, pk_signed = True\<rparr>"
abbreviation "kind_f64 \<equiv> \<lparr>pk_class = ClsFloat, pk_width = 8, pk_signed = True\<rparr>"
abbreviation "kind_char \<equiv> \<lparr>pk_class = ClsChar, pk_width = 1, pk_signed = True\<rparr>"
abbreviation "kind_uchar \<equiv> \<lparr>pk_class = ClsChar, pk_width = 1, pk_signed = False\<rparr>"

datatype scalar_kind =
    SkU8 | SkU16 | SkU32 | SkU64 | SkS8 | SkS16 | SkS32 | SkS64 | SkF32 | SkF64
  | SkBool | SkBytes | SkStr

definition scalar_from_prim :: "prim_kind \<Rightarrow> scalar_kind" where
  "scalar_from_prim p =
     (let w = pk_width p; s = pk_signed p in
      if pk_class p = ClsFloat then (if w = 4 then SkF32 else SkF64)
      else if w = 1 then (if s then SkS8 else SkU8)
      else if w = 2 then (if s then SkS16 else SkU16)
      else if w = 4 then (if s then SkS32 else SkU32)
      else (if s then SkS64 else SkU64))"

datatype node_type =
    NtScalar scalar_kind
  | NtScalarArray scalar_kind nat
  | NtStruct chars
  | NtStructArray chars nat
  | NtEnum chars
  | NtEnumArray chars nat
  | NtUnknown chars

datatype 'f tval =
    VVoid
  | VUInt nat prim_kind
  | VSInt int prim_kind
  | VFloat 'f prim_kind
  | VChar nat prim_kind
  | VStr chars
  | VBool bool

subsection \<open>What the standard library provides\<close>

text \<open>
  The operations on \<open>f64\<close> (conversions from and to \<open>i128\<close>, decoding of bits, text), the Unicode
  tables behind case and class of a character, and the \<open>Debug\<close> form of values, operators and
  expressions that messages quote.
\<close>

record 'f host =
  ho_add :: "'f \<Rightarrow> 'f \<Rightarrow> 'f"
  ho_sub :: "'f \<Rightarrow> 'f \<Rightarrow> 'f"
  ho_mul :: "'f \<Rightarrow> 'f \<Rightarrow> 'f"
  ho_div :: "'f \<Rightarrow> 'f \<Rightarrow> 'f"
  ho_rem :: "'f \<Rightarrow> 'f \<Rightarrow> 'f"
  ho_pow :: "'f \<Rightarrow> 'f \<Rightarrow> 'f"
  ho_neg :: "'f \<Rightarrow> 'f"
  ho_sqrt :: "'f \<Rightarrow> 'f"
  ho_ceil :: "'f \<Rightarrow> 'f"
  ho_floor :: "'f \<Rightarrow> 'f"
  ho_round :: "'f \<Rightarrow> 'f"
  ho_eq :: "'f \<Rightarrow> 'f \<Rightarrow> bool"
  ho_lt :: "'f \<Rightarrow> 'f \<Rightarrow> bool"
  ho_le :: "'f \<Rightarrow> 'f \<Rightarrow> bool"
  ho_is_nan :: "'f \<Rightarrow> bool"
  ho_of_int :: "int \<Rightarrow> 'f"
  ho_to_i128 :: "'f \<Rightarrow> int"
  ho_of_bits32 :: "nat \<Rightarrow> 'f"
  ho_of_bits64 :: "nat \<Rightarrow> 'f"
  ho_show :: "'f \<Rightarrow> chars"
  ho_parse :: "chars \<Rightarrow> 'f option"
  ho_alphabetic :: "code_point \<Rightarrow> bool"
  ho_numeric :: "code_point \<Rightarrow> bool"
  ho_uppercase :: "chars \<Rightarrow> chars"
  ho_lowercase :: "chars \<Rightarrow> chars"
  ho_debug_value :: "'f tval \<Rightarrow> chars"
  ho_debug_expr :: "'f expr \<Rightarrow> chars"
  ho_debug_op :: "bin_op \<Rightarrow> chars"

subsection \<open>Conversions\<close>

text \<open>\<open>u128 as i128\<close> and \<open>i128 as u128\<close>, and \<open>as u64\<close> of an \<open>i128\<close>.\<close>

definition wrap_i128 :: "int \<Rightarrow> int" where
  "wrap_i128 i = to_signed 128 (to_unsigned 128 i)"

fun is_truthy :: "'f host \<Rightarrow> 'f tval \<Rightarrow> bool" where
  "is_truthy h VVoid = False"
| "is_truthy h (VUInt v k) = (v \<noteq> 0)"
| "is_truthy h (VSInt v k) = (v \<noteq> 0)"
| "is_truthy h (VFloat v k) = (\<not> ho_eq h v (ho_of_int h 0) \<and> \<not> ho_is_nan h v)"
| "is_truthy h (VChar v k) = (v \<noteq> 0)"
| "is_truthy h (VStr s) = (s \<noteq> [])"
| "is_truthy h (VBool b) = b"

fun val_to_i128 :: "'f host \<Rightarrow> 'f tval \<Rightarrow> int option" where
  "val_to_i128 h (VUInt v k) = Some (to_signed 128 v)"
| "val_to_i128 h (VSInt v k) = Some v"
| "val_to_i128 h (VChar v k) = Some (int v)"
| "val_to_i128 h (VBool b) = Some (if b then 1 else 0)"
| "val_to_i128 h (VFloat v k) = Some (ho_to_i128 h v)"
| "val_to_i128 h VVoid = None"
| "val_to_i128 h (VStr s) = None"

fun val_to_f64 :: "'f host \<Rightarrow> 'f tval \<Rightarrow> 'f option" where
  "val_to_f64 h (VUInt v k) = Some (ho_of_int h (int v))"
| "val_to_f64 h (VSInt v k) = Some (ho_of_int h v)"
| "val_to_f64 h (VFloat v k) = Some v"
| "val_to_f64 h (VChar v k) = Some (ho_of_int h (int v))"
| "val_to_f64 h (VBool b) = Some (ho_of_int h (if b then 1 else 0))"
| "val_to_f64 h VVoid = None"
| "val_to_f64 h (VStr s) = None"

fun is_float :: "'f tval \<Rightarrow> bool" where
  "is_float (VFloat v k) = True"
| "is_float _ = False"

subsection \<open>Display\<close>

definition is_scalar_value :: "nat \<Rightarrow> bool" where
  "is_scalar_value n \<longleftrightarrow> n < 0xD800 \<or> 0xDFFF < n \<and> n < 0x110000"

definition is_control_char :: "code_point \<Rightarrow> bool" where
  "is_control_char c \<longleftrightarrow> c < 0x20 \<or> 0x7F \<le> c \<and> c \<le> 0x9F"

text \<open>\<open>{:02X}\<close>, and \<open>{:X}\<close>, \<open>{:x}\<close> of a number; code point 39 is the apostrophe.\<close>

definition upper_hex :: "nat \<Rightarrow> chars" where
  "upper_hex n = lit (radix_str 16 n)"

definition lower_hex :: "nat \<Rightarrow> chars" where
  "lower_hex n = map (\<lambda>c. if 0x41 \<le> c \<and> c \<le> 0x5A then c + 32 else c) (upper_hex n)"

definition padded_hex :: "nat \<Rightarrow> chars" where
  "padded_hex n = (if n < 16 then lit ''0'' else []) @ upper_hex n"

fun show_value :: "'f host \<Rightarrow> 'f tval \<Rightarrow> chars" where
  "show_value h VVoid = lit ''void''"
| "show_value h (VUInt v k) = show_nat v"
| "show_value h (VSInt v k) = show_int v"
| "show_value h (VFloat v k) = ho_show h v"
| "show_value h (VChar v k) =
     (if is_scalar_value v \<and> \<not> is_control_char v then [39, v, 39]
      else [39, 92, 120] @ padded_hex v @ [39])"
| "show_value h (VStr s) = ho_debug_value h (VStr s)"
| "show_value h (VBool b) = lit (if b then ''true'' else ''false'')"

text \<open>\<open>value_to_display\<close>: a string stands for itself.\<close>

fun value_to_display :: "'f host \<Rightarrow> 'f tval \<Rightarrow> chars" where
  "value_to_display h (VStr s) = s"
| "value_to_display h v = show_value h v"

end
