(* ===== verification/TplOps.thy ===== *)
theory TplOps
  imports TplValue "HOL-Library.List_Lexorder" "HOL-Library.Signed_Division"
begin

text \<open>
  The functions of \<open>hxy-010-lang/src/interp.rs\<close> that need no state: reading a primitive from bytes,
  the operators, comparison of values, the text forms, and the checksums; with the errors of the
  interpreter and of its byte source.
\<close>

unbundle bit_operations_syntax

subsection \<open>Errors\<close>

datatype source_error = SrcOutOfBounds nat nat nat | SrcHost chars

fun show_source_error :: "source_error \<Rightarrow> chars" where
  "show_source_error (SrcOutOfBounds off e n) =
     lit ''read past end of source: requested ['' @ show_nat off @ lit ''..'' @ show_nat e @
     lit ''), source is '' @ show_nat n @ lit '' bytes''"
| "show_source_error (SrcHost s) = lit ''underlying host error: '' @ s"

datatype runtime_error =
    UndefinedName chars
  | UnknownType chars
  | TypeError chars
  | SourceFailed source_error
  | BadBuiltinCall chars chars
  | BadCall chars chars
  | UnresolvedMember chars chars chars
  | UnresolvedIndex chars
  | BadBitfieldType chars
  | TimedOut nat
  | LoopStalled nat

text \<open>Code point 96 is the backquote.\<close>

definition quoted :: "chars \<Rightarrow> chars" where
  "quoted s = [96] @ s @ [96]"

fun show_runtime_error :: "runtime_error \<Rightarrow> chars" where
  "show_runtime_error (UndefinedName n) = lit ''undefined name '' @ quoted n"
| "show_runtime_error (UnknownType n) = lit ''unknown type '' @ quoted n"
| "show_runtime_error (TypeError s) = lit ''type error: '' @ s"
| "show_runtime_error (SourceFailed e) = lit ''source read failed: '' @ show_source_error e"
| "show_runtime_error (BadBuiltinCall n reason) =
     lit ''builtin '' @ quoted n @ lit '' called incorrectly: '' @ reason"
| "show_runtime_error (BadCall n reason) = lit ''user function '' @ quoted n @ lit '': '' @ reason"
| "show_runtime_error (UnresolvedMember f p pre) =
     lit ''unresolved member '' @ quoted (lit ''.'' @ f) @ lit '' (looked up '' @ quoted p @
     lit '' under prefix '' @ quoted pre @ lit '')''"
| "show_runtime_error (UnresolvedIndex t) = lit ''unresolved array index on '' @ quoted t"
| "show_runtime_error (BadBitfieldType t) =
     lit ''bitfield type '' @ quoted t @ lit '' must be an integer primitive''"
| "show_runtime_error (TimedOut ms) =
     lit ''template execution exceeded timeout of '' @ show_nat ms @ lit '' ms''"
| "show_runtime_error (LoopStalled n) =
     lit ''loop made no source progress for '' @ show_nat n @ lit '' consecutive iterations''"

type_synonym 'a ires = "(runtime_error, 'a) res"

definition type_error :: "string \<Rightarrow> 'a ires" where
  "type_error s = Err (TypeError (lit s))"

definition not_numeric :: "'f host \<Rightarrow> 'f tval \<Rightarrow> 'a ires" where
  "not_numeric h v = Err (TypeError (lit ''not numeric: '' @ ho_debug_value h v))"

definition int_of_val :: "'f host \<Rightarrow> 'f tval \<Rightarrow> int ires" where
  "int_of_val h v = (case val_to_i128 h v of Some i \<Rightarrow> Ok i | None \<Rightarrow> not_numeric h v)"

subsection \<open>Bytes as numbers\<close>

definition num_of :: "tpl_endian \<Rightarrow> bytes \<Rightarrow> nat" where
  "num_of e bs = (case e of LittleE \<Rightarrow> num_le bs | BigE \<Rightarrow> num_le (rev bs))"

definition decode_prim :: "'f host \<Rightarrow> bytes \<Rightarrow> prim_kind \<Rightarrow> tpl_endian \<Rightarrow> 'f tval ires" where
  "decode_prim h bs k e =
     (if length bs mod 256 \<noteq> pk_width k
      then Err (TypeError (lit ''short read: got '' @ show_nat (length bs) @ lit '' bytes, need '' @
             show_nat (pk_width k)))
      else case pk_class k of
        ClsChar \<Rightarrow> (case bs of [] \<Rightarrow> Panic | b # _ \<Rightarrow> Ok (VChar (unat b) k))
      | ClsInt \<Rightarrow>
          Ok (if pk_signed k then VSInt (to_signed (8 * pk_width k) (num_of e bs)) k
              else VUInt (num_of e bs) k)
      | ClsFloat \<Rightarrow>
          Ok (if pk_width k = 4 then VFloat (ho_of_bits32 h (num_of e bs)) k
              else VFloat (ho_of_bits64 h (num_of e bs)) k))"

text \<open>The storage word of a bitfield: the bytes in an array of eight.\<close>

definition pad8 :: "bytes \<Rightarrow> bytes" where
  "pad8 bs = take 8 (bs @ replicate 8 0)"

definition decode_prim_for_bitfield :: "bytes \<Rightarrow> prim_kind \<Rightarrow> tpl_endian \<Rightarrow> nat" where
  "decode_prim_for_bitfield bs k e =
     (case e of
        LittleE \<Rightarrow> num_of LittleE (pad8 (take 8 bs))
      | BigE \<Rightarrow> num_of BigE (pad8 (replicate (8 - pk_width k) 0 @ take 8 bs)))"

subsection \<open>Operators\<close>

definition char_value_to_string :: "nat \<Rightarrow> chars" where
  "char_value_to_string v = (if v < 0x80 \<or> is_scalar_value v then [v] else [0xFFFD])"

definition mask_to_width :: "nat \<Rightarrow> nat \<Rightarrow> nat" where
  "mask_to_width v w = (if w \<ge> 16 then v else v mod 2 ^ (8 * w))"

fun int_bits :: "'f tval \<Rightarrow> nat option" where
  "int_bits (VUInt v k) = Some (mask_to_width v (pk_width k))"
| "int_bits (VSInt v k) = Some (mask_to_width (to_unsigned 128 v) (pk_width k))"
| "int_bits (VChar v k) = Some v"
| "int_bits (VBool b) = Some (if b then 1 else 0)"
| "int_bits _ = None"

definition before_nul :: "chars \<Rightarrow> chars" where
  "before_nul s = takeWhile (\<lambda>c. c \<noteq> 0) s"

definition string_binary :: "'f host \<Rightarrow> bin_op \<Rightarrow> chars \<Rightarrow> chars \<Rightarrow> 'f tval ires" where
  "string_binary h op a b =
     (let ta = before_nul a; tb = before_nul b in
      case op of
        OpEq \<Rightarrow> Ok (VBool (ta = tb))
      | OpNotEq \<Rightarrow> Ok (VBool (ta \<noteq> tb))
      | OpLt \<Rightarrow> Ok (VBool (ta < tb))
      | OpGt \<Rightarrow> Ok (VBool (tb < ta))
      | OpLtEq \<Rightarrow> Ok (VBool (ta \<le> tb))
      | OpGtEq \<Rightarrow> Ok (VBool (tb \<le> ta))
      | OpAdd \<Rightarrow> Ok (VStr (a @ b))
      | _ \<Rightarrow> Err (TypeError (lit ''string operand not supported for '' @ ho_debug_op h op)))"

text \<open>A string and a character, for the three operators that mix them.\<close>

fun string_char_pair :: "'f tval \<Rightarrow> 'f tval \<Rightarrow> (chars \<times> chars) option" where
  "string_char_pair (VStr s) (VChar v k) = Some (s, char_value_to_string v)"
| "string_char_pair (VChar v k) (VStr s) = Some (char_value_to_string v, s)"
| "string_char_pair _ _ = None"

definition mixed_binary :: "bin_op \<Rightarrow> chars \<Rightarrow> chars \<Rightarrow> 'f tval" where
  "mixed_binary op a b =
     (if op = OpAdd then VStr (a @ b) else if op = OpEq then VBool (a = b) else VBool (a \<noteq> b))"

definition float_binary :: "'f host \<Rightarrow> bin_op \<Rightarrow> 'f \<Rightarrow> 'f \<Rightarrow> 'f tval ires" where
  "float_binary h op x y =
     (let z = ho_of_int h 0 in
      case op of
        OpAdd \<Rightarrow> Ok (VFloat (ho_add h x y) kind_f64)
      | OpSub \<Rightarrow> Ok (VFloat (ho_sub h x y) kind_f64)
      | OpMul \<Rightarrow> Ok (VFloat (ho_mul h x y) kind_f64)
      | OpDiv \<Rightarrow> Ok (VFloat (ho_div h x y) kind_f64)
      | OpRem \<Rightarrow> Ok (VFloat (ho_rem h x y) kind_f64)
      | OpEq \<Rightarrow> Ok (VBool (ho_eq h x y))
      | OpNotEq \<Rightarrow> Ok (VBool (\<not> ho_eq h x y))
      | OpLt \<Rightarrow> Ok (VBool (ho_lt h x y))
      | OpGt \<Rightarrow> Ok (VBool (ho_lt h y x))
      | OpLtEq \<Rightarrow> Ok (VBool (ho_le h x y))
      | OpGtEq \<Rightarrow> Ok (VBool (ho_le h y x))
      | OpLogicalAnd \<Rightarrow> Ok (VBool (\<not> ho_eq h x z \<and> \<not> ho_eq h y z))
      | OpLogicalOr \<Rightarrow> Ok (VBool (\<not> ho_eq h x z \<or> \<not> ho_eq h y z))
      | _ \<Rightarrow> Err (TypeError (lit ''float operand not supported for '' @ ho_debug_op h op)))"

text \<open>\<open>checked_div\<close> and \<open>checked_rem\<close> fail on zero and on the one quotient out of range.\<close>

definition i128_min :: int where
  "i128_min = - (2 ^ 127)"

definition int_binary :: "bin_op \<Rightarrow> int \<Rightarrow> int \<Rightarrow> 'f tval ires" where
  "int_binary op x y =
     (let num = (\<lambda>i. Ok (VSInt i kind_i64)); undef = (y = 0 \<or> x = i128_min \<and> y = -1) in
      case op of
        OpAdd \<Rightarrow> num (wrap_i128 (x + y))
      | OpSub \<Rightarrow> num (wrap_i128 (x - y))
      | OpMul \<Rightarrow> num (wrap_i128 (x * y))
      | OpDiv \<Rightarrow> if undef then type_error ''integer divide by zero'' else num (x sdiv y)
      | OpRem \<Rightarrow> if undef then type_error ''integer remainder by zero'' else num (x smod y)
      | OpBitAnd \<Rightarrow> num (x AND y)
      | OpBitOr \<Rightarrow> num (x OR y)
      | OpBitXor \<Rightarrow> num (x XOR y)
      | OpShl \<Rightarrow> num (wrap_i128 (x * 2 ^ nat (y mod 64)))
      | OpShr \<Rightarrow> num (x div 2 ^ nat (y mod 64))
      | OpEq \<Rightarrow> Ok (VBool (x = y))
      | OpNotEq \<Rightarrow> Ok (VBool (x \<noteq> y))
      | OpLt \<Rightarrow> Ok (VBool (x < y))
      | OpGt \<Rightarrow> Ok (VBool (y < x))
      | OpLtEq \<Rightarrow> Ok (VBool (x \<le> y))
      | OpGtEq \<Rightarrow> Ok (VBool (y \<le> x))
      | OpLogicalAnd \<Rightarrow> Ok (VBool (x \<noteq> 0 \<and> y \<noteq> 0))
      | OpLogicalOr \<Rightarrow> Ok (VBool (x \<noteq> 0 \<or> y \<noteq> 0)))"

text \<open>A value that could not be read counts as zero.\<close>

definition int_operand :: "'f host \<Rightarrow> 'f tval \<Rightarrow> int ires" where
  "int_operand h v = (if v = VVoid then Ok 0 else int_of_val h v)"

definition float_operand :: "'f host \<Rightarrow> 'f tval \<Rightarrow> 'f ires" where
  "float_operand h v = (case val_to_f64 h v of Some x \<Rightarrow> Ok x | None \<Rightarrow> not_numeric h v)"

definition eval_binary :: "'f host \<Rightarrow> bin_op \<Rightarrow> 'f tval \<Rightarrow> 'f tval \<Rightarrow> 'f tval ires" where
  "eval_binary h op l r =
     (case (l, r) of
        (VStr a, VStr b) \<Rightarrow> string_binary h op a b
      | _ \<Rightarrow>
        (case (if op \<in> {OpAdd, OpEq, OpNotEq} then string_char_pair l r else None) of
           Some (a, b) \<Rightarrow> Ok (mixed_binary op a b)
         | None \<Rightarrow>
           if is_float l \<or> is_float r then
             res_bind (float_operand h l) (\<lambda>x. res_bind (float_operand h r) (\<lambda>y. float_binary h op x y))
           else
             res_bind (int_operand h l) (\<lambda>x. res_bind (int_operand h r) (\<lambda>y.
               (case (if op \<in> {OpEq, OpNotEq} then (int_bits l, int_bits r) else (None, None)) of
                  (Some a, Some b) \<Rightarrow> Ok (VBool (if op = OpEq then a = b else a \<noteq> b))
                | _ \<Rightarrow> int_binary op x y)))))"

text \<open>The negation and the increments wrap in a release build.\<close>

definition eval_unary :: "'f host \<Rightarrow> unary_op \<Rightarrow> 'f tval \<Rightarrow> 'f tval ires" where
  "eval_unary h op v =
     (let int = (\<lambda>f. res_bind (int_of_val h v) (\<lambda>i. Ok (VSInt (wrap_i128 (f i)) kind_i64))) in
      case op of
        OpNeg \<Rightarrow> (case v of VFloat x k \<Rightarrow> Ok (VFloat (ho_neg h x) kind_f64) | _ \<Rightarrow> int uminus)
      | OpPos \<Rightarrow> Ok v
      | OpNot \<Rightarrow> Ok (VBool (\<not> is_truthy h v))
      | OpBitNot \<Rightarrow> int (\<lambda>i. NOT i)
      | OpPreInc \<Rightarrow> int (\<lambda>i. i + 1)
      | OpPostInc \<Rightarrow> int (\<lambda>i. i + 1)
      | OpPreDec \<Rightarrow> int (\<lambda>i. i - 1)
      | OpPostDec \<Rightarrow> int (\<lambda>i. i - 1))"

fun compound_to_bin :: "assign_op \<Rightarrow> bin_op" where
  "compound_to_bin AssignOp = OpAdd"
| "compound_to_bin AddAssign = OpAdd"
| "compound_to_bin SubAssign = OpSub"
| "compound_to_bin MulAssign = OpMul"
| "compound_to_bin DivAssign = OpDiv"
| "compound_to_bin RemAssign = OpRem"
| "compound_to_bin AndAssign = OpBitAnd"
| "compound_to_bin OrAssign = OpBitOr"
| "compound_to_bin XorAssign = OpBitXor"
| "compound_to_bin ShlAssign = OpShl"
| "compound_to_bin ShrAssign = OpShr"

definition values_equal :: "'f host \<Rightarrow> 'f tval \<Rightarrow> 'f tval \<Rightarrow> bool" where
  "values_equal h a b =
     (case (a, b) of
        (VStr x, VStr y) \<Rightarrow> x = y
      | _ \<Rightarrow>
        (case (int_bits a, int_bits b) of
           (Some x, Some y) \<Rightarrow> x = y
         | _ \<Rightarrow>
           (case (val_to_i128 h a, val_to_i128 h b) of
              (Some x, Some y) \<Rightarrow> x = y
            | _ \<Rightarrow> False)))"

subsection \<open>Text\<close>

fun attr_expr_to_string :: "'f host \<Rightarrow> 'f expr \<Rightarrow> chars" where
  "attr_expr_to_string h (IntLit v sp) = show_nat v"
| "attr_expr_to_string h (FloatLit v sp) = ho_show h (fl_value v)"
| "attr_expr_to_string h (StringLit v sp) = v"
| "attr_expr_to_string h (CharLit v sp) = show_nat v"
| "attr_expr_to_string h (Ident n sp) = n"
| "attr_expr_to_string h e = ho_debug_expr h e"

definition attrs_to_pairs :: "'f host \<Rightarrow> 'f attrs \<Rightarrow> (chars \<times> chars) list" where
  "attrs_to_pairs h as = map (\<lambda>a. (at_key a, attr_expr_to_string h (at_value a))) as"

definition char_predicate :: "'f host \<Rightarrow> (code_point \<Rightarrow> bool) \<Rightarrow> 'f tval list \<Rightarrow> bool" where
  "char_predicate h p args =
     (case args of v # _ \<Rightarrow> (case value_to_display h v of c # _ \<Rightarrow> p c | [] \<Rightarrow> False) | [] \<Rightarrow> False)"

definition min_max_builtin :: "'f host \<Rightarrow> 'f tval list \<Rightarrow> bool \<Rightarrow> 'f tval" where
  "min_max_builtin h args pick_min =
     (case args of
        [] \<Rightarrow> VSInt 0 kind_i64
      | [a] \<Rightarrow> a
      | a # b # _ \<Rightarrow>
          (case (val_to_f64 h a, val_to_f64 h b) of
             (Some x, Some y) \<Rightarrow>
               if ho_is_nan h x \<or> ho_is_nan h y then a
               else if pick_min then (if ho_lt h x y then a else b)
               else (if ho_lt h y x then a else b)
           | _ \<Rightarrow> a))"

text \<open>\<open>String::from_utf16_lossy\<close>.\<close>

fun utf16_lossy :: "nat list \<Rightarrow> chars" where
  "utf16_lossy [] = []"
| "utf16_lossy (u # us) =
     (if \<not> (0xD800 \<le> u \<and> u \<le> 0xDFFF) then u # utf16_lossy us
      else if u \<ge> 0xDC00 then replacement # utf16_lossy us
      else case us of
        [] \<Rightarrow> [replacement]
      | u2 # us2 \<Rightarrow>
          if 0xDC00 \<le> u2 \<and> u2 \<le> 0xDFFF
          then (0x10000 + (u - 0xD800) * 1024 + (u2 - 0xDC00)) # utf16_lossy us2
          else replacement # utf16_lossy us)"

fun byte_pairs :: "tpl_endian \<Rightarrow> bytes \<Rightarrow> nat list" where
  "byte_pairs e (a # b # bs) = num_of e [a, b] # byte_pairs e bs"
| "byte_pairs e _ = []"

definition decode_string :: "bytes \<Rightarrow> bool \<Rightarrow> tpl_endian \<Rightarrow> chars" where
  "decode_string bs wide e =
     (if wide then utf16_lossy (takeWhile (\<lambda>u. u \<noteq> 0) (byte_pairs e bs))
      else utf8_lossy (takeWhile (\<lambda>b. b \<noteq> 0) bs))"

end
