(* ===== verification/TplText.thy ===== *)
theory TplText
  imports TplOps
begin

text \<open>
  The text and checksum functions of \<open>hxy-010-lang/src/interp.rs\<close>: the dotted paths under which
  fields are stored and looked up, the formatter behind \<open>Printf\<close>, and the three checksums.
  Paths are cut at bytes: 46 is the dot, 91 and 93 are the brackets, 48 is the digit zero.
\<close>

unbundle bit_operations_syntax

subsection \<open>Paths\<close>

definition join_path :: "chars \<Rightarrow> chars \<Rightarrow> chars" where
  "join_path prefix segment =
     (if prefix = [] then segment
      else case segment of
        c # _ \<Rightarrow> if c = 91 then prefix @ segment else prefix @ [46] @ segment
      | [] \<Rightarrow> prefix @ [46])"

definition parent_path :: "chars \<Rightarrow> chars" where
  "parent_path path =
     (case dropWhile (\<lambda>c. c \<noteq> 46) (rev path) of [] \<Rightarrow> [] | d # r \<Rightarrow> rev r)"

lemma parent_path_shorter: "path \<noteq> [] \<Longrightarrow> length (parent_path path) < length path"
proof -
  assume "path \<noteq> []"
  then show ?thesis
    using length_dropWhile_le [of "\<lambda>c. c \<noteq> 46" "rev path"]
    by (auto simp: parent_path_def split: list.split)
qed

text \<open>The bytes of a path as numbers, and the two functions that drop subscripts from them.\<close>

definition path_bytes :: "chars \<Rightarrow> nat list" where
  "path_bytes path = map unat (utf8_encode path)"

definition is_digit :: "nat \<Rightarrow> bool" where
  "is_digit b \<longleftrightarrow> 48 \<le> b \<and> b \<le> 57"

lemma dropWhile_shorter: "dropWhile P xs = y # ys \<Longrightarrow> length ys < length xs"
  using length_dropWhile_le [of P xs] by simp

function strip_segments :: "nat list \<Rightarrow> chars" where
  "strip_segments [] = []"
| "strip_segments (b # bs) =
     (case dropWhile (\<lambda>c. c \<noteq> 93) bs of
        close # dot # rest \<Rightarrow>
          if b = 91 \<and> (\<forall>c \<in> set (takeWhile (\<lambda>c. c \<noteq> 93) bs). is_digit c) \<and> dot = 46
          then strip_segments (dot # rest)
          else b # strip_segments bs
      | _ \<Rightarrow> b # strip_segments bs)"
  by pat_completeness auto
termination
by (relation "measure length") (auto dest!: dropWhile_shorter)

function strip_zeros :: "nat list \<Rightarrow> chars" where
  "strip_zeros [] = []"
| "strip_zeros (b # bs) =
     (case dropWhile (\<lambda>c. c \<noteq> 93) bs of
        close # rest \<Rightarrow>
          if b = 91 \<and> takeWhile (\<lambda>c. c \<noteq> 93) bs = [48] then strip_zeros rest
          else b # strip_zeros bs
      | [] \<Rightarrow> b # strip_zeros bs)"
  by pat_completeness auto
termination
by (relation "measure length") (auto dest!: dropWhile_shorter)

definition strip_indexed_segments :: "chars \<Rightarrow> chars" where
  "strip_indexed_segments path = strip_segments (path_bytes path)"

definition strip_zero_indices :: "chars \<Rightarrow> chars" where
  "strip_zero_indices path = strip_zeros (path_bytes path)"

text \<open>The prefix and its ancestors, down to the empty one.\<close>

function prefix_chain :: "chars \<Rightarrow> chars list" where
  "prefix_chain current = current # (if current = [] then [] else prefix_chain (parent_path current))"
  by pat_completeness auto
termination
  by (relation "measure length") (auto simp: parent_path_shorter)

declare prefix_chain.simps [simp del]

definition push_new :: "'a list \<Rightarrow> 'a \<Rightarrow> 'a list" where
  "push_new out x = (if x \<in> set out then out else out @ [x])"

definition lookup_candidates :: "chars \<Rightarrow> chars \<Rightarrow> chars list" where
  "lookup_candidates path prefix =
     foldl push_new []
       ([path, strip_zero_indices path] @
        concat (map (\<lambda>c. let scoped = join_path c path in [scoped, strip_zero_indices scoped])
                  (prefix_chain prefix)))"

text \<open>A path that ends in a subscript: what stands before it, and the index.\<close>

definition split_trailing_index :: "chars \<Rightarrow> (chars \<times> nat) option" where
  "split_trailing_index path =
     (case rev path of
        close # r \<Rightarrow>
          if close = 93 then
            (case dropWhile (\<lambda>c. c \<noteq> 91) r of
               [] \<Rightarrow> None
             | b # base \<Rightarrow>
                 map_option (\<lambda>i. (rev base, i)) (uint_from_str 64 10 (rev (takeWhile (\<lambda>c. c \<noteq> 91) r))))
          else None
      | [] \<Rightarrow> None)"

text \<open>What stands before each dot of a storage key.\<close>

definition ancestors :: "chars \<Rightarrow> chars list" where
  "ancestors key = map (\<lambda>i. take i key) (filter (\<lambda>i. key ! i = 46) [0 ..< length key])"

text \<open>The last segment of a path.\<close>

definition path_leaf :: "chars \<Rightarrow> chars" where
  "path_leaf path = rev (takeWhile (\<lambda>c. c \<noteq> 46) (rev path))"

definition index_suffix :: "int \<Rightarrow> chars" where
  "index_suffix i = [91] @ show_int i @ [93]"

subsection \<open>Formatted output\<close>

definition is_ascii_alpha :: "code_point \<Rightarrow> bool" where
  "is_ascii_alpha c \<longleftrightarrow> 0x41 \<le> c \<and> c \<le> 0x5A \<or> 0x61 \<le> c \<and> c \<le> 0x7A"

text \<open>What follows the percent sign (37) up to its conversion letter, and the rest.\<close>

fun printf_spec :: "chars \<Rightarrow> chars \<times> chars" where
  "printf_spec [] = ([], [])"
| "printf_spec (c # cs) =
     (if is_ascii_alpha c \<or> c = 37 then ([c], cs)
      else let (spec, rest) = printf_spec cs in (c # spec, rest))"

lemma printf_spec_length: "length (snd (printf_spec cs)) \<le> length cs"
  by (induction cs) (auto simp: split_beta Let_def)

definition int_arg :: "'f host \<Rightarrow> 'f tval list \<Rightarrow> int" where
  "int_arg h args =
     (case args of [] \<Rightarrow> 0 | v # _ \<Rightarrow> (case val_to_i128 h v of Some i \<Rightarrow> i | None \<Rightarrow> 0))"

text \<open>The text of one conversion, and whether it takes an argument.\<close>

definition printf_conv :: "'f host \<Rightarrow> chars \<Rightarrow> 'f tval list \<Rightarrow> chars \<times> bool" where
  "printf_conv h spec args =
     (let conv = last (37 # spec); i = int_arg h args; u = to_unsigned 128 i in
      if conv = 37 then ([37], False)
      else if conv = cp (CHR ''s'')
        then (case args of v # _ \<Rightarrow> value_to_display h v | [] \<Rightarrow> [], True)
      else if conv = cp (CHR ''c'')
        then (let v = to_unsigned 32 i in (if is_scalar_value v then [v] else [], True))
      else if conv \<in> {cp (CHR ''d''), cp (CHR ''i'')} then (show_int i, True)
      else if conv = cp (CHR ''u'') then (show_nat u, True)
      else if conv = cp (CHR ''x'') then (lower_hex u, True)
      else if conv = cp (CHR ''X'') then (upper_hex u, True)
      else if conv \<in> set (lit ''fFgG'')
        then (case args of
                v # _ \<Rightarrow> ho_show h (case val_to_f64 h v of Some x \<Rightarrow> x | None \<Rightarrow> ho_of_int h 0)
              | [] \<Rightarrow> ho_show h (ho_of_int h 0), True)
      else (37 # spec, False))"

function format_printf :: "'f host \<Rightarrow> chars \<Rightarrow> 'f tval list \<Rightarrow> chars" where
  "format_printf h [] args = []"
| "format_printf h (c # cs) args =
     (if c \<noteq> 37 then c # format_printf h cs args
      else let (out, takes) = printf_conv h (fst (printf_spec cs)) args
           in out @ format_printf h (snd (printf_spec cs)) (if takes then drop 1 args else args))"
  by pat_completeness auto
termination
  by (relation "measure (\<lambda>(h, fmt, args). length fmt)") (auto simp: le_imp_less_Suc printf_spec_length)

subsection \<open>Checksums\<close>

definition crc32_step :: "32 word \<Rightarrow> 32 word" where
  "crc32_step crc = (if crc AND 1 \<noteq> 0 then drop_bit 1 crc XOR 0xEDB88320 else drop_bit 1 crc)"

definition crc32_ieee :: "bytes \<Rightarrow> 32 word" where
  "crc32_ieee bs = NOT (foldl (\<lambda>crc b. (crc32_step ^^ 8) (crc XOR ucast b)) 0xFFFFFFFF bs)"

definition adler32_checksum :: "bytes \<Rightarrow> nat" where
  "adler32_checksum bs =
     (let (a, b) = foldl (\<lambda>(a, b) byte. let a = (a + unat byte) mod 65521 in (a, (b + a) mod 65521)) (1, 0) bs
      in b * 2 ^ 16 + a)"

definition crc16_step :: "16 word \<Rightarrow> 16 word" where
  "crc16_step crc = (if crc AND 0x8000 \<noteq> 0 then push_bit 1 crc XOR 0x1021 else push_bit 1 crc)"

definition crc16_ccitt :: "bytes \<Rightarrow> 16 word" where
  "crc16_ccitt bs = foldl (\<lambda>crc b. (crc16_step ^^ 8) (crc XOR push_bit 8 (ucast b))) 0xFFFF bs"

end
