(* ===== verification/Outcome.thy ===== *)
theory Outcome
  imports Prelude
begin

text \<open>
  Computations with a state, shared by the template interpreter and its parser: an outcome is a
  result and the state left behind, or nothing when the fuel of an interpreter did not suffice.
  The locale \<open>clock\<close> is the calculus in which both are shown to end: a state has an amount of
  something left that no computation increases.
\<close>

subsection \<open>Computations\<close>

text \<open>A computation takes the state and gives a result and the state it leaves, also when it fails.\<close>

type_synonym ('e, 'a, 's) result = "(('e, 'a) res \<times> 's) option"
type_synonym ('e, 'a, 's) program_step = "'s \<Rightarrow> ('e, 'a, 's) result"

definition done_with :: "'a \<Rightarrow> ('e, 'a, 's) program_step" where
  "done_with a s = Some (Ok a, s)"

definition fail_with :: "'e \<Rightarrow> ('e, 'a, 's) program_step" where
  "fail_with e s = Some (Err e, s)"

definition result_of :: "('e, 'a) res \<Rightarrow> ('e, 'a, 's) program_step" where
  "result_of r s = Some (r, s)"

definition and_then ::
  "('e, 'a, 's) result \<Rightarrow> ('a \<Rightarrow> ('e, 'b, 's) program_step) \<Rightarrow> ('e, 'b, 's) result" where
  "and_then out k =
     (case out of
        None \<Rightarrow> None
      | Some (Ok a, s) \<Rightarrow> k a s
      | Some (Err e, s) \<Rightarrow> Some (Err e, s)
      | Some (Panic, s) \<Rightarrow> Some (Panic, s))"

text \<open>A clean-up that follows a computation whether or not it failed.\<close>

definition finally_do :: "('e, 'a, 's) result \<Rightarrow> ('s \<Rightarrow> 's) \<Rightarrow> ('e, 'a, 's) result" where
  "finally_do out f = map_option (\<lambda>(r, s). (r, f s)) out"

lemma and_then_Some:
  "and_then (Some (out, s)) k =
     (case out of Ok a \<Rightarrow> k a s | Err e \<Rightarrow> Some (Err e, s) | Panic \<Rightarrow> Some (Panic, s))"
  by (simp add: and_then_def split: res.split)

lemma and_then_done: "and_then (done_with a s) f = f a s"
  by (simp add: and_then_def done_with_def)

lemma and_then_assoc: "and_then (and_then m f) g = and_then m (\<lambda>a s. and_then (f a s) g)"
  by (auto simp: and_then_def split: option.split res.split)

subsection \<open>Settling on an outcome\<close>

text \<open>A computation given by fuel settles if from some fuel on it has one and the same outcome.\<close>

definition settles_on :: "(nat \<Rightarrow> ('e, 'a, 's) result) \<Rightarrow> ('e, 'a) res \<Rightarrow> 's \<Rightarrow> bool" where
  "settles_on F out t \<longleftrightarrow> (\<exists>N. \<forall>n\<ge>N. F n = Some (out, t))"

lemma settles_on_const: "settles_on (\<lambda>n. Some (out, t)) out t"
  by (simp add: settles_on_def)

lemma settles_on_Ok:
  assumes "settles_on F (Ok a) t" "settles_on (\<lambda>n. K n a t) out u"
  shows "settles_on (\<lambda>n. and_then (F n) (K n)) out u"
proof -
  obtain N M where "\<forall>n\<ge>N. F n = Some (Ok a, t)" "\<forall>n\<ge>M. K n a t = Some (out, u)"
    using assms unfolding settles_on_def by blast
  then have "\<forall>n\<ge>max N M. and_then (F n) (K n) = Some (out, u)" by (simp add: and_then_Some)
  then show ?thesis unfolding settles_on_def by blast
qed

lemma settles_on_Err: "settles_on F (Err e) t \<Longrightarrow> settles_on (\<lambda>n. and_then (F n) (K n)) (Err e) t"
proof -
  assume "settles_on F (Err e) t"
  then obtain N where "\<forall>n\<ge>N. F n = Some (Err e, t)" unfolding settles_on_def by blast
  then have "\<forall>n\<ge>N. and_then (F n) (K n) = Some (Err e, t)" by (simp add: and_then_Some)
  then show ?thesis unfolding settles_on_def by blast
qed

lemma settles_on_Panic: "settles_on F Panic t \<Longrightarrow> settles_on (\<lambda>n. and_then (F n) (K n)) Panic t"
proof -
  assume "settles_on F Panic t"
  then obtain N where "\<forall>n\<ge>N. F n = Some (Panic, t)" unfolding settles_on_def by blast
  then have "\<forall>n\<ge>N. and_then (F n) (K n) = Some (Panic, t)" by (simp add: and_then_Some)
  then show ?thesis unfolding settles_on_def by blast
qed

lemma settles_on_map:
  assumes "settles_on F out t" "f (Some (out, t)) = Some (out', t')"
  shows "settles_on (\<lambda>n. f (F n)) out' t'"
  using assms unfolding settles_on_def by metis

lemma settles_on_shift:
  assumes "settles_on G out t" "\<And>n. F (Suc n) = G n"
  shows "settles_on F out t"
proof -
  obtain N where "\<forall>n\<ge>N. G n = Some (out, t)" using assms(1) unfolding settles_on_def by blast
  then have "\<forall>n\<ge>Suc N. F n = Some (out, t)" using assms(2) by (metis Suc_le_D Suc_le_mono)
  then show ?thesis unfolding settles_on_def by blast
qed

lemma settles_onD: "settles_on F out t \<Longrightarrow> \<exists>N. \<forall>n\<ge>N. F n = Some (out, t)"
  by (simp add: settles_on_def)

subsection \<open>Ending\<close>

text \<open>
  What every outcome keeps: it is \<open>later\<close>, with no more \<open>left\<close>, and still \<open>ready\<close>; and it is no
  panic, unless \<open>panics\<close> allows them.
\<close>

named_theorems settle_rules

locale clock =
  fixes later :: "'s \<Rightarrow> 's \<Rightarrow> bool" and left :: "'s \<Rightarrow> nat" and ready :: "'s \<Rightarrow> bool"
    and panics :: bool
  assumes refl_later: "later s s"
    and trans_later: "later s t \<Longrightarrow> later t u \<Longrightarrow> later s u"
    and later_left: "later s t \<Longrightarrow> left t \<le> left s"
    and later_ready: "later s t \<Longrightarrow> ready s \<Longrightarrow> ready t"
begin

text \<open>At most \<open>r\<close> is left.\<close>

definition within :: "nat \<Rightarrow> 's \<Rightarrow> bool" where
  "within r s \<longleftrightarrow> left s \<le> r \<and> ready s"

lemma within_later: "within r s \<Longrightarrow> later s t \<Longrightarrow> within r t"
  using later_left later_ready unfolding within_def by (meson le_trans)

lemma within_mono: "within r s \<Longrightarrow> r \<le> r' \<Longrightarrow> within r' s"
  by (simp add: within_def)

definition safe :: "('e, 'a) res \<Rightarrow> bool" where
  "safe out \<longleftrightarrow> (out = Panic \<longrightarrow> panics)"

lemma safe_simps [simp]: "safe (Ok a)" "safe (Err e)"
  by (simp_all add: safe_def)

definition ends :: "nat \<Rightarrow> (nat \<Rightarrow> ('e, 'a, 's) result) \<Rightarrow> 's \<Rightarrow> bool" where
  "ends r F s \<longleftrightarrow> (within r s \<longrightarrow> (\<exists>out t. later s t \<and> safe out \<and> settles_on F out t))"

text \<open>The same, with less left after every outcome that goes on.\<close>

definition moves :: "nat \<Rightarrow> (nat \<Rightarrow> ('e, 'a, 's) result) \<Rightarrow> 's \<Rightarrow> bool" where
  "moves r F s \<longleftrightarrow>
     (within r s \<longrightarrow> (\<exists>out t. later s t \<and> safe out \<and> (\<forall>a. out = Ok a \<longrightarrow> left t < left s) \<and>
                         settles_on F out t))"

lemma moves_ends: "moves r F s \<Longrightarrow> ends r F s"
  by (auto simp: moves_def ends_def)

lemma endsE:
  assumes "ends r F s" "within r s"
  shows "\<exists>out t. later s t \<and> safe out \<and> settles_on F out t"
  using assms unfolding ends_def by blast

lemma movesE:
  assumes "moves r F s" "within r s"
  shows "\<exists>out t. later s t \<and> safe out \<and> (\<forall>a. out = Ok a \<longrightarrow> left t < left s) \<and> settles_on F out t"
  using assms unfolding moves_def by blast

lemma endsI: "(within r s \<Longrightarrow> \<exists>out t. later s t \<and> safe out \<and> settles_on F out t) \<Longrightarrow> ends r F s"
  by (simp add: ends_def)

lemma movesI:
  "(within r s \<Longrightarrow> \<exists>out t. later s t \<and> safe out \<and> (\<forall>a. out = Ok a \<longrightarrow> left t < left s) \<and> settles_on F out t)
    \<Longrightarrow> moves r F s"
  by (simp add: moves_def)

lemma ends_const: "later s t \<Longrightarrow> safe out \<Longrightarrow> ends r (\<lambda>n. Some (out, t)) s"
  unfolding ends_def by (intro impI exI [of _ out] exI [of _ t]) (simp add: settles_on_const)

lemma ends_done [settle_rules]: "later s t \<Longrightarrow> ends r (\<lambda>n. done_with v t) s"
  by (simp add: done_with_def ends_const)

lemma ends_fail [settle_rules]: "later s t \<Longrightarrow> ends r (\<lambda>n. fail_with e t) s"
  by (simp add: fail_with_def ends_const)

lemma ends_result [settle_rules]: "later s t \<Longrightarrow> safe out \<Longrightarrow> ends r (\<lambda>n. result_of out t) s"
  by (simp add: result_of_def ends_const)

lemma ends_at: "ends r F t \<Longrightarrow> later s t \<Longrightarrow> ends r F s"
  unfolding ends_def by (meson trans_later within_later)

lemma ends_less: "ends r F s \<Longrightarrow> r' \<le> r \<Longrightarrow> ends r' F s"
  unfolding ends_def by (blast intro: within_mono)

lemma moves_less: "moves r F s \<Longrightarrow> r' \<le> r \<Longrightarrow> moves r' F s"
  unfolding moves_def by (blast intro: within_mono)

lemma moves_at:
  assumes F: "moves r F t" and st: "later s t"
  shows "moves r F s"
proof (rule movesI)
  assume w: "within r s"
  obtain out u where u: "later t u" "safe out" "\<forall>a. out = Ok a \<longrightarrow> left u < left t" "settles_on F out u"
    using movesE [OF F within_later [OF w st]] by blast
  then show "\<exists>out t. later s t \<and> safe out \<and> (\<forall>a. out = Ok a \<longrightarrow> left t < left s) \<and> settles_on F out t"
    using trans_later [OF st u(1)] later_left [OF st] by (meson less_le_trans)
qed

text \<open>Only the amount left at the start matters.\<close>

lemma ends_own: "ends (left s) F s \<Longrightarrow> ends r F s"
  by (simp add: ends_def within_def)

lemma moves_own: "moves (left s) F s \<Longrightarrow> moves r F s"
  by (simp add: moves_def within_def)

lemma then_cases:
  fixes F :: "nat \<Rightarrow> ('e, 'a, 's) result" and K :: "nat \<Rightarrow> 'a \<Rightarrow> ('e, 'b, 's) program_step"
  assumes out: "settles_on F out t" "safe out"
    and K: "\<And>a. out = Ok a \<Longrightarrow> \<exists>out' u. later t u \<and> safe out' \<and> settles_on (\<lambda>n. K n a t) out' u"
  shows "\<exists>out' u. later t u \<and> safe out' \<and> ((\<exists>b. out' = Ok b) \<longrightarrow> (\<exists>a. out = Ok a)) \<and>
      settles_on (\<lambda>n. and_then (F n) (K n)) out' u"
proof (cases out)
  case (Ok a)
  then obtain out' u where "later t u" "safe out'" "settles_on (\<lambda>n. K n a t) out' u" using K by blast
  with Ok show ?thesis using settles_on_Ok [where F = F and K = K] out(1) by blast
next
  case (Err e)
  then have "settles_on (\<lambda>n. and_then (F n) (K n)) (Err e) t" using out(1) by (simp add: settles_on_Err)
  then show ?thesis using Err by (intro exI [of _ "Err e"] exI [of _ t]) (simp add: refl_later)
next
  case Panic
  then have "settles_on (\<lambda>n. and_then (F n) (K n)) Panic t" using out(1) by (simp add: settles_on_Panic)
  moreover have "safe (Panic :: ('e, 'b) res)" using out(2) unfolding Panic safe_def by simp
  ultimately show ?thesis unfolding Panic
    by (intro exI [of _ Panic] exI [of _ t] conjI) (simp_all only: refl_later res.distinct, blast+)
qed

lemma ends_then [settle_rules]:
  assumes F: "ends r F s" and K: "\<And>a t. ends r (\<lambda>n. K n a t) t"
  shows "ends r (\<lambda>n. and_then (F n) (K n)) s"
proof (rule endsI)
  assume w: "within r s"
  obtain out t where t: "later s t" and out: "settles_on F out t" "safe out"
    using endsE [OF F w] by blast
  have "\<exists>out' u. later t u \<and> safe out' \<and> settles_on (\<lambda>n. K n a t) out' u" for a
    by (rule endsE [OF K within_later [OF w t]])
  then have "\<exists>out' u. later t u \<and> safe out' \<and> ((\<exists>b. out' = Ok b) \<longrightarrow> (\<exists>a. out = Ok a)) \<and>
      settles_on (\<lambda>n. and_then (F n) (K n)) out' u"
    by (rule then_cases [where F = F and K = K, OF out])
  then show "\<exists>out t. later s t \<and> safe out \<and> settles_on (\<lambda>n. and_then (F n) (K n)) out t"
    using t trans_later by blast
qed

text \<open>After a part that moves, what follows has less left.\<close>

lemma moves_then_less:
  assumes F: "moves r F s" and K: "\<And>a t. 0 < r \<Longrightarrow> ends (r - 1) (\<lambda>n. K n a t) t"
  shows "moves r (\<lambda>n. and_then (F n) (K n)) s"
proof (rule movesI)
  assume w: "within r s"
  obtain out t where t: "later s t" and less: "\<forall>a. out = Ok a \<longrightarrow> left t < left s"
      and out: "settles_on F out t" "safe out"
    using movesE [OF F w] by blast
  have "\<exists>out' u. later t u \<and> safe out' \<and> settles_on (\<lambda>n. K n a t) out' u" if "out = Ok a" for a
  proof -
    have "0 < r" "within (r - 1) t"
      using w within_later [OF w t] less that by (auto simp: within_def)
    then show ?thesis by (rule endsE [OF K])
  qed
  then have "\<exists>out' u. later t u \<and> safe out' \<and> ((\<exists>b. out' = Ok b) \<longrightarrow> (\<exists>a. out = Ok a)) \<and>
      settles_on (\<lambda>n. and_then (F n) (K n)) out' u"
    by (rule then_cases [where F = F and K = K, OF out])
  then obtain out' u
    where u: "later t u" "safe out'" "(\<exists>b. out' = Ok b) \<longrightarrow> (\<exists>a. out = Ok a)"
      "settles_on (\<lambda>n. and_then (F n) (K n)) out' u"
    by blast
  moreover have "left u < left s" if "out' = Ok a" for a
  proof -
    have "\<exists>c. out = Ok c" using u(3) that by blast
    then show ?thesis using less later_left [OF u(1)] by auto
  qed
  ultimately show "\<exists>out t. later s t \<and> safe out \<and> (\<forall>a. out = Ok a \<longrightarrow> left t < left s) \<and>
      settles_on (\<lambda>n. and_then (F n) (K n)) out t"
    using trans_later [OF t] by blast
qed

lemmas ends_then_less = moves_ends [OF moves_then_less]

lemma moves_then:
  "moves r F s \<Longrightarrow> (\<And>a t. ends r (\<lambda>n. K n a t) t) \<Longrightarrow> moves r (\<lambda>n. and_then (F n) (K n)) s"
  by (rule moves_then_less, assumption) (rule ends_less [where r = r], simp_all)

text \<open>What ends, followed by a part that moves.\<close>

lemma ends_then_moves:
  fixes F :: "nat \<Rightarrow> ('e, 'a, 's) result" and K :: "nat \<Rightarrow> 'a \<Rightarrow> ('e, 'b, 's) program_step"
  assumes F: "ends r F s" and K: "\<And>a t. moves r (\<lambda>n. K n a t) t"
  shows "moves r (\<lambda>n. and_then (F n) (K n)) s"
proof (rule movesI)
  assume w: "within r s"
  obtain out t where t: "later s t" and out: "settles_on F out t" "safe out"
    using endsE [OF F w] by blast
  show "\<exists>out t. later s t \<and> safe out \<and> (\<forall>a. out = Ok a \<longrightarrow> left t < left s) \<and>
      settles_on (\<lambda>n. and_then (F n) (K n)) out t"
  proof (cases out)
    case (Ok a)
    obtain out' u where u: "later t u" "safe out'" "\<forall>b. out' = Ok b \<longrightarrow> left u < left t"
        "settles_on (\<lambda>n. K n a t) out' u"
      using movesE [OF K within_later [OF w t]] by blast
    have "settles_on (\<lambda>n. and_then (F n) (K n)) out' u"
      by (rule settles_on_Ok [where F = F and K = K, OF out(1) [unfolded Ok] u(4)])
    then show ?thesis using u(2,3) trans_later [OF t u(1)] later_left [OF t] by (meson less_le_trans)
  next
    case (Err e)
    then have "settles_on (\<lambda>n. and_then (F n) (K n)) (Err e) t" using out(1) by (simp add: settles_on_Err)
    then show ?thesis using t by (intro exI [of _ "Err e"] exI [of _ t]) simp
  next
    case Panic
    then have "settles_on (\<lambda>n. and_then (F n) (K n)) Panic t" using out(1) by (simp add: settles_on_Panic)
    moreover have "safe (Panic :: ('e, 'b) res)" using out(2) unfolding Panic safe_def by simp
    ultimately show ?thesis using t
      by (intro exI [of _ Panic] exI [of _ t] conjI) (simp_all only: res.distinct, blast+)
  qed
qed

text \<open>A function of the outcome that keeps the clock.\<close>

lemma ends_map:
  assumes F: "ends r F s"
    and f: "\<And>out t. later s t \<Longrightarrow> safe out \<Longrightarrow> \<exists>out' t'. f (Some (out, t)) = Some (out', t') \<and> later s t' \<and> safe out'"
  shows "ends r (\<lambda>n. f (F n)) s"
proof (rule endsI)
  assume w: "within r s"
  obtain out t where t: "later s t" "safe out" and out: "settles_on F out t" using endsE [OF F w] by blast
  obtain out' t' where "f (Some (out, t)) = Some (out', t')" "later s t'" "safe out'" using f [OF t] by blast
  then show "\<exists>out t. later s t \<and> safe out \<and> settles_on (\<lambda>n. f (F n)) out t"
    using settles_on_map [OF out, of f] by blast
qed

lemma ends_finally:
  assumes "ends r F s" "\<And>t. later s (f t) = later s t"
  shows "ends r (\<lambda>n. finally_do (F n) f) s"
  by (rule ends_map [where f = "\<lambda>out. finally_do out f", OF assms(1)])
    (simp add: finally_do_def assms(2))

lemma ends_shift:
  assumes "ends r G s" "\<And>n. F (Suc n) = G n"
  shows "ends r F s"
  using assms(1) settles_on_shift [where F = F and G = G] assms(2) unfolding ends_def by blast

lemma moves_shift:
  assumes "moves r G s" "\<And>n. F (Suc n) = G n"
  shows "moves r F s"
  using assms(1) settles_on_shift [where F = F and G = G] assms(2) unfolding moves_def by blast

text \<open>Cases.\<close>

lemma ends_if [settle_rules]:
  "(b \<Longrightarrow> ends r F s) \<Longrightarrow> (\<not> b \<Longrightarrow> ends r G s) \<Longrightarrow> ends r (\<lambda>n. if b then F n else G n) s"
  by (cases b) simp_all

lemma ends_option [settle_rules]:
  "(x = None \<Longrightarrow> ends r F s) \<Longrightarrow> (\<And>a. x = Some a \<Longrightarrow> ends r (\<lambda>n. G n a) s)
    \<Longrightarrow> ends r (\<lambda>n. case x of None \<Rightarrow> F n | Some a \<Rightarrow> G n a) s"
  by (cases x) simp_all

lemma ends_pair [settle_rules]:
  "(\<And>a b. x = (a, b) \<Longrightarrow> ends r (\<lambda>n. G n a b) s) \<Longrightarrow> ends r (\<lambda>n. case x of (a, b) \<Rightarrow> G n a b) s"
  by (cases x) simp

lemma ends_sum [settle_rules]:
  "(\<And>a. x = Inl a \<Longrightarrow> ends r (\<lambda>n. F n a) s) \<Longrightarrow> (\<And>b. x = Inr b \<Longrightarrow> ends r (\<lambda>n. G n b) s)
    \<Longrightarrow> ends r (\<lambda>n. case x of Inl a \<Rightarrow> F n a | Inr b \<Rightarrow> G n b) s"
  by (cases x) simp_all

lemma ends_res [settle_rules]:
  "(\<And>a. x = Ok a \<Longrightarrow> ends r (\<lambda>n. F n a) s) \<Longrightarrow> (\<And>e. x = Err e \<Longrightarrow> ends r (\<lambda>n. G n e) s)
    \<Longrightarrow> (x = Panic \<Longrightarrow> ends r H s)
    \<Longrightarrow> ends r (\<lambda>n. case x of Ok a \<Rightarrow> F n a | Err e \<Rightarrow> G n e | Panic \<Rightarrow> H n) s"
  by (cases x) simp_all

text \<open>The same for a case that gives a computation, which then gets its state.\<close>

lemma ends_if_at [settle_rules]:
  "(b \<Longrightarrow> ends r (\<lambda>n. F n t) s) \<Longrightarrow> (\<not> b \<Longrightarrow> ends r (\<lambda>n. G n t) s)
    \<Longrightarrow> ends r (\<lambda>n. (if b then F n else G n) t) s"
  by (cases b) simp_all

lemma ends_option_at [settle_rules]:
  "(x = None \<Longrightarrow> ends r (\<lambda>n. F n t) s) \<Longrightarrow> (\<And>a. x = Some a \<Longrightarrow> ends r (\<lambda>n. G n a t) s)
    \<Longrightarrow> ends r (\<lambda>n. (case x of None \<Rightarrow> F n | Some a \<Rightarrow> G n a) t) s"
  by (cases x) simp_all

lemma ends_pair_at [settle_rules]:
  "(\<And>a b. x = (a, b) \<Longrightarrow> ends r (\<lambda>n. G n a b t) s) \<Longrightarrow> ends r (\<lambda>n. (case x of (a, b) \<Rightarrow> G n a b) t) s"
  by (cases x) simp

lemma ends_sum_at [settle_rules]:
  "(\<And>a. x = Inl a \<Longrightarrow> ends r (\<lambda>n. F n a t) s) \<Longrightarrow> (\<And>b. x = Inr b \<Longrightarrow> ends r (\<lambda>n. G n b t) s)
    \<Longrightarrow> ends r (\<lambda>n. (case x of Inl a \<Rightarrow> F n a | Inr b \<Rightarrow> G n b) t) s"
  by (cases x) simp_all

end

end
