(* ===== verification/TplState.thy ===== *)
theory TplState
  imports TplText Outcome
begin

text \<open>
  The state of the template interpreter (\<open>hxy-010-lang/src/interp.rs\<close>, with the byte source and
  cursor of \<open>source.rs\<close>), and the operations on it that evaluate no expression: scopes, stored
  fields, types, bitfields. The innermost scope is the head of the list of scopes. A hash map is a
  function; where the code iterates over one, the order is a parameter.
\<close>

subsection \<open>Sources\<close>

record tpl_source =
  ts_len :: nat
  ts_read :: "nat \<Rightarrow> nat \<Rightarrow> (source_error, bytes) res"

definition tpl_memory_read :: "bytes \<Rightarrow> nat \<Rightarrow> nat \<Rightarrow> (source_error, bytes) res" where
  "tpl_memory_read bs off n =
     (let e = sat_add64 off n in
      if e > length bs then Err (SrcOutOfBounds off e (length bs)) else slice_res off e bs)"

definition tpl_memory_source :: "bytes \<Rightarrow> tpl_source" where
  "tpl_memory_source bs = \<lparr>ts_len = length bs, ts_read = tpl_memory_read bs\<rparr>"

subsection \<open>State\<close>

datatype severity = SevError | SevWarning | SevInfo

record diagnostic =
  dg_message :: chars
  dg_severity :: severity
  dg_file_offset :: "nat option"
  dg_template_line :: "nat option"

record 'f node_out =
  no_name :: chars
  no_ty :: node_type
  no_offset :: nat
  no_length :: nat
  no_value :: "'f tval option"
  no_parent :: "nat option"
  no_attrs :: "(chars \<times> chars) list"

record 'f run_result =
  rr_nodes :: "'f node_out list"
  rr_diagnostics :: "diagnostic list"
  rr_return_value :: "'f tval option"
  rr_terminal_error :: "runtime_error option"

record array_span =
  ar_source_offset :: nat
  ar_count :: nat
  ar_prim :: prim_kind
  ar_endian :: tpl_endian

record bitfield_slot =
  bf_prim :: prim_kind
  bf_raw :: nat
  bf_offset :: nat
  bf_consumed :: nat

datatype 'f type_def =
    TdPrimitive prim_kind
  | TdAlias chars
  | TdEnum "'f enum_decl"
  | TdStruct "'f struct_decl"

record 'f scope =
  sc_vars :: "chars \<rightharpoonup> 'f tval"
  sc_aliases :: "chars \<rightharpoonup> chars"

definition scope_default :: "'f scope" where
  "scope_default = \<lparr>sc_vars = Map.empty, sc_aliases = Map.empty\<rparr>"

datatype 'f flow = FlowNext | FlowBreak | FlowContinue | FlowReturn "'f tval option"

record 'f istate =
  st_pos :: nat
  st_endian :: tpl_endian
  st_types :: "chars \<rightharpoonup> 'f type_def"
  st_variants :: "chars \<rightharpoonup> int"
  st_functions :: "chars \<rightharpoonup> 'f function_def"
  st_scopes :: "'f scope list"
  st_var_counts :: "chars \<rightharpoonup> nat"
  st_nodes :: "'f node_out list"
  st_diagnostics :: "diagnostic list"
  st_steps :: nat
  st_step_limit :: nat
  st_fields :: "chars \<rightharpoonup> 'f tval"
  st_has_children :: "chars set"
  st_arrays :: "chars \<rightharpoonup> array_span"
  st_typedef_array_size :: "chars \<rightharpoonup> 'f expr"
  st_local_array_bytes :: "chars \<rightharpoonup> nat"
  st_path :: "chars list"
  st_prefix :: chars
  st_field_counts :: "chars \<times> chars \<rightharpoonup> nat"
  st_slot :: "bitfield_slot option"
  st_right_to_left :: bool
  st_padding_disabled :: bool
  st_timeout :: "nat option"

text \<open>
  What the interpreter is run with: the host, the source, whether the deadline has passed when a
  statement of the given number is checked, the depth the call stack admits to the recursion over
  types, and the order of iteration over the type registry.
\<close>

record 'f env =
  en_host :: "'f host"
  en_source :: tpl_source
  en_expired :: "nat \<Rightarrow> bool"
  en_stack :: nat
  en_type_values :: "(chars \<rightharpoonup> 'f type_def) \<Rightarrow> 'f type_def list"

definition default_step_limit :: nat where
  "default_step_limit = 10000000"

definition str_inline_threshold_bytes :: nat where
  "str_inline_threshold_bytes = 1024 * 1024"

subsection \<open>Computations\<close>

type_synonym ('f, 'a) outcome = "(runtime_error, 'a, 'f istate) result"
type_synonym ('f, 'a) comp = "(runtime_error, 'a, 'f istate) program_step"

definition source_result :: "(source_error, 'a) res \<Rightarrow> ('f, 'a) comp" where
  "source_result r = result_of (map_err SourceFailed r)"

text \<open>\<open>Cursor::read_at\<close> and \<open>Cursor::read_advance\<close>.\<close>

definition read_at :: "'f env \<Rightarrow> nat \<Rightarrow> nat \<Rightarrow> ('f, bytes) comp" where
  "read_at E off n = source_result (ts_read (en_source E) off n)"

definition read_advance :: "'f env \<Rightarrow> nat \<Rightarrow> ('f, bytes) comp" where
  "read_advance E n s =
     and_then (read_at E (st_pos s) n s) (\<lambda>bs s. done_with bs (s\<lparr>st_pos := st_pos s + n\<rparr>))"

definition source_len :: "'f env \<Rightarrow> nat" where
  "source_len E = ts_len (en_source E)"

definition push_diagnostic :: "severity \<Rightarrow> chars \<Rightarrow> nat \<Rightarrow> 'f istate \<Rightarrow> 'f istate" where
  "push_diagnostic sev msg off s =
     s\<lparr>st_diagnostics := st_diagnostics s @
        [\<lparr>dg_message = msg, dg_severity = sev, dg_file_offset = Some off, dg_template_line = None\<rparr>]\<rparr>"

subsection \<open>Scopes\<close>

definition bump :: "('k \<rightharpoonup> nat) \<Rightarrow> 'k \<Rightarrow> ('k \<rightharpoonup> nat)" where
  "bump counts x = counts(x \<mapsto> (case counts x of Some c \<Rightarrow> c + 1 | None \<Rightarrow> 1))"

definition bind_var :: "chars \<Rightarrow> 'f tval \<Rightarrow> 'f istate \<Rightarrow> 'f istate" where
  "bind_var name v s =
     (case st_scopes s of
        sc # rest \<Rightarrow>
          s\<lparr>st_var_counts := (if sc_vars sc name = None then bump (st_var_counts s) name else st_var_counts s),
            st_scopes := sc\<lparr>sc_vars := (sc_vars sc)(name \<mapsto> v)\<rparr> # rest\<rparr>
      | [] \<Rightarrow> s)"

definition push_scope :: "'f istate \<Rightarrow> 'f istate" where
  "push_scope s = s\<lparr>st_scopes := scope_default # st_scopes s\<rparr>"

definition pop_scope :: "'f istate \<Rightarrow> 'f istate" where
  "pop_scope s =
     (case st_scopes s of
        sc # rest \<Rightarrow>
          s\<lparr>st_scopes := rest,
            st_var_counts := (\<lambda>name.
              if sc_vars sc name = None then st_var_counts s name
              else case st_var_counts s name of
                Some c \<Rightarrow> if c - 1 = 0 then None else Some (c - 1)
              | None \<Rightarrow> None)\<rparr>
      | [] \<Rightarrow> s)"

definition bind_alias :: "chars \<Rightarrow> chars \<Rightarrow> 'f istate \<Rightarrow> 'f istate" where
  "bind_alias name path s =
     (case st_scopes s of
        sc # rest \<Rightarrow> s\<lparr>st_scopes := sc\<lparr>sc_aliases := (sc_aliases sc)(name \<mapsto> path)\<rparr> # rest\<rparr>
      | [] \<Rightarrow> s)"

fun find_in_scopes :: "('f scope \<Rightarrow> 'a option) \<Rightarrow> 'f scope list \<Rightarrow> 'a option" where
  "find_in_scopes f [] = None"
| "find_in_scopes f (sc # rest) = (case f sc of Some x \<Rightarrow> Some x | None \<Rightarrow> find_in_scopes f rest)"

definition resolve_path_alias :: "'f istate \<Rightarrow> chars \<Rightarrow> chars option" where
  "resolve_path_alias s name = find_in_scopes (\<lambda>sc. sc_aliases sc name) (st_scopes s)"

text \<open>The innermost scope that binds the name takes the value.\<close>

fun assign_in_scopes :: "chars \<Rightarrow> 'f tval \<Rightarrow> 'f scope list \<Rightarrow> 'f scope list option" where
  "assign_in_scopes name v [] = None"
| "assign_in_scopes name v (sc # rest) =
     (if sc_vars sc name \<noteq> None then Some (sc\<lparr>sc_vars := (sc_vars sc)(name \<mapsto> v)\<rparr> # rest)
      else map_option ((#) sc) (assign_in_scopes name v rest))"

definition store_ident :: "chars \<Rightarrow> 'f tval \<Rightarrow> 'f istate \<Rightarrow> 'f istate" where
  "store_ident name v s =
     (case assign_in_scopes name v (st_scopes s) of
        Some scs \<Rightarrow> s\<lparr>st_scopes := scs\<rparr>
      | None \<Rightarrow> bind_var name v s)"

definition candidates_of :: "'f istate \<Rightarrow> chars \<Rightarrow> chars list" where
  "candidates_of s path = lookup_candidates path (st_prefix s)"

definition has_children :: "'f istate \<Rightarrow> chars list \<Rightarrow> bool" where
  "has_children s cs = list_ex (\<lambda>c. c \<in> st_has_children s) cs"

definition find_stored :: "(chars \<rightharpoonup> 'a) \<Rightarrow> chars list \<Rightarrow> 'a option" where
  "find_stored m cs = (case filter (\<lambda>c. m c \<noteq> None) cs of c # _ \<Rightarrow> m c | [] \<Rightarrow> None)"

definition lookup_ident :: "'f istate \<Rightarrow> chars \<Rightarrow> 'f tval ires" where
  "lookup_ident s name =
     (case (if st_var_counts s name \<noteq> None
            then find_in_scopes (\<lambda>sc. sc_vars sc name) (st_scopes s) else None) of
        Some v \<Rightarrow> Ok v
      | None \<Rightarrow>
        (case st_variants s name of
           Some raw \<Rightarrow> Ok (VUInt (to_unsigned 128 raw) kind_u64)
         | None \<Rightarrow>
           if resolve_path_alias s name \<noteq> None then Ok VVoid
           else if has_children s (candidates_of s name) then Ok VVoid
           else case find_stored (st_fields s) (candidates_of s name) of
             Some v \<Rightarrow> Ok v
           | None \<Rightarrow> Err (UndefinedName name)))"

subsection \<open>Stored fields\<close>

definition store_at_path :: "chars \<Rightarrow> 'f tval \<Rightarrow> 'f istate \<Rightarrow> 'f istate" where
  "store_at_path key v s =
     s\<lparr>st_has_children := st_has_children s \<union> set (ancestors key),
       st_fields := (st_fields s)(key \<mapsto> v)\<rparr>"

text \<open>The segment of the next field of that name: bare the first time, with its index later.\<close>

definition next_struct_segment :: "chars \<Rightarrow> 'f istate \<Rightarrow> chars \<times> 'f istate" where
  "next_struct_segment name s =
     (let slot = (st_prefix s, name);
          idx = (case st_field_counts s slot of Some c \<Rightarrow> c | None \<Rightarrow> 0)
      in (if idx = 0 then name else name @ index_suffix (int idx),
          s\<lparr>st_field_counts := bump (st_field_counts s) slot\<rparr>))"

definition store_field :: "chars \<Rightarrow> 'f tval \<Rightarrow> 'f istate \<Rightarrow> 'f istate" where
  "store_field name v s =
     (let (segment, s') = next_struct_segment name s
      in store_at_path (join_path (st_prefix s) segment) v s')"

definition push_path_segment :: "chars \<Rightarrow> 'f istate \<Rightarrow> 'f istate" where
  "push_path_segment segment s =
     s\<lparr>st_prefix := (if st_prefix s = [] then segment else st_prefix s @ [46] @ segment),
       st_path := segment # st_path s\<rparr>"

definition pop_path_segment :: "'f istate \<Rightarrow> 'f istate" where
  "pop_path_segment s =
     (case st_path s of
        segment # rest \<Rightarrow>
          (let cut = take (length (st_prefix s) - length segment) (st_prefix s)
           in s\<lparr>st_path := rest,
                st_prefix := (if cut \<noteq> [] \<and> last cut = 46 then butlast cut else cut)\<rparr>)
      | [] \<Rightarrow> s)"

definition add_array_span :: "chars \<Rightarrow> array_span \<Rightarrow> 'f istate \<Rightarrow> 'f istate" where
  "add_array_span key span s =
     s\<lparr>st_has_children := st_has_children s \<union> set (ancestors key),
       st_arrays := (st_arrays s)(key \<mapsto> span)\<rparr>"

definition decode_array_element :: "'f env \<Rightarrow> array_span \<Rightarrow> nat \<Rightarrow> ('f, 'f tval) comp" where
  "decode_array_element E span idx s =
     (if idx \<ge> ar_count span
      then fail_with (TypeError (lit ''array index out of bounds: '' @ show_nat idx @ lit '' >= '' @
             show_nat (ar_count span))) s
      else and_then (read_at E (ar_source_offset span + idx * pk_width (ar_prim span)) (pk_width (ar_prim span)) s)
        (\<lambda>bs. result_of (decode_prim (en_host E) bs (ar_prim span) (ar_endian span))))"

definition push_node :: "'f node_out \<Rightarrow> 'f istate \<Rightarrow> 'f istate" where
  "push_node n s = s\<lparr>st_nodes := st_nodes s @ [n]\<rparr>"

definition set_node_length :: "nat \<Rightarrow> nat \<Rightarrow> 'f istate \<Rightarrow> 'f istate" where
  "set_node_length idx n s = s\<lparr>st_nodes := (st_nodes s)[idx := (st_nodes s ! idx)\<lparr>no_length := n\<rparr>]\<rparr>"

definition last_node :: "'f istate \<Rightarrow> chars \<Rightarrow> 'f node_out option" where
  "last_node s name = find (\<lambda>n. no_name n = name) (rev (st_nodes s))"

definition field_byte_length :: "'f istate \<Rightarrow> chars \<Rightarrow> nat option" where
  "field_byte_length s name =
     (case last_node s name of Some n \<Rightarrow> Some (no_length n) | None \<Rightarrow> st_local_array_bytes s name)"

definition field_byte_offset :: "'f istate \<Rightarrow> chars \<Rightarrow> nat option" where
  "field_byte_offset s name = map_option no_offset (last_node s name)"

subsection \<open>Types\<close>

fun resolve_name :: "nat \<Rightarrow> (chars \<rightharpoonup> 'f type_def) \<Rightarrow> chars \<Rightarrow> 'f type_def option" where
  "resolve_name 0 types name = None"
| "resolve_name (Suc n) types name =
     (case types name of
        Some (TdAlias target) \<Rightarrow> resolve_name n types target
      | Some def \<Rightarrow> Some def
      | None \<Rightarrow> None)"

definition resolve_type :: "'f istate \<Rightarrow> type_ref \<Rightarrow> 'f type_def ires" where
  "resolve_type s ty =
     (case resolve_name 32 (st_types s) (tr_name ty) of
        Some def \<Rightarrow> Ok def
      | None \<Rightarrow> Err (UnknownType (tr_name ty)))"

text \<open>
  One statement of a struct's body in the sum of its widths; \<open>sz\<close> is the size of a named type.
\<close>

definition size_of_stmt :: "(chars \<Rightarrow> nat ires) \<Rightarrow> bool \<Rightarrow> 'f stmt \<Rightarrow> nat \<Rightarrow> nat ires" where
  "size_of_stmt sz is_union st acc =
     (case st of
        FieldDecl md ty name array_size args bit_width init attrs sp \<Rightarrow>
          if md \<noteq> ModField then Ok acc
          else
            (case sz (tr_name ty) of
               Panic \<Rightarrow> Panic
             | r \<Rightarrow>
                (let elem = (case r of Ok n \<Rightarrow> n | _ \<Rightarrow> 0) in
                 if bit_width \<noteq> None then Ok (max acc elem)
                 else
                   (let n = (case array_size of
                               None \<Rightarrow> elem
                             | Some (IntLit v sp') \<Rightarrow> sat_mul64 elem v
                             | Some _ \<Rightarrow> 0)
                    in Ok (if is_union then max acc n else sat_add64 acc n))))
      | _ \<Rightarrow> Ok acc)"

fun size_of_body :: "(chars \<Rightarrow> nat ires) \<Rightarrow> bool \<Rightarrow> 'f stmt list \<Rightarrow> nat \<Rightarrow> nat ires" where
  "size_of_body sz is_union [] acc = Ok acc"
| "size_of_body sz is_union (st # sts) acc =
     res_bind (size_of_stmt sz is_union st acc) (size_of_body sz is_union sts)"

text \<open>The recursion over struct types ends the process when it is deeper than the stack admits.\<close>

fun sizeof_type :: "nat \<Rightarrow> (chars \<rightharpoonup> 'f type_def) \<Rightarrow> chars \<Rightarrow> nat ires" where
  "sizeof_type 0 types name = Panic"
| "sizeof_type (Suc d) types name =
     (case resolve_name 32 types name of
        None \<Rightarrow> Ok 0
      | Some (TdPrimitive p) \<Rightarrow> Ok (pk_width p)
      | Some (TdAlias t) \<Rightarrow> Ok 0
      | Some (TdEnum e) \<Rightarrow>
          (case ed_backing e of Some t \<Rightarrow> sizeof_type d types (tr_name t) | None \<Rightarrow> Ok 4)
      | Some (TdStruct sd) \<Rightarrow> size_of_body (sizeof_type d types) (sd_is_union sd) (sd_body sd) 0)"

definition among :: "chars \<Rightarrow> string list \<Rightarrow> bool" where
  "among name names \<longleftrightarrow> list_ex (\<lambda>n. name = lit n) names"

end
