(* ===== verification/TplBits.thy ===== *)
theory TplBits
  imports TplState
begin

text \<open>
  The interpreter's initial state (the built-in types and constants) and the reading of bitfields
  (\<open>hxy-010-lang/src/interp.rs\<close>).
\<close>

subsection \<open>The initial state\<close>

definition primitive_table :: "(string \<times> prim_kind) list" where
  "primitive_table = [
    (''char'', kind_char), (''CHAR'', kind_char), (''uchar'', kind_uchar),
    (''UCHAR'', kind_uchar), (''byte'', kind_i8), (''ubyte'', kind_u8), (''BYTE'', kind_u8),
    (''UBYTE'', kind_u8), (''short'', kind_i16), (''ushort'', kind_u16), (''int16'', kind_i16),
    (''uint16'', kind_u16), (''SHORT'', kind_i16), (''USHORT'', kind_u16),
    (''WORD'', kind_u16), (''int'', kind_i32), (''uint'', kind_u32), (''int32'', kind_i32),
    (''uint32'', kind_u32), (''long'', kind_i32), (''ulong'', kind_u32), (''LONG'', kind_i32),
    (''ULONG'', kind_u32), (''INT'', kind_i32), (''UINT'', kind_u32), (''DWORD'', kind_u32),
    (''int64'', kind_i64), (''uint64'', kind_u64), (''UINT64'', kind_u64),
    (''INT64'', kind_i64), (''ULONG64'', kind_u64), (''LONG64'', kind_i64),
    (''__int64'', kind_i64), (''QWORD'', kind_u64), (''UQWORD'', kind_u64),
    (''QUAD'', kind_i64), (''UQUAD'', kind_u64), (''int8'', kind_i8), (''uint8'', kind_u8),
    (''float'', kind_f32), (''double'', kind_f64), (''FLOAT'', kind_f32),
    (''DOUBLE'', kind_f64), (''DOSDATE'', kind_u16), (''DOSTIME'', kind_u16),
    (''time_t'', kind_i32), (''time64_t'', kind_i64), (''FILETIME'', kind_u64),
    (''OLETIME'', kind_f64), (''hfloat'', kind_u16), (''HFLOAT'', kind_u16),
    (''string'', kind_char), (''STRING'', kind_char), (''wstring'', kind_u16),
    (''WSTRING'', kind_u16), (''wchar_t'', kind_u16), (''WCHAR_T'', kind_u16)]"

definition constant_table :: "(string \<times> nat) list" where
  "constant_table = [
    (''cNone'', 4294967295), (''cBlack'', 0), (''cRed'', 255), (''cDkRed'', 128),
    (''cLtRed'', 8421631), (''cGreen'', 65280), (''cDkGreen'', 32768), (''cLtGreen'', 8454016),
    (''cBlue'', 16711680), (''cDkBlue'', 8388608), (''cLtBlue'', 16744576),
    (''cPurple'', 16711935), (''cDkPurple'', 8388736), (''cLtPurple'', 16744703),
    (''cAqua'', 16776960), (''cDkAqua'', 8421376), (''cLtAqua'', 16777088),
    (''cYellow'', 65535), (''cDkYellow'', 32896), (''cLtYellow'', 8454143),
    (''cGray'', 8421504), (''cDkGray'', 4210752), (''cLtGray'', 12632256),
    (''cSilver'', 12632256), (''cWhite'', 16777215), (''CHECKSUM_BYTE'', 0),
    (''CHECKSUM_SHORT_LE'', 1), (''CHECKSUM_SHORT_BE'', 2), (''CHECKSUM_INT_LE'', 3),
    (''CHECKSUM_INT_BE'', 4), (''CHECKSUM_CRC32'', 5), (''CHECKSUM_CRC16'', 6),
    (''CHECKSUM_ADLER32'', 7), (''CHECKSUM_INT64_LE'', 8), (''CHECKSUM_INT64_BE'', 9),
    (''CHECKSUM_MD5'', 10), (''CHECKSUM_SHA1'', 11), (''CHECKSUM_SHA256'', 12),
    (''CHECKSUM_SHA512'', 13), (''TRUE'', 1), (''FALSE'', 0)]"

definition named :: "(string \<times> 'a) list \<Rightarrow> chars \<rightharpoonup> 'a" where
  "named table = map_of (map (\<lambda>(n, x). (lit n, x)) table)"

definition interpreter_new :: "'f istate" where
  "interpreter_new =
     \<lparr>st_pos = 0, st_endian = LittleE,
      st_types = map_option TdPrimitive \<circ> named primitive_table,
      st_variants = Map.empty, st_functions = Map.empty,
      st_scopes = [\<lparr>sc_vars = map_option (\<lambda>v. VUInt v kind_u32) \<circ> named constant_table,
                    sc_aliases = Map.empty\<rparr>],
      st_var_counts = map_option (\<lambda>v. 1) \<circ> named constant_table,
      st_nodes = [], st_diagnostics = [], st_steps = 0, st_step_limit = default_step_limit,
      st_fields = Map.empty, st_has_children = {}, st_arrays = Map.empty,
      st_typedef_array_size = Map.empty, st_local_array_bytes = Map.empty,
      st_path = [], st_prefix = [], st_field_counts = Map.empty, st_slot = None,
      st_right_to_left = False, st_padding_disabled = False, st_timeout = None\<rparr>"

definition with_step_limit :: "nat \<Rightarrow> 'f istate \<Rightarrow> 'f istate" where
  "with_step_limit n s = s\<lparr>st_step_limit := n\<rparr>"

definition with_timeout :: "nat \<Rightarrow> 'f istate \<Rightarrow> 'f istate" where
  "with_timeout ms s = s\<lparr>st_timeout := Some ms\<rparr>"

subsection \<open>Bitfields\<close>

definition int_prim :: "'f type_def \<Rightarrow> prim_kind option" where
  "int_prim def =
     (case def of TdPrimitive p \<Rightarrow> if pk_class p \<noteq> ClsFloat then Some p else None | _ \<Rightarrow> None)"

text \<open>The integer type a bitfield is stored in: the named one, or the backing type of an enum.\<close>

definition bitfield_prim :: "'f istate \<Rightarrow> type_ref \<Rightarrow> prim_kind ires" where
  "bitfield_prim s ty =
     res_bind (resolve_type s ty) (\<lambda>def.
     res_bind (case def of
         TdEnum e \<Rightarrow> (case ed_backing e of Some b \<Rightarrow> resolve_type s b | None \<Rightarrow> Ok (TdPrimitive kind_i32))
       | d \<Rightarrow> Ok d) (\<lambda>d.
     (case int_prim d of Some p \<Rightarrow> Ok p | None \<Rightarrow> Err (BadBitfieldType (tr_name ty)))))"

definition slot_bytes :: "bool \<Rightarrow> nat \<Rightarrow> prim_kind \<Rightarrow> nat" where
  "slot_bytes no_padding width p = (if no_padding then div_ceil width 8 else pk_width p)"

definition need_new_slot :: "bitfield_slot option \<Rightarrow> prim_kind \<Rightarrow> nat \<Rightarrow> nat \<Rightarrow> bool" where
  "need_new_slot slot p width slot_total_bits =
     (case slot of
        Some b \<Rightarrow> pk_width (bf_prim b) \<noteq> pk_width p \<or> bf_consumed b + width > slot_total_bits
      | None \<Rightarrow> True)"

definition open_slot :: "'f env \<Rightarrow> prim_kind \<Rightarrow> nat \<Rightarrow> ('f, bitfield_slot) comp" where
  "open_slot E p n s =
     and_then (read_advance E n s) (\<lambda>bs s'.
       done_with \<lparr>bf_prim = p, bf_raw = decode_prim_for_bitfield bs (p\<lparr>pk_width := n\<rparr>) (st_endian s'),
                  bf_offset = st_pos s, bf_consumed = 0\<rparr> s')"

text \<open>
  The bits at the slot's position. A shift by 64, which only a field of no bits can ask for, is one
  by 0 in a release build.
\<close>

definition extract_bits :: "bool \<Rightarrow> nat \<Rightarrow> nat \<Rightarrow> bitfield_slot \<Rightarrow> nat" where
  "extract_bits right_to_left slot_total_bits width b =
     (let shift = (if right_to_left then bf_consumed b else slot_total_bits - (bf_consumed b + width))
      in bf_raw b div 2 ^ (shift mod 64) mod 2 ^ width)"

definition bitfield_value :: "prim_kind \<Rightarrow> nat \<Rightarrow> nat \<Rightarrow> 'f tval" where
  "bitfield_value p width v =
     (if pk_signed p then VSInt (if width = 0 then 0 else to_signed width v) p else VUInt v p)"

definition read_bitfield ::
  "'f env \<Rightarrow> chars \<Rightarrow> type_ref \<Rightarrow> nat \<Rightarrow> nat option \<Rightarrow> 'f attrs \<Rightarrow> ('f, unit) comp" where
  "read_bitfield E name ty width0 parent attrs s =
     and_then (result_of (bitfield_prim s ty) s) (\<lambda>p s.
       let width = min width0 (8 * pk_width p);
           n = slot_bytes (st_padding_disabled s) width p
       in and_then
            (if need_new_slot (st_slot s) p width (8 * n) then open_slot E p n s
             else done_with (the (st_slot s)) s)
            (\<lambda>b s.
              let v = bitfield_value p width (extract_bits (st_right_to_left s) (8 * n) width b);
                  node = \<lparr>no_name = name, no_ty = NtScalar (scalar_from_prim p), no_offset = bf_offset b,
                          no_length = n, no_value = Some v, no_parent = parent,
                          no_attrs = attrs_to_pairs (en_host E) attrs @ [(lit ''hxy_bits'', show_nat width)]\<rparr>
              in done_with ()
                   (store_field name v (bind_var name v (push_node node
                     (s\<lparr>st_slot := Some (b\<lparr>bf_consumed := bf_consumed b + width\<rparr>)\<rparr>))))))"

end
