(* ===== verification/TplBuiltins.thy ===== *)
theory TplBuiltins
  imports TplBits Search
begin

text \<open>
  The built-in functions of the template interpreter that get their arguments as values
  (\<open>call_builtin\<close> of \<open>hxy-010-lang/src/interp.rs\<close>), in groups: the cursor and the source,
  diagnostics, text, numbers, and the ones that only have a default answer. The result is \<open>None\<close>
  for a name that is not a built-in.
\<close>

subsection \<open>Arguments\<close>

definition arg_text :: "'f host \<Rightarrow> 'f tval list \<Rightarrow> nat \<Rightarrow> chars" where
  "arg_text h args i = (if i < length args then value_to_display h (args ! i) else [])"

definition arg_int :: "'f host \<Rightarrow> 'f tval list \<Rightarrow> nat \<Rightarrow> int option" where
  "arg_int h args i = (if i < length args then val_to_i128 h (args ! i) else None)"

definition arg_int_or :: "'f host \<Rightarrow> 'f tval list \<Rightarrow> nat \<Rightarrow> int \<Rightarrow> int" where
  "arg_int_or h args i d = (case arg_int h args i of Some v \<Rightarrow> v | None \<Rightarrow> d)"

definition arg_float :: "'f host \<Rightarrow> 'f tval list \<Rightarrow> nat \<Rightarrow> 'f" where
  "arg_float h args i =
     (case (if i < length args then val_to_f64 h (args ! i) else None) of
        Some x \<Rightarrow> x | None \<Rightarrow> ho_of_int h 0)"

text \<open>\<open>.max(0) as u64\<close>.\<close>

definition offset_of :: "int \<Rightarrow> nat" where
  "offset_of i = to_unsigned 64 (max i 0)"

abbreviation answer :: "'f tval \<Rightarrow> ('f, 'f tval option) comp" where
  "answer v \<equiv> done_with (Some v)"

definition answer_of :: "('f, 'f tval) outcome \<Rightarrow> ('f, 'f tval option) outcome" where
  "answer_of out = and_then out (\<lambda>v. answer v)"

subsection \<open>Reading the source\<close>

definition read_bytes_builtin :: "'f env \<Rightarrow> 'f tval list \<Rightarrow> ('f, 'f tval) comp" where
  "read_bytes_builtin E args s =
     and_then (read_at E (offset_of (arg_int_or (en_host E) args 1 (int (st_pos s))))
                 (offset_of (arg_int_or (en_host E) args 2 0)) s)
       (\<lambda>bs. done_with (VStr (utf8_lossy bs)))"

text \<open>The offset of a reading function: its first argument, or the cursor.\<close>

definition read_offset :: "'f env \<Rightarrow> 'f tval list \<Rightarrow> 'f istate \<Rightarrow> nat" where
  "read_offset E args s =
     (if args = [] then st_pos s else to_unsigned 64 (arg_int_or (en_host E) args 0 0))"

definition read_prim_at :: "'f env \<Rightarrow> 'f tval list \<Rightarrow> prim_kind \<Rightarrow> ('f, 'f tval) comp" where
  "read_prim_at E args k s =
     and_then (read_at E (read_offset E args s) (pk_width k) s)
       (\<lambda>bs s. result_of (decode_prim (en_host E) bs k (st_endian s)) s)"

definition read_fn_uint :: "'f env \<Rightarrow> 'f tval list \<Rightarrow> nat \<Rightarrow> bool \<Rightarrow> ('f, 'f tval) comp" where
  "read_fn_uint E args w is_signed = read_prim_at E args (int_kind w is_signed)"

definition read_float_builtin :: "'f env \<Rightarrow> 'f tval list \<Rightarrow> bool \<Rightarrow> ('f, 'f tval) comp" where
  "read_float_builtin E args double = read_prim_at E args (if double then kind_f64 else kind_f32)"

definition read_string_default_cap :: int where
  "read_string_default_cap = 4096"

definition read_string_builtin :: "'f env \<Rightarrow> 'f tval list \<Rightarrow> bool \<Rightarrow> ('f, 'f tval) comp" where
  "read_string_builtin E args wide s =
     (let offset = offset_of (arg_int_or (en_host E) args 0 (int (st_pos s)));
          max_len = offset_of (arg_int_or (en_host E) args 1 read_string_default_cap);
          max_bytes = sat_mul64 max_len (if wide then 2 else 1)
      in and_then (read_at E offset (min max_bytes (source_len E - offset)) s)
           (\<lambda>bs s. done_with (VStr (decode_string bs wide (st_endian s))) s))"

definition read_string_length_builtin :: "'f env \<Rightarrow> 'f tval list \<Rightarrow> bool \<Rightarrow> ('f, 'f tval) comp" where
  "read_string_length_builtin E args wide s =
     (let offset = offset_of (arg_int_or (en_host E) args 0 0);
          n = offset_of (arg_int_or (en_host E) args 1 0)
      in and_then (read_at E offset (sat_mul64 n (if wide then 2 else 1)) s)
           (\<lambda>bs s. done_with (VStr (decode_string bs wide (st_endian s))) s))"

text \<open>The algorithm by its number, or by its name in a string.\<close>

definition checksum_is :: "'f host \<Rightarrow> 'f tval list \<Rightarrow> int \<Rightarrow> string \<Rightarrow> bool" where
  "checksum_is h args number name \<longleftrightarrow>
     arg_int_or h args 0 (-1) = number \<or>
     (case args of VStr t # _ \<Rightarrow> ho_lowercase h t = lit name | _ \<Rightarrow> False)"

definition checksum_builtin :: "'f env \<Rightarrow> 'f tval list \<Rightarrow> ('f, 'f tval) comp" where
  "checksum_builtin E args s =
     (let h = en_host E; n = source_len E; start = offset_of (arg_int_or h args 1 0);
          size_arg = arg_int_or h args 2 0;
          size = (if size_arg \<le> 0 then n - start else min (to_unsigned 64 size_arg) (wsub64 n start))
      in and_then (read_at E start size s) (\<lambda>bs s.
           if checksum_is h args 5 ''crc32'' then done_with (VUInt (unat (crc32_ieee bs)) kind_u32) s
           else if checksum_is h args 7 ''adler32'' then done_with (VUInt (adler32_checksum bs) kind_u32) s
           else if checksum_is h args 6 ''crc16'' then done_with (VUInt (unat (crc16_ccitt bs)) kind_u16) s
           else done_with (VUInt 0 kind_u64)
             (push_diagnostic SevInfo
               (lit ''Checksum algo '' @ show_int (arg_int_or h args 0 (-1)) @
                lit '' not implemented; returning 0'') (st_pos s) s)))"

text \<open>The shortest little-endian form of the needle.\<close>

definition needle_bytes :: "int \<Rightarrow> bytes" where
  "needle_bytes i =
     (if 0 \<le> i \<and> i < 2 ^ 8 then le_bytes 1 (nat i)
      else if 0 \<le> i \<and> i < 2 ^ 16 then le_bytes 2 (nat i)
      else if 0 \<le> i \<and> i < 2 ^ 32 then le_bytes 4 (nat i)
      else le_bytes 8 (to_unsigned 64 i))"

definition find_first :: "'f env \<Rightarrow> 'f tval list \<Rightarrow> ('f, 'f tval) comp" where
  "find_first E args s =
     (let h = en_host E; not_found = VSInt (-1) kind_i64 in
      case arg_int h args 0 of
        None \<Rightarrow> done_with not_found s
      | Some needle \<Rightarrow>
          (let start = offset_of (arg_int_or h args 6 0); size_arg = arg_int_or h args 7 0;
               n = source_len E;
               stop = (if size_arg \<le> 0 then n else min (wadd64 start (to_unsigned 64 size_arg)) n)
           in if start \<ge> stop then done_with not_found s
              else and_then (read_at E start (stop - start) s) (\<lambda>bs.
                case find_in_slice bs (needle_bytes needle) of
                  Some pos \<Rightarrow> done_with (VSInt (int (start + pos)) kind_i64)
                | None \<Rightarrow> done_with not_found)))"

definition source_builtin :: "'f env \<Rightarrow> chars \<Rightarrow> 'f tval list \<Rightarrow> ('f, 'f tval option) comp" where
  "source_builtin E name args s =
     (let is = (\<lambda>n. among name [n]); u64 = (\<lambda>n. VUInt n kind_u64); h = en_host E in
      if is ''LittleEndian'' then answer VVoid (s\<lparr>st_endian := LittleE\<rparr>)
      else if is ''BigEndian'' then answer VVoid (s\<lparr>st_endian := BigE\<rparr>)
      else if is ''FTell'' then answer (u64 (st_pos s)) s
      else if is ''FSeek'' then
        (if length args \<noteq> 1 then fail_with (BadBuiltinCall name (lit ''expected 1 arg'')) s
         else answer VVoid (s\<lparr>st_pos := to_unsigned 64 (arg_int_or h args 0 0)\<rparr>))
      else if is ''FSkip'' then
        answer VVoid (s\<lparr>st_pos := offset_of (int (st_pos s) + arg_int_or h args 0 0)\<rparr>)
      else if is ''FEof'' then answer (VBool (st_pos s \<ge> source_len E)) s
      else if is ''FileSize'' then answer (u64 (source_len E)) s
      else if is ''ReadUInt'' then answer_of (read_fn_uint E args 4 False s)
      else if is ''ReadInt'' then answer_of (read_fn_uint E args 4 True s)
      else if is ''ReadUShort'' then answer_of (read_fn_uint E args 2 False s)
      else if is ''ReadShort'' then answer_of (read_fn_uint E args 2 True s)
      else if among name [''ReadUQuad'', ''ReadUInt64''] then answer_of (read_fn_uint E args 8 False s)
      else if among name [''ReadQuad'', ''ReadInt64''] then answer_of (read_fn_uint E args 8 True s)
      else if among name [''ReadByte'', ''ReadUByte''] then answer_of (read_fn_uint E args 1 False s)
      else if is ''FindFirst'' then answer_of (find_first E args s)
      else if is ''Checksum'' then answer_of (checksum_builtin E args s)
      else if is ''ReadBytes'' then answer_of (read_bytes_builtin E args s)
      else if is ''ReadFloat'' then answer_of (read_float_builtin E args False s)
      else if is ''ReadDouble'' then answer_of (read_float_builtin E args True s)
      else if is ''ReadString'' then answer_of (read_string_builtin E args False s)
      else if is ''ReadStringLength'' then answer_of (read_string_length_builtin E args False s)
      else if is ''ReadWString'' then answer_of (read_string_builtin E args True s)
      else if is ''ReadWStringLength'' then answer_of (read_string_length_builtin E args True s)
      else if is ''BitfieldRightToLeft'' then answer VVoid (s\<lparr>st_right_to_left := True\<rparr>)
      else if is ''BitfieldLeftToRight'' then answer VVoid (s\<lparr>st_right_to_left := False\<rparr>)
      else if is ''BitfieldDisablePadding''
        then answer VVoid (s\<lparr>st_padding_disabled := True, st_slot := None\<rparr>)
      else if is ''BitfieldEnablePadding''
        then answer VVoid (s\<lparr>st_padding_disabled := False, st_slot := None\<rparr>)
      else if is ''IsLittleEndian'' then answer (VBool (st_endian s = LittleE)) s
      else if is ''IsBigEndian'' then answer (VBool (st_endian s = BigE)) s
      else done_with None s)"

subsection \<open>Diagnostics\<close>

definition message_builtin :: "'f env \<Rightarrow> chars \<Rightarrow> 'f tval list \<Rightarrow> ('f, 'f tval option) comp" where
  "message_builtin E name args s =
     (let h = en_host E; tell = (\<lambda>sev msg. push_diagnostic sev msg (st_pos s) s) in
      if among name [''Warning'', ''Waring''] then answer VVoid (tell SevWarning (arg_text h args 0))
      else if among name [''Printf'', ''printf''] then
        answer VVoid (tell SevInfo (format_printf h (arg_text h args 0) (drop 1 args)))
      else if among name [''Exit''] then
        (let code = show_int (arg_int_or h args 0 0)
         in fail_with (TypeError (lit ''template exited with '' @ code))
              (tell SevError (lit ''Exit('' @ code @ lit '')'')))
      else if among name [''Assert''] then
        (if args \<noteq> [] \<and> is_truthy h (hd args) then answer VVoid s
         else let msg = (if length args > 1 then arg_text h args 1 else lit ''assertion failed'')
              in fail_with (TypeError (lit ''Assert failed: '' @ msg)) (tell SevError (lit ''Assert: '' @ msg)))
      else done_with None s)"

subsection \<open>Text\<close>

definition bytes_less :: "bytes \<Rightarrow> bytes \<Rightarrow> bool" where
  "bytes_less a b \<longleftrightarrow> map unat a < map unat b"

definition ascii_lower :: "chars \<Rightarrow> chars" where
  "ascii_lower s = map (\<lambda>c. if 0x41 \<le> c \<and> c \<le> 0x5A then c + 32 else c) s"

definition strcmp_builtin :: "'f host \<Rightarrow> chars \<Rightarrow> 'f tval list \<Rightarrow> int" where
  "strcmp_builtin h name args =
     (let fold = (if among name [''Stricmp'', ''Strnicmp'', ''WStricmp'', ''WStrnicmp''] then ascii_lower
                  else (\<lambda>x. x));
          counted = among name [''Strncmp'', ''Strnicmp'', ''WStrncmp'', ''WStrnicmp'', ''Memcmp''];
          cut = (\<lambda>bs. if counted then take (to_unsigned 64 (max (arg_int_or h args 2 0) 0)) bs else bs);
          a = cut (utf8_encode (fold (arg_text h args 0)));
          b = cut (utf8_encode (fold (arg_text h args 1)))
      in if bytes_less a b then -1 else if a = b then 0 else 1)"

text \<open>\<open>str::find\<close>: the byte position of the first occurrence, or -1.\<close>

definition find_text :: "chars \<Rightarrow> chars \<Rightarrow> int" where
  "find_text hay needle =
     (case split_once needle hay of Some (a, b) \<Rightarrow> int (length (utf8_encode a)) | None \<Rightarrow> -1)"

definition binary_text :: "nat \<Rightarrow> nat \<Rightarrow> chars" where
  "binary_text bits v = (let t = lit (radix_str 2 v) in replicate (bits - length t) 48 @ t)"

text \<open>The name of the variant with that literal value, in the first enum of the registry that has one.\<close>

definition enum_to_string :: "'f env \<Rightarrow> (chars \<rightharpoonup> 'f type_def) \<Rightarrow> nat \<Rightarrow> chars" where
  "enum_to_string E types raw =
     (let has = (\<lambda>v. case ev_value v of Some (IntLit n sp) \<Rightarrow> n = raw | _ \<Rightarrow> False);
          hits = concat (map (\<lambda>d. case d of TdEnum e \<Rightarrow> filter has (ed_variants e) | _ \<Rightarrow> [])
                   (en_type_values E types))
      in case hits of v # _ \<Rightarrow> ev_name v | [] \<Rightarrow> show_nat raw)"

definition text_builtin :: "'f env \<Rightarrow> chars \<Rightarrow> 'f tval list \<Rightarrow> ('f, 'f tval option) comp" where
  "text_builtin E name args s =
     (let h = en_host E; txt = arg_text h args; num = arg_int_or h args; i64 = (\<lambda>i. VSInt i kind_i64) in
      if among name [''exists''] then answer (VBool (args \<noteq> [] \<and> hd args \<noteq> VVoid)) s
      else if among name [''SPrintf''] then
        (let formatted = format_printf h (txt 1) (drop 2 args);
             s' = (case args of VStr n # _ \<Rightarrow> store_ident n (VStr formatted) s | _ \<Rightarrow> s)
         in answer (VUInt (length (utf8_encode formatted)) kind_u64) s')
      else if among name [''EnumToString''] then
        answer (VStr (enum_to_string E (st_types s) (to_unsigned 64 (num 0 0)))) s
      else if among name [''Atoi'', ''BinaryStrToInt''] then
        answer (i64 (case int_from_str 64 (if among name [''Atoi''] then 10 else 2) (trim (txt 0)) of
                       Some v \<Rightarrow> v | None \<Rightarrow> 0)) s
      else if among name [''Atof''] then
        answer (VFloat (case ho_parse h (trim (txt 0)) of Some x \<Rightarrow> x | None \<Rightarrow> ho_of_int h 0) kind_f64) s
      else if among name [''IntToBinaryStr''] then
        (let bits = nat (max 1 (min 64 (num 1 64)))
         in answer (VStr (binary_text bits (to_unsigned 64 (num 0 0) mod 2 ^ bits))) s)
      else if among name [''Str'', ''str'', ''WStringToString'', ''StringToWString'', ''ChecksumAlgArrayStr'',
            ''ChecksumAlgStr'', ''FileNameGetBase'', ''FileNameSetExtension'']
        then answer (VStr (txt 0)) s
      else if among name [''Strcmp'', ''Stricmp'', ''Strncmp'', ''Strnicmp'', ''WStrcmp'', ''WStricmp'',
            ''WStrncmp'', ''WStrnicmp'', ''Memcmp'']
        then answer (VSInt (strcmp_builtin h name args) kind_i32) s
      else if among name [''Strlen'', ''WStrlen''] then answer (VUInt (length (txt 0)) kind_u64) s
      else if among name [''SubStr'', ''WSubStr''] then
        (let start = min (offset_of (num 1 0)) (length (txt 0));
             stop = (if num 2 (-1) < 0 then length (txt 0)
                     else min (sat_add64 start (to_unsigned 64 (num 2 (-1)))) (length (txt 0)))
         in answer (VStr (slice start stop (txt 0))) s)
      else if among name [''StrDel''] then
        (let start = min (offset_of (num 1 0)) (length (txt 0));
             stop = min (sat_add64 start (offset_of (num 2 0))) (length (txt 0))
         in answer (VStr (take start (txt 0) @ drop stop (txt 0))) s)
      else if among name [''Strncpy'', ''Strcpy'', ''WStrcpy'', ''WStrncpy'', ''Memcpy'']
        then answer (VStr (txt 1)) s
      else if among name [''IsCharAlpha''] then answer (VBool (char_predicate h (ho_alphabetic h) args)) s
      else if among name [''IsCharAlphaNumeric'']
        then answer (VBool (char_predicate h (\<lambda>c. ho_alphabetic h c \<or> ho_numeric h c) args)) s
      else if among name [''IsCharNum'', ''IsCharDigit''] then answer (VBool (char_predicate h is_digit args)) s
      else if among name [''IsCharWhitespace''] then answer (VBool (char_predicate h is_whitespace args)) s
      else if among name [''ToUpper''] then answer (VStr (ho_uppercase h (txt 0))) s
      else if among name [''ToLower''] then answer (VStr (ho_lowercase h (txt 0))) s
      else if among name [''Strstr'', ''WStrstr''] then answer (i64 (find_text (txt 0) (txt 1))) s
      else if among name [''Strchr'', ''WStrchr''] then
        (let c = to_unsigned 32 (num 1 0)
         in answer (i64 (if is_scalar_value c then find_text (txt 0) [c] else -1)) s)
      else if among name [''Strcat''] then answer (VStr (txt 0 @ txt 1)) s
      else if among name [''function_exists'', ''exists_function'']
        then answer (VBool (st_functions s (txt 0) \<noteq> None)) s
      else if among name [''ToColonHexString''] then answer (VStr (lower_hex (to_unsigned 128 (num 0 0)))) s
      else if among name [''TimeTToString'', ''FileTimeToString'', ''OleTimeToString'', ''DOSTimeToString'',
            ''DOSDateToString'', ''GUIDToString'', ''Time64TToString'']
        then answer (VStr (lit ''0x'' @ upper_hex (to_unsigned 128 (num 0 0)))) s
      else done_with None s)"

subsection \<open>Numbers\<close>

definition math_builtin :: "'f env \<Rightarrow> chars \<Rightarrow> 'f tval list \<Rightarrow> ('f, 'f tval option) comp" where
  "math_builtin E name args s =
     (let h = en_host E; flt = (\<lambda>x. answer (VFloat x kind_f64) s); x = arg_float h args 0 in
      if among name [''Min''] then answer (min_max_builtin h args True) s
      else if among name [''Max''] then answer (min_max_builtin h args False) s
      else if among name [''Abs''] then answer (VSInt (wrap_i128 (abs (arg_int_or h args 0 0))) kind_i64) s
      else if among name [''Pow''] then flt (ho_pow h x (arg_float h args 1))
      else if among name [''Sqrt''] then flt (ho_sqrt h x)
      else if among name [''Ceil''] then flt (ho_ceil h x)
      else if among name [''Floor''] then flt (ho_floor h x)
      else if among name [''Round''] then flt (ho_round h x)
      else done_with None s)"

subsection \<open>Default answers\<close>

definition void_builtins :: "string list" where
  "void_builtins =
     [''RequiresVersion'', ''DisplayFormatHex'', ''DisplayFormatDecimal'', ''DisplayFormatBinary'',
      ''SetForeColor'', ''SetBackColor'', ''OutputPaneClear'', ''StatusMessage'', ''ClearOutput'', ''FPrintf'',
      ''RunTemplate'', ''InsertBytes'', ''DeleteBytes'', ''OverwriteBytes'', ''WriteString'', ''Memset'']"

definition empty_text_builtins :: "string list" where
  "empty_text_builtins =
     [''GetFileName'', ''GetFileNameW'', ''GetFilePath'', ''InputRadioButtonBox'', ''InputDirectory'',
      ''InputDouble'', ''InputFloat'', ''InputNumber'', ''InputOpenFileName'', ''InputSaveFileName'',
      ''InputString'', ''MessageBox'']"

definition zero_builtins :: "string list" where
  "zero_builtins =
     [''AddBookmark'', ''GetBookmarkArraySize'', ''GetBookmarkName'', ''GetBookmarkPos'', ''GetBookmarkType'',
      ''GetNumBookmarks'', ''GetArg'', ''GetNumArgs'', ''GetFileNum'', ''FileExists'', ''FindOpenFile'',
      ''FileSelect'', ''FileOpen'', ''FileClose'', ''GetBackColor'', ''GetForeColor'', ''SetColor'', ''SetStyle'',
      ''DisasmSetMode'', ''ThemeAutoScaleColors'', ''OutputPaneSave'', ''FindAll'', ''TextGetNumLines'',
      ''TextGetLineSize'', ''TextAddressToLine'', ''TextLineToAddress'', ''ReadLine'']"

definition default_builtin :: "chars \<Rightarrow> 'f tval list \<Rightarrow> ('f, 'f tval option) comp" where
  "default_builtin name args =
     (if among name void_builtins then answer VVoid
      else if among name empty_text_builtins then answer (VStr [])
      else if among name zero_builtins then answer (VSInt 0 kind_i64)
      else if among name [''GetCursorPos'', ''GetSelStart'', ''GetSelSize''] then answer (VUInt 0 kind_u64)
      else if among name [''SScanf'', ''SScan''] then answer (VSInt 0 kind_i32)
      else if among name [''RegExMatch''] then answer (VBool False)
      else if among name [''SwapBytes''] then answer (case args of v # _ \<Rightarrow> v | [] \<Rightarrow> VVoid)
      else done_with None)"

text \<open>The first group that knows the name.\<close>

definition or_else :: "('f, 'f tval option) outcome \<Rightarrow> ('f, 'f tval option) comp \<Rightarrow> ('f, 'f tval option) outcome" where
  "or_else out k = and_then out (\<lambda>v s. case v of Some x \<Rightarrow> answer x s | None \<Rightarrow> k s)"

definition call_builtin :: "'f env \<Rightarrow> chars \<Rightarrow> 'f tval list \<Rightarrow> ('f, 'f tval option) comp" where
  "call_builtin E name args s =
     or_else (source_builtin E name args s) (\<lambda>s.
     or_else (message_builtin E name args s) (\<lambda>s.
     or_else (text_builtin E name args s) (\<lambda>s.
     or_else (math_builtin E name args s) (default_builtin name args))))"

end
