(* ===== verification/TplInterp.thy ===== *)
theory TplInterp
  imports TplBuiltins
begin

text \<open>
  The template interpreter (\<open>hxy-010-lang/src/interp.rs\<close>): statements, declarations, expressions and
  calls. Every part that evaluates an expression or executes a statement inside it gets an
  interpreter \<open>I\<close> to do so, and the interpreter of fuel \<open>n + 1\<close> is these parts over the one of fuel
  \<open>n\<close>. Loops are entries of their own, one round each.
\<close>

record 'f interp =
  ip_eval :: "'f expr \<Rightarrow> ('f, 'f tval) comp"
  ip_path :: "'f expr \<Rightarrow> ('f, chars option) comp"
  ip_stmt :: "'f stmt \<Rightarrow> nat option \<Rightarrow> ('f, 'f flow) comp"
  ip_while :: "'f expr \<Rightarrow> 'f stmt \<Rightarrow> nat option \<Rightarrow> nat \<Rightarrow> ('f, 'f flow) comp"
  ip_do_while :: "'f stmt \<Rightarrow> 'f expr \<Rightarrow> nat option \<Rightarrow> nat \<Rightarrow> ('f, 'f flow) comp"
  ip_for :: "'f expr option \<Rightarrow> 'f expr option \<Rightarrow> 'f stmt \<Rightarrow> nat option \<Rightarrow> nat \<Rightarrow> ('f, 'f flow) comp"

definition number_or :: "string \<Rightarrow> 'f host \<Rightarrow> 'f tval \<Rightarrow> int ires" where
  "number_or what h v =
     (case val_to_i128 h v of
        Some i \<Rightarrow> Ok i
      | None \<Rightarrow> Err (TypeError (lit what @ lit '': '' @ ho_debug_value h v)))"

fun eval_all :: "'f interp \<Rightarrow> 'f expr list \<Rightarrow> ('f, 'f tval list) comp" where
  "eval_all I [] s = done_with [] s"
| "eval_all I (e # es) s =
     and_then (ip_eval I e s) (\<lambda>v s. and_then (eval_all I es s) (\<lambda>vs. done_with (v # vs)))"

subsection \<open>Flow\<close>

fun exec_seq :: "'f interp \<Rightarrow> nat option \<Rightarrow> 'f stmt list \<Rightarrow> ('f, 'f flow) comp" where
  "exec_seq I parent [] s = done_with FlowNext s"
| "exec_seq I parent (st # sts) s =
     and_then (ip_stmt I st parent s) (\<lambda>fl s.
       if fl = FlowNext then exec_seq I parent sts s else done_with fl s)"

fun declares :: "'f stmt \<Rightarrow> bool" where
  "declares (FieldDecl md ty name n as bw init attrs sp) = True"
| "declares (TypedefAlias name ty n sp) = True"
| "declares (TypedefEnum e) = True"
| "declares (TypedefStruct d) = True"
| "declares _ = False"

definition exec_block :: "'f interp \<Rightarrow> 'f stmt list \<Rightarrow> nat option \<Rightarrow> ('f, 'f flow) comp" where
  "exec_block I stmts parent s =
     (if stmts \<noteq> [] \<and> list_all declares stmts then exec_seq I parent stmts s
      else and_then (exec_seq I parent stmts (push_scope s)) (\<lambda>fl s. done_with fl (pop_scope s)))"

fun match_arm :: "'f interp \<Rightarrow> 'f host \<Rightarrow> 'f tval \<Rightarrow> 'f switch_arm list \<Rightarrow> nat \<Rightarrow> ('f, nat option) comp" where
  "match_arm I h scrut [] i s = done_with None s"
| "match_arm I h scrut (arm # arms) i s =
     (case sa_pattern arm of
        None \<Rightarrow> match_arm I h scrut arms (i + 1) s
      | Some pat \<Rightarrow>
          and_then (ip_eval I pat s) (\<lambda>pv s.
            if values_equal h scrut pv then done_with (Some i) s
            else match_arm I h scrut arms (i + 1) s))"

text \<open>The default arm, or the end of the arms.\<close>

definition default_arm :: "'f switch_arm list \<Rightarrow> nat" where
  "default_arm arms = length (takeWhile (\<lambda>a. sa_pattern a \<noteq> None) arms)"

definition exec_switch :: "'f env \<Rightarrow> 'f interp \<Rightarrow> 'f expr \<Rightarrow> 'f switch_arm list \<Rightarrow> nat option \<Rightarrow> ('f, 'f flow) comp" where
  "exec_switch E I scrutinee arms parent s =
     and_then (ip_eval I scrutinee s) (\<lambda>scrut s.
     and_then (match_arm I (en_host E) scrut arms 0 s) (\<lambda>m s.
       let start = (case m of Some i \<Rightarrow> i | None \<Rightarrow> default_arm arms)
       in and_then (exec_seq I parent (concat (map sa_body (drop start arms))) s)
            (\<lambda>fl. done_with (if fl = FlowBreak then FlowNext else fl))))"

definition loop_stall_limit :: nat where
  "loop_stall_limit = 1000"

text \<open>The count of rounds without progress, after one more round.\<close>

definition observe :: "nat \<Rightarrow> bool \<Rightarrow> nat ires" where
  "observe stuck stalled =
     (if stalled then (if stuck + 1 \<ge> loop_stall_limit then Err (LoopStalled (stuck + 1)) else Ok (stuck + 1))
      else Ok 0)"

text \<open>A loop's body: how it leaves the loop, or the count of stalled rounds to go on with.\<close>

definition loop_body ::
  "'f interp \<Rightarrow> 'f stmt \<Rightarrow> nat option \<Rightarrow> ('f, unit) comp \<Rightarrow> nat \<Rightarrow> ('f, 'f flow + nat) comp" where
  "loop_body I body parent step stuck s =
     and_then (ip_stmt I body parent s) (\<lambda>fl s1.
       case fl of
         FlowBreak \<Rightarrow> done_with (Inl FlowNext) s1
       | FlowReturn v \<Rightarrow> done_with (Inl (FlowReturn v)) s1
       | _ \<Rightarrow> and_then (step s1) (\<lambda>_ s2.
                and_then (result_of (observe stuck (st_pos s2 = st_pos s)) s2) (\<lambda>n. done_with (Inr n))))"

definition while_round :: "'f env \<Rightarrow> 'f interp \<Rightarrow> 'f expr \<Rightarrow> 'f stmt \<Rightarrow> nat option \<Rightarrow> nat \<Rightarrow> ('f, 'f flow) comp" where
  "while_round E I cond body parent stuck s =
     and_then (ip_eval I cond s) (\<lambda>v s.
       if \<not> is_truthy (en_host E) v then done_with FlowNext s
       else and_then (loop_body I body parent (done_with ()) stuck s) (\<lambda>r.
         case r of Inl fl \<Rightarrow> done_with fl | Inr n \<Rightarrow> ip_while I cond body parent n))"

definition do_while_round :: "'f env \<Rightarrow> 'f interp \<Rightarrow> 'f stmt \<Rightarrow> 'f expr \<Rightarrow> nat option \<Rightarrow> nat \<Rightarrow> ('f, 'f flow) comp" where
  "do_while_round E I body cond parent stuck s =
     and_then (loop_body I body parent (done_with ()) stuck s) (\<lambda>r s.
       case r of
         Inl fl \<Rightarrow> done_with fl s
       | Inr n \<Rightarrow> and_then (ip_eval I cond s) (\<lambda>v.
           if is_truthy (en_host E) v then ip_do_while I body cond parent n else done_with FlowNext))"

definition eval_opt :: "'f interp \<Rightarrow> 'f expr option \<Rightarrow> ('f, 'f tval option) comp" where
  "eval_opt I e s =
     (case e of None \<Rightarrow> done_with None s | Some e \<Rightarrow> and_then (ip_eval I e s) (\<lambda>v. done_with (Some v)))"

definition for_round ::
  "'f env \<Rightarrow> 'f interp \<Rightarrow> 'f expr option \<Rightarrow> 'f expr option \<Rightarrow> 'f stmt \<Rightarrow> nat option \<Rightarrow> nat \<Rightarrow> ('f, 'f flow) comp" where
  "for_round E I cond step body parent stuck s =
     and_then (eval_opt I cond s) (\<lambda>v s.
       if (case v of Some v \<Rightarrow> \<not> is_truthy (en_host E) v | None \<Rightarrow> False) then done_with FlowNext s
       else and_then (loop_body I body parent (\<lambda>s. and_then (eval_opt I step s) (\<lambda>_. done_with ())) stuck s) (\<lambda>r.
         case r of Inl fl \<Rightarrow> done_with fl | Inr n \<Rightarrow> ip_for I cond step body parent n))"

subsection \<open>Structs\<close>

fun exec_fields :: "'f interp \<Rightarrow> nat option \<Rightarrow> 'f stmt list \<Rightarrow> ('f, unit) comp" where
  "exec_fields I parent [] s = done_with () s"
| "exec_fields I parent (st # sts) s =
     and_then (ip_stmt I st parent s) (\<lambda>_. exec_fields I parent sts)"

fun exec_union :: "'f interp \<Rightarrow> nat option \<Rightarrow> nat \<Rightarrow> 'f stmt list \<Rightarrow> nat \<Rightarrow> ('f, nat) comp" where
  "exec_union I parent offset [] max_end s = done_with max_end s"
| "exec_union I parent offset (st # sts) max_end s =
     and_then (ip_stmt I st parent (s\<lparr>st_pos := offset\<rparr>)) (\<lambda>_ s.
       exec_union I parent offset sts (max max_end (st_pos s)) s)"

definition exec_struct_body :: "'f interp \<Rightarrow> 'f struct_decl \<Rightarrow> nat \<Rightarrow> nat \<Rightarrow> ('f, unit) comp" where
  "exec_struct_body I d offset idx s =
     (if \<not> sd_is_union d then
        and_then (exec_fields I (Some idx) (sd_body d) s) (\<lambda>_ s.
          done_with () (set_node_length idx (wsub64 (st_pos s) offset) s))
      else
        and_then (exec_union I (Some idx) offset (sd_body d) offset s) (\<lambda>max_end s.
          done_with () (set_node_length idx (max_end - offset) (s\<lparr>st_pos := max_end\<rparr>))))"

definition is_struct_type :: "'f istate \<Rightarrow> chars \<Rightarrow> bool" where
  "is_struct_type s name = (case st_types s name of Some (TdStruct d) \<Rightarrow> True | _ \<Rightarrow> False)"

fun bind_params :: "param list \<Rightarrow> 'f tval list \<Rightarrow> chars option list \<Rightarrow> 'f istate \<Rightarrow> 'f istate" where
  "bind_params [] args paths s = s"
| "bind_params (p # ps) args paths s =
     (let s1 = (case args of v # _ \<Rightarrow> bind_var (pa_name p) v s | [] \<Rightarrow> s);
          s2 = (if pa_is_ref p \<or> is_struct_type s1 (tr_name (pa_ty p))
                then (case paths of Some path # _ \<Rightarrow> bind_alias (pa_name p) path s1 | _ \<Rightarrow> s1) else s1)
      in bind_params ps (drop 1 args) (drop 1 paths) s2)"

text \<open>The body in a scope of its own, in which \<open>this\<close> is the current path.\<close>

definition struct_in_scope ::
  "'f interp \<Rightarrow> 'f struct_decl \<Rightarrow> 'f tval list \<Rightarrow> chars option list \<Rightarrow> nat \<Rightarrow> nat \<Rightarrow> ('f, unit) comp" where
  "struct_in_scope I d args paths offset idx s =
     exec_struct_body I d offset idx
       (bind_params (sd_params d) args paths (bind_alias (lit ''this'') (st_prefix s) (push_scope s)))"

text \<open>\<open>NodeIdx::new(self.nodes.len() as u32)\<close>.\<close>

definition node_index :: "'f istate \<Rightarrow> nat" where
  "node_index s = length (st_nodes s) mod 2 ^ 32"

definition struct_node_type :: "'f struct_decl \<Rightarrow> chars \<Rightarrow> node_type" where
  "struct_node_type d name = (if sd_is_union d then NtUnknown (lit ''union '' @ name) else NtStruct name)"

definition new_node ::
  "chars \<Rightarrow> node_type \<Rightarrow> nat \<Rightarrow> nat \<Rightarrow> 'f tval option \<Rightarrow> nat option \<Rightarrow> (chars \<times> chars) list \<Rightarrow> 'f istate \<Rightarrow> 'f istate" where
  "new_node name ty offset n v parent attrs =
     push_node \<lparr>no_name = name, no_ty = ty, no_offset = offset, no_length = n, no_value = v,
                no_parent = parent, no_attrs = attrs\<rparr>"

subsection \<open>Scalar fields\<close>

fun find_variant :: "'f interp \<Rightarrow> 'f host \<Rightarrow> nat \<Rightarrow> 'f enum_variant list \<Rightarrow> ('f, chars option) comp" where
  "find_variant I h raw [] s = done_with None s"
| "find_variant I h raw (v # vs) s =
     (case ev_value v of
        None \<Rightarrow> if raw = 0 then done_with (Some (ev_name v)) s else find_variant I h raw vs s
      | Some e \<Rightarrow>
          (case ip_eval I e s of
             None \<Rightarrow> None
           | Some (Ok x, s) \<Rightarrow>
               if to_unsigned 64 (case val_to_i128 h x of Some i \<Rightarrow> i | None \<Rightarrow> 0) = raw
               then done_with (Some (ev_name v)) s else find_variant I h raw vs s
           | Some (Err err, s) \<Rightarrow> find_variant I h raw vs s
           | Some (Panic, s) \<Rightarrow> Some (Panic, s)))"

text \<open>The length of a string with its terminator; without one, the rest of the source.\<close>

fun wide_end :: "bytes \<Rightarrow> nat \<Rightarrow> nat option" where
  "wide_end (a # b # bs) i = (if a = 0 \<and> b = 0 then Some (i + 2) else wide_end bs (i + 2))"
| "wide_end _ i = None"

definition string_end :: "bool \<Rightarrow> bytes \<Rightarrow> nat" where
  "string_end wide raw =
     (case (if wide then wide_end raw 0
            else if 0 \<in> set raw then Some (length (takeWhile (\<lambda>b. b \<noteq> 0) raw) + 1) else None) of
        Some n \<Rightarrow> n
      | None \<Rightarrow> length raw)"

definition read_string_field :: "'f env \<Rightarrow> bool \<Rightarrow> chars \<Rightarrow> nat option \<Rightarrow> 'f attrs \<Rightarrow> ('f, 'f tval) comp" where
  "read_string_field E wide name parent attrs s =
     (let offset = st_pos s in
      and_then (read_at E offset (source_len E - offset) s) (\<lambda>raw s.
        let consumed = string_end wide raw in
        and_then (read_advance E consumed s) (\<lambda>_ s.
          let v = VStr (decode_string (take (consumed - (if wide then 2 else 1)) raw) wide (st_endian s))
          in done_with v (store_field name v
               (new_node name (NtScalar (scalar_from_prim kind_char)) offset consumed (Some v) parent
                 (attrs_to_pairs (en_host E) attrs) s)))))"

definition read_primitive_field :: "'f env \<Rightarrow> prim_kind \<Rightarrow> chars \<Rightarrow> nat option \<Rightarrow> 'f attrs \<Rightarrow> ('f, 'f tval) comp" where
  "read_primitive_field E p name parent attrs s =
     (let offset = st_pos s in
      and_then (read_advance E (pk_width p) s) (\<lambda>bs s.
      and_then (result_of (decode_prim (en_host E) bs p (st_endian s)) s) (\<lambda>v s.
        done_with v (store_field name v
          (new_node name (NtScalar (scalar_from_prim p)) offset (pk_width p) (Some v) parent
            (attrs_to_pairs (en_host E) attrs) s)))))"

definition read_enum_field ::
  "'f env \<Rightarrow> 'f interp \<Rightarrow> 'f enum_decl \<Rightarrow> chars \<Rightarrow> type_ref \<Rightarrow> nat option \<Rightarrow> 'f attrs \<Rightarrow> ('f, 'f tval) comp" where
  "read_enum_field E I e name ty parent attrs s =
     and_then (result_of (case ed_backing e of
         Some b \<Rightarrow> resolve_type s b | None \<Rightarrow> Ok (TdPrimitive kind_i32)) s) (\<lambda>def s.
     case def of
       TdPrimitive pk \<Rightarrow>
         (let offset = st_pos s in
          and_then (read_advance E (pk_width pk) s) (\<lambda>bs s.
          and_then (result_of (decode_prim (en_host E) bs pk (st_endian s)) s) (\<lambda>raw s.
            let raw_u = to_unsigned 64 (case val_to_i128 (en_host E) raw of Some i \<Rightarrow> i | None \<Rightarrow> 0) in
            and_then (find_variant I (en_host E) raw_u (ed_variants e) s) (\<lambda>variant s.
              let display = (case variant of Some n \<Rightarrow> n | None \<Rightarrow> show_nat raw_u);
                  v = VUInt raw_u kind_u64
              in done_with v (store_field name v
                   (new_node name (NtEnum (tr_name ty)) offset (pk_width pk) (Some (VStr display)) parent
                     (attrs_to_pairs (en_host E) attrs) s))))))
     | _ \<Rightarrow> result_of (type_error ''enum backing must be primitive'') s)"

definition read_struct_field ::
  "'f env \<Rightarrow> 'f interp \<Rightarrow> 'f struct_decl \<Rightarrow> chars \<Rightarrow> type_ref \<Rightarrow> nat option \<Rightarrow> 'f attrs \<Rightarrow>
     'f tval list \<Rightarrow> chars option list \<Rightarrow> ('f, 'f tval) comp" where
  "read_struct_field E I d name ty parent attrs args paths s =
     (let idx = node_index s; offset = st_pos s;
          s1 = new_node name (struct_node_type d (tr_name ty)) offset 0 None parent
                 (attrs_to_pairs (en_host E) attrs) s;
          (segment, s2) = next_struct_segment name s1
      in and_then (finally_do (struct_in_scope I d args paths offset idx (push_path_segment segment s2))
                     (\<lambda>s. pop_path_segment (pop_scope s)))
           (\<lambda>_. done_with VVoid))"

definition read_scalar ::
  "'f env \<Rightarrow> 'f interp \<Rightarrow> chars \<Rightarrow> type_ref \<Rightarrow> nat option \<Rightarrow> 'f attrs \<Rightarrow> 'f tval list \<Rightarrow>
     chars option list \<Rightarrow> ('f, 'f tval) comp" where
  "read_scalar E I name ty parent attrs args paths s =
     (if among (tr_name ty) [''string'', ''STRING'', ''wstring'', ''WSTRING'']
      then read_string_field E (among (tr_name ty) [''wstring'', ''WSTRING'']) name parent attrs s
      else and_then (result_of (resolve_type s ty) s) (\<lambda>def.
        case def of
          TdPrimitive p \<Rightarrow> read_primitive_field E p name parent attrs
        | TdEnum e \<Rightarrow> read_enum_field E I e name ty parent attrs
        | TdStruct d \<Rightarrow> read_struct_field E I d name ty parent attrs args paths
        | TdAlias t \<Rightarrow> result_of Panic))"

end
