(* ===== verification/TplExec.thy ===== *)
theory TplExec
  imports TplInterp
begin

text \<open>
  The second half of the template interpreter (\<open>hxy-010-lang/src/interp.rs\<close>): arrays and
  declarations, expressions and calls, statements, and the run of a program.
\<close>

subsection \<open>Arrays\<close>

text \<open>\<open>String::from_utf8\<close>.\<close>

definition utf8_text :: "bytes \<Rightarrow> chars option" where
  "utf8_text bs = (if utf8_encode (utf8_lossy bs) = bs then Some (utf8_lossy bs) else None)"

definition read_primitive_array ::
  "'f env \<Rightarrow> prim_kind \<Rightarrow> chars \<Rightarrow> nat \<Rightarrow> nat option \<Rightarrow> 'f attrs \<Rightarrow> ('f, 'f tval) comp" where
  "read_primitive_array E p name count0 parent attrs s =
     (let offset = st_pos s;
          wanted = sat_mul64 count0 (pk_width p);
          avail = source_len E - offset;
          total = min wanted avail;
          s1 = (if wanted > avail
                then push_diagnostic SevWarning
                       (lit ''array '' @ quoted name @ lit '' requested '' @ show_nat wanted @
                        lit '' bytes at offset '' @ show_nat offset @ lit '', only '' @ show_nat avail @
                        lit '' available; clamped to fit'') offset s
                else s);
          count = (if pk_width p = 0 then 0 else total div pk_width p);
          inline = pk_class p = ClsChar \<and> pk_width p = 1 \<and> total \<le> str_inline_threshold_bytes
      in and_then
           (if inline
            then and_then (read_advance E total s1) (\<lambda>bs.
                   done_with (case utf8_text bs of Some t \<Rightarrow> VStr t | None \<Rightarrow> VVoid))
            else done_with VVoid (s1\<lparr>st_pos := sat_add64 offset total\<rparr>))
           (\<lambda>v s.
             let endian_name = (case st_endian s of LittleE \<Rightarrow> ''little'' | BigE \<Rightarrow> ''big'');
                 s2 = new_node name (NtScalarArray (scalar_from_prim p) count) offset total
                        (if v = VVoid then None else Some v) parent
                        (attrs_to_pairs (en_host E) attrs @ [(lit ''hxy_endian'', lit endian_name)]) s;
                 s3 = (case v of VStr t \<Rightarrow> store_field name v s2 | _ \<Rightarrow> s2);
                 key = join_path (st_prefix s3) name;
                 span = \<lparr>ar_source_offset = offset, ar_count = count, ar_prim = p, ar_endian = st_endian s3\<rparr>;
                 bare = strip_indexed_segments key;
                 s4 = (if bare \<noteq> key then add_array_span bare span s3 else s3)
             in done_with v (add_array_span key span s4)))"

text \<open>The elements of an array of structs or enums, with the guard against rounds without progress.\<close>

definition read_struct_elem ::
  "'f interp \<Rightarrow> 'f struct_decl \<Rightarrow> chars \<Rightarrow> type_ref \<Rightarrow> nat option \<Rightarrow> 'f tval list \<Rightarrow> chars option list \<Rightarrow>
     ('f, unit) comp" where
  "read_struct_elem I d name ty parent args paths s =
     (let idx = node_index s; offset = st_pos s;
          s1 = new_node name (struct_node_type d (tr_name ty)) offset 0 None parent [] s
      in finally_do (struct_in_scope I d args paths offset idx s1) pop_scope)"

definition read_elem ::
  "'f env \<Rightarrow> 'f interp \<Rightarrow> 'f type_def \<Rightarrow> chars \<Rightarrow> type_ref \<Rightarrow> nat option \<Rightarrow> 'f tval list \<Rightarrow>
     chars option list \<Rightarrow> ('f, unit) comp" where
  "read_elem E I def name ty parent args paths s =
     (case def of
        TdStruct d \<Rightarrow>
          and_then (result_of (resolve_type s ty) s) (\<lambda>def'.
            case def' of TdStruct d' \<Rightarrow> read_struct_elem I d' name ty parent args paths | _ \<Rightarrow> result_of Panic)
      | TdEnum e \<Rightarrow> and_then (read_scalar E I name ty parent [] [] [] s) (\<lambda>_. done_with ())
      | _ \<Rightarrow> done_with () s)"

definition trim_scopes :: "nat \<Rightarrow> 'f istate \<Rightarrow> 'f istate" where
  "trim_scopes n s = (pop_scope ^^ (length (st_scopes s) - n)) s"

fun read_elems ::
  "'f env \<Rightarrow> 'f interp \<Rightarrow> 'f type_def \<Rightarrow> chars \<Rightarrow> type_ref \<Rightarrow> nat option \<Rightarrow> 'f tval list \<Rightarrow> chars option list \<Rightarrow>
     nat list \<Rightarrow> nat \<Rightarrow> ('f, unit) comp" where
  "read_elems E I def name ty parent args paths [] stalled s = done_with () s"
| "read_elems E I def name ty parent args paths (i # is) stalled s =
     (let s1 = push_path_segment (name @ index_suffix (int i)) s in
      and_then (finally_do (read_elem E I def (index_suffix (int i)) ty parent args paths s1)
                  (\<lambda>s2. trim_scopes (length (st_scopes s)) (pop_path_segment s2)))
        (\<lambda>_ s3. and_then (result_of (observe stalled (st_pos s3 = st_pos s)) s3)
          (\<lambda>n. read_elems E I def name ty parent args paths is n)))"

definition read_array ::
  "'f env \<Rightarrow> 'f interp \<Rightarrow> chars \<Rightarrow> type_ref \<Rightarrow> nat \<Rightarrow> nat option \<Rightarrow> 'f attrs \<Rightarrow> 'f tval list \<Rightarrow>
     chars option list \<Rightarrow> ('f, 'f tval) comp" where
  "read_array E I name ty count parent attrs args paths s =
     and_then (result_of (resolve_type s ty) s) (\<lambda>def s.
       case def of
         TdPrimitive p \<Rightarrow> read_primitive_array E p name count parent attrs s
       | _ \<Rightarrow>
         (let idx = node_index s; offset = st_pos s;
              array_ty = (case def of
                  TdEnum e \<Rightarrow> NtEnumArray (tr_name ty) count
                | TdStruct d \<Rightarrow> NtStructArray (tr_name ty) count
                | _ \<Rightarrow> NtUnknown (tr_name ty @ index_suffix (int count)))
          in and_then (read_elems E I def name ty (Some idx) args paths [0 ..< count] 0
                        (new_node name array_ty offset 0 None parent (attrs_to_pairs (en_host E) attrs) s))
               (\<lambda>_ s. done_with VVoid (set_node_length idx (wsub64 (st_pos s) offset) s))))"

subsection \<open>Declarations\<close>

definition byte_types :: "string list" where
  "byte_types = [''char'', ''CHAR'', ''uchar'', ''UCHAR'', ''byte'', ''BYTE'', ''ubyte'', ''UBYTE'']"

definition array_size_of :: "'f istate \<Rightarrow> type_ref \<Rightarrow> 'f expr option \<Rightarrow> 'f expr option" where
  "array_size_of s ty array_size =
     (case array_size of Some e \<Rightarrow> Some e | None \<Rightarrow> st_typedef_array_size s (tr_name ty))"

definition default_local_value ::
  "'f env \<Rightarrow> 'f interp \<Rightarrow> type_ref \<Rightarrow> 'f expr option \<Rightarrow> ('f, 'f tval) comp" where
  "default_local_value E I ty array_size s =
     (if among (tr_name ty) [''string'', ''STRING'', ''wstring'', ''WSTRING''] \<and> array_size = None
      then done_with (VStr []) s
      else case array_size_of s ty array_size of
        None \<Rightarrow> done_with VVoid s
      | Some e \<Rightarrow>
          if \<not> among (tr_name ty) byte_types then done_with VVoid s
          else and_then (ip_eval I e s) (\<lambda>v.
            case val_to_i128 (en_host E) v of
              Some n \<Rightarrow>
                if offset_of n < 2 ^ 63 then done_with (VStr (replicate (offset_of n) 0)) else result_of Panic
            | None \<Rightarrow> result_of (type_error ''local array size is not numeric'')))"

definition note_local_size :: "'f env \<Rightarrow> 'f interp \<Rightarrow> type_ref \<Rightarrow> chars \<Rightarrow> 'f expr option \<Rightarrow> ('f, unit) comp" where
  "note_local_size E I ty name array_size s =
     (case array_size_of s ty array_size of
        None \<Rightarrow> done_with () s
      | Some e \<Rightarrow>
          and_then (ip_eval I e s) (\<lambda>v s.
            case val_to_i128 (en_host E) v of
              Some n \<Rightarrow>
                if n < 0 then done_with () s
                else (case sizeof_type (en_stack E) (st_types s) (tr_name ty) of
                        Panic \<Rightarrow> result_of Panic s
                      | r \<Rightarrow>
                         (let elem = (case r of Ok w \<Rightarrow> w | _ \<Rightarrow> 0) in
                          done_with () (s\<lparr>st_local_array_bytes := (st_local_array_bytes s)
                            (name \<mapsto> to_unsigned 64 n * elem mod 2 ^ 64)\<rparr>)))
            | None \<Rightarrow> done_with () s))"

definition exec_local ::
  "'f env \<Rightarrow> 'f interp \<Rightarrow> type_ref \<Rightarrow> chars \<Rightarrow> 'f expr option \<Rightarrow> 'f expr option \<Rightarrow> ('f, unit) comp" where
  "exec_local E I ty name array_size init s =
     and_then (note_local_size E I ty name array_size s) (\<lambda>_ s.
     and_then (case init of Some e \<Rightarrow> ip_eval I e s | None \<Rightarrow> default_local_value E I ty array_size s)
       (\<lambda>v s. done_with () (store_field name v (bind_var name v s))))"

text \<open>The count of an array field: its size expression, or the run up to a zero byte for an empty one.\<close>

definition array_count :: "'f env \<Rightarrow> 'f interp \<Rightarrow> type_ref \<Rightarrow> 'f expr option \<Rightarrow> ('f, nat) comp" where
  "array_count E I ty asize s =
     (case asize of
        None \<Rightarrow> done_with 0 s
      | Some e \<Rightarrow>
          and_then (ip_eval I e s) (\<lambda>v s.
          and_then (result_of (number_or ''array size is not numeric'' (en_host E) v) s) (\<lambda>n s.
            let count = offset_of n; flex = (case e of IntLit z sp \<Rightarrow> z = 0 | _ \<Rightarrow> False) in
            if flex \<and> among (tr_name ty) byte_types \<and> count = 0 then
              and_then (read_at E (st_pos s) (source_len E - st_pos s) s) (\<lambda>probe.
                done_with (if 0 \<in> set probe then length (takeWhile (\<lambda>b. b \<noteq> 0) probe) + 1
                           else source_len E - st_pos s))
            else done_with count s)))"

text \<open>The storage key behind a path.\<close>

definition stored_somewhere :: "'f istate \<Rightarrow> chars \<Rightarrow> bool" where
  "stored_somewhere s c \<longleftrightarrow> st_fields s c \<noteq> None \<or> st_arrays s c \<noteq> None \<or> c \<in> st_has_children s"

definition qualify :: "'f istate \<Rightarrow> chars \<Rightarrow> chars" where
  "qualify s path =
     (case filter (stored_somewhere s) (candidates_of s path) of c # _ \<Rightarrow> c | [] \<Rightarrow> path)"

fun eval_args :: "'f interp \<Rightarrow> 'f expr list \<Rightarrow> ('f, (chars option \<times> 'f tval) list) comp" where
  "eval_args I [] s = done_with [] s"
| "eval_args I (a # as) s =
     and_then (ip_path I a s) (\<lambda>path s.
     and_then (ip_eval I a s) (\<lambda>v s.
     and_then (eval_args I as s) (\<lambda>rest. done_with ((path, v) # rest))))"

text \<open>A read that starts past the end of the source is skipped with a warning.\<close>

definition skip_past_eof :: "chars \<Rightarrow> ('f, 'f tval) outcome \<Rightarrow> ('f, 'f tval) outcome" where
  "skip_past_eof name out =
     (case out of
        Some (Err (SourceFailed (SrcOutOfBounds off e n)), s) \<Rightarrow>
          if off \<ge> n then
            Some (Ok VVoid, (push_diagnostic SevWarning
              (lit ''field '' @ quoted name @ lit '' read ['' @ show_nat off @ lit ''..'' @ show_nat e @
               lit '') past EOF (file is '' @ show_nat n @ lit '' bytes); skipped'') off s)\<lparr>st_pos := n\<rparr>)
          else out
      | _ \<Rightarrow> out)"

definition exec_field ::
  "'f env \<Rightarrow> 'f interp \<Rightarrow> type_ref \<Rightarrow> chars \<Rightarrow> 'f expr option \<Rightarrow> 'f expr list \<Rightarrow> 'f attrs \<Rightarrow> nat option \<Rightarrow>
     ('f, unit) comp" where
  "exec_field E I ty name array_size args attrs parent s0 =
     (let s = s0\<lparr>st_slot := None\<rparr>; asize = array_size_of s ty array_size in
      and_then (array_count E I ty asize s) (\<lambda>count s.
      and_then (eval_args I args s) (\<lambda>as s.
        let paths = map (\<lambda>(p, v). map_option (qualify s) p) as; vals = map snd as in
        and_then (skip_past_eof name
            (if asize \<noteq> None then read_array E I name ty count parent attrs vals paths s
             else read_scalar E I name ty parent attrs vals paths s))
          (\<lambda>v s. done_with () (bind_var name v s)))))"

definition exec_field_decl ::
  "'f env \<Rightarrow> 'f interp \<Rightarrow> decl_modifier \<Rightarrow> type_ref \<Rightarrow> chars \<Rightarrow> 'f expr option \<Rightarrow> 'f expr list \<Rightarrow>
     'f expr option \<Rightarrow> 'f expr option \<Rightarrow> 'f attrs \<Rightarrow> nat option \<Rightarrow> ('f, unit) comp" where
  "exec_field_decl E I md ty name array_size args bit_width init attrs parent s =
     (if md \<noteq> ModField then exec_local E I ty name array_size init s
      else case bit_width of
        Some e \<Rightarrow>
          and_then (ip_eval I e s) (\<lambda>v s.
          and_then (result_of (number_or ''bitfield width is not numeric'' (en_host E) v) s) (\<lambda>w.
            read_bitfield E name ty (to_unsigned 32 w) parent attrs))
      | None \<Rightarrow> exec_field E I ty name array_size args attrs parent s)"

end
