(* ===== verification/TplEval.thy ===== *)
theory TplEval
  imports TplExec
begin

text \<open>
  Expressions, calls, assignments and statements of the template interpreter
  (\<open>hxy-010-lang/src/interp.rs\<close>), the interpreters of every fuel, and the run of a program.
\<close>

subsection \<open>Paths\<close>

definition path_body :: "'f env \<Rightarrow> 'f interp \<Rightarrow> 'f expr \<Rightarrow> ('f, chars option) comp" where
  "path_body E I e s =
     (case e of
        Ident name sp \<Rightarrow>
          done_with (Some (case resolve_path_alias s name of Some p \<Rightarrow> p | None \<Rightarrow> name)) s
      | MemberE t field sp \<Rightarrow>
          and_then (ip_path I t s) (\<lambda>b. done_with (map_option (\<lambda>p. p @ [46] @ field) b))
      | IndexE t i sp \<Rightarrow>
          and_then (ip_path I t s) (\<lambda>b s.
            case b of
              None \<Rightarrow> done_with None s
            | Some p \<Rightarrow>
                and_then (ip_eval I i s) (\<lambda>v.
                  done_with (map_option (\<lambda>n. p @ index_suffix n) (val_to_i128 (en_host E) v))))
      | CallE (Ident name sp') [a] sp \<Rightarrow>
          if name = lit ''parentof''
          then and_then (ip_path I a s) (\<lambda>c. done_with (map_option parent_path c))
          else done_with None s
      | _ \<Rightarrow> done_with None s)"

subsection \<open>Members and elements\<close>

text \<open>The first stored value that is not the placeholder of a struct or an unset local.\<close>

definition find_value :: "'f istate \<Rightarrow> chars list \<Rightarrow> 'f tval option" where
  "find_value s cs = find_stored (\<lambda>c. if st_fields s c = Some VVoid then None else st_fields s c) cs"

definition live_leaf :: "'f istate \<Rightarrow> chars \<Rightarrow> chars list \<Rightarrow> 'f tval option" where
  "live_leaf s path cs =
     (if list_ex (\<lambda>c. st_fields s c = Some VVoid) cs
      then (case lookup_ident s (path_leaf path) of Ok v \<Rightarrow> if v = VVoid then None else Some v | _ \<Rightarrow> None)
      else None)"

fun is_index :: "'f expr \<Rightarrow> bool" where
  "is_index (IndexE t i sp) = True"
| "is_index _ = False"

definition element_span :: "'f istate \<Rightarrow> 'f expr \<Rightarrow> chars \<Rightarrow> (array_span \<times> nat) option" where
  "element_span s e path =
     (case (if is_index e then split_trailing_index path else None) of
        Some (base, idx) \<Rightarrow> map_option (\<lambda>span. (span, idx)) (find_stored (st_arrays s) (candidates_of s base))
      | None \<Rightarrow> None)"

text \<open>What is stored under the path, if anything is.\<close>

definition value_at_path :: "'f env \<Rightarrow> 'f expr \<Rightarrow> chars \<Rightarrow> ('f, 'f tval option) comp" where
  "value_at_path E e path s =
     (let cs = candidates_of s path in
      case element_span s e path of
        Some (span, idx) \<Rightarrow> and_then (decode_array_element E span idx s) (\<lambda>v. done_with (Some v))
      | None \<Rightarrow>
        (case find_value s cs of
           Some v \<Rightarrow> done_with (Some v) s
         | None \<Rightarrow>
           (case live_leaf s path cs of
              Some v \<Rightarrow> done_with (Some v) s
            | None \<Rightarrow>
              (case (if is_index e then None else find_stored (st_arrays s) cs) of
                 Some span \<Rightarrow>
                   and_then (read_at E (ar_source_offset span)
                              (sat_mul64 (ar_count span) (pk_width (ar_prim span))) s)
                     (\<lambda>bs. done_with (Some (VStr (utf8_lossy bs))))
               | None \<Rightarrow> done_with (if has_children s cs then Some VVoid else None) s))))"

definition or_empty :: "chars option \<Rightarrow> chars" where
  "or_empty p = (case p of Some s \<Rightarrow> s | None \<Rightarrow> [])"

definition member_fallback :: "'f interp \<Rightarrow> 'f expr \<Rightarrow> 'f expr \<Rightarrow> chars \<Rightarrow> ('f, 'f tval) comp" where
  "member_fallback I e t field s =
     (case t of
        Ident name sp \<Rightarrow>
          if lookup_ident s name = Ok VVoid then done_with VVoid s
          else (case lookup_ident s (name @ [46] @ field) of
                  Ok v \<Rightarrow> done_with v s
                | _ \<Rightarrow> result_of (lookup_ident s field) s)
      | _ \<Rightarrow>
          and_then (ip_path I e s) (\<lambda>p s. fail_with (UnresolvedMember field (or_empty p) (st_prefix s)) s))"

definition index_fallback :: "'f env \<Rightarrow> 'f interp \<Rightarrow> 'f expr \<Rightarrow> 'f expr \<Rightarrow> ('f, 'f tval) comp" where
  "index_fallback E I t i s =
     (case t of
        Ident name sp \<Rightarrow>
          and_then (result_of (lookup_ident s name) s) (\<lambda>tv s.
          and_then (ip_eval I i s) (\<lambda>iv s.
          and_then (result_of (number_or ''array index is not numeric'' (en_host E) iv) s) (\<lambda>idx.
            case tv of
              VStr t \<Rightarrow>
                (let bs = utf8_encode t in
                 if idx < 0 \<or> idx mod 2 ^ 64 \<ge> int (length bs)
                 then fail_with (TypeError (lit ''string index out of range: '' @ show_int idx @ lit '' >= '' @
                        show_nat (length bs)))
                 else done_with (VChar (unat (bs ! nat (idx mod 2 ^ 64))) kind_char))
            | v \<Rightarrow> done_with v)))
      | _ \<Rightarrow>
          and_then (ip_path I t s) (\<lambda>p s.
            done_with VVoid (push_diagnostic SevWarning
              (lit ''unresolved array index on '' @ quoted (or_empty p) @ lit ''; returning 0'') (st_pos s) s)))"

definition eval_access :: "'f env \<Rightarrow> 'f interp \<Rightarrow> 'f expr \<Rightarrow> ('f, 'f tval) comp" where
  "eval_access E I e s =
     and_then (ip_path I e s) (\<lambda>p s.
     and_then (case p of Some path \<Rightarrow> value_at_path E e path s | None \<Rightarrow> done_with None s) (\<lambda>v s.
       case v of
         Some v \<Rightarrow> done_with v s
       | None \<Rightarrow>
           (case e of
              MemberE t field sp \<Rightarrow> member_fallback I e t field s
            | IndexE t i sp \<Rightarrow> index_fallback E I t i s
            | _ \<Rightarrow> result_of Panic s)))"

subsection \<open>Calls\<close>

fun alias_args :: "'f interp \<Rightarrow> param list \<Rightarrow> 'f expr list \<Rightarrow> ('f, (chars \<times> chars) list) comp" where
  "alias_args I (p # ps) (a # as) s =
     (if \<not> pa_is_ref p \<and> \<not> is_struct_type s (tr_name (pa_ty p)) then alias_args I ps as s
      else and_then (ip_path I a s) (\<lambda>path s.
        let here = (case path of Some q \<Rightarrow> [(pa_name p, qualify s q)] | None \<Rightarrow> [])
        in and_then (alias_args I ps as s) (\<lambda>rest. done_with (here @ rest))))"
| "alias_args I _ _ s = done_with [] s"

definition collect_call_aliases :: "'f interp \<Rightarrow> chars \<Rightarrow> 'f expr list \<Rightarrow> ('f, (chars \<times> chars) list) comp" where
  "collect_call_aliases I name args s =
     (case st_functions s name of None \<Rightarrow> done_with [] s | Some f \<Rightarrow> alias_args I (fd_params f) args s)"

fun call_body :: "'f interp \<Rightarrow> 'f stmt list \<Rightarrow> ('f, 'f tval) comp" where
  "call_body I [] s = done_with VVoid s"
| "call_body I (st # sts) s =
     and_then (ip_stmt I st None s) (\<lambda>fl.
       case fl of
         FlowReturn v \<Rightarrow> done_with (case v of Some x \<Rightarrow> x | None \<Rightarrow> VVoid)
       | FlowBreak \<Rightarrow> done_with VVoid
       | _ \<Rightarrow> call_body I sts)"

definition call_named_with_aliases ::
  "'f env \<Rightarrow> 'f interp \<Rightarrow> chars \<Rightarrow> 'f tval list \<Rightarrow> (chars \<times> chars) list \<Rightarrow> ('f, 'f tval) comp" where
  "call_named_with_aliases E I name args aliases s =
     and_then (call_builtin E name args s) (\<lambda>v s.
       case v of
         Some x \<Rightarrow> done_with x s
       | None \<Rightarrow>
         (case st_functions s name of
            None \<Rightarrow> fail_with (UndefinedName name) s
          | Some f \<Rightarrow>
              if length (fd_params f) \<noteq> length args
              then fail_with (BadCall name (lit ''expected '' @ show_nat (length (fd_params f)) @
                     lit '' args, got '' @ show_nat (length args))) s
              else
                (let s1 = fold (\<lambda>(p, v). bind_var (pa_name p) v) (zip (fd_params f) args) (push_scope s);
                     s2 = fold (\<lambda>(n, p). bind_alias n p) aliases s1
                 in and_then (call_body I (fd_body f) s2) (\<lambda>v s. done_with v (pop_scope s)))))"

text \<open>\<open>SScanf\<close>: the values its conversions capture, each with the variable that takes it.\<close>

definition is_blank :: "code_point \<Rightarrow> bool" where
  "is_blank c \<longleftrightarrow> c = 32 \<or> c = 9 \<or> c = 10"

fun scan_spec :: "chars \<Rightarrow> code_point option \<times> chars" where
  "scan_spec [] = (None, [])"
| "scan_spec (c # cs) = (if is_digit c \<or> c \<in> set (lit ''lLh'') then scan_spec cs else (Some c, cs))"

lemma scan_spec_length: "length (snd (scan_spec cs)) \<le> length cs"
  by (induction cs) auto

definition is_hex_digit :: "code_point \<Rightarrow> bool" where
  "is_hex_digit c \<longleftrightarrow> to_digit 16 c \<noteq> None"

definition scan_value :: "'f host \<Rightarrow> code_point \<Rightarrow> chars \<Rightarrow> ('f tval \<times> chars) option" where
  "scan_value h conv s =
     (let on = (\<lambda>p f t. map_option (\<lambda>v. (v, dropWhile p t)) (f (takeWhile p t))) in
      if conv \<in> set (lit ''di'') then
        on (\<lambda>c. is_digit c \<or> c \<in> set (lit ''-+''))
          (\<lambda>t. map_option (\<lambda>i. VSInt i kind_i64) (int_from_str 64 10 t)) s
      else if conv \<in> set (lit ''u'') then
        on is_digit (\<lambda>t. map_option (\<lambda>n. VUInt n kind_u64) (uint_from_str 64 10 t)) s
      else if conv \<in> set (lit ''xX'') then
        on is_hex_digit (\<lambda>t. map_option (\<lambda>n. VUInt n kind_u64) (uint_from_str 64 16 t))
          (case strip_prefix (lit ''0x'') s of
             Some r \<Rightarrow> r
           | None \<Rightarrow> (case strip_prefix (lit ''0X'') s of Some r \<Rightarrow> r | None \<Rightarrow> s))
      else if conv \<in> set (lit ''s'') then on (\<lambda>c. \<not> is_blank c) (\<lambda>t. Some (VStr t)) s
      else if conv \<in> set (lit ''fge'') then
        on (\<lambda>c. is_digit c \<or> c \<in> set (lit ''.-+eE'')) (\<lambda>t. map_option (\<lambda>x. VFloat x kind_f64) (ho_parse h t)) s
      else None)"

function sscanf :: "'f host \<Rightarrow> chars \<Rightarrow> chars \<Rightarrow> 'f expr list \<Rightarrow> (chars \<times> 'f tval) list" where
  "sscanf h [] s outs = []"
| "sscanf h (c # cs) s outs =
     (if c \<noteq> 37 then
        (case strip_prefix [c] (dropWhile is_blank s) of None \<Rightarrow> [] | Some r \<Rightarrow> sscanf h cs r outs)
      else
        (case (fst (scan_spec cs), outs) of
           (Some conv, Ident name sp # rest) \<Rightarrow>
             (case scan_value h conv (dropWhile is_blank s) of
                None \<Rightarrow> []
              | Some (v, s') \<Rightarrow> (name, v) # sscanf h (snd (scan_spec cs)) s' rest)
         | _ \<Rightarrow> []))"
  by pat_completeness auto
termination
  by (relation "measure (\<lambda>(h, fmt, s, outs). length fmt)") (auto simp: le_imp_less_Suc scan_spec_length)

definition call_sscanf :: "'f env \<Rightarrow> 'f interp \<Rightarrow> 'f expr list \<Rightarrow> ('f, 'f tval) comp" where
  "call_sscanf E I args s =
     and_then (ip_eval I (args ! 0) s) (\<lambda>src s.
     and_then (ip_eval I (args ! 1) s) (\<lambda>fmt s.
       let h = en_host E;
           got = sscanf h (value_to_display h fmt) (value_to_display h src) (drop 2 args)
       in done_with (VSInt (int (length got)) kind_i32) (fold (\<lambda>(n, v). store_ident n v) got s)))"

text \<open>An error in the format of \<open>SPrintf\<close> is an empty format.\<close>

definition call_sprintf :: "'f env \<Rightarrow> 'f interp \<Rightarrow> chars \<Rightarrow> 'f expr list \<Rightarrow> ('f, 'f tval) comp" where
  "call_sprintf E I dest args s =
     and_then (case ip_eval I (args ! 1) s of
         Some (Ok v, s) \<Rightarrow> done_with (value_to_display (en_host E) v) s
       | Some (Err e, s) \<Rightarrow> done_with [] s
       | Some (Panic, s) \<Rightarrow> result_of Panic s
       | None \<Rightarrow> None) (\<lambda>fmt s.
     and_then (eval_all I (drop 2 args) s) (\<lambda>vs s.
       let formatted = format_printf (en_host E) fmt vs
       in done_with (VUInt (length (utf8_encode formatted)) kind_u64) (store_ident dest (VStr formatted) s)))"

definition offset_value :: "'f host \<Rightarrow> 'f tval \<Rightarrow> nat" where
  "offset_value h v = offset_of (case val_to_i128 h v of Some i \<Rightarrow> i | None \<Rightarrow> 0)"

definition call_read_bytes :: "'f env \<Rightarrow> 'f interp \<Rightarrow> chars \<Rightarrow> 'f expr list \<Rightarrow> ('f, 'f tval) comp" where
  "call_read_bytes E I dest args s =
     and_then (ip_eval I (args ! 1) s) (\<lambda>off s.
     and_then (ip_eval I (args ! 2) s) (\<lambda>n s.
     and_then (read_at E (offset_value (en_host E) off) (offset_value (en_host E) n) s) (\<lambda>bs s.
       let buf = (case lookup_ident s dest of Ok (VStr t) \<Rightarrow> utf8_encode t | _ \<Rightarrow> [])
       in done_with VVoid (store_ident dest (VStr (utf8_lossy (bs @ drop (length bs) buf))) s))))"

definition exists_path :: "'f istate \<Rightarrow> chars \<Rightarrow> bool" where
  "exists_path s path =
     list_ex (\<lambda>c. st_fields s c \<noteq> None \<or> st_arrays s c \<noteq> None) (candidates_of s path)"

definition generic_call :: "'f env \<Rightarrow> 'f interp \<Rightarrow> chars \<Rightarrow> 'f expr list \<Rightarrow> ('f, 'f tval) comp" where
  "generic_call E I name args s =
     and_then (collect_call_aliases I name args s) (\<lambda>aliases s.
     and_then (eval_all I args s) (\<lambda>vs. call_named_with_aliases E I name vs aliases))"

fun single_ident :: "'f expr list \<Rightarrow> chars option" where
  "single_ident [Ident a sp] = Some a"
| "single_ident _ = None"

fun first_ident :: "'f expr list \<Rightarrow> chars option" where
  "first_ident (Ident a sp # args) = Some a"
| "first_ident _ = None"

text \<open>\<open>sizeof\<close> and \<open>startof\<close> of a name, when they have an answer.\<close>

definition static_call :: "'f env \<Rightarrow> chars \<Rightarrow> 'f expr list \<Rightarrow> 'f istate \<Rightarrow> nat ires option" where
  "static_call E name args s =
     (case single_ident args of
        None \<Rightarrow> None
      | Some a \<Rightarrow>
          if name = lit ''sizeof'' then
            (if st_types s a \<noteq> None then Some (sizeof_type (en_stack E) (st_types s) a)
             else map_option Ok (field_byte_length s a))
          else if name = lit ''startof'' then map_option Ok (field_byte_offset s a)
          else None)"

definition function_exists :: "'f expr \<Rightarrow> 'f istate \<Rightarrow> bool" where
  "function_exists a s =
     (case a of
        Ident n sp \<Rightarrow> st_functions s n \<noteq> None
      | StringLit n sp \<Rightarrow> st_functions s n \<noteq> None
      | _ \<Rightarrow> False)"

definition eval_call :: "'f env \<Rightarrow> 'f interp \<Rightarrow> 'f expr \<Rightarrow> 'f expr list \<Rightarrow> ('f, 'f tval) comp" where
  "eval_call E I callee args s =
     (case callee of
        Ident name sp \<Rightarrow>
          (case static_call E name args s of
             Some r \<Rightarrow> result_of (res_bind r (\<lambda>n. Ok (VUInt n kind_u64))) s
           | None \<Rightarrow>
             if name = lit ''parentof'' \<and> length args = 1 then done_with VVoid s
             else if name = lit ''exists'' \<and> length args = 1 then
               and_then (ip_path I (args ! 0) s) (\<lambda>p s.
                 case p of
                   Some path \<Rightarrow> done_with (VBool (exists_path s path)) s
                 | None \<Rightarrow> generic_call E I name args s)
             else if name = lit ''function_exists'' \<and> length args = 1
               then done_with (VBool (function_exists (args ! 0) s)) s
             else if name = lit ''SScanf'' \<and> length args \<ge> 3 then call_sscanf E I args s
             else (case first_ident args of
                 Some dest \<Rightarrow>
                   if name = lit ''SPrintf'' \<and> length args \<ge> 2 then call_sprintf E I dest args s
                   else if name = lit ''ReadBytes'' \<and> length args \<ge> 3 then call_read_bytes E I dest args s
                   else generic_call E I name args s
               | None \<Rightarrow> generic_call E I name args s))
      | _ \<Rightarrow> result_of (type_error ''call target must be an identifier'') s)"

end
