(* ===== verification/TplRun.thy ===== *)
theory TplRun
  imports TplEval
begin

text \<open>
  The bodies of the template interpreter (\<open>hxy-010-lang/src/interp.rs\<close>): assignments (\<open>exec_assign\<close>),
  expressions (\<open>eval\<close>), statements (\<open>exec_stmt\<close>); the interpreter of every fuel, which ties them; and
  the run of a program (\<open>Interpreter::run\<close>).
\<close>

subsection \<open>Assignments\<close>

definition assigned :: "'f host \<Rightarrow> assign_op \<Rightarrow> 'f tval ires \<Rightarrow> 'f tval \<Rightarrow> 'f tval ires" where
  "assigned h oper current rhs =
     (if oper = AssignOp then Ok rhs
      else res_bind current (\<lambda>cur. eval_binary h (compound_to_bin oper) cur rhs))"

definition low_byte :: "'f host \<Rightarrow> 'f tval \<Rightarrow> byte" where
  "low_byte h v = word_of_nat (to_unsigned 8 (case val_to_i128 h v of Some i \<Rightarrow> i | None \<Rightarrow> 0))"

text \<open>A character of a string that a variable holds, the string grown with zero bytes to reach it.\<close>

definition patch_char :: "'f env \<Rightarrow> assign_op \<Rightarrow> chars \<Rightarrow> chars \<Rightarrow> nat \<Rightarrow> 'f tval \<Rightarrow> ('f, 'f tval) comp" where
  "patch_char E oper name text i rhs s =
     (let bs = utf8_encode text; grown = bs @ replicate (i + 1 - length bs) 0 in
      if i \<ge> length bs \<and> i + 1 \<ge> 2 ^ 63 then result_of Panic s
      else and_then (result_of (assigned (en_host E) oper
                        (Ok (VSInt (int (unat (grown ! i))) kind_i32)) rhs) s) (\<lambda>v s.
        let b = low_byte (en_host E) v
        in done_with (VUInt (unat b) kind_u8)
             (store_ident name (VStr (utf8_lossy (grown[i := b]))) s)))"

definition put_field :: "chars \<Rightarrow> 'f tval \<Rightarrow> 'f istate \<Rightarrow> 'f istate" where
  "put_field key v s = s\<lparr>st_fields := (st_fields s)(key \<mapsto> v)\<rparr>"

definition char_buffer :: "'f istate \<Rightarrow> 'f expr \<Rightarrow> (chars \<times> chars) option" where
  "char_buffer s arr =
     (case arr of
        Ident name sp \<Rightarrow> (case lookup_ident s name of Ok (VStr text) \<Rightarrow> Some (name, text) | _ \<Rightarrow> None)
      | _ \<Rightarrow> None)"

definition assign_index ::
  "'f env \<Rightarrow> 'f interp \<Rightarrow> assign_op \<Rightarrow> 'f expr \<Rightarrow> 'f expr \<Rightarrow> 'f tval \<Rightarrow> ('f, 'f tval) comp" where
  "assign_index E I oper arr index rhs s =
     and_then (ip_eval I index s) (\<lambda>iv s.
       case val_to_i128 (en_host E) iv of
         None \<Rightarrow> result_of (type_error ''indexed assignment: index is not numeric'') s
       | Some idx \<Rightarrow>
           if idx < 0
           then fail_with (TypeError (lit ''indexed assignment: negative index '' @ show_int idx)) s
           else (case char_buffer s arr of
             Some (name, text) \<Rightarrow> patch_char E oper name text (nat (idx mod 2 ^ 64)) rhs s
           | None \<Rightarrow>
               and_then (ip_path I arr s) (\<lambda>b s.
                 case b of
                   None \<Rightarrow> result_of (type_error ''indexed assignment: unresolvable base'') s
                 | Some base \<Rightarrow>
                     (let key = base @ index_suffix idx in
                      and_then (result_of (assigned (en_host E) oper
                          (Ok (case st_fields s key of Some v \<Rightarrow> v | None \<Rightarrow> VVoid)) rhs) s)
                        (\<lambda>v s. done_with v (put_field key v s))))))"

definition assign_member ::
  "'f env \<Rightarrow> 'f interp \<Rightarrow> assign_op \<Rightarrow> 'f expr \<Rightarrow> chars \<Rightarrow> 'f tval \<Rightarrow> ('f, 'f tval) comp" where
  "assign_member E I oper obj field rhs s =
     and_then (ip_path I obj s) (\<lambda>b s.
       case b of
         None \<Rightarrow> result_of (type_error ''member assignment: unresolvable base'') s
       | Some base \<Rightarrow>
           (let key = base @ [46] @ field;
                current = (case st_fields s key of
                    Some v \<Rightarrow> v
                  | None \<Rightarrow> (case lookup_ident s field of Ok v \<Rightarrow> v | _ \<Rightarrow> VVoid))
            in and_then (result_of (assigned (en_host E) oper (Ok current) rhs) s)
                 (\<lambda>v s. done_with v (put_field key v s))))"

definition exec_assign ::
  "'f env \<Rightarrow> 'f interp \<Rightarrow> assign_op \<Rightarrow> 'f expr \<Rightarrow> 'f expr \<Rightarrow> ('f, 'f tval) comp" where
  "exec_assign E I oper target value s =
     and_then (ip_eval I value s) (\<lambda>rhs s.
       case target of
         Ident name sp \<Rightarrow>
           and_then (result_of (assigned (en_host E) oper (lookup_ident s name) rhs) s)
             (\<lambda>v s. done_with v (store_ident name v s))
       | IndexE arr index sp \<Rightarrow> assign_index E I oper arr index rhs s
       | MemberE obj field sp \<Rightarrow> assign_member E I oper obj field rhs s
       | other \<Rightarrow> fail_with (TypeError (lit ''unsupported assignment target: '' @
                    ho_debug_expr (en_host E) other)) s)"

subsection \<open>Expressions\<close>

fun is_step_op :: "unary_op \<Rightarrow> bool" where
  "is_step_op OpPreInc = True"
| "is_step_op OpPreDec = True"
| "is_step_op OpPostInc = True"
| "is_step_op OpPostDec = True"
| "is_step_op _ = False"

text \<open>\<open>++\<close> and \<open>--\<close> on a name.\<close>

definition step_ident :: "'f env \<Rightarrow> unary_op \<Rightarrow> chars \<Rightarrow> ('f, 'f tval) comp" where
  "step_ident E u name s =
     and_then (result_of (lookup_ident s name) s) (\<lambda>current s.
     and_then (result_of (number_or ''not numeric'' (en_host E) current) s) (\<lambda>i s.
       let delta = (if u = OpPreInc \<or> u = OpPostInc then 1 else - 1);
           updated = VSInt (wrap_i128 (i + delta)) kind_i64
       in done_with (if u = OpPreInc \<or> u = OpPreDec then updated else VSInt i kind_i64)
            (store_field name updated (store_ident name updated s))))"

definition eval_logical :: "'f env \<Rightarrow> 'f interp \<Rightarrow> bool \<Rightarrow> 'f expr \<Rightarrow> 'f expr \<Rightarrow> ('f, 'f tval) comp" where
  "eval_logical E I is_and l r s =
     and_then (ip_eval I l s) (\<lambda>lv s.
       if is_and \<and> \<not> is_truthy (en_host E) lv then done_with (VBool False) s
       else if \<not> is_and \<and> is_truthy (en_host E) lv then done_with (VBool True) s
       else and_then (ip_eval I r s) (\<lambda>rv. done_with (VBool (is_truthy (en_host E) rv))))"

definition eval_body :: "'f env \<Rightarrow> 'f interp \<Rightarrow> 'f expr \<Rightarrow> ('f, 'f tval) comp" where
  "eval_body E I e s =
     (case e of
        IntLit v sp \<Rightarrow> done_with (VUInt v kind_u64) s
      | FloatLit x sp \<Rightarrow> done_with (VFloat (fl_value x) kind_f64) s
      | StringLit t sp \<Rightarrow> done_with (VStr t) s
      | CharLit c sp \<Rightarrow> done_with (VChar c kind_char) s
      | Ident name sp \<Rightarrow> result_of (lookup_ident s name) s
      | BinaryE oper l r sp \<Rightarrow>
          if oper = OpLogicalAnd \<or> oper = OpLogicalOr then eval_logical E I (oper = OpLogicalAnd) l r s
          else and_then (ip_eval I l s) (\<lambda>lv s.
               and_then (ip_eval I r s) (\<lambda>rv. result_of (eval_binary (en_host E) oper lv rv)))
      | UnaryE u a sp \<Rightarrow>
          (case (if is_step_op u then single_ident [a] else None) of
             Some name \<Rightarrow> step_ident E u name s
           | None \<Rightarrow> and_then (ip_eval I a s) (\<lambda>v. result_of (eval_unary (en_host E) u v)))
      | CallE callee args sp \<Rightarrow> eval_call E I callee args s
      | IndexE t i sp \<Rightarrow> eval_access E I e s
      | MemberE t field sp \<Rightarrow> eval_access E I e s
      | AssignE oper t v sp \<Rightarrow> exec_assign E I oper t v s
      | TernaryE c t f sp \<Rightarrow>
          and_then (ip_eval I c s) (\<lambda>v. ip_eval I (if is_truthy (en_host E) v then t else f)))"

subsection \<open>Statements\<close>

definition typedef_alias :: "chars \<Rightarrow> type_ref \<Rightarrow> 'f expr option \<Rightarrow> 'f istate \<Rightarrow> 'f istate" where
  "typedef_alias name source array_size s =
     s\<lparr>st_types := (st_types s)(name \<mapsto> TdAlias (tr_name source)),
       st_typedef_array_size := (case array_size of
           Some e \<Rightarrow> (st_typedef_array_size s)(name \<mapsto> e)
         | None \<Rightarrow> st_typedef_array_size s)\<rparr>"

text \<open>The index of the variants: a literal value, or the value after the variant before.\<close>

fun index_variants :: "'f enum_variant list \<Rightarrow> int \<Rightarrow> (chars \<rightharpoonup> int) \<Rightarrow> (chars \<rightharpoonup> int)" where
  "index_variants [] auto_value m = m"
| "index_variants (v # vs) auto_value m =
     (let val = (case ev_value v of Some (IntLit n sp) \<Rightarrow> int n | _ \<Rightarrow> auto_value)
      in index_variants vs (wrap_i128 (val + 1)) (m(ev_name v \<mapsto> val)))"

definition typedef_enum :: "'f enum_decl \<Rightarrow> 'f istate \<Rightarrow> 'f istate" where
  "typedef_enum e s =
     s\<lparr>st_variants := index_variants (ed_variants e) 0 (st_variants s),
       st_types := (st_types s)(ed_name e \<mapsto> TdEnum e)\<rparr>"

definition typedef_struct :: "'f struct_decl \<Rightarrow> 'f istate \<Rightarrow> 'f istate" where
  "typedef_struct d s = s\<lparr>st_types := (st_types s)(sd_name d \<mapsto> TdStruct d)\<rparr>"

text \<open>The budget of statements, and the deadline at every 1024th.\<close>

definition count_step :: "'f env \<Rightarrow> ('f, unit) comp" where
  "count_step E s0 =
     (let s = s0\<lparr>st_steps := sat_add64 (st_steps s0) 1\<rparr> in
      if st_steps s > st_step_limit s
      then fail_with (TypeError (lit ''exceeded step limit ('' @ show_nat (st_step_limit s) @
             lit '') -- template aborted'')) s
      else (case st_timeout s of
          Some ms \<Rightarrow> if st_steps s mod 1024 = 0 \<and> en_expired E (st_steps s) then fail_with (TimedOut ms) s
                    else done_with () s
        | None \<Rightarrow> done_with () s))"

definition stmt_cases :: "'f env \<Rightarrow> 'f interp \<Rightarrow> 'f stmt \<Rightarrow> nat option \<Rightarrow> ('f, 'f flow) comp" where
  "stmt_cases E I st parent s =
     (case st of
        BlockStmt stmts sp \<Rightarrow> exec_block I stmts parent s
      | ExprStmt e sp \<Rightarrow> and_then (ip_eval I e s) (\<lambda>_. done_with FlowNext)
      | FieldDecl md ty name array_size args bit_width init attrs sp \<Rightarrow>
          and_then (exec_field_decl E I md ty name array_size args bit_width init attrs parent s)
            (\<lambda>_. done_with FlowNext)
      | TypedefAlias name source array_size sp \<Rightarrow>
          done_with FlowNext (typedef_alias name source array_size s)
      | TypedefEnum e \<Rightarrow> done_with FlowNext (typedef_enum e s)
      | TypedefStruct d \<Rightarrow> done_with FlowNext (typedef_struct d s)
      | IfStmt c t f sp \<Rightarrow>
          and_then (ip_eval I c s) (\<lambda>v.
            if is_truthy (en_host E) v then ip_stmt I t parent
            else (case f of Some e \<Rightarrow> ip_stmt I e parent | None \<Rightarrow> done_with FlowNext))
      | WhileStmt c body sp \<Rightarrow> ip_while I c body parent 0 s
      | DoWhileStmt body c sp \<Rightarrow> ip_do_while I body c parent 0 s
      | ForStmt init c step body sp \<Rightarrow>
          and_then (case init of Some i \<Rightarrow> ip_stmt I i parent s | None \<Rightarrow> done_with FlowNext s)
            (\<lambda>_. ip_for I c step body parent 0)
      | ReturnStmt e sp \<Rightarrow> and_then (eval_opt I e s) (\<lambda>v. done_with (FlowReturn v))
      | BreakStmt sp \<Rightarrow> done_with FlowBreak s
      | ContinueStmt sp \<Rightarrow> done_with FlowContinue s
      | SwitchStmt c arms sp \<Rightarrow> exec_switch E I c arms parent s)"

definition stmt_body :: "'f env \<Rightarrow> 'f interp \<Rightarrow> 'f stmt \<Rightarrow> nat option \<Rightarrow> ('f, 'f flow) comp" where
  "stmt_body E I st parent s = and_then (count_step E s) (\<lambda>_. stmt_cases E I st parent)"

subsection \<open>The interpreters of every fuel\<close>

definition interp_step :: "'f env \<Rightarrow> 'f interp \<Rightarrow> 'f interp" where
  "interp_step E I =
     \<lparr>ip_eval = eval_body E I, ip_path = path_body E I, ip_stmt = stmt_body E I,
      ip_while = while_round E I, ip_do_while = do_while_round E I, ip_for = for_round E I\<rparr>"

primrec interp :: "'f env \<Rightarrow> nat \<Rightarrow> 'f interp" where
  "interp E 0 =
     \<lparr>ip_eval = \<lambda>_ _. None, ip_path = \<lambda>_ _. None, ip_stmt = \<lambda>_ _ _. None, ip_while = \<lambda>_ _ _ _ _. None,
      ip_do_while = \<lambda>_ _ _ _ _. None, ip_for = \<lambda>_ _ _ _ _ _. None\<rparr>"
| "interp E (Suc n) = interp_step E (interp E n)"

definition exec_stmt :: "'f env \<Rightarrow> nat \<Rightarrow> 'f stmt \<Rightarrow> nat option \<Rightarrow> ('f, 'f flow) comp" where
  "exec_stmt E fuel = ip_stmt (interp E fuel)"

definition eval_expr :: "'f env \<Rightarrow> nat \<Rightarrow> 'f expr \<Rightarrow> ('f, 'f tval) comp" where
  "eval_expr E fuel = ip_eval (interp E fuel)"

subsection \<open>A run\<close>

fun register_functions :: "'f program \<Rightarrow> 'f istate \<Rightarrow> 'f istate" where
  "register_functions [] s = s"
| "register_functions (TopFunction f # items) s =
     register_functions items (s\<lparr>st_functions := (st_functions s)(fd_name f \<mapsto> f)\<rparr>)"
| "register_functions (TopStmt st # items) s = register_functions items s"

definition finish :: "'f tval option \<Rightarrow> runtime_error option \<Rightarrow> 'f istate \<Rightarrow> 'f run_result" where
  "finish v err s =
     \<lparr>rr_nodes = st_nodes s, rr_diagnostics = st_diagnostics s, rr_return_value = v, rr_terminal_error = err\<rparr>"

text \<open>The statements in order, up to the first that returns or fails.\<close>

fun run_items :: "'f interp \<Rightarrow> 'f program \<Rightarrow> 'f istate \<Rightarrow> 'f run_result ires option" where
  "run_items I [] s = Some (Ok (finish None None s))"
| "run_items I (TopFunction f # items) s = run_items I items s"
| "run_items I (TopStmt st # items) s =
     (case ip_stmt I st None s of
        None \<Rightarrow> None
      | Some (Ok (FlowReturn v), s) \<Rightarrow> Some (Ok (finish v None s))
      | Some (Ok _, s) \<Rightarrow> run_items I items s
      | Some (Err e, s) \<Rightarrow>
          Some (Ok (finish None (Some e) (push_diagnostic SevError (show_runtime_error e) (st_pos s) s)))
      | Some (Panic, s) \<Rightarrow> Some Panic)"

definition run :: "'f env \<Rightarrow> nat \<Rightarrow> 'f program \<Rightarrow> 'f istate \<Rightarrow> 'f run_result ires option" where
  "run E fuel prog s = run_items (interp E fuel) prog (register_functions prog s)"

end
