(* ===== verification/TplSettle.thy ===== *)
theory TplSettle
  imports TplRun
begin

text \<open>
  When a computation of the template interpreter settles: from some fuel on it has one and the same
  outcome. Outcomes only move the count of statements forward and keep its limit, and the rules
  below follow the shape of the interpreter's definitions.
\<close>

subsection \<open>The count of statements\<close>

definition later :: "'f istate \<Rightarrow> 'f istate \<Rightarrow> bool" where
  "later s s' \<longleftrightarrow>
     st_step_limit s' = st_step_limit s \<and> st_steps s \<le> st_steps s' \<and>
     (st_steps s \<le> u64_max \<longrightarrow> st_steps s' \<le> u64_max)"

definition remaining :: "'f istate \<Rightarrow> nat" where
  "remaining s = st_step_limit s - st_steps s"

lemma later_refl [simp]: "later s s"
  by (simp add: later_def)

lemma later_trans: "later s t \<Longrightarrow> later t u \<Longrightarrow> later s u"
  by (auto simp: later_def)

lemma later_update [simp]:
  "later s (t\<lparr>st_pos := x1\<rparr>) = later s t"
  "later s (t\<lparr>st_endian := x2\<rparr>) = later s t"
  "later s (t\<lparr>st_scopes := x3\<rparr>) = later s t"
  "later s (t\<lparr>st_var_counts := x4\<rparr>) = later s t"
  "later s (t\<lparr>st_nodes := x5\<rparr>) = later s t"
  "later s (t\<lparr>st_diagnostics := x6\<rparr>) = later s t"
  "later s (t\<lparr>st_fields := x7\<rparr>) = later s t"
  "later s (t\<lparr>st_has_children := x8\<rparr>) = later s t"
  "later s (t\<lparr>st_arrays := x9\<rparr>) = later s t"
  "later s (t\<lparr>st_typedef_array_size := x10\<rparr>) = later s t"
  "later s (t\<lparr>st_local_array_bytes := x11\<rparr>) = later s t"
  "later s (t\<lparr>st_path := x12\<rparr>) = later s t"
  "later s (t\<lparr>st_prefix := x13\<rparr>) = later s t"
  "later s (t\<lparr>st_field_counts := x14\<rparr>) = later s t"
  "later s (t\<lparr>st_slot := x15\<rparr>) = later s t"
  "later s (t\<lparr>st_right_to_left := x16\<rparr>) = later s t"
  "later s (t\<lparr>st_padding_disabled := x17\<rparr>) = later s t"
  "later s (t\<lparr>st_types := x18\<rparr>) = later s t"
  "later s (t\<lparr>st_variants := x19\<rparr>) = later s t"
  "later s (t\<lparr>st_functions := x20\<rparr>) = later s t"
  by (simp_all add: later_def)

lemma later_scopes [simp]:
  "later s (bind_var n v t) = later s t"
  "later s (bind_alias n p t) = later s t"
  "later s (push_scope t) = later s t"
  "later s (pop_scope t) = later s t"
  by (simp_all add: bind_var_def bind_alias_def push_scope_def pop_scope_def split: list.split)

lemma later_store_ident [simp]: "later s (store_ident n v t) = later s t"
  by (simp add: store_ident_def split: option.split)

lemma later_fields [simp]:
  "later s (store_at_path k v t) = later s t"
  "later s (snd (next_struct_segment n t)) = later s t"
  "later s (push_path_segment seg t) = later s t"
  "later s (pop_path_segment t) = later s t"
  "later s (add_array_span k span t) = later s t"
  "later s (push_diagnostic sev msg off t) = later s t"
  "later s (push_node node t) = later s t"
  "later s (set_node_length i m t) = later s t"
  "later s (put_field k v t) = later s t"
  "later s (typedef_alias n ty sz t) = later s t"
  "later s (typedef_enum e t) = later s t"
  "later s (typedef_struct d t) = later s t"
  by (simp_all add: store_at_path_def next_struct_segment_def push_path_segment_def pop_path_segment_def
      add_array_span_def push_diagnostic_def push_node_def set_node_length_def put_field_def
      typedef_alias_def typedef_enum_def typedef_struct_def Let_def split: list.split)

lemma later_store_field [simp]: "later s (store_field n v t) = later s t"
  by (simp add: store_field_def Let_def split_beta)

lemma later_new_node [simp]: "later s (new_node a b c d e f g t) = later s t"
  by (simp add: new_node_def)

lemma later_bind_params [simp]: "later s (bind_params ps args paths t) = later s t"
  by (induction ps arbitrary: args paths t) (simp_all add: Let_def split: list.split option.split)

lemma later_trim_scopes [simp]: "later s (trim_scopes n t) = later s t"
proof -
  have "later s ((pop_scope ^^ k) t) = later s t" for k
    by (induction k) simp_all
  then show ?thesis by (simp add: trim_scopes_def)
qed

lemma later_fold:
  assumes "\<And>x t. later s (f x t) = later s t"
  shows "later s (fold f xs t) = later s t"
  using assms by (induction xs arbitrary: t) simp_all

subsection \<open>Settling\<close>

text \<open>The count is a clock, when the limit is one that it can pass.\<close>

definition countable_limit :: "'f istate \<Rightarrow> bool" where
  "countable_limit s \<longleftrightarrow> st_step_limit s < u64_max \<and> st_steps s \<le> u64_max"

interpretation tpl: clock later remaining countable_limit True
  by unfold_locales (auto simp: later_def remaining_def countable_limit_def)

abbreviation within :: "nat \<Rightarrow> 'f istate \<Rightarrow> bool" where
  "within \<equiv> tpl.within"

abbreviation settles :: "nat \<Rightarrow> (nat \<Rightarrow> ('f, 'a) outcome) \<Rightarrow> 'f istate \<Rightarrow> bool" where
  "settles \<equiv> tpl.ends"

abbreviation advances :: "nat \<Rightarrow> (nat \<Rightarrow> ('f, 'a) outcome) \<Rightarrow> 'f istate \<Rightarrow> bool" where
  "advances \<equiv> tpl.moves"

lemma tpl_safe [simp]: "tpl.safe out"
  by (simp add: tpl.safe_def)

text \<open>At most \<open>r\<close> statements are left.\<close>

lemma within_iff:
  "within r s \<longleftrightarrow> remaining s \<le> r \<and> st_step_limit s < u64_max \<and> st_steps s \<le> u64_max"
  by (simp add: tpl.within_def countable_limit_def)

text \<open>The cases of the interpreter's own types.\<close>

lemma settles_flow [settle_rules]:
  "settles r F s \<Longrightarrow> settles r G s \<Longrightarrow> settles r H s \<Longrightarrow> (\<And>v. settles r (\<lambda>n. K n v) s)
    \<Longrightarrow> settles r (\<lambda>n. case fl of FlowNext \<Rightarrow> F n | FlowBreak \<Rightarrow> G n | FlowContinue \<Rightarrow> H n | FlowReturn v \<Rightarrow> K n v) s"
  by (cases fl) simp_all

lemma settles_type_def [settle_rules]:
  "(\<And>p. x = TdPrimitive p \<Longrightarrow> settles r (\<lambda>n. F n p) s) \<Longrightarrow> (\<And>t. x = TdAlias t \<Longrightarrow> settles r (\<lambda>n. G n t) s)
    \<Longrightarrow> (\<And>e. x = TdEnum e \<Longrightarrow> settles r (\<lambda>n. H n e) s) \<Longrightarrow> (\<And>d. x = TdStruct d \<Longrightarrow> settles r (\<lambda>n. K n d) s)
    \<Longrightarrow> settles r (\<lambda>n. case x of TdPrimitive p \<Rightarrow> F n p | TdAlias t \<Rightarrow> G n t | TdEnum e \<Rightarrow> H n e
                          | TdStruct d \<Rightarrow> K n d) s"
  by (cases x) simp_all

lemma settles_flow_at [settle_rules]:
  "settles r (\<lambda>n. F n t) s \<Longrightarrow> settles r (\<lambda>n. G n t) s \<Longrightarrow> settles r (\<lambda>n. H n t) s
    \<Longrightarrow> (\<And>v. settles r (\<lambda>n. K n v t) s)
    \<Longrightarrow> settles r (\<lambda>n. (case fl of FlowNext \<Rightarrow> F n | FlowBreak \<Rightarrow> G n | FlowContinue \<Rightarrow> H n
                           | FlowReturn v \<Rightarrow> K n v) t) s"
  by (cases fl) simp_all

lemma settles_type_def_at [settle_rules]:
  "(\<And>p. x = TdPrimitive p \<Longrightarrow> settles r (\<lambda>n. F n p t) s) \<Longrightarrow> (\<And>y. x = TdAlias y \<Longrightarrow> settles r (\<lambda>n. G n y t) s)
    \<Longrightarrow> (\<And>e. x = TdEnum e \<Longrightarrow> settles r (\<lambda>n. H n e t) s) \<Longrightarrow> (\<And>d. x = TdStruct d \<Longrightarrow> settles r (\<lambda>n. K n d t) s)
    \<Longrightarrow> settles r (\<lambda>n. (case x of TdPrimitive p \<Rightarrow> F n p | TdAlias y \<Rightarrow> G n y | TdEnum e \<Rightarrow> H n e
                           | TdStruct d \<Rightarrow> K n d) t) s"
  by (cases x) simp_all

lemma settles_tval_at [settle_rules]:
  "settles r (\<lambda>n. F1 n t) s \<Longrightarrow> (\<And>a b. settles r (\<lambda>n. F2 n a b t) s) \<Longrightarrow> (\<And>a b. settles r (\<lambda>n. F3 n a b t) s)
    \<Longrightarrow> (\<And>a b. settles r (\<lambda>n. F4 n a b t) s) \<Longrightarrow> (\<And>a b. settles r (\<lambda>n. F5 n a b t) s)
    \<Longrightarrow> (\<And>a. settles r (\<lambda>n. F6 n a t) s) \<Longrightarrow> (\<And>a. settles r (\<lambda>n. F7 n a t) s)
    \<Longrightarrow> settles r (\<lambda>n. (case v of VVoid \<Rightarrow> F1 n | VUInt a b \<Rightarrow> F2 n a b | VSInt a b \<Rightarrow> F3 n a b
         | VFloat a b \<Rightarrow> F4 n a b | VChar a b \<Rightarrow> F5 n a b | VStr a \<Rightarrow> F6 n a | VBool a \<Rightarrow> F7 n a) t) s"
  by (cases v) simp_all

end
