(* ===== verification/TplHalt.thy ===== *)
theory TplHalt
  imports TplSettle
begin

text \<open>
  Every part of the template interpreter settles if the interpreter it calls does.
\<close>

subsection \<open>The parts that call no interpreter\<close>

lemma settles_read_at: "settles r (\<lambda>n. read_at E off k s) s"
  by (simp add: read_at_def source_result_def tpl.ends_result)

lemmas settles_reads [settle_rules] = tpl.ends_at [OF settles_read_at]

lemma settles_read_advance: "settles r (\<lambda>n. read_advance E k s) s"
  unfolding read_advance_def by (intro settle_rules) simp_all

lemmas settles_reads_advance [settle_rules] = tpl.ends_at [OF settles_read_advance]

lemma settles_reading_builtins:
  "settles r (\<lambda>n. read_prim_at E args k s) s"
  "settles r (\<lambda>n. find_first E args s) s"
  "settles r (\<lambda>n. checksum_builtin E args s) s"
  "settles r (\<lambda>n. read_bytes_builtin E args s) s"
  "settles r (\<lambda>n. read_string_builtin E args w s) s"
  "settles r (\<lambda>n. read_string_length_builtin E args w s) s"
  by (simp_all only: read_prim_at_def find_first_def checksum_builtin_def read_bytes_builtin_def
      read_string_builtin_def read_string_length_builtin_def Let_def)
    (intro settle_rules; simp)+

lemma settles_source_builtin: "settles r (\<lambda>n. source_builtin E name args s) s"
  unfolding source_builtin_def answer_of_def read_fn_uint_def read_float_builtin_def Let_def
  by (intro settle_rules tpl.ends_at [OF settles_reading_builtins(1)] settles_reading_builtins; simp)

lemma settles_message_builtin: "settles r (\<lambda>n. message_builtin E name args s) s"
  unfolding message_builtin_def Let_def by (intro settle_rules; simp)

lemma settles_text_builtin: "settles r (\<lambda>n. text_builtin E name args s) s"
  unfolding text_builtin_def Let_def by (intro settle_rules; simp split: list.split tval.split)

lemma settles_math_builtin: "settles r (\<lambda>n. math_builtin E name args s) s"
  unfolding math_builtin_def Let_def by (intro settle_rules; simp)

lemma settles_default_builtin: "settles r (\<lambda>n. default_builtin name args s) s"
  unfolding default_builtin_def by (simp add: settle_rules)

lemma settles_call_builtin: "settles r (\<lambda>n. call_builtin E name args s) s"
  unfolding call_builtin_def or_else_def
  by (intro settle_rules settles_source_builtin settles_message_builtin settles_text_builtin
      settles_math_builtin settles_default_builtin; simp)

lemma settles_read_bitfield: "settles r (\<lambda>n. read_bitfield E name ty w parent attrs s) s"
  unfolding read_bitfield_def open_slot_def Let_def by (intro settle_rules; simp)

lemma settles_read_string: "settles r (\<lambda>n. read_string_field E w name parent attrs s) s"
  unfolding read_string_field_def Let_def by (intro settle_rules; simp)

lemma settles_read_primitive: "settles r (\<lambda>n. read_primitive_field E p name parent attrs s) s"
  unfolding read_primitive_field_def Let_def by (intro settle_rules; simp)

lemma settles_primitive_array: "settles r (\<lambda>n. read_primitive_array E p name count parent attrs s) s"
  unfolding read_primitive_array_def Let_def by (intro settle_rules; simp split: tval.split)

lemma settles_value_at_path: "settles r (\<lambda>n. value_at_path E e path s) s"
  unfolding value_at_path_def decode_array_element_def Let_def by (intro settle_rules; simp)

text \<open>A statement within the budget takes one off it.\<close>

lemma count_step_outcome:
  "\<exists>out. count_step E s = Some (out, s\<lparr>st_steps := sat_add64 (st_steps s) 1\<rparr>) \<and>
     (out = Ok () \<longrightarrow> sat_add64 (st_steps s) 1 \<le> st_step_limit s)"
  by (auto simp: count_step_def Let_def fail_with_def done_with_def split: option.split)

lemma advances_count_step: "advances r (\<lambda>n. count_step E s) s"
proof (rule tpl.movesI)
  assume w: "within r s"
  let ?t = "s\<lparr>st_steps := sat_add64 (st_steps s) 1\<rparr>"
  obtain out where out: "count_step E s = Some (out, ?t)" "out = Ok () \<Longrightarrow> st_steps ?t \<le> st_step_limit s"
    using count_step_outcome [of E s] by auto
  have "later s ?t" using w by (auto simp: within_iff later_def sat_add64_def)
  moreover have "remaining ?t < remaining s" if "out = Ok a" for a
    using out(2) that w by (auto simp: within_iff remaining_def sat_add64_def)
  ultimately show "\<exists>out t. later s t \<and> tpl.safe out \<and> (\<forall>a. out = Ok a \<longrightarrow> remaining t < remaining s) \<and>
      settles_on (\<lambda>n. count_step E s) out t"
    using out(1) settles_on_const by fastforce
qed

subsection \<open>The parts that execute statements and evaluate expressions\<close>

text \<open>At a level \<open>r\<close>, the interpreter evaluates every expression, builds every path, and so on.\<close>

definition calm_eval :: "nat \<Rightarrow> (nat \<Rightarrow> 'f interp) \<Rightarrow> bool" where
  "calm_eval r Y \<longleftrightarrow> (\<forall>e s. settles r (\<lambda>n. ip_eval (Y n) e s) s)"

definition calm_path :: "nat \<Rightarrow> (nat \<Rightarrow> 'f interp) \<Rightarrow> bool" where
  "calm_path r Y \<longleftrightarrow> (\<forall>e s. settles r (\<lambda>n. ip_path (Y n) e s) s)"

definition calm_stmt :: "nat \<Rightarrow> (nat \<Rightarrow> 'f interp) \<Rightarrow> bool" where
  "calm_stmt r Y \<longleftrightarrow> (\<forall>st p s. advances r (\<lambda>n. ip_stmt (Y n) st p s) s)"

definition calm_loops :: "nat \<Rightarrow> (nat \<Rightarrow> 'f interp) \<Rightarrow> bool" where
  "calm_loops r Y \<longleftrightarrow>
     (\<forall>c body p k s. settles r (\<lambda>n. ip_while (Y n) c body p k s) s) \<and>
     (\<forall>c body p k s. settles r (\<lambda>n. ip_do_while (Y n) body c p k s) s) \<and>
     (\<forall>c step body p k s. settles r (\<lambda>n. ip_for (Y n) c step body p k s) s)"

lemma calm_evalD: "calm_eval r Y \<Longrightarrow> settles r (\<lambda>n. ip_eval (Y n) e s) s"
  by (simp add: calm_eval_def)

lemma calm_pathD: "calm_path r Y \<Longrightarrow> settles r (\<lambda>n. ip_path (Y n) e s) s"
  by (simp add: calm_path_def)

lemma calm_stmtD: "calm_stmt r Y \<Longrightarrow> advances r (\<lambda>n. ip_stmt (Y n) st p s) s"
  by (simp add: calm_stmt_def)

lemmas calm_stmt_settles = tpl.moves_ends [OF calm_stmtD]

lemma settles_eval_all:
  "(\<And>e s. e \<in> set es \<Longrightarrow> settles r (\<lambda>n. ip_eval (Y n) e s) s) \<Longrightarrow> settles r (\<lambda>n. eval_all (Y n) es s) s"
  by (induction es arbitrary: s) (simp_all only: eval_all.simps, (intro settle_rules; simp)+)

lemma settles_exec_seq:
  "calm_stmt r Y \<Longrightarrow> settles r (\<lambda>n. exec_seq (Y n) p sts s) s"
  by (induction sts arbitrary: s)
    (simp_all only: exec_seq.simps, (intro settle_rules calm_stmt_settles; simp)+)

lemma settles_exec_block:
  "calm_stmt r Y \<Longrightarrow> settles r (\<lambda>n. exec_block (Y n) sts p s) s"
  unfolding exec_block_def
  by (intro settle_rules tpl.ends_at [OF settles_exec_seq]; simp)

lemma settles_match_arm:
  "calm_eval r Y \<Longrightarrow> settles r (\<lambda>n. match_arm (Y n) h v arms i s) s"
  by (induction arms arbitrary: i s)
    (simp_all only: match_arm.simps, (intro settle_rules calm_evalD; simp)+)

lemma settles_exec_switch:
  "calm_eval r Y \<Longrightarrow> calm_stmt r Y \<Longrightarrow> settles r (\<lambda>n. exec_switch E (Y n) e arms p s) s"
  unfolding exec_switch_def Let_def
  by (intro settle_rules calm_evalD settles_match_arm settles_exec_seq; simp)

lemma settles_eval_opt:
  "calm_eval r Y \<Longrightarrow> settles r (\<lambda>n. eval_opt (Y n) e s) s"
  unfolding eval_opt_def by (intro settle_rules calm_evalD; simp)

lemma settles_exec_fields:
  "calm_stmt r Y \<Longrightarrow> settles r (\<lambda>n. exec_fields (Y n) p sts s) s"
  by (induction sts arbitrary: s)
    (simp_all only: exec_fields.simps, (intro settle_rules calm_stmt_settles; simp)+)

lemma settles_exec_union:
  "calm_stmt r Y \<Longrightarrow> settles r (\<lambda>n. exec_union (Y n) p off sts m s) s"
  by (induction sts arbitrary: m s)
    (simp_all only: exec_union.simps, (intro settle_rules tpl.ends_at [OF calm_stmt_settles]; simp)+)

lemma settles_struct_in_scope:
  "calm_stmt r Y \<Longrightarrow> settles r (\<lambda>n. struct_in_scope (Y n) d args paths off idx s) s"
  unfolding struct_in_scope_def exec_struct_body_def
  by (intro settle_rules tpl.ends_at [OF settles_exec_fields] tpl.ends_at [OF settles_exec_union]; simp)

lemma settles_find_variant:
  assumes "calm_eval r Y"
  shows "settles r (\<lambda>n. find_variant (Y n) h raw vs s) s"
proof (induction vs arbitrary: s)
  case (Cons v vs)
  show ?case
  proof (cases "ev_value v")
    case (Some e)
    let ?k = "\<lambda>n r s. case r of
        Ok x \<Rightarrow> if to_unsigned 64 (case val_to_i128 h x of Some i \<Rightarrow> i | None \<Rightarrow> 0) = raw
                then done_with (Some (ev_name v)) s else find_variant (Y n) h raw vs s
      | Err err \<Rightarrow> find_variant (Y n) h raw vs s
      | Panic \<Rightarrow> result_of Panic s"
    have "settles r (\<lambda>n. and_then (map_option (\<lambda>(r, s). (Ok r, s)) (ip_eval (Y n) e s)) (?k n)) s"
      by (intro settle_rules Cons.IH
          tpl.ends_map [where f = "map_option (\<lambda>(r, s). (Ok r, s))", OF calm_evalD [OF assms]]; simp)
    moreover have "(\<lambda>n. find_variant (Y n) h raw (v # vs) s) =
        (\<lambda>n. and_then (map_option (\<lambda>(r, s). (Ok r, s)) (ip_eval (Y n) e s)) (?k n))"
      by (rule ext) (auto simp: Some and_then_def result_of_def split: option.split res.split)
    ultimately show ?thesis by simp
  next
    case None
    then show ?thesis using Cons.IH by (simp add: settle_rules)
  qed
qed (simp add: settle_rules)

lemma settles_read_enum:
  "calm_eval r Y \<Longrightarrow> settles r (\<lambda>n. read_enum_field E (Y n) e name ty p attrs s) s"
  unfolding read_enum_field_def Let_def
  by (intro settle_rules settles_find_variant; simp)

lemma settles_read_struct:
  "calm_stmt r Y \<Longrightarrow> settles r (\<lambda>n. read_struct_field E (Y n) d name ty p attrs args paths s) s"
  unfolding read_struct_field_def Let_def split_beta
  by (intro settle_rules tpl.ends_finally tpl.ends_at [OF settles_struct_in_scope]; simp)

lemma settles_read_scalar:
  "calm_eval r Y \<Longrightarrow> calm_stmt r Y \<Longrightarrow> settles r (\<lambda>n. read_scalar E (Y n) name ty p attrs args paths s) s"
  unfolding read_scalar_def
  by (intro settle_rules settles_read_string settles_read_primitive settles_read_enum settles_read_struct; simp)

subsection \<open>Arrays and declarations\<close>

lemma settles_read_elem:
  "calm_eval r Y \<Longrightarrow> calm_stmt r Y \<Longrightarrow> settles r (\<lambda>n. read_elem E (Y n) def name ty p args paths s) s"
  unfolding read_elem_def read_struct_elem_def Let_def
  by (intro settle_rules tpl.ends_finally tpl.ends_at [OF settles_struct_in_scope] settles_read_scalar; simp)

lemma settles_read_elems:
  assumes "calm_eval r Y" "calm_stmt r Y"
  shows "settles r (\<lambda>n. read_elems E (Y n) def name ty p args paths is stalled s) s"
  using assms
  by (induction "is" arbitrary: stalled s)
    (simp_all only: read_elems.simps Let_def,
     (intro settle_rules tpl.ends_finally tpl.ends_at [OF settles_read_elem]; simp)+)

lemma settles_read_array:
  "calm_eval r Y \<Longrightarrow> calm_stmt r Y \<Longrightarrow> settles r (\<lambda>n. read_array E (Y n) name ty c p attrs args paths s) s"
  unfolding read_array_def Let_def
  by (intro settle_rules settles_primitive_array tpl.ends_at [OF settles_read_elems]; simp)

lemma settles_exec_local:
  "calm_eval r Y \<Longrightarrow> settles r (\<lambda>n. exec_local E (Y n) ty name sz init s) s"
  unfolding exec_local_def note_local_size_def default_local_value_def Let_def
  by (intro settle_rules calm_evalD; simp)

lemma settles_array_count:
  "calm_eval r Y \<Longrightarrow> settles r (\<lambda>n. array_count E (Y n) ty sz s) s"
  unfolding array_count_def Let_def by (intro settle_rules calm_evalD; simp)

lemma settles_eval_args:
  "calm_eval r Y \<Longrightarrow> calm_path r Y \<Longrightarrow> settles r (\<lambda>n. eval_args (Y n) as s) s"
  by (induction as arbitrary: s)
    (simp_all only: eval_args.simps, (intro settle_rules calm_evalD calm_pathD; simp)+)

lemma settles_skip_past_eof:
  "settles r F s \<Longrightarrow> settles r (\<lambda>n. skip_past_eof name (F n)) s"
  by (rule tpl.ends_map) (auto simp: skip_past_eof_def split: res.split runtime_error.split source_error.split)

lemma settles_exec_field:
  "calm_eval r Y \<Longrightarrow> calm_path r Y \<Longrightarrow> calm_stmt r Y \<Longrightarrow>
     settles r (\<lambda>n. exec_field E (Y n) ty name sz args attrs p s) s"
  unfolding exec_field_def Let_def
  by (intro settle_rules tpl.ends_at [OF settles_array_count] settles_eval_args settles_skip_past_eof
      settles_read_array settles_read_scalar; simp)

lemma settles_exec_field_decl:
  "calm_eval r Y \<Longrightarrow> calm_path r Y \<Longrightarrow> calm_stmt r Y \<Longrightarrow>
     settles r (\<lambda>n. exec_field_decl E (Y n) md ty name sz args w init attrs p s) s"
  unfolding exec_field_decl_def
  by (intro settle_rules settles_exec_local calm_evalD settles_read_bitfield settles_exec_field; simp)

subsection \<open>Loops\<close>

lemma advances_loop_body:
  assumes "calm_stmt r Y" "\<And>s. settles r (\<lambda>n. step n s) s"
  shows "advances r (\<lambda>n. loop_body (Y n) body p (step n) k s) s"
  unfolding loop_body_def
  by (intro tpl.moves_then calm_stmtD settle_rules assms; simp)

lemma settles_while_round:
  assumes "calm_eval r Y" "calm_stmt r Y" "0 < r \<Longrightarrow> calm_loops (r - 1) Y"
  shows "settles r (\<lambda>n. while_round E (Y n) c body p k s) s"
  unfolding while_round_def
  using assms
  by (intro tpl.ends_then [where F = "\<lambda>n. ip_eval (Y n) c s"] tpl.ends_if_at tpl.ends_if tpl.ends_then_less
      advances_loop_body settle_rules calm_evalD; simp add: calm_loops_def)

lemma calm_eval_less: "calm_eval r Y \<Longrightarrow> r' \<le> r \<Longrightarrow> calm_eval r' Y"
  unfolding calm_eval_def by (blast intro: tpl.ends_less)

lemma calm_loopsD:
  assumes "calm_loops r Y"
  shows "settles r (\<lambda>n. ip_while (Y n) c body p k s) s"
    "settles r (\<lambda>n. ip_do_while (Y n) body c p k s) s"
    "settles r (\<lambda>n. ip_for (Y n) co step body p k s) s"
  using assms by (simp_all add: calm_loops_def)

lemma settles_do_while_round:
  assumes ev: "calm_eval r Y" and st: "calm_stmt r Y" and less: "0 < r \<Longrightarrow> calm_loops (r - 1) Y"
  shows "settles r (\<lambda>n. do_while_round E (Y n) body c p k s) s"
  unfolding do_while_round_def
  by (intro tpl.ends_then_less [OF advances_loop_body [OF st]] settle_rules calm_loopsD
      calm_evalD [OF calm_eval_less [OF ev]] less; simp)

lemma settles_for_round:
  assumes ev: "calm_eval r Y" and st: "calm_stmt r Y" and less: "0 < r \<Longrightarrow> calm_loops (r - 1) Y"
  shows "settles r (\<lambda>n. for_round E (Y n) c step body p k s) s"
  unfolding for_round_def
  by (intro tpl.ends_then [where F = "\<lambda>n. eval_opt (Y n) c s"] tpl.ends_if_at tpl.ends_if settles_eval_opt [OF ev]
      tpl.ends_then_less [OF advances_loop_body [OF st]] settle_rules calm_loopsD less; simp)

subsection \<open>Statements\<close>

lemma settles_stmt_cases:
  assumes "calm_eval r Y" "calm_path r Y" "calm_stmt r Y" "calm_loops r Y"
  shows "settles r (\<lambda>n. stmt_cases E (Y n) st p s) s"
  by (cases st; simp only: stmt_cases_def stmt.case;
      intro settle_rules settles_exec_block settles_exec_field_decl settles_exec_switch settles_eval_opt
        calm_evalD calm_stmt_settles calm_loopsD assms; simp)

lemma advances_stmt_body:
  assumes "0 < r \<Longrightarrow> calm_eval (r - 1) Y" "0 < r \<Longrightarrow> calm_path (r - 1) Y"
    "0 < r \<Longrightarrow> calm_stmt (r - 1) Y" "0 < r \<Longrightarrow> calm_loops (r - 1) Y"
  shows "advances r (\<lambda>n. stmt_body E (Y n) st p s) s"
  unfolding stmt_body_def
  by (rule tpl.moves_then_less [where F = "\<lambda>n. count_step E s", OF advances_count_step])
    (intro settles_stmt_cases assms)

subsection \<open>Expressions\<close>

lemma settles_call_body:
  "calm_stmt r Y \<Longrightarrow> settles r (\<lambda>n. call_body (Y n) sts s) s"
  by (induction sts arbitrary: s)
    (simp_all only: call_body.simps, (intro settle_rules calm_stmt_settles; simp)+)

lemma settles_call_named:
  assumes "calm_stmt r Y"
  shows "settles r (\<lambda>n. call_named_with_aliases E (Y n) name args aliases s) s"
proof -
  have args: "later s (fold (\<lambda>(p, v). bind_var (pa_name p) v) xs t) = later s t" for xs s t
    by (rule later_fold) (simp add: split_beta)
  have names: "later s (fold (\<lambda>(n, p). bind_alias n p) xs t) = later s t" for xs s t
    by (rule later_fold) (simp add: split_beta)
  show ?thesis
    unfolding call_named_with_aliases_def Let_def
    by (intro settle_rules settles_call_builtin tpl.ends_at [OF settles_call_body [OF assms]];
        simp add: args names)
qed

lemma settles_alias_args:
  "(\<And>e s. e \<in> set as \<Longrightarrow> settles r (\<lambda>n. ip_path (Y n) e s) s) \<Longrightarrow> settles r (\<lambda>n. alias_args (Y n) ps as s) s"
  by (induction ps as arbitrary: s rule: list_induct2')
    (simp_all only: alias_args.simps Let_def, (intro settle_rules; simp)+)

lemma settles_sscanf:
  assumes "\<And>s. settles r (\<lambda>n. ip_eval (Y n) (args ! 0) s) s" "\<And>s. settles r (\<lambda>n. ip_eval (Y n) (args ! 1) s) s"
  shows "settles r (\<lambda>n. call_sscanf E (Y n) args s) s"
  unfolding call_sscanf_def Let_def
  by (intro settle_rules assms; simp add: later_fold split_beta)

lemma settles_sprintf:
  assumes fmt: "\<And>s. settles r (\<lambda>n. ip_eval (Y n) (args ! 1) s) s"
    and rest: "\<And>e s. e \<in> set (drop 2 args) \<Longrightarrow> settles r (\<lambda>n. ip_eval (Y n) e s) s"
  shows "settles r (\<lambda>n. call_sprintf E (Y n) dest args s) s"
proof -
  let ?f = "\<lambda>out. case out of
         Some (Ok v, s) \<Rightarrow> done_with (value_to_display (en_host E) v) s
       | Some (Err e, s) \<Rightarrow> done_with [] s
       | Some (Panic, s) \<Rightarrow> result_of Panic s
       | None \<Rightarrow> None"
  have "settles r (\<lambda>n. ?f (ip_eval (Y n) (args ! 1) s)) s" for s
    by (rule tpl.ends_map [where f = ?f, OF fmt])
      (auto simp: done_with_def result_of_def split: res.split)
  then show ?thesis
    unfolding call_sprintf_def Let_def by (intro settle_rules settles_eval_all rest; simp)
qed

lemma settles_generic_call:
  assumes "\<And>e s. e \<in> set args \<Longrightarrow> settles r (\<lambda>n. ip_path (Y n) e s) s"
    "\<And>e s. e \<in> set args \<Longrightarrow> settles r (\<lambda>n. ip_eval (Y n) e s) s" "calm_stmt r Y"
  shows "settles r (\<lambda>n. generic_call E (Y n) name args s) s"
  unfolding generic_call_def collect_call_aliases_def
  by (intro settle_rules settles_alias_args settles_eval_all settles_call_named assms; simp)

lemma settles_eval_call:
  assumes "\<And>e s. e \<in> set args \<Longrightarrow> settles r (\<lambda>n. ip_path (Y n) e s) s"
    "\<And>e s. e \<in> set args \<Longrightarrow> settles r (\<lambda>n. ip_eval (Y n) e s) s" "calm_stmt r Y"
  shows "settles r (\<lambda>n. eval_call E (Y n) callee args s) s"
proof (cases callee)
  case (Ident name sp)
  have gen: "settles r (\<lambda>n. generic_call E (Y n) name args s) s" for s
    by (rule settles_generic_call [OF assms])
  have bytes: "settles r (\<lambda>n. call_read_bytes E (Y n) dest args s) s" if "3 \<le> length args" for dest s
    unfolding call_read_bytes_def Let_def by (intro settle_rules assms(2)) (use that in auto)
  have path: "settles r (\<lambda>n. ip_path (Y n) (args ! 0) s) s" if "length args = 1" for s
    by (rule assms(1)) (use that in simp)
  have scanf: "settles r (\<lambda>n. call_sscanf E (Y n) args s) s" if "3 \<le> length args" for s
    by (rule settles_sscanf; rule assms(2); rule nth_mem; use that in linarith)
  have printf: "settles r (\<lambda>n. call_sprintf E (Y n) dest args s) s" if "2 \<le> length args" for dest s
    by (rule settles_sprintf; rule assms(2)) (use that in \<open>auto dest: in_set_dropD\<close>)
  show ?thesis
    unfolding eval_call_def Ident
    by (simp only: expr.case; intro settle_rules gen bytes path scanf printf; simp)
qed (simp_all add: eval_call_def settle_rules)

text \<open>An expression is calm if its path and its value settle.\<close>

definition calm_expr :: "nat \<Rightarrow> (nat \<Rightarrow> 'f interp) \<Rightarrow> 'f expr \<Rightarrow> bool" where
  "calm_expr r Y e \<longleftrightarrow>
     (\<forall>s. settles r (\<lambda>n. ip_path (Y n) e s) s) \<and> (\<forall>s. settles r (\<lambda>n. ip_eval (Y n) e s) s)"

lemma calm_exprD:
  assumes "calm_expr r Y e"
  shows "settles r (\<lambda>n. ip_path (Y n) e s) s" "settles r (\<lambda>n. ip_eval (Y n) e s) s"
  using assms by (simp_all add: calm_expr_def)

fun sub_exprs :: "'f expr \<Rightarrow> 'f expr set" where
  "sub_exprs (BinaryE b l r sp) = {l, r}"
| "sub_exprs (UnaryE u e sp) = {e}"
| "sub_exprs (CallE c as sp) = insert c (set as)"
| "sub_exprs (IndexE t i sp) = {t, i}"
| "sub_exprs (MemberE t f sp) = {t}"
| "sub_exprs (AssignE a t v sp) = {t, v} \<union> sub_exprs t"
| "sub_exprs (TernaryE c t e sp) = {c, t, e}"
| "sub_exprs e = {}"

lemma settles_path_body:
  assumes "\<And>x. x \<in> sub_exprs e \<Longrightarrow> calm_expr r Y x"
  shows "settles r (\<lambda>n. path_body E (Y n) e s) s"
proof (cases e)
  case (CallE c as sp)
  show ?thesis
  proof (cases "\<exists>name sp' a. c = Ident name sp' \<and> as = [a]")
    case True
    then obtain name sp' a where c: "c = Ident name sp'" "as = [a]" by blast
    have "calm_expr r Y a" using assms CallE c by simp
    then show ?thesis
      by (simp add: path_body_def CallE c settle_rules calm_exprD)
  next
    case False
    then have "path_body E (Y n) e s = done_with None s" for n
      by (auto simp: path_body_def CallE split: expr.split list.split)
    then show ?thesis by (simp add: settle_rules)
  qed
qed (use assms in \<open>simp only: path_body_def expr.case; intro settle_rules calm_exprD; simp\<close>)+

lemma settles_member_fallback:
  assumes "\<And>s. settles r (\<lambda>n. ip_path (Y n) e s) s"
  shows "settles r (\<lambda>n. member_fallback (Y n) e t field s) s"
  by (cases t; simp only: member_fallback_def expr.case; intro settle_rules assms; simp)

lemma settles_index_fallback:
  assumes "calm_expr r Y t" "calm_expr r Y i"
  shows "settles r (\<lambda>n. index_fallback E (Y n) t i s) s"
  using assms
  by (cases t; simp only: index_fallback_def expr.case Let_def; intro settle_rules calm_exprD; simp)

lemma settles_eval_access:
  assumes "\<And>x. x \<in> sub_exprs e \<Longrightarrow> calm_expr r Y x" "\<And>s. settles r (\<lambda>n. ip_path (Y n) e s) s"
  shows "settles r (\<lambda>n. eval_access E (Y n) e s) s"
  using assms
  by (cases e; simp only: eval_access_def expr.case;
      intro settle_rules settles_value_at_path settles_member_fallback settles_index_fallback; simp)

lemma settles_assign_index:
  assumes "calm_expr r Y arr" "calm_expr r Y i"
  shows "settles r (\<lambda>n. assign_index E (Y n) oper arr i rhs s) s"
  unfolding assign_index_def patch_char_def Let_def
  by (intro settle_rules calm_exprD [OF assms(1)] calm_exprD [OF assms(2)]; simp)

lemma settles_assign_member:
  assumes "calm_expr r Y obj"
  shows "settles r (\<lambda>n. assign_member E (Y n) oper obj field rhs s) s"
  unfolding assign_member_def Let_def
  by (intro settle_rules calm_exprD [OF assms(1)]; simp)

lemma settles_exec_assign:
  assumes "calm_expr r Y v" "\<And>x. x \<in> sub_exprs t \<Longrightarrow> calm_expr r Y x"
  shows "settles r (\<lambda>n. exec_assign E (Y n) oper t v s) s"
  using assms
  by (cases t; simp only: exec_assign_def expr.case;
      intro settle_rules calm_exprD settles_assign_index settles_assign_member; simp)

lemma settles_step_ident: "settles r (\<lambda>n. step_ident E u name s) s"
  unfolding step_ident_def Let_def by (intro settle_rules; simp)

lemma settles_eval_body:
  assumes "\<And>x. x \<in> sub_exprs e \<Longrightarrow> calm_expr r Y x" "\<And>s. settles r (\<lambda>n. ip_path (Y n) e s) s" "calm_stmt r Y"
  shows "settles r (\<lambda>n. eval_body E (Y n) e s) s"
proof (cases e)
  case (IndexE t i sp)
  then show ?thesis using settles_eval_access [OF assms(1,2)] by (simp add: eval_body_def)
next
  case (MemberE t f sp)
  then show ?thesis using settles_eval_access [OF assms(1,2)] by (simp add: eval_body_def)
qed (use assms(1,3) in \<open>simp only: eval_body_def eval_logical_def expr.case;
      intro settle_rules settles_step_ident settles_eval_call settles_exec_assign calm_exprD; simp\<close>)+

subsection \<open>The levels\<close>

lemma interp_fields [simp]:
  "ip_eval (interp_step E I) = eval_body E I"
  "ip_path (interp_step E I) = path_body E I"
  "ip_stmt (interp_step E I) = stmt_body E I"
  "ip_while (interp_step E I) = while_round E I"
  "ip_do_while (interp_step E I) = do_while_round E I"
  "ip_for (interp_step E I) = for_round E I"
  by (simp_all add: interp_step_def)

lemma calm_expr_step:
  assumes st: "calm_stmt r (interp E)" and sub: "\<And>x. x \<in> sub_exprs e \<Longrightarrow> calm_expr r (interp E) x"
  shows "calm_expr r (interp E) e"
proof -
  have path: "settles r (\<lambda>n. ip_path (interp E n) e s) s" for s
    by (rule tpl.ends_shift [OF settles_path_body [OF sub, where E = E]]) simp_all
  moreover have "settles r (\<lambda>n. ip_eval (interp E n) e s) s" for s
    by (rule tpl.ends_shift [OF settles_eval_body [OF sub path st, where E = E]]) simp_all
  ultimately show ?thesis by (simp add: calm_expr_def)
qed

lemma calm_expr_interp:
  assumes st: "calm_stmt r (interp E)"
  shows "calm_expr r (interp E) e"
proof -
  let ?subs = "\<lambda>e. \<forall>x \<in> sub_exprs e. calm_expr r (interp E) x"
  have step: "calm_expr r (interp E) e" if "?subs e" for e
    using calm_expr_step [OF st] that by blast
  have "?subs e"
  proof (induction e)
    case (CallE c as sp)
    then show ?case using step by simp
  qed (simp_all add: ball_Un, (metis step)+)
  then show ?thesis by (rule step)
qed

subsection \<open>Every run ends\<close>

text \<open>The interpreter of a level, from the one of the level below.\<close>

definition calm :: "nat \<Rightarrow> (nat \<Rightarrow> 'f interp) \<Rightarrow> bool" where
  "calm r Y \<longleftrightarrow> calm_eval r Y \<and> calm_path r Y \<and> calm_stmt r Y \<and> calm_loops r Y"

lemma calm_level:
  assumes "0 < r \<Longrightarrow> calm (r - 1) (interp E)"
  shows "calm r (interp E)"
proof -
  have st: "calm_stmt r (interp E)"
    unfolding calm_stmt_def
  proof (intro allI)
    fix st p s
    have "advances r (\<lambda>n. stmt_body E (interp E n) st p s) s"
      using assms by (intro advances_stmt_body) (simp_all add: calm_def)
    then show "advances r (\<lambda>n. ip_stmt (interp E n) st p s) s" by (rule tpl.moves_shift) simp
  qed
  have ev: "calm_eval r (interp E)" and path: "calm_path r (interp E)"
    using calm_expr_interp [OF st] by (auto simp: calm_eval_def calm_path_def calm_expr_def)
  have less: "calm_loops (r - 1) (interp E)" if "0 < r" using assms that by (simp add: calm_def)
  have "settles r (\<lambda>n. ip_while (interp E n) c body p k s) s" for c body p k s
    by (rule tpl.ends_shift [OF settles_while_round [OF ev st less, of E c body p k s]]) simp_all
  moreover have "settles r (\<lambda>n. ip_do_while (interp E n) body c p k s) s" for c body p k s
    by (rule tpl.ends_shift [OF settles_do_while_round [OF ev st less, of E body c p k s]]) simp_all
  moreover have "settles r (\<lambda>n. ip_for (interp E n) c step body p k s) s" for c step body p k s
    by (rule tpl.ends_shift [OF settles_for_round [OF ev st less, of E c step body p k s]]) simp_all
  ultimately have "calm_loops r (interp E)" by (simp add: calm_loops_def)
  with st ev path show ?thesis by (simp add: calm_def)
qed

lemma calm_interp: "calm r (interp E)"
proof (induction r)
  case 0
  show ?case by (rule calm_level) simp
next
  case (Suc r)
  then show ?case by (simp add: calm_level)
qed

end
