(* ===== verification/TplBitProps.thy ===== *)
theory TplBitProps
  imports TplBits
begin

text \<open>
  Bitfields that fill their storage word are a partition of its bits: one word is read for all of
  them, and their values put side by side are the word again, in either packing direction.
\<close>

subsection \<open>Computations\<close>

lemma and_then_simps [simp]:
  "and_then None k = None"
  "and_then (Some (Ok a, s)) k = k a s"
  "and_then (Some (Err e, s)) k = Some (Err e, s)"
  "and_then (Some (Panic, s)) k = Some (Panic, s)"
  by (simp_all add: and_then_def)

lemma comp_simps [simp]:
  "done_with a s = Some (Ok a, s)"
  "fail_with e s = Some (Err e, s)"
  "result_of r s = Some (r, s)"
  by (simp_all add: done_with_def fail_with_def result_of_def)

subsection \<open>Words\<close>

lemma num_of_bound: "num_of e bs < 2 ^ (8 * length bs)"
  using num_le_bound [of bs] num_le_bound [of "rev bs"] by (cases e) (simp_all add: num_of_def)

lemma decode_word:
  assumes "length bs = w" "w \<le> 8"
  shows "decode_prim_for_bitfield bs (p\<lparr>pk_width := w\<rparr>) e = num_of e bs"
  using assms
  by (cases e) (simp_all add: decode_prim_for_bitfield_def pad8_def num_of_def num_le_zeros)

subsection \<open>Fields of a word\<close>

text \<open>Reading one field after the other.\<close>

fun read_bitfields ::
  "'f env \<Rightarrow> type_ref \<Rightarrow> nat option \<Rightarrow> 'f attrs \<Rightarrow> (chars \<times> nat) list \<Rightarrow> ('f, unit) comp" where
  "read_bitfields E ty parent attrs [] s = done_with () s"
| "read_bitfields E ty parent attrs ((name, w) # fs) s =
     and_then (read_bitfield E name ty w parent attrs s) (\<lambda>_. read_bitfields E ty parent attrs fs)"

text \<open>Values of given widths side by side, the first one lowest or highest.\<close>

fun join_bits :: "bool \<Rightarrow> (nat \<times> nat) list \<Rightarrow> nat" where
  "join_bits low_first [] = 0"
| "join_bits low_first ((w, x) # rest) =
     (if low_first then x + 2 ^ w * join_bits low_first rest
      else x * 2 ^ sum_list (map fst rest) + join_bits low_first rest)"

definition slot_of :: "prim_kind \<Rightarrow> nat \<Rightarrow> nat \<Rightarrow> nat \<Rightarrow> bitfield_slot" where
  "slot_of p raw off c = \<lparr>bf_prim = p, bf_raw = raw, bf_offset = off, bf_consumed = c\<rparr>"

lemma bind_var_keeps [simp]:
  "st_slot (bind_var n v s) = st_slot s" "st_types (bind_var n v s) = st_types s"
  "st_pos (bind_var n v s) = st_pos s" "st_nodes (bind_var n v s) = st_nodes s"
  "st_right_to_left (bind_var n v s) = st_right_to_left s" "st_endian (bind_var n v s) = st_endian s"
  "st_padding_disabled (bind_var n v s) = st_padding_disabled s"
  by (auto simp: bind_var_def split: list.split)

lemma store_field_keeps [simp]:
  "st_slot (store_field n v s) = st_slot s" "st_types (store_field n v s) = st_types s"
  "st_pos (store_field n v s) = st_pos s" "st_nodes (store_field n v s) = st_nodes s"
  "st_right_to_left (store_field n v s) = st_right_to_left s" "st_endian (store_field n v s) = st_endian s"
  "st_padding_disabled (store_field n v s) = st_padding_disabled s"
  by (simp_all add: store_field_def next_struct_segment_def store_at_path_def Let_def)

lemma bitfield_prim_cong:
  assumes "st_types s' = st_types s"
  shows "bitfield_prim s' ty = bitfield_prim s ty"
proof -
  have "resolve_type s' = resolve_type s" by (intro ext) (simp add: resolve_type_def assms)
  then show ?thesis unfolding bitfield_prim_def by (rule arg_cong)
qed

text \<open>What every field of the word sees of the state.\<close>

definition in_word :: "prim_kind \<Rightarrow> type_ref \<Rightarrow> nat \<Rightarrow> nat \<Rightarrow> bool \<Rightarrow> nat \<Rightarrow> 'f istate \<Rightarrow> bool" where
  "in_word p ty raw off r c s \<longleftrightarrow>
     bitfield_prim s ty = Ok p \<and> st_slot s = Some (slot_of p raw off c) \<and>
     \<not> st_padding_disabled s \<and> st_right_to_left s = r"

text \<open>The bits of the field of width \<open>w\<close> at position \<open>c\<close> of a word of \<open>t\<close> bits.\<close>

definition field_bits :: "bool \<Rightarrow> nat \<Rightarrow> nat \<Rightarrow> nat \<Rightarrow> nat \<Rightarrow> nat" where
  "field_bits r t raw c w = raw div 2 ^ (if r then c else t - (c + w)) mod 2 ^ w"

lemma read_in_word:
  assumes s: "in_word p ty raw off r c s" and w: "0 < w" "c + w \<le> 8 * pk_width p" "pk_width p \<le> 8"
  shows "\<exists>s' node. read_bitfield E name ty w parent attrs s = Some (Ok (), s') \<and>
    in_word p ty raw off r (c + w) s' \<and> st_pos s' = st_pos s \<and> st_nodes s' = st_nodes s @ [node] \<and>
    no_name node = name \<and> no_offset node = off \<and>
    no_value node = Some (bitfield_value p w (field_bits r (8 * pk_width p) raw c w))"
proof -
  let ?t = "8 * pk_width p"
  have facts: "bitfield_prim s ty = Ok p" "st_slot s = Some (slot_of p raw off c)"
    "\<not> st_padding_disabled s" "st_right_to_left s = r"
    using s by (simp_all add: in_word_def)
  have "min w ?t = w" using w by simp
  moreover have "\<not> need_new_slot (Some (slot_of p raw off c)) p w ?t"
    using w by (simp add: need_new_slot_def slot_of_def)
  moreover have "extract_bits r ?t w (slot_of p raw off c) = field_bits r ?t raw c w"
  proof -
    have "(if r then c else ?t - (c + w)) < 64" using w by auto
    then show ?thesis by (cases r) (simp_all add: extract_bits_def field_bits_def slot_of_def)
  qed
  ultimately show ?thesis
    using facts by (simp add: read_bitfield_def slot_bytes_def Let_def in_word_def
        bitfield_prim_cong [of "store_field _ _ _" s] push_node_def slot_of_def)
qed

text \<open>The values of the fields from a position on.\<close>

fun fields_from :: "bool \<Rightarrow> nat \<Rightarrow> nat \<Rightarrow> nat \<Rightarrow> nat list \<Rightarrow> nat list" where
  "fields_from r t raw c [] = []"
| "fields_from r t raw c (w # ws) = field_bits r t raw c w # fields_from r t raw (c + w) ws"

lemma length_fields_from [simp]: "length (fields_from r t raw c ws) = length ws"
  by (induction ws arbitrary: c) simp_all

definition node_view :: "'f node_out \<Rightarrow> chars \<times> nat \<times> 'f tval option" where
  "node_view n = (no_name n, no_offset n, no_value n)"

definition field_view :: "prim_kind \<Rightarrow> nat \<Rightarrow> chars \<times> nat \<Rightarrow> nat \<Rightarrow> chars \<times> nat \<times> 'f tval option" where
  "field_view p off f x = (fst f, off, Some (bitfield_value p (snd f) x))"

lemma read_fields_in_word:
  assumes "in_word p ty raw off r c s" "\<forall>f \<in> set fs. 0 < snd f"
    and "c + sum_list (map snd fs) \<le> 8 * pk_width p" "pk_width p \<le> 8"
  shows "\<exists>s' ns. read_bitfields E ty parent attrs fs s = Some (Ok (), s') \<and> st_pos s' = st_pos s \<and>
    st_nodes s' = st_nodes s @ ns \<and>
    map node_view ns = map2 (field_view p off) fs (fields_from r (8 * pk_width p) raw c (map snd fs))"
  using assms
proof (induction fs arbitrary: c s)
  case Nil
  then show ?case by simp
next
  case (Cons f fs)
  obtain name w where f: "f = (name, w)" by (cases f)
  have w: "0 < w" "c + w \<le> 8 * pk_width p" using Cons.prems f by auto
  obtain s1 node where one: "read_bitfield E name ty w parent attrs s = Some (Ok (), s1)"
    "in_word p ty raw off r (c + w) s1" "st_pos s1 = st_pos s" "st_nodes s1 = st_nodes s @ [node]"
    "no_name node = name" "no_offset node = off"
    "no_value node = Some (bitfield_value p w (field_bits r (8 * pk_width p) raw c w))"
    using read_in_word [OF Cons.prems(1) w Cons.prems(4)] by metis
  have "c + w + sum_list (map snd fs) \<le> 8 * pk_width p" using Cons.prems f by simp
  then obtain s2 ns where "read_bitfields E ty parent attrs fs s1 = Some (Ok (), s2)"
    "st_pos s2 = st_pos s1" "st_nodes s2 = st_nodes s1 @ ns"
    "map node_view ns = map2 (field_view p off) fs (fields_from r (8 * pk_width p) raw (c + w) (map snd fs))"
    using Cons.IH [OF one(2)] Cons.prems by auto
  moreover have "node_view node = field_view p off f (field_bits r (8 * pk_width p) raw c w)"
    using one by (simp add: f node_view_def field_view_def)
  ultimately show ?case
    using one by (intro exI [of _ s2] exI [of _ "node # ns"]) (simp add: f)
qed

subsection \<open>The partition\<close>

lemma mod_split: "(x :: nat) mod 2 ^ (a + b) = (x div 2 ^ b mod 2 ^ a) * 2 ^ b + x mod 2 ^ b"
proof -
  have "x mod (2 ^ b * 2 ^ a) = 2 ^ b * (x div 2 ^ b mod 2 ^ a) + x mod 2 ^ b"
    by (rule mod_mult2_eq)
  then show ?thesis by (simp add: power_add mult.commute)
qed

lemma join_fields:
  assumes "c + sum_list ws = t" "raw < 2 ^ t"
  shows "join_bits r (zip ws (fields_from r t raw c ws)) =
    (if r then raw div 2 ^ c else raw mod 2 ^ (t - c))"
  using assms(1)
proof (induction ws arbitrary: c)
  case Nil
  then show ?case using assms(2) by simp
next
  case (Cons w ws)
  have sum: "sum_list (map fst (zip ws (fields_from r t raw (c + w) ws))) = sum_list ws" by simp
  have rest: "c + w + sum_list ws = t" using Cons.prems by simp
  show ?case
  proof (cases r)
    case True
    have "raw div 2 ^ c mod 2 ^ w + 2 ^ w * (raw div 2 ^ (c + w)) = raw div 2 ^ c"
      by (simp add: power_add div_mult2_eq)
    then show ?thesis using Cons.IH [OF rest] True by (simp add: field_bits_def)
  next
    case False
    have "t - c = w + sum_list ws" "t - (c + w) = sum_list ws" using rest by simp_all
    then show ?thesis
      using Cons.IH [OF rest] False mod_split [of raw w "sum_list ws"] sum by (simp add: field_bits_def)
  qed
qed

lemma open_first:
  assumes "bitfield_prim s ty = Ok p" "st_slot s = None" "\<not> st_padding_disabled s"
    and "ts_read (en_source E) (st_pos s) (pk_width p) = Ok bs" "length bs = pk_width p"
    and "0 < w" "w \<le> 8 * pk_width p" "pk_width p \<le> 8"
  shows "read_bitfield E name ty w parent attrs s =
    read_bitfield E name ty w parent attrs
      (s\<lparr>st_pos := st_pos s + pk_width p,
         st_slot := Some (slot_of p (num_of (st_endian s) bs) (st_pos s) 0)\<rparr>)"
proof -
  let ?s = "s\<lparr>st_pos := st_pos s + pk_width p,
    st_slot := Some (slot_of p (num_of (st_endian s) bs) (st_pos s) 0)\<rparr>"
  have "bitfield_prim ?s ty = Ok p" using assms(1) bitfield_prim_cong [of ?s s ty] by simp
  moreover have "min w (8 * pk_width p) = w" using assms(7) by simp
  moreover have "open_slot E p (pk_width p) s =
      Some (Ok (slot_of p (num_of (st_endian s) bs) (st_pos s) 0), s\<lparr>st_pos := st_pos s + pk_width p\<rparr>)"
    using assms(4) decode_word [OF assms(5,8), of p "st_endian s"]
    by (simp add: open_slot_def read_advance_def read_at_def source_result_def slot_of_def)
  moreover have "\<not> need_new_slot (Some (slot_of p raw off 0)) p w (8 * pk_width p)" for raw off
    using assms(7) by (simp add: need_new_slot_def slot_of_def)
  ultimately show ?thesis
    using assms(1,2,3) by (simp add: read_bitfield_def slot_bytes_def need_new_slot_def Let_def)
qed

text \<open>C30: Bitfields of one type whose widths fill its storage word take one word from the source
between them; each becomes a node at the word's offset, and their values put side by side are the
word as the byte order reads it, the first field highest, or lowest after
\<open>BitfieldRightToLeft()\<close>.\<close>

theorem bitfields_partition_word:
  assumes "bitfield_prim s ty = Ok p" "0 < pk_width p" "pk_width p \<le> 8"
    and "st_slot s = None" "\<not> st_padding_disabled s"
    and "ts_read (en_source E) (st_pos s) (pk_width p) = Ok bs" "length bs = pk_width p"
    and "\<forall>f \<in> set fs. 0 < snd f" "sum_list (map snd fs) = 8 * pk_width p"
  shows "\<exists>s' ns xs. read_bitfields E ty parent attrs fs s = Some (Ok (), s') \<and>
    st_pos s' = st_pos s + pk_width p \<and> st_nodes s' = st_nodes s @ ns \<and> length xs = length fs \<and>
    map node_view ns = map2 (field_view p (st_pos s)) fs xs \<and>
    join_bits (st_right_to_left s) (zip (map snd fs) xs) = num_of (st_endian s) bs"
proof -
  let ?raw = "num_of (st_endian s) bs" and ?r = "st_right_to_left s" and ?t = "8 * pk_width p"
  let ?s = "s\<lparr>st_pos := st_pos s + pk_width p, st_slot := Some (slot_of p ?raw (st_pos s) 0)\<rparr>"
  obtain name w gs where fs: "fs = (name, w) # gs" using assms(2,9) by (cases fs) auto
  have w: "0 < w" "w \<le> ?t" using assms(8,9) fs by auto
  have "read_bitfields E ty parent attrs fs s = read_bitfields E ty parent attrs fs ?s"
    using open_first [OF assms(1,4,5,6,7) w assms(3)] by (simp add: fs)
  moreover have "in_word p ty ?raw (st_pos s) ?r 0 ?s"
    using assms(1,5) bitfield_prim_cong [of ?s s ty] by (simp add: in_word_def)
  ultimately obtain s' ns where run: "read_bitfields E ty parent attrs fs s = Some (Ok (), s')"
    "st_pos s' = st_pos ?s" "st_nodes s' = st_nodes ?s @ ns"
    "map node_view ns = map2 (field_view p (st_pos s)) fs (fields_from ?r ?t ?raw 0 (map snd fs))"
    using read_fields_in_word [of p ty ?raw "st_pos s" ?r 0 ?s fs E parent attrs] assms(3,8,9) by auto
  have "?raw < 2 ^ ?t" using num_of_bound [of "st_endian s" bs] assms(7) by simp
  then have "join_bits ?r (zip (map snd fs) (fields_from ?r ?t ?raw 0 (map snd fs))) = ?raw"
    using join_fields [of 0 "map snd fs" ?t ?raw ?r] assms(9) by simp
  then show ?thesis
    using run by (intro exI [of _ s'] exI [of _ ns]
        exI [of _ "fields_from ?r ?t ?raw 0 (map snd fs)"]) simp
qed

text \<open>An environment to evaluate in: integers stand for the floating-point numbers.\<close>

definition int_host :: "int host" where
  "int_host =
     \<lparr>ho_add = (+), ho_sub = (-), ho_mul = (*), ho_div = (div), ho_rem = (mod), ho_pow = (\<lambda>x y. x ^ nat y),
      ho_neg = uminus, ho_sqrt = (\<lambda>x. x), ho_ceil = (\<lambda>x. x), ho_floor = (\<lambda>x. x), ho_round = (\<lambda>x. x),
      ho_eq = (=), ho_lt = (<), ho_le = (\<le>), ho_is_nan = (\<lambda>x. False), ho_of_int = (\<lambda>i. i),
      ho_to_i128 = (\<lambda>i. i), ho_of_bits32 = int, ho_of_bits64 = int, ho_show = show_int,
      ho_parse = (\<lambda>s. None), ho_alphabetic = is_ascii_alpha, ho_numeric = is_digit,
      ho_uppercase = (\<lambda>s. s), ho_lowercase = (\<lambda>s. s), ho_debug_value = (\<lambda>v. []),
      ho_debug_expr = (\<lambda>e. []), ho_debug_op = (\<lambda>op. [])\<rparr>"

definition plain_env :: "bytes \<Rightarrow> int env" where
  "plain_env bs =
     \<lparr>en_host = int_host, en_source = tpl_memory_source bs, en_expired = (\<lambda>n. False), en_stack = 100,
      en_type_values = (\<lambda>types. [])\<rparr>"

abbreviation no_span :: span where
  "no_span \<equiv> \<lparr>sp_start = 0, sp_end = 0\<rparr>"

abbreviation ty_named :: "string \<Rightarrow> type_ref" where
  "ty_named n \<equiv> \<lparr>tr_name = lit n, tr_span = no_span\<rparr>"

lemma resolve_primitive:
  assumes "st_types s (tr_name ty) = Some (TdPrimitive p)"
  shows "resolve_type s ty = Ok (TdPrimitive p)"
proof -
  have "resolve_name (Suc k) (st_types s) (tr_name ty) = Some (TdPrimitive p)" for k
    using assms by simp
  from this [of 31] show ?thesis by (simp add: resolve_type_def)
qed

lemma ushort_prim: "bitfield_prim (interpreter_new :: 'f istate) (ty_named ''ushort'') = Ok kind_u16"
proof -
  have "resolve_type (interpreter_new :: 'f istate) (ty_named ''ushort'') = Ok (TdPrimitive kind_u16)"
    by (rule resolve_primitive) (simp add: interpreter_new_def named_def primitive_table_def)
  then show ?thesis unfolding bitfield_prim_def by (simp only:) (simp add: int_prim_def)
qed

theorem bitfields_partition_word_witness:
  "\<exists>s' xs. read_bitfields (plain_env [0x31, 0xA7]) (ty_named ''ushort'') None []
      [(lit ''tag'', 4), (lit ''size'', 12)] interpreter_new = Some (Ok (), s') \<and>
    st_pos s' = 2 \<and> join_bits False (zip [4, 12] xs) = 0xA731 \<and> length xs = 2 \<and>
    map node_view (st_nodes s') = map2 (field_view kind_u16 0) [(lit ''tag'', 4), (lit ''size'', 12)] xs"
proof -
  let ?s = "interpreter_new :: int istate"
  define E where "E = plain_env [0x31, 0xA7]"
  define fs where "fs = [(lit ''tag'', 4), (lit ''size'', 12 :: nat)]"
  have st: "st_slot ?s = None" "st_pos ?s = 0" "st_endian ?s = LittleE"
    "st_right_to_left ?s = False" "\<not> st_padding_disabled ?s" "st_nodes ?s = []"
    by (simp_all add: interpreter_new_def)
  have rd: "ts_read (en_source E) (st_pos ?s) (pk_width kind_u16) = Ok [0x31, 0xA7]"
    by (simp add: E_def st plain_env_def tpl_memory_source_def tpl_memory_read_def sat_add64_small slice_res_def)
  have fs: "\<forall>f \<in> set fs. 0 < snd f" "sum_list (map snd fs) = 8 * pk_width kind_u16"
    "map snd fs = [4, 12]" "length fs = 2"
    by (simp_all add: fs_def)
  have w: "0 < pk_width kind_u16" "pk_width kind_u16 \<le> 8" "length [0x31, 0xA7 :: byte] = pk_width kind_u16"
    by simp_all
  obtain s' ns xs where run: "read_bitfields E (ty_named ''ushort'') None [] fs ?s = Some (Ok (), s')"
    "st_pos s' = 0 + pk_width kind_u16" "length xs = 2" "st_nodes s' = [] @ ns" "map node_view ns = map2 (field_view kind_u16 0) fs xs"
    "join_bits False (zip [4, 12] xs) = num_of LittleE [0x31, 0xA7]"
    using bitfields_partition_word [OF ushort_prim w(1,2) st(1,5) rd w(3) fs(1,2), of None "[]"]
    unfolding st fs(3,4) by blast
  have "num_of LittleE [0x31, 0xA7] = 0xA731" by (simp add: num_of_def num_le_Cons)
  then show ?thesis
    using run unfolding E_def fs_def by (intro exI [of _ s'] exI [of _ xs]) simp
qed

end
