(* ===== verification/TplRunProps.thy ===== *)
theory TplRunProps
  imports TplHalt TplBitProps
begin

text \<open>
  The step limit of the template interpreter ends every run.
\<close>

lemma register_functions_keeps [simp]: "later s (register_functions prog t) = later s t"
  by (induction prog t rule: register_functions.induct) simp_all

lemma exec_stmt_ends:
  assumes "within r s"
  shows "\<exists>N out t. later s t \<and> (\<forall>n\<ge>N. ip_stmt (interp E n) st p s = Some (out, t))"
proof -
  have "settles r (\<lambda>n. ip_stmt (interp E n) st p s) s"
    using calm_interp [of r E] by (intro tpl.moves_ends calm_stmtD) (simp add: calm_def)
  from tpl.endsE [OF this assms] show ?thesis unfolding settles_on_def by blast
qed

lemma run_items_end:
  assumes "within r s"
  shows "\<exists>N res. \<forall>n\<ge>N. run_items (interp E n) items s = Some res"
  using assms
proof (induction items arbitrary: s)
  case (Cons item items)
  show ?case
  proof (cases item)
    case (TopFunction f)
    then show ?thesis using Cons by simp
  next
    case (TopStmt st)
    obtain N out t where t: "later s t" and out: "\<forall>n\<ge>N. ip_stmt (interp E n) st None s = Some (out, t)"
      using exec_stmt_ends [OF Cons.prems] by blast
    obtain M res where rest: "\<forall>n\<ge>M. run_items (interp E n) items t = Some res"
      using Cons.IH [OF tpl.within_later [OF Cons.prems t]] by blast
    let ?outcome = "case out of
        Ok (FlowReturn v) \<Rightarrow> Ok (finish v None t)
      | Ok _ \<Rightarrow> res
      | Err e \<Rightarrow> Ok (finish None (Some e) (push_diagnostic SevError (show_runtime_error e) (st_pos t) t))
      | Panic \<Rightarrow> Panic"
    have "\<forall>n\<ge>max N M. run_items (interp E n) (item # items) s = Some ?outcome"
      using out rest by (auto simp: TopStmt split: res.split flow.split)
    then show ?thesis by blast
  qed
qed simp

text \<open>C31: Every run of a template ends: for every program, source and state whose step limit the
  64-bit counter of statements can pass, there is a fuel from which on the run has one and the same
  result. The recursion of functions and structs, loops that advance, and types that mention
  themselves are all cut off by the limit; expressions are finite.
\<close>

theorem template_run_ends:
  assumes "st_step_limit s < u64_max" "st_steps s \<le> u64_max"
  shows "\<exists>N res. \<forall>n\<ge>N. run E n prog s = Some res"
proof -
  have "within (remaining s) s" using assms by (simp add: within_iff)
  then have "within (remaining s) (register_functions prog s)"
    by (rule tpl.within_later) simp
  then show ?thesis unfolding run_def by (rule run_items_end)
qed

text \<open>A template that would skip through the file for ever.\<close>

definition no_end_program :: "'f program" where
  "no_end_program =
     [TopStmt (WhileStmt (IntLit 1 no_span)
        (ExprStmt (CallE (Ident (lit ''FSkip'') no_span) [IntLit 1 no_span] no_span) no_span) no_span)]"

theorem template_run_ends_witness:
  "\<exists>N res. \<forall>n\<ge>N. run (plain_env (replicate 16 0)) n no_end_program (with_step_limit 100 interpreter_new) = Some res"
  by (rule template_run_ends) (simp_all add: with_step_limit_def interpreter_new_def u64_max_def)

end
