(* ===== verification/Cursor.thy ===== *)
theory Cursor
  imports TplAst Outcome
begin

text \<open>
  What the parsers of the two template languages share: tokens with their places, errors, the cursor
  over a list of tokens (\<open>hxy-010-lang/src/parser.rs\<close>, and the same code in \<open>hxy-imhex-lang\<close>), the
  parts that consume a single token, and the loops. The kinds of tokens are a parameter.
\<close>

subsection \<open>Spans and tokens\<close>

definition span_new :: "nat \<Rightarrow> nat \<Rightarrow> span" where
  "span_new a b = \<lparr>sp_start = a, sp_end = b\<rparr>"

definition span_len :: "span \<Rightarrow> nat" where
  "span_len sp = wsub64 (sp_end sp) (sp_start sp)"

definition span_is_empty :: "span \<Rightarrow> bool" where
  "span_is_empty sp \<longleftrightarrow> sp_end sp = sp_start sp"

definition from_to :: "span \<Rightarrow> span \<Rightarrow> span" where
  "from_to a b = span_new (sp_start a) (sp_end b)"

record 'k tok =
  tk_kind :: "'k"
  tk_span :: span

text \<open>Tokens with empty spans, for texts that stand in no file.\<close>

definition no_span :: span where
  "no_span = span_new 0 0"

definition tokens_of :: "'k list \<Rightarrow> 'k tok list" where
  "tokens_of ks = map (\<lambda>k. \<lparr>tk_kind = k, tk_span = no_span\<rparr>) ks"

subsection \<open>Errors\<close>

text \<open>What an error reports as found: the token whose \<open>Debug\<close> form is printed, or a word.\<close>

datatype 'k source_found = FoundToken 'k | FoundWord string

datatype 'k syntax_error =
    UnexpectedEof string
  | Unexpected string "'k source_found" span
  | NotAnExpression "'k source_found" span

subsection \<open>The cursor\<close>

record 'k cursor =
  ps_tokens :: "'k tok list"
  ps_pos :: nat

type_synonym ('k, 'a) scan = "('k syntax_error, 'a, 'k cursor) program_step"

definition parser_new :: "'k tok list \<Rightarrow> 'k cursor" where
  "parser_new ts = \<lparr>ps_tokens = ts, ps_pos = 0\<rparr>"

definition at_eof :: "'k cursor \<Rightarrow> bool" where
  "at_eof s \<longleftrightarrow> length (ps_tokens s) \<le> ps_pos s"

definition token_at :: "nat \<Rightarrow> 'k cursor \<Rightarrow> 'k tok option" where
  "token_at i s = (if i < length (ps_tokens s) then Some (ps_tokens s ! i) else None)"

definition peek_at :: "nat \<Rightarrow> 'k cursor \<Rightarrow> 'k tok option" where
  "peek_at off s = token_at (ps_pos s + off) s"

definition peek :: "'k cursor \<Rightarrow> 'k tok option" where
  "peek s = token_at (ps_pos s) s"

definition kind_at :: "nat \<Rightarrow> 'k cursor \<Rightarrow> 'k option" where
  "kind_at off s = map_option tk_kind (peek_at off s)"

definition peek_kind :: "'k cursor \<Rightarrow> 'k option" where
  "peek_kind s = map_option tk_kind (peek s)"

definition bump :: "'k cursor \<Rightarrow> 'k tok option \<times> 'k cursor" where
  "bump s =
     (case peek s of
        None \<Rightarrow> (None, s)
      | Some t \<Rightarrow> (Some t, s\<lparr>ps_pos := ps_pos s + 1\<rparr>))"

text \<open>\<open>self.bump().unwrap()\<close>, and a \<open>bump\<close> whose result is dropped.\<close>

definition next_token :: "('k, 'k tok) scan" where
  "next_token s = (case bump s of (Some t, s) \<Rightarrow> done_with t s | (None, s) \<Rightarrow> result_of Panic s)"

definition skip_token :: "('k, unit) scan" where
  "skip_token s = done_with () (snd (bump s))"

text \<open>The span of the token before the cursor, of the first one when the cursor is at the start.\<close>

definition last_span :: "'k cursor \<Rightarrow> span" where
  "last_span s = (case token_at (ps_pos s - 1) s of Some t \<Rightarrow> tk_span t | None \<Rightarrow> span_new 0 0)"

definition expect_kind :: "'k \<Rightarrow> string \<Rightarrow> ('k, 'k tok) scan" where
  "expect_kind want msg s =
     (case peek s of
        Some t \<Rightarrow>
          if tk_kind t = want then next_token s
          else fail_with (Unexpected msg (FoundToken (tk_kind t)) (tk_span t)) s
      | None \<Rightarrow> fail_with (UnexpectedEof msg) s)"

definition eat_kind :: "'k \<Rightarrow> ('k, bool) scan" where
  "eat_kind want s =
     (if peek_kind s = Some want then done_with True (snd (bump s)) else done_with False s)"

subsection \<open>Loops over the tokens\<close>

text \<open>
  The two shapes of the parser's loops: items until a token that stops the loop, and items with
  separators between them, where \<open>early\<close> stops the loop after a separator. Each item consumes a token, so the
  tokens left bound the rounds.
\<close>

definition tokens_left :: "'k cursor \<Rightarrow> nat" where
  "tokens_left s = length (ps_tokens s) - ps_pos s"

text \<open>A token may be split into two, which is why two rounds are counted for each.\<close>

definition loop_fuel :: "'k cursor \<Rightarrow> nat" where
  "loop_fuel s = Suc (2 * tokens_left s)"

fun items_for :: "nat \<Rightarrow> ('k cursor \<Rightarrow> bool) \<Rightarrow> ('k, 'a) scan \<Rightarrow> ('k, 'a list) scan" where
  "items_for 0 stop p s = None"
| "items_for (Suc k) stop p s =
     (if stop s then done_with [] s
      else and_then (p s) (\<lambda>x s. and_then (items_for k stop p s) (\<lambda>xs s. done_with (x # xs) s)))"

definition items_until :: "('k cursor \<Rightarrow> bool) \<Rightarrow> ('k, 'a) scan \<Rightarrow> ('k, 'a list) scan" where
  "items_until stop p s = items_for (loop_fuel s) stop p s"

fun separated_for ::
  "nat \<Rightarrow> ('k, bool) scan \<Rightarrow> ('k cursor \<Rightarrow> bool) \<Rightarrow> ('k, 'a) scan \<Rightarrow> ('k, 'a list) scan" where
  "separated_for 0 sep early p s = None"
| "separated_for (Suc k) sep early p s =
     and_then (p s) (\<lambda>x s. and_then (sep s) (\<lambda>more s.
       if \<not> more \<or> early s then done_with [x] s
       else and_then (separated_for k sep early p s) (\<lambda>xs s. done_with (x # xs) s)))"

definition separated_list ::
  "('k, bool) scan \<Rightarrow> ('k cursor \<Rightarrow> bool) \<Rightarrow> ('k, 'a) scan \<Rightarrow> ('k, 'a list) scan" where
  "separated_list sep early p s = separated_for (loop_fuel s) sep early p s"

definition no_stop :: "'k cursor \<Rightarrow> bool" where
  "no_stop s = False"

text \<open>A part that is there when a token says so.\<close>

definition part_if :: "bool \<Rightarrow> ('k, 'a) scan \<Rightarrow> ('k, 'a option) scan" where
  "part_if b p s = (if b then and_then (p s) (\<lambda>x s. done_with (Some x) s) else done_with None s)"

text \<open>A value that is extended as long as there is a way to.\<close>

fun extend_by :: "nat \<Rightarrow> ('a \<Rightarrow> 'k cursor \<Rightarrow> ('k, 'a) scan option) \<Rightarrow> 'a \<Rightarrow> ('k, 'a) scan" where
  "extend_by 0 grow x s = None"
| "extend_by (Suc k) grow x s =
     (case grow x s of
        None \<Rightarrow> done_with x s
      | Some p \<Rightarrow> and_then (p s) (\<lambda>x s. extend_by k grow x s))"

end
