(* ===== verification/TplToken.thy ===== *)
theory TplToken
  imports TplValue Cursor
begin

text \<open>
  \<open>hxy-010-lang/src/token.rs\<close>: the tokens of a template and its reserved words; and what \<open>parser.rs\<close>
  asks of the tokens ahead.
\<close>

subsection \<open>Spans and tokens\<close>

definition show_span :: "span \<Rightarrow> chars" where
  "show_span sp = show_nat (sp_start sp) @ lit ''..'' @ show_nat (sp_end sp)"

datatype (plugins only: code size) keyword =
    KwTypedef | KwStruct | KwEnum | KwUnion | KwIf | KwElse | KwWhile | KwFor | KwDo | KwSwitch
  | KwCase | KwDefault | KwBreak | KwContinue | KwReturn | KwLocal | KwConst | KwVoid | KwSizeof
  | KwTrue | KwFalse

definition keyword_spellings :: "(string \<times> keyword) list" where
  "keyword_spellings =
     [(''typedef'', KwTypedef), (''struct'', KwStruct), (''enum'', KwEnum), (''union'', KwUnion),
      (''if'', KwIf), (''else'', KwElse), (''while'', KwWhile), (''for'', KwFor), (''do'', KwDo),
      (''switch'', KwSwitch), (''case'', KwCase), (''default'', KwDefault), (''break'', KwBreak),
      (''continue'', KwContinue), (''return'', KwReturn), (''local'', KwLocal), (''const'', KwConst),
      (''void'', KwVoid), (''sizeof'', KwSizeof), (''true'', KwTrue), (''false'', KwFalse)]"

definition keyword_lookup :: "chars \<Rightarrow> keyword option" where
  "keyword_lookup s = map_of (map (\<lambda>(n, k). (lit n, k)) keyword_spellings) s"

datatype (plugins only: code size) 'f token_kind =
    TkInt nat | TkFloat "'f float_lit" | TkString chars | TkChar code_point
  | TkIdent chars | TkKeyword keyword
  | TkLParen | TkRParen | TkLBrace | TkRBrace | TkLBracket | TkRBracket
  | TkSemi | TkComma | TkDot | TkColon | TkQuestion | TkArrow
  | TkPlus | TkMinus | TkStar | TkSlash | TkPercent | TkPlusPlus | TkMinusMinus | TkTilde | TkBang
  | TkAmp | TkPipe | TkCaret | TkShl | TkShr
  | TkEqEq | TkNotEq | TkLt | TkGt | TkLtEq | TkGtEq | TkAmpAmp | TkPipePipe
  | TkEq | TkPlusEq | TkMinusEq | TkStarEq | TkSlashEq | TkPercentEq | TkAmpEq | TkPipeEq
  | TkCaretEq | TkShlEq | TkShrEq

type_synonym 'f token = "'f token_kind tok"
type_synonym 'f found = "'f token_kind source_found"
type_synonym 'f parse_error = "'f token_kind syntax_error"
type_synonym 'f parser = "'f token_kind cursor"
type_synonym ('f, 'a) parsing = "('f token_kind, 'a) scan"

definition is_ident :: "'f token_kind option \<Rightarrow> bool" where
  "is_ident k \<longleftrightarrow> (case k of Some (TkIdent n) \<Rightarrow> True | _ \<Rightarrow> False)"

definition expect_ident :: "('f, chars \<times> span) parsing" where
  "expect_ident s =
     (case peek s of
        Some t \<Rightarrow>
          (case tk_kind t of
             TkIdent name \<Rightarrow> and_then (next_token s) (\<lambda>tok s. done_with (name, tk_span tok) s)
           | k \<Rightarrow> fail_with (Unexpected ''identifier'' (FoundToken k) (tk_span t)) s)
      | None \<Rightarrow> fail_with (UnexpectedEof ''identifier'') s)"

definition eat_keyword :: "keyword \<Rightarrow> ('f, bool) parsing" where
  "eat_keyword kw s = eat_kind (TkKeyword kw) s"

definition comma_list :: "('f parser \<Rightarrow> bool) \<Rightarrow> ('f, 'a) parsing \<Rightarrow> ('f, 'a list) parsing" where
  "comma_list early p s = separated_list (eat_kind TkComma) early p s"

subsection \<open>Lookahead\<close>

text \<open>
  \<open>detect_cast_type\<close>: after an open parenthesis, the number of tokens of a type name that a closing
  parenthesis and the start of an expression follow.
\<close>

definition starts_expr :: "'f token_kind \<Rightarrow> bool" where
  "starts_expr k \<longleftrightarrow>
     (case k of
        TkIdent n \<Rightarrow> True | TkInt n \<Rightarrow> True | TkFloat x \<Rightarrow> True | TkString t \<Rightarrow> True | TkChar c \<Rightarrow> True
      | TkLParen \<Rightarrow> True | TkMinus \<Rightarrow> True | TkPlus \<Rightarrow> True | TkBang \<Rightarrow> True | TkTilde \<Rightarrow> True
      | TkPlusPlus \<Rightarrow> True | TkMinusMinus \<Rightarrow> True
      | TkKeyword kw \<Rightarrow> kw \<in> {KwTrue, KwFalse, KwSizeof}
      | _ \<Rightarrow> False)"

definition is_sign_word :: "'f token_kind option \<Rightarrow> bool" where
  "is_sign_word k \<longleftrightarrow> k = Some (TkIdent (lit ''unsigned'')) \<or> k = Some (TkIdent (lit ''signed''))"

definition detect_cast_type :: "'f parser \<Rightarrow> nat option" where
  "detect_cast_type s =
     (if \<not> is_ident (kind_at 0 s) then None
      else let skip = (if is_sign_word (kind_at 0 s) \<and> is_ident (kind_at 1 s) then 2 else 1)
           in if kind_at skip s \<noteq> Some TkRParen then None
              else case kind_at (skip + 1) s of
                     Some k \<Rightarrow> if starts_expr k then Some skip else None
                   | None \<Rightarrow> None)"

text \<open>The walk to the closing parenthesis: the depth that is left, and the offset after the walk.\<close>

fun paren_walk :: "nat \<Rightarrow> nat \<Rightarrow> 'f token list \<Rightarrow> nat \<times> nat" where
  "paren_walk depth idx [] = (depth, idx)"
| "paren_walk depth idx (t # ts) =
     (if tk_kind t = TkLParen then paren_walk (depth + 1) (idx + 1) ts
      else if tk_kind t = TkRParen then
        (if depth - 1 = 0 then (depth - 1, idx + 1) else paren_walk (depth - 1) (idx + 1) ts)
      else paren_walk depth (idx + 1) ts)"

definition first_arg_looks_like_param :: "'f parser \<Rightarrow> bool" where
  "first_arg_looks_like_param s =
     (let i = 3;
          i = (if kind_at i s \<in> {Some (TkKeyword KwLocal), Some (TkKeyword KwConst)} then i + 1 else i);
          i = (if kind_at i s \<in> {Some (TkKeyword KwStruct), Some (TkKeyword KwUnion), Some (TkKeyword KwEnum)}
               then i + 1 else i);
          i = (if is_sign_word (kind_at i s) then i + 1 else i)
      in if \<not> is_ident (kind_at i s) then False
         else let i = i + 1; i = (if kind_at i s = Some TkAmp then i + 1 else i)
              in if \<not> is_ident (kind_at i s) then False
                 else kind_at (i + 1) s \<in> {Some TkComma, Some TkRParen})"

definition looks_like_function_def :: "'f parser \<Rightarrow> bool" where
  "looks_like_function_def s =
     (if \<not> (is_ident (peek_kind s) \<or> peek_kind s = Some (TkKeyword KwVoid)) then False
      else if \<not> is_ident (kind_at 1 s) then False
      else if kind_at 2 s \<noteq> Some TkLParen then False
      else let (depth, idx) = paren_walk 1 3 (drop (ps_pos s + 3) (ps_tokens s))
           in if depth \<noteq> 0 then False
              else let is_def_body = (kind_at idx s = Some TkLBrace);
                       is_void_return = (kind_at 0 s = Some (TkKeyword KwVoid));
                       is_proto = (kind_at idx s = Some TkSemi \<and>
                                   (is_void_return \<or> first_arg_looks_like_param s))
                   in is_def_body \<or> is_proto)"

text \<open>The scan over \<open><backing>\<close>: the offset after the \<open>>\<close>, or after the last token; none when it is long.\<close>

fun scan_backing :: "nat \<Rightarrow> 'f token list \<Rightarrow> nat option" where
  "scan_backing off [] = Some off"
| "scan_backing off (t # ts) =
     (if tk_kind t = TkGt then Some (off + 1)
      else if off + 1 > 8 then None
      else scan_backing (off + 1) ts)"

definition is_enum_type_decl_start :: "'f parser \<Rightarrow> bool" where
  "is_enum_type_decl_start s =
     (case if kind_at 1 s = Some TkLt then scan_backing 2 (drop (ps_pos s + 2) (ps_tokens s)) else Some 1 of
        None \<Rightarrow> False
      | Some off \<Rightarrow>
          (let off = (if is_ident (kind_at off s) then off + 1 else off)
           in kind_at off s = Some TkLBrace))"

definition looks_like_field_decl :: "'f parser \<Rightarrow> bool" where
  "looks_like_field_decl s \<longleftrightarrow>
     (is_ident (peek_kind s) \<or> peek_kind s \<in> {Some (TkKeyword KwStruct), Some (TkKeyword KwEnum)}) \<and>
     (is_ident (kind_at 1 s) \<or> kind_at 1 s = Some TkColon)"

end
