(* ===== verification/TplParseExpr.thy ===== *)
theory TplParseExpr
  imports TplToken
begin

text \<open>
  The expressions of \<open>hxy-010-lang/src/parser.rs\<close>: the binding powers, the prefix forms, and the loop
  that extends an expression to the right. The recursion goes through a record of the two parsers
  it ties, for expressions of a minimum binding power and for statements.
\<close>

record 'f parsers =
  pr_expr :: "nat \<Rightarrow> ('f, 'f expr) parsing"
  pr_stmt :: "('f, 'f stmt) parsing"

subsection \<open>Binding powers\<close>

definition prefix_bp :: nat where "prefix_bp = 30"
definition attr_value_bp :: nat where "attr_value_bp = 40"
definition bitfield_bp :: nat where "bitfield_bp = 17"

definition infix_binding_power :: "'f token_kind \<Rightarrow> (nat \<times> nat \<times> bin_op) option" where
  "infix_binding_power k =
     (case k of
        TkPipePipe \<Rightarrow> Some (3, 4, OpLogicalOr)
      | TkAmpAmp \<Rightarrow> Some (5, 6, OpLogicalAnd)
      | TkPipe \<Rightarrow> Some (7, 8, OpBitOr)
      | TkCaret \<Rightarrow> Some (9, 10, OpBitXor)
      | TkAmp \<Rightarrow> Some (11, 12, OpBitAnd)
      | TkEqEq \<Rightarrow> Some (13, 14, OpEq)
      | TkNotEq \<Rightarrow> Some (13, 14, OpNotEq)
      | TkLt \<Rightarrow> Some (15, 16, OpLt)
      | TkGt \<Rightarrow> Some (15, 16, OpGt)
      | TkLtEq \<Rightarrow> Some (15, 16, OpLtEq)
      | TkGtEq \<Rightarrow> Some (15, 16, OpGtEq)
      | TkShl \<Rightarrow> Some (17, 18, OpShl)
      | TkShr \<Rightarrow> Some (17, 18, OpShr)
      | TkPlus \<Rightarrow> Some (19, 20, OpAdd)
      | TkMinus \<Rightarrow> Some (19, 20, OpSub)
      | TkStar \<Rightarrow> Some (21, 22, OpMul)
      | TkSlash \<Rightarrow> Some (21, 22, OpDiv)
      | TkPercent \<Rightarrow> Some (21, 22, OpRem)
      | _ \<Rightarrow> None)"

definition assign_token :: "'f token_kind \<Rightarrow> assign_op option" where
  "assign_token k =
     (case k of
        TkEq \<Rightarrow> Some AssignOp
      | TkPlusEq \<Rightarrow> Some AddAssign
      | TkMinusEq \<Rightarrow> Some SubAssign
      | TkStarEq \<Rightarrow> Some MulAssign
      | TkSlashEq \<Rightarrow> Some DivAssign
      | TkPercentEq \<Rightarrow> Some RemAssign
      | TkAmpEq \<Rightarrow> Some AndAssign
      | TkPipeEq \<Rightarrow> Some OrAssign
      | TkCaretEq \<Rightarrow> Some XorAssign
      | TkShlEq \<Rightarrow> Some ShlAssign
      | TkShrEq \<Rightarrow> Some ShrAssign
      | _ \<Rightarrow> None)"

fun with_span :: "'f expr \<Rightarrow> span \<Rightarrow> 'f expr" where
  "with_span (IntLit v _) sp = IntLit v sp"
| "with_span (FloatLit v _) sp = FloatLit v sp"
| "with_span (StringLit v _) sp = StringLit v sp"
| "with_span (CharLit v _) sp = CharLit v sp"
| "with_span (Ident n _) sp = Ident n sp"
| "with_span (BinaryE b l r _) sp = BinaryE b l r sp"
| "with_span (UnaryE u e _) sp = UnaryE u e sp"
| "with_span (CallE c as _) sp = CallE c as sp"
| "with_span (IndexE t i _) sp = IndexE t i sp"
| "with_span (MemberE t f _) sp = MemberE t f sp"
| "with_span (AssignE a t v _) sp = AssignE a t v sp"
| "with_span (TernaryE c t e _) sp = TernaryE c t e sp"

subsection \<open>Prefix forms\<close>

definition at_rbrace :: "'f parser \<Rightarrow> bool" where
  "at_rbrace s \<longleftrightarrow> peek_kind s = Some TkRBrace"

definition call_args :: "'f parsers \<Rightarrow> ('f, 'f expr list) parsing" where
  "call_args Y s =
     (if peek_kind s = Some TkRParen then done_with [] s else comma_list no_stop (pr_expr Y 1) s)"

definition prefix_operand :: "'f parsers \<Rightarrow> unary_op \<Rightarrow> 'f token \<Rightarrow> ('f, 'f expr) parsing" where
  "prefix_operand Y oper tok s =
     and_then (pr_expr Y prefix_bp s) (\<lambda>e s.
       done_with (UnaryE oper e (from_to (tk_span tok) (expr_span e))) s)"

text \<open>An optional tag keyword, of which at most one is eaten.\<close>

definition eat_tag :: "('f, bool) parsing" where
  "eat_tag s =
     and_then (eat_keyword KwStruct s) (\<lambda>a s. if a then done_with True s else
     and_then (eat_keyword KwUnion s) (\<lambda>b s. if b then done_with True s else eat_keyword KwEnum s))"

definition sizeof_rest :: "'f parsers \<Rightarrow> 'f token \<Rightarrow> ('f, 'f expr) parsing" where
  "sizeof_rest Y tok s =
     and_then (expect_kind TkLParen ''('' s) (\<lambda>_ s.
     and_then (eat_tag s) (\<lambda>_ s.
     and_then (pr_expr Y 0 s) (\<lambda>inner s.
     and_then (expect_kind TkRParen '')'' s) (\<lambda>close s.
       done_with (CallE (Ident (lit ''sizeof'') (tk_span tok)) [inner] (from_to (tk_span tok) (tk_span close))) s))))"

definition brace_list_rest :: "'f parsers \<Rightarrow> 'f token \<Rightarrow> ('f, 'f expr) parsing" where
  "brace_list_rest Y tok s =
     and_then (if at_rbrace s then done_with [] s else comma_list at_rbrace (pr_expr Y 1) s) (\<lambda>es s.
     and_then (expect_kind TkRBrace ''}'' s) (\<lambda>close s.
       let sp = from_to (tk_span tok) (tk_span close)
       in done_with (case es of [] \<Rightarrow> IntLit 0 sp | e # _ \<Rightarrow> with_span e sp) s))"

text \<open>A cast, whose type is dropped, or an expression in parentheses.\<close>

fun skip_tokens :: "nat \<Rightarrow> ('f, unit) parsing" where
  "skip_tokens 0 s = done_with () s"
| "skip_tokens (Suc k) s = and_then (skip_token s) (\<lambda>_ s. skip_tokens k s)"

definition paren_rest :: "'f parsers \<Rightarrow> 'f token \<Rightarrow> ('f, 'f expr) parsing" where
  "paren_rest Y tok s =
     (case detect_cast_type s of
        Some skip \<Rightarrow>
          and_then (skip_tokens skip s) (\<lambda>_ s.
          and_then (expect_kind TkRParen '')'' s) (\<lambda>_ s.
          and_then (pr_expr Y prefix_bp s) (\<lambda>target s.
            done_with (with_span target (from_to (tk_span tok) (expr_span target))) s)))
      | None \<Rightarrow>
          and_then (pr_expr Y 0 s) (\<lambda>inner s.
          and_then (expect_kind TkRParen '')'' s) (\<lambda>close s.
            done_with (with_span inner (from_to (tk_span tok) (tk_span close))) s)))"

definition prefix_rest :: "'f parsers \<Rightarrow> 'f token \<Rightarrow> ('f, 'f expr) parsing" where
  "prefix_rest Y tok s =
     (case tk_kind tok of
        TkInt v \<Rightarrow> done_with (IntLit v (tk_span tok)) s
      | TkFloat v \<Rightarrow> done_with (FloatLit v (tk_span tok)) s
      | TkString v \<Rightarrow> done_with (StringLit v (tk_span tok)) s
      | TkChar c \<Rightarrow> done_with (CharLit c (tk_span tok)) s
      | TkIdent name \<Rightarrow> done_with (Ident name (tk_span tok)) s
      | TkKeyword kw \<Rightarrow>
          if kw = KwTrue then done_with (IntLit 1 (tk_span tok)) s
          else if kw = KwFalse then done_with (IntLit 0 (tk_span tok)) s
          else sizeof_rest Y tok s
      | TkLBrace \<Rightarrow> brace_list_rest Y tok s
      | TkLParen \<Rightarrow> paren_rest Y tok s
      | TkMinus \<Rightarrow> prefix_operand Y OpNeg tok s
      | TkPlus \<Rightarrow> prefix_operand Y OpPos tok s
      | TkBang \<Rightarrow> prefix_operand Y OpNot tok s
      | TkTilde \<Rightarrow> prefix_operand Y OpBitNot tok s
      | TkPlusPlus \<Rightarrow> prefix_operand Y OpPreInc tok s
      | TkMinusMinus \<Rightarrow> prefix_operand Y OpPreDec tok s
      | _ \<Rightarrow> result_of Panic s)"

definition starts_prefix :: "'f token_kind \<Rightarrow> bool" where
  "starts_prefix k \<longleftrightarrow> starts_expr k \<or> k = TkLBrace"

definition parse_prefix :: "'f parsers \<Rightarrow> ('f, 'f expr) parsing" where
  "parse_prefix Y s =
     (case peek s of
        None \<Rightarrow> fail_with (UnexpectedEof ''expression'') s
      | Some t \<Rightarrow>
          if starts_prefix (tk_kind t)
          then and_then (skip_token s) (\<lambda>_ s. prefix_rest Y t s)
          else fail_with (NotAnExpression (FoundToken (tk_kind t)) (tk_span t)) s)"

subsection \<open>Extending an expression\<close>

text \<open>
  What the token after an expression makes of it: nothing, when the token is no operator or binds
  less than the minimum, or the part that follows, which begins with the token itself.
\<close>

definition postfix_inc :: "unary_op \<Rightarrow> 'f expr \<Rightarrow> ('f, 'f expr) parsing" where
  "postfix_inc oper lhs s =
     and_then (next_token s) (\<lambda>t s. done_with (UnaryE oper lhs (from_to (expr_span lhs) (tk_span t))) s)"

definition call_suffix :: "'f parsers \<Rightarrow> 'f expr \<Rightarrow> ('f, 'f expr) parsing" where
  "call_suffix Y lhs s =
     and_then (next_token s) (\<lambda>_ s.
     and_then (call_args Y s) (\<lambda>args s.
     and_then (expect_kind TkRParen '')'' s) (\<lambda>close s.
       done_with (CallE lhs args (from_to (expr_span lhs) (tk_span close))) s)))"

definition index_suffix_of :: "'f parsers \<Rightarrow> 'f expr \<Rightarrow> ('f, 'f expr) parsing" where
  "index_suffix_of Y lhs s =
     and_then (next_token s) (\<lambda>_ s.
     and_then (pr_expr Y 0 s) (\<lambda>i s.
     and_then (expect_kind TkRBracket '']'' s) (\<lambda>close s.
       done_with (IndexE lhs i (from_to (expr_span lhs) (tk_span close))) s)))"

definition member_suffix :: "'f expr \<Rightarrow> ('f, 'f expr) parsing" where
  "member_suffix lhs s =
     and_then (next_token s) (\<lambda>_ s.
     and_then (expect_ident s) (\<lambda>(field, fspan) s.
       done_with (MemberE lhs field (from_to (expr_span lhs) fspan)) s))"

definition infix_suffix :: "'f parsers \<Rightarrow> nat \<Rightarrow> bin_op \<Rightarrow> 'f expr \<Rightarrow> ('f, 'f expr) parsing" where
  "infix_suffix Y r_bp oper lhs s =
     and_then (next_token s) (\<lambda>_ s.
     and_then (pr_expr Y r_bp s) (\<lambda>rhs s.
       done_with (BinaryE oper lhs rhs (from_to (expr_span lhs) (expr_span rhs))) s))"

definition question_bp :: nat where "question_bp = 5"
definition assign_bp :: nat where "assign_bp = 2"

definition ternary_suffix :: "'f parsers \<Rightarrow> 'f expr \<Rightarrow> ('f, 'f expr) parsing" where
  "ternary_suffix Y lhs s =
     and_then (next_token s) (\<lambda>_ s.
     and_then (pr_expr Y 0 s) (\<lambda>t s.
     and_then (expect_kind TkColon '':'' s) (\<lambda>_ s.
     and_then (pr_expr Y question_bp s) (\<lambda>e s.
       done_with (TernaryE lhs t e (from_to (expr_span lhs) (expr_span e))) s))))"

definition assign_suffix :: "'f parsers \<Rightarrow> assign_op \<Rightarrow> 'f expr \<Rightarrow> ('f, 'f expr) parsing" where
  "assign_suffix Y oper lhs s =
     and_then (next_token s) (\<lambda>_ s.
     and_then (pr_expr Y assign_bp s) (\<lambda>rhs s.
       done_with (AssignE oper lhs rhs (from_to (expr_span lhs) (expr_span rhs))) s))"

definition suffix_of :: "'f parsers \<Rightarrow> nat \<Rightarrow> 'f token_kind \<Rightarrow> 'f expr \<Rightarrow> ('f, 'f expr) parsing option" where
  "suffix_of Y min_bp k lhs =
     (if k = TkLParen then Some (call_suffix Y lhs)
      else if k = TkLBracket then Some (index_suffix_of Y lhs)
      else if k = TkDot then Some (member_suffix lhs)
      else if k = TkPlusPlus then Some (postfix_inc OpPostInc lhs)
      else if k = TkMinusMinus then Some (postfix_inc OpPostDec lhs)
      else case infix_binding_power k of
        Some (l_bp, r_bp, oper) \<Rightarrow> if l_bp < min_bp then None else Some (infix_suffix Y r_bp oper lhs)
      | None \<Rightarrow>
          if k = TkQuestion then (if question_bp < min_bp then None else Some (ternary_suffix Y lhs))
          else case assign_token k of
            Some oper \<Rightarrow> if assign_bp < min_bp then None else Some (assign_suffix Y oper lhs)
          | None \<Rightarrow> None)"

fun extend_for :: "nat \<Rightarrow> 'f parsers \<Rightarrow> nat \<Rightarrow> 'f expr \<Rightarrow> ('f, 'f expr) parsing" where
  "extend_for 0 Y min_bp lhs s = None"
| "extend_for (Suc k) Y min_bp lhs s =
     (case peek s of
        None \<Rightarrow> done_with lhs s
      | Some tok \<Rightarrow>
          (case suffix_of Y min_bp (tk_kind tok) lhs of
             None \<Rightarrow> done_with lhs s
           | Some suffix \<Rightarrow> and_then (suffix s) (\<lambda>lhs s. extend_for k Y min_bp lhs s)))"

definition extend_expr :: "'f parsers \<Rightarrow> nat \<Rightarrow> 'f expr \<Rightarrow> ('f, 'f expr) parsing" where
  "extend_expr Y min_bp lhs s = extend_for (Suc (tokens_left s)) Y min_bp lhs s"

definition parse_expr_bp :: "'f parsers \<Rightarrow> nat \<Rightarrow> ('f, 'f expr) parsing" where
  "parse_expr_bp Y min_bp s =
     and_then (parse_prefix Y s) (\<lambda>lhs s. extend_expr Y min_bp lhs s)"

end
