(* ===== verification/TplParseStmt.thy ===== *)
theory TplParseStmt
  imports TplParseExpr
begin

text \<open>
  The declarations and statements of \<open>hxy-010-lang/src/parser.rs\<close>, and the parser of a program.
\<close>

subsection \<open>Types, array sizes and attributes\<close>

definition signed_names :: "(string \<times> string) list" where
  "signed_names =
     [(''char'', ''char''), (''uchar'', ''char''), (''byte'', ''byte''), (''ubyte'', ''byte''),
      (''short'', ''int16''), (''int16'', ''int16''),
      (''ushort'', ''int16''), (''uint16'', ''int16''), (''WORD'', ''int16''),
      (''int'', ''int32''), (''int32'', ''int32''), (''long'', ''int32''), (''LONG'', ''int32''),
      (''uint'', ''int32''), (''uint32'', ''int32''), (''ulong'', ''int32''), (''ULONG'', ''int32''),
      (''DWORD'', ''int32''),
      (''int64'', ''int64''), (''QUAD'', ''int64''), (''__int64'', ''int64''),
      (''uint64'', ''int64''), (''UQUAD'', ''int64''), (''ULONG64'', ''int64''), (''QWORD'', ''int64'')]"

definition unsigned_names :: "(string \<times> string) list" where
  "unsigned_names =
     [(''char'', ''uchar''), (''uchar'', ''uchar''), (''byte'', ''ubyte''), (''ubyte'', ''ubyte''),
      (''short'', ''uint16''), (''int16'', ''uint16''),
      (''ushort'', ''uint16''), (''uint16'', ''uint16''), (''WORD'', ''uint16''),
      (''int'', ''uint32''), (''int32'', ''uint32''), (''long'', ''uint32''), (''LONG'', ''uint32''),
      (''uint'', ''uint32''), (''uint32'', ''uint32''), (''ulong'', ''uint32''), (''ULONG'', ''uint32''),
      (''DWORD'', ''uint32''),
      (''int64'', ''uint64''), (''QUAD'', ''uint64''), (''__int64'', ''uint64''),
      (''uint64'', ''uint64''), (''UQUAD'', ''uint64''), (''ULONG64'', ''uint64''), (''QWORD'', ''uint64'')]"

definition rename_signedness :: "chars \<Rightarrow> bool \<Rightarrow> chars" where
  "rename_signedness name as_signed =
     (case map_of (map (\<lambda>(a, b). (lit a, lit b)) (if as_signed then signed_names else unsigned_names)) name of
        Some target \<Rightarrow> target
      | None \<Rightarrow> name)"

definition type_ref_of :: "chars \<Rightarrow> span \<Rightarrow> type_ref" where
  "type_ref_of name sp = \<lparr>tr_name = name, tr_span = sp\<rparr>"

text \<open>The index \<open>self.tokens[self.pos - 1]\<close> panics when there is no such token.\<close>

definition void_type :: "('f, type_ref) parsing" where
  "void_type s =
     (case token_at (ps_pos s - 1) s of
        Some t \<Rightarrow> done_with (type_ref_of (lit ''void'') (tk_span t)) s
      | None \<Rightarrow> result_of Panic s)"

definition sign_override :: "'f parser \<Rightarrow> bool option" where
  "sign_override s =
     (if is_sign_word (peek_kind s) \<and> is_ident (kind_at 1 s)
      then Some (peek_kind s = Some (TkIdent (lit ''signed''))) else None)"

definition tagged_type_ahead :: "'f parser \<Rightarrow> bool" where
  "tagged_type_ahead s \<longleftrightarrow>
     peek_kind s \<in> {Some (TkKeyword KwStruct), Some (TkKeyword KwUnion)} \<and> is_ident (kind_at 1 s)"

definition named_type :: "bool option \<Rightarrow> ('f, type_ref) parsing" where
  "named_type sign s =
     (if tagged_type_ahead s
      then and_then (skip_token s) (\<lambda>_ s.
           and_then (expect_ident s) (\<lambda>(name, sp) s. done_with (type_ref_of name sp) s))
      else and_then (expect_ident s) (\<lambda>(name, sp) s.
             done_with (type_ref_of
               (case sign of Some b \<Rightarrow> rename_signedness name b | None \<Rightarrow> name) sp) s))"

definition signed_type :: "('f, type_ref) parsing" where
  "signed_type s =
     (case sign_override s of
        Some b \<Rightarrow> and_then (skip_token s) (\<lambda>_ s. named_type (Some b) s)
      | None \<Rightarrow> named_type None s)"

definition parse_type_ref :: "('f, type_ref) parsing" where
  "parse_type_ref s =
     and_then (eat_keyword KwVoid s) (\<lambda>void s. if void then void_type s else signed_type s)"

text \<open>\<open>[expr]\<close> after a name, when a bracket follows.\<close>

definition bracketed_expr :: "'f parsers \<Rightarrow> ('f, 'f expr option) parsing" where
  "bracketed_expr Y s =
     and_then (eat_kind TkLBracket s) (\<lambda>b s.
       if b then and_then (pr_expr Y 0 s) (\<lambda>e s.
                 and_then (expect_kind TkRBracket '']'' s) (\<lambda>_ s. done_with (Some e) s))
       else done_with None s)"

definition parse_optional_array_dim :: "'f parsers \<Rightarrow> ('f, 'f expr option) parsing" where
  "parse_optional_array_dim Y s =
     and_then (eat_kind TkLBracket s) (\<lambda>b s.
       if \<not> b then done_with None s
       else if peek_kind s = Some TkRBracket
       then and_then (next_token s) (\<lambda>close s. done_with (Some (IntLit 0 (tk_span close))) s)
       else and_then (pr_expr Y 0 s) (\<lambda>e s.
            and_then (expect_kind TkRBracket '']'' s) (\<lambda>_ s. done_with (Some e) s)))"

definition parse_attr :: "'f parsers \<Rightarrow> ('f, 'f attr) parsing" where
  "parse_attr Y s =
     and_then (expect_ident s) (\<lambda>(key, key_span) s.
     and_then (expect_kind TkEq ''='' s) (\<lambda>_ s.
     and_then (pr_expr Y attr_value_bp s) (\<lambda>value s.
       done_with \<lparr>at_key = key, at_value = value, at_span = from_to key_span (expr_span value)\<rparr> s)))"

definition parse_optional_attrs :: "'f parsers \<Rightarrow> ('f, 'f attrs) parsing" where
  "parse_optional_attrs Y s =
     and_then (eat_kind TkLt s) (\<lambda>b s.
       if \<not> b then done_with [] s
       else and_then (if peek_kind s = Some TkGt then done_with [] s
                      else comma_list no_stop (parse_attr Y) s) (\<lambda>attrs s.
            and_then (expect_kind TkGt ''>'' s) (\<lambda>_ s. done_with attrs s)))"

subsection \<open>Parameters and blocks\<close>

definition eat_qualifier :: "('f, bool) parsing" where
  "eat_qualifier s =
     and_then (eat_keyword KwLocal s) (\<lambda>a s. if a then done_with True s else eat_keyword KwConst s)"

definition param_array :: "'f parsers \<Rightarrow> ('f, unit) parsing" where
  "param_array Y s =
     and_then (eat_kind TkLBracket s) (\<lambda>b s.
       if \<not> b then done_with () s
       else and_then (part_if (peek_kind s \<noteq> Some TkRBracket) (pr_expr Y 0) s) (\<lambda>_ s.
            and_then (expect_kind TkRBracket '']'' s) (\<lambda>_ s. done_with () s)))"

definition parse_param :: "'f parsers \<Rightarrow> ('f, param) parsing" where
  "parse_param Y s =
     and_then (eat_qualifier s) (\<lambda>_ s.
     and_then (eat_tag s) (\<lambda>_ s.
     and_then (parse_type_ref s) (\<lambda>ty s.
     and_then (eat_kind TkAmp s) (\<lambda>is_ref s.
     and_then (expect_ident s) (\<lambda>(name, name_span) s.
     and_then (param_array Y s) (\<lambda>_ s.
       done_with \<lparr>pa_ty = ty, pa_is_ref = is_ref, pa_name = name,
                  pa_span = from_to (tr_span ty) name_span\<rparr> s))))))"

definition parse_optional_struct_params :: "'f parsers \<Rightarrow> ('f, param list) parsing" where
  "parse_optional_struct_params Y s =
     and_then (eat_kind TkLParen s) (\<lambda>b s.
       if \<not> b then done_with [] s
       else and_then (if peek_kind s = Some TkRParen then done_with [] s
                      else comma_list no_stop (parse_param Y) s) (\<lambda>params s.
            and_then (expect_kind TkRParen '')'' s) (\<lambda>_ s. done_with params s)))"

definition at_block_end :: "'f parser \<Rightarrow> bool" where
  "at_block_end s \<longleftrightarrow> peek_kind s \<in> {Some TkRBrace, None}"

definition parse_block :: "'f parsers \<Rightarrow> ('f, 'f stmt) parsing" where
  "parse_block Y s =
     and_then (expect_kind TkLBrace ''{'' s) (\<lambda>open s.
     and_then (items_until at_block_end (pr_stmt Y) s) (\<lambda>stmts s.
     and_then (expect_kind TkRBrace ''}'' s) (\<lambda>close s.
       done_with (BlockStmt stmts (from_to (tk_span open) (tk_span close))) s)))"

text \<open>\<open>let Stmt::Block { stmts, span } = block else { unreachable!() }\<close>.\<close>

definition block_parts :: "'f stmt \<Rightarrow> ('f, 'f stmt list \<times> span) parsing" where
  "block_parts st s = (case st of BlockStmt stmts sp \<Rightarrow> done_with (stmts, sp) s | _ \<Rightarrow> result_of Panic s)"

definition parse_body :: "'f parsers \<Rightarrow> ('f, 'f stmt list \<times> span) parsing" where
  "parse_body Y s = and_then (parse_block Y s) block_parts"

subsection \<open>Statements\<close>

fun stmt_span :: "'f stmt \<Rightarrow> span" where
  "stmt_span (TypedefAlias n src sz sp) = sp"
| "stmt_span (IfStmt c t e sp) = sp"
| "stmt_span (WhileStmt c b sp) = sp"
| "stmt_span (DoWhileStmt b c sp) = sp"
| "stmt_span (ForStmt i c st b sp) = sp"
| "stmt_span (ReturnStmt v sp) = sp"
| "stmt_span (BreakStmt sp) = sp"
| "stmt_span (ContinueStmt sp) = sp"
| "stmt_span (BlockStmt ss sp) = sp"
| "stmt_span (ExprStmt e sp) = sp"
| "stmt_span (SwitchStmt e arms sp) = sp"
| "stmt_span (FieldDecl md ty n sz args w i as sp) = sp"
| "stmt_span (TypedefEnum e) = ed_span e"
| "stmt_span (TypedefStruct d) = sd_span d"

text \<open>\<open>(expr)\<close> after a keyword.\<close>

definition paren_cond :: "'f parsers \<Rightarrow> ('f, 'f expr) parsing" where
  "paren_cond Y s =
     and_then (expect_kind TkLParen ''('' s) (\<lambda>_ s.
     and_then (pr_expr Y 0 s) (\<lambda>cond s.
     and_then (expect_kind TkRParen '')'' s) (\<lambda>_ s. done_with cond s)))"

definition parse_if :: "'f parsers \<Rightarrow> ('f, 'f stmt) parsing" where
  "parse_if Y s =
     and_then (next_token s) (\<lambda>kw s.
     and_then (paren_cond Y s) (\<lambda>cond s.
     and_then (pr_stmt Y s) (\<lambda>t s.
     and_then (eat_keyword KwElse s) (\<lambda>has_else s.
     and_then (part_if has_else (pr_stmt Y) s) (\<lambda>e s.
       let last = (case e of Some st \<Rightarrow> st | None \<Rightarrow> t)
       in done_with (IfStmt cond t e (from_to (tk_span kw) (stmt_span last))) s)))))"

definition parse_while :: "'f parsers \<Rightarrow> ('f, 'f stmt) parsing" where
  "parse_while Y s =
     and_then (next_token s) (\<lambda>kw s.
     and_then (paren_cond Y s) (\<lambda>cond s.
     and_then (pr_stmt Y s) (\<lambda>body s.
       done_with (WhileStmt cond body (from_to (tk_span kw) (stmt_span body))) s)))"

definition parse_do_while :: "'f parsers \<Rightarrow> ('f, 'f stmt) parsing" where
  "parse_do_while Y s =
     and_then (next_token s) (\<lambda>kw s.
     and_then (pr_stmt Y s) (\<lambda>body s.
     and_then (expect_kind (TkKeyword KwWhile) ''while'' s) (\<lambda>_ s.
     and_then (paren_cond Y s) (\<lambda>cond s.
     and_then (expect_kind TkSemi '';'' s) (\<lambda>last s.
       done_with (DoWhileStmt body cond (from_to (tk_span kw) (tk_span last))) s)))))"

definition parse_for :: "'f parsers \<Rightarrow> ('f, 'f stmt) parsing" where
  "parse_for Y s =
     and_then (next_token s) (\<lambda>kw s.
     and_then (expect_kind TkLParen ''('' s) (\<lambda>_ s.
     and_then (eat_kind TkSemi s) (\<lambda>no_init s.
     and_then (part_if (\<not> no_init) (pr_stmt Y) s) (\<lambda>init s.
     and_then (part_if (peek_kind s \<noteq> Some TkSemi) (pr_expr Y 0) s) (\<lambda>cond s.
     and_then (expect_kind TkSemi '';'' s) (\<lambda>_ s.
     and_then (part_if (peek_kind s \<noteq> Some TkRParen) (pr_expr Y 0) s) (\<lambda>step s.
     and_then (expect_kind TkRParen '')'' s) (\<lambda>_ s.
     and_then (pr_stmt Y s) (\<lambda>body s.
       done_with (ForStmt init cond step body (from_to (tk_span kw) (stmt_span body))) s)))))))))"

definition parse_return :: "'f parsers \<Rightarrow> ('f, 'f stmt) parsing" where
  "parse_return Y s =
     and_then (next_token s) (\<lambda>kw s.
     and_then (part_if (peek_kind s \<noteq> Some TkSemi) (pr_expr Y 0) s) (\<lambda>value s.
     and_then (expect_kind TkSemi '';'' s) (\<lambda>last s.
       done_with (ReturnStmt value (from_to (tk_span kw) (tk_span last))) s)))"

text \<open>\<open>break;\<close> and \<open>continue;\<close>.\<close>

definition parse_jump :: "(span \<Rightarrow> 'f stmt) \<Rightarrow> ('f, 'f stmt) parsing" where
  "parse_jump jump s =
     and_then (next_token s) (\<lambda>t s.
     and_then (expect_kind TkSemi '';'' s) (\<lambda>_ s. done_with (jump (tk_span t)) s))"

definition parse_empty :: "('f, 'f stmt) parsing" where
  "parse_empty s = and_then (next_token s) (\<lambda>t s. done_with (BlockStmt [] (tk_span t)) s)"

definition parse_expr_stmt :: "'f parsers \<Rightarrow> ('f, 'f stmt) parsing" where
  "parse_expr_stmt Y s =
     and_then (pr_expr Y 0 s) (\<lambda>e s.
     and_then (expect_kind TkSemi '';'' s) (\<lambda>last s.
       done_with (ExprStmt e (from_to (expr_span e) (tk_span last))) s))"

definition found_here :: "'f parser \<Rightarrow> 'f found" where
  "found_here s = (case peek_kind s of Some k \<Rightarrow> FoundToken k | None \<Rightarrow> FoundWord ''eof'')"

definition span_here :: "'f parser \<Rightarrow> span \<Rightarrow> span" where
  "span_here s sp = (case peek s of Some t \<Rightarrow> tk_span t | None \<Rightarrow> sp)"

definition at_arm_end :: "'f parser \<Rightarrow> bool" where
  "at_arm_end s \<longleftrightarrow>
     peek_kind s \<in> {Some (TkKeyword KwCase), Some (TkKeyword KwDefault), Some TkRBrace, None}"

definition arm_pattern :: "'f parsers \<Rightarrow> nat \<Rightarrow> ('f, 'f expr option) parsing" where
  "arm_pattern Y arm_start s =
     and_then (eat_keyword KwCase s) (\<lambda>is_case s.
       if is_case
       then and_then (pr_expr Y 0 s) (\<lambda>pat s.
            and_then (expect_kind TkColon '':'' s) (\<lambda>_ s. done_with (Some pat) s))
       else and_then (eat_keyword KwDefault s) (\<lambda>is_default s.
         if is_default then and_then (expect_kind TkColon '':'' s) (\<lambda>_ s. done_with None s)
         else fail_with (Unexpected ''case or default'' (found_here s)
                           (span_here s (span_new arm_start arm_start))) s))"

definition parse_arm :: "'f parsers \<Rightarrow> ('f, 'f switch_arm) parsing" where
  "parse_arm Y s =
     (let arm_start = sp_start (span_here s (span_new 0 0)) in
      and_then (arm_pattern Y arm_start s) (\<lambda>pat s.
      and_then (items_until at_arm_end (pr_stmt Y) s) (\<lambda>body s.
        done_with (SwitchArm pat body (span_new arm_start (sp_end (last_span s)))) s)))"

definition parse_switch :: "'f parsers \<Rightarrow> ('f, 'f stmt) parsing" where
  "parse_switch Y s =
     and_then (next_token s) (\<lambda>kw s.
     and_then (paren_cond Y s) (\<lambda>scrutinee s.
     and_then (expect_kind TkLBrace ''{'' s) (\<lambda>_ s.
     and_then (items_until at_block_end (parse_arm Y) s) (\<lambda>arms s.
     and_then (expect_kind TkRBrace ''}'' s) (\<lambda>close s.
       done_with (SwitchStmt scrutinee arms (from_to (tk_span kw) (tk_span close))) s)))))"

end
