(* ===== verification/TplParseDecl.thy ===== *)
theory TplParseDecl
  imports TplParseStmt
begin

text \<open>
  The declarations of \<open>hxy-010-lang/src/parser.rs\<close>: type definitions, structs and enums with the
  fields that may follow them, field declarations and functions; then the statement that a token
  starts, the parsers of every fuel, and \<open>parse\<close>.
\<close>

subsection \<open>Enums\<close>

definition parse_enum_variant :: "'f parsers \<Rightarrow> ('f, 'f enum_variant) parsing" where
  "parse_enum_variant Y s =
     and_then (expect_ident s) (\<lambda>(name, name_span) s.
     and_then (eat_kind TkEq s) (\<lambda>b s.
     and_then (part_if b (pr_expr Y 0) s) (\<lambda>value s.
       let last = (case value of Some e \<Rightarrow> expr_span e | None \<Rightarrow> name_span)
       in done_with \<lparr>ev_name = name, ev_value = value, ev_span = from_to name_span last\<rparr> s)))"

definition enum_backing :: "('f, type_ref option) parsing" where
  "enum_backing s =
     and_then (eat_kind TkLt s) (\<lambda>b s.
       if b then and_then (parse_type_ref s) (\<lambda>t s.
                 and_then (expect_kind TkGt ''>'' s) (\<lambda>_ s. done_with (Some t) s))
       else done_with None s)"

definition enum_body :: "'f parsers \<Rightarrow> ('f, 'f enum_variant list \<times> span) parsing" where
  "enum_body Y s =
     and_then (expect_kind TkLBrace ''{'' s) (\<lambda>_ s.
     and_then (if at_rbrace s then done_with [] s else comma_list at_rbrace (parse_enum_variant Y) s)
       (\<lambda>variants s.
     and_then (expect_kind TkRBrace ''}'' s) (\<lambda>close s. done_with (variants, tk_span close) s)))"

text \<open>A name that is there when an identifier is.\<close>

definition optional_name :: "bool \<Rightarrow> ('f, chars option) parsing" where
  "optional_name b s =
     (if b then and_then (expect_ident s) (\<lambda>(name, _) s. done_with (Some name) s) else done_with None s)"

text \<open>The name of a type, and the second one it is given: the tag comes before the alias.\<close>

definition decl_names ::
  "string \<Rightarrow> nat \<Rightarrow> chars option \<Rightarrow> chars option \<Rightarrow> ('f, chars \<times> chars option) parsing" where
  "decl_names msg start tag alias s =
     (case tag of
        Some t \<Rightarrow> done_with (t, alias) s
      | None \<Rightarrow>
          (case alias of
             Some a \<Rightarrow> done_with (a, None) s
           | None \<Rightarrow> fail_with (Unexpected msg (FoundWord ''neither'') (span_new start start)) s))"

definition with_alias :: "'f stmt \<Rightarrow> chars \<Rightarrow> chars option \<Rightarrow> span \<Rightarrow> 'f stmt" where
  "with_alias main name extra sp =
     (case extra of
        Some a \<Rightarrow> BlockStmt [main, TypedefAlias a (type_ref_of name sp) None sp] sp
      | None \<Rightarrow> main)"

definition typedef_enum_rest :: "'f parsers \<Rightarrow> nat \<Rightarrow> ('f, 'f stmt) parsing" where
  "typedef_enum_rest Y start s =
     and_then (enum_backing s) (\<lambda>backing s.
     and_then (optional_name (is_ident (peek_kind s)) s) (\<lambda>tag s.
     and_then (enum_body Y s) (\<lambda>(variants, _) s.
     and_then (optional_name (is_ident (peek_kind s)) s) (\<lambda>alias s.
     and_then (decl_names ''enum tag or typedef alias'' start tag alias s) (\<lambda>(name, extra) s.
     and_then (parse_optional_attrs Y s) (\<lambda>attrs s.
     and_then (expect_kind TkSemi '';'' s) (\<lambda>last s.
       let sp = span_new start (sp_end (tk_span last))
       in done_with (with_alias (TypedefEnum \<lparr>ed_name = name, ed_backing = backing, ed_variants = variants,
            ed_attrs = attrs, ed_span = sp\<rparr>) name extra sp) s)))))))"

subsection \<open>Field declarations\<close>

function eat_modifiers :: "decl_modifier \<Rightarrow> 'f parser \<Rightarrow> decl_modifier \<times> 'f parser" where
  "eat_modifiers m s =
     (if peek_kind s = Some (TkKeyword KwLocal)
      then eat_modifiers (if m = ModConst then m else ModLocal) (snd (bump s))
      else if peek_kind s = Some (TkKeyword KwConst) then eat_modifiers ModConst (snd (bump s))
      else (m, s))"
  by pat_completeness auto
termination
by (relation "measure (\<lambda>(m, s). tokens_left s)")
  (auto simp: tokens_left_def bump_def peek_kind_def peek_def token_at_def split: if_splits)

declare eat_modifiers.simps [simp del]

text \<open>A name, or the colon of a bitfield without one, for which a name is made up.\<close>

definition bitfield_name :: "('f, chars) parsing" where
  "bitfield_name s =
     (if peek_kind s = Some TkColon
      then done_with (lit ''__anon_bitfield_'' @ show_nat (sp_start (span_here s (span_new 0 0)))) s
      else and_then (expect_ident s) (\<lambda>(name, _) s. done_with name s))"

definition struct_args :: "'f parsers \<Rightarrow> ('f, 'f expr list) parsing" where
  "struct_args Y s =
     and_then (eat_kind TkLParen s) (\<lambda>b s.
       if \<not> b then done_with [] s
       else and_then (if peek_kind s = Some TkRParen then done_with [] s
                      else comma_list no_stop (pr_expr Y 1) s) (\<lambda>args s.
            and_then (expect_kind TkRParen '')'' s) (\<lambda>_ s. done_with args s)))"

definition extra_dims :: "'f parsers \<Rightarrow> ('f, 'f expr option list) parsing" where
  "extra_dims Y s = items_until (\<lambda>s. peek_kind s \<noteq> Some TkLBracket) (parse_optional_array_dim Y) s"

definition bit_width_of :: "'f parsers \<Rightarrow> ('f, 'f expr option) parsing" where
  "bit_width_of Y s =
     and_then (eat_kind TkColon s) (\<lambda>b s. part_if b (pr_expr Y bitfield_bp) s)"

definition field_init :: "'f parsers \<Rightarrow> ('f, 'f expr option) parsing" where
  "field_init Y s = and_then (eat_kind TkEq s) (\<lambda>b s. part_if b (pr_expr Y 0) s)"

text \<open>The first declarator takes its array size before or after the arguments, the others only before.\<close>

definition first_declarator ::
  "'f parsers \<Rightarrow> nat \<Rightarrow> decl_modifier \<Rightarrow> type_ref \<Rightarrow> ('f, 'f stmt) parsing" where
  "first_declarator Y start md ty s =
     and_then (bitfield_name s) (\<lambda>name s.
     and_then (parse_optional_array_dim Y s) (\<lambda>dim s.
     and_then (struct_args Y s) (\<lambda>args s.
     and_then (if dim = None then parse_optional_array_dim Y s else done_with dim s) (\<lambda>size s.
     and_then (extra_dims Y s) (\<lambda>_ s.
     and_then (bit_width_of Y s) (\<lambda>width s.
     and_then (parse_optional_attrs Y s) (\<lambda>attrs s.
     and_then (field_init Y s) (\<lambda>init s.
       done_with (FieldDecl md ty name size args width init attrs
                    (span_new start (sp_end (last_span s)))) s))))))))"

definition next_declarator ::
  "'f parsers \<Rightarrow> nat \<Rightarrow> decl_modifier \<Rightarrow> type_ref \<Rightarrow> ('f, 'f stmt) parsing" where
  "next_declarator Y start md ty s =
     and_then (next_token s) (\<lambda>_ s.
     let decl_start = sp_start (span_here s (span_new start start)) in
     and_then (bitfield_name s) (\<lambda>name s.
     and_then (parse_optional_array_dim Y s) (\<lambda>size s.
     and_then (extra_dims Y s) (\<lambda>_ s.
     and_then (struct_args Y s) (\<lambda>args s.
     and_then (bit_width_of Y s) (\<lambda>width s.
     and_then (parse_optional_attrs Y s) (\<lambda>attrs s.
     and_then (field_init Y s) (\<lambda>init s.
       done_with (FieldDecl md ty name size args width init attrs
                    (span_new decl_start (sp_end (last_span s)))) s))))))))"

definition declarators ::
  "'f parsers \<Rightarrow> nat \<Rightarrow> decl_modifier \<Rightarrow> type_ref \<Rightarrow> ('f, 'f stmt) parsing" where
  "declarators Y start md ty s =
     and_then (first_declarator Y start md ty s) (\<lambda>first s.
     and_then (items_until (\<lambda>s. peek_kind s \<noteq> Some TkComma) (next_declarator Y start md ty) s) (\<lambda>more s.
     and_then (expect_kind TkSemi '';'' s) (\<lambda>last s.
       done_with (if more = [] then first
                  else BlockStmt (first # more) (span_new start (sp_end (tk_span last)))) s)))"

definition parse_field_decl :: "'f parsers \<Rightarrow> type_ref option \<Rightarrow> ('f, 'f stmt) parsing" where
  "parse_field_decl Y ty_override s =
     (let start = sp_start (span_here s (span_new 0 0)); (md, s) = eat_modifiers ModField s in
      and_then (case ty_override of Some t \<Rightarrow> done_with t s | None \<Rightarrow> parse_type_ref s) (\<lambda>ty s.
        declarators Y start md ty s))"

text \<open>A field of a type that was just declared: \<open>name [size] <attrs>\<close>.\<close>

definition plain_field ::
  "chars \<Rightarrow> span \<Rightarrow> chars \<Rightarrow> 'f expr option \<Rightarrow> 'f expr option \<Rightarrow> 'f attrs \<Rightarrow> span \<Rightarrow> 'f stmt" where
  "plain_field ty ty_span name dim width attrs sp =
     FieldDecl ModField (type_ref_of ty ty_span) name dim [] width None attrs sp"

definition inline_enum_field :: "'f parsers \<Rightarrow> nat \<Rightarrow> chars \<Rightarrow> ('f, 'f stmt) parsing" where
  "inline_enum_field Y start ty s =
     and_then (expect_ident s) (\<lambda>(name, name_span) s.
     and_then (bracketed_expr Y s) (\<lambda>size s.
     and_then (bit_width_of Y s) (\<lambda>width s.
     and_then (parse_optional_attrs Y s) (\<lambda>attrs s.
       done_with (plain_field ty name_span name size width attrs
                    (span_new start (sp_end (span_here s name_span)))) s))))"

definition parse_inline_enum_field :: "'f parsers \<Rightarrow> ('f, 'f stmt) parsing" where
  "parse_inline_enum_field Y s =
     and_then (next_token s) (\<lambda>kw s.
     let start = sp_start (tk_span kw) in
     and_then (enum_backing s) (\<lambda>backing s.
     and_then (optional_name (is_ident (peek_kind s) \<and> kind_at 1 s = Some TkLBrace) s) (\<lambda>tag s.
     and_then (enum_body Y s) (\<lambda>(variants, close) s.
     let name = (case tag of Some t \<Rightarrow> t | None \<Rightarrow> lit ''__anon_enum_'' @ show_nat (sp_end close));
         enum_stmt = TypedefEnum \<lparr>ed_name = name, ed_backing = backing, ed_variants = variants,
                       ed_attrs = [], ed_span = span_new start (sp_end close)\<rparr> in
     if peek_kind s = Some TkSemi
     then and_then (next_token s) (\<lambda>last s.
            done_with (BlockStmt [enum_stmt] (span_new start (sp_end (tk_span last)))) s)
     else and_then (comma_list no_stop (inline_enum_field Y start name) s) (\<lambda>fields s.
          and_then (expect_kind TkSemi '';'' s) (\<lambda>last s.
            done_with (BlockStmt (enum_stmt # fields) (span_new start (sp_end (tk_span last)))) s))))))"

subsection \<open>Structs\<close>

definition struct_field :: "'f parsers \<Rightarrow> nat \<Rightarrow> 'f stmt \<Rightarrow> chars \<Rightarrow> ('f, 'f stmt) parsing" where
  "struct_field Y start struct_stmt ty s =
     and_then (expect_ident s) (\<lambda>(name, name_span) s.
     and_then (bracketed_expr Y s) (\<lambda>size s.
     and_then (parse_optional_attrs Y s) (\<lambda>attrs s.
     and_then (expect_kind TkSemi '';'' s) (\<lambda>last s.
       let sp = span_new start (sp_end (tk_span last))
       in done_with (BlockStmt [struct_stmt, plain_field ty name_span name size None attrs sp] sp) s))))"

definition struct_type :: "chars \<Rightarrow> param list \<Rightarrow> 'f stmt list \<Rightarrow> 'f attrs \<Rightarrow> bool \<Rightarrow> span \<Rightarrow> 'f stmt" where
  "struct_type name params body attrs is_union sp =
     TypedefStruct (StructDecl name params body attrs is_union sp)"

definition struct_end ::
  "'f parsers \<Rightarrow> nat \<Rightarrow> chars \<Rightarrow> param list \<Rightarrow> 'f stmt list \<Rightarrow> bool \<Rightarrow> ('f, 'f stmt) parsing" where
  "struct_end Y start name params body is_union s =
     and_then (parse_optional_attrs Y s) (\<lambda>attrs s.
     and_then (expect_kind TkSemi '';'' s) (\<lambda>last s.
       done_with (struct_type name params body attrs is_union (span_new start (sp_end (tk_span last)))) s))"

definition named_struct :: "'f parsers \<Rightarrow> nat \<Rightarrow> bool \<Rightarrow> ('f, 'f stmt) parsing" where
  "named_struct Y start is_union s =
     and_then (expect_ident s) (\<lambda>(name, name_span) s.
     if peek_kind s = Some TkSemi
     then and_then (next_token s) (\<lambda>last s.
            done_with (BlockStmt [] (span_new start (sp_end (tk_span last)))) s)
     else if peek_kind s = Some TkLParen
     then and_then (parse_optional_struct_params Y s) (\<lambda>params s.
          and_then (parse_body Y s) (\<lambda>(body, _) s. struct_end Y start name params body is_union s))
     else if peek_kind s = Some TkLBrace
     then and_then (parse_body Y s) (\<lambda>(body, body_span) s.
            if is_ident (peek_kind s)
            then struct_field Y start
                   (struct_type name [] body [] is_union (span_new start (sp_end body_span))) name s
            else struct_end Y start name [] body is_union s)
     else parse_field_decl Y (Some (type_ref_of name name_span)) s)"

definition anonymous_struct :: "'f parsers \<Rightarrow> nat \<Rightarrow> bool \<Rightarrow> ('f, 'f stmt) parsing" where
  "anonymous_struct Y start is_union s =
     and_then (parse_body Y s) (\<lambda>(body, body_span) s.
     let name = lit ''__anon_struct_'' @ show_nat (sp_start body_span) in
     and_then (parse_optional_attrs Y s) (\<lambda>attrs s.
       struct_field Y start
         (struct_type name [] body attrs is_union (span_new start (sp_end (last_span s)))) name s))"

definition parse_struct_stmt :: "'f parsers \<Rightarrow> ('f, 'f stmt) parsing" where
  "parse_struct_stmt Y s =
     and_then (next_token s) (\<lambda>kw s.
     let is_union = (tk_kind kw = TkKeyword KwUnion); start = sp_start (tk_span kw) in
     if is_ident (peek_kind s) then named_struct Y start is_union s
     else if peek_kind s = Some TkLBrace then anonymous_struct Y start is_union s
     else fail_with (Unexpected ''struct name or body'' (found_here s)
                       (span_here s (span_new start start))) s)"

subsection \<open>Type definitions\<close>

definition typedef_struct_rest :: "'f parsers \<Rightarrow> nat \<Rightarrow> bool \<Rightarrow> ('f, 'f stmt) parsing" where
  "typedef_struct_rest Y start is_union s =
     and_then (optional_name (is_ident (peek_kind s)) s) (\<lambda>tag s.
     if tag \<noteq> None \<and> peek_kind s = Some TkSemi
     then and_then (expect_kind TkSemi '';'' s) (\<lambda>last s.
            done_with (struct_type (the tag) [] [] [] is_union (span_new start (sp_end (tk_span last)))) s)
     else if tag \<noteq> None \<and> is_ident (peek_kind s)
     then and_then (expect_ident s) (\<lambda>(alias, _) s.
          and_then (expect_kind TkSemi '';'' s) (\<lambda>last s.
            let sp = span_new start (sp_end (tk_span last))
            in done_with (TypedefAlias alias (type_ref_of (the tag) sp) None sp) s))
     else and_then (parse_optional_struct_params Y s) (\<lambda>params s.
          and_then (parse_body Y s) (\<lambda>(body, _) s.
          and_then (optional_name (is_ident (peek_kind s)) s) (\<lambda>alias s.
          and_then (decl_names ''struct tag or typedef alias'' start tag alias s) (\<lambda>(name, extra) s.
          and_then (parse_optional_attrs Y s) (\<lambda>attrs s.
          and_then (expect_kind TkSemi '';'' s) (\<lambda>last s.
            let sp = span_new start (sp_end (tk_span last))
            in done_with (with_alias (struct_type name params body attrs is_union sp) name
                 (if extra = Some name then None else extra) sp) s)))))))"

definition typedef_alias_rest :: "'f parsers \<Rightarrow> nat \<Rightarrow> ('f, 'f stmt) parsing" where
  "typedef_alias_rest Y start s =
     and_then (parse_type_ref s) (\<lambda>source s.
     and_then (expect_ident s) (\<lambda>(name, name_span) s.
     and_then (bracketed_expr Y s) (\<lambda>size s.
     and_then (parse_optional_attrs Y s) (\<lambda>_ s.
     and_then (expect_kind TkSemi '';'' s) (\<lambda>last s.
       done_with (TypedefAlias name source size
                    (span_new start (max (sp_end (tk_span last)) (sp_end name_span)))) s)))))"

definition parse_typedef :: "'f parsers \<Rightarrow> ('f, 'f stmt) parsing" where
  "parse_typedef Y s =
     and_then (next_token s) (\<lambda>kw s.
     let start = sp_start (tk_span kw) in
     and_then (eat_keyword KwEnum s) (\<lambda>is_enum s.
       if is_enum then typedef_enum_rest Y start s
       else if peek_kind s \<in> {Some (TkKeyword KwStruct), Some (TkKeyword KwUnion)}
       then let is_union = (peek_kind s = Some (TkKeyword KwUnion))
            in and_then (skip_token s) (\<lambda>_ s. typedef_struct_rest Y start is_union s)
       else typedef_alias_rest Y start s))"

subsection \<open>Functions\<close>

definition parse_function_def :: "'f parsers \<Rightarrow> ('f, 'f function_def) parsing" where
  "parse_function_def Y s =
     (let start = sp_start (span_here s (span_new 0 0)) in
      and_then (parse_type_ref s) (\<lambda>return_type s.
      and_then (expect_ident s) (\<lambda>(name, _) s.
      and_then (expect_kind TkLParen ''('' s) (\<lambda>_ s.
      let void_only = (peek_kind s = Some (TkKeyword KwVoid) \<and> kind_at 1 s = Some TkRParen) in
      and_then (if \<not> void_only \<and> peek_kind s \<noteq> Some TkRParen then comma_list no_stop (parse_param Y) s
                else done_with [] s) (\<lambda>params s.
      and_then (if void_only then skip_token s else done_with () s) (\<lambda>_ s.
      and_then (expect_kind TkRParen '')'' s) (\<lambda>_ s.
        if peek_kind s = Some TkSemi
        then and_then (next_token s) (\<lambda>last s.
               done_with \<lparr>fd_return_type = return_type, fd_name = name, fd_params = params, fd_body = [],
                          fd_span = span_new start (sp_end (tk_span last))\<rparr> s)
        else and_then (parse_body Y s) (\<lambda>(body, _) s.
               done_with \<lparr>fd_return_type = return_type, fd_name = name, fd_params = params, fd_body = body,
                          fd_span = span_new start (sp_end (last_span s))\<rparr> s))))))))"

subsection \<open>The parser\<close>

definition decl_or_expr :: "'f parsers \<Rightarrow> ('f, 'f stmt) parsing" where
  "decl_or_expr Y s =
     (if looks_like_field_decl s then parse_field_decl Y None s else parse_expr_stmt Y s)"

definition keyword_stmt :: "'f parsers \<Rightarrow> keyword \<Rightarrow> ('f, 'f stmt) parsing" where
  "keyword_stmt Y kw s =
     (case kw of
        KwIf \<Rightarrow> parse_if Y s
      | KwWhile \<Rightarrow> parse_while Y s
      | KwDo \<Rightarrow> parse_do_while Y s
      | KwFor \<Rightarrow> parse_for Y s
      | KwReturn \<Rightarrow> parse_return Y s
      | KwBreak \<Rightarrow> parse_jump BreakStmt s
      | KwContinue \<Rightarrow> parse_jump ContinueStmt s
      | KwTypedef \<Rightarrow> parse_typedef Y s
      | KwSwitch \<Rightarrow> parse_switch Y s
      | KwUnion \<Rightarrow> parse_struct_stmt Y s
      | KwLocal \<Rightarrow> parse_field_decl Y None s
      | KwConst \<Rightarrow> parse_field_decl Y None s
      | KwStruct \<Rightarrow> parse_struct_stmt Y s
      | KwEnum \<Rightarrow> if is_enum_type_decl_start s then parse_inline_enum_field Y s else decl_or_expr Y s
      | _ \<Rightarrow> parse_expr_stmt Y s)"

definition parse_stmt :: "'f parsers \<Rightarrow> ('f, 'f stmt) parsing" where
  "parse_stmt Y s =
     (case peek_kind s of
        None \<Rightarrow> fail_with (UnexpectedEof ''statement'') s
      | Some k \<Rightarrow>
          (case k of
             TkLBrace \<Rightarrow> parse_block Y s
           | TkKeyword kw \<Rightarrow> keyword_stmt Y kw s
           | TkSemi \<Rightarrow> parse_empty s
           | TkIdent n \<Rightarrow> decl_or_expr Y s
           | _ \<Rightarrow> parse_expr_stmt Y s))"

definition parse_top_item :: "'f parsers \<Rightarrow> ('f, 'f top_item) parsing" where
  "parse_top_item Y s =
     (if looks_like_function_def s
      then and_then (parse_function_def Y s) (\<lambda>f s. done_with (TopFunction f) s)
      else and_then (parse_stmt Y s) (\<lambda>st s. done_with (TopStmt st) s))"

text \<open>The parsers of every fuel: those of a fuel call those of the fuel below.\<close>

definition parsers_step :: "'f parsers \<Rightarrow> 'f parsers" where
  "parsers_step Y = \<lparr>pr_expr = parse_expr_bp Y, pr_stmt = parse_stmt Y\<rparr>"

fun parsers :: "nat \<Rightarrow> 'f parsers" where
  "parsers 0 = \<lparr>pr_expr = \<lambda>bp s. None, pr_stmt = \<lambda>s. None\<rparr>"
| "parsers (Suc n) = parsers_step (parsers n)"

definition parse :: "nat \<Rightarrow> 'f token list \<Rightarrow> (('f parse_error, 'f program) res) option" where
  "parse n tokens =
     map_option fst (items_until at_eof (parse_top_item (parsers n)) (parser_new tokens))"

end
