(* ===== verification/CursorHalt.thy ===== *)
theory CursorHalt
  imports Cursor
begin

text \<open>
  A scan over tokens ends without a panic if its parts do, and its loops end because each round
  consumes something. What is left is counted with a weight for each kind of token, two for a token
  that may be split into two; an instance of the locale is a parser whose tokens have such weights.
\<close>

lemma peek_kind_Some: "peek_kind s = Some k \<longleftrightarrow> (\<exists>t. peek s = Some t \<and> tk_kind t = k)"
  by (auto simp: peek_kind_def)

lemma kind_at_0 [simp]: "kind_at 0 s = peek_kind s"
  by (simp add: kind_at_def peek_kind_def peek_at_def peek_def)

lemma eat_kind_True: "peek_kind s = Some k \<Longrightarrow> eat_kind k s = done_with True (snd (bump s))"
  by (simp add: eat_kind_def)

lemma eat_kind_False: "peek_kind s \<noteq> Some k \<Longrightarrow> eat_kind k s = done_with False s"
  by (simp add: eat_kind_def)

locale token_clock =
  fixes weight :: "'k \<Rightarrow> nat"
  assumes weight_pos: "0 < weight k" and weight_le: "weight k \<le> 2"
begin

definition work :: "'k cursor \<Rightarrow> nat" where
  "work s = sum_list (map (\<lambda>t. weight (tk_kind t)) (drop (ps_pos s) (ps_tokens s)))"

definition further :: "'k cursor \<Rightarrow> 'k cursor \<Rightarrow> bool" where
  "further s t \<longleftrightarrow> work t \<le> work s"

lemma work_fuel: "work s < loop_fuel s"
proof -
  have "sum_list (map (\<lambda>t. weight (tk_kind t)) ts) \<le> 2 * length ts" for ts
  proof (induction ts)
    case (Cons t ts)
    then show ?case using weight_le [of "tk_kind t"] by simp
  qed simp
  from this [of "drop (ps_pos s) (ps_tokens s)"] show ?thesis
    by (simp add: work_def loop_fuel_def tokens_left_def)
qed

end

sublocale token_clock \<subseteq> clock further work "\<lambda>s. True" False
  by unfold_locales (auto simp: further_def)

context token_clock
begin

lemma within_work: "within r s \<longleftrightarrow> work s \<le> r"
  by (simp add: within_def)

lemma further_refl [simp]: "further s s"
  by (simp add: further_def)

lemma bump_work: "peek s \<noteq> None \<Longrightarrow> work (snd (bump s)) < work s"
  using weight_pos by (auto simp: bump_def peek_def token_at_def work_def Cons_nth_drop_Suc [symmetric] split: if_splits)

lemma further_bump [simp]: "further s (snd (bump s))"
  using bump_work [of s] by (cases "peek s") (auto simp: further_def bump_def)

text \<open>A constant outcome consumes when its state has fewer tokens left.\<close>

lemma consumes_const:
  assumes "further s t" "safe out" "\<And>a. out = Ok a \<Longrightarrow> work t < work s"
  shows "moves r (\<lambda>n. Some (out, t)) s"
  using assms by (intro movesI exI [of _ out] exI [of _ t]) (simp add: settles_on_const)

lemma consumes_next: "peek s \<noteq> None \<Longrightarrow> moves r (\<lambda>n. next_token s) s"
proof -
  assume s: "peek s \<noteq> None"
  then obtain t where "next_token s = Some (Ok t, snd (bump s))"
    by (auto simp: next_token_def bump_def done_with_def)
  then show ?thesis using bump_work [OF s] by (simp add: consumes_const)
qed

lemma halts_next: "peek_kind s = Some k \<Longrightarrow> ends r (\<lambda>n. next_token s) s"
  by (intro moves_ends consumes_next) (auto simp: peek_kind_def)

lemma halts_skip [settle_rules]: "ends r (\<lambda>n. skip_token s) s"
  by (simp add: skip_token_def ends_done)

lemma consumes_skip: "peek s \<noteq> None \<Longrightarrow> moves r (\<lambda>n. skip_token s) s"
  unfolding skip_token_def done_with_def by (rule consumes_const) (simp_all add: bump_work)

lemma consumes_expect: "moves r (\<lambda>n. expect_kind k msg s) s"
proof (cases "\<exists>t. peek s = Some t \<and> tk_kind t = k")
  case True
  then show ?thesis using consumes_next [of s r] by (auto simp: expect_kind_def)
next
  case False
  then have "\<exists>e. expect_kind k msg s = Some (Err e, s)"
    by (auto simp: expect_kind_def fail_with_def split: option.split)
  then show ?thesis by (auto intro!: consumes_const)
qed

lemmas halts_expect [settle_rules] = moves_ends [OF consumes_expect]

lemma halts_eat [settle_rules]: "ends r (\<lambda>n. eat_kind k s) s"
  unfolding eat_kind_def by (intro settle_rules) simp_all

lemma halts_part_if [settle_rules]:
  "(b \<Longrightarrow> ends r (\<lambda>n. p n s) s) \<Longrightarrow> ends r (\<lambda>n. part_if b (p n) s) s"
  unfolding part_if_def by (intro settle_rules) simp_all

text \<open>A loop of items that consume ends within the tokens left.\<close>

lemma halts_items_for:
  assumes "\<And>s. \<not> stop s \<Longrightarrow> moves r (\<lambda>n. p n s) s" "r < k"
  shows "ends r (\<lambda>n. items_for k stop (p n) s) s"
  using assms
proof (induction k arbitrary: r s)
  case (Suc k)
  show ?case
  proof (cases "stop s")
    case True
    then show ?thesis by (simp add: settle_rules)
  next
    case False
    have "moves r (\<lambda>n. and_then (p n s) (\<lambda>x s.
        and_then (items_for k stop (p n) s) (\<lambda>xs s. done_with (x # xs) s))) s"
    proof (rule moves_then_less)
      show "moves r (\<lambda>n. p n s) s" using Suc.prems(1) False by simp
      fix x t assume "0 < r"
      then have "ends (r - 1) (\<lambda>n. items_for k stop (p n) t) t" for t
        using Suc.prems by (intro Suc.IH moves_less [OF _ diff_le_self]) auto
      then show "ends (r - 1) (\<lambda>n. and_then (items_for k stop (p n) t) (\<lambda>xs s. done_with (x # xs) s)) t"
        by (intro settle_rules) simp_all
    qed
    then show ?thesis using False by (simp add: moves_ends)
  qed
qed simp

lemma halts_items [settle_rules]:
  assumes "\<And>s. \<not> stop s \<Longrightarrow> moves r (\<lambda>n. p n s) s"
  shows "ends r (\<lambda>n. items_until stop (p n) s) s"
proof (cases "work s \<le> r")
  case True
  have "ends (work s) (\<lambda>n. items_until stop (p n) s) s"
    unfolding items_until_def
    by (rule halts_items_for [OF _ work_fuel]) (use assms True in \<open>auto intro: moves_less\<close>)
  then show ?thesis by (rule ends_own)
next
  case False
  then show ?thesis by (simp add: ends_def within_work)
qed

lemma consumes_separated_for:
  assumes "\<And>s. moves r (\<lambda>n. p n s) s" "\<And>r s. ends r (\<lambda>n. sep s) s" "r < k"
  shows "moves r (\<lambda>n. separated_for k sep early (p n) s) s"
  using assms
proof (induction k arbitrary: r s)
  case (Suc k)
  show ?case
    unfolding separated_for.simps
  proof (rule moves_then_less)
    show "moves r (\<lambda>n. p n s) s" by (rule Suc.prems)
    fix x t assume "0 < r"
    then have "moves (r - 1) (\<lambda>n. separated_for k sep early (p n) t) t" for t
      using Suc.prems by (intro Suc.IH) (auto intro: moves_less [OF _ diff_le_self])
    then have "ends (r - 1) (\<lambda>n. separated_for k sep early (p n) t) t" for t
      by (rule moves_ends)
    then show "ends (r - 1) (\<lambda>n. and_then (sep t) (\<lambda>more s.
        if \<not> more \<or> early s then done_with [x] s
        else and_then (separated_for k sep early (p n) s) (\<lambda>xs s. done_with (x # xs) s))) t"
      using Suc.prems(2) by (intro settle_rules) simp_all
  qed
qed simp

lemma consumes_separated:
  assumes "\<And>s. moves r (\<lambda>n. p n s) s" "\<And>r s. ends r (\<lambda>n. sep s) s"
  shows "moves r (\<lambda>n. separated_list sep early (p n) s) s"
proof (cases "work s \<le> r")
  case True
  have "moves (work s) (\<lambda>n. separated_list sep early (p n) s) s"
    unfolding separated_list_def
    by (rule consumes_separated_for [OF _ _ work_fuel]) (use assms True in \<open>auto intro: moves_less\<close>)
  then show ?thesis by (rule moves_own)
next
  case False
  then show ?thesis by (simp add: moves_def within_work)
qed

text \<open>The same for items that may consume nothing: then the separators do.\<close>

definition eats :: "('k, bool) scan \<Rightarrow> bool" where
  "eats sep \<longleftrightarrow> (\<forall>s. \<exists>b t. sep s = Some (Ok b, t) \<and> further s t \<and> (b \<longrightarrow> work t < work s))"

lemma eats_kind: "eats (eat_kind k)"
proof -
  have "work (snd (bump s)) < work s" if "peek_kind s = Some k" for s
    using that by (intro bump_work) (auto simp: peek_kind_def)
  then show ?thesis by (auto simp: eats_def eat_kind_def done_with_def)
qed

lemma ends_drop:
  assumes "work t < work s" "0 < r \<Longrightarrow> ends (r - 1) F t"
  shows "ends r F s"
proof (rule endsI)
  assume "within r s"
  then have r: "0 < r" "within (r - 1) t" using assms(1) by (auto simp: within_work)
  obtain out u where "further t u" "safe out" "settles_on F out u" using endsE [OF assms(2) [OF r(1)] r(2)] by blast
  then show "\<exists>out u. further s u \<and> safe out \<and> settles_on F out u"
    using assms(1) unfolding further_def by (meson le_less_trans less_imp_le)
qed

lemma halts_separated_for:
  assumes "\<And>s r'. r' \<le> r \<Longrightarrow> ends r' (\<lambda>n. p n s) s" "eats sep" "r < k"
  shows "ends r (\<lambda>n. separated_for k sep early (p n) s) s"
  using assms
proof (induction k arbitrary: r s)
  case (Suc k)
  show ?case
    unfolding separated_for.simps
  proof (rule ends_then)
    show "ends r (\<lambda>n. p n s) s" by (rule Suc.prems) simp
    fix x s
    obtain b t where sep: "sep s = Some (Ok b, t)" "further s t" "b \<longrightarrow> work t < work s"
      using Suc.prems(2) unfolding eats_def by blast
    have "ends r (\<lambda>n. if \<not> b \<or> early t then done_with [x] t
        else and_then (separated_for k sep early (p n) t) (\<lambda>xs s. done_with (x # xs) s)) s"
    proof (rule ends_if)
      show "ends r (\<lambda>n. done_with [x] t) s" by (rule ends_done [OF sep(2)])
      assume "\<not> (\<not> b \<or> early t)"
      then have less: "work t < work s" using sep(3) by simp
      have "ends (r - 1) (\<lambda>n. separated_for k sep early (p n) t) t" if "0 < r"
        using that Suc.prems by (intro Suc.IH) auto
      then show "ends r (\<lambda>n. and_then (separated_for k sep early (p n) t) (\<lambda>xs s. done_with (x # xs) s)) s"
        by (intro ends_drop [OF less] ends_then) (simp_all add: ends_done)
    qed
    then show "ends r (\<lambda>n. and_then (sep s) (\<lambda>more s. if \<not> more \<or> early s then done_with [x] s
        else and_then (separated_for k sep early (p n) s) (\<lambda>xs s. done_with (x # xs) s))) s"
      by (simp add: sep(1) and_then_Some)
  qed
qed simp

lemma halts_separated:
  assumes "\<And>s r'. r' \<le> r \<Longrightarrow> ends r' (\<lambda>n. p n s) s" "eats sep"
  shows "ends r (\<lambda>n. separated_list sep early (p n) s) s"
proof (cases "work s \<le> r")
  case True
  have "ends (work s) (\<lambda>n. separated_list sep early (p n) s) s"
    unfolding separated_list_def
    by (rule halts_separated_for [OF _ assms(2) work_fuel]) (use assms(1) True in simp)
  then show ?thesis by (rule ends_own)
next
  case False
  then show ?thesis by (simp add: ends_def within_work)
qed

text \<open>A value that is extended while a part consumes ends too.\<close>

lemma halts_extend_by:
  assumes "\<And>x s r'. r' \<le> r \<Longrightarrow> (\<forall>n. grow n x s = None) \<or>
      (\<exists>p. (\<forall>n. grow n x s = Some (p n)) \<and> moves r' (\<lambda>n. p n s) s)"
    and "r < k"
  shows "ends r (\<lambda>n. extend_by k (grow n) x s) s"
  using assms
proof (induction k arbitrary: r x s)
  case (Suc k)
  consider "\<forall>n. grow n x s = None" | p where "\<forall>n. grow n x s = Some (p n)" "moves r (\<lambda>n. p n s) s"
    using Suc.prems(1) [of r x s] by blast
  then show ?case
  proof cases
    case 1
    then show ?thesis by (simp add: settle_rules)
  next
    case 2
    have "moves r (\<lambda>n. and_then (p n s) (\<lambda>x s. extend_by k (grow n) x s)) s"
    proof (rule moves_then_less [OF 2(2)])
      fix a t assume "0 < r"
      then show "ends (r - 1) (\<lambda>n. extend_by k (grow n) a t) t"
        using Suc.prems by (intro Suc.IH) auto
    qed
    then show ?thesis using 2(1) by (simp add: moves_ends)
  qed
qed simp

lemma halts_extended:
  assumes "\<And>x s r'. r' \<le> r \<Longrightarrow> (\<forall>n. grow n x s = None) \<or>
      (\<exists>p. (\<forall>n. grow n x s = Some (p n)) \<and> moves r' (\<lambda>n. p n s) s)"
  shows "ends r (\<lambda>n. extend_by (loop_fuel s) (grow n) x s) s"
proof (cases "work s \<le> r")
  case True
  have "ends (work s) (\<lambda>n. extend_by (loop_fuel s) (grow n) x s) s"
    by (rule halts_extend_by [OF assms work_fuel]) (use True in simp)
  then show ?thesis by (rule ends_own)
next
  case False
  then show ?thesis by (simp add: ends_def within_work)
qed

lemma consumes_after_next:
  assumes "peek s \<noteq> None" "\<And>a t. 0 < r \<Longrightarrow> ends (r - 1) (\<lambda>n. K n a t) t"
  shows "moves r (\<lambda>n. and_then (next_token s) (K n)) s"
  by (rule moves_then_less) (simp_all add: consumes_next assms del: One_nat_def)

end

end
