(* ===== verification/TplParseHalt.thy ===== *)
theory TplParseHalt
  imports TplParseDecl CursorHalt
begin

text \<open>
  Every part of the template parser ends without a panic if the parsers it calls do, and the parts
  that succeed only after a token was consumed move. The clock is the number of tokens left.
\<close>

subsection \<open>The clock of the parser\<close>

text \<open>No token of this language is ever split.\<close>

definition one_each :: "'f token_kind \<Rightarrow> nat" where
  "one_each k = 1"

interpretation pc: token_clock one_each
  by unfold_locales (simp_all add: one_each_def)

abbreviation halts :: "nat \<Rightarrow> (nat \<Rightarrow> ('f parse_error, 'a, 'f parser) result) \<Rightarrow> 'f parser \<Rightarrow> bool" where
  "halts \<equiv> pc.ends"

abbreviation consumes :: "nat \<Rightarrow> (nat \<Rightarrow> ('f parse_error, 'a, 'f parser) result) \<Rightarrow> 'f parser \<Rightarrow> bool" where
  "consumes \<equiv> pc.moves"

lemma work_left: "pc.work s = tokens_left s"
  by (simp add: pc.work_def tokens_left_def one_each_def sum_list_triv)

lemma within_left: "pc.within r s \<longleftrightarrow> tokens_left s \<le> r"
  by (simp add: pc.within_work work_left)

lemma consumes_ident: "consumes r (\<lambda>n. expect_ident s) s"
proof (cases "\<exists>t name. peek s = Some t \<and> tk_kind t = TkIdent name")
  case True
  then obtain t name where t: "peek s = Some t" "tk_kind t = TkIdent name" by blast
  have "consumes r (\<lambda>n. and_then (next_token s) (\<lambda>tok s. done_with (name, tk_span tok) s)) s"
    by (intro pc.moves_then pc.consumes_next settle_rules) (simp_all add: t)
  then show ?thesis by (simp add: expect_ident_def t)
next
  case False
  then have "\<exists>e. expect_ident s = Some (Err e, s)"
    by (auto simp: expect_ident_def fail_with_def split: option.split token_kind.split)
  then show ?thesis by (auto intro!: pc.consumes_const)
qed

lemmas halts_ident [settle_rules] = pc.moves_ends [OF consumes_ident]

lemma halts_eat_keyword [settle_rules]: "halts r (\<lambda>n. eat_keyword k s) s"
  by (simp add: eat_keyword_def pc.halts_eat)

lemma consumes_comma_list:
  assumes "\<And>s. consumes r (\<lambda>n. p n s) s"
  shows "consumes r (\<lambda>n. comma_list early (p n) s) s"
  unfolding comma_list_def by (intro pc.consumes_separated assms pc.halts_eat)

lemmas halts_comma_list [settle_rules] = pc.moves_ends [OF consumes_comma_list]

subsection \<open>Expressions\<close>

definition expr_calm :: "nat \<Rightarrow> (nat \<Rightarrow> 'f parsers) \<Rightarrow> bool" where
  "expr_calm r Y \<longleftrightarrow> (\<forall>bp s. consumes r (\<lambda>n. pr_expr (Y n) bp s) s)"

lemma consumes_expr: "expr_calm r Y \<Longrightarrow> consumes r (\<lambda>n. pr_expr (Y n) bp s) s"
  by (simp add: expr_calm_def)

lemmas halts_expr = pc.moves_ends [OF consumes_expr]

lemma expr_calm_less: "expr_calm r Y \<Longrightarrow> r' \<le> r \<Longrightarrow> expr_calm r' Y"
  by (auto simp: expr_calm_def intro: pc.moves_less)

lemma halts_call_args: "expr_calm r Y \<Longrightarrow> halts r (\<lambda>n. call_args (Y n) s) s"
  unfolding call_args_def by (intro settle_rules consumes_expr; simp)

lemma halts_prefix_operand: "expr_calm r Y \<Longrightarrow> halts r (\<lambda>n. prefix_operand (Y n) oper tok s) s"
  unfolding prefix_operand_def by (intro settle_rules halts_expr; simp)

lemma halts_eat_tag [settle_rules]: "halts r (\<lambda>n. eat_tag s) s"
  unfolding eat_tag_def by (intro settle_rules; simp)

lemma halts_sizeof: "expr_calm r Y \<Longrightarrow> halts r (\<lambda>n. sizeof_rest (Y n) tok s) s"
  unfolding sizeof_rest_def by (intro settle_rules halts_expr; simp)

lemma halts_brace_list: "expr_calm r Y \<Longrightarrow> halts r (\<lambda>n. brace_list_rest (Y n) tok s) s"
  unfolding brace_list_rest_def Let_def by (intro settle_rules consumes_expr; simp)

lemma halts_skip_tokens [settle_rules]: "halts r (\<lambda>n. skip_tokens k s) s"
  by (induction k arbitrary: s) (simp_all only: skip_tokens.simps, (intro settle_rules; simp)+)

lemma halts_paren: "expr_calm r Y \<Longrightarrow> halts r (\<lambda>n. paren_rest (Y n) tok s) s"
  unfolding paren_rest_def by (intro settle_rules halts_expr; simp)

lemma halts_prefix_rest:
  "expr_calm r Y \<Longrightarrow> starts_prefix (tk_kind tok) \<Longrightarrow> halts r (\<lambda>n. prefix_rest (Y n) tok s) s"
  by (cases "tk_kind tok")
    (simp_all add: prefix_rest_def starts_prefix_def starts_expr_def settle_rules halts_sizeof halts_brace_list
      halts_paren halts_prefix_operand)

lemma consumes_prefix:
  assumes "0 < r \<Longrightarrow> expr_calm (r - 1) Y"
  shows "consumes r (\<lambda>n. parse_prefix (Y n) s) s"
proof (cases "\<exists>t. peek s = Some t \<and> starts_prefix (tk_kind t)")
  case True
  then obtain t where t: "peek s = Some t" "starts_prefix (tk_kind t)" by blast
  have "consumes r (\<lambda>n. and_then (skip_token s) (\<lambda>_ s. prefix_rest (Y n) t s)) s"
    by (rule pc.moves_then_less) (simp_all add: pc.consumes_skip halts_prefix_rest assms t del: One_nat_def)
  then show ?thesis by (simp add: parse_prefix_def t)
next
  case False
  then have "\<exists>e. (\<lambda>n. parse_prefix (Y n) s) = (\<lambda>n. Some (Err e, s))"
    by (cases "peek s") (auto simp: parse_prefix_def fail_with_def)
  then show ?thesis by (auto intro!: pc.consumes_const)
qed

text \<open>The forms of a suffix, as functions of the parsers they call.\<close>

inductive suffix_form :: "'f expr \<Rightarrow> ('f parsers \<Rightarrow> ('f, 'f expr) parsing) \<Rightarrow> bool" for lhs where
  form_call: "suffix_form lhs (\<lambda>Y. call_suffix Y lhs)"
| form_index: "suffix_form lhs (\<lambda>Y. index_suffix_of Y lhs)"
| form_member: "suffix_form lhs (\<lambda>Y. member_suffix lhs)"
| form_inc: "suffix_form lhs (\<lambda>Y. postfix_inc u lhs)"
| form_infix: "suffix_form lhs (\<lambda>Y. infix_suffix Y bp b lhs)"
| form_ternary: "suffix_form lhs (\<lambda>Y. ternary_suffix Y lhs)"
| form_assign: "suffix_form lhs (\<lambda>Y. assign_suffix Y a lhs)"

lemma consumes_suffix:
  assumes "suffix_form lhs p" and less: "0 < r \<Longrightarrow> expr_calm (r - 1) Y" and s: "peek s \<noteq> None"
  shows "consumes r (\<lambda>n. p (Y n) s) s"
  using assms(1)
  by cases
    (simp_all only: call_suffix_def index_suffix_of_def member_suffix_def postfix_inc_def infix_suffix_def
       ternary_suffix_def assign_suffix_def,
     (rule pc.consumes_after_next [OF s], (intro settle_rules halts_call_args halts_expr less; simp))+)

definition has_form :: "('f parsers \<Rightarrow> ('f, 'f expr) parsing option) \<Rightarrow> 'f expr \<Rightarrow> bool" where
  "has_form f lhs \<longleftrightarrow> (\<forall>Y. f Y = None) \<or> (\<exists>p. (\<forall>Y. f Y = Some (p Y)) \<and> suffix_form lhs p)"

lemma has_form_Some: "suffix_form lhs p \<Longrightarrow> has_form (\<lambda>Y. Some (p Y)) lhs"
  by (auto simp: has_form_def)

lemma has_form_None: "has_form (\<lambda>Y. None) lhs"
  by (simp add: has_form_def)

lemma has_form_if: "has_form f lhs \<Longrightarrow> has_form g lhs \<Longrightarrow> has_form (\<lambda>Y. if c then f Y else g Y) lhs"
  by (cases c) simp_all

lemma suffix_of_form: "has_form (\<lambda>Y. suffix_of Y m k lhs) lhs"
  unfolding suffix_of_def
  by (cases "infix_binding_power k"; cases "assign_token k"; simp only: option.case split_beta;
      intro has_form_if has_form_None suffix_form.intros [THEN has_form_Some])

text \<open>The loop is the generic one, its step the suffix that the next token asks for.\<close>

definition grow_suffix :: "'f parsers \<Rightarrow> nat \<Rightarrow> 'f expr \<Rightarrow> 'f parser \<Rightarrow> ('f, 'f expr) parsing option" where
  "grow_suffix Y m lhs s = Option.bind (peek_kind s) (\<lambda>k. suffix_of Y m k lhs)"

lemma extend_for_by: "extend_for k Y m lhs s = extend_by k (grow_suffix Y m) lhs s"
  by (induction k arbitrary: lhs s)
    (auto simp: grow_suffix_def peek_kind_def split: option.split bind_split intro!: arg_cong [where f = "and_then _"])

lemma grow_suffix_consumes:
  assumes "expr_calm (r - 1) Y"
  shows "(\<forall>n. grow_suffix (Y n) m lhs s = None) \<or>
     (\<exists>p. (\<forall>n. grow_suffix (Y n) m lhs s = Some (p n)) \<and> consumes r (\<lambda>n. p n s) s)"
proof (cases "peek s")
  case (Some tok)
  consider "\<forall>Y. suffix_of Y m (tk_kind tok) lhs = None"
    | p where "\<forall>Y. suffix_of Y m (tk_kind tok) lhs = Some (p Y)" "suffix_form lhs p"
    using suffix_of_form [of m "tk_kind tok" lhs] unfolding has_form_def by blast
  then show ?thesis
  proof cases
    case (2 p)
    have "consumes r (\<lambda>n. p (Y n) s) s" by (rule consumes_suffix [OF 2(2) assms]) (simp add: Some)
    then show ?thesis using 2(1) Some
      by (intro disjI2 exI [of _ "\<lambda>n. p (Y n)"]) (simp add: grow_suffix_def peek_kind_def)
  qed (simp add: grow_suffix_def peek_kind_def Some)
qed (simp add: grow_suffix_def peek_kind_def)

lemma halts_extend: 
  assumes "expr_calm r Y"
  shows "halts r (\<lambda>n. extend_expr (Y n) m lhs s) s"
proof (cases "pc.work s \<le> r")
  case True
  have "halts (pc.work s) (\<lambda>n. extend_expr (Y n) m lhs s) s"
    unfolding extend_expr_def extend_for_by
    by (intro pc.halts_extend_by grow_suffix_consumes expr_calm_less [OF assms]) (use True in \<open>auto simp: work_left\<close>)
  then show ?thesis by (rule pc.ends_own)
next
  case False
  then show ?thesis by (simp add: pc.ends_def pc.within_work)
qed

lemma consumes_expr_bp:
  assumes "0 < r \<Longrightarrow> expr_calm (r - 1) Y"
  shows "consumes r (\<lambda>n. parse_expr_bp (Y n) m s) s"
  unfolding parse_expr_bp_def
  by (rule pc.moves_then_less) (intro consumes_prefix halts_extend assms; assumption)+

subsection \<open>Types, parameters and blocks\<close>

lemma consumes_named_type: "consumes r (\<lambda>n. named_type sign s) s"
proof (cases "tagged_type_ahead s")
  case True
  then show ?thesis
    by (simp only: named_type_def if_True, intro pc.ends_then_moves [OF pc.halts_skip] pc.moves_then [OF consumes_ident])
      (intro settle_rules; simp)
next
  case False
  then show ?thesis
    by (simp only: named_type_def if_False, intro pc.moves_then [OF consumes_ident]) (intro settle_rules; simp)
qed

lemma consumes_signed_type: "consumes r (\<lambda>n. signed_type s) s"
  by (cases "sign_override s")
    (simp_all add: signed_type_def consumes_named_type pc.ends_then_moves [OF pc.halts_skip])

lemma consumes_type_ref: "consumes r (\<lambda>n. parse_type_ref s) s"
proof (cases "peek_kind s = Some (TkKeyword KwVoid)")
  case True
  then obtain t where t: "peek s = Some t" by (auto simp: peek_kind_Some)
  let ?s = "snd (bump s)"
  have "parse_type_ref s = void_type ?s"
    using True by (simp add: parse_type_ref_def eat_keyword_def eat_kind_True and_then_done)
  moreover have "void_type ?s = Some (Ok (type_ref_of (lit ''void'') (tk_span t)), ?s)"
    using t by (auto simp: void_type_def bump_def peek_def token_at_def done_with_def split: if_splits)
  ultimately show ?thesis using pc.bump_work [of s] t by (simp add: pc.consumes_const)
next
  case False
  then have "parse_type_ref s = signed_type s"
    by (simp add: parse_type_ref_def eat_keyword_def eat_kind_False and_then_done)
  then show ?thesis by (simp add: consumes_signed_type)
qed

lemmas halts_type_ref [settle_rules] = pc.moves_ends [OF consumes_type_ref]

lemma halts_bracketed: "expr_calm r Y \<Longrightarrow> halts r (\<lambda>n. bracketed_expr (Y n) s) s"
  unfolding bracketed_expr_def by (intro settle_rules halts_expr; simp)

lemma halts_array_dim: "expr_calm r Y \<Longrightarrow> halts r (\<lambda>n. parse_optional_array_dim (Y n) s) s"
  unfolding parse_optional_array_dim_def by (intro settle_rules halts_expr pc.halts_next; simp)

text \<open>Where a bracket follows, the size is consumed.\<close>

lemma consumes_array_dim:
  assumes calm: "expr_calm r Y" and s: "peek_kind s = Some TkLBracket"
  shows "consumes r (\<lambda>n. parse_optional_array_dim (Y n) s) s"
proof -
  have peek: "peek s \<noteq> None" using s by (auto simp: peek_kind_def)
  let ?rest = "\<lambda>n s. if peek_kind s = Some TkRBracket
       then and_then (next_token s) (\<lambda>close s. done_with (Some (IntLit 0 (tk_span close))) s)
       else and_then (pr_expr (Y n) 0 s) (\<lambda>e s.
            and_then (expect_kind TkRBracket '']'' s) (\<lambda>_ s. done_with (Some e) s))"
  have "consumes r (\<lambda>n. and_then (skip_token s) (\<lambda>_ s. ?rest n s)) s"
    by (rule pc.moves_then [OF pc.consumes_skip [OF peek]]) (intro settle_rules halts_expr calm pc.halts_next; simp)
  then show ?thesis
    using s by (simp add: parse_optional_array_dim_def eat_kind_True and_then_done skip_token_def)
qed

lemma consumes_attr: "expr_calm r Y \<Longrightarrow> consumes r (\<lambda>n. parse_attr (Y n) s) s"
  unfolding parse_attr_def by (intro pc.moves_then [OF consumes_ident]) (intro settle_rules halts_expr; simp)

lemma halts_attrs: "expr_calm r Y \<Longrightarrow> halts r (\<lambda>n. parse_optional_attrs (Y n) s) s"
  unfolding parse_optional_attrs_def by (intro settle_rules consumes_attr; simp)

lemma halts_param_array: "expr_calm r Y \<Longrightarrow> halts r (\<lambda>n. param_array (Y n) s) s"
  unfolding param_array_def by (intro settle_rules halts_expr; simp)

lemma halts_eat_qualifier [settle_rules]: "halts r (\<lambda>n. eat_qualifier s) s"
  unfolding eat_qualifier_def by (intro settle_rules; simp)

lemma consumes_param: "expr_calm r Y \<Longrightarrow> consumes r (\<lambda>n. parse_param (Y n) s) s"
  unfolding parse_param_def
  by (rule pc.ends_then_moves [OF halts_eat_qualifier], rule pc.ends_then_moves [OF halts_eat_tag],
      rule pc.moves_then [OF consumes_type_ref])
    (intro settle_rules halts_param_array; simp)

lemma halts_struct_params: "expr_calm r Y \<Longrightarrow> halts r (\<lambda>n. parse_optional_struct_params (Y n) s) s"
  unfolding parse_optional_struct_params_def by (intro settle_rules consumes_param; simp)

subsection \<open>Statements\<close>

definition stmt_calm :: "nat \<Rightarrow> (nat \<Rightarrow> 'f parsers) \<Rightarrow> bool" where
  "stmt_calm r Y \<longleftrightarrow> (\<forall>s. consumes r (\<lambda>n. pr_stmt (Y n) s) s)"

definition both_calm :: "nat \<Rightarrow> (nat \<Rightarrow> 'f parsers) \<Rightarrow> bool" where
  "both_calm r Y \<longleftrightarrow> expr_calm r Y \<and> stmt_calm r Y"

lemma both_calmD: "both_calm r Y \<Longrightarrow> expr_calm r Y"
  by (simp add: both_calm_def)

lemma consumes_stmt: "both_calm r Y \<Longrightarrow> consumes r (\<lambda>n. pr_stmt (Y n) s) s"
  by (simp add: stmt_calm_def both_calm_def)

lemmas halts_stmt = pc.moves_ends [OF consumes_stmt]

lemma parse_body_eq:
  "parse_body Y s =
     and_then (expect_kind TkLBrace ''{'' s) (\<lambda>open s.
     and_then (items_until at_block_end (pr_stmt Y) s) (\<lambda>stmts s.
     and_then (expect_kind TkRBrace ''}'' s) (\<lambda>close s.
       done_with (stmts, from_to (tk_span open) (tk_span close)) s)))"
  by (simp add: parse_body_def parse_block_def and_then_assoc and_then_done block_parts_def)

lemma consumes_body:
  assumes "0 < r \<Longrightarrow> both_calm (r - 1) Y"
  shows "consumes r (\<lambda>n. parse_body (Y n) s) s"
  unfolding parse_body_eq
  by (rule pc.moves_then_less [OF pc.consumes_expect]) (intro settle_rules consumes_stmt assms; simp)

lemma both_calm_less: "both_calm r Y \<Longrightarrow> r' \<le> r \<Longrightarrow> both_calm r' Y"
  unfolding both_calm_def stmt_calm_def by (intro conjI allI; elim conjE) (rule expr_calm_less pc.moves_less; simp)+

lemma halts_body: "both_calm r Y \<Longrightarrow> halts r (\<lambda>n. parse_body (Y n) s) s"
  by (rule pc.moves_ends [OF consumes_body]) (erule both_calm_less, simp)

lemma consumes_block:
  assumes "0 < r \<Longrightarrow> both_calm (r - 1) Y"
  shows "consumes r (\<lambda>n. parse_block (Y n) s) s"
  unfolding parse_block_def
  by (rule pc.moves_then_less [OF pc.consumes_expect]) (intro settle_rules consumes_stmt assms; simp)

lemma halts_paren_cond: "both_calm r Y \<Longrightarrow> halts r (\<lambda>n. paren_cond (Y n) s) s"
  unfolding paren_cond_def by (intro settle_rules halts_expr both_calmD; simp)

lemma consumes_arm:
  assumes calm: "both_calm r Y"
  shows "consumes r (\<lambda>n. parse_arm (Y n) s) s"
proof -
  have "consumes r (\<lambda>n. arm_pattern (Y n) k s) s" for k
  proof (cases "peek_kind s = Some (TkKeyword KwCase) \<or> peek_kind s = Some (TkKeyword KwDefault)")
    case True
    have peek: "peek s \<noteq> None" using True by (auto simp: peek_kind_def)
    have "consumes r (\<lambda>n. and_then (skip_token s) (\<lambda>_ s.
        if c then and_then (pr_expr (Y n) 0 s) (\<lambda>pat s.
                  and_then (expect_kind TkColon '':'' s) (\<lambda>_ s. done_with (Some pat) s))
        else and_then (expect_kind TkColon '':'' s) (\<lambda>_ s. done_with None s))) s" for c
      by (rule pc.moves_then [OF pc.consumes_skip [OF peek]])
        (intro settle_rules halts_expr both_calmD [OF calm]; simp)
    from this [of True] this [of False] show ?thesis
      using True by (auto simp: arm_pattern_def eat_keyword_def eat_kind_True eat_kind_False and_then_done skip_token_def)
  next
    case False
    then show ?thesis
      by (auto simp: arm_pattern_def eat_keyword_def eat_kind_False and_then_done fail_with_def
          intro!: pc.consumes_const)
  qed
  then show ?thesis
    unfolding parse_arm_def Let_def
    by (rule pc.moves_then) (intro settle_rules consumes_stmt calm; simp)
qed

lemma consumes_keyword_stmts:
  assumes less: "0 < r \<Longrightarrow> both_calm (r - 1) Y" and s: "peek s \<noteq> None"
  shows "consumes r (\<lambda>n. parse_if (Y n) s) s" "consumes r (\<lambda>n. parse_while (Y n) s) s"
    "consumes r (\<lambda>n. parse_do_while (Y n) s) s" "consumes r (\<lambda>n. parse_for (Y n) s) s"
    "consumes r (\<lambda>n. parse_return (Y n) s) s" "consumes r (\<lambda>n. parse_jump j s) s"
    "consumes r (\<lambda>n. parse_empty s) s" "consumes r (\<lambda>n. parse_switch (Y n) s) s"
  by (simp_all only: parse_if_def parse_while_def parse_do_while_def parse_for_def parse_return_def
      parse_jump_def parse_empty_def parse_switch_def Let_def)
    (rule pc.consumes_after_next [OF s],
     (intro settle_rules halts_paren_cond halts_stmt halts_expr consumes_arm both_calmD less; simp))+

lemma consumes_expr_stmt:
  assumes "expr_calm r Y"
  shows "consumes r (\<lambda>n. parse_expr_stmt (Y n) s) s"
  unfolding parse_expr_stmt_def
  by (rule pc.moves_then [OF consumes_expr [OF assms]]) (intro settle_rules; simp)

subsection \<open>Declarations\<close>

lemma consumes_variant: "expr_calm r Y \<Longrightarrow> consumes r (\<lambda>n. parse_enum_variant (Y n) s) s"
  unfolding parse_enum_variant_def Let_def
  by (intro pc.moves_then [OF consumes_ident]) (intro settle_rules halts_expr; simp)

lemma halts_enum_backing [settle_rules]: "halts r (\<lambda>n. enum_backing s) s"
  unfolding enum_backing_def by (intro settle_rules; simp)

lemma halts_enum_body: "expr_calm r Y \<Longrightarrow> halts r (\<lambda>n. enum_body (Y n) s) s"
  unfolding enum_body_def by (intro settle_rules consumes_variant; simp)

lemma halts_optional_name [settle_rules]: "halts r (\<lambda>n. optional_name b s) s"
  unfolding optional_name_def by (intro settle_rules; simp)

lemma halts_decl_names [settle_rules]: "halts r (\<lambda>n. decl_names msg start tag al s) s"
  unfolding decl_names_def by (intro settle_rules; simp)

lemma halts_typedef_enum: "expr_calm r Y \<Longrightarrow> halts r (\<lambda>n. typedef_enum_rest (Y n) start s) s"
  unfolding typedef_enum_rest_def Let_def by (intro settle_rules halts_enum_body halts_attrs; simp)

lemma further_modifiers [simp]: "pc.further s (snd (eat_modifiers m s))"
proof (induction m s rule: eat_modifiers.induct)
  case (1 m s)
  have *: "pc.further s t" if "pc.further (snd (bump s)) t" for t
    using that pc.further_bump [of s] by (auto simp: pc.further_def)
  show ?case by (subst eat_modifiers.simps) (simp add: 1 *)
qed

lemma halts_bitfield_name [settle_rules]: "halts r (\<lambda>n. bitfield_name s) s"
  unfolding bitfield_name_def by (intro settle_rules; simp)

lemma halts_struct_args: "expr_calm r Y \<Longrightarrow> halts r (\<lambda>n. struct_args (Y n) s) s"
  unfolding struct_args_def by (intro settle_rules consumes_expr; simp)

lemma halts_extra_dims: "expr_calm r Y \<Longrightarrow> halts r (\<lambda>n. extra_dims (Y n) s) s"
  unfolding extra_dims_def by (intro settle_rules consumes_array_dim; simp)

lemma halts_bit_width: "expr_calm r Y \<Longrightarrow> halts r (\<lambda>n. bit_width_of (Y n) s) s"
  unfolding bit_width_of_def by (intro settle_rules halts_expr; simp)

lemma halts_field_init: "expr_calm r Y \<Longrightarrow> halts r (\<lambda>n. field_init (Y n) s) s"
  unfolding field_init_def by (intro settle_rules halts_expr; simp)

lemmas halts_declarator_parts =
  halts_array_dim halts_struct_args halts_extra_dims halts_bit_width halts_attrs halts_field_init

lemma halts_first_declarator: "expr_calm r Y \<Longrightarrow> halts r (\<lambda>n. first_declarator (Y n) start md ty s) s"
  unfolding first_declarator_def by (intro settle_rules halts_declarator_parts; simp)

lemma consumes_next_declarator:
  assumes "expr_calm r Y" "peek_kind s = Some TkComma"
  shows "consumes r (\<lambda>n. next_declarator (Y n) start md ty s) s"
  unfolding next_declarator_def Let_def
  by (rule pc.moves_then [OF pc.consumes_next])
    (use assms in \<open>auto simp: peek_kind_def\<close>, (intro settle_rules halts_declarator_parts assms; simp))

lemma halts_declarators: "expr_calm r Y \<Longrightarrow> halts r (\<lambda>n. declarators (Y n) start md ty s) s"
  unfolding declarators_def by (intro settle_rules halts_first_declarator consumes_next_declarator; simp)

lemma consumes_field_decl:
  assumes "expr_calm r Y"
  shows "consumes r (\<lambda>n. parse_field_decl (Y n) None s) s"
  unfolding parse_field_decl_def Let_def split_beta option.case
  by (rule pc.moves_at [OF pc.moves_then [OF consumes_type_ref]]) (simp_all add: halts_declarators assms)

lemma halts_field_decl:
  assumes "expr_calm r Y"
  shows "halts r (\<lambda>n. parse_field_decl (Y n) ty s) s"
  unfolding parse_field_decl_def Let_def split_beta
  by (rule pc.ends_at [where t = "snd (eat_modifiers ModField s)"])
    (intro settle_rules halts_declarators assms, simp_all)

lemma consumes_inline_field:
  "expr_calm r Y \<Longrightarrow> consumes r (\<lambda>n. inline_enum_field (Y n) start ty s) s"
  unfolding inline_enum_field_def
  by (intro pc.moves_then [OF consumes_ident])
    (intro settle_rules halts_bracketed halts_bit_width halts_attrs; simp)

lemma halts_struct_field: "expr_calm r Y \<Longrightarrow> halts r (\<lambda>n. struct_field (Y n) start st ty s) s"
  unfolding struct_field_def Let_def by (intro settle_rules halts_bracketed halts_attrs; simp)

lemma halts_struct_end: "expr_calm r Y \<Longrightarrow> halts r (\<lambda>n. struct_end (Y n) start name ps body u s) s"
  unfolding struct_end_def by (intro settle_rules halts_attrs; simp)

lemma halts_named_struct: "both_calm r Y \<Longrightarrow> halts r (\<lambda>n. named_struct (Y n) start u s) s"
  unfolding named_struct_def
  by (intro settle_rules pc.halts_next halts_struct_params halts_body halts_struct_field halts_struct_end
      halts_field_decl both_calmD; simp)

lemma halts_anonymous_struct: "both_calm r Y \<Longrightarrow> halts r (\<lambda>n. anonymous_struct (Y n) start u s) s"
  unfolding anonymous_struct_def Let_def
  by (intro settle_rules halts_body halts_attrs halts_struct_field both_calmD; simp)

lemma halts_typedef_struct: "both_calm r Y \<Longrightarrow> halts r (\<lambda>n. typedef_struct_rest (Y n) start u s) s"
  unfolding typedef_struct_rest_def Let_def
  by (intro settle_rules halts_struct_params halts_body halts_attrs both_calmD; simp)

lemma halts_typedef_alias: "expr_calm r Y \<Longrightarrow> halts r (\<lambda>n. typedef_alias_rest (Y n) start s) s"
  unfolding typedef_alias_rest_def by (intro settle_rules halts_bracketed halts_attrs; simp)

lemma consumes_type_stmts:
  assumes less: "0 < r \<Longrightarrow> both_calm (r - 1) Y" and s: "peek s \<noteq> None"
  shows "consumes r (\<lambda>n. parse_inline_enum_field (Y n) s) s"
    "consumes r (\<lambda>n. parse_struct_stmt (Y n) s) s" "consumes r (\<lambda>n. parse_typedef (Y n) s) s"
  by (simp_all only: parse_inline_enum_field_def parse_struct_stmt_def parse_typedef_def Let_def)
    (rule pc.consumes_after_next [OF s],
     (intro settle_rules pc.halts_next halts_enum_body consumes_inline_field halts_named_struct
        halts_anonymous_struct halts_typedef_enum halts_typedef_struct halts_typedef_alias both_calmD less; simp))+

lemma consumes_function_def:
  assumes calm: "both_calm r Y"
  shows "consumes r (\<lambda>n. parse_function_def (Y n) s) s"
  unfolding parse_function_def_def Let_def
  by (rule pc.moves_then [OF consumes_type_ref])
    (intro settle_rules consumes_param pc.halts_next halts_body both_calmD calm; simp)

subsection \<open>The parser\<close>

lemma consumes_decl_or_expr:
  assumes "expr_calm r Y"
  shows "consumes r (\<lambda>n. decl_or_expr (Y n) s) s"
  by (cases "looks_like_field_decl s")
    (simp_all add: decl_or_expr_def consumes_field_decl consumes_expr_stmt assms)

lemma consumes_parse_stmt:
  assumes less: "0 < r \<Longrightarrow> both_calm (r - 1) Y" and expr: "expr_calm r Y"
  shows "consumes r (\<lambda>n. parse_stmt (Y n) s) s"
proof (cases "peek_kind s")
  case None
  then show ?thesis by (auto simp: parse_stmt_def fail_with_def intro!: pc.consumes_const)
next
  case (Some k)
  then have s: "peek s \<noteq> None" by (auto simp: peek_kind_def)
  note rules = consumes_block [OF less] consumes_keyword_stmts [OF less s] consumes_type_stmts [OF less s]
    consumes_expr_stmt [OF expr] consumes_field_decl [OF expr] consumes_decl_or_expr [OF expr]
  have "consumes r (\<lambda>n. keyword_stmt (Y n) kw s) s" for kw
    by (cases kw; cases "is_enum_type_decl_start s"; simp only: keyword_stmt_def keyword.case if_True if_False;
        rule rules; assumption)
  then show ?thesis
    by (cases k) (simp_all only: parse_stmt_def Some option.case token_kind.case rules)
qed

lemma parsers_fields [simp]:
  "pr_expr (parsers_step Y) = parse_expr_bp Y" "pr_stmt (parsers_step Y) = parse_stmt Y"
  by (simp_all add: parsers_step_def)

lemma parsers_calm: "both_calm r (parsers :: nat \<Rightarrow> 'f parsers)"
proof (induction r rule: less_induct)
  case (less r)
  have below: "both_calm (r - 1) (parsers :: nat \<Rightarrow> 'f parsers)" if "0 < r" by (rule less) (use that in simp)
  have expr: "expr_calm r (parsers :: nat \<Rightarrow> 'f parsers)"
    unfolding expr_calm_def
  proof (intro allI)
    fix bp and s :: "'f parser"
    have "consumes r (\<lambda>n. parse_expr_bp (parsers n) bp s) s"
      by (rule consumes_expr_bp) (rule both_calmD [OF below])
    then show "consumes r (\<lambda>n. pr_expr (parsers n) bp s) s" by (rule pc.moves_shift) simp
  qed
  moreover have "stmt_calm r (parsers :: nat \<Rightarrow> 'f parsers)"
    unfolding stmt_calm_def
  proof (intro allI)
    fix s :: "'f parser"
    have "consumes r (\<lambda>n. parse_stmt (parsers n) s) s"
      by (rule consumes_parse_stmt [OF below expr])
    then show "consumes r (\<lambda>n. pr_stmt (parsers n) s) s" by (rule pc.moves_shift) simp
  qed
  ultimately show ?case by (simp add: both_calm_def)
qed

lemma consumes_top_item: "consumes r (\<lambda>n. parse_top_item (parsers n) s) s"
proof -
  have "consumes r (\<lambda>n. parse_stmt (parsers n) s) s"
    by (rule consumes_parse_stmt) (simp_all add: parsers_calm both_calmD [OF parsers_calm])
  then have "consumes r (\<lambda>n. and_then (parse_stmt (parsers n) s) (\<lambda>st s. done_with (TopStmt st) s)) s"
    by (rule pc.moves_then) (intro settle_rules; simp)
  moreover have "consumes r (\<lambda>n. and_then (parse_function_def (parsers n) s) (\<lambda>f s. done_with (TopFunction f) s)) s"
    by (rule pc.moves_then [OF consumes_function_def [OF parsers_calm]]) (intro settle_rules; simp)
  ultimately show ?thesis
    by (cases "looks_like_function_def s") (simp_all add: parse_top_item_def)
qed

text \<open>Every list of tokens is parsed, to a program or to an error, and never to a panic.\<close>

lemma parse_ends:
  "\<exists>N out. out \<noteq> Panic \<and> (\<forall>n\<ge>N. parse n tokens = Some out)"
proof -
  let ?s = "parser_new tokens"
  have "halts (pc.work ?s) (\<lambda>n. items_until at_eof (parse_top_item (parsers n)) ?s) ?s"
    by (intro pc.halts_items consumes_top_item)
  then have "\<exists>out t. pc.further ?s t \<and> pc.safe out \<and>
      settles_on (\<lambda>n. items_until at_eof (parse_top_item (parsers n)) ?s) out t"
    by (rule pc.endsE) (simp add: pc.within_work)
  then obtain N out t where "pc.safe out"
      "\<forall>n\<ge>N. items_until at_eof (parse_top_item (parsers n)) ?s = Some (out, t)"
    unfolding settles_on_def by blast
  then have "out \<noteq> Panic \<and> (\<forall>n\<ge>N. parse n tokens = Some out)"
    by (auto simp: parse_def pc.safe_def)
  then show ?thesis by blast
qed

end
