(* ===== verification/TplPrint.thy ===== *)
theory TplPrint
  imports TplParseHalt
begin

text \<open>
  A printer of expressions, as the specification of the parser's grammar: the operators by their
  precedence in C, all of them left associative, except that a conditional binds like \<open>&&\<close> and an
  assignment weakest; parentheses only where the grammar needs them.
\<close>

subsection \<open>The grammar\<close>

fun bin_token :: "bin_op \<Rightarrow> 'f token_kind" where
  "bin_token OpAdd = TkPlus" | "bin_token OpSub = TkMinus" | "bin_token OpMul = TkStar"
| "bin_token OpDiv = TkSlash" | "bin_token OpRem = TkPercent"
| "bin_token OpEq = TkEqEq" | "bin_token OpNotEq = TkNotEq" | "bin_token OpLt = TkLt"
| "bin_token OpGt = TkGt" | "bin_token OpLtEq = TkLtEq" | "bin_token OpGtEq = TkGtEq"
| "bin_token OpLogicalAnd = TkAmpAmp" | "bin_token OpLogicalOr = TkPipePipe"
| "bin_token OpBitAnd = TkAmp" | "bin_token OpBitOr = TkPipe" | "bin_token OpBitXor = TkCaret"
| "bin_token OpShl = TkShl" | "bin_token OpShr = TkShr"

fun bin_level :: "bin_op \<Rightarrow> nat" where
  "bin_level OpLogicalOr = 3"
| "bin_level OpLogicalAnd = 5"
| "bin_level OpBitOr = 7"
| "bin_level OpBitXor = 9"
| "bin_level OpBitAnd = 11"
| "bin_level OpEq = 13" | "bin_level OpNotEq = 13"
| "bin_level OpLt = 15" | "bin_level OpGt = 15" | "bin_level OpLtEq = 15" | "bin_level OpGtEq = 15"
| "bin_level OpShl = 17" | "bin_level OpShr = 17"
| "bin_level OpAdd = 19" | "bin_level OpSub = 19"
| "bin_level OpMul = 21" | "bin_level OpDiv = 21" | "bin_level OpRem = 21"

fun assign_token_of :: "assign_op \<Rightarrow> 'f token_kind" where
  "assign_token_of AssignOp = TkEq" | "assign_token_of AddAssign = TkPlusEq"
| "assign_token_of SubAssign = TkMinusEq" | "assign_token_of MulAssign = TkStarEq"
| "assign_token_of DivAssign = TkSlashEq" | "assign_token_of RemAssign = TkPercentEq"
| "assign_token_of AndAssign = TkAmpEq" | "assign_token_of OrAssign = TkPipeEq"
| "assign_token_of XorAssign = TkCaretEq" | "assign_token_of ShlAssign = TkShlEq"
| "assign_token_of ShrAssign = TkShrEq"

fun prefix_token :: "unary_op \<Rightarrow> 'f token_kind option" where
  "prefix_token OpNeg = Some TkMinus" | "prefix_token OpPos = Some TkPlus"
| "prefix_token OpNot = Some TkBang" | "prefix_token OpBitNot = Some TkTilde"
| "prefix_token OpPreInc = Some TkPlusPlus" | "prefix_token OpPreDec = Some TkMinusMinus"
| "prefix_token OpPostInc = None" | "prefix_token OpPostDec = None"

fun postfix_token :: "unary_op \<Rightarrow> 'f token_kind" where
  "postfix_token OpPostInc = TkPlusPlus" | "postfix_token u = TkMinusMinus"

text \<open>How strongly the operator at the front of what follows an expression binds it.\<close>

datatype follower = FollowEnd | FollowPostfix | FollowOp nat

text \<open>
  An expression binds at \<open>m\<close> if all operators on its left spine bind at least as strongly; it is
  closed against what follows if no operator on its right edge takes less than that.
\<close>

fun binds_at :: "nat \<Rightarrow> 'f expr \<Rightarrow> bool" where
  "binds_at m (BinaryE b l r sp) \<longleftrightarrow> m \<le> bin_level b"
| "binds_at m (AssignE a t v sp) \<longleftrightarrow> m \<le> 2"
| "binds_at m (TernaryE c t e sp) \<longleftrightarrow> m \<le> 5"
| "binds_at m e \<longleftrightarrow> True"

fun stops_at :: "nat \<Rightarrow> follower \<Rightarrow> bool" where
  "stops_at m FollowEnd \<longleftrightarrow> True"
| "stops_at m FollowPostfix \<longleftrightarrow> False"
| "stops_at m (FollowOp l) \<longleftrightarrow> l < m"

fun closed_before :: "follower \<Rightarrow> 'f expr \<Rightarrow> bool" where
  "closed_before f (BinaryE b l r sp) \<longleftrightarrow>
     stops_at (bin_level b + 1) f \<and> (binds_at (bin_level b + 1) r \<longrightarrow> closed_before f r)"
| "closed_before f (AssignE a t v sp) \<longleftrightarrow> stops_at 2 f \<and> (binds_at 2 v \<longrightarrow> closed_before f v)"
| "closed_before f (TernaryE c t e sp) \<longleftrightarrow> stops_at 5 f \<and> (binds_at 5 e \<longrightarrow> closed_before f e)"
| "closed_before f (UnaryE u e sp) \<longleftrightarrow>
     prefix_token u = (None :: 'f token_kind option) \<or>
     stops_at 30 f \<and> (binds_at 30 e \<longrightarrow> closed_before f e)"
| "closed_before f e \<longleftrightarrow> True"

fun commas :: "'f token_kind list list \<Rightarrow> 'f token_kind list" where
  "commas [] = []"
| "commas [ks] = ks"
| "commas (ks # kss) = ks @ TkComma # commas kss"

definition parens :: "bool \<Rightarrow> 'f token_kind list \<Rightarrow> 'f token_kind list" where
  "parens b ks = (if b then ks else TkLParen # ks @ [TkRParen])"

fun print_expr :: "'f expr \<Rightarrow> 'f token_kind list" where
  "print_expr (IntLit v sp) = [TkInt v]"
| "print_expr (FloatLit v sp) = [TkFloat v]"
| "print_expr (StringLit v sp) = [TkString v]"
| "print_expr (CharLit v sp) = [TkChar v]"
| "print_expr (Ident n sp) = [TkIdent n]"
| "print_expr (BinaryE b l r sp) =
     parens (closed_before (FollowOp (bin_level b)) l) (print_expr l) @
     bin_token b # parens (binds_at (bin_level b + 1) r) (print_expr r)"
| "print_expr (UnaryE u e sp) =
     (case prefix_token u of
        Some k \<Rightarrow> k # parens (binds_at 30 e) (print_expr e)
      | None \<Rightarrow> parens (closed_before FollowPostfix e) (print_expr e) @ [postfix_token u])"
| "print_expr (CallE c as sp) =
     parens (closed_before FollowPostfix c) (print_expr c) @
     TkLParen # commas (map print_expr as) @ [TkRParen]"
| "print_expr (IndexE t i sp) =
     parens (closed_before FollowPostfix t) (print_expr t) @ TkLBracket # print_expr i @ [TkRBracket]"
| "print_expr (MemberE t n sp) =
     parens (closed_before FollowPostfix t) (print_expr t) @ [TkDot, TkIdent n]"
| "print_expr (AssignE a t v sp) =
     parens (closed_before (FollowOp 2) t) (print_expr t) @
     assign_token_of a # parens (binds_at 2 v) (print_expr v)"
| "print_expr (TernaryE c t e sp) =
     parens (closed_before (FollowOp 5) c) (print_expr c) @
     TkQuestion # print_expr t @ TkColon # parens (binds_at 5 e) (print_expr e)"

text \<open>The expression with all spans empty, as the tokens of a printed expression have them.\<close>

fun erase :: "'f expr \<Rightarrow> 'f expr" where
  "erase (IntLit v sp) = IntLit v no_span"
| "erase (FloatLit v sp) = FloatLit v no_span"
| "erase (StringLit v sp) = StringLit v no_span"
| "erase (CharLit v sp) = CharLit v no_span"
| "erase (Ident n sp) = Ident n no_span"
| "erase (BinaryE b l r sp) = BinaryE b (erase l) (erase r) no_span"
| "erase (UnaryE u e sp) = UnaryE u (erase e) no_span"
| "erase (CallE c as sp) = CallE (erase c) (map erase as) no_span"
| "erase (IndexE t i sp) = IndexE (erase t) (erase i) no_span"
| "erase (MemberE t n sp) = MemberE (erase t) n no_span"
| "erase (AssignE a t v sp) = AssignE a (erase t) (erase v) no_span"
| "erase (TernaryE c t e sp) = TernaryE (erase c) (erase t) (erase e) no_span"

subsection \<open>Facts about the printer\<close>

lemma span_erase [simp]: "expr_span (erase e) = no_span"
  by (cases e) simp_all

lemma with_span_erase [simp]: "with_span (erase e) no_span = erase e"
  by (cases e) simp_all

lemma from_to_no_span [simp]: "from_to no_span no_span = no_span"
  by (simp add: from_to_def no_span_def span_new_def)

lemma binds_at_0 [simp]: "binds_at 0 e" "binds_at (Suc 0) e"
proof -
  have "1 \<le> bin_level b" for b by (cases b) simp_all
  then show "binds_at 0 e" "binds_at (Suc 0) e" by (cases e; simp)+
qed

lemma closed_before_end [simp]: "closed_before FollowEnd e"
  by (induction e) simp_all

text \<open>An operator that the left child is closed against binds no stronger than the child.\<close>

lemma closed_binds: "closed_before (FollowOp l) e \<Longrightarrow> m \<le> l \<Longrightarrow> binds_at m e"
  by (cases e) auto

lemma closed_postfix_binds: "closed_before FollowPostfix e \<Longrightarrow> binds_at m e"
  by (cases e) auto

lemma print_not_Nil [simp]: "print_expr e \<noteq> []"
  by (cases e) (simp_all add: parens_def split: option.split)

text \<open>
  What a printed expression starts with: only a lone identifier can look like the type of a cast,
  and none like a declaration.
\<close>

fun no_cast :: "'f token_kind list \<Rightarrow> bool" where
  "no_cast (TkIdent n # k # ks) \<longleftrightarrow> k \<noteq> TkRParen \<and> k \<noteq> TkColon \<and> \<not> is_ident (Some k)"
| "no_cast [TkIdent n] \<longleftrightarrow> False"
| "no_cast ks \<longleftrightarrow> True"

lemma no_cast_append: "no_cast ks \<Longrightarrow> ks \<noteq> [] \<Longrightarrow> no_cast (ks @ xs)"
  by (cases ks rule: no_cast.cases) simp_all

lemma bin_token_simps [simp]: "bin_token b \<noteq> TkRParen" "bin_token b \<noteq> TkColon" "bin_token b \<noteq> TkIdent n"
  by (cases b; simp)+

lemma assign_token_simps [simp]: "assign_token_of a \<noteq> TkRParen" "assign_token_of a \<noteq> TkColon" "assign_token_of a \<noteq> TkIdent n"
  by (cases a; simp)+

lemma postfix_token_simps [simp]: "postfix_token u \<noteq> TkRParen" "postfix_token u \<noteq> TkColon" "postfix_token u \<noteq> TkIdent n"
  by (cases u; simp)+

lemma is_ident_simps [simp]: "is_ident None \<longleftrightarrow> False" "is_ident (Some k) \<longleftrightarrow> (\<exists>n. k = TkIdent n)"
  by (auto simp: is_ident_def split: token_kind.split)

lemma prefix_token_ident [simp]: "prefix_token u \<noteq> Some (TkIdent n)"
  by (cases u) simp_all

lemma parens_no_cast:
  assumes "no_cast ks \<or> (\<exists>n. ks = [TkIdent n])" "ks \<noteq> []" "k \<noteq> TkRParen" "k \<noteq> TkColon" "\<And>n. k \<noteq> TkIdent n"
  shows "no_cast (parens b ks @ k # xs)"
proof (cases b)
  case True
  then show ?thesis using assms no_cast_append [of ks "k # xs"] by (auto simp: parens_def)
qed (simp add: parens_def)

lemma print_no_cast: "no_cast (print_expr e) \<or> (\<exists>n sp. e = Ident n sp)"
proof (induction e)
  case (UnaryE u e sp)
  show ?case
  proof (cases "prefix_token u :: 'a token_kind option")
    case None
    then show ?thesis using UnaryE by (auto intro!: parens_no_cast)
  next
    case (Some k)
    then have "\<And>n. k \<noteq> TkIdent n" by auto
    then show ?thesis using Some by (cases k) simp_all
  qed
qed (auto intro!: parens_no_cast)

end
