(* ===== verification/TplRoundTrip.thy ===== *)
theory TplRoundTrip
  imports TplPrint
begin

text \<open>
  Parsing what the printer of \<open>TplPrint\<close> wrote gives the expression back. A cursor is at some
  tokens, all with empty spans; reading a printed expression there moves it behind them.
\<close>

subsection \<open>A cursor at tokens\<close>

definition cursor_at :: "'f parser \<Rightarrow> 'f token_kind list \<Rightarrow> bool" where
  "cursor_at s ks \<longleftrightarrow>
     drop (ps_pos s) (ps_tokens s) = map (\<lambda>k. \<lparr>tk_kind = k, tk_span = no_span\<rparr>) ks"

definition skip :: "nat \<Rightarrow> 'f parser \<Rightarrow> 'f parser" where
  "skip n s = s\<lparr>ps_pos := ps_pos s + n\<rparr>"

lemma skip_skip [simp]: "skip a (skip b s) = skip (b + a) s"
  by (simp add: skip_def add.assoc)

lemma skip_0 [simp]: "skip 0 s = s"
  by (simp add: skip_def)

lemma cursor_skip [simp]: "cursor_at s (ks @ rest) \<Longrightarrow> cursor_at (skip (length ks) s) rest"
proof -
  assume "cursor_at s (ks @ rest)"
  then have "drop (length ks) (drop (ps_pos s) (ps_tokens s)) =
      map (\<lambda>k. \<lparr>tk_kind = k, tk_span = no_span\<rparr>) rest"
    by (simp add: cursor_at_def)
  then show ?thesis by (simp add: cursor_at_def skip_def add.commute)
qed

lemma cursor_skip_1: "cursor_at s (k # ks) \<Longrightarrow> cursor_at (skip (Suc 0) s) ks"
  using cursor_skip [of s "[k]" ks] by simp

lemma cursor_left: "cursor_at s ks \<Longrightarrow> tokens_left s = length ks"
  by (metis cursor_at_def length_drop length_map tokens_left_def)

lemma cursor_kind_at: "cursor_at s ks \<Longrightarrow> kind_at i s = (if i < length ks then Some (ks ! i) else None)"
proof -
  assume at: "cursor_at s ks"
  have "token_at (ps_pos s + i) s =
      (if i < tokens_left s then Some (drop (ps_pos s) (ps_tokens s) ! i) else None)"
    by (auto simp: token_at_def tokens_left_def)
  then show ?thesis using at by (simp add: kind_at_def peek_at_def cursor_left) (simp add: cursor_at_def)
qed

lemma cursor_peek_Cons: "cursor_at s (k # ks) \<Longrightarrow> peek s = Some \<lparr>tk_kind = k, tk_span = no_span\<rparr>"
  by (cases "ps_pos s < length (ps_tokens s)")
    (auto simp: cursor_at_def peek_def token_at_def dest: sym [of "_ # _"] simp flip: Cons_nth_drop_Suc)

lemma cursor_peek_Nil: "cursor_at s [] \<Longrightarrow> peek s = None"
  by (simp add: cursor_at_def peek_def token_at_def)

lemma cursor_peek_kind: "cursor_at s ks \<Longrightarrow> peek_kind s = (case ks of [] \<Rightarrow> None | k # _ \<Rightarrow> Some k)"
  by (cases ks) (simp_all add: peek_kind_def cursor_peek_Cons cursor_peek_Nil)

lemma cursor_bump: "cursor_at s (k # ks) \<Longrightarrow> bump s = (Some \<lparr>tk_kind = k, tk_span = no_span\<rparr>, skip 1 s)"
  by (simp add: bump_def cursor_peek_Cons skip_def)

text \<open>The parts that take one token, at a cursor.\<close>

lemma at_next: "cursor_at s (k # ks) \<Longrightarrow>
    and_then (next_token s) K = K \<lparr>tk_kind = k, tk_span = no_span\<rparr> (skip 1 s)"
  by (simp add: next_token_def cursor_bump and_then_done)

lemma at_skip: "cursor_at s (k # ks) \<Longrightarrow> and_then (skip_token s) K = K () (skip 1 s)"
  by (simp add: skip_token_def cursor_bump and_then_done)

lemma at_expect: "cursor_at s (k # ks) \<Longrightarrow>
    and_then (expect_kind k msg s) K = K \<lparr>tk_kind = k, tk_span = no_span\<rparr> (skip 1 s)"
  by (simp add: expect_kind_def cursor_peek_Cons at_next)

lemma at_ident: "cursor_at s (TkIdent n # ks) \<Longrightarrow> and_then (expect_ident s) K = K (n, no_span) (skip 1 s)"
  by (simp add: expect_ident_def cursor_peek_Cons at_next and_then_assoc and_then_done)

lemma at_eat: "cursor_at s (k # ks) \<Longrightarrow>
    and_then (eat_kind k' s) K = (if k' = k then K True (skip 1 s) else K False s)"
  by (auto simp: eat_kind_def cursor_peek_kind cursor_bump and_then_done)

lemma settles_then:
  assumes "settles_on F (Ok a) t" "K a t = Some (out, u)"
  shows "settles_on (\<lambda>n. and_then (F n) K) out u"
  by (rule settles_on_Ok [where K = "\<lambda>n. K", OF assms(1)]) (simp add: assms(2) settles_on_const)

lemma settles_then_done:
  "settles_on F (Ok a) t \<Longrightarrow> settles_on (\<lambda>n. and_then (F n) (\<lambda>x s. done_with (f x) s)) (Ok (f a)) t"
  by (rule settles_then) (simp_all add: done_with_def)

lemma settles_done: "settles_on (\<lambda>n. done_with x s) (Ok x) s"
  by (simp add: done_with_def settles_on_const)

subsection \<open>What follows an expression\<close>

definition follows :: "follower \<Rightarrow> 'f token_kind list \<Rightarrow> bool" where
  "follows f ks \<longleftrightarrow>
     (\<forall>m Y lhs. stops_at m f \<longrightarrow> (case ks of [] \<Rightarrow> True | k # _ \<Rightarrow> suffix_of Y m k lhs = None))"

lemma suffix_bin: "suffix_of Y m (bin_token b) lhs =
    (if bin_level b < m then None else Some (infix_suffix Y (bin_level b + 1) b lhs))"
  by (cases b) (simp_all add: suffix_of_def infix_binding_power_def)

lemma suffix_assign: "suffix_of Y m (assign_token_of a) lhs =
    (if 2 < m then None else Some (assign_suffix Y a lhs))"
  by (cases a) (simp_all add: suffix_of_def infix_binding_power_def assign_token_def assign_bp_def)

lemma suffix_question: "suffix_of Y m TkQuestion lhs =
    (if 5 < m then None else Some (ternary_suffix Y lhs))"
  by (simp add: suffix_of_def infix_binding_power_def question_bp_def)

text \<open>The tokens that end an expression.\<close>

definition closers :: "'f token_kind set" where
  "closers = {TkSemi, TkRParen, TkRBracket, TkRBrace, TkComma, TkColon}"

lemma suffix_closer: "k \<in> closers \<Longrightarrow> suffix_of Y m k lhs = None"
  by (auto simp: closers_def suffix_of_def infix_binding_power_def assign_token_def)

lemma follows_simps [simp]:
  "follows f []"
  "k \<in> closers \<Longrightarrow> follows f (k # ks)"
  "follows (FollowOp (bin_level b)) (bin_token b # ks)"
  "follows (FollowOp 2) (assign_token_of a # ks)"
  "follows (FollowOp 5) (TkQuestion # ks)"
  "follows FollowPostfix ks"
  by (simp_all add: follows_def suffix_closer suffix_bin suffix_assign suffix_question)

subsection \<open>Reading an expression\<close>

text \<open>
  Where the parser extends expressions it has read: reading \<open>ks\<close> before \<open>rest\<close> goes on like the loop
  that extends \<open>x\<close> behind them.
\<close>

definition grows :: "'f token_kind list \<Rightarrow> 'f expr \<Rightarrow> nat \<Rightarrow> 'f token_kind list \<Rightarrow> bool" where
  "grows ks x m rest \<longleftrightarrow>
     (\<forall>s k out t. cursor_at s (ks @ rest) \<longrightarrow>
        settles_on (\<lambda>n. extend_for k (parsers n) m x (skip (length ks) s)) out t \<longrightarrow>
        (\<exists>k'. settles_on (\<lambda>n. and_then (parse_prefix (parsers n) s)
                                (\<lambda>lhs s. extend_for k' (parsers n) m lhs s)) out t))"

lemma growsI:
  assumes "\<And>s k out t. cursor_at s (ks @ rest) \<Longrightarrow>
      settles_on (\<lambda>n. extend_for k (parsers n) m x (skip (length ks) s)) out t \<Longrightarrow>
      \<exists>k'. settles_on (\<lambda>n. and_then (parse_prefix (parsers n) s)
                              (\<lambda>lhs s. extend_for k' (parsers n) m lhs s)) out t"
  shows "grows ks x m rest"
  using assms unfolding grows_def by blast

text \<open>A prefix that settles grows.\<close>

lemma grows_prefix:
  assumes "\<And>s. cursor_at s (ks @ rest) \<Longrightarrow>
      settles_on (\<lambda>n. parse_prefix (parsers n) s) (Ok x) (skip (length ks) s)"
  shows "grows ks x m rest"
proof (rule growsI)
  fix s k out t
  assume at: "cursor_at s (ks @ rest)"
    and ext: "settles_on (\<lambda>n. extend_for k (parsers n) m x (skip (length ks) s)) out t"
  have "settles_on (\<lambda>n. and_then (parse_prefix (parsers n) s) (\<lambda>lhs s. extend_for k (parsers n) m lhs s)) out t"
    by (rule settles_on_Ok [where K = "\<lambda>n lhs s. extend_for k (parsers n) m lhs s", OF assms [OF at] ext])
  then show "\<exists>k'. settles_on (\<lambda>n. and_then (parse_prefix (parsers n) s)
      (\<lambda>lhs s. extend_for k' (parsers n) m lhs s)) out t"
    by blast
qed

text \<open>A suffix that settles grows what it extends.\<close>

lemma grows_suffix:
  assumes lhs: "grows ks x m (k # js @ rest)"
    and suffix: "\<And>Y. suffix_of Y m k x = Some (p Y)"
    and p: "\<And>s. cursor_at s (k # js @ rest) \<Longrightarrow>
      settles_on (\<lambda>n. p (parsers n) s) (Ok y) (skip (Suc (length js)) s)"
  shows "grows (ks @ k # js) y m rest"
proof (rule growsI)
  fix s i out t
  assume at: "cursor_at s ((ks @ k # js) @ rest)"
    and ext: "settles_on (\<lambda>n. extend_for i (parsers n) m y (skip (length (ks @ k # js)) s)) out t"
  let ?s = "skip (length ks) s"
  have at': "cursor_at ?s (k # js @ rest)" using at by (intro cursor_skip) simp
  have "settles_on (\<lambda>n. and_then (p (parsers n) ?s) (\<lambda>lhs s. extend_for i (parsers n) m lhs s)) out t"
    by (rule settles_on_Ok [where K = "\<lambda>n lhs s. extend_for i (parsers n) m lhs s", OF p [OF at']])
      (use ext in simp)
  then have "settles_on (\<lambda>n. extend_for (Suc i) (parsers n) m x ?s) out t"
    by (simp add: cursor_peek_Cons [OF at'] suffix)
  moreover have "cursor_at s (ks @ k # js @ rest)" using at by simp
  ultimately show "\<exists>k'. settles_on (\<lambda>n. and_then (parse_prefix (parsers n) s)
      (\<lambda>lhs s. extend_for k' (parsers n) m lhs s)) out t"
    using lhs unfolding grows_def by blast
qed

text \<open>The rounds of the loop do not matter when they suffice.\<close>

lemma and_then_agree:
  assumes "and_then out f = Some a" "and_then out g = Some b"
    and "\<And>x s a b. f x s = Some a \<Longrightarrow> g x s = Some b \<Longrightarrow> a = b"
  shows "a = b"
proof -
  obtain r s where out: "out = Some (r, s)" using assms(1) by (cases out) (auto simp: and_then_def)
  then show ?thesis using assms by (cases r) (auto simp: and_then_Some)
qed

lemma extend_for_agree:
  "extend_for k Y m lhs s = Some a \<Longrightarrow> extend_for k' Y m lhs s = Some b \<Longrightarrow> a = b"
proof (induction k arbitrary: k' lhs s a b)
  case (Suc k)
  then obtain k'' where k': "k' = Suc k''" by (cases k') simp_all
  show ?case
  proof (cases "peek s")
    case None
    then show ?thesis using Suc.prems k' by simp
  next
    case (Some tok)
    show ?thesis
    proof (cases "suffix_of Y m (tk_kind tok) lhs")
      case None
      then show ?thesis using Suc.prems k' Some by simp
    next
      case (Some p)
      then have "and_then (p s) (\<lambda>lhs s. extend_for k Y m lhs s) = Some a"
          "and_then (p s) (\<lambda>lhs s. extend_for k'' Y m lhs s) = Some b"
        using Suc.prems k' \<open>peek s = Some tok\<close> by simp_all
      then show ?thesis by (rule and_then_agree) (rule Suc.IH; assumption)
    qed
  qed
qed simp

lemma expr_bp_settles:
  assumes "settles_on (\<lambda>n. and_then (parse_prefix (parsers n) s)
      (\<lambda>lhs s. extend_for k (parsers n) m lhs s)) out t"
  shows "settles_on (\<lambda>n. pr_expr (parsers n) m s) out t"
proof -
  have "consumes (tokens_left s) (\<lambda>n. parse_expr_bp (parsers n) m s) s"
    by (rule consumes_expr_bp) (rule both_calmD [OF parsers_calm])
  from pc.movesE [OF this] obtain out' t' where own: "settles_on (\<lambda>n. parse_expr_bp (parsers n) m s) out' t'"
    by (auto simp: within_left)
  obtain N where N: "\<forall>n\<ge>N. and_then (parse_prefix (parsers n) s)
      (\<lambda>lhs s. extend_for k (parsers n) m lhs s) = Some (out, t)"
    using assms unfolding settles_on_def by blast
  obtain M where M: "\<forall>n\<ge>M. parse_expr_bp (parsers n) m s = Some (out', t')"
    using own unfolding settles_on_def by blast
  have "(out, t) = (out', t')"
  proof (rule and_then_agree)
    show "and_then (parse_prefix (parsers (max N M)) s)
        (\<lambda>lhs s. extend_for k (parsers (max N M)) m lhs s) = Some (out, t)"
      using N by simp
    show "and_then (parse_prefix (parsers (max N M)) s)
        (\<lambda>lhs s. extend_expr (parsers (max N M)) m lhs s) = Some (out', t')"
      using M by (simp add: parse_expr_bp_def)
  qed (unfold extend_expr_def, rule extend_for_agree)
  with own have "settles_on (\<lambda>n. parse_expr_bp (parsers n) m s) out t" by simp
  then show ?thesis by (rule settles_on_shift) simp
qed

text \<open>A whole expression is read where what follows stops the loop.\<close>

lemma grows_reads:
  assumes grows: "grows ks x m rest" and f: "follows f rest" "stops_at m f" and at: "cursor_at s (ks @ rest)"
  shows "settles_on (\<lambda>n. pr_expr (parsers n) m s) (Ok x) (skip (length ks) s)"
proof -
  have "settles_on (\<lambda>n. extend_for 1 (parsers n) m x (skip (length ks) s)) (Ok x) (skip (length ks) s)"
  proof (cases rest)
    case Nil
    then have "peek (skip (length ks) s) = None" using at cursor_skip cursor_peek_Nil by blast
    then show ?thesis by (simp add: settles_done)
  next
    case (Cons k js)
    then have "peek (skip (length ks) s) = Some \<lparr>tk_kind = k, tk_span = no_span\<rparr>"
      using at cursor_skip cursor_peek_Cons by blast
    moreover have "suffix_of Y m k x = None" for Y using f Cons by (auto simp: follows_def)
    ultimately show ?thesis by (simp add: settles_done)
  qed
  then show ?thesis using grows at expr_bp_settles unfolding grows_def by blast
qed

subsection \<open>The parts of an expression\<close>

definition reads :: "'f expr \<Rightarrow> bool" where
  "reads e \<longleftrightarrow>
     (\<forall>m f rest. binds_at m e \<longrightarrow> closed_before f e \<longrightarrow> follows f rest \<longrightarrow>
        grows (print_expr e) (erase e) m rest)"

lemma readsD:
  "reads e \<Longrightarrow> binds_at m e \<Longrightarrow> closed_before f e \<Longrightarrow> follows f rest \<Longrightarrow> grows (print_expr e) (erase e) m rest"
  unfolding reads_def by blast

text \<open>An expression before a closer, at the lowest levels.\<close>

lemma reads_closed:
  assumes "reads e" "binds_at m e" "k \<in> closers" "cursor_at s (print_expr e @ k # rest)"
  shows "settles_on (\<lambda>n. pr_expr (parsers n) m s) (Ok (erase e)) (skip (length (print_expr e)) s)"
  by (rule grows_reads [where f = FollowEnd and rest = "k # rest"])
    (use assms in \<open>auto intro: readsD [where f = FollowEnd]\<close>)

lemma no_cast_detect:
  assumes "no_cast ks" "2 \<le> length ks" "cursor_at s ks"
  shows "detect_cast_type s = None"
  using assms(1,2) cursor_kind_at [OF assms(3)]
  by (cases ks rule: no_cast.cases)
    (simp_all add: detect_cast_type_def is_sign_word_def flip: One_nat_def)

lemma grows_parens:
  assumes reads: "reads e" and compound: "\<nexists>n sp. e = Ident n sp"
  shows "grows (TkLParen # print_expr e @ [TkRParen]) (erase e) m rest"
proof (rule grows_prefix)
  fix s :: "'a parser"
  assume at: "cursor_at s ((TkLParen # print_expr e @ [TkRParen]) @ rest)"
  let ?s = "skip 1 s"
  have at1: "cursor_at ?s (print_expr e @ TkRParen # rest)" using at by (simp add: cursor_skip_1)
  have at2: "cursor_at (skip (Suc (length (print_expr e))) s) (TkRParen # rest)"
    using cursor_skip [OF at1] by simp
  have "no_cast (print_expr e)" using print_no_cast [of e] compound by blast
  then have "no_cast (print_expr e @ TkRParen # rest)" by (simp add: no_cast_append)
  then have "detect_cast_type ?s = None"
    by (rule no_cast_detect [OF _ _ at1]) (cases "print_expr e"; simp)
  moreover have "settles_on (\<lambda>n. pr_expr (parsers n) 0 ?s) (Ok (erase e)) (skip (length (print_expr e)) ?s)"
    by (rule reads_closed [OF reads _ _ at1]) (simp_all add: closers_def)
  moreover have "settles_on (\<lambda>n. and_then (pr_expr (parsers n) 0 ?s) (\<lambda>inner s.
      and_then (expect_kind TkRParen '')'' s) (\<lambda>close s.
        done_with (with_span inner (from_to no_span (tk_span close))) s)))
      (Ok (erase e)) (skip (Suc (length (print_expr e))) ?s)"
    by (rule settles_then [OF calculation(2)]) (simp add: at_expect [OF at2] done_with_def)
  ultimately have "settles_on (\<lambda>n. paren_rest (parsers n) \<lparr>tk_kind = TkLParen, tk_span = no_span\<rparr> ?s)
      (Ok (erase e)) (skip (Suc (length (print_expr e))) ?s)"
    by (simp add: paren_rest_def)
  then show "settles_on (\<lambda>n. parse_prefix (parsers n) s) (Ok (erase e))
      (skip (length (TkLParen # print_expr e @ [TkRParen])) s)"
    using at by (simp add: parse_prefix_def cursor_peek_Cons starts_prefix_def starts_expr_def at_skip prefix_rest_def)
qed

text \<open>A child with the parentheses that the grammar asks for.\<close>

lemma grows_child:
  assumes reads: "reads e" and b: "b \<Longrightarrow> binds_at m e \<and> closed_before f e" "\<And>n sp. e = Ident n sp \<Longrightarrow> b"
    and f: "follows f rest"
  shows "grows (parens b (print_expr e)) (erase e) m rest"
proof (cases b)
  case True
  then show ?thesis using readsD [OF reads] b f by (auto simp: parens_def)
next
  case False
  then show ?thesis using grows_parens [OF reads] b by (auto simp: parens_def)
qed

lemma reads_operand:
  assumes "reads e" "binds_at m e \<Longrightarrow> closed_before f e" "stops_at m f" "follows f rest"
    and at: "cursor_at s (parens (binds_at m e) (print_expr e) @ rest)"
  shows "settles_on (\<lambda>n. pr_expr (parsers n) m s) (Ok (erase e))
      (skip (length (parens (binds_at m e) (print_expr e))) s)"
  by (rule grows_reads [OF grows_child _ _ at]) (use assms in auto)

lemma reads_leaf:
  assumes "print_expr e = [k]" "starts_prefix k"
    "\<And>Y s. prefix_rest Y \<lparr>tk_kind = k, tk_span = no_span\<rparr> s = done_with (erase e) s"
  shows "reads e"
  unfolding reads_def
proof (intro allI impI)
  fix m f rest
  show "grows (print_expr e) (erase e) m rest"
  proof (rule grows_prefix)
    fix s :: "'a parser"
    assume "cursor_at s (print_expr e @ rest)"
    then have at: "cursor_at s (k # rest)" by (simp add: assms)
    then show "settles_on (\<lambda>n. parse_prefix (parsers n) s) (Ok (erase e)) (skip (length (print_expr e)) s)"
      by (simp add: parse_prefix_def cursor_peek_Cons assms at_skip [OF at] settles_done)
  qed
qed

lemma starts_simps [simp]: "starts_expr TkLParen" "starts_expr (TkIdent n)"
  "starts_expr (TkInt v)" "starts_expr (TkFloat x)" "starts_expr (TkString t)" "starts_expr (TkChar c)"
  "starts_expr TkMinus" "starts_expr TkPlus" "starts_expr TkBang" "starts_expr TkTilde"
  "starts_expr TkPlusPlus" "starts_expr TkMinusMinus" "\<not> starts_expr TkRParen"
  by (simp_all add: starts_expr_def)

lemma starts_parens: "starts_expr (hd (print_expr e)) \<Longrightarrow> starts_expr (hd (parens b (print_expr e) @ ks))"
  by (simp add: parens_def)

lemma print_starts: "starts_expr (hd (print_expr e))"
proof (induction e)
  case (UnaryE u e sp)
  then show ?case by (cases u) (simp_all add: starts_parens)
qed (simp_all add: starts_parens)

subsection \<open>Arguments\<close>

lemma reads_args:
  assumes "\<And>a. a \<in> set as \<Longrightarrow> reads a" "as \<noteq> []" "length as \<le> k"
    "cursor_at s (commas (map print_expr as) @ TkRParen # rest)"
  shows "settles_on (\<lambda>n. separated_for k (eat_kind TkComma) no_stop (pr_expr (parsers n) 1) s) (Ok (map erase as))
      (skip (length (commas (map print_expr as))) s)"
  using assms
proof (induction as arbitrary: k s)
  case (Cons a as)
  obtain i where k: "k = Suc i" using Cons.prems(3) by (cases k) simp_all
  have reads: "reads a" using Cons.prems(1) by simp
  show ?case
  proof (cases as)
    case Nil
    have at: "cursor_at s (print_expr a @ TkRParen # rest)" using Cons.prems(4) Nil by simp
    have at1: "cursor_at (skip (length (print_expr a)) s) (TkRParen # rest)" by (rule cursor_skip [OF at])
    have one: "settles_on (\<lambda>n. pr_expr (parsers n) 1 s) (Ok (erase a)) (skip (length (print_expr a)) s)"
      by (rule reads_closed [OF reads _ _ at]) (simp_all add: closers_def)
    show ?thesis
      unfolding k separated_for.simps
      by (rule settles_on_Ok [OF one]) (simp add: at_eat [OF at1] settles_done Nil)
  next
    case (Cons b bs)
    let ?len = "length (print_expr a)"
    have at: "cursor_at s (print_expr a @ TkComma # commas (map print_expr as) @ TkRParen # rest)"
      using Cons.prems(4) Cons by simp
    have at1: "cursor_at (skip ?len s) (TkComma # commas (map print_expr as) @ TkRParen # rest)"
      by (rule cursor_skip [OF at])
    have one: "settles_on (\<lambda>n. pr_expr (parsers n) 1 s) (Ok (erase a)) (skip ?len s)"
      by (rule reads_closed [OF reads _ _ at]) (simp_all add: closers_def)
    have at2: "cursor_at (skip (Suc ?len) s) (commas (map print_expr as) @ TkRParen # rest)"
      using cursor_skip_1 [OF at1] by simp
    have rest: "settles_on (\<lambda>n. separated_for i (eat_kind TkComma) no_stop (pr_expr (parsers n) 1) (skip (Suc ?len) s))
        (Ok (map erase as)) (skip (length (commas (map print_expr as))) (skip (Suc ?len) s))"
      using Cons.prems(1,3) k Cons by (intro Cons.IH at2) simp_all
    show ?thesis
      unfolding k separated_for.simps
    proof (rule settles_on_Ok [OF one])
      show "settles_on (\<lambda>n. and_then (eat_kind TkComma (skip ?len s)) (\<lambda>more s.
           if \<not> more \<or> no_stop s then done_with [erase a] s
           else and_then (separated_for i (eat_kind TkComma) no_stop (pr_expr (parsers n) 1) s) (\<lambda>xs s. done_with (erase a # xs) s)))
         (Ok (map erase (a # as))) (skip (length (commas (map print_expr (a # as)))) s)"
        using settles_then_done [OF rest, of "\<lambda>xs. erase a # xs"]
        by (simp add: at_eat [OF at1] no_stop_def Cons)
    qed
  qed
qed simp

lemma commas_length: "length as \<le> length (commas (map print_expr as))"
proof (induction as rule: induct_list012)
  case (3 a b as)
  then show ?case by (cases "print_expr a") simp_all
qed (simp_all add: Suc_le_eq)

lemma reads_call_args:
  assumes "\<And>a. a \<in> set as \<Longrightarrow> reads a" and at: "cursor_at s (commas (map print_expr as) @ TkRParen # rest)"
  shows "settles_on (\<lambda>n. call_args (parsers n) s) (Ok (map erase as))
      (skip (length (commas (map print_expr as))) s)"
proof (cases as)
  case Nil
  then show ?thesis using at by (simp add: call_args_def cursor_peek_kind settles_done)
next
  case (Cons a bs)
  obtain k ks where print: "print_expr a = k # ks" "k \<noteq> TkRParen"
    using print_starts [of a] starts_simps(13) by (cases "print_expr a") fastforce+
  have "peek_kind s = Some k"
    using at print by (cases bs) (simp_all add: Cons cursor_peek_kind)
  moreover have "length as \<le> loop_fuel s"
    using cursor_left [OF at] commas_length [of as] by (simp add: loop_fuel_def)
  ultimately show ?thesis
    using reads_args [OF assms(1) _ _ at] print(2) Cons by (simp add: call_args_def comma_list_def separated_list_def del: separated_for.simps)
qed

subsection \<open>The round trip\<close>

lemma grows_lhs:
  assumes "reads e" "closed_before f e \<Longrightarrow> binds_at m e" "follows f rest"
  shows "grows (parens (closed_before f e) (print_expr e)) (erase e) m rest"
  by (rule grows_child [where f = f]) (use assms in auto)

lemma reads_binary:
  assumes l: "reads l" and r: "reads r"
  shows "reads (BinaryE b l r sp)"
  unfolding reads_def
proof (intro allI impI)
  fix m f and rest :: "'a token_kind list"
  assume m: "binds_at m (BinaryE b l r sp)" and cl: "closed_before f (BinaryE b l r sp)" and f: "follows f rest"
  let ?rs = "parens (binds_at (bin_level b + 1) r) (print_expr r)"
  have "grows (parens (closed_before (FollowOp (bin_level b)) l) (print_expr l) @ bin_token b # ?rs)
      (erase (BinaryE b l r sp)) m rest"
  proof (rule grows_suffix [where p = "\<lambda>Y. infix_suffix Y (bin_level b + 1) b (erase l)"])
    show "grows (parens (closed_before (FollowOp (bin_level b)) l) (print_expr l)) (erase l) m
        (bin_token b # ?rs @ rest)"
      using m by (intro grows_lhs [OF l] closed_binds) simp_all
    show "suffix_of Y m (bin_token b) (erase l) = Some (infix_suffix Y (bin_level b + 1) b (erase l))" for Y
      using m by (simp add: suffix_bin)
    fix s assume at: "cursor_at s (bin_token b # ?rs @ rest)"
    have "settles_on (\<lambda>n. pr_expr (parsers n) (bin_level b + 1) (skip 1 s)) (Ok (erase r))
        (skip (length ?rs) (skip 1 s))"
      by (rule reads_operand [OF r _ _ f cursor_skip_1 [OF at, folded One_nat_def]]) (use cl in auto)
    from settles_then_done [OF this, of "\<lambda>rhs. BinaryE b (erase l) rhs (from_to no_span (expr_span rhs))"]
    show "settles_on (\<lambda>n. infix_suffix (parsers n) (bin_level b + 1) b (erase l) s)
        (Ok (erase (BinaryE b l r sp))) (skip (Suc (length ?rs)) s)"
      by (simp add: infix_suffix_def at_next [OF at])
  qed
  then show "grows (print_expr (BinaryE b l r sp)) (erase (BinaryE b l r sp)) m rest" by simp
qed

lemma reads_assign:
  assumes t: "reads t" and v: "reads v"
  shows "reads (AssignE a t v sp)"
  unfolding reads_def
proof (intro allI impI)
  fix m f and rest :: "'a token_kind list"
  assume m: "binds_at m (AssignE a t v sp)" and cl: "closed_before f (AssignE a t v sp)" and f: "follows f rest"
  let ?rs = "parens (binds_at 2 v) (print_expr v)"
  have "grows (parens (closed_before (FollowOp 2) t) (print_expr t) @ assign_token_of a # ?rs)
      (erase (AssignE a t v sp)) m rest"
  proof (rule grows_suffix [where p = "\<lambda>Y. assign_suffix Y a (erase t)"])
    show "grows (parens (closed_before (FollowOp 2) t) (print_expr t)) (erase t) m
        (assign_token_of a # ?rs @ rest)"
      using m by (intro grows_lhs [OF t] closed_binds) simp_all
    show "suffix_of Y m (assign_token_of a) (erase t) = Some (assign_suffix Y a (erase t))" for Y
      using m by (simp add: suffix_assign)
    fix s assume at: "cursor_at s (assign_token_of a # ?rs @ rest)"
    have "settles_on (\<lambda>n. pr_expr (parsers n) 2 (skip 1 s)) (Ok (erase v)) (skip (length ?rs) (skip 1 s))"
      by (rule reads_operand [OF v _ _ f cursor_skip_1 [OF at, folded One_nat_def]]) (use cl in auto)
    from settles_then_done [OF this, of "\<lambda>rhs. AssignE a (erase t) rhs (from_to no_span (expr_span rhs))"]
    show "settles_on (\<lambda>n. assign_suffix (parsers n) a (erase t) s)
        (Ok (erase (AssignE a t v sp))) (skip (Suc (length ?rs)) s)"
      by (simp add: assign_suffix_def at_next [OF at] assign_bp_def)
  qed
  then show "grows (print_expr (AssignE a t v sp)) (erase (AssignE a t v sp)) m rest" by simp
qed

lemma reads_ternary:
  assumes c: "reads c" and t: "reads t" and e: "reads e"
  shows "reads (TernaryE c t e sp)"
  unfolding reads_def
proof (intro allI impI)
  fix m f and rest :: "'a token_kind list"
  assume m: "binds_at m (TernaryE c t e sp)" and cl: "closed_before f (TernaryE c t e sp)" and f: "follows f rest"
  let ?es = "parens (binds_at 5 e) (print_expr e)"
  have "grows (parens (closed_before (FollowOp 5) c) (print_expr c) @ TkQuestion # print_expr t @ TkColon # ?es)
      (erase (TernaryE c t e sp)) m rest"
  proof (rule grows_suffix [where p = "\<lambda>Y. ternary_suffix Y (erase c)"])
    show "grows (parens (closed_before (FollowOp 5) c) (print_expr c)) (erase c) m
        (TkQuestion # (print_expr t @ TkColon # ?es) @ rest)"
      using m by (intro grows_lhs [OF c] closed_binds) simp_all
    show "suffix_of Y m TkQuestion (erase c) = Some (ternary_suffix Y (erase c))" for Y
      using m by (simp add: suffix_question)
    fix s assume at: "cursor_at s (TkQuestion # (print_expr t @ TkColon # ?es) @ rest)"
    let ?t = "skip (length (print_expr t)) (skip 1 s)"
    have at1: "cursor_at (skip 1 s) (print_expr t @ TkColon # ?es @ rest)" using cursor_skip_1 [OF at] by simp
    have at2: "cursor_at ?t (TkColon # ?es @ rest)" by (rule cursor_skip [OF at1])
    have one: "settles_on (\<lambda>n. pr_expr (parsers n) 0 (skip 1 s)) (Ok (erase t)) ?t"
      by (rule reads_closed [OF t _ _ at1]) (simp_all add: closers_def)
    have "settles_on (\<lambda>n. pr_expr (parsers n) 5 (skip 1 ?t)) (Ok (erase e)) (skip (length ?es) (skip 1 ?t))"
      by (rule reads_operand [OF e _ _ f cursor_skip_1 [OF at2, folded One_nat_def]]) (use cl in auto)
    from settles_then_done [OF this, of "\<lambda>x. TernaryE (erase c) (erase t) x (from_to no_span (expr_span x))"]
    have two: "settles_on (\<lambda>n. and_then (expect_kind TkColon '':'' ?t) (\<lambda>_ s.
        and_then (pr_expr (parsers n) question_bp s) (\<lambda>x s.
          done_with (TernaryE (erase c) (erase t) x (from_to no_span (expr_span x))) s)))
        (Ok (erase (TernaryE c t e sp))) (skip (Suc (length (print_expr t @ TkColon # ?es))) s)"
      unfolding at_expect [OF at2] question_bp_def by simp
    show "settles_on (\<lambda>n. ternary_suffix (parsers n) (erase c) s)
        (Ok (erase (TernaryE c t e sp))) (skip (Suc (length (print_expr t @ TkColon # ?es))) s)"
      unfolding ternary_suffix_def at_next [OF at] span_erase
      by (rule settles_on_Ok [OF one], rule two)
  qed
  then show "grows (print_expr (TernaryE c t e sp)) (erase (TernaryE c t e sp)) m rest" by simp
qed

lemma reads_index:
  assumes t: "reads t" and i: "reads i"
  shows "reads (IndexE t i sp)"
  unfolding reads_def
proof (intro allI impI)
  fix m f and rest :: "'a token_kind list"
  have "grows (parens (closed_before FollowPostfix t) (print_expr t) @ TkLBracket # print_expr i @ [TkRBracket])
      (erase (IndexE t i sp)) m rest"
  proof (rule grows_suffix [where p = "\<lambda>Y. index_suffix_of Y (erase t)"])
    show "grows (parens (closed_before FollowPostfix t) (print_expr t)) (erase t) m
        (TkLBracket # (print_expr i @ [TkRBracket]) @ rest)"
      by (intro grows_lhs [OF t] closed_postfix_binds) simp_all
    show "suffix_of Y m TkLBracket (erase t) = Some (index_suffix_of Y (erase t))" for Y
      by (simp add: suffix_of_def)
    fix s assume at: "cursor_at s (TkLBracket # (print_expr i @ [TkRBracket]) @ rest)"
    have at1: "cursor_at (skip 1 s) (print_expr i @ TkRBracket # rest)" using cursor_skip_1 [OF at] by simp
    have at2: "cursor_at (skip (length (print_expr i)) (skip 1 s)) (TkRBracket # rest)" by (rule cursor_skip [OF at1])
    have one: "settles_on (\<lambda>n. pr_expr (parsers n) 0 (skip 1 s)) (Ok (erase i))
        (skip (length (print_expr i)) (skip 1 s))"
      by (rule reads_closed [OF i _ _ at1]) (simp_all add: closers_def)
    show "settles_on (\<lambda>n. index_suffix_of (parsers n) (erase t) s)
        (Ok (erase (IndexE t i sp))) (skip (Suc (length (print_expr i @ [TkRBracket]))) s)"
      unfolding index_suffix_of_def at_next [OF at] span_erase
      by (rule settles_then [OF one]) (simp only: at_expect [OF at2], simp add: done_with_def)
  qed
  then show "grows (print_expr (IndexE t i sp)) (erase (IndexE t i sp)) m rest" by simp
qed

lemma reads_call:
  assumes c: "reads c" and as: "\<And>a. a \<in> set as \<Longrightarrow> reads a"
  shows "reads (CallE c as sp)"
  unfolding reads_def
proof (intro allI impI)
  fix m f and rest :: "'a token_kind list"
  let ?as = "commas (map print_expr as)"
  have "grows (parens (closed_before FollowPostfix c) (print_expr c) @ TkLParen # ?as @ [TkRParen])
      (erase (CallE c as sp)) m rest"
  proof (rule grows_suffix [where p = "\<lambda>Y. call_suffix Y (erase c)"])
    show "grows (parens (closed_before FollowPostfix c) (print_expr c)) (erase c) m
        (TkLParen # (?as @ [TkRParen]) @ rest)"
      by (intro grows_lhs [OF c] closed_postfix_binds) simp_all
    show "suffix_of Y m TkLParen (erase c) = Some (call_suffix Y (erase c))" for Y
      by (simp add: suffix_of_def)
    fix s assume at: "cursor_at s (TkLParen # (?as @ [TkRParen]) @ rest)"
    have at1: "cursor_at (skip 1 s) (?as @ TkRParen # rest)" using cursor_skip_1 [OF at] by simp
    have at2: "cursor_at (skip (length ?as) (skip 1 s)) (TkRParen # rest)" by (rule cursor_skip [OF at1])
    have one: "settles_on (\<lambda>n. call_args (parsers n) (skip 1 s)) (Ok (map erase as))
        (skip (length ?as) (skip 1 s))"
      by (rule reads_call_args [OF as at1])
    show "settles_on (\<lambda>n. call_suffix (parsers n) (erase c) s)
        (Ok (erase (CallE c as sp))) (skip (Suc (length (?as @ [TkRParen]))) s)"
      unfolding call_suffix_def at_next [OF at] span_erase
      by (rule settles_then [OF one]) (simp only: at_expect [OF at2], simp add: done_with_def)
  qed
  then show "grows (print_expr (CallE c as sp)) (erase (CallE c as sp)) m rest" by simp
qed

lemma reads_member:
  assumes t: "reads t"
  shows "reads (MemberE t n sp)"
  unfolding reads_def
proof (intro allI impI)
  fix m f and rest :: "'a token_kind list"
  have "grows (parens (closed_before FollowPostfix t) (print_expr t) @ TkDot # [TkIdent n])
      (erase (MemberE t n sp)) m rest"
  proof (rule grows_suffix [where p = "\<lambda>Y. member_suffix (erase t)"])
    show "grows (parens (closed_before FollowPostfix t) (print_expr t)) (erase t) m
        (TkDot # [TkIdent n] @ rest)"
      by (intro grows_lhs [OF t] closed_postfix_binds) simp_all
    show "suffix_of Y m TkDot (erase t) = Some (member_suffix (erase t))" for Y
      by (simp add: suffix_of_def)
    fix s assume at: "cursor_at s (TkDot # [TkIdent n] @ rest)"
    have at1: "cursor_at (skip 1 s) (TkIdent n # rest)" using cursor_skip_1 [OF at] by simp
    show "settles_on (\<lambda>i. member_suffix (erase t) s) (Ok (erase (MemberE t n sp))) (skip (Suc (length [TkIdent n])) s)"
      unfolding member_suffix_def at_next [OF at] at_ident [OF at1] by (simp add: settles_done)
  qed
  then show "grows (print_expr (MemberE t n sp)) (erase (MemberE t n sp)) m rest" by simp
qed

lemma reads_unary:
  assumes e: "reads e"
  shows "reads (UnaryE u e sp)"
  unfolding reads_def
proof (intro allI impI)
  fix m f and rest :: "'a token_kind list"
  assume cl: "closed_before f (UnaryE u e sp)" and f: "follows f rest"
  show "grows (print_expr (UnaryE u e sp)) (erase (UnaryE u e sp)) m rest"
  proof (cases "prefix_token u :: 'a token_kind option")
    case (Some k)
    let ?es = "parens (binds_at 30 e) (print_expr e)"
    have "grows (k # ?es) (erase (UnaryE u e sp)) m rest"
    proof (rule grows_prefix)
      fix s assume "cursor_at s ((k # ?es) @ rest)"
      then have at: "cursor_at s (k # ?es @ rest)" by simp
      have "settles_on (\<lambda>n. pr_expr (parsers n) 30 (skip 1 s)) (Ok (erase e)) (skip (length ?es) (skip 1 s))"
        by (rule reads_operand [OF e _ _ f cursor_skip_1 [OF at, folded One_nat_def]])
          (use cl Some in auto)
      from settles_then_done [OF this, of "\<lambda>x. UnaryE u x (from_to no_span (expr_span x))"]
      have "settles_on (\<lambda>n. prefix_operand (parsers n) u \<lparr>tk_kind = k, tk_span = no_span\<rparr> (skip 1 s))
          (Ok (erase (UnaryE u e sp))) (skip (length (k # ?es)) s)"
        by (simp add: prefix_operand_def prefix_bp_def)
      moreover have "starts_prefix k"
          "prefix_rest Y \<lparr>tk_kind = k, tk_span = no_span\<rparr> = prefix_operand Y u \<lparr>tk_kind = k, tk_span = no_span\<rparr>" for Y
        using Some by (cases u; auto simp: starts_prefix_def prefix_rest_def fun_eq_iff)+
      ultimately show "settles_on (\<lambda>n. parse_prefix (parsers n) s) (Ok (erase (UnaryE u e sp)))
          (skip (length (k # ?es)) s)"
        by (simp add: parse_prefix_def cursor_peek_Cons [OF at] at_skip [OF at])
    qed
    then show ?thesis by (simp add: Some)
  next
    case None
    have "grows (parens (closed_before FollowPostfix e) (print_expr e) @ postfix_token u # [])
        (erase (UnaryE u e sp)) m rest"
    proof (rule grows_suffix [where p = "\<lambda>Y. postfix_inc u (erase e)"])
      show "grows (parens (closed_before FollowPostfix e) (print_expr e)) (erase e) m
          (postfix_token u # [] @ rest)"
        by (intro grows_lhs [OF e] closed_postfix_binds) simp_all
      show "suffix_of Y m (postfix_token u) (erase e) = Some (postfix_inc u (erase e))" for Y
        using None by (cases u) (simp_all add: suffix_of_def)
      fix s assume at: "cursor_at s (postfix_token u # [] @ rest)"
      show "settles_on (\<lambda>n. postfix_inc u (erase e) s) (Ok (erase (UnaryE u e sp)))
          (skip (Suc (length ([] :: 'a token_kind list))) s)"
        unfolding postfix_inc_def at_next [OF at] by (simp add: settles_done)
    qed
    then show ?thesis by (simp add: None)
  qed
qed

lemma reads_expr: "reads e"
proof (induction e)
  case (IntLit v sp)
  show ?case by (rule reads_leaf [of _ "TkInt v"]) (simp_all add: starts_prefix_def prefix_rest_def)
next
  case (FloatLit v sp)
  show ?case by (rule reads_leaf [of _ "TkFloat v"]) (simp_all add: starts_prefix_def prefix_rest_def)
next
  case (StringLit v sp)
  show ?case by (rule reads_leaf [of _ "TkString v"]) (simp_all add: starts_prefix_def prefix_rest_def)
next
  case (CharLit v sp)
  show ?case by (rule reads_leaf [of _ "TkChar v"]) (simp_all add: starts_prefix_def prefix_rest_def)
next
  case (Ident n sp)
  show ?case by (rule reads_leaf [of _ "TkIdent n"]) (simp_all add: starts_prefix_def prefix_rest_def)
qed (simp_all add: reads_binary reads_unary reads_call reads_index reads_member reads_assign reads_ternary)

text \<open>The claim on the parser itself, at the start of a list of tokens.\<close>

lemma cursor_new: "cursor_at (parser_new (tokens_of ks)) ks"
  by (simp add: cursor_at_def parser_new_def tokens_of_def)

lemma starts_not_keyword: "hd (print_expr e) \<noteq> TkKeyword kw"
proof (induction e)
  case (UnaryE u e sp)
  then show ?case by (cases u) (simp_all add: parens_def)
qed (simp_all add: parens_def)

text \<open>A printed expression and a semicolon look like no function and no declaration.\<close>

lemma expr_stmt_start:
  assumes at: "cursor_at s (print_expr e @ TkSemi # rest)"
  shows "\<not> looks_like_function_def s" "parse_stmt Y s = parse_expr_stmt Y s"
proof -
  obtain k ks where print: "print_expr e = k # ks" by (cases "print_expr e") simp_all
  have k: "starts_expr k" "\<And>kw. k \<noteq> TkKeyword kw"
    using print_starts [of e] starts_not_keyword [of e] by (simp_all add: print)
  have peek: "peek_kind s = Some k" using at by (simp add: cursor_peek_kind print)
  have snd: "\<not> is_ident (kind_at 1 s) \<and> kind_at 1 s \<noteq> Some TkColon" if "k = TkIdent n" for n
  proof -
    have "no_cast (print_expr e @ TkSemi # rest)"
      using print_no_cast [of e] by (auto simp: no_cast_append)
    then show ?thesis
      using that cursor_kind_at [OF at, of 1] by (cases "ks @ TkSemi # rest") (simp_all add: print)
  qed
  show "\<not> looks_like_function_def s"
    using peek k(2) snd by (auto simp: looks_like_function_def_def)
  have "\<not> looks_like_field_decl s"
    using peek k(2) snd by (auto simp: looks_like_field_decl_def)
  then show "parse_stmt Y s = parse_expr_stmt Y s"
    using k by (cases k) (simp_all add: parse_stmt_def peek decl_or_expr_def starts_expr_def)
qed

lemma reads_expr_stmt:
  assumes at: "cursor_at s (print_expr e @ TkSemi # rest)"
  shows "settles_on (\<lambda>n. parse_top_item (parsers n) s) (Ok (TopStmt (ExprStmt (erase e) no_span)))
      (skip (Suc (length (print_expr e))) s)"
proof -
  have at1: "cursor_at (skip (length (print_expr e)) s) (TkSemi # rest)" by (rule cursor_skip [OF at])
  have one: "settles_on (\<lambda>n. pr_expr (parsers n) 0 s) (Ok (erase e)) (skip (length (print_expr e)) s)"
    by (rule reads_closed [OF reads_expr _ _ at]) (simp_all add: closers_def)
  have "settles_on (\<lambda>n. parse_expr_stmt (parsers n) s) (Ok (ExprStmt (erase e) no_span))
      (skip (Suc (length (print_expr e))) s)"
    unfolding parse_expr_stmt_def
    by (rule settles_then [OF one]) (simp add: at_expect [OF at1] done_with_def)
  from settles_then_done [OF this, of TopStmt] show ?thesis
    using expr_stmt_start [OF at] by (simp add: parse_top_item_def)
qed

lemma parse_printed:
  "\<exists>N. \<forall>n\<ge>N. parse n (tokens_of (print_expr e @ [TkSemi])) =
     Some (Ok [TopStmt (ExprStmt (erase e) no_span)])"
proof -
  let ?s = "parser_new (tokens_of (print_expr e @ [TkSemi]))"
  let ?t = "skip (Suc (length (print_expr e))) ?s"
  let ?item = "TopStmt (ExprStmt (erase e) no_span)"
  have at: "cursor_at ?s (print_expr e @ [TkSemi])" by (rule cursor_new)
  have left: "tokens_left ?s = Suc (length (print_expr e))" using cursor_left [OF at] by simp
  have "cursor_at ?t []" using cursor_skip [of ?s "print_expr e @ [TkSemi]" "[]"] at by simp
  then have eof: "at_eof ?t" "\<not> at_eof ?s"
    using left by (auto simp: at_eof_def tokens_left_def cursor_at_def)
  have "settles_on (\<lambda>n. and_then (parse_top_item (parsers n) ?s) (\<lambda>x s.
      and_then (items_for (2 * tokens_left ?s) at_eof (parse_top_item (parsers n)) s) (\<lambda>xs s. done_with (x # xs) s)))
      (Ok [?item]) ?t"
    by (rule settles_on_Ok [OF reads_expr_stmt [OF at]]) (simp add: left eof and_then_done settles_done)
  then have "settles_on (\<lambda>n. items_until at_eof (parse_top_item (parsers n)) ?s) (Ok [?item]) ?t"
    using eof by (simp add: items_until_def loop_fuel_def)
  then obtain N where "\<forall>n\<ge>N. items_until at_eof (parse_top_item (parsers n)) ?s = Some (Ok [?item], ?t)"
    unfolding settles_on_def by blast
  then show ?thesis by (auto simp: parse_def)
qed

end
