(* ===== verification/TplParseProps.thy ===== *)
theory TplParseProps
  imports TplRoundTrip
begin

text \<open>
  What the template parser promises: an answer for every list of tokens, and expressions read back
  from their printed form; with two inputs that it reads otherwise than its comments say.
\<close>

text \<open>C32: The template parser answers every list of tokens: from some fuel on it has one and the same
  result, a program or an error, and never a panic. No \<open>unwrap\<close>, \<open>unreachable!\<close> or index of the
  code is reached without what it relies on, and every loop consumes a token in each round.
\<close>

theorem template_parse_answers:
  "\<exists>N out. out \<noteq> Panic \<and> (\<forall>n\<ge>N. parse n tokens = Some out)"
  by (rule parse_ends)

theorem template_parse_answers_witness:
  "\<exists>N out. out \<noteq> Panic \<and>
     (\<forall>n\<ge>N. parse n (tokens_of [TkKeyword KwStruct, TkLBrace, TkSemi] :: int token list) = Some out)"
  by (rule template_parse_answers)

text \<open>C33: An expression of any shape, printed with the operators of its nodes and with parentheses
  only where the precedences need them, and followed by a semicolon, is parsed to the statement of
  that expression: operators associate to the left, except assignments and conditionals, prefix
  operators bind stronger than all binary ones, and postfix operators strongest. The spans of the
  result are those of the tokens, here all empty.
\<close>

theorem template_expr_roundtrip:
  "\<exists>N. \<forall>n\<ge>N. parse n (tokens_of (print_expr e @ [TkSemi])) =
     Some (Ok [TopStmt (ExprStmt (erase e) no_span)])"
  by (rule parse_printed)

text \<open>The expression \<open>(a + b) * c = d\<close>.\<close>

definition sum_times :: "int expr" where
  "sum_times =
     (let name = \<lambda>s. Ident (lit s) no_span
      in AssignE AssignOp
           (BinaryE OpMul (BinaryE OpAdd (name ''a'') (name ''b'') no_span) (name ''c'') no_span)
           (name ''d'') no_span)"

theorem template_expr_roundtrip_witness:
  "\<exists>N. \<forall>n\<ge>N. parse n (tokens_of (print_expr sum_times @ [TkSemi])) =
     Some (Ok [TopStmt (ExprStmt (erase sum_times) no_span)])"
  by (rule template_expr_roundtrip)

subsection \<open>Two readings\<close>

text \<open>A field of a declared enum, \<open>enum E x;\<close>, is refused: its type is parsed at the keyword.\<close>

lemma enum_field_item:
  assumes at: "cursor_at s [TkKeyword KwEnum, TkIdent e, TkIdent x, TkSemi]"
  shows "parse_top_item Y s =
     Some (Err (Unexpected ''identifier'' (FoundToken (TkKeyword KwEnum)) no_span), s)"
proof -
  note kinds = cursor_kind_at [OF at] cursor_peek_kind [OF at] cursor_peek_Cons [OF at]
  have "eat_modifiers ModField s = (ModField, s)"
    by (subst eat_modifiers.simps) (simp add: kinds)
  moreover have "expect_ident s =
      Some (Err (Unexpected ''identifier'' (FoundToken (TkKeyword KwEnum)) no_span), s)"
    by (simp add: expect_ident_def kinds fail_with_def)
  ultimately have "parse_field_decl Y None s =
      Some (Err (Unexpected ''identifier'' (FoundToken (TkKeyword KwEnum)) no_span), s)"
    by (simp add: parse_field_decl_def parse_type_ref_def eat_keyword_def eat_kind_False signed_type_def
        named_type_def tagged_type_ahead_def sign_override_def is_sign_word_def kinds and_then_done and_then_Some)
  then show ?thesis
    by (simp add: parse_top_item_def looks_like_function_def_def parse_stmt_def keyword_stmt_def
        is_enum_type_decl_start_def decl_or_expr_def looks_like_field_decl_def kinds and_then_Some)
qed

lemma new_not_eof: "\<not> at_eof (parser_new (tokens_of (k # ks)))"
  by (simp add: at_eof_def parser_new_def tokens_of_def)

lemma enum_field_refused:
  "parse n (tokens_of [TkKeyword KwEnum, TkIdent e, TkIdent x, TkSemi]) =
     Some (Err (Unexpected ''identifier'' (FoundToken (TkKeyword KwEnum)) no_span))"
  by (simp add: parse_def items_until_def loop_fuel_def and_then_Some new_not_eof enum_field_item [OF cursor_new])

end
