(* ===== verification/ImhSyntax.thy ===== *)
theory ImhSyntax
  imports TplValue Cursor
begin

text \<open>
  The pattern language, \<open>hxy-imhex-lang\<close>: the tokens of \<open>token.rs\<close> and the syntax trees of \<open>ast.rs\<close>.
  Spans and the operators of expressions are the ones of the 010 language, whose types have the same
  variants. \<open>'f\<close> is the type of the double-precision numbers.
\<close>

subsection \<open>Tokens\<close>

datatype (plugins only: code size) ix_keyword =
    XkStruct | XkUnion | XkEnum | XkBitfield | XkUsing | XkNamespace | XkTemplate | XkFn | XkAuto
  | XkParent | XkThis | XkIf | XkElse | XkWhile | XkFor | XkMatch | XkReturn | XkBreak | XkContinue
  | XkConst | XkImport | XkAddressof | XkSizeof | XkTypeof | XkTrue | XkFalse | XkNull | XkTry | XkCatch
  | XkBe | XkLe | XkUnderscore

definition ix_spellings :: "(string \<times> ix_keyword) list" where
  "ix_spellings =
     [(''struct'', XkStruct), (''union'', XkUnion), (''enum'', XkEnum), (''bitfield'', XkBitfield),
      (''using'', XkUsing), (''namespace'', XkNamespace), (''template'', XkTemplate), (''fn'', XkFn),
      (''auto'', XkAuto), (''parent'', XkParent), (''this'', XkThis), (''if'', XkIf), (''else'', XkElse),
      (''while'', XkWhile), (''for'', XkFor), (''match'', XkMatch), (''return'', XkReturn),
      (''break'', XkBreak), (''continue'', XkContinue), (''const'', XkConst), (''import'', XkImport),
      (''addressof'', XkAddressof), (''sizeof'', XkSizeof), (''typeof'', XkTypeof), (''true'', XkTrue),
      (''false'', XkFalse), (''null'', XkNull), (''try'', XkTry), (''catch'', XkCatch), (''be'', XkBe),
      (''le'', XkLe), (''_'', XkUnderscore)]"

definition ix_keyword_lookup :: "chars \<Rightarrow> ix_keyword option" where
  "ix_keyword_lookup s = map_of (map (\<lambda>(n, k). (lit n, k)) ix_spellings) s"

datatype (plugins only: code size) 'f ix_token =
    XtInt nat | XtFloat "'f float_lit" | XtString chars | XtChar code_point
  | XtIdent chars | XtKw ix_keyword
  | XtLParen | XtRParen | XtLBrace | XtRBrace | XtLBracket | XtRBracket
  | XtLBracketBracket | XtRBracketBracket
  | XtSemi | XtComma | XtDot | XtColon | XtColonColon | XtQuestion
  | XtPlus | XtMinus | XtStar | XtSlash | XtPercent | XtPlusPlus | XtMinusMinus | XtTilde | XtBang
  | XtAmp | XtPipe | XtCaret | XtShl | XtShr
  | XtEqEq | XtNotEq | XtLt | XtGt | XtLtEq | XtGtEq | XtAmpAmp | XtPipePipe
  | XtEq | XtPlusEq | XtMinusEq | XtStarEq | XtSlashEq | XtPercentEq | XtAmpEq | XtPipeEq
  | XtCaretEq | XtShlEq | XtShrEq
  | XtAt | XtDollar

subsection \<open>Expressions and types\<close>

datatype reflect_kind = ReflectSizeof | ReflectAddressof | ReflectTypeof

datatype (plugins only: code size) 'f ix_expr =
    IxInt nat span
  | IxFloat "'f float_lit" span
  | IxString chars span
  | IxChar code_point span
  | IxBool bool span
  | IxNull span
  | IxIdent chars span
  | IxPath "chars list" span
  | IxBinary bin_op "'f ix_expr" "'f ix_expr" span
  | IxUnary unary_op "'f ix_expr" span
  | IxCall "'f ix_expr" "'f ix_expr list" span
  | IxIndex "'f ix_expr" "'f ix_expr" span
  | IxMember "'f ix_expr" chars span
  | IxAssign assign_op "'f ix_expr" "'f ix_expr" span
  | IxTernary "'f ix_expr" "'f ix_expr" "'f ix_expr" span
  | IxReflect reflect_kind "'f ix_expr" span
  | IxTypeExpr "'f ix_type" span
and 'f ix_type = IxType (xt_path: "chars list") (xt_args: "'f ix_expr list") (xt_span: span)

definition xt_leaf :: "'f ix_type \<Rightarrow> chars" where
  "xt_leaf ty = (if xt_path ty = [] then [] else last (xt_path ty))"

fun ix_span :: "'f ix_expr \<Rightarrow> span" where
  "ix_span (IxInt v sp) = sp"
| "ix_span (IxFloat v sp) = sp"
| "ix_span (IxString v sp) = sp"
| "ix_span (IxChar v sp) = sp"
| "ix_span (IxBool v sp) = sp"
| "ix_span (IxNull sp) = sp"
| "ix_span (IxIdent n sp) = sp"
| "ix_span (IxPath p sp) = sp"
| "ix_span (IxBinary b l r sp) = sp"
| "ix_span (IxUnary u e sp) = sp"
| "ix_span (IxCall c as sp) = sp"
| "ix_span (IxIndex t i sp) = sp"
| "ix_span (IxMember t f sp) = sp"
| "ix_span (IxAssign a t v sp) = sp"
| "ix_span (IxTernary c t e sp) = sp"
| "ix_span (IxReflect k e sp) = sp"
| "ix_span (IxTypeExpr t sp) = sp"

fun ix_with_span :: "'f ix_expr \<Rightarrow> span \<Rightarrow> 'f ix_expr" where
  "ix_with_span (IxInt v _) sp = IxInt v sp"
| "ix_with_span (IxFloat v _) sp = IxFloat v sp"
| "ix_with_span (IxString v _) sp = IxString v sp"
| "ix_with_span (IxChar v _) sp = IxChar v sp"
| "ix_with_span (IxBool v _) sp = IxBool v sp"
| "ix_with_span (IxNull _) sp = IxNull sp"
| "ix_with_span (IxIdent n _) sp = IxIdent n sp"
| "ix_with_span (IxPath p _) sp = IxPath p sp"
| "ix_with_span (IxBinary b l r _) sp = IxBinary b l r sp"
| "ix_with_span (IxUnary u e _) sp = IxUnary u e sp"
| "ix_with_span (IxCall c as _) sp = IxCall c as sp"
| "ix_with_span (IxIndex t i _) sp = IxIndex t i sp"
| "ix_with_span (IxMember t f _) sp = IxMember t f sp"
| "ix_with_span (IxAssign a t v _) sp = IxAssign a t v sp"
| "ix_with_span (IxTernary c t e _) sp = IxTernary c t e sp"
| "ix_with_span (IxReflect k e _) sp = IxReflect k e sp"
| "ix_with_span (IxTypeExpr t _) sp = IxTypeExpr t sp"

record 'f ix_attr =
  xa_name :: chars
  xa_args :: "'f ix_expr list"
  xa_span :: span

type_synonym 'f ix_attrs = "'f ix_attr list"

subsection \<open>Declarations and statements\<close>

record 'f ix_param =
  xp_ty :: "'f ix_type option"
  xp_name :: chars
  xp_span :: span

record 'f ix_variant =
  xv_name :: chars
  xv_value :: "'f ix_expr option"
  xv_value_end :: "'f ix_expr option"
  xv_span :: span

record 'f ix_enum =
  xe_name :: chars
  xe_params :: "chars list"
  xe_backing :: "'f ix_type"
  xe_variants :: "'f ix_variant list"
  xe_attrs :: "'f ix_attrs"
  xe_span :: span

datatype (plugins only: code size) 'f ix_array = IxFixed "'f ix_expr" | IxOpen | IxWhileArray "'f ix_expr"

record 'f ix_field =
  xf_const :: bool
  xf_ty :: "'f ix_type"
  xf_name :: chars
  xf_array :: "'f ix_array option"
  xf_placement :: "'f ix_expr option"
  xf_init :: "'f ix_expr option"
  xf_attrs :: "'f ix_attrs"
  xf_io :: bool
  xf_pointer :: "'f ix_type option"
  xf_span :: span

datatype (plugins only: code size) 'f ix_pattern =
    IxValue "'f ix_expr"
  | IxRange "'f ix_expr" "'f ix_expr" span
  | IxWildcard span

datatype (plugins only: code size) 'f ix_stmt =
    IxUsing chars "chars list" "'f ix_type" "'f ix_attrs" span
  | IxStruct "'f ix_struct"
  | IxEnum "'f ix_enum"
  | IxBitfield "'f ix_bitfield"
  | IxFn "'f ix_fn"
  | IxBits "'f ix_type option" chars "'f ix_expr" "'f ix_attrs" span
  | IxField "'f ix_field"
  | IxNamespace "chars list" bool "'f ix_stmt list" span
  | IxImport "chars list" span
  | IxBlock "'f ix_stmt list" span
  | IxExprStmt "'f ix_expr" span
  | IxIf "'f ix_expr" "'f ix_stmt" "'f ix_stmt option" span
  | IxWhile "'f ix_expr" "'f ix_stmt" span
  | IxFor "'f ix_stmt option" "'f ix_expr option" "'f ix_expr option" "'f ix_stmt" span
  | IxMatch "'f ix_expr" "'f ix_arm list" span
  | IxTry "'f ix_stmt" span
  | IxReturn "'f ix_expr option" span
  | IxBreak span
  | IxContinue span
and 'f ix_struct =
    IxStructDecl (xs_name: chars) (xs_params: "chars list") (xs_parent: "'f ix_type option")
      (xs_body: "'f ix_stmt list") (xs_attrs: "'f ix_attrs") (xs_union: bool) (xs_span: span)
and 'f ix_bitfield =
    IxBitfieldDecl (xb_name: chars) (xb_params: "chars list") (xb_body: "'f ix_stmt list")
      (xb_attrs: "'f ix_attrs") (xb_span: span)
and 'f ix_fn =
    IxFnDef (xn_name: chars) (xn_params: "'f ix_param list") (xn_return: "'f ix_type option")
      (xn_body: "'f ix_stmt list") (xn_span: span)
and 'f ix_arm = IxArm (xm_patterns: "'f ix_pattern list") (xm_body: "'f ix_stmt list") (xm_span: span)

fun ix_stmt_span :: "'f ix_stmt \<Rightarrow> span" where
  "ix_stmt_span (IxUsing n ps src as sp) = sp"
| "ix_stmt_span (IxNamespace p a b sp) = sp"
| "ix_stmt_span (IxImport p sp) = sp"
| "ix_stmt_span (IxBlock ss sp) = sp"
| "ix_stmt_span (IxExprStmt e sp) = sp"
| "ix_stmt_span (IxIf c t e sp) = sp"
| "ix_stmt_span (IxWhile c b sp) = sp"
| "ix_stmt_span (IxFor i c st b sp) = sp"
| "ix_stmt_span (IxMatch e arms sp) = sp"
| "ix_stmt_span (IxTry b sp) = sp"
| "ix_stmt_span (IxReturn v sp) = sp"
| "ix_stmt_span (IxBreak sp) = sp"
| "ix_stmt_span (IxContinue sp) = sp"
| "ix_stmt_span (IxField f) = xf_span f"
| "ix_stmt_span (IxBits ty n w as sp) = sp"
| "ix_stmt_span (IxStruct d) = xs_span d"
| "ix_stmt_span (IxEnum e) = xe_span e"
| "ix_stmt_span (IxBitfield b) = xb_span b"
| "ix_stmt_span (IxFn f) = xn_span f"

datatype (plugins only: code size) 'f ix_item = IxFunction "'f ix_fn" | IxStmt "'f ix_stmt"

type_synonym 'f ix_program = "'f ix_item list"

end
