(* ===== verification/ImhExpr.thy ===== *)
theory ImhExpr
  imports ImhSyntax
begin

text \<open>
  The expressions of \<open>hxy-imhex-lang/src/parser.rs\<close>: what it asks of the tokens ahead, the binding powers,
  and the parsers of expressions, of types with their arguments, and of attributes. The recursion goes
  through a record of the parsers it ties.
\<close>

type_synonym 'f ix_parser = "'f ix_token cursor"
type_synonym ('f, 'a) ix_parsing = "('f ix_token, 'a) scan"

record 'f ix_parsers =
  xr_expr :: "nat \<Rightarrow> ('f, 'f ix_expr) ix_parsing"
  xr_prefix :: "('f, 'f ix_expr) ix_parsing"
  xr_type :: "('f, 'f ix_type) ix_parsing"
  xr_stmt :: "('f, 'f ix_stmt) ix_parsing"

subsection \<open>Single tokens\<close>

definition soft_name :: "'f ix_token \<Rightarrow> chars option" where
  "soft_name k =
     (if k = XtKw XkAuto then Some (lit ''auto'')
      else if k = XtKw XkParent then Some (lit ''parent'')
      else if k = XtKw XkThis then Some (lit ''this'')
      else if k = XtKw XkBe then Some (lit ''be'')
      else if k = XtKw XkLe then Some (lit ''le'')
      else if k = XtKw XkTemplate then Some (lit ''template'')
      else None)"

definition ident_name :: "'f ix_token \<Rightarrow> chars option" where
  "ident_name k = (case k of XtIdent n \<Rightarrow> Some n | _ \<Rightarrow> None)"

definition is_name :: "'f ix_token \<Rightarrow> bool" where
  "is_name k \<longleftrightarrow> ident_name k \<noteq> None"

text \<open>\<open>is_soft_ident_at\<close>: a name, or one of the keywords that are accepted for one.\<close>

definition is_soft :: "'f ix_token \<Rightarrow> bool" where
  "is_soft k \<longleftrightarrow> is_name k \<or> soft_name k \<noteq> None"

definition ix_ident :: "('f, chars \<times> span) ix_parsing" where
  "ix_ident s =
     (case peek s of
        Some t \<Rightarrow>
          (case ident_name (tk_kind t) of
             Some name \<Rightarrow> and_then (next_token s) (\<lambda>tok s. done_with (name, tk_span tok) s)
           | None \<Rightarrow> fail_with (Unexpected ''identifier'' (FoundToken (tk_kind t)) (tk_span t)) s)
      | None \<Rightarrow> fail_with (UnexpectedEof ''identifier'') s)"

definition ix_soft_ident :: "('f, chars \<times> span) ix_parsing" where
  "ix_soft_ident s =
     (case Option.bind (peek_kind s) soft_name of
        Some name \<Rightarrow> and_then (next_token s) (\<lambda>tok s. done_with (name, tk_span tok) s)
      | None \<Rightarrow> ix_ident s)"

definition eat_kw :: "ix_keyword \<Rightarrow> ('f, bool) ix_parsing" where
  "eat_kw kw s = eat_kind (XtKw kw) s"

text \<open>\<open>||\<close> of several \<open>eat_kind\<close>.\<close>

fun eat_any :: "'f ix_token list \<Rightarrow> ('f, bool) ix_parsing" where
  "eat_any [] s = done_with False s"
| "eat_any (k # ks) s =
     and_then (eat_kind k s) (\<lambda>b s. if b then done_with True s else eat_any ks s)"

definition skip_if :: "bool \<Rightarrow> ('f, unit) ix_parsing" where
  "skip_if b s = (if b then skip_token s else done_with () s)"

text \<open>A token \<open>]]\<close> under the cursor becomes two tokens \<open>]\<close>.\<close>

definition split_brackets :: "'f ix_parser \<Rightarrow> 'f ix_parser" where
  "split_brackets s =
     (case peek s of
        None \<Rightarrow> s
      | Some t \<Rightarrow>
          if tk_kind t \<noteq> XtRBracketBracket then s
          else let mid = sp_start (tk_span t) + 1;
                   half = \<lambda>a b. \<lparr>tk_kind = XtRBracket, tk_span = span_new a b\<rparr>
               in s\<lparr>ps_tokens := take (ps_pos s) (ps_tokens s) @
                    [half (sp_start (tk_span t)) mid, half mid (sp_end (tk_span t))] @
                    drop (ps_pos s + 1) (ps_tokens s)\<rparr>)"

definition ix_rbracket :: "('f, 'f ix_token tok) ix_parsing" where
  "ix_rbracket s = expect_kind XtRBracket '']'' (split_brackets s)"

definition ix_rbracket_bracket :: "('f, 'f ix_token tok) ix_parsing" where
  "ix_rbracket_bracket s =
     (if peek_kind s = Some XtRBracketBracket then expect_kind XtRBracketBracket '']]'' s
      else if peek_kind s = Some XtRBracket \<and> kind_at 1 s = Some XtRBracket
      then and_then (next_token s) (\<lambda>first s.
           and_then (next_token s) (\<lambda>second s.
             done_with \<lparr>tk_kind = XtRBracketBracket, tk_span = from_to (tk_span first) (tk_span second)\<rparr> s))
      else expect_kind XtRBracketBracket '']]'' s)"

subsection \<open>Lists\<close>

definition ix_commas :: "('f ix_parser \<Rightarrow> bool) \<Rightarrow> ('f, 'a) ix_parsing \<Rightarrow> ('f, 'a list) ix_parsing" where
  "ix_commas early p s = separated_list (eat_kind XtComma) early p s"

text \<open>Items with commas, none when the token that closes the list is there.\<close>

definition ix_list_before :: "'f ix_token \<Rightarrow> ('f, 'a) ix_parsing \<Rightarrow> ('f, 'a list) ix_parsing" where
  "ix_list_before close p s =
     (if peek_kind s = Some close then done_with [] s else ix_commas no_stop p s)"

text \<open>The same with a trailing comma allowed.\<close>

definition ix_list_until :: "'f ix_token \<Rightarrow> ('f, 'a) ix_parsing \<Rightarrow> ('f, 'a list) ix_parsing" where
  "ix_list_until close p s =
     (if peek_kind s = Some close then done_with [] s
      else ix_commas (\<lambda>s. peek_kind s = Some close) p s)"

text \<open>Items after a separator, as long as there is one: \<open>while self.eat_kind(sep)\<close>.\<close>

definition ix_more :: "'f ix_token list \<Rightarrow> ('f, 'a) ix_parsing \<Rightarrow> ('f, 'a list) ix_parsing" where
  "ix_more seps p s =
     items_until (\<lambda>s. peek_kind s \<notin> Some ` set seps) (\<lambda>s. and_then (skip_token s) (\<lambda>_ s. p s)) s"

definition path_rest :: "('f, (chars \<times> span) list) ix_parsing" where
  "path_rest s = ix_more [XtColonColon] ix_ident s"

definition end_of :: "span \<Rightarrow> (chars \<times> span) list \<Rightarrow> nat" where
  "end_of sp segs = (if segs = [] then sp_end sp else sp_end (snd (last segs)))"

subsection \<open>Tokens ahead\<close>

definition kinds_ahead :: "'f ix_parser \<Rightarrow> 'f ix_token list" where
  "kinds_ahead s = map tk_kind (drop (ps_pos s) (ps_tokens s))"

definition starts_with :: "'f ix_token list \<Rightarrow> 'f ix_token set \<Rightarrow> bool" where
  "starts_with ks K \<longleftrightarrow> (case ks of k # _ \<Rightarrow> k \<in> K | [] \<Rightarrow> False)"

text \<open>What follows the \<open>::\<close> segments of a path, none when one of them is no name.\<close>

fun path_walk :: "('f ix_token \<Rightarrow> bool) \<Rightarrow> 'f ix_token list \<Rightarrow> 'f ix_token list option" where
  "path_walk name [] = Some []"
| "path_walk name [k] = (if k = XtColonColon then None else Some [k])"
| "path_walk name (k # k' # ks) =
     (if k \<noteq> XtColonColon then Some (k # k' # ks)
      else if name k' then path_walk name ks else None)"

text \<open>
  What follows the \<open>>\<close> that closes \<open>depth\<close> open ones within \<open>limit\<close> tokens, none when a token of
  \<open>stop\<close> or the end comes first.
\<close>

fun angle_walk ::
  "('f ix_token \<Rightarrow> bool) \<Rightarrow> nat \<Rightarrow> nat \<Rightarrow> 'f ix_token list \<Rightarrow> 'f ix_token list option" where
  "angle_walk stop 0 depth ks = (if depth = 0 then Some ks else None)"
| "angle_walk stop (Suc limit) 0 ks = Some ks"
| "angle_walk stop (Suc limit) (Suc d) [] = None"
| "angle_walk stop (Suc limit) (Suc d) (k # ks) =
     (if stop k then None
      else angle_walk stop limit (if k = XtLt then Suc (Suc d) else if k = XtGt then d else Suc d) ks)"

definition skip_angles :: "('f ix_token \<Rightarrow> bool) \<Rightarrow> 'f ix_token list \<Rightarrow> 'f ix_token list option" where
  "skip_angles stop ks = (if starts_with ks {XtLt} then angle_walk stop 64 1 (tl ks) else Some ks)"

definition drop_endian :: "'f ix_token list \<Rightarrow> 'f ix_token list" where
  "drop_endian ks = (if starts_with ks {XtKw XkBe, XtKw XkLe} then tl ks else ks)"

text \<open>A name with its path.\<close>

definition name_walk :: "('f ix_token \<Rightarrow> bool) \<Rightarrow> 'f ix_token list \<Rightarrow> 'f ix_token list option" where
  "name_walk name ks =
     (case ks of
        [] \<Rightarrow> None
      | k # ks \<Rightarrow> if name k then path_walk name ks else None)"

definition bitfield_field_ahead :: "'f ix_parser \<Rightarrow> bool" where
  "bitfield_field_ahead s =
     (case Option.bind (name_walk is_soft (drop_endian (kinds_ahead s))) (skip_angles (\<lambda>k. False)) of
        None \<Rightarrow> False
      | Some ks \<Rightarrow>
          (case ks of
             [] \<Rightarrow> False
           | k # ks \<Rightarrow> k = XtColon \<or> is_soft k \<and> starts_with ks {XtColon}))"

definition field_decl_ahead :: "'f ix_parser \<Rightarrow> bool" where
  "field_decl_ahead s =
     (case Option.bind (name_walk is_name (drop_endian (kinds_ahead s))) (skip_angles (\<lambda>k. False)) of
        None \<Rightarrow> False
      | Some ks \<Rightarrow>
          (case (if starts_with ks {XtStar} then tl ks else ks) of
             [] \<Rightarrow> False
           | k # _ \<Rightarrow> k \<in> {XtLBracketBracket, XtSemi, XtAt} \<or> is_soft k))"

definition nested_type_ahead :: "'f ix_parser \<Rightarrow> bool" where
  "nested_type_ahead s =
     (case name_walk is_name (kinds_ahead s) of
        None \<Rightarrow> False
      | Some ks \<Rightarrow> starts_with ks {XtLt})"

fun call_walk :: "nat \<Rightarrow> nat \<Rightarrow> 'f ix_token list \<Rightarrow> 'f ix_token list option" where
  "call_walk limit 0 ks = Some ks"
| "call_walk 0 (Suc d) ks = Some ks"
| "call_walk (Suc limit) (Suc d) [] = None"
| "call_walk (Suc limit) (Suc d) (k # ks) =
     call_walk limit (if k = XtLParen then Suc (Suc d) else if k = XtRParen then d else Suc d) ks"

definition skip_call :: "'f ix_token list \<Rightarrow> 'f ix_token list option" where
  "skip_call ks = (if starts_with ks {XtLParen} then call_walk 256 1 (tl ks) else Some ks)"

fun attr_walk :: "nat \<Rightarrow> 'f ix_token list \<Rightarrow> 'f ix_token list" where
  "attr_walk 0 ks = ks"
| "attr_walk (Suc limit) [] = []"
| "attr_walk (Suc limit) (k # ks) = (if k = XtRBracketBracket then k # ks else attr_walk limit ks)"

definition skip_attrs :: "'f ix_token list \<Rightarrow> 'f ix_token list" where
  "skip_attrs ks =
     (if starts_with ks {XtLBracketBracket}
      then let ks = attr_walk 64 (tl ks) in if starts_with ks {XtRBracketBracket} then tl ks else ks
      else ks)"

definition template_call_ahead :: "'f ix_parser \<Rightarrow> bool" where
  "template_call_ahead s =
     (case name_walk is_name (kinds_ahead s) of
        None \<Rightarrow> False
      | Some ks \<Rightarrow>
          if \<not> starts_with ks {XtLt} then False
          else (case Option.bind (skip_angles (\<lambda>k. k = XtSemi) ks) skip_call of
                  None \<Rightarrow> False
                | Some ks \<Rightarrow> starts_with (skip_attrs ks) {XtSemi}))"

definition padding_ahead :: "'f ix_parser \<Rightarrow> bool" where
  "padding_ahead s \<longleftrightarrow>
     peek_kind s = Some (XtIdent (lit ''padding'')) \<and> kind_at 1 s = Some XtLBracket"

subsection \<open>Binding powers\<close>

definition ix_prefix_bp :: nat where "ix_prefix_bp = 30"
definition ix_attr_bp :: nat where "ix_attr_bp = 1"
definition ix_template_bp :: nat where "ix_template_bp = 21"
definition ix_pattern_bp :: nat where "ix_pattern_bp = 13"

definition ix_assign_op :: "'f ix_token \<Rightarrow> assign_op option" where
  "ix_assign_op k =
     (case k of
        XtEq \<Rightarrow> Some AssignOp
      | XtPlusEq \<Rightarrow> Some AddAssign
      | XtMinusEq \<Rightarrow> Some SubAssign
      | XtStarEq \<Rightarrow> Some MulAssign
      | XtSlashEq \<Rightarrow> Some DivAssign
      | XtPercentEq \<Rightarrow> Some RemAssign
      | XtAmpEq \<Rightarrow> Some AndAssign
      | XtPipeEq \<Rightarrow> Some OrAssign
      | XtCaretEq \<Rightarrow> Some XorAssign
      | XtShlEq \<Rightarrow> Some ShlAssign
      | XtShrEq \<Rightarrow> Some ShrAssign
      | _ \<Rightarrow> None)"

definition ix_arith_op :: "'f ix_token \<Rightarrow> bin_op option" where
  "ix_arith_op k =
     (case k of
        XtPlus \<Rightarrow> Some OpAdd
      | XtMinus \<Rightarrow> Some OpSub
      | XtStar \<Rightarrow> Some OpMul
      | XtSlash \<Rightarrow> Some OpDiv
      | XtPercent \<Rightarrow> Some OpRem
      | XtEqEq \<Rightarrow> Some OpEq
      | XtNotEq \<Rightarrow> Some OpNotEq
      | XtLt \<Rightarrow> Some OpLt
      | XtGt \<Rightarrow> Some OpGt
      | XtLtEq \<Rightarrow> Some OpLtEq
      | XtGtEq \<Rightarrow> Some OpGtEq
      | XtAmpAmp \<Rightarrow> Some OpLogicalAnd
      | XtPipePipe \<Rightarrow> Some OpLogicalOr
      | XtAmp \<Rightarrow> Some OpBitAnd
      | XtPipe \<Rightarrow> Some OpBitOr
      | XtCaret \<Rightarrow> Some OpBitXor
      | XtShl \<Rightarrow> Some OpShl
      | XtShr \<Rightarrow> Some OpShr
      | _ \<Rightarrow> None)"

definition ix_infix_bp :: "'f ix_token \<Rightarrow> (nat \<times> nat) option" where
  "ix_infix_bp k =
     (case k of
        XtEq \<Rightarrow> Some (3, 2)
      | XtPlusEq \<Rightarrow> Some (3, 2)
      | XtMinusEq \<Rightarrow> Some (3, 2)
      | XtStarEq \<Rightarrow> Some (3, 2)
      | XtSlashEq \<Rightarrow> Some (3, 2)
      | XtPercentEq \<Rightarrow> Some (3, 2)
      | XtAmpEq \<Rightarrow> Some (3, 2)
      | XtPipeEq \<Rightarrow> Some (3, 2)
      | XtCaretEq \<Rightarrow> Some (3, 2)
      | XtShlEq \<Rightarrow> Some (3, 2)
      | XtShrEq \<Rightarrow> Some (3, 2)
      | XtQuestion \<Rightarrow> Some (5, 4)
      | XtPipePipe \<Rightarrow> Some (7, 8)
      | XtAmpAmp \<Rightarrow> Some (9, 10)
      | XtPipe \<Rightarrow> Some (11, 12)
      | XtCaret \<Rightarrow> Some (13, 14)
      | XtAmp \<Rightarrow> Some (15, 16)
      | XtEqEq \<Rightarrow> Some (17, 18)
      | XtNotEq \<Rightarrow> Some (17, 18)
      | XtLt \<Rightarrow> Some (19, 20)
      | XtGt \<Rightarrow> Some (19, 20)
      | XtLtEq \<Rightarrow> Some (19, 20)
      | XtGtEq \<Rightarrow> Some (19, 20)
      | XtShl \<Rightarrow> Some (21, 22)
      | XtShr \<Rightarrow> Some (21, 22)
      | XtPlus \<Rightarrow> Some (23, 24)
      | XtMinus \<Rightarrow> Some (23, 24)
      | XtStar \<Rightarrow> Some (25, 26)
      | XtSlash \<Rightarrow> Some (25, 26)
      | XtPercent \<Rightarrow> Some (25, 26)
      | _ \<Rightarrow> None)"

subsection \<open>Types and attributes\<close>

definition ix_template_arg :: "'f ix_parsers \<Rightarrow> ('f, 'f ix_expr) ix_parsing" where
  "ix_template_arg Y s =
     (if nested_type_ahead s
      then and_then (xr_type Y s) (\<lambda>ty s. done_with (IxTypeExpr ty (xt_span ty)) s)
      else xr_expr Y ix_template_bp s)"

definition ix_template_args :: "'f ix_parsers \<Rightarrow> ('f, 'f ix_expr list \<times> span) ix_parsing" where
  "ix_template_args Y s =
     and_then (ix_list_before XtGt (ix_template_arg Y) s) (\<lambda>args s.
     and_then (expect_kind XtGt ''>'' s) (\<lambda>close s. done_with (args, tk_span close) s))"

definition ix_type_ref :: "'f ix_parsers \<Rightarrow> ('f, 'f ix_type) ix_parsing" where
  "ix_type_ref Y s =
     and_then (eat_any [XtKw XkBe, XtKw XkLe] s) (\<lambda>_ s.
     and_then (ix_soft_ident s) (\<lambda>(head, head_span) s.
     and_then (path_rest s) (\<lambda>segs s.
     and_then (eat_kind XtLt s) (\<lambda>has_args s.
     and_then (part_if has_args (ix_template_args Y) s) (\<lambda>args s.
       let path = head # map fst segs
       in done_with
            (case args of
               Some (es, close) \<Rightarrow> IxType path es (from_to head_span close)
             | None \<Rightarrow> IxType path [] (span_new (sp_start head_span) (end_of head_span segs))) s)))))"

definition ix_attr_args :: "'f ix_parsers \<Rightarrow> ('f, 'f ix_expr list \<times> span) ix_parsing" where
  "ix_attr_args Y s =
     and_then (ix_list_before XtRParen (xr_expr Y ix_attr_bp) s) (\<lambda>args s.
     and_then (expect_kind XtRParen '')'' s) (\<lambda>close s. done_with (args, tk_span close) s))"

definition ix_attr :: "'f ix_parsers \<Rightarrow> ('f, 'f ix_attr) ix_parsing" where
  "ix_attr Y s =
     and_then (ix_ident s) (\<lambda>(head, head_span) s.
     and_then (path_rest s) (\<lambda>segs s.
     and_then (eat_kind XtLParen s) (\<lambda>has_args s.
     and_then (part_if has_args (ix_attr_args Y) s) (\<lambda>args s.
       let name = head @ concat (map (\<lambda>(seg, _). lit ''::'' @ seg) segs);
           last = (case args of Some (_, close) \<Rightarrow> sp_end close | None \<Rightarrow> end_of head_span segs)
       in done_with \<lparr>xa_name = name, xa_args = (case args of Some (es, _) \<Rightarrow> es | None \<Rightarrow> []),
                     xa_span = span_new (sp_start head_span) last\<rparr> s))))"

definition ix_attrs :: "'f ix_parsers \<Rightarrow> ('f, 'f ix_attrs) ix_parsing" where
  "ix_attrs Y s =
     and_then (eat_kind XtLBracketBracket s) (\<lambda>b s.
       if \<not> b then done_with [] s
       else and_then (ix_list_before XtRBracketBracket (ix_attr Y) s) (\<lambda>attrs s.
            and_then (ix_rbracket_bracket s) (\<lambda>_ s. done_with attrs s)))"

subsection \<open>Prefix forms\<close>

definition ix_reflect :: "'f ix_parsers \<Rightarrow> reflect_kind \<Rightarrow> ('f, 'f ix_expr) ix_parsing" where
  "ix_reflect Y kind s =
     and_then (next_token s) (\<lambda>kw s.
     and_then (expect_kind XtLParen ''('' s) (\<lambda>_ s.
     and_then (xr_expr Y 0 s) (\<lambda>e s.
     and_then (expect_kind XtRParen '')'' s) (\<lambda>close s.
       done_with (IxReflect kind e (from_to (tk_span kw) (tk_span close))) s))))"

definition ix_ident_or_path :: "('f, 'f ix_expr) ix_parsing" where
  "ix_ident_or_path s =
     and_then (ix_ident s) (\<lambda>(head, head_span) s.
       if peek_kind s \<noteq> Some XtColonColon then done_with (IxIdent head head_span) s
       else and_then (path_rest s) (\<lambda>segs s.
              done_with (IxPath (head # map fst segs)
                (span_new (sp_start head_span) (end_of head_span segs))) s))"

definition ix_brace_list :: "'f ix_parsers \<Rightarrow> ('f, 'f ix_expr) ix_parsing" where
  "ix_brace_list Y s =
     and_then (next_token s) (\<lambda>open s.
     and_then (ix_list_until XtRBrace (xr_expr Y ix_attr_bp) s) (\<lambda>es s.
     and_then (expect_kind XtRBrace ''}'' s) (\<lambda>close s.
       let sp = from_to (tk_span open) (tk_span close)
       in done_with (case es of [] \<Rightarrow> IxInt 0 sp | e # _ \<Rightarrow> ix_with_span e sp) s)))"

definition ix_parens :: "'f ix_parsers \<Rightarrow> ('f, 'f ix_expr) ix_parsing" where
  "ix_parens Y s =
     and_then (next_token s) (\<lambda>open s.
     and_then (xr_expr Y 0 s) (\<lambda>inner s.
     and_then (expect_kind XtRParen '')'' s) (\<lambda>close s.
       done_with (ix_with_span inner (from_to (tk_span open) (tk_span close))) s)))"

definition ix_prefix_op :: "'f ix_token \<Rightarrow> unary_op option" where
  "ix_prefix_op k =
     (case k of
        XtMinus \<Rightarrow> Some OpNeg
      | XtPlus \<Rightarrow> Some OpPos
      | XtBang \<Rightarrow> Some OpNot
      | XtTilde \<Rightarrow> Some OpBitNot
      | XtPlusPlus \<Rightarrow> Some OpPreInc
      | XtMinusMinus \<Rightarrow> Some OpPreDec
      | _ \<Rightarrow> None)"

definition ix_unary :: "'f ix_parsers \<Rightarrow> unary_op \<Rightarrow> ('f, 'f ix_expr) ix_parsing" where
  "ix_unary Y oper s =
     and_then (next_token s) (\<lambda>tok s.
     and_then (xr_expr Y ix_prefix_bp s) (\<lambda>e s.
       done_with (IxUnary oper e (from_to (tk_span tok) (ix_span e))) s))"

text \<open>The expressions of a single token.\<close>

definition ix_atom :: "'f ix_token \<Rightarrow> (span \<Rightarrow> 'f ix_expr) option" where
  "ix_atom k =
     (case k of
        XtInt v \<Rightarrow> Some (IxInt v)
      | XtFloat v \<Rightarrow> Some (IxFloat v)
      | XtString v \<Rightarrow> Some (IxString v)
      | XtChar c \<Rightarrow> Some (IxChar c)
      | XtDollar \<Rightarrow> Some (IxIdent (lit ''$''))
      | XtKw kw \<Rightarrow>
          (if kw = XkTrue then Some (IxBool True)
           else if kw = XkFalse then Some (IxBool False)
           else if kw = XkNull then Some IxNull
           else if kw = XkParent then Some (IxIdent (lit ''parent''))
           else if kw = XkThis then Some (IxIdent (lit ''this''))
           else None)
      | _ \<Rightarrow> None)"

definition ix_prefix_form ::
  "'f ix_parsers \<Rightarrow> 'f ix_token \<Rightarrow> ('f, 'f ix_expr) ix_parsing option" where
  "ix_prefix_form Y k =
     (if k = XtKw XkSizeof then Some (ix_reflect Y ReflectSizeof)
      else if k = XtKw XkAddressof then Some (ix_reflect Y ReflectAddressof)
      else if k = XtKw XkTypeof then Some (ix_reflect Y ReflectTypeof)
      else if is_name k then Some ix_ident_or_path
      else if k \<in> {XtKw XkBe, XtKw XkLe} then Some (\<lambda>s. and_then (next_token s) (\<lambda>_ s. xr_prefix Y s))
      else if k = XtLBrace then Some (ix_brace_list Y)
      else if k = XtLParen then Some (ix_parens Y)
      else case ix_prefix_op k of
        Some oper \<Rightarrow> Some (ix_unary Y oper)
      | None \<Rightarrow>
          (case ix_atom k of
             Some f \<Rightarrow> Some (\<lambda>s. and_then (next_token s) (\<lambda>tok s. done_with (f (tk_span tok)) s))
           | None \<Rightarrow> None))"

definition ix_prefix :: "'f ix_parsers \<Rightarrow> ('f, 'f ix_expr) ix_parsing" where
  "ix_prefix Y s =
     (case peek s of
        None \<Rightarrow> fail_with (UnexpectedEof ''expression'') s
      | Some t \<Rightarrow>
          (case ix_prefix_form Y (tk_kind t) of
             Some p \<Rightarrow> p s
           | None \<Rightarrow> fail_with (NotAnExpression (FoundToken (tk_kind t)) (tk_span t)) s))"

subsection \<open>Extending an expression\<close>

definition ix_call_suffix :: "'f ix_parsers \<Rightarrow> 'f ix_expr \<Rightarrow> ('f, 'f ix_expr) ix_parsing" where
  "ix_call_suffix Y lhs s =
     and_then (next_token s) (\<lambda>_ s.
     and_then (ix_list_before XtRParen (xr_expr Y ix_attr_bp) s) (\<lambda>args s.
     and_then (expect_kind XtRParen '')'' s) (\<lambda>close s.
       done_with (IxCall lhs args (from_to (ix_span lhs) (tk_span close))) s)))"

definition ix_index_suffix :: "'f ix_parsers \<Rightarrow> 'f ix_expr \<Rightarrow> ('f, 'f ix_expr) ix_parsing" where
  "ix_index_suffix Y lhs s =
     and_then (next_token s) (\<lambda>_ s.
     and_then (xr_expr Y 0 s) (\<lambda>i s.
     and_then (ix_rbracket s) (\<lambda>close s.
       done_with (IxIndex lhs i (from_to (ix_span lhs) (tk_span close))) s)))"

definition ix_member_suffix :: "'f ix_expr \<Rightarrow> ('f, 'f ix_expr) ix_parsing" where
  "ix_member_suffix lhs s =
     and_then (next_token s) (\<lambda>_ s.
     and_then (ix_soft_ident s) (\<lambda>(field, fspan) s.
       done_with (IxMember lhs field (from_to (ix_span lhs) fspan)) s))"

definition ix_post_suffix :: "unary_op \<Rightarrow> 'f ix_expr \<Rightarrow> ('f, 'f ix_expr) ix_parsing" where
  "ix_post_suffix oper lhs s =
     and_then (next_token s) (\<lambda>t s. done_with (IxUnary oper lhs (from_to (ix_span lhs) (tk_span t))) s)"

definition ix_ternary_suffix :: "'f ix_parsers \<Rightarrow> nat \<Rightarrow> 'f ix_expr \<Rightarrow> ('f, 'f ix_expr) ix_parsing" where
  "ix_ternary_suffix Y r_bp lhs s =
     and_then (next_token s) (\<lambda>_ s.
     and_then (xr_expr Y 0 s) (\<lambda>t s.
     and_then (expect_kind XtColon '':'' s) (\<lambda>_ s.
     and_then (xr_expr Y r_bp s) (\<lambda>e s.
       done_with (IxTernary lhs t e (from_to (ix_span lhs) (ix_span e))) s))))"

definition ix_assign_suffix ::
  "'f ix_parsers \<Rightarrow> nat \<Rightarrow> assign_op \<Rightarrow> 'f ix_expr \<Rightarrow> ('f, 'f ix_expr) ix_parsing" where
  "ix_assign_suffix Y r_bp oper lhs s =
     and_then (next_token s) (\<lambda>_ s.
     and_then (xr_expr Y r_bp s) (\<lambda>value s.
       done_with (IxAssign oper lhs value (from_to (ix_span lhs) (ix_span value))) s))"

definition ix_binary_suffix ::
  "'f ix_parsers \<Rightarrow> nat \<Rightarrow> bin_op \<Rightarrow> 'f ix_expr \<Rightarrow> ('f, 'f ix_expr) ix_parsing" where
  "ix_binary_suffix Y r_bp oper lhs s =
     and_then (next_token s) (\<lambda>_ s.
     and_then (xr_expr Y r_bp s) (\<lambda>rhs s.
       done_with (IxBinary oper lhs rhs (from_to (ix_span lhs) (ix_span rhs))) s))"

text \<open>The last case is \<open>expect("infix_bp returned for non-arithmetic op")\<close>.\<close>

definition ix_infix_suffix ::
  "'f ix_parsers \<Rightarrow> nat \<Rightarrow> 'f ix_token \<Rightarrow> 'f ix_expr \<Rightarrow> ('f, 'f ix_expr) ix_parsing" where
  "ix_infix_suffix Y r_bp k lhs =
     (if k = XtQuestion then ix_ternary_suffix Y r_bp lhs
      else case ix_assign_op k of
        Some oper \<Rightarrow> ix_assign_suffix Y r_bp oper lhs
      | None \<Rightarrow>
          (case ix_arith_op k of
             Some oper \<Rightarrow> ix_binary_suffix Y r_bp oper lhs
           | None \<Rightarrow> (\<lambda>s. and_then (skip_token s) (\<lambda>_ s. result_of Panic s))))"

definition ix_suffix ::
  "'f ix_parsers \<Rightarrow> nat \<Rightarrow> 'f ix_expr \<Rightarrow> 'f ix_parser \<Rightarrow> ('f, 'f ix_expr) ix_parsing option" where
  "ix_suffix Y min_bp lhs s =
     (case peek_kind s of
        None \<Rightarrow> None
      | Some k \<Rightarrow>
          if k = XtLParen then Some (ix_call_suffix Y lhs)
          else if k = XtLBracket then Some (ix_index_suffix Y lhs)
          else if k = XtDot then (if kind_at 1 s = Some XtDot then None else Some (ix_member_suffix lhs))
          else if k = XtPlusPlus then Some (ix_post_suffix OpPostInc lhs)
          else if k = XtMinusMinus then Some (ix_post_suffix OpPostDec lhs)
          else (case ix_infix_bp k of
                  None \<Rightarrow> None
                | Some (l_bp, r_bp) \<Rightarrow>
                    if l_bp < min_bp then None else Some (ix_infix_suffix Y r_bp k lhs)))"

definition ix_expr_bp :: "'f ix_parsers \<Rightarrow> nat \<Rightarrow> ('f, 'f ix_expr) ix_parsing" where
  "ix_expr_bp Y min_bp s =
     and_then (ix_prefix Y s) (\<lambda>lhs s. extend_by (loop_fuel s) (ix_suffix Y min_bp) lhs s)"

end
