(* ===== verification/ImhStmt.thy ===== *)
theory ImhStmt
  imports ImhExpr
begin

text \<open>
  The statements and declarations of \<open>hxy-imhex-lang/src/parser.rs\<close>, the parsers of every fuel, and \<open>parse\<close>.
\<close>

subsection \<open>Blocks, parameters and functions\<close>

definition ix_block :: "'f ix_parsers \<Rightarrow> ('f, 'f ix_stmt list \<times> span) ix_parsing" where
  "ix_block Y s =
     and_then (expect_kind XtLBrace ''{'' s) (\<lambda>open s.
     and_then (items_until (\<lambda>s. peek_kind s = Some XtRBrace)
                 (\<lambda>s. if at_eof s then fail_with (UnexpectedEof ''}'') s else xr_stmt Y s) s) (\<lambda>stmts s.
     and_then (expect_kind XtRBrace ''}'' s) (\<lambda>close s.
       done_with (stmts, from_to (tk_span open) (tk_span close)) s)))"

definition ix_block_stmt :: "'f ix_parsers \<Rightarrow> ('f, 'f ix_stmt) ix_parsing" where
  "ix_block_stmt Y s = and_then (ix_block Y s) (\<lambda>(stmts, sp) s. done_with (IxBlock stmts sp) s)"

definition three_dots :: "'f ix_parser \<Rightarrow> bool" where
  "three_dots s \<longleftrightarrow>
     peek_kind s = Some XtDot \<and> kind_at 1 s = Some XtDot \<and> kind_at 2 s = Some XtDot"

definition ix_param :: "'f ix_parsers \<Rightarrow> ('f, 'f ix_param) ix_parsing" where
  "ix_param Y s =
     and_then (skip_if (peek_kind s = Some (XtIdent (lit ''ref''))) s) (\<lambda>_ s.
     and_then (xr_type Y s) (\<lambda>ty s.
     let dots = three_dots s in
     and_then (skip_if dots s) (\<lambda>_ s.
     and_then (skip_if dots s) (\<lambda>_ s.
     and_then (skip_if dots s) (\<lambda>_ s.
     and_then (ix_soft_ident s) (\<lambda>(name, name_span) s.
     and_then (eat_kind XtEq s) (\<lambda>has_default s.
     and_then (part_if has_default (xr_expr Y ix_attr_bp) s) (\<lambda>_ s.
       done_with \<lparr>xp_ty = Some ty, xp_name = name, xp_span = from_to (xt_span ty) name_span\<rparr> s))))))))"

definition ix_function_def :: "'f ix_parsers \<Rightarrow> ('f, 'f ix_fn) ix_parsing" where
  "ix_function_def Y s =
     and_then (next_token s) (\<lambda>kw s.
     and_then (ix_ident s) (\<lambda>(name, _) s.
     and_then (expect_kind XtLParen ''('' s) (\<lambda>_ s.
     and_then (ix_list_before XtRParen (ix_param Y) s) (\<lambda>params s.
     and_then (expect_kind XtRParen '')'' s) (\<lambda>_ s.
     and_then (ix_block Y s) (\<lambda>(body, _) s.
       done_with (IxFnDef name params None body (from_to (tk_span kw) (last_span s))) s))))))"

subsection \<open>Type declarations\<close>

definition ix_template_param :: "('f, chars) ix_parsing" where
  "ix_template_param s =
     and_then (eat_kw XkAuto s) (\<lambda>_ s.
     and_then (ix_soft_ident s) (\<lambda>(first, _) s.
       if Option.bind (peek_kind s) ident_name \<noteq> None
       then and_then (ix_ident s) (\<lambda>(name, _) s. done_with name s)
       else done_with first s))"

definition ix_template_params :: "('f, chars list) ix_parsing" where
  "ix_template_params s =
     and_then (eat_kind XtLt s) (\<lambda>b s.
       if \<not> b then done_with [] s
       else and_then (ix_list_before XtGt ix_template_param s) (\<lambda>params s.
            and_then (expect_kind XtGt ''>'' s) (\<lambda>_ s. done_with params s)))"

definition given_params :: "chars list \<Rightarrow> chars list \<Rightarrow> chars list" where
  "given_params own params = (if own = [] then params else own)"

definition merge_params :: "'f ix_stmt \<Rightarrow> chars list \<Rightarrow> 'f ix_stmt" where
  "merge_params st params =
     (if params = [] then st
      else case st of
        IxStruct (IxStructDecl name own parent body attrs un sp) \<Rightarrow>
          IxStruct (IxStructDecl name (given_params own params) parent body attrs un sp)
      | IxEnum e \<Rightarrow> IxEnum (e\<lparr>xe_params := given_params (xe_params e) params\<rparr>)
      | IxBitfield (IxBitfieldDecl name own body attrs sp) \<Rightarrow>
          IxBitfield (IxBitfieldDecl name (given_params own params) body attrs sp)
      | _ \<Rightarrow> st)"

definition ix_templated :: "'f ix_parsers \<Rightarrow> ('f, 'f ix_stmt) ix_parsing" where
  "ix_templated Y s =
     and_then (skip_token s) (\<lambda>_ s.
     and_then (ix_template_params s) (\<lambda>params s.
     and_then (xr_stmt Y s) (\<lambda>inner s. done_with (merge_params inner params) s)))"

text \<open>The attributes and the semicolon that end a declaration, with the end of the semicolon.\<close>

definition ix_decl_end :: "'f ix_parsers \<Rightarrow> ('f, 'f ix_attrs \<times> nat) ix_parsing" where
  "ix_decl_end Y s =
     and_then (ix_attrs Y s) (\<lambda>attrs s.
     and_then (expect_kind XtSemi '';'' s) (\<lambda>semi s. done_with (attrs, sp_end (tk_span semi)) s))"

definition ix_using :: "'f ix_parsers \<Rightarrow> ('f, 'f ix_stmt) ix_parsing" where
  "ix_using Y s =
     and_then (next_token s) (\<lambda>kw s.
     and_then (ix_ident s) (\<lambda>(new_name, name_span) s.
     and_then (ix_template_params s) (\<lambda>params s.
       if peek_kind s = Some XtSemi
       then and_then (next_token s) (\<lambda>semi s.
              done_with (IxUsing new_name params (IxType [new_name] [] name_span) []
                (from_to (tk_span kw) (tk_span semi))) s)
       else and_then (expect_kind XtEq ''='' s) (\<lambda>_ s.
            and_then (xr_type Y s) (\<lambda>source s.
            and_then (ix_decl_end Y s) (\<lambda>(attrs, last) s.
              done_with (IxUsing new_name params source attrs (span_new (sp_start (tk_span kw)) last)) s))))))"

definition ix_parents :: "'f ix_parsers \<Rightarrow> ('f, 'f ix_type) ix_parsing" where
  "ix_parents Y s =
     and_then (xr_type Y s) (\<lambda>p s.
     and_then (ix_more [XtComma] (xr_type Y) s) (\<lambda>_ s. done_with p s))"

definition ix_struct_decl :: "'f ix_parsers \<Rightarrow> bool \<Rightarrow> ('f, 'f ix_stmt) ix_parsing" where
  "ix_struct_decl Y is_union s =
     and_then (next_token s) (\<lambda>kw s.
     and_then (ix_ident s) (\<lambda>(name, _) s.
     and_then (ix_template_params s) (\<lambda>params s.
     and_then (eat_kind XtColon s) (\<lambda>inherits s.
     and_then (part_if inherits (ix_parents Y) s) (\<lambda>parent s.
     and_then (ix_block Y s) (\<lambda>(body, _) s.
     and_then (ix_decl_end Y s) (\<lambda>(attrs, last) s.
       done_with (IxStruct (IxStructDecl name params parent body attrs is_union
         (span_new (sp_start (tk_span kw)) last))) s)))))))"

text \<open>The upper end of a range: \<open>.. hi\<close> or \<open>... hi\<close>, after the first dot.\<close>

definition ix_range_end :: "nat \<Rightarrow> 'f ix_parsers \<Rightarrow> ('f, 'f ix_expr) ix_parsing" where
  "ix_range_end bp Y s =
     and_then (expect_kind XtDot ''..'' s) (\<lambda>_ s.
     and_then (eat_kind XtDot s) (\<lambda>_ s. xr_expr Y bp s))"

definition ix_variant :: "'f ix_parsers \<Rightarrow> ('f, 'f ix_variant) ix_parsing" where
  "ix_variant Y s =
     and_then (ix_ident s) (\<lambda>(name, name_span) s.
     and_then (eat_kind XtEq s) (\<lambda>b s.
     and_then (part_if b (xr_expr Y 0) s) (\<lambda>value s.
     and_then (if value \<noteq> None then eat_kind XtDot s else done_with False s) (\<lambda>is_range s.
     and_then (part_if is_range (ix_range_end 0 Y) s) (\<lambda>value_end s.
       let last = (case value_end of
                     Some e \<Rightarrow> ix_span e
                   | None \<Rightarrow> (case value of Some e \<Rightarrow> ix_span e | None \<Rightarrow> name_span))
       in done_with \<lparr>xv_name = name, xv_value = value, xv_value_end = value_end,
                     xv_span = from_to name_span last\<rparr> s)))))"

definition ix_enum_decl :: "'f ix_parsers \<Rightarrow> ('f, 'f ix_stmt) ix_parsing" where
  "ix_enum_decl Y s =
     and_then (next_token s) (\<lambda>kw s.
     and_then (ix_ident s) (\<lambda>(name, _) s.
     and_then (ix_template_params s) (\<lambda>params s.
     and_then (expect_kind XtColon '':'' s) (\<lambda>_ s.
     and_then (xr_type Y s) (\<lambda>backing s.
     and_then (expect_kind XtLBrace ''{'' s) (\<lambda>_ s.
     and_then (ix_list_until XtRBrace (ix_variant Y) s) (\<lambda>variants s.
     and_then (expect_kind XtRBrace ''}'' s) (\<lambda>_ s.
     and_then (ix_decl_end Y s) (\<lambda>(attrs, last) s.
       done_with (IxEnum \<lparr>xe_name = name, xe_params = params, xe_backing = backing, xe_variants = variants,
         xe_attrs = attrs, xe_span = span_new (sp_start (tk_span kw)) last\<rparr>) s)))))))))"

subsection \<open>Bitfields\<close>

definition ix_bits_name :: "'f ix_type \<Rightarrow> ('f, 'f ix_type option \<times> chars \<times> span) ix_parsing" where
  "ix_bits_name head s =
     (if peek_kind s = Some XtColon then done_with (None, xt_leaf head, xt_span head) s
      else and_then (ix_soft_ident s) (\<lambda>(n, sp) s. done_with (Some head, n, sp) s))"

definition ix_bitfield_field :: "'f ix_parsers \<Rightarrow> ('f, 'f ix_stmt) ix_parsing" where
  "ix_bitfield_field Y s =
     and_then (xr_type Y s) (\<lambda>head s.
     and_then (ix_bits_name head s) (\<lambda>(ty, name, name_span) s.
     and_then (expect_kind XtColon '':'' s) (\<lambda>_ s.
     and_then (xr_expr Y 0 s) (\<lambda>width s.
     and_then (ix_decl_end Y s) (\<lambda>(attrs, last) s.
       let start = (case ty of Some t \<Rightarrow> sp_start (xt_span t) | None \<Rightarrow> sp_start name_span)
       in done_with (IxBits ty name width attrs (span_new start last)) s)))))"

definition ix_bitfield_entry :: "'f ix_parsers \<Rightarrow> ('f, 'f ix_stmt) ix_parsing" where
  "ix_bitfield_entry Y s =
     (if bitfield_field_ahead s then ix_bitfield_field Y s
      else if peek_kind s = Some XtSemi
      then and_then (skip_token s) (\<lambda>_ s. done_with (IxBlock [] (last_span s)) s)
      else xr_stmt Y s)"

definition at_close_or_end :: "'f ix_token \<Rightarrow> 'f ix_parser \<Rightarrow> bool" where
  "at_close_or_end k s \<longleftrightarrow> peek_kind s = Some k \<or> peek_kind s = None"

definition ix_bitfield_decl :: "'f ix_parsers \<Rightarrow> ('f, 'f ix_stmt) ix_parsing" where
  "ix_bitfield_decl Y s =
     and_then (next_token s) (\<lambda>kw s.
     and_then (ix_ident s) (\<lambda>(name, _) s.
     and_then (ix_template_params s) (\<lambda>params s.
     and_then (expect_kind XtLBrace ''{'' s) (\<lambda>_ s.
     and_then (items_until (at_close_or_end XtRBrace) (ix_bitfield_entry Y) s) (\<lambda>body s.
     and_then (expect_kind XtRBrace ''}'' s) (\<lambda>_ s.
     and_then (ix_decl_end Y s) (\<lambda>(attrs, last) s.
       done_with (IxBitfield (IxBitfieldDecl name params body attrs
         (span_new (sp_start (tk_span kw)) last))) s)))))))"

subsection \<open>Namespaces and imports\<close>

definition ix_namespace :: "'f ix_parsers \<Rightarrow> ('f, 'f ix_stmt) ix_parsing" where
  "ix_namespace Y s =
     and_then (next_token s) (\<lambda>kw s.
     and_then (eat_kw XkAuto s) (\<lambda>is_auto s.
     and_then (ix_ident s) (\<lambda>(first, _) s.
     and_then (path_rest s) (\<lambda>segs s.
     and_then (ix_block Y s) (\<lambda>(body, _) s.
       done_with (IxNamespace (first # map fst segs) is_auto body
         (from_to (tk_span kw) (last_span s))) s)))))"

text \<open>Everything up to and including the next semicolon.\<close>

definition drain_to_semi :: "('f, 'f ix_token tok) ix_parsing" where
  "drain_to_semi s =
     and_then (items_until (at_close_or_end XtSemi) skip_token s) (\<lambda>_ s. expect_kind XtSemi '';'' s)"

definition ix_import :: "('f, 'f ix_stmt) ix_parsing" where
  "ix_import s =
     and_then (next_token s) (\<lambda>kw s.
       if peek_kind s = Some XtStar
       then and_then (drain_to_semi s) (\<lambda>semi s.
              done_with (IxImport [] (from_to (tk_span kw) (tk_span semi))) s)
       else and_then (ix_ident s) (\<lambda>(first, _) s.
            and_then (ix_more [XtDot, XtColonColon] ix_ident s) (\<lambda>segs s.
            let has_alias = peek_kind s = Some (XtIdent (lit ''as'')) in
            and_then (skip_if has_alias s) (\<lambda>_ s.
            and_then (part_if has_alias ix_ident s) (\<lambda>_ s.
            and_then (expect_kind XtSemi '';'' s) (\<lambda>semi s.
              done_with (IxImport (first # map fst segs) (from_to (tk_span kw) (tk_span semi))) s))))))"

subsection \<open>Fields\<close>

definition ix_array_size :: "'f ix_parsers \<Rightarrow> ('f, 'f ix_array option) ix_parsing" where
  "ix_array_size Y s =
     and_then (eat_kind XtLBracket s) (\<lambda>b s.
       if \<not> b then done_with None s
       else if peek_kind s = Some XtRBracket
       then and_then (skip_token s) (\<lambda>_ s. done_with (Some IxOpen) s)
       else if peek_kind s = Some (XtKw XkWhile)
       then and_then (skip_token s) (\<lambda>_ s.
            and_then (expect_kind XtLParen ''('' s) (\<lambda>_ s.
            and_then (xr_expr Y 0 s) (\<lambda>cond s.
            and_then (expect_kind XtRParen '')'' s) (\<lambda>_ s.
            and_then (ix_rbracket s) (\<lambda>_ s. done_with (Some (IxWhileArray cond)) s)))))
       else and_then (xr_expr Y 0 s) (\<lambda>e s.
            and_then (ix_rbracket s) (\<lambda>_ s. done_with (Some (IxFixed e)) s)))"

definition io_marker_ahead :: "'f ix_parser \<Rightarrow> bool" where
  "io_marker_ahead s \<longleftrightarrow>
     peek_kind s = Some (XtIdent (lit ''in'')) \<or> peek_kind s = Some (XtIdent (lit ''out''))"

definition ix_io_marker :: "'f ix_parsers \<Rightarrow> ('f, bool) ix_parsing" where
  "ix_io_marker Y s =
     (if \<not> io_marker_ahead s then done_with False s
      else and_then (skip_token s) (\<lambda>_ s.
           and_then (part_if (peek_kind s \<notin> {Some XtSemi, Some XtLBracketBracket, Some XtEq}) (xr_expr Y 0) s)
             (\<lambda>_ s. done_with True s)))"

definition ix_declarator_name :: "bool \<Rightarrow> ('f, chars) ix_parsing" where
  "ix_declarator_name is_pointer s =
     (if \<not> is_pointer \<and> peek_kind s \<in> {Some XtLBracketBracket, Some XtSemi, Some XtAt} then done_with [] s
      else and_then (ix_soft_ident s) (\<lambda>(name, _) s. done_with name s))"

definition ix_declarator ::
  "'f ix_parsers \<Rightarrow> nat \<Rightarrow> bool \<Rightarrow> 'f ix_type \<Rightarrow> ('f, 'f ix_field) ix_parsing" where
  "ix_declarator Y start is_const ty s =
     and_then (eat_kind XtStar s) (\<lambda>is_pointer s.
     and_then (ix_declarator_name is_pointer s) (\<lambda>name s.
     and_then (ix_array_size Y s) (\<lambda>array s.
     and_then (if is_pointer then eat_kind XtColon s else done_with False s) (\<lambda>has_width s.
     and_then (part_if has_width (xr_type Y) s) (\<lambda>pointer s.
     and_then (eat_kind XtAt s) (\<lambda>is_placed s.
     and_then (part_if is_placed (xr_expr Y 0) s) (\<lambda>placement s.
     and_then (ix_io_marker Y s) (\<lambda>is_io s.
     and_then (eat_kind XtEq s) (\<lambda>has_init s.
     and_then (part_if has_init (xr_expr Y 0) s) (\<lambda>init s.
     and_then (ix_attrs Y s) (\<lambda>attrs s.
       done_with \<lparr>xf_const = is_const, xf_ty = ty, xf_name = name, xf_array = array,
         xf_placement = placement, xf_init = init, xf_attrs = attrs, xf_io = is_io, xf_pointer = pointer,
         xf_span = span_new start (sp_end (last_span s))\<rparr> s)))))))))))"

definition start_here :: "'f ix_parser \<Rightarrow> nat" where
  "start_here s = (case peek s of Some t \<Rightarrow> sp_start (tk_span t) | None \<Rightarrow> 0)"

definition extend_decl :: "nat \<Rightarrow> 'f ix_field \<Rightarrow> 'f ix_stmt" where
  "extend_decl stop f = IxField (f\<lparr>xf_span := span_new (sp_start (xf_span f)) stop\<rparr>)"

definition ix_field_decl :: "'f ix_parsers \<Rightarrow> bool \<Rightarrow> ('f, 'f ix_stmt) ix_parsing" where
  "ix_field_decl Y is_const s =
     (let start = start_here s in
      and_then (skip_if is_const s) (\<lambda>_ s.
      and_then (xr_type Y s) (\<lambda>ty s.
      and_then (ix_declarator Y start is_const ty s) (\<lambda>first s.
      and_then (eat_kind XtComma s) (\<lambda>more s.
      and_then (part_if more (ix_commas no_stop (ix_declarator Y start is_const ty)) s) (\<lambda>others s.
      and_then (expect_kind XtSemi '';'' s) (\<lambda>semi s.
        let last = sp_end (tk_span semi)
        in done_with
             (case others of
                None \<Rightarrow> extend_decl last first
              | Some ds \<Rightarrow> IxBlock (map (extend_decl last) (first # ds)) (span_new start last)) s)))))))"

definition ix_padding :: "'f ix_parsers \<Rightarrow> ('f, 'f ix_stmt) ix_parsing" where
  "ix_padding Y s =
     (let start = start_here s in
      and_then (ix_ident s) (\<lambda>(name, name_span) s.
      and_then (ix_array_size Y s) (\<lambda>array s.
      and_then (ix_decl_end Y s) (\<lambda>(attrs, last) s.
        done_with (IxField \<lparr>xf_const = False, xf_ty = IxType [lit ''padding''] [] name_span, xf_name = name,
          xf_array = array, xf_placement = None, xf_init = None, xf_attrs = attrs, xf_io = False,
          xf_pointer = None, xf_span = span_new start last\<rparr>) s))))"

subsection \<open>Control flow\<close>

definition ix_paren_expr :: "'f ix_parsers \<Rightarrow> ('f, 'f ix_expr) ix_parsing" where
  "ix_paren_expr Y s =
     and_then (expect_kind XtLParen ''('' s) (\<lambda>_ s.
     and_then (xr_expr Y 0 s) (\<lambda>cond s.
     and_then (expect_kind XtRParen '')'' s) (\<lambda>_ s. done_with cond s)))"

definition ix_if :: "'f ix_parsers \<Rightarrow> ('f, 'f ix_stmt) ix_parsing" where
  "ix_if Y s =
     and_then (next_token s) (\<lambda>kw s.
     and_then (ix_paren_expr Y s) (\<lambda>cond s.
     and_then (xr_stmt Y s) (\<lambda>t s.
     and_then (eat_kw XkElse s) (\<lambda>has_else s.
     and_then (part_if has_else (xr_stmt Y) s) (\<lambda>e s.
       let last = (case e of Some st \<Rightarrow> st | None \<Rightarrow> t)
       in done_with (IxIf cond t e (from_to (tk_span kw) (ix_stmt_span last))) s)))))"

definition ix_while :: "'f ix_parsers \<Rightarrow> ('f, 'f ix_stmt) ix_parsing" where
  "ix_while Y s =
     and_then (next_token s) (\<lambda>kw s.
     and_then (ix_paren_expr Y s) (\<lambda>cond s.
     and_then (xr_stmt Y s) (\<lambda>body s.
       done_with (IxWhile cond body (from_to (tk_span kw) (last_span s))) s)))"

definition ix_field_no_semi :: "'f ix_parsers \<Rightarrow> ('f, 'f ix_stmt) ix_parsing" where
  "ix_field_no_semi Y s =
     (let start = start_here s in
      and_then (eat_kw XkConst s) (\<lambda>is_const s.
      and_then (xr_type Y s) (\<lambda>ty s.
      and_then (ix_declarator Y start is_const ty s) (\<lambda>f s. done_with (IxField f) s))))"

definition ix_stmt_no_semi :: "'f ix_parsers \<Rightarrow> ('f, 'f ix_stmt) ix_parsing" where
  "ix_stmt_no_semi Y s =
     (if peek_kind s \<in> Some ` {XtKw XkConst, XtKw XkAuto, XtKw XkBe, XtKw XkLe} \<or> field_decl_ahead s
      then ix_field_no_semi Y s
      else and_then (xr_expr Y 0 s) (\<lambda>e s. done_with (IxExprStmt e (ix_span e)) s))"

definition ix_for :: "'f ix_parsers \<Rightarrow> ('f, 'f ix_stmt) ix_parsing" where
  "ix_for Y s =
     and_then (next_token s) (\<lambda>kw s.
     and_then (expect_kind XtLParen ''('' s) (\<lambda>_ s.
     and_then (eat_any [XtSemi, XtComma] s) (\<lambda>no_init s.
     and_then (part_if (\<not> no_init) (ix_stmt_no_semi Y) s) (\<lambda>init s.
     and_then (eat_kind XtComma s) (\<lambda>_ s.
     and_then (part_if (peek_kind s \<notin> {Some XtSemi, Some XtComma}) (xr_expr Y 0) s) (\<lambda>cond s.
     and_then (eat_any [XtSemi, XtComma] s) (\<lambda>_ s.
     and_then (part_if (peek_kind s \<noteq> Some XtRParen) (xr_expr Y 0) s) (\<lambda>step s.
     and_then (expect_kind XtRParen '')'' s) (\<lambda>_ s.
     and_then (xr_stmt Y s) (\<lambda>body s.
       done_with (IxFor init cond step body (from_to (tk_span kw) (last_span s))) s))))))))))"

definition ix_match_pattern :: "'f ix_parsers \<Rightarrow> ('f, 'f ix_pattern) ix_parsing" where
  "ix_match_pattern Y s =
     (if peek_kind s = Some (XtKw XkUnderscore)
      then and_then (next_token s) (\<lambda>t s. done_with (IxWildcard (tk_span t)) s)
      else and_then (xr_expr Y ix_pattern_bp s) (\<lambda>lo s.
           and_then (eat_kind XtDot s) (\<lambda>is_range s.
           and_then (part_if is_range (ix_range_end ix_pattern_bp Y) s) (\<lambda>hi s.
             done_with (case hi of
                 Some hi \<Rightarrow> IxRange lo hi (from_to (ix_span lo) (ix_span hi))
               | None \<Rightarrow> IxValue lo) s))))"

definition ix_arm_body :: "'f ix_parsers \<Rightarrow> ('f, 'f ix_stmt list) ix_parsing" where
  "ix_arm_body Y s =
     (if peek_kind s = Some XtLBrace
      then and_then (ix_block Y s) (\<lambda>(stmts, _) s. done_with stmts s)
      else and_then (xr_stmt Y s) (\<lambda>st s. done_with [st] s))"

definition ix_match_arm :: "'f ix_parsers \<Rightarrow> ('f, 'f ix_arm) ix_parsing" where
  "ix_match_arm Y s =
     (let start = start_here s in
      and_then (expect_kind XtLParen ''('' s) (\<lambda>_ s.
      and_then (separated_list (eat_any [XtComma, XtPipe, XtPipePipe]) no_stop (ix_match_pattern Y) s)
        (\<lambda>patterns s.
      and_then (expect_kind XtRParen '')'' s) (\<lambda>_ s.
      and_then (expect_kind XtColon '':'' s) (\<lambda>_ s.
      and_then (ix_arm_body Y s) (\<lambda>body s.
        done_with (IxArm patterns body (span_new start (sp_end (last_span s)))) s))))))"

definition ix_match :: "'f ix_parsers \<Rightarrow> ('f, 'f ix_stmt) ix_parsing" where
  "ix_match Y s =
     and_then (next_token s) (\<lambda>kw s.
     and_then (expect_kind XtLParen ''('' s) (\<lambda>_ s.
     and_then (xr_expr Y 0 s) (\<lambda>scrutinee s.
     and_then (ix_more [XtComma] (xr_expr Y 0) s) (\<lambda>_ s.
     and_then (expect_kind XtRParen '')'' s) (\<lambda>_ s.
     and_then (expect_kind XtLBrace ''{'' s) (\<lambda>_ s.
     and_then (items_until (at_close_or_end XtRBrace) (ix_match_arm Y) s) (\<lambda>arms s.
     and_then (expect_kind XtRBrace ''}'' s) (\<lambda>_ s.
       done_with (IxMatch scrutinee arms (from_to (tk_span kw) (last_span s))) s))))))))"

definition ix_catch :: "'f ix_parsers \<Rightarrow> ('f, unit) ix_parsing" where
  "ix_catch Y s =
     and_then (eat_kind XtLParen s) (\<lambda>has_bind s.
     and_then (part_if has_bind (items_until (at_close_or_end XtRParen) skip_token) s) (\<lambda>_ s.
     and_then (if has_bind then eat_kind XtRParen s else done_with False s) (\<lambda>_ s.
     and_then (ix_block Y s) (\<lambda>_ s. done_with () s))))"

definition ix_try :: "'f ix_parsers \<Rightarrow> ('f, 'f ix_stmt) ix_parsing" where
  "ix_try Y s =
     (let start = start_here s in
      and_then (skip_token s) (\<lambda>_ s.
      and_then (ix_block_stmt Y s) (\<lambda>body s.
      and_then (eat_kw XkCatch s) (\<lambda>has_catch s.
      and_then (part_if has_catch (ix_catch Y) s) (\<lambda>_ s.
        done_with (IxTry body (span_new start (sp_end (last_span s)))) s)))))"

definition ix_return :: "'f ix_parsers \<Rightarrow> ('f, 'f ix_stmt) ix_parsing" where
  "ix_return Y s =
     and_then (next_token s) (\<lambda>kw s.
     and_then (part_if (peek_kind s \<noteq> Some XtSemi) (xr_expr Y 0) s) (\<lambda>value s.
     and_then (expect_kind XtSemi '';'' s) (\<lambda>semi s.
       done_with (IxReturn value (from_to (tk_span kw) (tk_span semi))) s)))"

text \<open>\<open>break;\<close> and \<open>continue;\<close>.\<close>

definition ix_jump :: "(span \<Rightarrow> 'f ix_stmt) \<Rightarrow> ('f, 'f ix_stmt) ix_parsing" where
  "ix_jump jump s =
     and_then (next_token s) (\<lambda>t s.
     and_then (expect_kind XtSemi '';'' s) (\<lambda>_ s. done_with (jump (tk_span t)) s))"

subsection \<open>Statements\<close>

definition ix_template_call :: "('f, 'f ix_stmt) ix_parsing" where
  "ix_template_call s =
     (let start = start_here s in
      and_then (drain_to_semi s) (\<lambda>semi s.
        done_with (IxBlock [] (span_new start (sp_end (tk_span semi)))) s))"

definition ix_expr_stmt :: "'f ix_parsers \<Rightarrow> ('f, 'f ix_stmt) ix_parsing" where
  "ix_expr_stmt Y s =
     and_then (xr_expr Y 0 s) (\<lambda>e s.
     and_then (expect_kind XtSemi '';'' s) (\<lambda>semi s.
       done_with (IxExprStmt e (from_to (ix_span e) (tk_span semi))) s))"

definition ix_decl_or_expr :: "'f ix_parsers \<Rightarrow> ('f, 'f ix_stmt) ix_parsing" where
  "ix_decl_or_expr Y s =
     (if padding_ahead s then ix_padding Y s
      else if bitfield_field_ahead s then ix_bitfield_field Y s
      else if field_decl_ahead s then ix_field_decl Y False s
      else if template_call_ahead s then ix_template_call s
      else ix_expr_stmt Y s)"

definition ix_attr_stmt :: "'f ix_parsers \<Rightarrow> span \<Rightarrow> ('f, 'f ix_stmt) ix_parsing" where
  "ix_attr_stmt Y sp s =
     and_then (ix_decl_end Y s) (\<lambda>(_, last) s. done_with (IxBlock [] (span_new (sp_start sp) last)) s)"

definition ix_empty :: "('f, 'f ix_stmt) ix_parsing" where
  "ix_empty s = and_then (next_token s) (\<lambda>t s. done_with (IxBlock [] (tk_span t)) s)"

definition ix_fn_stmt :: "'f ix_parsers \<Rightarrow> ('f, 'f ix_stmt) ix_parsing" where
  "ix_fn_stmt Y s = and_then (ix_function_def Y s) (\<lambda>f s. done_with (IxFn f) s)"

text \<open>The statement that a keyword starts.\<close>

definition ix_keyword_stmt :: "'f ix_parsers \<Rightarrow> ix_keyword \<Rightarrow> ('f, 'f ix_stmt) ix_parsing" where
  "ix_keyword_stmt Y kw =
     (case kw of
        XkFn \<Rightarrow> ix_fn_stmt Y
      | XkUsing \<Rightarrow> ix_using Y
      | XkStruct \<Rightarrow> ix_struct_decl Y False
      | XkUnion \<Rightarrow> ix_struct_decl Y True
      | XkEnum \<Rightarrow> ix_enum_decl Y
      | XkBitfield \<Rightarrow> ix_bitfield_decl Y
      | XkNamespace \<Rightarrow> ix_namespace Y
      | XkImport \<Rightarrow> ix_import
      | XkIf \<Rightarrow> ix_if Y
      | XkWhile \<Rightarrow> ix_while Y
      | XkFor \<Rightarrow> ix_for Y
      | XkMatch \<Rightarrow> ix_match Y
      | XkTry \<Rightarrow> ix_try Y
      | XkReturn \<Rightarrow> ix_return Y
      | XkBreak \<Rightarrow> ix_jump IxBreak
      | XkContinue \<Rightarrow> ix_jump IxContinue
      | XkConst \<Rightarrow> ix_field_decl Y True
      | XkBe \<Rightarrow> ix_field_decl Y False
      | XkLe \<Rightarrow> ix_field_decl Y False
      | XkAuto \<Rightarrow> ix_field_decl Y False
      | XkTemplate \<Rightarrow> ix_templated Y
      | _ \<Rightarrow> ix_decl_or_expr Y)"

definition ix_stmt :: "'f ix_parsers \<Rightarrow> ('f, 'f ix_stmt) ix_parsing" where
  "ix_stmt Y s =
     (case peek s of
        None \<Rightarrow> fail_with (UnexpectedEof ''statement'') s
      | Some t \<Rightarrow>
          (case tk_kind t of
             XtSemi \<Rightarrow> ix_empty s
           | XtLBrace \<Rightarrow> ix_block_stmt Y s
           | XtKw kw \<Rightarrow> ix_keyword_stmt Y kw s
           | XtLBracketBracket \<Rightarrow> ix_attr_stmt Y (tk_span t) s
           | _ \<Rightarrow> ix_decl_or_expr Y s))"

subsection \<open>The parser\<close>

fun ix_parsers :: "nat \<Rightarrow> 'f ix_parsers" where
  "ix_parsers 0 =
     \<lparr>xr_expr = (\<lambda>bp s. None), xr_prefix = (\<lambda>s. None), xr_type = (\<lambda>s. None), xr_stmt = (\<lambda>s. None)\<rparr>"
| "ix_parsers (Suc n) =
     \<lparr>xr_expr = ix_expr_bp (ix_parsers n), xr_prefix = ix_prefix (ix_parsers n),
      xr_type = ix_type_ref (ix_parsers n), xr_stmt = ix_stmt (ix_parsers n)\<rparr>"

definition ix_top_item :: "'f ix_parsers \<Rightarrow> ('f, 'f ix_item) ix_parsing" where
  "ix_top_item Y s =
     (if peek_kind s = Some (XtKw XkFn)
      then and_then (ix_function_def Y s) (\<lambda>f s. done_with (IxFunction f) s)
      else and_then (ix_stmt Y s) (\<lambda>st s. done_with (IxStmt st) s))"

definition ix_parse ::
  "nat \<Rightarrow> 'f ix_token tok list \<Rightarrow> (('f ix_token syntax_error, 'f ix_program) res) option" where
  "ix_parse n tokens =
     map_option fst (items_until at_eof (ix_top_item (ix_parsers n)) (parser_new tokens))"

end
