(* ===== verification/ImhHalt.thy ===== *)
theory ImhHalt
  imports ImhStmt CursorHalt
begin

text \<open>
  Every part of the pattern parser ends without a panic if the parsers it calls do, and the parts that
  succeed only after a token was consumed move. A token \<open>]]\<close> counts for the two it may become.
\<close>

subsection \<open>The clock of the parser\<close>

definition bracket_weight :: "'f ix_token \<Rightarrow> nat" where
  "bracket_weight k = (if k = XtRBracketBracket then 2 else 1)"

interpretation xc: token_clock bracket_weight
  by unfold_locales (simp_all add: bracket_weight_def)

abbreviation ends_ix :: "nat \<Rightarrow> (nat \<Rightarrow> ('f ix_token syntax_error, 'a, 'f ix_parser) result) \<Rightarrow> 'f ix_parser \<Rightarrow> bool" where
  "ends_ix \<equiv> xc.ends"

abbreviation moves_ix :: "nat \<Rightarrow> (nat \<Rightarrow> ('f ix_token syntax_error, 'a, 'f ix_parser) result) \<Rightarrow> 'f ix_parser \<Rightarrow> bool" where
  "moves_ix \<equiv> xc.moves"

text \<open>Splitting a token leaves as much to do.\<close>

lemma drop_at: "peek s = Some t \<Longrightarrow> drop (ps_pos s) (ps_tokens s) = t # drop (ps_pos s + 1) (ps_tokens s)"
  by (auto simp: peek_def token_at_def Cons_nth_drop_Suc split: if_splits)

lemma work_split: "xc.work (split_brackets s) = xc.work s"
proof (cases "peek_kind s = Some XtRBracketBracket")
  case True
  then obtain t where t: "peek s = Some t" "tk_kind t = XtRBracketBracket" by (auto simp: peek_kind_def)
  then have "ps_pos s < length (ps_tokens s)" by (auto simp: peek_def token_at_def split: if_splits)
  then show ?thesis
    using t by (simp add: split_brackets_def xc.work_def Let_def drop_at bracket_weight_def)
next
  case False
  then have "split_brackets s = s" by (auto simp: split_brackets_def peek_kind_def split: option.split)
  then show ?thesis by simp
qed

lemma further_split [simp]: "xc.further s (split_brackets s)"
  by (simp add: xc.further_def work_split)

subsection \<open>Single tokens and lists\<close>

lemma peek_kind_peek: "peek_kind s = Some k \<Longrightarrow> peek s \<noteq> None"
  by (auto simp: peek_kind_def)

lemma moves_ident: "moves_ix r (\<lambda>n. ix_ident s) s"
proof (cases "\<exists>t name. peek s = Some t \<and> ident_name (tk_kind t) = Some name")
  case True
  then obtain t name where t: "peek s = Some t" "ident_name (tk_kind t) = Some name" by blast
  have "moves_ix r (\<lambda>n. and_then (next_token s) (\<lambda>tok s. done_with (name, tk_span tok) s)) s"
    by (intro xc.moves_then xc.consumes_next settle_rules) (simp_all add: t)
  then show ?thesis by (simp add: ix_ident_def t)
next
  case False
  then have "\<exists>e. ix_ident s = Some (Err e, s)"
    by (auto simp: ix_ident_def fail_with_def split: option.split)
  then show ?thesis by (auto intro!: xc.consumes_const)
qed

lemma moves_soft_ident: "moves_ix r (\<lambda>n. ix_soft_ident s) s"
proof (cases "Option.bind (peek_kind s) soft_name")
  case (Some name)
  then have peek: "peek s \<noteq> None" by (auto simp: peek_kind_def split: bind_splits)
  have "moves_ix r (\<lambda>n. and_then (next_token s) (\<lambda>tok s. done_with (name, tk_span tok) s)) s"
    by (intro xc.moves_then xc.consumes_next settle_rules peek) simp
  then show ?thesis by (simp add: ix_soft_ident_def Some)
qed (simp add: ix_soft_ident_def moves_ident)

lemmas ends_names [settle_rules] = xc.moves_ends [OF moves_ident] xc.moves_ends [OF moves_soft_ident]

lemma ends_eat_kw [settle_rules]: "ends_ix r (\<lambda>n. eat_kw kw s) s"
  by (simp add: eat_kw_def xc.halts_eat)

lemma ends_eat_any [settle_rules]: "ends_ix r (\<lambda>n. eat_any ks s) s"
  by (induction ks arbitrary: s) (simp_all only: eat_any.simps, (intro settle_rules; simp)+)

lemma ends_skip_if [settle_rules]: "ends_ix r (\<lambda>n. skip_if b s) s"
  unfolding skip_if_def by (intro settle_rules; simp)

lemma moves_rbracket: "moves_ix r (\<lambda>n. ix_rbracket s) s"
  unfolding ix_rbracket_def by (rule xc.moves_at [OF xc.consumes_expect further_split])

lemmas ends_rbracket [settle_rules] = xc.moves_ends [OF moves_rbracket]

lemma next_token_bump: "peek_kind s = Some k \<Longrightarrow> \<exists>t. next_token s = Some (Ok t, snd (bump s))"
  by (auto simp: next_token_def bump_def peek_kind_def done_with_def split: option.split)

lemma bump_peek_kind: "peek_kind s = Some k \<Longrightarrow> peek_kind (snd (bump s)) = kind_at 1 s"
  by (auto simp: bump_def peek_kind_def kind_at_def peek_at_def peek_def token_at_def)

lemma ends_rbracket_bracket [settle_rules]: "ends_ix r (\<lambda>n. ix_rbracket_bracket s) s"
proof (cases "peek_kind s = Some XtRBracket \<and> kind_at 1 s = Some XtRBracket")
  case True
  then obtain t u where tu: "next_token s = Some (Ok t, snd (bump s))"
      "next_token (snd (bump s)) = Some (Ok u, snd (bump (snd (bump s))))"
    using next_token_bump bump_peek_kind by metis
  have "xc.further s (snd (bump (snd (bump s))))"
    by (rule xc.trans_later [OF xc.further_bump xc.further_bump])
  then show ?thesis
    using True by (simp add: ix_rbracket_bracket_def and_then_Some tu xc.ends_done)
next
  case False
  then show ?thesis
    by (simp only: ix_rbracket_bracket_def if_False) (intro settle_rules; simp)
qed

lemma moves_commas: "(\<And>s. moves_ix r (\<lambda>n. p n s) s) \<Longrightarrow> moves_ix r (\<lambda>n. ix_commas early (p n) s) s"
  unfolding ix_commas_def by (intro xc.consumes_separated xc.halts_eat) assumption

lemma ends_list_before [settle_rules]:
  "(\<And>s. moves_ix r (\<lambda>n. p n s) s) \<Longrightarrow> ends_ix r (\<lambda>n. ix_list_before k (p n) s) s"
  unfolding ix_list_before_def by (intro settle_rules xc.moves_ends [OF moves_commas]; simp)

lemma ends_list_until [settle_rules]:
  "(\<And>s. moves_ix r (\<lambda>n. p n s) s) \<Longrightarrow> ends_ix r (\<lambda>n. ix_list_until k (p n) s) s"
  unfolding ix_list_until_def by (intro settle_rules xc.moves_ends [OF moves_commas]; simp)

lemma ends_more [settle_rules]:
  assumes "\<And>s. ends_ix r (\<lambda>n. p n s) s"
  shows "ends_ix r (\<lambda>n. ix_more seps (p n) s) s"
  unfolding ix_more_def
proof (rule xc.halts_items)
  fix s :: "'a ix_parser"
  assume "\<not> peek_kind s \<notin> Some ` set seps"
  then have "peek s \<noteq> None" by (auto simp: peek_kind_def)
  then show "moves_ix r (\<lambda>n. and_then (skip_token s) (\<lambda>_ s. p n s)) s"
    by (intro xc.moves_then xc.consumes_skip assms)
qed

lemma ends_path_rest [settle_rules]: "ends_ix r (\<lambda>n. path_rest s) s"
  unfolding path_rest_def by (intro settle_rules)

subsection \<open>Expressions and types\<close>

definition exprs_calm :: "nat \<Rightarrow> (nat \<Rightarrow> 'f ix_parsers) \<Rightarrow> bool" where
  "exprs_calm r Y \<longleftrightarrow>
     (\<forall>bp s. moves_ix r (\<lambda>n. xr_expr (Y n) bp s) s) \<and>
     (\<forall>s. moves_ix r (\<lambda>n. xr_prefix (Y n) s) s) \<and>
     (\<forall>s. moves_ix r (\<lambda>n. xr_type (Y n) s) s)"

lemma moves_parts:
  assumes "exprs_calm r Y"
  shows "moves_ix r (\<lambda>n. xr_expr (Y n) bp s) s" "moves_ix r (\<lambda>n. xr_prefix (Y n) s) s"
    "moves_ix r (\<lambda>n. xr_type (Y n) s) s"
  using assms by (simp_all add: exprs_calm_def)

lemmas ends_parts = moves_parts [THEN xc.moves_ends]

lemma exprs_calm_less: "exprs_calm r Y \<Longrightarrow> r' \<le> r \<Longrightarrow> exprs_calm r' Y"
  by (auto simp: exprs_calm_def intro: xc.moves_less)

lemma moves_template_arg: "exprs_calm r Y \<Longrightarrow> moves_ix r (\<lambda>n. ix_template_arg (Y n) s) s"
  by (cases "nested_type_ahead s") (simp_all add: ix_template_arg_def moves_parts xc.moves_then settle_rules)

lemma ends_template_args: "exprs_calm r Y \<Longrightarrow> ends_ix r (\<lambda>n. ix_template_args (Y n) s) s"
  unfolding ix_template_args_def by (intro settle_rules moves_template_arg; simp)

lemma moves_type_ref:
  assumes "0 < r \<Longrightarrow> exprs_calm (r - 1) Y"
  shows "moves_ix r (\<lambda>n. ix_type_ref (Y n) s) s"
  unfolding ix_type_ref_def Let_def
  by (rule xc.ends_then_moves [OF ends_eat_any], rule xc.moves_then_less [OF moves_soft_ident])
    (intro settle_rules ends_template_args assms; simp)

lemma ends_attr_args: "exprs_calm r Y \<Longrightarrow> ends_ix r (\<lambda>n. ix_attr_args (Y n) s) s"
  unfolding ix_attr_args_def by (intro settle_rules moves_parts; simp)

lemma moves_attr: "exprs_calm r Y \<Longrightarrow> moves_ix r (\<lambda>n. ix_attr (Y n) s) s"
  unfolding ix_attr_def Let_def by (intro xc.moves_then [OF moves_ident]) (intro settle_rules ends_attr_args; simp)

lemma ends_attrs: "exprs_calm r Y \<Longrightarrow> ends_ix r (\<lambda>n. ix_attrs (Y n) s) s"
  unfolding ix_attrs_def by (intro settle_rules moves_attr; simp)

text \<open>The forms of a prefix expression, as functions of the parsers they call.\<close>

lemma moves_prefix_forms:
  assumes s: "peek s \<noteq> None" and less: "0 < r \<Longrightarrow> exprs_calm (r - 1) Y"
  shows "moves_ix r (\<lambda>n. ix_reflect (Y n) kind s) s"
    and "moves_ix r (\<lambda>n. and_then (next_token s) (\<lambda>_ s. xr_prefix (Y n) s)) s"
    and "moves_ix r (\<lambda>n. ix_brace_list (Y n) s) s"
    and "moves_ix r (\<lambda>n. ix_parens (Y n) s) s"
    and "moves_ix r (\<lambda>n. ix_unary (Y n) oper s) s"
    and "moves_ix r (\<lambda>n. and_then (next_token s) (\<lambda>tok s. done_with (f (tk_span tok)) s)) s"
  unfolding ix_reflect_def ix_brace_list_def ix_parens_def ix_unary_def Let_def
  by (rule xc.consumes_after_next [OF s], (intro settle_rules moves_parts ends_parts less; simp))+

lemma moves_ident_or_path: "moves_ix r (\<lambda>n. ix_ident_or_path s) s"
  unfolding ix_ident_or_path_def by (intro xc.moves_then [OF moves_ident]) (intro settle_rules; simp)

text \<open>Which form there is does not depend on the parsers.\<close>

definition steady :: "nat \<Rightarrow> (nat \<Rightarrow> ('f, 'a) ix_parsing option) \<Rightarrow> 'f ix_parser \<Rightarrow> bool" where
  "steady r F s \<longleftrightarrow>
     (\<forall>n. F n = None) \<or> (\<exists>p. (\<forall>n. F n = Some (p n)) \<and> moves_ix r (\<lambda>n. p n s) s)"

lemma steady_rules:
  "steady r (\<lambda>n. None) s"
  "moves_ix r (\<lambda>n. p n s) s \<Longrightarrow> steady r (\<lambda>n. Some (p n)) s"
  "(b \<Longrightarrow> steady r F s) \<Longrightarrow> (\<not> b \<Longrightarrow> steady r G s) \<Longrightarrow> steady r (\<lambda>n. if b then F n else G n) s"
  "(x = None \<Longrightarrow> steady r F s) \<Longrightarrow> (\<And>a. x = Some a \<Longrightarrow> steady r (\<lambda>n. H n a) s) \<Longrightarrow>
     steady r (\<lambda>n. case x of None \<Rightarrow> F n | Some a \<Rightarrow> H n a) s"
  "(\<And>c d. z = (c, d) \<Longrightarrow> steady r (\<lambda>n. J n c d) s) \<Longrightarrow> steady r (\<lambda>n. case z of (c, d) \<Rightarrow> J n c d) s"
  by (cases b; cases x; cases z; auto simp: steady_def)+

lemma steady_prefix:
  assumes "peek s \<noteq> None" "0 < r \<Longrightarrow> exprs_calm (r - 1) Y"
  shows "steady r (\<lambda>n. ix_prefix_form (Y n) k) s"
  unfolding ix_prefix_form_def
  by (intro steady_rules moves_ident_or_path moves_prefix_forms [OF assms])

lemma moves_prefix:
  assumes less: "0 < r \<Longrightarrow> exprs_calm (r - 1) Y"
  shows "moves_ix r (\<lambda>n. ix_prefix (Y n) s) s"
proof (cases "peek s")
  case None
  then show ?thesis by (auto simp: ix_prefix_def fail_with_def intro!: xc.consumes_const)
next
  case (Some t)
  then have "steady r (\<lambda>n. ix_prefix_form (Y n) (tk_kind t)) s" by (intro steady_prefix less) simp_all
  then consider "\<forall>n. ix_prefix_form (Y n) (tk_kind t) = None"
    | p where "\<forall>n. ix_prefix_form (Y n) (tk_kind t) = Some (p n)" "moves_ix r (\<lambda>n. p n s) s"
    unfolding steady_def by blast
  then show ?thesis
    by cases (auto simp: ix_prefix_def Some fail_with_def intro!: xc.consumes_const)
qed

lemma infix_operator: "ix_infix_bp k = Some bps \<Longrightarrow> k = XtQuestion \<or> ix_assign_op k \<noteq> None \<or> ix_arith_op k \<noteq> None"
  by (cases k) (simp_all add: ix_infix_bp_def ix_assign_op_def ix_arith_op_def)

lemma moves_suffixes:
  assumes s: "peek s \<noteq> None" and less: "0 < r \<Longrightarrow> exprs_calm (r - 1) Y"
  shows "moves_ix r (\<lambda>n. ix_call_suffix (Y n) lhs s) s"
    and "moves_ix r (\<lambda>n. ix_index_suffix (Y n) lhs s) s"
    and "moves_ix r (\<lambda>n. ix_member_suffix lhs s) s"
    and "moves_ix r (\<lambda>n. ix_post_suffix oper lhs s) s"
    and "moves_ix r (\<lambda>n. ix_ternary_suffix (Y n) b lhs s) s"
    and "moves_ix r (\<lambda>n. ix_assign_suffix (Y n) b a lhs s) s"
    and "moves_ix r (\<lambda>n. ix_binary_suffix (Y n) b oper' lhs s) s"
  unfolding ix_call_suffix_def ix_index_suffix_def ix_member_suffix_def ix_post_suffix_def
    ix_ternary_suffix_def ix_assign_suffix_def ix_binary_suffix_def
  by (rule xc.consumes_after_next [OF s], (intro settle_rules moves_parts ends_parts less; simp))+

lemma moves_infix:
  assumes s: "peek s \<noteq> None" and less: "0 < r \<Longrightarrow> exprs_calm (r - 1) Y" and k: "ix_infix_bp k = Some bps"
  shows "moves_ix r (\<lambda>n. ix_infix_suffix (Y n) b k lhs s) s"
proof -
  consider "k = XtQuestion" | a where "k \<noteq> XtQuestion" "ix_assign_op k = Some a"
    | oper where "k \<noteq> XtQuestion" "ix_assign_op k = None" "ix_arith_op k = Some oper"
    using infix_operator [OF k] by (cases "ix_assign_op k"; cases "ix_arith_op k") auto
  then show ?thesis
    by cases (simp_all add: ix_infix_suffix_def moves_suffixes [OF s less])
qed

lemma steady_suffix:
  assumes less: "0 < r \<Longrightarrow> exprs_calm (r - 1) Y"
  shows "steady r (\<lambda>n. ix_suffix (Y n) m lhs s) s"
proof (cases "peek_kind s")
  case (Some k)
  then have s: "peek s \<noteq> None" by (rule peek_kind_peek)
  show ?thesis
    unfolding ix_suffix_def Some option.case
    by (intro steady_rules moves_suffixes [OF s less] moves_infix [OF s less]; simp)
qed (simp add: ix_suffix_def steady_rules)

lemma moves_expr_bp:
  assumes "0 < r \<Longrightarrow> exprs_calm (r - 1) Y"
  shows "moves_ix r (\<lambda>n. ix_expr_bp (Y n) m s) s"
  unfolding ix_expr_bp_def
proof (rule xc.moves_then_less [OF moves_prefix [OF assms]])
  fix lhs and s :: "'a ix_parser" assume "0 < r"
  then show "ends_ix (r - 1) (\<lambda>n. extend_by (loop_fuel s) (ix_suffix (Y n) m) lhs s) s"
    by (intro xc.halts_extended steady_suffix [unfolded steady_def] exprs_calm_less [OF assms]) auto
qed

end
