(* ===== verification/ImhStmtHalt.thy ===== *)
theory ImhStmtHalt
  imports ImhHalt
begin

text \<open>Every statement of the pattern parser ends, and every list of tokens is answered.\<close>

subsection \<open>Blocks and declarations\<close>

definition all_calm :: "nat \<Rightarrow> (nat \<Rightarrow> 'f ix_parsers) \<Rightarrow> bool" where
  "all_calm r Y \<longleftrightarrow> exprs_calm r Y \<and> (\<forall>s. moves_ix r (\<lambda>n. xr_stmt (Y n) s) s)"

lemma all_calmD: "all_calm r Y \<Longrightarrow> exprs_calm r Y"
  by (simp add: all_calm_def)

lemma moves_stmt: "all_calm r Y \<Longrightarrow> moves_ix r (\<lambda>n. xr_stmt (Y n) s) s"
  by (simp add: all_calm_def)

lemma all_calm_less: "all_calm r Y \<Longrightarrow> r' \<le> r \<Longrightarrow> all_calm r' Y"
  by (auto simp: all_calm_def intro: exprs_calm_less xc.moves_less)

lemmas parts = moves_parts ends_parts ends_attrs

lemmas stmt_parts = all_calmD [THEN moves_parts(1)] all_calmD [THEN moves_parts(3)]
  all_calmD [THEN ends_parts(1)] all_calmD [THEN ends_parts(3)] moves_stmt xc.moves_ends [OF moves_stmt]

lemma moves_block:
  assumes "0 < r \<Longrightarrow> all_calm (r - 1) Y"
  shows "moves_ix r (\<lambda>n. ix_block (Y n) s) s"
  unfolding ix_block_def
proof (rule xc.moves_then_less [OF xc.consumes_expect])
  fix a and s :: "'a ix_parser" assume r: "0 < r"
  have item: "moves_ix (r - 1) (\<lambda>n. if at_eof s then fail_with (UnexpectedEof ''}'') s else xr_stmt (Y n) s) s"
    for s :: "'a ix_parser"
    using moves_stmt [OF assms [OF r]] by (cases "at_eof s") (auto simp: fail_with_def intro!: xc.consumes_const)
  show "ends_ix (r - 1) (\<lambda>n. and_then (items_until (\<lambda>s. peek_kind s = Some XtRBrace)
        (\<lambda>s. if at_eof s then fail_with (UnexpectedEof ''}'') s else xr_stmt (Y n) s) s) (\<lambda>stmts s.
      and_then (expect_kind XtRBrace ''}'' s) (\<lambda>close s.
        done_with (stmts, from_to (tk_span a) (tk_span close)) s))) s"
    by (intro settle_rules item; simp)
qed

lemma ends_block: "all_calm r Y \<Longrightarrow> ends_ix r (\<lambda>n. ix_block (Y n) s) s"
  by (rule xc.moves_ends [OF moves_block]) (erule all_calm_less, simp)

lemma moves_block_stmt:
  assumes "0 < r \<Longrightarrow> all_calm (r - 1) Y"
  shows "moves_ix r (\<lambda>n. ix_block_stmt (Y n) s) s"
  unfolding ix_block_stmt_def by (rule xc.moves_then [OF moves_block [OF assms]]) (simp, (intro settle_rules; simp))

lemma ends_block_stmt: "all_calm r Y \<Longrightarrow> ends_ix r (\<lambda>n. ix_block_stmt (Y n) s) s"
  unfolding ix_block_stmt_def by (intro settle_rules ends_block; simp)

lemma moves_param:
  assumes "exprs_calm r Y"
  shows "moves_ix r (\<lambda>n. ix_param (Y n) s) s"
  unfolding ix_param_def Let_def
  by (rule xc.ends_then_moves [OF ends_skip_if], rule xc.moves_then [OF moves_parts(3) [OF assms]])
    (intro settle_rules ends_parts [OF assms]; simp)

lemma moves_template_param: "moves_ix r (\<lambda>n. ix_template_param s) s"
  unfolding ix_template_param_def
  by (rule xc.ends_then_moves [OF ends_eat_kw], rule xc.moves_then [OF moves_soft_ident])
    (intro settle_rules; simp)

lemma ends_template_params [settle_rules]: "ends_ix r (\<lambda>n. ix_template_params s) s"
  unfolding ix_template_params_def by (intro settle_rules moves_template_param; simp)

lemma ends_decl_end: "exprs_calm r Y \<Longrightarrow> ends_ix r (\<lambda>n. ix_decl_end (Y n) s) s"
  unfolding ix_decl_end_def by (intro settle_rules ends_attrs; simp)

lemma ends_parents: "exprs_calm r Y \<Longrightarrow> ends_ix r (\<lambda>n. ix_parents (Y n) s) s"
  unfolding ix_parents_def by (intro settle_rules ends_parts; simp)

lemma ends_range_end: "exprs_calm r Y \<Longrightarrow> ends_ix r (\<lambda>n. ix_range_end bp (Y n) s) s"
  unfolding ix_range_end_def by (intro settle_rules ends_parts; simp)

lemma moves_variant: "exprs_calm r Y \<Longrightarrow> moves_ix r (\<lambda>n. ix_variant (Y n) s) s"
  unfolding ix_variant_def Let_def
  by (rule xc.moves_then [OF moves_ident]) (intro settle_rules ends_parts ends_range_end; simp)

text \<open>What a keyword starts consumes it, and then has one token less for the parsers it calls.\<close>

lemma moves_function_def:
  assumes s: "peek s \<noteq> None" and less: "0 < r \<Longrightarrow> all_calm (r - 1) Y"
  shows "moves_ix r (\<lambda>n. ix_function_def (Y n) s) s"
  unfolding ix_function_def_def
  by (rule xc.consumes_after_next [OF s]) (intro settle_rules moves_param ends_block all_calmD less; simp)

lemma moves_fn_stmt:
  assumes "peek s \<noteq> None" "0 < r \<Longrightarrow> all_calm (r - 1) Y"
  shows "moves_ix r (\<lambda>n. ix_fn_stmt (Y n) s) s"
  unfolding ix_fn_stmt_def
  by (rule xc.moves_then [OF moves_function_def [OF assms]]) (simp, (intro settle_rules; simp))

lemma moves_templated:
  assumes s: "peek s \<noteq> None" and less: "0 < r \<Longrightarrow> all_calm (r - 1) Y"
  shows "moves_ix r (\<lambda>n. ix_templated (Y n) s) s"
  unfolding ix_templated_def
  by (rule xc.moves_then_less [OF xc.consumes_skip [OF s]]) (intro settle_rules stmt_parts less; simp)

lemma moves_type_decls:
  assumes s: "peek s \<noteq> None" and less: "0 < r \<Longrightarrow> all_calm (r - 1) Y"
  shows "moves_ix r (\<lambda>n. ix_using (Y n) s) s"
    and "moves_ix r (\<lambda>n. ix_struct_decl (Y n) u s) s"
    and "moves_ix r (\<lambda>n. ix_enum_decl (Y n) s) s"
  unfolding ix_using_def ix_struct_decl_def ix_enum_decl_def
  by (rule xc.consumes_after_next [OF s],
      (intro settle_rules moves_variant ends_parents ends_block ends_decl_end all_calmD ends_parts xc.halts_next less; simp))+

lemma ends_bits_name: "ends_ix r (\<lambda>n. ix_bits_name head s) s"
  unfolding ix_bits_name_def by (intro settle_rules; simp)

lemma moves_bitfield_field:
  assumes "exprs_calm r Y"
  shows "moves_ix r (\<lambda>n. ix_bitfield_field (Y n) s) s"
  unfolding ix_bitfield_field_def Let_def
  by (rule xc.moves_then [OF moves_parts(3) [OF assms]])
    (intro settle_rules ends_bits_name ends_decl_end ends_parts assms; simp)

lemma moves_bitfield_entry:
  assumes "all_calm r Y"
  shows "moves_ix r (\<lambda>n. ix_bitfield_entry (Y n) s) s"
proof (cases "bitfield_field_ahead s")
  case True
  then show ?thesis using moves_bitfield_field [OF all_calmD [OF assms]] by (simp add: ix_bitfield_entry_def)
next
  case not_field: False
  show ?thesis
  proof (cases "peek_kind s = Some XtSemi")
    case True
    then have "moves_ix r (\<lambda>n. and_then (skip_token s) (\<lambda>_ s. done_with (IxBlock [] (last_span s)) s)) s"
      by (intro xc.moves_then [OF xc.consumes_skip]) (auto simp: peek_kind_def intro!: settle_rules)
    then show ?thesis using not_field True by (simp add: ix_bitfield_entry_def)
  next
    case False
    then show ?thesis using not_field moves_stmt [OF assms] by (simp add: ix_bitfield_entry_def)
  qed
qed

lemma moves_skip_until: "\<not> at_close_or_end k s \<Longrightarrow> moves_ix r (\<lambda>n. skip_token s) s"
  by (rule xc.consumes_skip) (auto simp: at_close_or_end_def peek_kind_def)

lemma ends_skip_until [settle_rules]: "ends_ix r (\<lambda>n. items_until (at_close_or_end k) skip_token s) s"
  by (intro xc.halts_items moves_skip_until)

lemma ends_drain [settle_rules]: "ends_ix r (\<lambda>n. drain_to_semi s) s"
  unfolding drain_to_semi_def by (intro settle_rules)

lemma moves_drain: "moves_ix r (\<lambda>n. drain_to_semi s) s"
  unfolding drain_to_semi_def by (rule xc.ends_then_moves [OF ends_skip_until xc.consumes_expect])

lemma moves_bodies:
  assumes s: "peek s \<noteq> None" and less: "0 < r \<Longrightarrow> all_calm (r - 1) Y"
  shows "moves_ix r (\<lambda>n. ix_bitfield_decl (Y n) s) s"
    and "moves_ix r (\<lambda>n. ix_namespace (Y n) s) s"
    and "moves_ix r (\<lambda>n. ix_import s) s"
  unfolding ix_bitfield_decl_def ix_namespace_def ix_import_def Let_def
  by (rule xc.consumes_after_next [OF s],
      (intro settle_rules moves_bitfield_entry ends_block ends_decl_end all_calmD less; simp))+

subsection \<open>Fields\<close>

lemma ends_array_size: "exprs_calm r Y \<Longrightarrow> ends_ix r (\<lambda>n. ix_array_size (Y n) s) s"
  unfolding ix_array_size_def by (intro settle_rules ends_parts; simp)

lemma ends_io_marker: "exprs_calm r Y \<Longrightarrow> ends_ix r (\<lambda>n. ix_io_marker (Y n) s) s"
  unfolding ix_io_marker_def by (intro settle_rules ends_parts; simp)

lemma ends_declarator_name [settle_rules]: "ends_ix r (\<lambda>n. ix_declarator_name b s) s"
  unfolding ix_declarator_name_def by (intro settle_rules; simp)

lemma ends_declarator: "exprs_calm r Y \<Longrightarrow> ends_ix r (\<lambda>n. ix_declarator (Y n) start c ty s) s"
  unfolding ix_declarator_def
  by (intro settle_rules ends_parts ends_array_size ends_io_marker ends_attrs; simp)

lemma ends_declarators:
  "exprs_calm r Y \<Longrightarrow> ends_ix r (\<lambda>n. ix_commas no_stop (ix_declarator (Y n) start c ty) s) s"
  unfolding ix_commas_def
  by (intro xc.halts_separated ends_declarator xc.eats_kind) (erule exprs_calm_less)

lemma moves_field_decl:
  assumes "exprs_calm r Y"
  shows "moves_ix r (\<lambda>n. ix_field_decl (Y n) c s) s"
  unfolding ix_field_decl_def Let_def
  by (rule xc.ends_then_moves [OF ends_skip_if], rule xc.moves_then [OF moves_parts(3) [OF assms]])
    (intro settle_rules ends_declarator ends_declarators assms; simp)

lemma moves_padding:
  assumes "exprs_calm r Y"
  shows "moves_ix r (\<lambda>n. ix_padding (Y n) s) s"
  unfolding ix_padding_def Let_def
  by (rule xc.moves_then [OF moves_ident]) (intro settle_rules ends_array_size ends_decl_end assms; simp)

subsection \<open>Control flow\<close>

lemma ends_paren_expr: "exprs_calm r Y \<Longrightarrow> ends_ix r (\<lambda>n. ix_paren_expr (Y n) s) s"
  unfolding ix_paren_expr_def by (intro settle_rules ends_parts; simp)

lemma ends_field_no_semi: "exprs_calm r Y \<Longrightarrow> ends_ix r (\<lambda>n. ix_field_no_semi (Y n) s) s"
  unfolding ix_field_no_semi_def Let_def by (intro settle_rules ends_parts ends_declarator; simp)

lemma ends_stmt_no_semi: "exprs_calm r Y \<Longrightarrow> ends_ix r (\<lambda>n. ix_stmt_no_semi (Y n) s) s"
  unfolding ix_stmt_no_semi_def by (intro settle_rules ends_parts ends_field_no_semi; simp)

lemma moves_match_pattern:
  assumes "exprs_calm r Y"
  shows "moves_ix r (\<lambda>n. ix_match_pattern (Y n) s) s"
proof (cases "peek_kind s = Some (XtKw XkUnderscore)")
  case True
  then have "moves_ix r (\<lambda>n. and_then (next_token s) (\<lambda>t s. done_with (IxWildcard (tk_span t)) s)) s"
    by (intro xc.moves_then [OF xc.consumes_next [OF peek_kind_peek]] settle_rules) simp_all
  then show ?thesis using True by (simp add: ix_match_pattern_def)
next
  case False
  then show ?thesis
    by (simp only: ix_match_pattern_def if_False, intro xc.moves_then [OF moves_parts(1) [OF assms]])
      (intro settle_rules ends_range_end assms; simp)
qed

lemma ends_arm_body: "all_calm r Y \<Longrightarrow> ends_ix r (\<lambda>n. ix_arm_body (Y n) s) s"
  unfolding ix_arm_body_def by (intro settle_rules ends_block stmt_parts; simp)

lemma ends_patterns:
  assumes "exprs_calm r Y"
  shows "ends_ix r (\<lambda>n. separated_list (eat_any ks) no_stop (ix_match_pattern (Y n)) s) s"
  by (intro xc.moves_ends xc.consumes_separated moves_match_pattern ends_eat_any assms)

lemma moves_match_arm:
  assumes "all_calm r Y"
  shows "moves_ix r (\<lambda>n. ix_match_arm (Y n) s) s"
  unfolding ix_match_arm_def Let_def
  by (rule xc.moves_then [OF xc.consumes_expect])
    (intro settle_rules ends_patterns ends_arm_body all_calmD assms; simp)

lemma ends_catch: "all_calm r Y \<Longrightarrow> ends_ix r (\<lambda>n. ix_catch (Y n) s) s"
  unfolding ix_catch_def by (intro settle_rules ends_block; simp)

lemma moves_control:
  assumes s: "peek s \<noteq> None" and less: "0 < r \<Longrightarrow> all_calm (r - 1) Y"
  shows "moves_ix r (\<lambda>n. ix_if (Y n) s) s"
    and "moves_ix r (\<lambda>n. ix_while (Y n) s) s"
    and "moves_ix r (\<lambda>n. ix_for (Y n) s) s"
    and "moves_ix r (\<lambda>n. ix_match (Y n) s) s"
    and "moves_ix r (\<lambda>n. ix_return (Y n) s) s"
    and "moves_ix r (\<lambda>n. ix_jump j s) s"
    and "moves_ix r (\<lambda>n. ix_empty s) s"
  unfolding ix_if_def ix_while_def ix_for_def ix_match_def ix_return_def ix_jump_def ix_empty_def Let_def
  by (rule xc.consumes_after_next [OF s],
      (intro settle_rules ends_paren_expr ends_stmt_no_semi moves_match_arm stmt_parts all_calmD less; simp))+

lemma moves_try:
  assumes s: "peek s \<noteq> None" and less: "0 < r \<Longrightarrow> all_calm (r - 1) Y"
  shows "moves_ix r (\<lambda>n. ix_try (Y n) s) s"
  unfolding ix_try_def Let_def
  by (rule xc.moves_then_less [OF xc.consumes_skip [OF s]])
    (intro settle_rules ends_block_stmt ends_catch less; simp)

subsection \<open>Statements\<close>

lemma moves_template_call: "moves_ix r (\<lambda>n. ix_template_call s) s"
  unfolding ix_template_call_def Let_def by (rule xc.moves_then [OF moves_drain]) (intro settle_rules; simp)

lemma moves_expr_stmt:
  assumes "exprs_calm r Y"
  shows "moves_ix r (\<lambda>n. ix_expr_stmt (Y n) s) s"
  unfolding ix_expr_stmt_def
  by (rule xc.moves_then [OF moves_parts(1) [OF assms]]) (intro settle_rules; simp)

lemma moves_decl_or_expr:
  assumes "exprs_calm r Y"
  shows "moves_ix r (\<lambda>n. ix_decl_or_expr (Y n) s) s"
proof -
  consider "padding_ahead s" | "\<not> padding_ahead s" "bitfield_field_ahead s"
    | "\<not> padding_ahead s" "\<not> bitfield_field_ahead s" "field_decl_ahead s"
    | "\<not> padding_ahead s" "\<not> bitfield_field_ahead s" "\<not> field_decl_ahead s" "template_call_ahead s"
    | "\<not> padding_ahead s" "\<not> bitfield_field_ahead s" "\<not> field_decl_ahead s"
      "\<not> template_call_ahead s"
    by blast
  then show ?thesis
    using assms
    by cases (simp_all add: ix_decl_or_expr_def moves_padding moves_bitfield_field moves_field_decl
        moves_template_call moves_expr_stmt)
qed

lemma moves_attr_stmt:
  assumes s: "peek_kind s = Some XtLBracketBracket" and less: "0 < r \<Longrightarrow> all_calm (r - 1) Y"
  shows "moves_ix r (\<lambda>n. ix_attr_stmt (Y n) sp s) s"
proof -
  let ?rest = "\<lambda>n s. and_then (ix_list_before XtRBracketBracket (ix_attr (Y n)) s) (\<lambda>attrs s.
    and_then (ix_rbracket_bracket s) (\<lambda>_ s.
    and_then (expect_kind XtSemi '';'' s) (\<lambda>semi s.
      done_with (IxBlock [] (span_new (sp_start sp) (sp_end (tk_span semi)))) s)))"
  have "ix_attr_stmt Y' sp s = and_then (skip_token s) (\<lambda>_ s.
      and_then (ix_list_before XtRBracketBracket (ix_attr Y') s) (\<lambda>attrs s.
      and_then (ix_rbracket_bracket s) (\<lambda>_ s.
      and_then (expect_kind XtSemi '';'' s) (\<lambda>semi s.
        done_with (IxBlock [] (span_new (sp_start sp) (sp_end (tk_span semi)))) s))))" for Y' :: "'a ix_parsers"
    using s by (simp add: ix_attr_stmt_def ix_decl_end_def ix_attrs_def eat_kind_True skip_token_def
        and_then_done and_then_assoc)
  moreover have "moves_ix r (\<lambda>n. and_then (skip_token s) (\<lambda>_ s. ?rest n s)) s"
    by (rule xc.moves_then_less [OF xc.consumes_skip [OF peek_kind_peek [OF s]]])
      (intro settle_rules moves_attr all_calmD less; simp)
  ultimately show ?thesis by simp
qed

lemma moves_keyword_stmt:
  assumes s: "peek s \<noteq> None" and less: "0 < r \<Longrightarrow> all_calm (r - 1) Y" and same: "exprs_calm r Y"
  shows "moves_ix r (\<lambda>n. ix_keyword_stmt (Y n) kw s) s"
proof -
  note rules = moves_fn_stmt [OF s less] moves_type_decls [OF s less] moves_bodies [OF s less]
    moves_control [OF s less] moves_try [OF s less] moves_templated [OF s less] moves_field_decl [OF same]
    moves_decl_or_expr [OF same]
  show ?thesis
    by (cases kw; simp only: ix_keyword_stmt_def ix_keyword.case; rule rules; assumption)
qed

lemma moves_ix_stmt:
  assumes less: "0 < r \<Longrightarrow> all_calm (r - 1) Y" and same: "exprs_calm r Y"
  shows "moves_ix r (\<lambda>n. ix_stmt (Y n) s) s"
proof (cases "peek s")
  case None
  then show ?thesis by (auto simp: ix_stmt_def fail_with_def intro!: xc.consumes_const)
next
  case (Some t)
  then have s: "peek s \<noteq> None" by simp
  have kind: "peek_kind s = Some (tk_kind t)" using Some by (simp add: peek_kind_def)
  show ?thesis
    using moves_control(7) [OF s less] moves_block_stmt [OF less] moves_keyword_stmt [OF s less same]
      moves_attr_stmt [of s r Y "tk_span t", OF _ less] moves_decl_or_expr [OF same] kind
    by (cases "tk_kind t") (simp_all only: ix_stmt_def Some option.case ix_token.case)
qed

subsection \<open>The parsers\<close>

lemma ix_parsers_calm: "all_calm r (ix_parsers :: nat \<Rightarrow> 'f ix_parsers)"
proof (induction r rule: less_induct)
  case (less r)
  have below: "all_calm (r - 1) (ix_parsers :: nat \<Rightarrow> 'f ix_parsers)" if "0 < r" by (rule less) (use that in simp)
  then have below': "exprs_calm (r - 1) (ix_parsers :: nat \<Rightarrow> 'f ix_parsers)" if "0 < r"
    using that by (intro all_calmD)
  have exprs: "exprs_calm r (ix_parsers :: nat \<Rightarrow> 'f ix_parsers)"
    unfolding exprs_calm_def
  proof (intro conjI allI)
    fix bp and s :: "'f ix_parser"
    show "moves_ix r (\<lambda>n. xr_expr (ix_parsers n) bp s) s"
      by (rule xc.moves_shift [OF moves_expr_bp [OF below']]) simp_all
    show "moves_ix r (\<lambda>n. xr_prefix (ix_parsers n) s) s"
      by (rule xc.moves_shift [OF moves_prefix [OF below']]) simp_all
    show "moves_ix r (\<lambda>n. xr_type (ix_parsers n) s) s"
      by (rule xc.moves_shift [OF moves_type_ref [OF below']]) simp_all
  qed
  moreover have "moves_ix r (\<lambda>n. xr_stmt (ix_parsers n) s) s" for s :: "'f ix_parser"
    by (rule xc.moves_shift [OF moves_ix_stmt [OF below exprs]]) simp_all
  ultimately show ?case by (simp add: all_calm_def)
qed

lemma moves_top_item: "moves_ix r (\<lambda>n. ix_top_item (ix_parsers n) s) s"
proof -
  have "moves_ix r (\<lambda>n. and_then (ix_stmt (ix_parsers n) s) (\<lambda>st s. done_with (IxStmt st) s)) s"
    by (rule xc.moves_then [OF moves_ix_stmt [OF ix_parsers_calm all_calmD [OF ix_parsers_calm]]])
      (intro settle_rules; simp)
  moreover have "moves_ix r (\<lambda>n. and_then (ix_function_def (ix_parsers n) s) (\<lambda>f s. done_with (IxFunction f) s)) s"
    if "peek_kind s = Some (XtKw XkFn)"
    by (rule xc.moves_then [OF moves_function_def [OF peek_kind_peek [OF that] ix_parsers_calm]])
      (intro settle_rules; simp)
  ultimately show ?thesis
    by (cases "peek_kind s = Some (XtKw XkFn)") (simp_all add: ix_top_item_def)
qed

lemma ix_parse_ends: "\<exists>N out. out \<noteq> Panic \<and> (\<forall>n\<ge>N. ix_parse n tokens = Some out)"
proof -
  let ?s = "parser_new tokens"
  have "ends_ix (xc.work ?s) (\<lambda>n. items_until at_eof (ix_top_item (ix_parsers n)) ?s) ?s"
    by (intro xc.halts_items moves_top_item)
  then have "\<exists>out t. xc.further ?s t \<and> xc.safe out \<and>
      settles_on (\<lambda>n. items_until at_eof (ix_top_item (ix_parsers n)) ?s) out t"
    by (rule xc.endsE) (simp add: xc.within_work)
  then obtain N out t where "xc.safe out"
      "\<forall>n\<ge>N. items_until at_eof (ix_top_item (ix_parsers n)) ?s = Some (out, t)"
    unfolding settles_on_def by blast
  then have "out \<noteq> Panic \<and> (\<forall>n\<ge>N. ix_parse n tokens = Some out)"
    by (auto simp: ix_parse_def xc.safe_def)
  then show ?thesis by blast
qed

end
