(* ===== verification/ImhProps.thy ===== *)
theory ImhProps
  imports ImhStmtHalt
begin

text \<open>
  What the pattern parser promises, an answer for every list of tokens, and two inputs that it reads
  otherwise than its comments say.
\<close>

text \<open>C38: The pattern parser answers every list of tokens: from some fuel on it has one and the same
  result, a program or an error, and never a panic, though splitting a token \<open>]]\<close> into two lengthens the
  list it reads. No \<open>unwrap\<close>, \<open>expect\<close>, \<open>unreachable!\<close> or index of the code is reached without what
  it relies on, and every loop consumes a token in each round.
\<close>

theorem pattern_parse_answers:
  "\<exists>N out. out \<noteq> Panic \<and> (\<forall>n\<ge>N. ix_parse n tokens = Some out)"
  by (rule ix_parse_ends)

theorem pattern_parse_answers_witness:
  "\<exists>N out. out \<noteq> Panic \<and>
     (\<forall>n\<ge>N. ix_parse n (tokens_of [XtIdent (lit ''a''), XtLBracket, XtInt 1, XtRBracketBracket]
        :: int ix_token tok list) = Some out)"
  by (rule pattern_parse_answers)

subsection \<open>Two readings\<close>

text \<open>
  A field whose type has nested arguments, \<open>A<B<C>> x;\<close>, whose \<open>>>\<close> is one token, is not taken for a field, nor
  for any other declaration, and so it is parsed as an expression; with a space between the two \<open>>\<close> it is
  a field.
\<close>

lemma kinds_ahead_new [simp]: "kinds_ahead (parser_new (tokens_of ks)) = ks"
  by (simp add: kinds_ahead_def parser_new_def tokens_of_def comp_def)

lemma angle_walk_step:
  "0 < limit \<Longrightarrow> 0 < d \<Longrightarrow> angle_walk stop limit d (k # ks) =
     (if stop k then None
      else angle_walk stop (limit - 1) (if k = XtLt then Suc d else if k = XtGt then d - 1 else d) ks)"
  "0 < limit \<Longrightarrow> 0 < d \<Longrightarrow> angle_walk stop limit d [] = None"
  "angle_walk stop limit 0 ks = Some ks"
  by (cases limit; cases d; simp)+

lemma padding_needs_bracket:
  "k2 \<noteq> XtLBracket \<Longrightarrow> \<not> padding_ahead (parser_new (tokens_of (k1 # k2 # ks)))"
  by (auto simp: padding_ahead_def kind_at_def peek_at_def peek_kind_def peek_def token_at_def parser_new_def
      tokens_of_def split: if_splits)

lemma nested_args_read_as_expression:
  fixes a b c x :: chars
  defines "shift \<equiv> [XtIdent a, XtLt, XtIdent b, XtLt, XtIdent c, XtShr, XtIdent x, XtSemi]"
    and "spaced \<equiv> [XtIdent a, XtLt, XtIdent b, XtLt, XtIdent c, XtGt, XtGt, XtIdent x, XtSemi]"
  shows "ix_decl_or_expr Y (parser_new (tokens_of shift)) = ix_expr_stmt Y (parser_new (tokens_of shift))"
    and "ix_decl_or_expr Y (parser_new (tokens_of spaced)) = ix_field_decl Y False (parser_new (tokens_of spaced))"
  by (simp_all add: shift_def spaced_def ix_decl_or_expr_def padding_needs_bracket bitfield_field_ahead_def
      field_decl_ahead_def template_call_ahead_def name_walk_def drop_endian_def starts_with_def
      skip_angles_def angle_walk_step is_soft_def is_name_def ident_name_def soft_name_def)

text \<open>Of \<open>template<T> struct S<U>\<close> the parameters of the struct stay.\<close>

lemma own_params_win:
  "merge_params (IxStruct (IxStructDecl name (u # us) parent body attrs un sp)) params =
     IxStruct (IxStructDecl name (u # us) parent body attrs un sp)"
  by (simp add: merge_params_def given_params_def)

end
