(* ===== verification/Calc.thy ===== *)
theory Calc
  imports TplValue "HOL-Library.Signed_Division"
begin

text \<open>
  The calculator, \<open>hxy-calculator\<close>: the expressions of \<open>parser.rs\<close>, the evaluator of \<open>eval.rs\<close>, and the
  values of \<open>lib.rs\<close>. The reader of expressions is written with the combinators of a parser library;
  here it is an argument of what uses it. An \<open>i128\<close> is an \<open>int\<close>, with the range checked where the code
  checks it.
\<close>

subsection \<open>Expressions\<close>

datatype meta_kind = MetaOffset | MetaLen

definition meta_str :: "meta_kind \<Rightarrow> chars" where
  "meta_str m = (case m of MetaOffset \<Rightarrow> lit ''offset'' | MetaLen \<Rightarrow> lit ''len'')"

definition meta_all :: "meta_kind list" where
  "meta_all = [MetaOffset, MetaLen]"

definition meta_from_name :: "chars \<Rightarrow> meta_kind option" where
  "meta_from_name s =
     (if s = lit ''offset'' then Some MetaOffset
      else if s = lit ''len'' then Some MetaLen
      else None)"

datatype path_segment = NameSegment chars | IndexSegment nat

record calc_path =
  cp_root :: chars
  cp_instance :: "nat option"
  cp_segments :: "path_segment list"
  cp_meta :: "meta_kind option"

definition show_segment :: "path_segment \<Rightarrow> chars" where
  "show_segment seg =
     (case seg of
        NameSegment n \<Rightarrow> lit ''.'' @ n
      | IndexSegment i \<Rightarrow> lit ''['' @ show_nat i @ lit '']'')"

definition show_path :: "calc_path \<Rightarrow> chars" where
  "show_path p =
     cp_root p @
     (case cp_instance p of Some n \<Rightarrow> lit ''#'' @ show_nat n | None \<Rightarrow> []) @
     concat (map show_segment (cp_segments p)) @
     (case cp_meta p of Some m \<Rightarrow> lit ''::'' @ meta_str m | None \<Rightarrow> [])"

datatype calc_unary = CalcNeg | CalcPos

datatype calc_binary = CalcAdd | CalcSub | CalcMul | CalcDiv | CalcMod

datatype calc_expr =
    CalcLit int
  | CalcUnary calc_unary calc_expr
  | CalcBinary calc_binary calc_expr calc_expr
  | CalcPath calc_path

datatype unit_base = DecimalBase | BinaryBase

datatype calc_unit = Bytes | Kilo unit_base | Mega unit_base | Giga unit_base | Tera unit_base

fun unit_multiplier :: "calc_unit \<Rightarrow> int" where
  "unit_multiplier Bytes = 1"
| "unit_multiplier (Kilo DecimalBase) = 1000"
| "unit_multiplier (Kilo BinaryBase) = 1024"
| "unit_multiplier (Mega DecimalBase) = 1000000"
| "unit_multiplier (Mega BinaryBase) = 1048576"
| "unit_multiplier (Giga DecimalBase) = 1000000000"
| "unit_multiplier (Giga BinaryBase) = 1073741824"
| "unit_multiplier (Tera DecimalBase) = 1000000000000"
| "unit_multiplier (Tera BinaryBase) = 1099511627776"

subsection \<open>Evaluation\<close>

record field_ref =
  fr_offset :: nat
  fr_length :: nat
  fr_value :: "int option"

datatype resolve_error =
    UnknownTemplate chars
  | InstanceOutOfRange chars nat nat
  | AmbiguousTemplate chars nat
  | FieldNotFound chars chars
  | IndexOutOfBounds chars nat nat
  | NotAScalar chars
  | NotAnInteger chars
  | NoContext

datatype eval_error = DivByZero | CalcOverflow | ResolveFailed resolve_error

type_synonym resolver = "calc_path \<Rightarrow> resolve_error + field_ref"

definition null_resolver :: resolver where
  "null_resolver p = Inl NoContext"

definition fits_i128 :: "int \<Rightarrow> bool" where
  "fits_i128 v \<longleftrightarrow> - (2 ^ 127) \<le> v \<and> v < 2 ^ 127"

text \<open>\<open>checked_add\<close> and its siblings, followed by \<open>ok_or(Overflow)\<close>.\<close>

definition checked_i128 :: "int \<Rightarrow> (eval_error, int) res" where
  "checked_i128 v = (if fits_i128 v then Ok v else Err CalcOverflow)"

definition eval_path :: "resolver \<Rightarrow> calc_path \<Rightarrow> (eval_error, int) res" where
  "eval_path look p =
     (case look p of
        Inl e \<Rightarrow> Err (ResolveFailed e)
      | Inr field \<Rightarrow>
          (case cp_meta p of
             None \<Rightarrow>
               (case fr_value field of
                  Some v \<Rightarrow> Ok v
                | None \<Rightarrow> Err (ResolveFailed (NotAScalar (show_path p))))
           | Some MetaOffset \<Rightarrow> Ok (int (fr_offset field))
           | Some MetaLen \<Rightarrow> Ok (int (fr_length field))))"

text \<open>\<open>checked_rem\<close> fails exactly where \<open>checked_div\<close> does: on the least value divided by \<open>-1\<close>.\<close>

fun eval_binary :: "calc_binary \<Rightarrow> int \<Rightarrow> int \<Rightarrow> (eval_error, int) res" where
  "eval_binary CalcAdd l r = checked_i128 (l + r)"
| "eval_binary CalcSub l r = checked_i128 (l - r)"
| "eval_binary CalcMul l r = checked_i128 (l * r)"
| "eval_binary CalcDiv l r = (if r = 0 then Err DivByZero else checked_i128 (l sdiv r))"
| "eval_binary CalcMod l r =
     (if r = 0 then Err DivByZero
      else if fits_i128 (l sdiv r) then Ok (l smod r)
      else Err CalcOverflow)"

fun eval_inner :: "resolver \<Rightarrow> calc_expr \<Rightarrow> (eval_error, int) res" where
  "eval_inner look (CalcLit v) = Ok v"
| "eval_inner look (CalcPath p) = eval_path look p"
| "eval_inner look (CalcUnary oper e) =
     res_bind (eval_inner look e) (\<lambda>v.
       case oper of CalcNeg \<Rightarrow> checked_i128 (- v) | CalcPos \<Rightarrow> Ok v)"
| "eval_inner look (CalcBinary oper l r) =
     res_bind (eval_inner look l) (\<lambda>lv.
     res_bind (eval_inner look r) (\<lambda>rv. eval_binary oper lv rv))"

text \<open>\<open>evaluate_with\<close> wraps the number in a \<open>Value\<close>, whose \<open>raw\<close> gives it back.\<close>

definition evaluate_with :: "calc_expr \<Rightarrow> resolver \<Rightarrow> (eval_error, int) res" where
  "evaluate_with e look = eval_inner look e"

definition evaluate_alone :: "calc_expr \<Rightarrow> (eval_error, int) res" where
  "evaluate_alone e = evaluate_with e null_resolver"

datatype value_error = NegativeValue int | ValueOverflow int

definition value_as_u64 :: "int \<Rightarrow> (value_error, nat) res" where
  "value_as_u64 v =
     (if v < 0 then Err (NegativeValue v)
      else if v < 2 ^ 64 then Ok (nat v)
      else Err (ValueOverflow v))"

datatype 'p calc_error = CalcParse 'p | CalcEval eval_error

definition evaluate_str_with ::
  "(chars \<Rightarrow> ('p, calc_expr) res) \<Rightarrow> chars \<Rightarrow> resolver \<Rightarrow> ('p calc_error, int) res" where
  "evaluate_str_with parse input look =
     res_bind (map_err CalcParse (parse input)) (\<lambda>e. map_err CalcEval (evaluate_with e look))"

definition evaluate_str :: "(chars \<Rightarrow> ('p, calc_expr) res) \<Rightarrow> chars \<Rightarrow> ('p calc_error, int) res" where
  "evaluate_str parse input = evaluate_str_with parse input null_resolver"

subsection \<open>Exact values\<close>

text \<open>What an expression means with numbers of any size.\<close>

fun exact_binary :: "calc_binary \<Rightarrow> int \<Rightarrow> int \<Rightarrow> (eval_error, int) res" where
  "exact_binary CalcAdd l r = Ok (l + r)"
| "exact_binary CalcSub l r = Ok (l - r)"
| "exact_binary CalcMul l r = Ok (l * r)"
| "exact_binary CalcDiv l r = (if r = 0 then Err DivByZero else Ok (l sdiv r))"
| "exact_binary CalcMod l r = (if r = 0 then Err DivByZero else Ok (l smod r))"

fun exact :: "resolver \<Rightarrow> calc_expr \<Rightarrow> (eval_error, int) res" where
  "exact look (CalcLit v) = Ok v"
| "exact look (CalcPath p) = eval_path look p"
| "exact look (CalcUnary CalcNeg e) = res_bind (exact look e) (\<lambda>v. Ok (- v))"
| "exact look (CalcUnary CalcPos e) = exact look e"
| "exact look (CalcBinary oper l r) =
     res_bind (exact look l) (\<lambda>lv. res_bind (exact look r) (\<lambda>rv. exact_binary oper lv rv))"

fun parts :: "calc_expr \<Rightarrow> calc_expr set" where
  "parts (CalcUnary oper e) = insert (CalcUnary oper e) (parts e)"
| "parts (CalcBinary oper l r) = insert (CalcBinary oper l r) (parts l \<union> parts r)"
| "parts e = {e}"

text \<open>
  The parts that cannot be computed in 128 bits: those whose value does not fit, and the remainder
  of the least value by \<open>-1\<close>, which \<open>checked_rem\<close> refuses although it is zero.
\<close>

definition too_big :: "resolver \<Rightarrow> calc_expr \<Rightarrow> bool" where
  "too_big look e \<longleftrightarrow>
     (case e of
        CalcBinary CalcMod l r \<Rightarrow>
          (\<exists>lv rv. exact look l = Ok lv \<and> exact look r = Ok rv \<and> rv \<noteq> 0 \<and> \<not> fits_i128 (lv sdiv rv))
      | _ \<Rightarrow> (\<exists>v. exact look e = Ok v \<and> \<not> fits_i128 v))"

definition agrees :: "resolver \<Rightarrow> calc_expr \<Rightarrow> (eval_error, int) res \<Rightarrow> bool" where
  "agrees look e out \<longleftrightarrow>
     (if out = Err CalcOverflow then \<exists>p \<in> parts e. too_big look p else exact look e = out \<and> out \<noteq> Panic)"

lemma self_part [simp]: "e \<in> parts e"
  by (cases e) simp_all

lemma agrees_leaf: "exact look e = out \<Longrightarrow> out \<noteq> Panic \<Longrightarrow> out \<noteq> Err CalcOverflow \<Longrightarrow> agrees look e out"
  by (simp add: agrees_def)

lemma eval_path_errors [simp]: "eval_path look p \<noteq> Panic" "eval_path look p \<noteq> Err CalcOverflow"
  by (auto simp: eval_path_def split: sum.split option.split meta_kind.split)

lemma agrees_binary:
  assumes "exact look l = Ok lv" "exact look r = Ok rv"
  shows "agrees look (CalcBinary oper l r) (eval_binary oper lv rv)"
proof -
  have "too_big look (CalcBinary oper l r)" if "eval_binary oper lv rv = Err CalcOverflow"
    using that assms by (cases oper) (auto simp: too_big_def checked_i128_def split: if_splits)
  moreover have "eval_binary oper lv rv \<noteq> Err CalcOverflow \<Longrightarrow>
      eval_binary oper lv rv \<noteq> Panic \<and> eval_binary oper lv rv = exact_binary oper lv rv"
    by (cases oper) (auto simp: checked_i128_def split: if_splits)
  ultimately show ?thesis using assms by (auto simp: agrees_def)
qed

lemma agrees_Ok: "agrees look e (Ok v) \<Longrightarrow> exact look e = Ok v"
  by (simp add: agrees_def)

lemma agrees_Err:
  assumes "agrees look e (Err err)" "parts e \<subseteq> parts e'" "exact look e = Err err \<Longrightarrow> exact look e' = Err err"
  shows "agrees look e' (Err err)"
  using assms by (auto simp: agrees_def split: if_splits)

lemma eval_agrees: "agrees look e (eval_inner look e)"
proof (induction e)
  case (CalcUnary oper e)
  show ?case
  proof (cases "eval_inner look e")
    case (Ok v)
    then have v: "exact look e = Ok v" using CalcUnary agrees_Ok by simp
    show ?thesis
      using v Ok by (cases oper) (auto simp: agrees_def checked_i128_def too_big_def)
  next
    case (Err err)
    then show ?thesis using CalcUnary by (cases oper) (auto intro: agrees_Err [where e = e])
  next
    case Panic
    then show ?thesis using CalcUnary by (simp add: agrees_def)
  qed
next
  case (CalcBinary oper l r)
  show ?case
  proof (cases "eval_inner look l")
    case l: (Ok lv)
    then have lv: "exact look l = Ok lv" using CalcBinary agrees_Ok by simp
    show ?thesis
    proof (cases "eval_inner look r")
      case (Ok rv)
      then show ?thesis using l lv CalcBinary agrees_Ok agrees_binary by simp
    next
      case (Err err)
      then show ?thesis using l lv CalcBinary by (auto intro: agrees_Err [where e = r])
    next
      case Panic
      then show ?thesis using CalcBinary by (simp add: agrees_def)
    qed
  next
    case (Err err)
    then show ?thesis using CalcBinary by (auto intro: agrees_Err [where e = l])
  next
    case Panic
    then show ?thesis using CalcBinary by (simp add: agrees_def)
  qed
qed (simp_all add: agrees_leaf)

text \<open>Literals are read as 128-bit numbers, and a resolver answers with such numbers.\<close>

definition leaves_fit :: "resolver \<Rightarrow> calc_expr \<Rightarrow> bool" where
  "leaves_fit look e \<longleftrightarrow>
     (\<forall>p \<in> parts e. (\<forall>v. p = CalcLit v \<longrightarrow> fits_i128 v) \<and>
        (\<forall>q v. p = CalcPath q \<and> eval_path look q = Ok v \<longrightarrow> fits_i128 v))"

lemma eval_exact: "eval_inner look e = Ok v \<Longrightarrow> exact look e = Ok v"
  using eval_agrees [of look e] by (simp add: agrees_Ok)

lemma fits_smod: "fits_i128 a \<Longrightarrow> fits_i128 (a smod b)"
proof -
  assume a: "fits_i128 a"
  have "0 \<le> \<bar>a\<bar> mod \<bar>b\<bar>" "\<bar>a\<bar> mod \<bar>b\<bar> \<le> \<bar>a\<bar>"
    by (cases "b = 0"; simp add: zmod_le_nonneg_dividend)+
  then show ?thesis using a
    by (cases "0 \<le> a") (auto simp: smod_int_alt_def fits_i128_def sgn_if)
qed

lemma eval_Ok_small:
  "eval_inner look e = Ok v \<Longrightarrow> leaves_fit look e \<Longrightarrow>
     fits_i128 v \<and> \<not> (\<exists>p \<in> parts e. too_big look p)"
proof (induction e arbitrary: v)
  case (CalcUnary oper e)
  from CalcUnary.prems(1) obtain w where w: "eval_inner look e = Ok w" by auto
  moreover have "leaves_fit look e" using CalcUnary.prems(2) by (auto simp: leaves_fit_def)
  ultimately have ih: "fits_i128 w" "\<not> (\<exists>p \<in> parts e. too_big look p)" using CalcUnary.IH by blast+
  have v: "fits_i128 v" using CalcUnary.prems(1) w ih(1)
    by (cases oper) (auto simp: checked_i128_def split: if_splits)
  have "\<not> too_big look (CalcUnary oper e)"
    using eval_exact [OF CalcUnary.prems(1)] v by (simp add: too_big_def)
  then show ?case using ih v by simp
next
  case (CalcBinary oper l r)
  from CalcBinary.prems(1) obtain lv rv where
    w: "eval_inner look l = Ok lv" "eval_inner look r = Ok rv" "eval_binary oper lv rv = Ok v"
    by auto
  moreover have "leaves_fit look l" "leaves_fit look r"
    using CalcBinary.prems(2) by (auto simp: leaves_fit_def)
  ultimately have ih: "fits_i128 lv" "\<not> (\<exists>p \<in> parts l. too_big look p)" "\<not> (\<exists>p \<in> parts r. too_big look p)"
    using CalcBinary.IH by blast+
  have v: "fits_i128 v" using w(3) ih(1)
    by (cases oper) (auto simp: checked_i128_def fits_smod split: if_splits)
  have "\<not> too_big look (CalcBinary oper l r)"
    using eval_exact [OF CalcBinary.prems(1)] eval_exact [OF w(1)] eval_exact [OF w(2)] w(3) v
    by (cases oper) (auto simp: too_big_def split: if_splits)
  then show ?case using ih v by auto
qed (auto simp: too_big_def leaves_fit_def)

text \<open>C34: The calculator never wraps and never gives up without need: where the literals and the fields fit
  128 bits, an expression has a value exactly when none of its parts leaves 128 bits, and it is the value
  over numbers of any size; an error other than the overflow (a division by zero, a field that is not
  found) is the error the expression has over such numbers. The remainder of the least value by \<open>-1\<close>,
  which the code refuses, counts as a part that is too big.
\<close>

theorem calc_eval_exact:
  assumes "leaves_fit look e"
  shows "(case evaluate_with e look of
      Ok v \<Rightarrow> exact look e = Ok v \<and> \<not> (\<exists>p \<in> parts e. too_big look p)
    | Err CalcOverflow \<Rightarrow> (\<exists>p \<in> parts e. too_big look p)
    | Err err \<Rightarrow> exact look e = Err err
    | Panic \<Rightarrow> False)"
  using eval_agrees [of look e] eval_Ok_small [OF _ assms]
  by (auto simp: evaluate_with_def agrees_def split: res.split eval_error.split)

theorem calc_eval_exact_witness:
  "(case evaluate_with (CalcBinary CalcMul (CalcLit (2 ^ 100)) (CalcLit (2 ^ 27))) null_resolver of
      Ok v \<Rightarrow> exact null_resolver (CalcBinary CalcMul (CalcLit (2 ^ 100)) (CalcLit (2 ^ 27))) = Ok v \<and>
        \<not> (\<exists>p \<in> parts (CalcBinary CalcMul (CalcLit (2 ^ 100)) (CalcLit (2 ^ 27))). too_big null_resolver p)
    | Err CalcOverflow \<Rightarrow>
        (\<exists>p \<in> parts (CalcBinary CalcMul (CalcLit (2 ^ 100)) (CalcLit (2 ^ 27))). too_big null_resolver p)
    | Err err \<Rightarrow> exact null_resolver (CalcBinary CalcMul (CalcLit (2 ^ 100)) (CalcLit (2 ^ 27))) = Err err
    | Panic \<Rightarrow> False)"
  by (rule calc_eval_exact) (simp add: leaves_fit_def fits_i128_def)

end
