(* ===== verification/Goto.thy ===== *)
theory Goto
  imports Calc Text
begin

text \<open>
  The offsets and ranges the user types, \<open>hxy-panels/src/goto.rs\<close>: plain numbers, calculator
  expressions, and ranges whose one end may be relative to the other. What reads and prints the
  calculator's side is an argument: the parser with its errors printed, and the debug form of a name.
\<close>

subsection \<open>Numbers\<close>

datatype goto_number = Absolute nat | Relative int

definition resolve_number :: "goto_number \<Rightarrow> nat \<Rightarrow> nat \<Rightarrow> nat option" where
  "resolve_number n anchor limit =
     (let raw = (case n of Absolute v \<Rightarrow> int v | Relative delta \<Rightarrow> int anchor + delta)
      in if \<not> (0 \<le> raw \<and> raw \<le> int limit) then None else Some (nat raw))"

datatype goto_error =
    GotoEmpty
  | NotANumber chars
  | OutOfRange
  | MissingSeparator
  | BothRelative
  | GotoCalc chars
  | NotAbsolute

definition goto_unsigned :: "chars \<Rightarrow> (goto_error, nat) res" where
  "goto_unsigned s =
     (case (case strip_prefix (lit ''0x'') s of Some hex \<Rightarrow> Some hex | None \<Rightarrow> strip_prefix (lit ''0X'') s) of
        Some hex \<Rightarrow>
          (case uint_from_str 64 16 hex of Some v \<Rightarrow> Ok v | None \<Rightarrow> Err (NotANumber s))
      | None \<Rightarrow>
          (case uint_from_str 64 10 s of Some v \<Rightarrow> Ok v | None \<Rightarrow> Err (NotANumber s)))"

text \<open>\<open>i64::try_from\<close> of a \<open>u64\<close>, and of an \<open>i128\<close>.\<close>

definition to_i64 :: "int \<Rightarrow> (goto_error, int) res" where
  "to_i64 v = (if - (2 ^ 63) \<le> v \<and> v < 2 ^ 63 then Ok v else Err OutOfRange)"

definition read_number :: "chars \<Rightarrow> (goto_error, goto_number) res" where
  "read_number input =
     (let s = trim input
      in if s = [] then Err GotoEmpty
         else case strip_prefix (lit ''+'') s of
                Some rest \<Rightarrow>
                  res_bind (goto_unsigned (trim rest)) (\<lambda>v.
                  res_bind (to_i64 (int v)) (\<lambda>d. Ok (Relative d)))
              | None \<Rightarrow>
                  (case strip_prefix (lit ''-'') s of
                     Some rest \<Rightarrow>
                       res_bind (goto_unsigned (trim rest)) (\<lambda>v.
                       res_bind (to_i64 (int v)) (\<lambda>d. Ok (Relative (- d))))
                   | None \<Rightarrow> res_bind (goto_unsigned s) (\<lambda>v. Ok (Absolute v))))"

subsection \<open>Ranges\<close>

record resolved_range =
  rr_start :: nat
  rr_end :: nat

definition rr_len :: "resolved_range \<Rightarrow> nat" where
  "rr_len r = rr_end r - rr_start r"

definition rr_is_empty :: "resolved_range \<Rightarrow> bool" where
  "rr_is_empty r \<longleftrightarrow> rr_len r = 0"

text \<open>An end that lies a distance from the other one.\<close>

definition relative_to :: "nat \<Rightarrow> int \<Rightarrow> nat \<Rightarrow> (goto_error, nat) res" where
  "relative_to anchor d source_len =
     (let v = int anchor + d
      in if \<not> (0 \<le> v \<and> v \<le> int source_len) then Err OutOfRange else Ok (nat v))"

definition absolute_ends :: "goto_number \<Rightarrow> goto_number \<Rightarrow> nat \<Rightarrow> (goto_error, nat \<times> nat) res" where
  "absolute_ends first second source_len =
     (case (first, second) of
        (Absolute s, Absolute e) \<Rightarrow> Ok (s, e)
      | (Absolute s, Relative d) \<Rightarrow> res_bind (relative_to s d source_len) (\<lambda>e. Ok (s, e))
      | (Relative d, Absolute e) \<Rightarrow> res_bind (relative_to e d source_len) (\<lambda>s. Ok (s, e))
      | (Relative _, Relative _) \<Rightarrow> Err BothRelative)"

definition resolve_range :: "goto_number \<Rightarrow> goto_number \<Rightarrow> nat \<Rightarrow> bool \<Rightarrow> (goto_error, resolved_range) res" where
  "resolve_range first second source_len inclusive =
     res_bind (absolute_ends first second source_len) (\<lambda>(start_abs, end_abs).
       if start_abs > source_len \<or> end_abs > source_len then Err OutOfRange
       else let (lo, hi) = (if start_abs \<le> end_abs then (start_abs, end_abs) else (end_abs, start_abs))
            in if inclusive
               then (if hi \<ge> source_len then Err OutOfRange
                     else Ok \<lparr>rr_start = lo, rr_end = hi + 1\<rparr>)
               else Ok \<lparr>rr_start = lo, rr_end = hi\<rparr>)"

definition split_range :: "chars \<Rightarrow> (goto_error, chars \<times> chars \<times> bool) res" where
  "split_range s =
     (case split_once (lit ''..='') s of
        Some (a, b) \<Rightarrow> Ok (trim a, trim b, True)
      | None \<Rightarrow>
          (case split_once (lit ''..'') s of
             Some (a, b) \<Rightarrow> Ok (trim a, trim b, False)
           | None \<Rightarrow>
               (case split_once (lit '','') s of
                  Some (a, b) \<Rightarrow> Ok (trim a, trim b, False)
                | None \<Rightarrow> Err MissingSeparator)))"

definition goto_range :: "chars \<Rightarrow> nat \<Rightarrow> (goto_error, resolved_range) res" where
  "goto_range input source_len =
     res_bind (split_range (trim input)) (\<lambda>(raw_start, raw_end, inclusive).
     res_bind (read_number raw_start) (\<lambda>first.
     res_bind (read_number raw_end) (\<lambda>second.
       resolve_range first second source_len inclusive)))"

subsection \<open>Expressions\<close>

record calc_host =
  ch_parse :: "chars \<Rightarrow> chars + calc_expr"
  ch_debug :: "chars \<Rightarrow> chars"

fun show_resolve_error :: "(chars \<Rightarrow> chars) \<Rightarrow> resolve_error \<Rightarrow> chars" where
  "show_resolve_error dbg (UnknownTemplate n) = lit ''no template named '' @ dbg n"
| "show_resolve_error dbg (InstanceOutOfRange n requested available) =
     lit ''template '' @ dbg n @ lit '' has only '' @ show_nat available @ lit '' run(s); #'' @
     show_nat requested @ lit '' not found''"
| "show_resolve_error dbg (AmbiguousTemplate n c) =
     lit ''multiple templates match '' @ dbg n @ lit '' -- pick one with #N''"
| "show_resolve_error dbg (FieldNotFound parent component) =
     lit ''field '' @ dbg component @ lit '' not found under '' @ dbg parent"
| "show_resolve_error dbg (IndexOutOfBounds parent i n) =
     lit ''array index '' @ show_nat i @ lit '' out of bounds (len '' @ show_nat n @ lit '') under '' @
     dbg parent"
| "show_resolve_error dbg (NotAScalar p) = dbg p @ lit '' is not a scalar field''"
| "show_resolve_error dbg (NotAnInteger p) = lit ''scalar at '' @ dbg p @ lit '' is not an integer''"
| "show_resolve_error dbg NoContext = lit ''path resolution not supported in this context''"

fun show_eval_error :: "(chars \<Rightarrow> chars) \<Rightarrow> eval_error \<Rightarrow> chars" where
  "show_eval_error dbg DivByZero = lit ''division by zero''"
| "show_eval_error dbg CalcOverflow = lit ''arithmetic overflow''"
| "show_eval_error dbg (ResolveFailed e) = show_resolve_error dbg e"

definition is_unary :: "calc_expr \<Rightarrow> bool" where
  "is_unary e \<longleftrightarrow> (case e of CalcUnary _ _ \<Rightarrow> True | _ \<Rightarrow> False)"

definition goto_offset_expr :: "calc_host \<Rightarrow> chars \<Rightarrow> resolver \<Rightarrow> (goto_error, goto_number) res" where
  "goto_offset_expr C input look =
     (let s = trim input
      in if s = [] then Err GotoEmpty
         else case ch_parse C s of
                Inl e \<Rightarrow> Err (GotoCalc e)
              | Inr expr \<Rightarrow>
                  res_bind (map_err (\<lambda>e. GotoCalc (show_eval_error (ch_debug C) e)) (evaluate_with expr look))
                    (\<lambda>raw.
                      if is_unary expr then res_bind (to_i64 raw) (\<lambda>d. Ok (Relative d))
                      else if 0 \<le> raw \<and> raw < 2 ^ 64 then Ok (Absolute (nat raw))
                      else Err OutOfRange))"

definition goto_count_expr :: "calc_host \<Rightarrow> chars \<Rightarrow> resolver \<Rightarrow> (goto_error, nat) res" where
  "goto_count_expr C input look =
     res_bind (goto_offset_expr C input look) (\<lambda>n.
       case n of Absolute v \<Rightarrow> Ok v | Relative _ \<Rightarrow> Err NotAbsolute)"

definition goto_range_expr ::
  "calc_host \<Rightarrow> chars \<Rightarrow> nat \<Rightarrow> resolver \<Rightarrow> (goto_error, resolved_range) res" where
  "goto_range_expr C input source_len look =
     res_bind (split_range (trim input)) (\<lambda>(raw_start, raw_end, inclusive).
     res_bind (goto_offset_expr C raw_start look) (\<lambda>first.
     res_bind (goto_offset_expr C raw_end look) (\<lambda>second.
       resolve_range first second source_len inclusive)))"

end
