(* ===== verification/GotoProps.thy ===== *)
theory GotoProps
  imports Goto
begin

text \<open>
  What the offset prompt promises: the ranges it accepts lie in the file, and the notations for a
  range mean what the documentation says.
\<close>

subsection \<open>Digits in text\<close>

definition is_digit :: "code_point \<Rightarrow> bool" where
  "is_digit c \<longleftrightarrow> 0x30 \<le> c \<and> c \<le> 0x39"

lemma show_nat_digits: "c \<in> set (show_nat n) \<Longrightarrow> is_digit c"
proof (induction n rule: less_induct)
  case (less n)
  have digit: "is_digit (cp (digit_char d))" if "d < 10" for d
    using that by (simp add: is_digit_def digit_char_def of_char_of)
  show ?case
  proof (cases "n < 10")
    case True
    then show ?thesis
      using less.prems digit [of n] by (simp add: show_nat_def dec_str_def radix_str.simps)
  next
    case False
    then have "c \<in> set (show_nat (n div 10)) \<or> c = cp (digit_char (n mod 10))"
      using less.prems by (subst (asm) show_nat_def, subst (asm) dec_str_def, subst (asm) radix_str.simps)
        (auto simp: show_nat_def dec_str_def)
    then show ?thesis using less.IH [of "n div 10"] digit [of "n mod 10"] False by auto
  qed
qed

lemma show_nat_not_Nil [simp]: "show_nat n \<noteq> []"
  by (simp add: show_nat_def dec_str_def)

lemma trim_solid:
  assumes "cs \<noteq> []" "\<not> is_whitespace (hd cs)" "\<not> is_whitespace (last cs)"
  shows "trim cs = cs"
proof -
  have keep: "dropWhile is_whitespace xs = xs" if "xs \<noteq> []" "\<not> is_whitespace (hd xs)" for xs
    using that by (cases xs) simp_all
  show ?thesis using assms by (simp add: trim_def keep hd_rev)
qed

lemma digit_solid: "is_digit c \<Longrightarrow> \<not> is_whitespace c"
  by (auto simp: is_digit_def is_whitespace_def)

lemma trim_digits [simp]: "trim (show_nat n) = show_nat n"
  by (intro trim_solid digit_solid show_nat_digits [of _ n]) simp_all

lemma strip_prefix_hd: "p \<noteq> hd cs \<Longrightarrow> cs \<noteq> [] \<Longrightarrow> strip_prefix (p # ps) cs = None"
  by (cases cs) auto

lemma strip_sign [simp]:
  "\<not> is_digit c \<Longrightarrow> strip_prefix [c] (show_nat n) = None"
  "\<not> is_digit c \<Longrightarrow> strip_prefix [0x30, c] (show_nat n) = None"
  using show_nat_digits [of _ n] by (cases "show_nat n"; cases "tl (show_nat n)"; force)+

lemma uint_from_show_nat [simp]: "n < 2 ^ 64 \<Longrightarrow> uint_from_str 64 10 (show_nat n) = Some n"
proof -
  assume n: "n < 2 ^ 64"
  have "nonempty_digits 10 (show_nat n) = Some n"
    using digits_value_radix_str [of 10 n] by (simp add: nonempty_digits_def show_nat_def dec_str_def)
  moreover have "hd (show_nat n) \<noteq> 0x2B"
    using show_nat_digits [OF hd_in_set [of "show_nat n"]] by (auto simp: is_digit_def)
  ultimately show ?thesis using n by (cases "show_nat n") (auto simp: uint_from_str_def)
qed

lemma read_number_digits [simp]: "n < 2 ^ 64 \<Longrightarrow> read_number (show_nat n) = Ok (Absolute n)"
  by (simp add: read_number_def goto_unsigned_def is_digit_def)

lemma read_number_plus:
  assumes "n < 2 ^ 63"
  shows "read_number (lit ''+'' @ show_nat n) = Ok (Relative (int n))"
proof -
  have "trim (lit ''+'' @ show_nat n) = lit ''+'' @ show_nat n"
    using digit_solid [OF show_nat_digits [OF last_in_set [of "show_nat n"]]]
    by (intro trim_solid) (simp_all add: is_whitespace_def)
  then show ?thesis
    using assms by (simp add: read_number_def goto_unsigned_def is_digit_def to_i64_def)
qed

subsection \<open>The separator\<close>

lemma strip_prefix_append [simp]: "strip_prefix ps (ps @ cs) = Some cs"
  by (induction ps) simp_all

lemma strip_prefix_absent: "c \<in> set ps \<Longrightarrow> c \<notin> set cs \<Longrightarrow> strip_prefix ps cs = None"
  by (induction ps cs rule: strip_prefix.induct) auto

lemma split_once_absent: "c \<in> set sep \<Longrightarrow> c \<notin> set cs \<Longrightarrow> split_once sep cs = None"
  by (induction cs) (simp_all add: strip_prefix_absent)

lemma split_once_found:
  assumes "sep \<noteq> []" "hd sep \<notin> set a"
  shows "split_once sep (a @ sep @ b) = Some (a, b)"
  using assms(2)
proof (induction a)
  case Nil
  have "strip_prefix sep (sep @ b) = Some b" by simp
  then show ?case using assms(1) by (cases sep) simp_all
next
  case (Cons c a)
  have "strip_prefix sep (c # a @ sep @ b) = None"
    using Cons.prems assms(1) by (cases sep) auto
  then show ?case using Cons by simp
qed

text \<open>Two numbers and a separator between them, the second one with a sign or without.\<close>

definition sign_text :: "bool \<Rightarrow> chars" where
  "sign_text up = (if up then lit ''+'' else [])"

lemma trim_signed [simp]: "trim (sign_text p @ show_nat n) = sign_text p @ show_nat n"
  using digit_solid [OF show_nat_digits [OF last_in_set [of "show_nat n"]]]
  by (cases p) (auto simp: sign_text_def is_whitespace_def intro!: trim_solid)

lemma trim_range: "trim (show_nat a @ sep @ sign_text p @ show_nat b) = show_nat a @ sep @ sign_text p @ show_nat b"
  using digit_solid [OF show_nat_digits [OF last_in_set [of "show_nat b"]]]
    digit_solid [OF show_nat_digits [OF hd_in_set [of "show_nat a"]]]
  by (intro trim_solid) simp_all

lemma not_in_signed: "\<not> is_digit c \<Longrightarrow> c \<noteq> 0x2B \<Longrightarrow> c \<notin> set (sign_text p @ show_nat n)"
  by (auto simp: sign_text_def dest: show_nat_digits)

lemma split_range_at:
  assumes "sep \<in> {lit ''..='', lit ''..'', lit '',''}"
  shows "split_range (show_nat a @ sep @ sign_text p @ show_nat b) =
     Ok (show_nat a, sign_text p @ show_nat b, sep = lit ''..='')"
proof -
  have no: "c \<notin> set (show_nat n)" "c \<notin> set (sign_text q @ show_nat n)" if "c \<in> {0x2E, 0x3D, 0x2C}" for c q n
    using that not_in_signed [where p = q] not_in_signed [where p = False] by (auto simp: is_digit_def sign_text_def)
  have found: "split_once sep (show_nat a @ sep @ sign_text p @ show_nat b) = Some (show_nat a, sign_text p @ show_nat b)"
    using assms no(1) by (intro split_once_found) auto
  have absent: "split_once s (show_nat a @ t @ sign_text p @ show_nat b) = None"
    if "c \<in> set s" "c \<in> {0x2E, 0x3D, 0x2C}" "c \<notin> set t" for s t c
    using that no [of c] by (intro split_once_absent [of c]) auto
  show ?thesis
    using assms found absent [of "0x3D" "lit ''..=''" "lit ''..''"] absent [of "0x3D" "lit ''..=''" "lit '',''"]
      absent [of "0x2E" "lit ''..''" "lit '',''"]
    by (auto simp: split_range_def)
qed

text \<open>What comes after the separator: a number, or a distance from the first one.\<close>

lemma read_number_signed:
  assumes "b < 2 ^ 63"
  shows "read_number (sign_text p @ show_nat b) = Ok (if p then Relative (int b) else Absolute b)"
  using assms read_number_plus [of b] read_number_digits [of b] by (simp add: sign_text_def)

lemma goto_range_text:
  assumes "sep \<in> {lit ''..='', lit ''..'', lit '',''}" "a < 2 ^ 64" "b < 2 ^ 63"
  shows "goto_range (show_nat a @ sep @ sign_text p @ show_nat b) len =
     resolve_range (Absolute a) (if p then Relative (int b) else Absolute b) len (sep = lit ''..='')"
  using assms(2,3) by (simp add: goto_range_def trim_range split_range_at [OF assms(1)] read_number_signed)

subsection \<open>Properties\<close>

text \<open>C35: A range written with its bounds is read as it is written: \<open>a..b\<close> and \<open>a,b\<close> up to the second
  bound, \<open>a..=b\<close> with it, and in each of them \<open>+n\<close> in the place of the second bound is the offset
  \<open>n\<close> after the first; the ends may come in either order. The range is accepted exactly if all its
  bytes are in the file, and an inclusive range holds at least one byte.
\<close>

theorem goto_range_reads:
  assumes "sep \<in> {lit ''..='', lit ''..'', lit '',''}" "a < 2 ^ 64" "b < 2 ^ 63"
  shows "goto_range (show_nat a @ sep @ sign_text relative @ show_nat b) source_len =
     (let other = (if relative then a + b else b);
          past_end = max a other + (if sep = lit ''..='' then 1 else 0)
      in if past_end \<le> source_len then Ok \<lparr>rr_start = min a other, rr_end = past_end\<rparr>
         else Err OutOfRange)"
proof -
  have "nat (int a + int b) = a + b" by simp
  then show ?thesis
    unfolding goto_range_text [OF assms]
    by (auto simp: resolve_range_def absolute_ends_def relative_to_def Let_def min_def max_def)
qed

theorem goto_range_reads_witness:
  "goto_range (show_nat 16 @ lit ''..='' @ sign_text True @ show_nat 4) 64 = Ok \<lparr>rr_start = 16, rr_end = 21\<rparr>"
  using goto_range_reads [of "lit ''..=''" 16 4 True 64] by simp

lemma resolve_range_inside:
  "resolve_range first second len incl = Ok r \<Longrightarrow> rr_start r \<le> rr_end r \<and> rr_end r \<le> len"
  by (auto simp: resolve_range_def Let_def split: prod.splits if_splits)

text \<open>Whatever the user types, with any parser and resolver behind the calculator, an accepted
  range lies in the file with its start not after its end.
\<close>

lemma goto_range_inside:
  assumes "goto_range_expr C input source_len look = Ok r \<or> goto_range input source_len = Ok r"
  shows "rr_start r \<le> rr_end r \<and> rr_end r \<le> source_len"
  using assms by (auto simp: goto_range_expr_def goto_range_def dest!: resolve_range_inside split: prod.splits)

end
