(* ===== verification/Compare.thy ===== *)
theory Compare
  imports Geometry
begin

text \<open>
  The compare view, \<open>hxy-panels/src/diff.rs\<close>: the hunks of a diff, the rows of its two sides with the
  gaps that keep them aligned, and the debounce of its recomputation. The diff itself is the
  \<open>similar\<close> crate's; its operations are data here.
\<close>

subsection \<open>Hunks\<close>

text \<open>\<open>similar::DiffOp\<close>.\<close>

datatype diff_op =
    DiffEqual nat nat nat
  | DiffInsert nat nat nat
  | DiffDelete nat nat nat
  | DiffReplace nat nat nat nat

datatype hunk_kind = HunkEqual | HunkAdded | HunkRemoved | HunkChanged

record diff_hunk =
  hk_kind :: hunk_kind
  hk_a_offset :: nat
  hk_a_len :: nat
  hk_b_offset :: nat
  hk_b_len :: nat

text \<open>The arguments are those of the operation: old index, its length, new index, its length.\<close>

fun diff_op_to_hunk :: "diff_op \<Rightarrow> diff_hunk" where
  "diff_op_to_hunk (DiffEqual old_index new_index len) =
     \<lparr>hk_kind = HunkEqual, hk_a_offset = old_index, hk_a_len = len, hk_b_offset = new_index, hk_b_len = len\<rparr>"
| "diff_op_to_hunk (DiffInsert old_index new_index new_len) =
     \<lparr>hk_kind = HunkAdded, hk_a_offset = old_index, hk_a_len = 0, hk_b_offset = new_index, hk_b_len = new_len\<rparr>"
| "diff_op_to_hunk (DiffDelete old_index old_len new_index) =
     \<lparr>hk_kind = HunkRemoved, hk_a_offset = old_index, hk_a_len = old_len, hk_b_offset = new_index, hk_b_len = 0\<rparr>"
| "diff_op_to_hunk (DiffReplace old_index old_len new_index new_len) =
     \<lparr>hk_kind = HunkChanged, hk_a_offset = old_index, hk_a_len = old_len, hk_b_offset = new_index,
      hk_b_len = new_len\<rparr>"

text \<open>\<open>diff_hunks\<close> and \<open>diff_hunks_with_deadline\<close>, over what the crate returns.\<close>

definition diff_hunks :: "(bytes \<Rightarrow> bytes \<Rightarrow> diff_op list) \<Rightarrow> bytes \<Rightarrow> bytes \<Rightarrow> diff_hunk list" where
  "diff_hunks capture a b = map diff_op_to_hunk (capture a b)"

definition diff_hunks_with_deadline ::
  "(bytes \<Rightarrow> bytes \<Rightarrow> 'i option \<Rightarrow> diff_op list) \<Rightarrow> bytes \<Rightarrow> bytes \<Rightarrow> 'i option \<Rightarrow> diff_hunk list" where
  "diff_hunks_with_deadline capture a b deadline = map diff_op_to_hunk (capture a b deadline)"

record diff_result =
  dr_hunks :: "diff_hunk list"
  dr_a_len :: nat
  dr_b_len :: nat

definition diff_changes :: "diff_result \<Rightarrow> diff_hunk list" where
  "diff_changes d = filter (\<lambda>h. hk_kind h \<noteq> HunkEqual) (dr_hunks d)"

definition change_count :: "diff_result \<Rightarrow> nat" where
  "change_count d = length (diff_changes d)"

subsection \<open>Rows\<close>

record compare_rows =
  cr_a :: "row_slot list"
  cr_b :: "row_slot list"

text \<open>The rows from an offset on; the length of a row is cast to \<open>u16\<close>.\<close>

function rows_from :: "nat \<Rightarrow> nat \<Rightarrow> nat \<Rightarrow> row_slot list" where
  "rows_from side_len columns off =
     (if off < side_len \<and> 0 < columns
      then RealRow off (min (side_len - off) columns mod 2 ^ 16) # rows_from side_len columns (off + columns)
      else [])"
  by pat_completeness auto
termination
  by (relation "measure (\<lambda>(side_len, columns, off). side_len - off)") auto

declare rows_from.simps [simp del]

definition natural_rows :: "nat \<Rightarrow> nat \<Rightarrow> row_slot list" where
  "natural_rows side_len columns =
     (if side_len = 0 \<or> columns = 0 then [] else rows_from side_len columns 0)"

text \<open>The gaps to insert before each row: \<open>*gaps.entry(at).or_default() += count\<close>.\<close>

type_synonym gap_plan = "nat \<rightharpoonup> nat"

definition add_gaps :: "nat \<Rightarrow> nat \<Rightarrow> gap_plan \<Rightarrow> gap_plan" where
  "add_gaps at count m = m(at \<mapsto> (case m at of Some n \<Rightarrow> n | None \<Rightarrow> 0) + count)"

definition plan_hunk :: "nat \<Rightarrow> diff_hunk \<Rightarrow> gap_plan \<times> gap_plan \<Rightarrow> gap_plan \<times> gap_plan" where
  "plan_hunk columns h plans =
     (let (a_gaps, b_gaps) = plans in
      case hk_kind h of
        HunkAdded \<Rightarrow>
          (add_gaps (div_ceil (hk_a_offset h) columns) (div_ceil (hk_b_len h) columns) a_gaps, b_gaps)
      | HunkRemoved \<Rightarrow>
          (a_gaps, add_gaps (div_ceil (hk_b_offset h) columns) (div_ceil (hk_a_len h) columns) b_gaps)
      | HunkChanged \<Rightarrow>
          (let rows_a = div_ceil (hk_a_len h) columns; rows_b = div_ceil (hk_b_len h) columns
           in if rows_a < rows_b
              then (add_gaps (div_ceil (hk_a_offset h + hk_a_len h) columns) (rows_b - rows_a) a_gaps, b_gaps)
              else if rows_b < rows_a
              then (a_gaps, add_gaps (div_ceil (hk_b_offset h + hk_b_len h) columns) (rows_a - rows_b) b_gaps)
              else (a_gaps, b_gaps))
      | HunkEqual \<Rightarrow> (a_gaps, b_gaps))"

definition gaps_at :: "gap_plan \<Rightarrow> nat \<Rightarrow> row_slot list" where
  "gaps_at gaps i = (case gaps i of Some count \<Rightarrow> replicate count GapRow | None \<Rightarrow> [])"

fun interleave_from :: "nat \<Rightarrow> gap_plan \<Rightarrow> row_slot list \<Rightarrow> row_slot list" where
  "interleave_from i gaps [] = gaps_at gaps i"
| "interleave_from i gaps (row # rows) = gaps_at gaps i @ row # interleave_from (i + 1) gaps rows"

definition interleave_with_gaps :: "row_slot list \<Rightarrow> gap_plan \<Rightarrow> row_slot list" where
  "interleave_with_gaps natural gaps = interleave_from 0 gaps natural"

text \<open>\<open>Vec::resize\<close>.\<close>

definition resize_rows :: "nat \<Rightarrow> row_slot list \<Rightarrow> row_slot list" where
  "resize_rows n rows = take n rows @ replicate (n - length rows) GapRow"

definition build_row_maps :: "diff_result \<Rightarrow> nat \<Rightarrow> compare_rows" where
  "build_row_maps d columns =
     (if columns = 0 then \<lparr>cr_a = [], cr_b = []\<rparr>
      else let a_natural = natural_rows (dr_a_len d) columns;
               b_natural = natural_rows (dr_b_len d) columns;
               (a_gaps, b_gaps) = fold (plan_hunk columns) (dr_hunks d) (Map.empty, Map.empty);
               a = interleave_with_gaps a_natural a_gaps;
               b = interleave_with_gaps b_natural b_gaps;
               max_len = max (length a) (length b)
           in \<lparr>cr_a = resize_rows max_len a, cr_b = resize_rows max_len b\<rparr>)"

subsection \<open>Recomputation\<close>

record pane_fingerprint =
  pf_undo_len :: nat
  pf_source_len :: nat

datatype debounced = DebounceIdle | WaitFor nat | Recompute

text \<open>Times and durations are in milliseconds; \<open>duration_since\<close> of an earlier time is zero.\<close>

definition recompute_debounce :: nat where "recompute_debounce = 300"

definition needs_recompute_debounced ::
  "bool \<Rightarrow> (pane_fingerprint \<times> pane_fingerprint) option \<Rightarrow> bool \<Rightarrow> pane_fingerprint \<times> pane_fingerprint \<Rightarrow>
   nat option \<Rightarrow> nat \<Rightarrow> debounced \<times> nat option" where
  "needs_recompute_debounced pending last_fingerprint diff_present current edit_at now =
     (if pending then (DebounceIdle, edit_at)
      else let changed = (case last_fingerprint of
                            Some before \<Rightarrow> before \<noteq> current
                          | None \<Rightarrow> \<not> diff_present)
           in if \<not> changed then (DebounceIdle, None)
              else let start = (case edit_at of Some t \<Rightarrow> t | None \<Rightarrow> now);
                       edit_at = (case edit_at of Some t \<Rightarrow> Some t | None \<Rightarrow> Some now);
                       elapsed = now - start
                   in if elapsed \<ge> recompute_debounce then (Recompute, edit_at)
                      else (WaitFor (recompute_debounce - elapsed), edit_at))"

subsection \<open>Every byte has its row\<close>

text \<open>The bytes a column of rows shows, in the order of the rows.\<close>

definition shown :: "row_slot list \<Rightarrow> nat list" where
  "shown rows = concat (map (\<lambda>s. case s of RealRow off len \<Rightarrow> [off..<off + len] | GapRow \<Rightarrow> []) rows)"

lemma shown_simps [simp]:
  "shown [] = []"
  "shown (RealRow off len # rows) = [off..<off + len] @ shown rows"
  "shown (GapRow # rows) = shown rows"
  "shown (xs @ ys) = shown xs @ shown ys"
  "shown (replicate n GapRow) = []"
  by (simp_all add: shown_def)

lemma shown_gaps [simp]: "shown (gaps_at gaps i) = []"
  by (simp add: gaps_at_def split: option.split)

lemma shown_interleave [simp]: "shown (interleave_from i gaps rows) = shown rows"
proof (induction i gaps rows rule: interleave_from.induct)
  case (2 i gaps row rows)
  then show ?case by (cases row) simp_all
qed simp

lemma shown_resize [simp]: "length rows \<le> n \<Longrightarrow> shown (resize_rows n rows) = shown rows"
  by (simp add: resize_rows_def)

lemma length_resize [simp]: "length (resize_rows n rows) = n"
  by (simp add: resize_rows_def)

lemma shown_rows_from:
  assumes "0 < columns" "columns < 2 ^ 16"
  shows "shown (rows_from n columns off) = [off..<n]"
  using assms
proof (induction n columns off rule: rows_from.induct)
  case (1 n columns off)
  show ?case
  proof (cases "off < n")
    case True
    have small: "min (n - off) columns mod 2 ^ 16 = min (n - off) columns"
      using 1 by (intro mod_less) auto
    have "[off..<n] = [off..<off + min (n - off) columns] @ [off + columns..<n]"
    proof (cases "n - off \<le> columns")
      case False
      then have "[off..<off + columns + (n - off - columns)] = [off..<off + columns] @ [off + columns..<n]"
        using True by (subst upt_add_eq_append) simp_all
      then show ?thesis using False True by simp
    qed (use True in simp)
    moreover have "shown (rows_from n columns (off + columns)) = [off + columns..<n]"
      using 1 True by simp
    ultimately show ?thesis
      using True 1 by (subst rows_from.simps) (simp add: small)
  qed (simp add: rows_from.simps)
qed

lemma shown_natural: "0 < columns \<Longrightarrow> columns < 2 ^ 16 \<Longrightarrow> shown (natural_rows n columns) = [0..<n]"
  by (simp add: natural_rows_def shown_rows_from)

text \<open>Rows start at multiples of the width and are no longer than it.\<close>

definition on_grid :: "nat \<Rightarrow> row_slot \<Rightarrow> bool" where
  "on_grid columns s \<longleftrightarrow>
     (case s of RealRow off len \<Rightarrow> columns dvd off \<and> len \<le> columns | GapRow \<Rightarrow> True)"

lemma on_grid_gap [simp]: "on_grid columns GapRow"
  by (simp add: on_grid_def)

lemma rows_from_grid: "columns dvd off \<Longrightarrow> s \<in> set (rows_from n columns off) \<Longrightarrow> on_grid columns s"
proof (induction n columns off rule: rows_from.induct)
  case (1 n columns off)
  have "min (n - off) columns mod 2 ^ 16 \<le> columns"
    by (rule le_trans [OF mod_less_eq_dividend]) simp
  then show ?case
    using 1 by (subst (asm) rows_from.simps) (auto simp: on_grid_def split: if_splits)
qed

lemma interleave_grid:
  "s \<in> set (interleave_from i gaps rows) \<Longrightarrow> \<forall>s \<in> set rows. on_grid columns s \<Longrightarrow> on_grid columns s"
  by (induction i gaps rows rule: interleave_from.induct) (auto simp: gaps_at_def split: option.splits)

lemma resized_grid: "s \<in> set (resize_rows n rows) \<Longrightarrow> s \<in> set rows \<or> s = GapRow"
  by (auto simp: resize_rows_def dest: in_set_takeD)

lemma side_grid:
  assumes "s \<in> set (resize_rows k (interleave_with_gaps (natural_rows n columns) gaps))"
  shows "on_grid columns s"
  using resized_grid [OF assms] interleave_grid [of s 0 gaps "natural_rows n columns" columns]
    rows_from_grid [of columns 0 _ n]
  by (auto simp: interleave_with_gaps_def natural_rows_def split: if_splits)

text \<open>C36: The two sides of a comparison have the same number of rows, whatever the hunks are. Each side
  shows every byte of its file once, in order, in rows that start at multiples of the width and are
  no wider: the gaps move rows, and neither lose nor repeat a byte.
\<close>

theorem compare_rows_aligned:
  assumes "0 < columns" "columns < 2 ^ 16"
  shows "let m = build_row_maps d columns in
     length (cr_a m) = length (cr_b m) \<and>
     shown (cr_a m) = [0..<dr_a_len d] \<and> shown (cr_b m) = [0..<dr_b_len d] \<and>
     list_all (on_grid columns) (cr_a m @ cr_b m)"
proof -
  obtain A B where plans: "fold (plan_hunk columns) (dr_hunks d) (Map.empty, Map.empty) = (A, B)"
    by fastforce
  show ?thesis
    using assms shown_natural [OF assms] side_grid
    by (auto simp: build_row_maps_def plans interleave_with_gaps_def list_all_iff Let_def)
qed

text \<open>Five bytes against two: one row of three and one of two, against one row and a gap.\<close>

definition sample_diff :: diff_result where
  "sample_diff =
     \<lparr>dr_hunks = map diff_op_to_hunk [DiffEqual 0 0 2, DiffDelete 2 3 2], dr_a_len = 5, dr_b_len = 2\<rparr>"

theorem compare_rows_aligned_witness:
  "shown (cr_b (build_row_maps sample_diff 3)) = [0..<2] \<and>
   cr_b (build_row_maps sample_diff 3) = [RealRow 0 2, GapRow]"
  using compare_rows_aligned [of 3 sample_diff]
  by (simp add: sample_diff_def build_row_maps_def natural_rows_def rows_from.simps plan_hunk_def
      add_gaps_def div_ceil_def interleave_with_gaps_def gaps_at_def resize_rows_def Let_def)

subsection \<open>The debounce fires\<close>

text \<open>A poll of the session: its arguments but for the slot, which the host keeps.\<close>

record poll =
  po_pending :: bool
  po_last :: "(pane_fingerprint \<times> pane_fingerprint) option"
  po_present :: bool
  po_current :: "pane_fingerprint \<times> pane_fingerprint"
  po_now :: nat

definition answer_poll :: "poll \<Rightarrow> nat option \<Rightarrow> debounced \<times> nat option" where
  "answer_poll p edit_at =
     needs_recompute_debounced (po_pending p) (po_last p) (po_present p) (po_current p) edit_at (po_now p)"


text \<open>There is something to compute, and nothing computes it yet.\<close>

definition stale :: "poll \<Rightarrow> bool" where
  "stale p \<longleftrightarrow> \<not> po_pending p \<and>
     (case po_last p of Some before \<Rightarrow> before \<noteq> po_current p | None \<Rightarrow> \<not> po_present p)"

lemma answer_stale:
  assumes "stale p"
  shows "answer_poll p (Some t) =
    (if po_now p - t \<ge> recompute_debounce then Recompute else WaitFor (recompute_debounce - (po_now p - t)), Some t)"
    and "answer_poll p None = (WaitFor recompute_debounce, Some (po_now p))"
  using assms
  by (auto simp: answer_poll_def needs_recompute_debounced_def stale_def recompute_debounce_def split: option.splits)





text \<open>
  The slot keeps the time of the first edit when a recomputation starts, so an edit made while it
  runs is followed by the next one at once.
\<close>

lemma recompute_keeps_slot:
  "stale p \<Longrightarrow> fst (answer_poll p (Some t)) = Recompute \<Longrightarrow> snd (answer_poll p (Some t)) = Some t"
  by (simp add: answer_stale(1))

end
