(* ===== verification/Inspector.thy ===== *)
theory Inspector
  imports Text Bytes
begin

text \<open>
  The data inspector, \<open>hxy-panels/src/inspector.rs\<close>: the decoders of the bytes at the caret. A \<open>u128\<close>
  or an \<open>i128\<close> that is only printed is a number; where the code shifts and masks, words of the code's
  width. Floating point and the calendar of the time library are parameters.
\<close>

unbundle bit_operations_syntax

datatype insp_endian = InspLittle | InspBig

datatype int_radix = RadixDecimal | RadixHex | RadixBinary

datatype decoded = DecodedText chars | DecodedColor "byte list" chars

fun decoded_label :: "decoded \<Rightarrow> chars" where
  "decoded_label (DecodedText s) = s"
| "decoded_label (DecodedColor rgba label) = label"

record inspector_state =
  in_endian :: insp_endian
  in_radix :: int_radix
  in_show_panel :: bool

definition inspector_default :: inspector_state where
  "inspector_default = \<lparr>in_endian = InspLittle, in_radix = RadixDecimal, in_show_panel = False\<rparr>"

text \<open>
  What the decoders take from elsewhere: the printed forms of the floating-point numbers with these
  bits, the seconds since 1970 of an OLE date when its days are finite, and a time of the library.
\<close>

record clockwork =
  cw_float32 :: "nat \<Rightarrow> chars"
  cw_float64 :: "nat \<Rightarrow> chars"
  cw_ole_seconds :: "nat \<Rightarrow> int option"
  cw_timestamp :: "int \<Rightarrow> chars option"

subsection \<open>Integers in a radix\<close>

text \<open>\<open>{:0>n$}\<close>: zeros on the left up to the width.\<close>

definition zeros_to :: "nat \<Rightarrow> string \<Rightarrow> chars" where
  "zeros_to n s = lit (replicate (n - length s) (CHR ''0'') @ s)"

definition format_unsigned :: "nat \<Rightarrow> nat \<Rightarrow> int_radix \<Rightarrow> chars" where
  "format_unsigned v width radix =
     (case radix of
        RadixDecimal \<Rightarrow> show_nat v
      | RadixHex \<Rightarrow> lit ''0x'' @ zeros_to (width * 2) (radix_str 16 v)
      | RadixBinary \<Rightarrow> lit ''0b'' @ zeros_to (width * 8) (radix_str 2 v))"

text \<open>The bits of a signed number in the lowest \<open>width\<close> bytes.\<close>

definition bits_in :: "nat \<Rightarrow> int \<Rightarrow> nat" where
  "bits_in width v =
     (if width \<ge> 16 then to_unsigned 128 v else to_unsigned 128 v mod 2 ^ (width * 8))"

definition format_signed :: "int \<Rightarrow> nat \<Rightarrow> int_radix \<Rightarrow> chars" where
  "format_signed v width radix =
     (case radix of
        RadixDecimal \<Rightarrow> show_int v
      | RadixHex \<Rightarrow> lit ''0x'' @ zeros_to (width * 2) (radix_str 16 (bits_in width v))
      | RadixBinary \<Rightarrow> lit ''0b'' @ zeros_to (width * 8) (radix_str 2 (bits_in width v)))"

subsection \<open>The decoders\<close>

datatype time_decoder = UnixSec32 | UnixSec64 | FileTime | DosDate | DosTime | OleTime

datatype color_decoder = Argb | Rgba

datatype decoder =
    BinaryDecoder
  | FixedInt string nat bool
  | Int24 bool
  | Int128 bool
  | LebDecoder bool
  | FloatDecoder nat
  | TimeDecoder time_decoder
  | ColorDecoder color_decoder

definition default_decoders :: "decoder list" where
  "default_decoders =
     [BinaryDecoder,
      FixedInt ''Int8'' 1 True, FixedInt ''UInt8'' 1 False,
      FixedInt ''Int16'' 2 True, FixedInt ''UInt16'' 2 False,
      Int24 True, Int24 False,
      FixedInt ''Int32'' 4 True, FixedInt ''UInt32'' 4 False,
      FixedInt ''Int64'' 8 True, FixedInt ''UInt64'' 8 False,
      Int128 True, Int128 False,
      LebDecoder False, LebDecoder True,
      FloatDecoder 4, FloatDecoder 8,
      TimeDecoder UnixSec32, TimeDecoder UnixSec64, TimeDecoder FileTime,
      TimeDecoder DosDate, TimeDecoder DosTime, TimeDecoder OleTime,
      ColorDecoder Argb, ColorDecoder Rgba]"

fun time_name :: "time_decoder \<Rightarrow> string" where
  "time_name UnixSec32 = ''time_t (32)''"
| "time_name UnixSec64 = ''time64_t''"
| "time_name FileTime = ''FILETIME''"
| "time_name DosDate = ''DOSDATE''"
| "time_name DosTime = ''DOSTIME''"
| "time_name OleTime = ''OLETIME''"

fun time_bytes :: "time_decoder \<Rightarrow> nat" where
  "time_bytes UnixSec32 = 4"
| "time_bytes UnixSec64 = 8"
| "time_bytes FileTime = 8"
| "time_bytes OleTime = 8"
| "time_bytes DosDate = 2"
| "time_bytes DosTime = 2"

fun decoder_name :: "decoder \<Rightarrow> string" where
  "decoder_name BinaryDecoder = ''Binary (8-bit)''"
| "decoder_name (FixedInt name w sg) = name"
| "decoder_name (Int24 sg) = (if sg then ''Int24'' else ''UInt24'')"
| "decoder_name (Int128 sg) = (if sg then ''Int128'' else ''UInt128'')"
| "decoder_name (LebDecoder sg) = (if sg then ''LEB128'' else ''ULEB128'')"
| "decoder_name (FloatDecoder w) = (if w = 4 then ''Float32'' else ''Float64'')"
| "decoder_name (TimeDecoder t) = time_name t"
| "decoder_name (ColorDecoder c) = (case c of Argb \<Rightarrow> ''ARGB (u32)'' | Rgba \<Rightarrow> ''RGBA (u32)'')"

fun bytes_needed :: "decoder \<Rightarrow> nat option" where
  "bytes_needed BinaryDecoder = Some 1"
| "bytes_needed (FixedInt name w sg) = Some w"
| "bytes_needed (Int24 sg) = Some 3"
| "bytes_needed (Int128 sg) = Some 16"
| "bytes_needed (LebDecoder sg) = None"
| "bytes_needed (FloatDecoder w) = Some w"
| "bytes_needed (TimeDecoder t) = Some (time_bytes t)"
| "bytes_needed (ColorDecoder c) = Some 4"

subsection \<open>Numbers\<close>

text \<open>\<open>from_le_bytes\<close> and \<open>from_be_bytes\<close> of the first bytes.\<close>

definition num_in :: "insp_endian \<Rightarrow> bytes \<Rightarrow> nat" where
  "num_in e bs = (case e of InspLittle \<Rightarrow> num_le bs | InspBig \<Rightarrow> num_le (rev bs))"

definition decode_binary :: "bytes \<Rightarrow> decoded option" where
  "decode_binary bs = (case bs of [] \<Rightarrow> None | b # _ \<Rightarrow> Some (DecodedText (zeros_to 8 (radix_str 2 (unat b)))))"

text \<open>The 16 bytes, most significant first, with the value in the last \<open>width\<close> of them.\<close>

definition fixed_buf :: "nat \<Rightarrow> bytes \<Rightarrow> insp_endian \<Rightarrow> bytes" where
  "fixed_buf width bs e =
     replicate (16 - width) 0 @ (case e of InspLittle \<Rightarrow> rev (take width bs) | InspBig \<Rightarrow> take width bs)"

text \<open>\<open>((unsigned as i128) << n) >> n\<close>, the second shift of a signed number.\<close>

definition sign_extend :: "nat \<Rightarrow> nat \<Rightarrow> int" where
  "sign_extend n u = to_signed 128 (u * 2 ^ n mod 2 ^ 128) div 2 ^ n"

definition decode_fixed :: "nat \<Rightarrow> bool \<Rightarrow> bytes \<Rightarrow> insp_endian \<Rightarrow> int_radix \<Rightarrow> decoded option" where
  "decode_fixed width sg bs e radix =
     (if length bs < width then None
      else let u = num_le (rev (fixed_buf width bs e))
           in Some (DecodedText
                (if sg then format_signed (sign_extend (128 - width * 8) u) width radix
                 else format_unsigned u width radix)))"

definition raw24 :: "byte \<Rightarrow> byte \<Rightarrow> byte \<Rightarrow> insp_endian \<Rightarrow> 32 word" where
  "raw24 b0 b1 b2 e =
     (case e of
        InspLittle \<Rightarrow> ucast b0 OR push_bit 8 (ucast b1) OR push_bit 16 (ucast b2)
      | InspBig \<Rightarrow> ucast b2 OR push_bit 8 (ucast b1) OR push_bit 16 (ucast b0))"

definition decode_24 :: "bool \<Rightarrow> bytes \<Rightarrow> insp_endian \<Rightarrow> int_radix \<Rightarrow> decoded option" where
  "decode_24 sg bs e radix =
     (if length bs < 3 then None
      else let raw = raw24 (bs ! 0) (bs ! 1) (bs ! 2) e
           in Some (DecodedText
                (if sg then
                   format_signed (if raw AND 0x800000 \<noteq> 0 then sint (raw OR 0xFF000000) else sint raw) 3 radix
                 else format_unsigned (unat raw) 3 radix)))"

definition decode_128 :: "bool \<Rightarrow> bytes \<Rightarrow> insp_endian \<Rightarrow> int_radix \<Rightarrow> decoded option" where
  "decode_128 sg bs e radix =
     (if length bs < 16 then None
      else let raw = num_in e (take 16 bs)
           in Some (DecodedText
                (if sg then format_signed (to_signed 128 raw) 16 radix else format_unsigned raw 16 radix)))"

subsection \<open>LEB128\<close>

record leb_state =
  lb_result :: "128 word"
  lb_shift :: nat
  lb_last :: byte
  lb_consumed :: nat

definition leb_start :: leb_state where
  "leb_start = \<lparr>lb_result = 0, lb_shift = 0, lb_last = 0, lb_consumed = 0\<rparr>"

text \<open>The loop over the bytes: none when a bit would be shifted out entirely.\<close>

fun leb_loop :: "bytes \<Rightarrow> leb_state \<Rightarrow> leb_state option" where
  "leb_loop [] s = Some s"
| "leb_loop (b # bs) s0 =
     (let s = s0\<lparr>lb_consumed := lb_consumed s0 + 1, lb_last := b,
                 lb_result := lb_result s0 OR push_bit (lb_shift s0) (ucast (b AND 0x7F))\<rparr>
      in if b AND 0x80 = 0 then Some s
         else if lb_shift s + 7 \<ge> 128 then None
         else leb_loop bs (s\<lparr>lb_shift := lb_shift s + 7\<rparr>))"

text \<open>The sign bit of the last group copied to the left.\<close>

definition leb_signed :: "leb_state \<Rightarrow> 128 word" where
  "leb_signed s =
     (if lb_shift s + 7 < 128 \<and> lb_last s AND 0x40 \<noteq> 0
      then lb_result s OR push_bit (lb_shift s + 7) (NOT 0)
      else lb_result s)"

definition leb_text :: "chars \<Rightarrow> nat \<Rightarrow> chars" where
  "leb_text value width = value @ lit '' ('' @ show_nat width @ lit '' bytes)''"

definition decode_leb :: "bool \<Rightarrow> bytes \<Rightarrow> int_radix \<Rightarrow> decoded option" where
  "decode_leb sg bs radix =
     (case leb_loop (take 19 bs) leb_start of
        None \<Rightarrow> None
      | Some s \<Rightarrow>
          if lb_last s AND 0x80 \<noteq> 0 then None
          else Some (DecodedText (leb_text
                 (if sg then format_signed (sint (leb_signed s)) (lb_consumed s) radix
                  else format_unsigned (unat (lb_result s)) (lb_consumed s) radix)
                 (lb_consumed s))))"

subsection \<open>Floating point, times and colours\<close>

definition decode_float :: "clockwork \<Rightarrow> nat \<Rightarrow> bytes \<Rightarrow> insp_endian \<Rightarrow> decoded option" where
  "decode_float cw width bs e =
     (if length bs < width then None
      else Some (DecodedText
             (if width = 4 then cw_float32 cw (num_in e (take 4 bs))
              else cw_float64 cw (num_in e (take 8 bs)))))"

definition format_unix_seconds :: "clockwork \<Rightarrow> int \<Rightarrow> decoded option" where
  "format_unix_seconds cw secs = map_option DecodedText (cw_timestamp cw secs)"

definition dos_date :: "16 word \<Rightarrow> chars" where
  "dos_date raw =
     (let day = raw AND 0x1F;
          month = drop_bit 5 raw AND 0x0F;
          year = 1980 + unat (drop_bit 9 raw AND 0x7F)
      in zeros_to 4 (dec_str year) @ lit ''-'' @ zeros_to 2 (dec_str (unat month)) @ lit ''-'' @
         zeros_to 2 (dec_str (unat day)))"

definition dos_time :: "16 word \<Rightarrow> chars" where
  "dos_time raw =
     (let secs = (raw AND 0x1F) * 2;
          mins = drop_bit 5 raw AND 0x3F;
          hours = drop_bit 11 raw AND 0x1F
      in zeros_to 2 (dec_str (unat hours)) @ lit '':'' @ zeros_to 2 (dec_str (unat mins)) @ lit '':'' @
         zeros_to 2 (dec_str (unat secs)))"

text \<open>The ticks of a \<open>FILETIME\<close> are shorter than an \<open>i64\<close> once they are seconds.\<close>

definition decode_time :: "clockwork \<Rightarrow> time_decoder \<Rightarrow> bytes \<Rightarrow> insp_endian \<Rightarrow> decoded option" where
  "decode_time cw t bs e =
     (if length bs < time_bytes t then None
      else let raw = num_in e (take (time_bytes t) bs)
           in case t of
                UnixSec32 \<Rightarrow> format_unix_seconds cw (to_signed 32 raw)
              | UnixSec64 \<Rightarrow> format_unix_seconds cw (to_signed 64 raw)
              | FileTime \<Rightarrow> format_unix_seconds cw (int (raw div 10000000) - 11644473600)
              | DosDate \<Rightarrow> Some (DecodedText (dos_date (of_nat raw)))
              | DosTime \<Rightarrow> Some (DecodedText (dos_time (of_nat raw)))
              | OleTime \<Rightarrow> Option.bind (cw_ole_seconds cw raw) (format_unix_seconds cw))"

text \<open>\<open>{:02X}\<close> of a channel, and the two orders of the channels.\<close>

definition color_channels :: "color_decoder \<Rightarrow> 32 word \<Rightarrow> byte \<times> byte \<times> byte \<times> byte" where
  "color_channels c raw =
     (let at = \<lambda>n. ucast (drop_bit n raw AND 0xFF)
      in case c of
           Argb \<Rightarrow> (at 24, at 16, at 8, ucast (raw AND 0xFF))
         | Rgba \<Rightarrow> (ucast (raw AND 0xFF), at 24, at 16, at 8))"

definition show_byte :: "byte \<Rightarrow> chars" where
  "show_byte b = show_nat (unat b)"

definition color_label :: "color_decoder \<Rightarrow> byte \<times> byte \<times> byte \<times> byte \<Rightarrow> chars" where
  "color_label c channels =
     (let (a, r, g, b) = channels;
          tuple = (case c of
              Argb \<Rightarrow> lit ''argb=('' @ show_byte a @ lit '','' @ show_byte r @ lit '','' @ show_byte g @
                lit '','' @ show_byte b @ lit '')''
            | Rgba \<Rightarrow> lit ''rgba=('' @ show_byte r @ lit '','' @ show_byte g @ lit '','' @ show_byte b @
                lit '','' @ show_byte a @ lit '')'')
      in lit ''#'' @ lit (hex2 r) @ lit (hex2 g) @ lit (hex2 b) @ lit ''  '' @ [0x3B1] @ lit ''='' @
         show_byte a @ lit '' '' @ tuple)"

definition decode_color :: "color_decoder \<Rightarrow> bytes \<Rightarrow> insp_endian \<Rightarrow> decoded option" where
  "decode_color c bs e =
     (if length bs < 4 then None
      else let channels = color_channels c (of_nat (num_in e (take 4 bs)))
           in case channels of (a, r, g, b) \<Rightarrow> Some (DecodedColor [r, g, b, a] (color_label c channels)))"

definition decode_row :: "clockwork \<Rightarrow> decoder \<Rightarrow> bytes \<Rightarrow> insp_endian \<Rightarrow> int_radix \<Rightarrow> decoded option" where
  "decode_row cw d bs e radix =
     (case d of
        BinaryDecoder \<Rightarrow> decode_binary bs
      | FixedInt name w sg \<Rightarrow> decode_fixed w sg bs e radix
      | Int24 sg \<Rightarrow> decode_24 sg bs e radix
      | Int128 sg \<Rightarrow> decode_128 sg bs e radix
      | LebDecoder sg \<Rightarrow> decode_leb sg bs radix
      | FloatDecoder w \<Rightarrow> decode_float cw w bs e
      | TimeDecoder t \<Rightarrow> decode_time cw t bs e
      | ColorDecoder c \<Rightarrow> decode_color c bs e)"

end
