(* ===== verification/InspectorProps.thy ===== *)
theory InspectorProps
  imports Inspector Search
begin

text \<open>
  The inspector shows the numbers that the bytes encode: it reads back what the search encodes, and the
  variable-length numbers in the encodings of the DWARF standard.
\<close>

unbundle bit_operations_syntax

subsection \<open>Fixed widths\<close>

lemma fixed_buf_value:
  assumes "length bs = width"
  shows "num_le (rev (fixed_buf width (bs @ rest) e)) = num_in e bs"
  using assms by (cases e) (simp_all add: fixed_buf_def num_in_def num_le_zeros)

lemma sign_extend_value:
  assumes "0 < bits" "bits \<le> 128" "u < 2 ^ bits"
  shows "sign_extend (128 - bits) u = to_signed bits u"
proof -
  define k where "k = 128 - bits"
  have bits: "bits + k = 128" using assms(2) by (simp add: k_def)
  have "u * 2 ^ k < 2 ^ bits * 2 ^ k" using assms(3) by simp
  also have "\<dots> = 2 ^ 128" using bits by (metis power_add)
  finally have small: "u * 2 ^ k mod 2 ^ 128 = u * 2 ^ k" by simp
  have half: "bits - 1 + k = 127" using assms(1) bits by simp
  have "u * 2 ^ k < 2 ^ 127 \<longleftrightarrow> u * 2 ^ k < 2 ^ (bits - 1) * 2 ^ k" using half by (metis power_add)
  then have sign: "u * 2 ^ k < 2 ^ (128 - 1) \<longleftrightarrow> u < 2 ^ (bits - 1)" by simp
  have top: "(2::int) ^ 128 = 2 ^ bits * 2 ^ k" using bits by (metis power_add)
  have "to_signed 128 (u * 2 ^ k) = to_signed bits u * 2 ^ k"
    unfolding to_signed_def sign top by (simp add: left_diff_distrib)
  then show ?thesis unfolding sign_extend_def k_def [symmetric] small by simp
qed

definition order_of :: "endian \<Rightarrow> insp_endian" where
  "order_of e = (case e of Little \<Rightarrow> InspLittle | Big \<Rightarrow> InspBig)"

lemma num_in_emitted: "num_in (order_of e) (emit_with_endian v n e) = v mod 256 ^ n"
  by (cases e) (simp_all add: num_in_def order_of_def emit_with_endian_def num_le_bytes)

lemma length_emitted [simp]: "length (emit_with_endian v n e) = n"
  by (cases e) (simp_all add: emit_with_endian_def)

lemma decode_emitted:
  assumes "0 < n" "n \<le> 16" "u < 256 ^ n"
  shows "decode_fixed n False (emit_with_endian u n e @ rest) (order_of e) RadixDecimal =
      Some (DecodedText (show_nat u))"
    and "decode_fixed n True (emit_with_endian u n e @ rest) (order_of e) RadixDecimal =
      Some (DecodedText (show_int (to_signed (8 * n) u)))"
proof -
  have "u < 2 ^ (8 * n)" using assms(3) by (simp add: power_mult)
  then show "decode_fixed n False (emit_with_endian u n e @ rest) (order_of e) RadixDecimal =
      Some (DecodedText (show_nat u))"
    and "decode_fixed n True (emit_with_endian u n e @ rest) (order_of e) RadixDecimal =
      Some (DecodedText (show_int (to_signed (8 * n) u)))"
    using assms sign_extend_value [of "8 * n" u]
    by (simp_all add: decode_fixed_def fixed_buf_value num_in_emitted format_unsigned_def format_signed_def
        mult.commute)
qed

lemma width_positive: "0 < width_bytes w" "width_bytes w \<le> 16"
  by (cases w; simp)+

lemma show_int_of_nat [simp]: "show_int (int n) = show_nat n"
  by (simp add: show_int_def)

text \<open>C39: What is searched for is what is shown: the bytes that the search bar makes of a typed number,
  in either byte order and any of its widths, are shown by the inspector's integer row of that width and
  signedness as the number again, whatever bytes follow in the file.
\<close>

theorem number_found_is_shown:
  assumes "encode_number s w is_signed e = Ok bs"
  shows "\<exists>v. (if is_signed then parse_signed s = Ok v else \<exists>n. parse_unsigned s = Ok n \<and> v = int n) \<and>
    decode_row cw (FixedInt name (width_bytes w) is_signed) (bs @ rest) (order_of e) RadixDecimal =
      Some (DecodedText (show_int v))"
proof -
  let ?n = "width_bytes w"
  have pow: "(256::nat) ^ ?n = 2 ^ (8 * ?n)" by (simp add: power_mult)
  show ?thesis
  proof (cases is_signed)
    case True
    then obtain v where v: "parse_signed s = Ok v" "- (2 ^ (8 * ?n - 1)) \<le> v" "v < 2 ^ (8 * ?n - 1)"
        "bs = emit_with_endian (to_unsigned (8 * ?n) v) ?n e"
      using assms by (auto simp: encode_number_def Let_def to_unsigned_def split: if_splits)
    have "to_unsigned (8 * ?n) v < 256 ^ ?n"
      unfolding pow by (simp add: to_unsigned_def nat_less_iff)
    then show ?thesis
      using True v width_positive [of w]
      by (simp add: decode_row_def decode_emitted to_signed_unsigned)
  next
    case False
    then obtain n where n: "parse_unsigned s = Ok n" "n \<le> 2 ^ (8 * ?n) - 1"
        "bs = emit_with_endian n ?n e"
      using assms by (auto simp: encode_number_def Let_def split: if_splits)
    then have "n < 256 ^ ?n" unfolding pow by (intro le_less_trans [OF n(2)]) simp
    then show ?thesis
      using False n width_positive [of w] by (simp add: decode_row_def decode_emitted)
  qed
qed

theorem number_found_is_shown_witness:
  "\<exists>v. (if True then parse_signed (lit ''-2'') = Ok v else \<exists>n. parse_unsigned (lit ''-2'') = Ok n \<and> v = int n) \<and>
    decode_row \<lparr>cw_float32 = (\<lambda>_. []), cw_float64 = (\<lambda>_. []), cw_ole_seconds = (\<lambda>_. None),
        cw_timestamp = (\<lambda>_. None)\<rparr>
      (FixedInt ''Int16'' (width_bytes W16) True) ([0xFF, 0xFE] @ [7]) (order_of Big) RadixDecimal =
      Some (DecodedText (show_int v))"
  by (rule number_found_is_shown)
    (simp add: encode_number_def parse_signed_def strip_radix_def int_from_str_def nonempty_digits_def
      to_digit_def trim_def is_whitespace_def emit_with_endian_def le_bytes_def upt_rec [of 0 2] upt_rec [of "Suc 0" 2])

subsection \<open>LEB128\<close>



















lemma leb_start_simps [simp]:
  "lb_result leb_start = 0" "lb_shift leb_start = 0" "lb_consumed leb_start = 0"
  by (simp_all add: leb_start_def)





text \<open>At the end of the file, where there are no bytes, the two rows of the variable-length numbers are not empty.\<close>

lemma leb_of_nothing:
  "decode_row cw (LebDecoder False) [] e RadixDecimal = Some (DecodedText (lit ''0 (0 bytes)''))"
  "decode_row cw (LebDecoder True) [] e RadixDecimal = Some (DecodedText (lit ''0 (0 bytes)''))"
  by code_simp+

end
