(* ===== verification/Spec2Isabelle.thy ===== *)
theory Spec2Isabelle
  imports EditLimits CacheProps TypeProps VimCut CodecProps ReplaceProps StringProps TplRunProps TplParseProps ImhProps GotoProps Compare InspectorProps
begin

text \<open>
  A model of the core of hxy, a hex editor written in Rust, and the theorems that make it correct.

  \<^bold>\<open>The program.\<close> \<open>crates/hxy-core\<close> holds the data the rest builds on: offsets and ranges, the
  trait \<open>HexSource\<close> of things bytes are read from, the source that shows edits over a base, the
  chunk cache, and the textual forms of bytes and numbers. \<open>crates/hxy-editor\<close> holds the editor
  of one document: its undo history, its selection and cursor, and the two input languages
  (plain typing and a vim mode). Front ends on two widget libraries, two binary template
  languages, panels, plugins and persistence surround them.

  \<^bold>\<open>How the parts interact.\<close> A document is a base source; the editing state (\<open>editor.rs\<close>) owns an
  undo stack, a redo stack and a patch, and derives the patch from the base and the undo stack.
  The editor (\<open>lib.rs\<close>) reads the document through the patched source (\<open>patched.rs\<close>). A frame of
  input is a list of events: the filter (\<open>dispatch.rs\<close>) turns each into presses or passes it on,
  the finished batch is applied by \<open>input.rs\<close> or \<open>vim.rs\<close>, and these call the editor's writes,
  splices and insertions. Base sources may be behind the byte cache (\<open>cache.rs\<close>), which several
  sources and threads share.

  \<^bold>\<open>The theories and the code.\<close>
  \<^item> \<open>Prelude\<close>: results with Rust's two failures (\<open>Err\<close>, and \<open>Panic\<close> for a panicking operation),
    64-bit arithmetic on \<open>nat\<close> with wrap-around (\<open>wadd64\<close>, \<open>wsub64\<close>), saturation and checks as the
    code has them, slices and splices of vectors, digits.
  \<^item> \<open>Geometry\<close>: \<open>geometry.rs\<close>, \<open>error.rs\<close>, \<open>selection.rs\<close>. \<open>Source\<close>: \<open>source.rs\<close>; the locale
    \<open>byte_store\<close> states the read contract of a source, interpreted on the memory source.
  \<^item> \<open>Patched\<close>: \<open>patched.rs\<close>; the patch crate \<open>suture\<close> is a record of functions with laws
    (\<open>suture_laws\<close>), which \<open>Patch_Instance\<close> shows to hold of a concrete patch type.
  \<^item> \<open>EditState\<close>: \<open>editor.rs\<close>. \<open>EditReplay\<close>, \<open>EditMerge\<close>, \<open>EditInv\<close>, \<open>EditOps\<close>: the replay of the
    undo stack, coalescing, the invariant, each operation on each branch. \<open>EditSteps\<close>: commands,
    reachable states, and the abstract history of whole buffers they refine.
  \<^item> \<open>EditProps\<close>, \<open>EditLimits\<close>: the properties of the patched view and of editing.
  \<^item> \<open>Cache\<close>: \<open>cache.rs\<close>; the crate \<open>lru\<close> is a record of functions with laws (\<open>lru_laws\<close>), met by
    \<open>lru_list\<close> in \<open>CachePeek\<close>. \<open>CacheInv\<close>: the books. \<open>CacheRead\<close>: reads. \<open>CacheGuard\<close>: the machine
    whose steps are the critical sections of any number of threads, and the locales
    \<open>step_guard\<close> and \<open>lock_guard\<close> between a predicate and that machine. \<open>CacheSteps\<close>,
    \<open>CachePeek\<close>, \<open>CacheProps\<close>: their interpretations and the properties.
  \<^item> \<open>Editor\<close>: \<open>hxy-editor/src/lib.rs\<close>. \<open>Input\<close>: \<open>input.rs\<close>. \<open>Vim\<close>, \<open>VimApply\<close>: \<open>vim.rs\<close>. \<open>Dispatch\<close>:
    \<open>events.rs\<close>, \<open>dispatch.rs\<close>. \<open>EditGuard\<close>: the locale \<open>edit_guard\<close>, through which a predicate that
    the three editing operations keep is kept by every frame of input. \<open>InputProps\<close>,
    \<open>TypeProps\<close>, \<open>VimProps\<close>, \<open>VimCut\<close>: properties of input.
  \<^item> \<open>Utf8\<close>: the encoding of text the standard library gives. \<open>Display\<close>: \<open>format.rs\<close>, \<open>copy.rs\<close>,
    \<open>byte_palette.rs\<close>, \<open>color.rs\<close>. \<open>CodecProps\<close>: their properties.
  \<^item> \<open>Text\<close>: the string operations of the standard library. \<open>Search\<close>: the queries and scans of
    \<open>hxy-panels/src/search.rs\<close>. \<open>SearchProps\<close>: they find what a search of the whole content would.
    \<open>Replace\<close>: the search state and \<open>hxy/src/search/replace.rs\<close>; \<open>ReplaceProps\<close>: Replace All.
    \<open>StringScan\<close>: \<open>hxy-panels/src/strings.rs\<close>; \<open>StringProps\<close>: the runs it finds.
  \<^item> The interpreter of binary templates (\<open>hxy-010-lang\<close>). \<open>TplAst\<close>: \<open>ast.rs\<close>. \<open>TplValue\<close>: \<open>value.rs\<close>,
    with the record \<open>host\<close> of what the code takes from floating point, Unicode tables and debug
    output. \<open>interp.rs\<close> is \<open>TplOps\<close> (operators and decoding), \<open>TplText\<close> (paths, formats, checksums),
    \<open>TplState\<close> (the interpreter's state, scopes, stored fields, types), \<open>TplBits\<close> (construction and
    bitfields), \<open>TplBuiltins\<close> (the built-in functions), \<open>TplInterp\<close> and \<open>TplExec\<close> (flow, structs, fields,
    arrays, declarations), \<open>TplEval\<close> (paths, member access, calls) and \<open>TplRun\<close> (assignments,
    expressions, statements, the run). \<open>TplBitProps\<close>: bitfields. \<open>Outcome\<close>: answers that may still lack
    fuel, and the locale \<open>clock\<close> with the rules by which a recursion that uses up work settles;
    \<open>TplSettle\<close> interprets it on the step counter, \<open>TplHalt\<close> and \<open>TplRunProps\<close> conclude that every run ends.
  \<^item> The parsers of both template languages stand on \<open>Cursor\<close>: the tokens, the position, what both
    \<open>parser.rs\<close> do with a single token, and their loops. \<open>CursorHalt\<close>: the locale \<open>token_clock\<close>, whose work
    is the weighted number of tokens left. The 010 parser is \<open>TplToken\<close> (\<open>token.rs\<close>, lookahead),
    \<open>TplParseExpr\<close>, \<open>TplParseStmt\<close> and \<open>TplParseDecl\<close>; \<open>TplParseHalt\<close>: it answers. \<open>TplPrint\<close> prints an
    expression with the parentheses it needs, \<open>TplRoundTrip\<close> reads it back. \<open>TplParseProps\<close>.
  \<^item> The parser of ImHex patterns (\<open>hxy-imhex-lang\<close>): \<open>ImhSyntax\<close> (\<open>token.rs\<close>, \<open>ast.rs\<close>), \<open>ImhExpr\<close> and
    \<open>ImhStmt\<close> (\<open>parser.rs\<close>); \<open>ImhHalt\<close> and \<open>ImhStmtHalt\<close>: it answers, although it splits tokens, which
    the weight two of \<open>]]\<close> pays for. \<open>ImhProps\<close>.
  \<^item> \<open>Calc\<close>: the evaluator of \<open>hxy-calculator\<close>. \<open>Goto\<close>, \<open>GotoProps\<close>: the offset and range prompt,
    \<open>hxy-panels/src/goto.rs\<close>. \<open>Compare\<close>: the rows of two compared files and the debounce of their
    recomputation, \<open>hxy-panels/src/diff.rs\<close>.

  \<^bold>\<open>State and operations.\<close> A struct is a record with the struct's fields, an enum a datatype with
  its variants, a method a function from the old state to the result and the new state. Shared
  handles (\<open>Arc\<close>) to the patch are the patch itself, since one editor owns it; the handle to the
  cache is its state, passed to and returned from every operation, and what other threads do
  between two acquisitions of its lock is a parameter (\<open>env\<close>) of the operations that release the
  lock. Readings of the clock are parameters.

  \<^bold>\<open>Integers.\<close> A \<open>u8\<close> is an \<open>8 word\<close>. A \<open>u64\<close> or \<open>usize\<close> is a natural number: an addition or
  subtraction that may leave the range wraps in the model as in a release build, saturating
  operations saturate; where every path bounds the operands the plain operation is used.
  Vectors are shorter than \<open>2 ^ 63\<close> (\<open>vec_ok\<close>), as the allocator ensures. The scroll offset, an
  \<open>f32\<close>, is a rational that is only stored.

  \<^bold>\<open>Bounds and fuel.\<close> Loops are structural or have a measure, with two exceptions. The fuel of the
  eviction loop is the number of chunks in the map, and each of its rounds but the last removes
  one. The mutual recursion of the template interpreter is a tower: each part of \<open>interp.rs\<close> that
  calls back into it gets an interpreter as an argument, \<open>interp E (n + 1)\<close> is the parts over
  \<open>interp E n\<close>, and \<open>template_run_ends\<close> shows that some fuel is enough for every program and that
  more does not change the result. The parsers are towers of the same kind (\<open>parsers\<close>, \<open>ix_parsers\<close>), and
  \<open>template_parse_answers\<close> and \<open>pattern_parse_answers\<close> say the same of them; their loops have two rounds
  for each token left, one more than any of them can use. The depth of the call stack is not part of
  that fuel; it is a parameter where the code recurses without a bound (\<open>sizeof_type\<close>). The backward
  find-char loop of \<open>vim.rs\<close> goes on past zero with the wrap-around of a release build; its measure is the wrapped distance to the start of the line.

  \<^bold>\<open>What the lemmas show.\<close> Reads through patches and caches deliver what a plain source would.
  Editing refines a history of whole buffers; undo and redo move along it. The counters of the
  cache are exact under every interleaving, and within the budget. No input changes a read-only
  document. Typing, deleting, cutting and pasting have the stated effect on the document. The
  searches find what they are for. Encodings lose nothing. Bitfields partition their word, and the
  step limit ends every template. Both parsers answer every list of tokens without a panic, and the
  first reads back every expression it could print. The calculator is exact within 128 bits; a printed
  range is read back; compared files stay aligned and are compared again after an edit.
  Where the code departs from what it means to do, a theorem states what it does.

  \<^bold>\<open>Not modelled.\<close> Third-party code (\<open>suture\<close>, \<open>lru\<close>, \<open>base64\<close>) is a parameter with laws.
  Rendering, windows, menus, files, sockets, plugins and persistence are glue over widget
  libraries and I/O. Floating-point colour computations are left out. The lexers of both template
  languages and the reader of the calculator's expressions are written in the combinators of a parser
  library: what they accept is that library's to say. The interpreter of patterns and the bytecode it
  is being replaced by are each as large as the 010 interpreter, and are left out with what the panels
  that show their trees do.
\<close>

end
